(* ===== verification/Prelude.thy ===== *)
theory Prelude
  imports
    Main
    "HOL-Library.AList"
    "HOL-Library.List_Lexorder"
    "HOL-Library.Char_ord"
    "HOL-Library.Multiset"
    "HOL-Library.Signed_Division"
begin

text \<open>
  What the components share: Go's \<^verbatim>\<open>int\<close> as a signed 64-bit value with its wrap-around
  written out, Go maps as association lists whose list order is the iteration order, the
  sums and sorts the code computes over them, and decimal rendering of integers.
  Strings are byte lists; \<^verbatim>\<open>sort.Strings\<close> is \<^const>\<open>sort\<close> in byte-lexicographic order.
\<close>

named_theorems gomap \<open>lookups after updates and deletions of Go maps\<close>
named_theorems int64 \<open>64-bit arithmetic inside its range\<close>

section \<open>Signed 64-bit integers\<close>

definition max_int64 :: int where
  "max_int64 = 9223372036854775807"

definition wrap64 :: "int \<Rightarrow> int" where
  "wrap64 x = (x + 9223372036854775808) mod 18446744073709551616 - 9223372036854775808"

definition add64 :: "int \<Rightarrow> int \<Rightarrow> int" where
  "add64 a b = wrap64 (a + b)"

definition mul64 :: "int \<Rightarrow> int \<Rightarrow> int" where
  "mul64 a b = wrap64 (a * b)"

definition sub64 :: "int \<Rightarrow> int \<Rightarrow> int" where
  "sub64 a b = wrap64 (a - b)"

lemma wrap64_id [int64]: "0 \<le> x \<Longrightarrow> x \<le> max_int64 \<Longrightarrow> wrap64 x = x"
  by (simp add: wrap64_def max_int64_def)

lemma wrap64_signed_id: "- max_int64 - 1 \<le> x \<Longrightarrow> x \<le> max_int64 \<Longrightarrow> wrap64 x = x"
  by (simp add: wrap64_def max_int64_def)

lemma wrap64_range: "- max_int64 - 1 \<le> wrap64 x \<and> wrap64 x \<le> max_int64"
  using pos_mod_bound [of 18446744073709551616 "x + 9223372036854775808"]
    pos_mod_sign [of 18446744073709551616 "x + 9223372036854775808"]
  by (simp add: wrap64_def max_int64_def)

lemma add64_id [int64]: "0 \<le> a \<Longrightarrow> 0 \<le> b \<Longrightarrow> a + b \<le> max_int64 \<Longrightarrow> add64 a b = a + b"
  by (simp add: add64_def wrap64_id)

lemma sub64_id [int64]:
  "0 \<le> a \<Longrightarrow> a \<le> max_int64 \<Longrightarrow> 0 \<le> b \<Longrightarrow> b \<le> max_int64 \<Longrightarrow> sub64 a b = a - b"
  by (simp add: sub64_def wrap64_signed_id)

lemma mul64_id [int64]: "0 \<le> a * b \<Longrightarrow> a * b \<le> max_int64 \<Longrightarrow> mul64 a b = a * b"
  by (simp add: mul64_def wrap64_id)

text \<open>A running total kept in a Go \<^verbatim>\<open>int\<close>: \<^verbatim>\<open>for ... { total += v }\<close>.\<close>

fun sum64 :: "int \<Rightarrow> int list \<Rightarrow> int" where
  "sum64 acc [] = acc"
| "sum64 acc (v # vs) = sum64 (add64 acc v) vs"

lemma sum_list_nonneg_int: "(\<And>v. v \<in> set vs \<Longrightarrow> (0::int) \<le> v) \<Longrightarrow> 0 \<le> sum_list vs"
  by (induction vs) auto

lemma sum64_exact:
  "0 \<le> acc \<Longrightarrow> (\<And>v. v \<in> set vs \<Longrightarrow> 0 \<le> v) \<Longrightarrow> acc + sum_list vs \<le> max_int64
    \<Longrightarrow> sum64 acc vs = acc + sum_list vs"
proof (induction vs arbitrary: acc)
  case Nil
  then show ?case by simp
next
  case (Cons v vs)
  have rest: "0 \<le> sum_list vs"
    using Cons.prems(2) by (intro sum_list_nonneg_int) auto
  have v: "0 \<le> v" using Cons.prems(2) by simp
  have step: "add64 acc v = acc + v"
    using Cons.prems(1,3) rest v by (intro add64_id) auto
  show ?case
    using Cons.IH [of "acc + v"] Cons.prems step v by auto
qed

section \<open>Go maps\<close>

text \<open>
  A Go map is an association list with distinct keys. Lookup is \<^const>\<open>map_of\<close>; writing and
  deleting are the library's association-list operations; a nil map and an empty map are
  both \<^term>\<open>[]\<close>, as every read of the code treats them alike.
\<close>

type_synonym ('k, 'v) gomap = "('k \<times> 'v) list"

abbreviation mput :: "('k, 'v) gomap \<Rightarrow> 'k \<Rightarrow> 'v \<Rightarrow> ('k, 'v) gomap" where
  "mput m k v \<equiv> AList.update k v m"

abbreviation mdel :: "('k, 'v) gomap \<Rightarrow> 'k \<Rightarrow> ('k, 'v) gomap" where
  "mdel m k \<equiv> AList.delete k m"

abbreviation mkeys :: "('k, 'v) gomap \<Rightarrow> 'k list" where
  "mkeys m \<equiv> map fst m"

abbreviation map_ok :: "('k, 'v) gomap \<Rightarrow> bool" where
  "map_ok m \<equiv> distinct (mkeys m)"

text \<open>Reading an absent key of a numeric or boolean map yields the zero value.\<close>

definition mget0 :: "('k, int) gomap \<Rightarrow> 'k \<Rightarrow> int" where
  "mget0 m k = (case map_of m k of None \<Rightarrow> 0 | Some v \<Rightarrow> v)"

definition mgetb :: "('k, bool) gomap \<Rightarrow> 'k \<Rightarrow> bool" where
  "mgetb m k = (case map_of m k of None \<Rightarrow> False | Some v \<Rightarrow> v)"

text \<open>
  Iteration order is unspecified in Go. Where it can be observed, the model takes a list of
  keys \<open>ks\<close> chosen by the runtime and visits the entries in that order, then whatever \<open>ks\<close>
  left out: as \<open>ks\<close> ranges over all lists this is every possible iteration order.
\<close>

definition in_order :: "'k list \<Rightarrow> ('k, 'v) gomap \<Rightarrow> ('k \<times> 'v) list" where
  "in_order ks m =
     List.map_filter (\<lambda>k. map_option (Pair k) (map_of m k)) (remdups ks)
     @ filter (\<lambda>e. fst e \<notin> set ks) m"

lemma map_of_mput [gomap, simp]: "map_of (mput m k v) = (map_of m)(k \<mapsto> v)"
  by (rule update_conv')

lemma map_of_mdel [gomap, simp]: "map_of (mdel m k) = (map_of m)(k := None)"
  by (rule delete_conv')

lemma map_ok_mput [gomap, simp]: "map_ok m \<Longrightarrow> map_ok (mput m k v)"
  by (rule distinct_update)

lemma map_ok_mdel [gomap, simp]: "map_ok m \<Longrightarrow> map_ok (mdel m k)"
  by (rule distinct_delete)

lemma map_ok_filter [gomap]: "map_ok m \<Longrightarrow> map_ok (filter P m)"
  by (rule distinct_map_filter)

lemma keys_mput: "fst ` set (mput m k v) = insert k (fst ` set m)"
  by (simp add: dom_update)

lemma keys_mdel: "fst ` set (mdel m k) = fst ` set m - {k}"
  by (induction m) auto

lemma map_of_mem: "map_ok m \<Longrightarrow> map_of m k = Some v \<longleftrightarrow> (k, v) \<in> set m"
  by (metis map_of_SomeD map_of_is_SomeI)

lemma set_mput:
  assumes ok: "map_ok m"
  shows "set (mput m k v) = insert (k, v) {e \<in> set m. fst e \<noteq> k}"
proof -
  have "(a, b) \<in> set (mput m k v) \<longleftrightarrow> (a, b) \<in> insert (k, v) {e \<in> set m. fst e \<noteq> k}" for a b
    using map_of_mem [OF map_ok_mput [OF ok], of k v a b] map_of_mem [OF ok, of a b]
    by (auto split: if_splits)
  then show ?thesis by auto
qed

lemma set_mdel: "set (mdel m k) = {e \<in> set m. fst e \<noteq> k}"
  by (induction m) auto

lemma mget0_mput [gomap, simp]: "mget0 (mput m k v) x = (if x = k then v else mget0 m x)"
  by (simp add: mget0_def)

lemma mget0_mdel [gomap, simp]: "mget0 (mdel m k) x = (if x = k then 0 else mget0 m x)"
  by (simp add: mget0_def)

lemma mget0_Nil [gomap, simp]: "mget0 [] x = 0"
  by (simp add: mget0_def)

lemma mgetb_Nil [gomap, simp]: "mgetb [] x = False"
  by (simp add: mgetb_def)

lemma mgetb_mput [gomap, simp]: "mgetb (mput m k v) x = (if x = k then v else mgetb m x)"
  by (simp add: mgetb_def)

lemma set_map_filter_lookup:
  assumes ok: "map_ok m"
  shows "set (List.map_filter (\<lambda>k. map_option (Pair k) (map_of m k)) ks)
    = {e \<in> set m. fst e \<in> set ks}"
proof -
  have "(a, b) \<in> set (List.map_filter (\<lambda>k. map_option (Pair k) (map_of m k)) ks)
      \<longleftrightarrow> a \<in> set ks \<and> map_of m a = Some b" for a b
    by (induction ks) (auto split: option.splits)
  then show ?thesis using map_of_mem [OF ok] by auto
qed

lemma set_in_order: "map_ok m \<Longrightarrow> set (in_order ks m) = set m"
  by (auto simp: in_order_def set_map_filter_lookup)

lemma keys_map_filter_lookup:
  "map fst (List.map_filter (\<lambda>k. map_option (Pair k) (map_of m k)) ks)
     = filter (\<lambda>k. map_of m k \<noteq> None) ks"
  by (induction ks) (auto split: option.splits)

lemma map_ok_in_order:
  assumes "map_ok m" shows "map_ok (in_order ks m)"
  using assms unfolding in_order_def map_append keys_map_filter_lookup distinct_append
  by (auto intro: distinct_map_filter)

lemma mset_in_order: "map_ok m \<Longrightarrow> mset (in_order ks m) = mset m"
  by (rule set_eq_iff_mset_eq_distinct [THEN iffD1])
    (auto simp: set_in_order dest: map_ok_in_order distinct_map [THEN iffD1])

lemma length_in_order: "map_ok m \<Longrightarrow> length (in_order ks m) = length m"
  by (metis mset_in_order size_mset)

lemma map_of_in_order:
  assumes ok: "map_ok m" shows "map_of (in_order ks m) = map_of m"
proof (rule ext)
  show "map_of (in_order ks m) k = map_of m k" for k
    using map_of_mem [OF ok] map_of_mem [OF map_ok_in_order [OF ok]] set_in_order [OF ok, of ks]
    by (metis option.exhaust)
qed

section \<open>Decimal rendering\<close>

text \<open>\<^verbatim>\<open>fmt.Sprintf("%d", n)\<close>.\<close>

definition digit_char :: "nat \<Rightarrow> char" where
  "digit_char d = char_of (48 + d)"

fun show_nat :: "nat \<Rightarrow> string" where
  "show_nat n = (if n < 10 then [digit_char n] else show_nat (n div 10) @ [digit_char (n mod 10)])"

declare show_nat.simps [simp del]

definition show_int :: "int \<Rightarrow> string" where
  "show_int i = (if i < 0 then CHR ''-'' # show_nat (nat (- i)) else show_nat (nat i))"

lemma digit_char_inj: "a < 10 \<Longrightarrow> b < 10 \<Longrightarrow> digit_char a = digit_char b \<Longrightarrow> a = b"
  unfolding digit_char_def
  by (drule arg_cong [where f = "of_char :: char \<Rightarrow> nat"]) simp

lemma show_nat_nonempty: "show_nat n \<noteq> []"
  by (subst show_nat.simps) simp

lemma show_nat_inj: "show_nat m = show_nat n \<Longrightarrow> m = n"
proof (induction m arbitrary: n rule: show_nat.induct)
  case (1 m)
  show ?case
  proof (cases "m < 10 \<or> n < 10")
    case True
    then show ?thesis
      using "1.prems" show_nat_nonempty [of "m div 10"] show_nat_nonempty [of "n div 10"]
        digit_char_inj [of m n]
      by (auto simp: show_nat.simps [of m] show_nat.simps [of n] append_eq_Cons_conv
          Cons_eq_append_conv split: if_splits)
  next
    case False
    with "1.prems" have "show_nat (m div 10) = show_nat (n div 10)"
      and d: "digit_char (m mod 10) = digit_char (n mod 10)"
      by (simp_all add: show_nat.simps [of m] show_nat.simps [of n])
    with "1.IH" False have "m div 10 = n div 10" by simp
    moreover from d have "m mod 10 = n mod 10" by (intro digit_char_inj) auto
    ultimately show ?thesis by (metis div_mult_mod_eq)
  qed
qed

lemma show_int_inj: "0 \<le> i \<Longrightarrow> 0 \<le> j \<Longrightarrow> show_int i = show_int j \<Longrightarrow> i = j"
  by (auto simp: show_int_def dest!: show_nat_inj)

section \<open>Runs of a transition function\<close>

text \<open>
  A system that consumes inputs one at a time. What the permitted inputs keep, every run of
  permitted inputs keeps.
\<close>

locale input_system =
  fixes react :: "'i \<Rightarrow> 's \<Rightarrow> 's" and permitted :: "'i \<Rightarrow> bool" and holds :: "'s \<Rightarrow> bool"
  assumes react_keeps: "permitted i \<Longrightarrow> holds s \<Longrightarrow> holds (react i s)"
begin

lemma run_keeps: "\<forall>i \<in> set inputs. permitted i \<Longrightarrow> holds s \<Longrightarrow> holds (fold react inputs s)"
  by (induction inputs arbitrary: s) (auto intro: react_keeps)

lemma run_prefix_keeps:
  "\<forall>i \<in> set (before @ after). permitted i \<Longrightarrow> holds s \<Longrightarrow> holds (fold react before s)"
  by (rule run_keeps) auto

end

end
