(* ===== verification/Errors.thy ===== *)
theory Errors
  imports Prelude
begin

text \<open>
  The admission package's sentinel errors (\<^verbatim>\<open>lease.go\<close>, \<^verbatim>\<open>policy.go\<close>, \<^verbatim>\<open>state.go\<close>,
  \<^verbatim>\<open>client.go\<close>) and Go's error wrapping. An error value is the chain of sentinels it wraps,
  outermost first; \<^verbatim>\<open>errors.Is\<close> is membership in the chain. The message text of an error is
  not modelled: an error that wraps no sentinel (an I/O failure, \<^verbatim>\<open>errors.New\<close>) has the
  empty chain.
\<close>

datatype sentinel =
    ErrUnknownProfile
  | ErrDuplicateLease
  | ErrLeaseNotFound
  | ErrLeaseExpired
  | ErrLeaseNotProvisional
  | ErrBudgetExceeded
  | ErrBudgetExhausted
  | ErrProtectedReservation
  | ErrFairShareContention
  | ErrAdoptionPending
  | ErrEvidenceRequired
  | ErrEvidenceInvalid
  | ErrInvalidIdentity
  | ErrInvalidPolicy
  | ErrStalePolicy
  | ErrCorruptState
  | ErrProtocolMismatch

datatype goerr = Err (err_chain: "sentinel list")

definition errors_Is :: "goerr \<Rightarrow> sentinel \<Rightarrow> bool" where
  "errors_Is e s \<longleftrightarrow> s \<in> set (err_chain e)"

text \<open>
  What a sentinel itself unwraps to: the three reason-specific budget errors are built with
  \<^verbatim>\<open>fmt.Errorf("%w: ...", ErrBudgetExceeded)\<close>.
\<close>

fun unwraps :: "sentinel \<Rightarrow> sentinel list" where
  "unwraps ErrBudgetExhausted = [ErrBudgetExhausted, ErrBudgetExceeded]"
| "unwraps ErrProtectedReservation = [ErrProtectedReservation, ErrBudgetExceeded]"
| "unwraps ErrFairShareContention = [ErrFairShareContention, ErrBudgetExceeded]"
| "unwraps s = [s]"

text \<open>Returning a sentinel, or wrapping it with \<^verbatim>\<open>fmt.Errorf("%w: detail", s)\<close>.\<close>

definition raise :: "sentinel \<Rightarrow> goerr" where
  "raise s = Err (unwraps s)"

text \<open>\<^verbatim>\<open>fmt.Errorf("%w: %w", s, err)\<close>: both are in the chain.\<close>

definition wrap_both :: "sentinel \<Rightarrow> goerr \<Rightarrow> goerr" where
  "wrap_both s e = Err (unwraps s @ err_chain e)"

text \<open>An error that no sentinel of the package matches.\<close>

definition err_other :: goerr where
  "err_other = Err []"

lemma errors_Is_raise [simp]: "errors_Is (raise s) t \<longleftrightarrow> t \<in> set (unwraps s)"
  by (simp add: errors_Is_def raise_def)

lemma errors_Is_raise_self [simp]: "errors_Is (raise s) s"
  by (cases s) auto

lemma errors_Is_other [simp]: "\<not> errors_Is err_other s"
  by (simp add: errors_Is_def err_other_def)

lemma errors_Is_wrap_both [simp]:
  "errors_Is (wrap_both s e) t \<longleftrightarrow> t \<in> set (unwraps s) \<or> errors_Is e t"
  by (auto simp: errors_Is_def wrap_both_def)

lemma raise_eq_iff [simp]: "raise s = raise t \<longleftrightarrow> s = t"
  by (cases s; cases t) (auto simp: raise_def)

lemma err_other_neq_raise [simp]: "err_other \<noteq> raise s" "raise s \<noteq> err_other"
  by (cases s; simp add: raise_def err_other_def)+

text \<open>Sequencing of checks: the first failing check's error is the result.\<close>

fun first_error :: "goerr option list \<Rightarrow> goerr option" where
  "first_error [] = None"
| "first_error (None # es) = first_error es"
| "first_error (Some e # es) = Some e"

lemma first_error_None [simp]: "first_error es = None \<longleftrightarrow> (\<forall>e \<in> set es. e = None)"
  by (induction es rule: first_error.induct) auto

lemma first_error_Some: "first_error es = Some e \<Longrightarrow> Some e \<in> set es"
  by (induction es rule: first_error.induct) auto

text \<open>\<^verbatim>\<open>if cond { return err }\<close>.\<close>

definition fail_if :: "bool \<Rightarrow> goerr \<Rightarrow> goerr option" where
  "fail_if b e = (if b then Some e else None)"

lemma fail_if_None [simp]: "fail_if b e = None \<longleftrightarrow> \<not> b"
  by (simp add: fail_if_def)

lemma fail_if_Some [simp]: "fail_if b e = Some x \<longleftrightarrow> b \<and> x = e"
  by (auto simp: fail_if_def)

end
