(* ===== verification/Utf8.thy ===== *)
theory Utf8
  imports Errors
begin

text \<open>
  The parts of \<^verbatim>\<open>unicode/utf8\<close>, \<^verbatim>\<open>unicode\<close> and \<^verbatim>\<open>strings\<close> that evidence sanitising uses.
  A string is decoded into segments: a rune with its bytes, or one invalid byte.
\<close>

definition byte_of :: "char \<Rightarrow> int" where
  "byte_of c = of_char c"

definition continuation :: "int \<Rightarrow> bool" where
  "continuation b \<longleftrightarrow> 128 \<le> b \<and> b \<le> 191"

text \<open>The range the second byte must lie in after lead byte \<open>x\<close>.\<close>

definition second_ok :: "int \<Rightarrow> int \<Rightarrow> bool" where
  "second_ok x b \<longleftrightarrow>
     (if x = 224 then 160 \<le> b \<and> b \<le> 191
      else if x = 237 then 128 \<le> b \<and> b \<le> 159
      else if x = 240 then 144 \<le> b \<and> b \<le> 191
      else if x = 244 then 128 \<le> b \<and> b \<le> 143
      else continuation b)"

text \<open>The rune at the front (\<^const>\<open>None\<close> for an invalid byte) and its width.\<close>

fun decode_rune :: "int list \<Rightarrow> int option \<times> nat" where
  "decode_rune [] = (None, 0)"
| "decode_rune (x # bs) =
     (if x < 128 then (Some x, 1)
      else if 194 \<le> x \<and> x \<le> 223 then
        (case bs of
           b1 # _ \<Rightarrow> if continuation b1 then (Some ((x - 192) * 64 + (b1 - 128)), 2) else (None, 1)
         | _ \<Rightarrow> (None, 1))
      else if 224 \<le> x \<and> x \<le> 239 then
        (case bs of
           b1 # b2 # _ \<Rightarrow>
             if second_ok x b1 \<and> continuation b2
             then (Some ((x - 224) * 4096 + (b1 - 128) * 64 + (b2 - 128)), 3) else (None, 1)
         | _ \<Rightarrow> (None, 1))
      else if 240 \<le> x \<and> x \<le> 244 then
        (case bs of
           b1 # b2 # b3 # _ \<Rightarrow>
             if second_ok x b1 \<and> continuation b2 \<and> continuation b3
             then (Some ((x - 240) * 262144 + (b1 - 128) * 4096 + (b2 - 128) * 64 + (b3 - 128)), 4)
             else (None, 1)
         | _ \<Rightarrow> (None, 1))
      else (None, 1))"

lemma decode_rune_width: "s \<noteq> [] \<Longrightarrow> 0 < snd (decode_rune s)"
  by (cases s) (auto split: list.splits)

function decode_runes :: "string \<Rightarrow> (int option \<times> string) list" where
  "decode_runes s =
     (if s = [] then []
      else let (r, w) = decode_rune (map byte_of s)
           in (r, take w s) # decode_runes (drop w s))"
  by pat_completeness auto
termination
proof (relation "measure length")
  fix s :: string and p r w
  assume "s \<noteq> []" and "p = decode_rune (map byte_of s)" and "(r, w) = p"
  then have "0 < w" using decode_rune_width [of "map byte_of s"] by (metis map_is_Nil_conv snd_conv)
  with \<open>s \<noteq> []\<close> show "(drop w s, s) \<in> measure length" by (cases s) auto
qed simp

declare decode_runes.simps [simp del]

definition unicode_IsSpace :: "int \<Rightarrow> bool" where
  "unicode_IsSpace r \<longleftrightarrow>
     r \<in> {9, 10, 11, 12, 13, 32, 133, 160, 5760, 8232, 8233, 8239, 8287, 12288}
     \<or> 8192 \<le> r \<and> r \<le> 8202"

definition unicode_IsControl :: "int \<Rightarrow> bool" where
  "unicode_IsControl r \<longleftrightarrow> 0 \<le> r \<and> r \<le> 31 \<or> 127 \<le> r \<and> r \<le> 159"

definition space_segment :: "int option \<times> string \<Rightarrow> bool" where
  "space_segment seg \<longleftrightarrow> (case fst seg of Some r \<Rightarrow> unicode_IsSpace r | None \<Rightarrow> False)"

definition TrimSpace :: "string \<Rightarrow> string" where
  "TrimSpace s =
     concat (map snd (rev (dropWhile space_segment
       (rev (dropWhile space_segment (decode_runes s))))))"

definition ValidString :: "string \<Rightarrow> bool" where
  "ValidString s \<longleftrightarrow> list_all (\<lambda>seg. fst seg \<noteq> None) (decode_runes s)"

text \<open>\<^verbatim>\<open>for _, r := range s\<close>: an invalid byte yields the replacement rune U+FFFD.\<close>

definition range_runes :: "string \<Rightarrow> int list" where
  "range_runes s = map (\<lambda>seg. case fst seg of Some r \<Rightarrow> r | None \<Rightarrow> 65533) (decode_runes s)"

end
