(* ===== verification/Go_Strings.thy ===== *)
theory Go_Strings
  imports Utf8
begin

text \<open>
  The parts of \<^verbatim>\<open>strings\<close>, \<^verbatim>\<open>strconv\<close>, \<^verbatim>\<open>unicode\<close> and \<^verbatim>\<open>path/filepath\<close> the manager uses.
  Strings are byte lists. Unicode's letter, digit and case tables beyond ASCII are data of the
  standard library: they are a parameter, \<open>unicode_tables\<close>.
\<close>

record unicode_tables =
  ut_letter :: "int \<Rightarrow> bool"
  ut_digit :: "int \<Rightarrow> bool"
  ut_lower :: "int \<Rightarrow> int"
  ut_fold :: "int \<Rightarrow> int"

definition ascii_lower :: "int \<Rightarrow> int" where
  "ascii_lower r = (if 65 \<le> r \<and> r \<le> 90 then r + 32 else r)"

definition unicode_IsLetter :: "unicode_tables \<Rightarrow> int \<Rightarrow> bool" where
  "unicode_IsLetter u r \<longleftrightarrow>
     (if r < 128 then 65 \<le> r \<and> r \<le> 90 \<or> 97 \<le> r \<and> r \<le> 122 else ut_letter u r)"

definition unicode_IsDigit :: "unicode_tables \<Rightarrow> int \<Rightarrow> bool" where
  "unicode_IsDigit u r \<longleftrightarrow> (if r < 128 then 48 \<le> r \<and> r \<le> 57 else ut_digit u r)"

definition unicode_ToLower :: "unicode_tables \<Rightarrow> int \<Rightarrow> int" where
  "unicode_ToLower u r = (if r < 128 then ascii_lower r else ut_lower u r)"

definition encode_rune :: "int \<Rightarrow> int list" where
  "encode_rune r =
     (if r < 128 then [r]
      else if r < 2048 then [192 + r div 64, 128 + r mod 64]
      else if r < 65536 then [224 + r div 4096, 128 + r div 64 mod 64, 128 + r mod 64]
      else [240 + r div 262144, 128 + r div 4096 mod 64, 128 + r div 64 mod 64, 128 + r mod 64])"

definition string_of_runes :: "int list \<Rightarrow> string" where
  "string_of_runes rs = map char_of (concat (map encode_rune rs))"

definition strings_ToLower :: "unicode_tables \<Rightarrow> string \<Rightarrow> string" where
  "strings_ToLower u s = string_of_runes (map (unicode_ToLower u) (range_runes s))"

definition strings_EqualFold :: "unicode_tables \<Rightarrow> string \<Rightarrow> string \<Rightarrow> bool" where
  "strings_EqualFold u s t \<longleftrightarrow>
     (let fold = (\<lambda>r. if r < 128 then ascii_lower r else ut_fold u r)
      in map fold (range_runes s) = map fold (range_runes t))"

text \<open>\<^verbatim>\<open>strings.IndexFunc(s, p) >= 0\<close>.\<close>

definition has_rune :: "(int \<Rightarrow> bool) \<Rightarrow> string \<Rightarrow> bool" where
  "has_rune p s \<longleftrightarrow> list_ex p (range_runes s)"

text \<open>\<^verbatim>\<open>strings.ContainsAny\<close> with ASCII characters.\<close>

definition strings_ContainsAny :: "string \<Rightarrow> char list \<Rightarrow> bool" where
  "strings_ContainsAny s cs \<longleftrightarrow> list_ex (\<lambda>c. c \<in> set cs) s"

fun has_prefix :: "string \<Rightarrow> string \<Rightarrow> bool" where
  "has_prefix s [] = True"
| "has_prefix (c # s) (p # ps) = (c = p \<and> has_prefix s ps)"
| "has_prefix [] (p # ps) = False"

definition strings_HasSuffix :: "string \<Rightarrow> string \<Rightarrow> bool" where
  "strings_HasSuffix s suffix = has_prefix (rev s) (rev suffix)"

definition strings_TrimPrefix :: "string \<Rightarrow> string \<Rightarrow> string" where
  "strings_TrimPrefix s prefix = (if has_prefix s prefix then drop (length prefix) s else s)"

definition strings_TrimSuffix :: "string \<Rightarrow> string \<Rightarrow> string" where
  "strings_TrimSuffix s suffix =
     (if strings_HasSuffix s suffix then take (length s - length suffix) s else s)"

fun strings_Contains :: "string \<Rightarrow> string \<Rightarrow> bool" where
  "strings_Contains s sub =
     (has_prefix s sub \<or> (case s of [] \<Rightarrow> False | _ # s' \<Rightarrow> strings_Contains s' sub))"

declare strings_Contains.simps [simp del]

text \<open>\<^verbatim>\<open>strings.Cut(s, sep)\<close> and \<^verbatim>\<open>strings.Split(s, sep)\<close> for a separator of one byte.\<close>

fun strings_Cut :: "string \<Rightarrow> char \<Rightarrow> string \<times> string \<times> bool" where
  "strings_Cut [] sep = ([], [], False)"
| "strings_Cut (c # s) sep =
     (if c = sep then ([], s, True)
      else let (before, after, found) = strings_Cut s sep in (c # before, after, found))"

fun strings_Split :: "string \<Rightarrow> char \<Rightarrow> string list" where
  "strings_Split [] sep = [[]]"
| "strings_Split (c # s) sep =
     (if c = sep then [] # strings_Split s sep
      else case strings_Split s sep of
          [] \<Rightarrow> [[c]]
        | part # parts \<Rightarrow> (c # part) # parts)"

text \<open>\<^verbatim>\<open>strings.Trim(s, "-")\<close> and \<^verbatim>\<open>strings.TrimRight(s, "/")\<close>.\<close>

definition trim_char :: "char \<Rightarrow> string \<Rightarrow> string" where
  "trim_char c s = rev (dropWhile ((=) c) (rev (dropWhile ((=) c) s)))"

definition trim_right_char :: "char \<Rightarrow> string \<Rightarrow> string" where
  "trim_right_char c s = rev (dropWhile ((=) c) (rev s))"

section \<open>Decimal numbers\<close>

definition is_digit :: "char \<Rightarrow> bool" where
  "is_digit c \<longleftrightarrow> 48 \<le> byte_of c \<and> byte_of c \<le> 57"

definition digits_value :: "string \<Rightarrow> int" where
  "digits_value s = fold (\<lambda>c acc. 10 * acc + (byte_of c - 48)) s 0"

text \<open>
  \<^verbatim>\<open>strconv.Atoi\<close> and \<^verbatim>\<open>strconv.ParseInt(s, 10, 64)\<close> on a string of digits: an error when the
  value does not fit.
\<close>

definition parse_digits :: "string \<Rightarrow> int option" where
  "parse_digits s =
     (if s = [] \<or> \<not> list_all is_digit s \<or> digits_value s > max_int64 then None
      else Some (digits_value s))"

text \<open>\<^verbatim>\<open>fmt.Sprintf("%06d", n)\<close> for a nonnegative number.\<close>

definition pad6 :: "int \<Rightarrow> string" where
  "pad6 n = (let digits = show_int n in replicate (6 - length digits) CHR ''0'' @ digits)"

section \<open>Paths\<close>

text \<open>\<^verbatim>\<open>filepath.Clean\<close> on Unix; elements are kept in reverse while they are resolved.\<close>

fun clean_elements :: "bool \<Rightarrow> string list \<Rightarrow> string list \<Rightarrow> string list" where
  "clean_elements rooted acc [] = rev acc"
| "clean_elements rooted acc (e # es) =
     (if e = [] \<or> e = ''.'' then clean_elements rooted acc es
      else if e = ''..'' then
        (case acc of
           [] \<Rightarrow> if rooted then clean_elements rooted [] es else clean_elements rooted [e] es
         | x # xs \<Rightarrow> if x = ''..'' then clean_elements rooted (e # acc) es
                    else clean_elements rooted xs es)
      else clean_elements rooted (e # acc) es)"

fun join_path :: "string list \<Rightarrow> string" where
  "join_path [] = []"
| "join_path [e] = e"
| "join_path (e # es) = e @ ''/'' @ join_path es"

definition filepath_Clean :: "string \<Rightarrow> string" where
  "filepath_Clean path =
     (let rooted = has_prefix path ''/'';
          body = join_path (clean_elements rooted [] (strings_Split path CHR ''/''))
      in if rooted then CHR ''/'' # body else if body = [] then ''.'' else body)"

text \<open>\<^verbatim>\<open>filepath.Join\<close>: the nonempty elements joined, then cleaned.\<close>

definition filepath_Join :: "string list \<Rightarrow> string" where
  "filepath_Join es =
     (let present = filter (\<lambda>e. e \<noteq> []) es
      in if present = [] then [] else filepath_Clean (join_path present))"

lemma has_prefix_iff: "has_prefix s p \<longleftrightarrow> (\<exists>t. s = p @ t)"
  by (induction s p rule: has_prefix.induct) auto

lemma strings_Split_nonempty [simp]: "strings_Split s c \<noteq> []"
  by (induction s c rule: strings_Split.induct) (auto split: list.splits)

lemma strings_Cut_found:
  "strings_Cut s c = (before, after, True) \<Longrightarrow> s = before @ c # after \<and> c \<notin> set before"
  by (induction s c arbitrary: before rule: strings_Cut.induct) (auto split: if_splits prod.splits)

lemma strings_Cut_not_found: "strings_Cut s c = (before, after, False) \<Longrightarrow> before = s \<and> after = []"
  by (induction s c arbitrary: before rule: strings_Cut.induct) (auto split: if_splits prod.splits)

lemma digits_value_append: "digits_value (s @ [c]) = 10 * digits_value s + (byte_of c - 48)"
  by (simp add: digits_value_def)

lemma byte_of_nat: "byte_of c = int (of_char c)"
  unfolding byte_of_def by (rule of_nat_of_char [symmetric])

lemma digit_char_byte: "d < 10 \<Longrightarrow> byte_of (digit_char d) = 48 + int d"
  by (simp add: byte_of_nat digit_char_def)

text \<open>Printing a number and reading the digits back.\<close>

lemma show_nat_digits: "list_all is_digit (show_nat n) \<and> digits_value (show_nat n) = int n"
proof (induction n rule: show_nat.induct)
  case (1 n)
  show ?case
  proof (cases "n < 10")
    case True
    then show ?thesis
      by (simp add: show_nat.simps [of n] is_digit_def digit_char_byte digits_value_def)
  next
    case False
    with "1.IH" have ih: "list_all is_digit (show_nat (n div 10))"
      "digits_value (show_nat (n div 10)) = int (n div 10)" by auto
    have "is_digit (digit_char (n mod 10))" by (simp add: is_digit_def digit_char_byte)
    moreover have "10 * int (n div 10) + int (n mod 10) = int n"
      by (metis mult_div_mod_eq of_nat_add of_nat_mult of_nat_numeral)
    ultimately show ?thesis
      using ih False by (simp add: show_nat.simps [of n] digits_value_append digit_char_byte)
  qed
qed

lemma parse_show_int: "0 \<le> n \<Longrightarrow> n \<le> max_int64 \<Longrightarrow> parse_digits (show_int n) = Some n"
  using show_nat_digits [of "nat n"] show_nat_nonempty [of "nat n"]
  by (simp add: parse_digits_def show_int_def)

lemma parse_digits_range: "parse_digits s = Some n \<Longrightarrow> 0 \<le> n \<and> n \<le> max_int64"
proof -
  have "list_all is_digit s \<Longrightarrow> 0 \<le> digits_value s" for s
    by (induction s rule: rev_induct) (auto simp: digits_value_append is_digit_def, simp add: digits_value_def)
  then show "parse_digits s = Some n \<Longrightarrow> 0 \<le> n \<and> n \<le> max_int64"
    by (auto simp: parse_digits_def split: if_splits)
qed

end
