(* ===== verification/Resource_Policy.thy ===== *)
theory Resource_Policy
  imports Go_Strings
begin

text \<open>
  \<^verbatim>\<open>autoscaler/resource_policy.go\<close> and the policy half of \<^verbatim>\<open>worker_runtime.go\<close>: per-worker
  limits and runtime capabilities, their parsing, validation and Docker arguments. A nil pointer
  is \<^const>\<open>None\<close>. Error texts are not modelled.
\<close>

definition minimumWorkerMemoryBytes :: int where
  "minimumWorkerMemoryBytes = 6 * 1024 * 1024"

definition maximumWorkerPidsLimit :: int where
  "maximumWorkerPidsLimit = 2147483647"

definition minimumWorkerSharedMemoryBytes :: int where
  "minimumWorkerSharedMemoryBytes = 64 * 1024 * 1024"

record workerResourcePolicy =
  wr_memoryBytes :: "int option"
  wr_memorySwapBytes :: "int option"
  wr_cpuCores :: string
  wr_pids :: "int option"

definition resources_configured :: "workerResourcePolicy \<Rightarrow> bool" where
  "resources_configured p \<longleftrightarrow> wr_memoryBytes p \<noteq> None \<or> wr_memorySwapBytes p \<noteq> None
     \<or> wr_cpuCores p \<noteq> [] \<or> wr_pids p \<noteq> None"

definition decimalDigits :: "string \<Rightarrow> bool" where
  "decimalDigits value \<longleftrightarrow> value \<noteq> [] \<and> \<not> has_rune (\<lambda>r. r < 48 \<or> r > 57) value"

definition validCPUCoresText :: "string \<Rightarrow> bool" where
  "validCPUCoresText value =
     (if value = [] \<or> value \<noteq> TrimSpace value then False
      else
        let (whole, fraction, hasFraction) = strings_Cut value CHR ''.'' in
        if CHR ''.'' \<in> set fraction then False
        else if \<not> decimalDigits whole \<or> hasFraction \<and> \<not> decimalDigits fraction then False
        else if hasFraction \<and> (length fraction < 1 \<or> length fraction > 9) then False
        else if whole = ''0'' then hasFraction \<and> last fraction \<noteq> CHR ''0''
        else hd whole \<noteq> CHR ''0'')"

definition resources_validate :: "workerResourcePolicy \<Rightarrow> goerr option" where
  "resources_validate p =
     first_error [
       (case wr_memoryBytes p of
          None \<Rightarrow> None | Some m \<Rightarrow> fail_if (m < minimumWorkerMemoryBytes) err_other),
       (case wr_memorySwapBytes p of
          None \<Rightarrow> None
        | Some swap \<Rightarrow>
            if swap < minimumWorkerMemoryBytes then Some err_other
            else (case wr_memoryBytes p of
                    None \<Rightarrow> Some err_other
                  | Some m \<Rightarrow> fail_if (swap < m) err_other)),
       fail_if (wr_cpuCores p \<noteq> [] \<and> \<not> validCPUCoresText (wr_cpuCores p)) err_other,
       (case wr_pids p of
          None \<Rightarrow> None | Some n \<Rightarrow> fail_if (n < 1 \<or> n > maximumWorkerPidsLimit) err_other)]"

definition optional_argument :: "string \<Rightarrow> int option \<Rightarrow> string list" where
  "optional_argument flag v = (case v of None \<Rightarrow> [] | Some n \<Rightarrow> [flag, show_int n])"

definition resources_dockerArguments :: "workerResourcePolicy \<Rightarrow> string list" where
  "resources_dockerArguments p =
     optional_argument ''--memory'' (wr_memoryBytes p)
     @ optional_argument ''--memory-swap'' (wr_memorySwapBytes p)
     @ (if wr_cpuCores p \<noteq> [] then [''--cpus'', wr_cpuCores p] else [])
     @ optional_argument ''--pids-limit'' (wr_pids p)"

definition parseNonnegativeInteger :: "string \<Rightarrow> int option" where
  "parseNonnegativeInteger value =
     (if value = [] \<or> has_rune (\<lambda>r. r < 48 \<or> r > 57) value then None else parse_digits value)"

definition parsePositiveInteger :: "string \<Rightarrow> int option" where
  "parsePositiveInteger value =
     (if value = [] \<or> has_rune (\<lambda>r. r < 48 \<or> r > 57) value then None
      else case parse_digits value of
          None \<Rightarrow> None
        | Some parsed \<Rightarrow> if parsed < 1 then None else Some parsed)"

text \<open>\<open>None\<close> is the error; \<open>Some None\<close> an empty setting.\<close>

definition parseOptionalInt64 :: "string \<Rightarrow> int option option" where
  "parseOptionalInt64 value =
     (let trimmed = TrimSpace value in
      if trimmed = [] then Some None
      else if \<not> decimalDigits trimmed then None
      else case parse_digits trimmed of
          None \<Rightarrow> None
        | Some parsed \<Rightarrow> if parsed < 1 then None else Some (Some parsed))"

definition parseOptionalPositiveInteger :: "string \<Rightarrow> int option" where
  "parseOptionalPositiveInteger value =
     (let trimmed = TrimSpace value in
      if trimmed = [] then Some 0 else parsePositiveInteger trimmed)"

definition parseWorkerImageID :: "string \<Rightarrow> string option" where
  "parseWorkerImageID value =
     (let trimmed = TrimSpace value in
      if trimmed = [] then Some []
      else
        let digest = drop 7 trimmed in
        if \<not> has_prefix trimmed ''sha256:'' \<or> length digest \<noteq> 64
          \<or> has_rune (\<lambda>r. (r < 48 \<or> r > 57) \<and> (r < 97 \<or> r > 102)) digest
        then None else Some trimmed)"

section \<open>Runtime capabilities\<close>

record workerRuntimePolicy =
  rt_devices :: "string list"
  rt_sharedMemoryBytes :: "int option"
  rt_dockerMode :: string
  rt_dockerStorageBytes :: "int option"

definition runtime_validate :: "workerRuntimePolicy \<Rightarrow> goerr option" where
  "runtime_validate p =
     first_error [
       fail_if (rt_dockerMode p \<noteq> [] \<and> rt_dockerMode p \<noteq> ''privileged-local'') err_other,
       fail_if ((rt_dockerMode p = []) \<noteq> (rt_dockerStorageBytes p = None)) err_other,
       fail_if (rt_dockerMode p \<noteq> [] \<and> (rt_devices p \<noteq> []
         \<or> the (rt_dockerStorageBytes p) < minimumWorkerSharedMemoryBytes)) err_other,
       fail_if (length (rt_devices p) > 1) err_other,
       fail_if (length (rt_devices p) = 1 \<and> hd (rt_devices p) \<noteq> ''kvm'') err_other,
       (case rt_sharedMemoryBytes p of
          None \<Rightarrow> None | Some n \<Rightarrow> fail_if (n < minimumWorkerSharedMemoryBytes) err_other)]"

definition runtime_validateLaunch ::
  "workerRuntimePolicy \<Rightarrow> workerResourcePolicy \<Rightarrow> 'v list \<Rightarrow> string \<Rightarrow> goerr option" where
  "runtime_validateLaunch p resources volumes network =
     (case runtime_validate p of
        Some err \<Rightarrow> Some err
      | None \<Rightarrow>
          if rt_dockerMode p = [] then None
          else if wr_memoryBytes resources = None \<or> wr_memorySwapBytes resources = None
            \<or> wr_cpuCores resources = [] \<or> wr_pids resources = None
            \<or> the (wr_memorySwapBytes resources) \<noteq> the (wr_memoryBytes resources)
            \<or> the (rt_dockerStorageBytes p) \<ge> the (wr_memoryBytes resources)
          then Some err_other
          else fail_if (volumes \<noteq> [] \<or> network \<noteq> []) err_other)"

definition runtime_dockerArguments :: "workerRuntimePolicy \<Rightarrow> string list" where
  "runtime_dockerArguments p =
     (if rt_dockerMode p \<noteq> [] then
        [''--privileged'', ''--cgroupns'', ''private'',
         ''--tmpfs'', ''/var/lib/pitcrew-docker:rw,exec,nosuid,nodev,size=''
           @ show_int (the (rt_dockerStorageBytes p)),
         ''--tmpfs'', ''/run/pitcrew-docker:rw,nosuid,nodev,size=67108864,mode=0700'',
         ''--env'', ''DOCKER_HOST=unix:///run/pitcrew-docker/docker.sock'',
         ''--env'', ''PITCREW_NESTED_DOCKER_VERIFY_ONLY=0'']
      else [])
     @ (if length (rt_devices p) = 1 then [''--device'', ''/dev/kvm:/dev/kvm:rwm''] else [])
     @ optional_argument ''--shm-size'' (rt_sharedMemoryBytes p)"

text \<open>
  The image check before a nested Docker launch, over what \<^verbatim>\<open>docker info\<close> and
  \<^verbatim>\<open>docker image inspect\<close> print; \<^const>\<open>None\<close> is a failed command.
\<close>

definition validateNestedDockerImage :: "string option \<Rightarrow> string option \<Rightarrow> goerr option" where
  "validateNestedDockerImage host metadata =
     (case host of
        None \<Rightarrow> Some err_other
      | Some hostOut \<Rightarrow>
          let hostContract = TrimSpace hostOut in
          if \<not> has_prefix hostContract ''linux|x86_64|2|''
            \<or> strings_Contains hostContract ''rootless'' \<or> strings_Contains hostContract ''userns''
          then Some err_other
          else (case metadata of
              None \<Rightarrow> Some err_other
            | Some out \<Rightarrow>
                (case strings_Split (TrimSpace out) CHR ''|'' of
                   [os, architecture, user, volumes] \<Rightarrow>
                     if os \<noteq> ''linux'' \<or> architecture \<noteq> ''amd64'' \<or> volumes \<noteq> ''0''
                     then Some err_other
                     else if user \<in> {[], ''0'', ''root'', ''0:0'', ''root:root''} then None
                     else Some err_other
                 | _ \<Rightarrow> Some err_other)))"

section \<open>The limits Docker receives\<close>

fun flag_value :: "string \<Rightarrow> string list \<Rightarrow> string option" where
  "flag_value flag (f # v # args) = (if f = flag then Some v else flag_value flag args)"
| "flag_value flag _ = None"

definition numeric_flag :: "string \<Rightarrow> string list \<Rightarrow> int option" where
  "numeric_flag flag args = Option.bind (flag_value flag args) parse_digits"

lemma flag_value_optional:
  "flag_value flag (optional_argument f v @ args)
     = (case v of Some n \<Rightarrow> if f = flag then Some (show_int n) else flag_value flag args
        | None \<Rightarrow> flag_value flag args)"
  by (simp add: optional_argument_def split: option.split)

lemma flag_value_last:
  "flag_value flag (optional_argument f v)
     = (case v of Some n \<Rightarrow> if f = flag then Some (show_int n) else None | None \<Rightarrow> None)"
  by (simp add: optional_argument_def split: option.split)

lemma parse_optional: "(\<And>n. v = Some n \<Longrightarrow> 0 \<le> n \<and> n \<le> max_int64) \<Longrightarrow>
    Option.bind (map_option show_int v) parse_digits = v"
  by (cases v) (simp_all add: parse_show_int)

lemma resource_bounds:
  assumes "resources_validate p = None"
  shows "wr_memoryBytes p = Some n \<Longrightarrow> minimumWorkerMemoryBytes \<le> n"
    and "wr_memorySwapBytes p = Some n \<Longrightarrow> minimumWorkerMemoryBytes \<le> n"
    and "wr_pids p = Some n \<Longrightarrow> 1 \<le> n \<and> n \<le> maximumWorkerPidsLimit"
  using assms by (auto simp: resources_validate_def split: option.splits if_splits)

text \<open>
  C37: A worker container is started with exactly the configured limits. Reading the memory,
  swap, CPU and process limits back from the Docker arguments of a valid policy gives the
  configured values, and a limit that is not configured is not passed at all.
\<close>

theorem docker_receives_configured_limits:
  assumes "resources_validate p = None"
    and "\<forall>v \<in> {wr_memoryBytes p, wr_memorySwapBytes p}. \<forall>n. v = Some n \<longrightarrow> n \<le> max_int64"
  shows "numeric_flag ''--memory'' (resources_dockerArguments p) = wr_memoryBytes p
    \<and> numeric_flag ''--memory-swap'' (resources_dockerArguments p) = wr_memorySwapBytes p
    \<and> numeric_flag ''--pids-limit'' (resources_dockerArguments p) = wr_pids p
    \<and> flag_value ''--cpus'' (resources_dockerArguments p)
        = (if wr_cpuCores p = [] then None else Some (wr_cpuCores p))"
proof -
  have ranges: "0 \<le> n \<and> n \<le> max_int64"
    if "v \<in> {wr_memoryBytes p, wr_memorySwapBytes p, wr_pids p}" "v = Some n" for v n
    using resource_bounds [OF assms(1), of n] assms(2) that
    by (auto simp: minimumWorkerMemoryBytes_def maximumWorkerPidsLimit_def max_int64_def
        dest!: sym [of "Some n"])
  have flags: "flag_value ''--memory'' (resources_dockerArguments p) = map_option show_int (wr_memoryBytes p)"
    "flag_value ''--memory-swap'' (resources_dockerArguments p) = map_option show_int (wr_memorySwapBytes p)"
    "flag_value ''--pids-limit'' (resources_dockerArguments p) = map_option show_int (wr_pids p)"
    by (simp_all add: resources_dockerArguments_def flag_value_optional flag_value_last split: option.split)
  have "flag_value ''--cpus'' (resources_dockerArguments p)
      = (if wr_cpuCores p = [] then None else Some (wr_cpuCores p))"
    by (simp add: resources_dockerArguments_def flag_value_optional flag_value_last split: option.split)
  then show ?thesis
    using ranges by (simp add: numeric_flag_def flags parse_optional)
qed

theorem docker_receives_configured_limits_witness:
  "let p = \<lparr>wr_memoryBytes = Some 8589934592, wr_memorySwapBytes = Some 8589934592,
       wr_cpuCores = ''1.5'', wr_pids = None\<rparr>
   in numeric_flag ''--memory'' (resources_dockerArguments p) = Some 8589934592
     \<and> numeric_flag ''--pids-limit'' (resources_dockerArguments p) = None
     \<and> flag_value ''--cpus'' (resources_dockerArguments p) = Some ''1.5''"
proof -
  let ?p = "\<lparr>wr_memoryBytes = Some 8589934592, wr_memorySwapBytes = Some 8589934592,
    wr_cpuCores = ''1.5'', wr_pids = None\<rparr>"
  have "resources_validate ?p = None" by code_simp
  from docker_receives_configured_limits [OF this] show ?thesis
    by (simp add: Let_def max_int64_def)
qed

end
