(* ===== verification/Go_Time.thy ===== *)
theory Go_Time
  imports Prelude
begin

text \<open>
  Time as the manager uses it: instants and durations are nanoseconds, an instant counted from
  the zero \<^verbatim>\<open>time.Time\<close>. A timestamp field of a state document is a string; the code only
  compares it with the empty string and parses it as RFC 3339, so it is modelled by what
  parsing it yields. Formatting keeps whole seconds.
\<close>

definition time_Second :: int where
  "time_Second = 1000000000"

definition time_Minute :: int where
  "time_Minute = 60 * time_Second"

definition time_Hour :: int where
  "time_Hour = 60 * time_Minute"

lemmas durations = time_Second_def time_Minute_def time_Hour_def

text \<open>The zero \<^verbatim>\<open>time.Time\<close>.\<close>

abbreviation (input) zeroTime :: int where
  "zeroTime \<equiv> 0"

datatype stamp = NoStamp | BadStamp | At int

text \<open>\<^verbatim>\<open>t.UTC().Format(time.RFC3339)\<close>: the text of the second \<open>t\<close> falls in.\<close>

definition format_RFC3339 :: "int \<Rightarrow> stamp" where
  "format_RFC3339 t = At (t div time_Second)"

text \<open>\<^verbatim>\<open>time.Parse(time.RFC3339, value)\<close>.\<close>

fun parse_RFC3339 :: "stamp \<Rightarrow> int option" where
  "parse_RFC3339 (At s) = Some (s * time_Second)"
| "parse_RFC3339 _ = None"

text \<open>\<^verbatim>\<open>t.Truncate(time.Second)\<close>.\<close>

definition truncate_second :: "int \<Rightarrow> int" where
  "truncate_second t = t - t mod time_Second"

text \<open>A timestamp field is acceptable when it is empty or parses.\<close>

definition stamp_ok :: "stamp \<Rightarrow> bool" where
  "stamp_ok s \<longleftrightarrow> s = NoStamp \<or> parse_RFC3339 s \<noteq> None"

lemma parse_format: "parse_RFC3339 (format_RFC3339 t) = Some (truncate_second t)"
  by (simp add: format_RFC3339_def truncate_second_def minus_mod_eq_div_mult)

lemma truncate_second_le: "truncate_second t \<le> t" "t < truncate_second t + time_Second"
  by (simp_all add: truncate_second_def time_Second_def)

lemma truncate_second_mono: "s \<le> t \<Longrightarrow> truncate_second s \<le> truncate_second t"
  by (simp add: truncate_second_def minus_mod_eq_div_mult time_Second_def zdiv_mono1)

lemma truncate_second_idem [simp]: "truncate_second (truncate_second t) = truncate_second t"
  by (simp add: truncate_second_def minus_mod_eq_div_mult)

lemma stamp_ok_format [simp]: "stamp_ok (format_RFC3339 t)" "format_RFC3339 t \<noteq> NoStamp"
  by (simp_all add: stamp_ok_def format_RFC3339_def)

end
