(* ===== verification/Config.thy ===== *)
theory Config
  imports Resource_Policy Go_Time
begin

text \<open>
  \<^verbatim>\<open>autoscaler/config.go\<close>: the manager's configuration from environment variables, and its
  validation. The environment is a function from names to optional values. The default runner
  group is a constant of the scale-set client and therefore a parameter. Error texts are not
  modelled; \<^const>\<open>None\<close> is an error.
\<close>

record githubAppConfig =
  ga_clientID :: string
  ga_privateKeyPath :: string

record hostAdmissionConfig =
  hc_enabled :: bool
  hc_namespace :: string
  hc_socketPath :: string
  hc_hostFingerprint :: string
  hc_profileFingerprint :: string

record externalVolume =
  ev_name :: string
  ev_source :: string
  ev_readOnly :: bool

record config =
  cf_accessToken :: string
  cf_githubApp :: githubAppConfig
  cf_profileID :: string
  cf_runnerImage :: string
  cf_workerRevision :: string
  cf_sessionOwner :: string
  cf_assumeUnversioned :: bool
  cf_scope :: string
  cf_organization :: string
  cf_enterprise :: string
  cf_namePrefix :: string
  cf_labels :: "string list"
  cf_noDefaultLabels :: bool
  cf_runnerGroup :: string
  cf_stateDirectory :: string
  cf_minimumIdle :: int
  cf_maximumActiveWorkers :: int
  cf_workerImageID :: string
  cf_resources :: workerResourcePolicy
  cf_runtime :: workerRuntimePolicy
  cf_externalVolumes :: "externalVolume list"
  cf_serviceNetwork :: string
  cf_scaleDownDelay :: int
  cf_observedInterval :: int
  cf_architectureLabel :: string
  cf_legacyRepositoryURLs :: string
  cf_legacyRepositoryURL :: string
  cf_legacyReplicas :: string
  cf_hostAdmission :: hostAdmissionConfig

definition githubApp_enabled :: "githubAppConfig \<Rightarrow> bool" where
  "githubApp_enabled c \<longleftrightarrow> ga_clientID c \<noteq> [] \<and> ga_privateKeyPath c \<noteq> []"

definition githubCredentialIdentity :: "config \<Rightarrow> string" where
  "githubCredentialIdentity c =
     (if githubApp_enabled (cf_githubApp c) then ''app:'' @ ga_clientID (cf_githubApp c) else ''pat'')"

definition externalVolume_target :: "externalVolume \<Rightarrow> string" where
  "externalVolume_target v = ''/mnt/pitcrew-data/'' @ ev_name v"

section \<open>Fields\<close>

definition validExternalVolumeName :: "string \<Rightarrow> bool" where
  "validExternalVolumeName value =
     (if length value < 1 \<or> length value > 32 \<or> byte_of (hd value) < 97 \<or> byte_of (hd value) > 122
      then False
      else \<not> has_rune (\<lambda>r. (r < 97 \<or> r > 122) \<and> (r < 48 \<or> r > 57) \<and> r \<noteq> 45) value)"

text \<open>Only the first rune is at byte index zero.\<close>

definition validDockerVolumeName :: "string \<Rightarrow> bool" where
  "validDockerVolumeName value =
     (let alphanumeric = (\<lambda>r. 97 \<le> r \<and> r \<le> 122 \<or> 65 \<le> r \<and> r \<le> 90 \<or> 48 \<le> r \<and> r \<le> 57) in
      if length value < 1 \<or> length value > 128 then False
      else case range_runes value of
          [] \<Rightarrow> True
        | r # rs \<Rightarrow> alphanumeric r \<and> list_all (\<lambda>r. alphanumeric r \<or> r \<in> {95, 46, 45}) rs)"

definition validDockerNetworkName :: "string \<Rightarrow> bool" where
  "validDockerNetworkName value =
     (if value = [] then True
      else if value = ''bridge'' then False
      else if \<not> validDockerVolumeName value then False
      else if has_prefix value ''self-hosted-runner'' \<and> strings_HasSuffix value ''_default'' then
        let middle = strings_TrimSuffix (strings_TrimPrefix value ''self-hosted-runner'') ''_default''
        in if middle = [] then False
           else \<not> (has_prefix middle ''-'' \<and> validExternalVolumeName (strings_TrimPrefix middle ''-''))
      else True)"

text \<open>The entries of one list, after the volumes of the lists before it.\<close>

fun parse_volume_entries ::
  "bool \<Rightarrow> string list \<Rightarrow> externalVolume list \<Rightarrow> externalVolume list option" where
  "parse_volume_entries readOnly [] volumes = Some volumes"
| "parse_volume_entries readOnly (entry # entries) volumes =
     (let (name, source, found) = strings_Cut entry CHR ''='' in
      if \<not> found \<or> \<not> validExternalVolumeName name \<or> \<not> validDockerVolumeName source then None
      else if name \<in> ev_name ` set volumes then None
      else if source \<in> ev_source ` set volumes then None
      else
        let volumes' = volumes @ [\<lparr>ev_name = name, ev_source = source, ev_readOnly = readOnly\<rparr>] in
        if length volumes' > 8 then None else parse_volume_entries readOnly entries volumes')"

definition parse_volume_list ::
  "bool \<Rightarrow> string \<Rightarrow> externalVolume list \<Rightarrow> externalVolume list option" where
  "parse_volume_list readOnly value volumes =
     (let trimmed = TrimSpace value in
      if trimmed = [] then Some volumes
      else parse_volume_entries readOnly (strings_Split trimmed CHR '','') volumes)"

definition parseExternalVolumes :: "string \<Rightarrow> string \<Rightarrow> externalVolume list option" where
  "parseExternalVolumes readOnly readWrite =
     (case parse_volume_list True readOnly [] of
        None \<Rightarrow> None
      | Some volumes \<Rightarrow> parse_volume_list False readWrite volumes)"

fun parse_label_parts :: "string list \<Rightarrow> string list option" where
  "parse_label_parts [] = Some []"
| "parse_label_parts (part # parts) =
     (let label = TrimSpace part in
      if label = [] then None
      else if strings_ContainsAny label [CHR 0x0D, CHR 0x0A] then None
      else map_option ((#) label) (parse_label_parts parts))"

definition parseLabels :: "string \<Rightarrow> string list option" where
  "parseLabels value = (if value = [] then Some [] else parse_label_parts (strings_Split value CHR '',''))"

definition parseBooleanFlag :: "string \<Rightarrow> bool option" where
  "parseBooleanFlag value =
     (if value = [] \<or> value = ''0'' then Some False else if value = ''1'' then Some True else None)"

definition normalizeArchitecture :: "unicode_tables \<Rightarrow> string \<Rightarrow> string" where
  "normalizeArchitecture u architecture =
     (let lowered = strings_ToLower u (TrimSpace architecture) in
      if lowered = ''amd64'' \<or> lowered = ''x86_64'' then ''x64''
      else if lowered = ''arm64'' \<or> lowered = ''aarch64'' then ''arm64''
      else if lowered = ''arm'' \<or> lowered = ''armv6l'' \<or> lowered = ''armv7l'' then ''arm''
      else lowered)"

definition secondsToDuration :: "int \<Rightarrow> int option" where
  "secondsToDuration seconds =
     (if seconds > max_int64 sdiv time_Second then None else Some (mul64 seconds time_Second))"

type_synonym environment = "string \<Rightarrow> string option"

definition env_value :: "environment \<Rightarrow> string \<Rightarrow> string \<Rightarrow> string" where
  "env_value lookup name fallback = (case lookup name of Some v \<Rightarrow> v | None \<Rightarrow> fallback)"

definition loadHostAdmissionConfig :: "environment \<Rightarrow> hostAdmissionConfig option" where
  "loadHostAdmissionConfig lookup =
     (let namespace = TrimSpace (env_value lookup ''PITCREW_HOST_ADMISSION_NAMESPACE'' []);
          socketPath = TrimSpace (env_value lookup ''PITCREW_HOST_ADMISSION_SOCKET'' []);
          hostFingerprint = TrimSpace (env_value lookup ''PITCREW_HOST_ADMISSION_HOST_FINGERPRINT'' []);
          profileFingerprint =
            TrimSpace (env_value lookup ''PITCREW_HOST_ADMISSION_PROFILE_FINGERPRINT'' []);
          present = length (filter (\<lambda>f. f \<noteq> [])
            [namespace, socketPath, hostFingerprint, profileFingerprint])
      in if present = 0
         then Some \<lparr>hc_enabled = False, hc_namespace = [], hc_socketPath = [],
           hc_hostFingerprint = [], hc_profileFingerprint = []\<rparr>
         else if present = 4
         then Some \<lparr>hc_enabled = True, hc_namespace = namespace, hc_socketPath = socketPath,
           hc_hostFingerprint = hostFingerprint, hc_profileFingerprint = profileFingerprint\<rparr>
         else None)"

definition loadWorkerResourcePolicy :: "environment \<Rightarrow> workerResourcePolicy option" where
  "loadWorkerResourcePolicy lookup =
     (case parseOptionalInt64 (env_value lookup ''PITCREW_WORKER_MEMORY_BYTES'' []) of
        None \<Rightarrow> None
      | Some memoryBytes \<Rightarrow>
     (case parseOptionalInt64 (env_value lookup ''PITCREW_WORKER_MEMORY_SWAP_BYTES'' []) of
        None \<Rightarrow> None
      | Some memorySwapBytes \<Rightarrow>
     (case parseOptionalInt64 (env_value lookup ''PITCREW_WORKER_PIDS_LIMIT'' []) of
        None \<Rightarrow> None
      | Some pids \<Rightarrow>
          let policy = \<lparr>wr_memoryBytes = memoryBytes, wr_memorySwapBytes = memorySwapBytes,
                wr_cpuCores = TrimSpace (env_value lookup ''PITCREW_WORKER_CPU_CORES'' []),
                wr_pids = pids\<rparr>
          in if resources_validate policy \<noteq> None then None else Some policy)))"

definition loadWorkerRuntimePolicy ::
  "unicode_tables \<Rightarrow> environment \<Rightarrow> workerRuntimePolicy option" where
  "loadWorkerRuntimePolicy u lookup =
     (let devicesValue = TrimSpace (env_value lookup ''PITCREW_WORKER_RUNTIME_DEVICES'' []);
          devices = (if devicesValue = [] then []
            else map (\<lambda>d. TrimSpace (strings_ToLower u d)) (strings_Split devicesValue CHR '',''))
      in case parseOptionalInt64 (env_value lookup ''PITCREW_WORKER_SHM_SIZE_BYTES'' []) of
           None \<Rightarrow> None
         | Some sharedMemoryBytes \<Rightarrow>
        (case parseOptionalInt64 (env_value lookup ''PITCREW_WORKER_DOCKER_STORAGE_BYTES'' []) of
           None \<Rightarrow> None
         | Some dockerStorage \<Rightarrow>
             let policy = \<lparr>rt_devices = devices, rt_sharedMemoryBytes = sharedMemoryBytes,
                   rt_dockerMode = env_value lookup ''PITCREW_WORKER_DOCKER_MODE'' [],
                   rt_dockerStorageBytes = dockerStorage\<rparr>
             in if runtime_validate policy \<noteq> None then None else Some policy))"

section \<open>Validation\<close>

text \<open>The leading switch: required fields, in the source's order.\<close>

definition validate_required :: "unicode_tables \<Rightarrow> config \<Rightarrow> goerr option" where
  "validate_required u c =
     (let app = cf_githubApp c; admission = cf_hostAdmission c in
      first_error (map (\<lambda>b. fail_if b err_other) [
        cf_accessToken c = [] \<and> \<not> githubApp_enabled app,
        cf_accessToken c \<noteq> [] \<and> githubApp_enabled app,
        (ga_clientID app = []) \<noteq> (ga_privateKeyPath app = []),
        cf_profileID c = [],
        cf_runnerImage c = [],
        length (cf_workerRevision c) \<noteq> 64
          \<or> has_rune (\<lambda>r. (r < 48 \<or> r > 57) \<and> (r < 97 \<or> r > 102)) (cf_workerRevision c),
        cf_sessionOwner c = [],
        has_rune (\<lambda>r. \<not> unicode_IsLetter u r \<and> \<not> unicode_IsDigit u r \<and> r \<noteq> 46 \<and> r \<noteq> 95 \<and> r \<noteq> 45)
          (cf_sessionOwner c),
        cf_namePrefix c = [],
        cf_stateDirectory c = [] \<or> cf_stateDirectory c = ''.'',
        cf_architectureLabel c = [],
        cf_maximumActiveWorkers c < 0,
        hc_enabled admission \<and> (hc_namespace admission = [] \<or> hc_socketPath admission = []
          \<or> hc_hostFingerprint admission = [] \<or> hc_profileFingerprint admission = []),
        githubApp_enabled app \<and> cf_scope c = ''ent'']))"

text \<open>Worker resources, runtime capabilities and images.\<close>

definition validate_worker :: "config \<Rightarrow> goerr option" where
  "validate_worker c =
     (let nested = rt_dockerMode (cf_runtime c) \<noteq> [] in
      first_error [
        resources_validate (cf_resources c),
        runtime_validateLaunch (cf_runtime c) (cf_resources c) (cf_externalVolumes c)
          (cf_serviceNetwork c),
        fail_if (nested \<and> (cf_architectureLabel c \<noteq> ''x64''
          \<or> \<not> hc_enabled (cf_hostAdmission c))) err_other,
        (if nested then
           let (_, digest, found) = strings_Cut (cf_runnerImage c) CHR ''@'' in
           fail_if (\<not> found \<or> \<not> has_prefix digest ''sha256:'' \<or> parseWorkerImageID digest = None)
             err_other
         else None),
        fail_if (parseWorkerImageID (cf_workerImageID c) = None) err_other])"

definition scope_name_separators :: "char list" where
  "scope_name_separators = [CHR ''/'', CHR 0x5C, CHR '' '', CHR 0x09, CHR 0x0D, CHR 0x0A]"

definition validate_scope :: "config \<Rightarrow> goerr option" where
  "validate_scope c =
     (if cf_scope c = ''repo''
      then fail_if (cf_organization c \<noteq> [] \<or> cf_enterprise c \<noteq> []) err_other
      else if cf_scope c = ''org''
      then fail_if (cf_organization c = [] \<or> cf_enterprise c \<noteq> []
        \<or> strings_ContainsAny (cf_organization c) scope_name_separators) err_other
      else if cf_scope c = ''ent''
      then fail_if (cf_enterprise c = [] \<or> cf_organization c \<noteq> []
        \<or> strings_ContainsAny (cf_enterprise c) scope_name_separators) err_other
      else Some err_other)"

definition config_validate :: "unicode_tables \<Rightarrow> config \<Rightarrow> goerr option" where
  "config_validate u c =
     first_error [
       validate_required u c,
       validate_worker c,
       validate_scope c,
       fail_if (list_ex (\<lambda>v. strings_ContainsAny v [CHR 0x0D, CHR 0x0A])
         [cf_accessToken c, ga_clientID (cf_githubApp c), ga_privateKeyPath (cf_githubApp c),
          cf_profileID c, cf_runnerImage c, cf_workerRevision c, cf_sessionOwner c,
          cf_organization c, cf_enterprise c, cf_namePrefix c, cf_runnerGroup c,
          cf_stateDirectory c, cf_serviceNetwork c, cf_legacyRepositoryURLs c,
          cf_legacyRepositoryURL c, cf_legacyReplicas c, hc_namespace (cf_hostAdmission c),
          hc_socketPath (cf_hostAdmission c), hc_hostFingerprint (cf_hostAdmission c),
          hc_profileFingerprint (cf_hostAdmission c)]) err_other]"

section \<open>Loading\<close>

text \<open>The settings that are parsed, in the order \<^verbatim>\<open>loadConfig\<close> reads them.\<close>

record parsed_settings =
  ps_minimumIdle :: int
  ps_scaleDownDelay :: int
  ps_observedInterval :: int
  ps_noDefaultLabels :: bool
  ps_assumeUnversioned :: bool
  ps_labels :: "string list"
  ps_maximumActiveWorkers :: int
  ps_workerImageID :: string

text \<open>The contract version this manager implements; documents are checked against it too.\<close>

definition managerContractVersion :: int where
  "managerContractVersion = 22"

definition load_intervals :: "environment \<Rightarrow> (int \<times> int \<times> int) option" where
  "load_intervals lookup =
     (let value = env_value lookup in
      case parseNonnegativeInteger (value ''PITCREW_AUTOSCALING_MIN_IDLE'' ''0'') of
        None \<Rightarrow> None
      | Some minimumIdle \<Rightarrow>
     (case parseNonnegativeInteger
             (value ''PITCREW_AUTOSCALING_SCALE_DOWN_DELAY_SECONDS'' ''120'') of
        None \<Rightarrow> None
      | Some scaleDownSeconds \<Rightarrow>
          if scaleDownSeconds < 30 \<or> scaleDownSeconds > 3600 then None
          else case secondsToDuration scaleDownSeconds of
              None \<Rightarrow> None
            | Some scaleDownDelay \<Rightarrow>
     (case parsePositiveInteger (value ''PITCREW_OBSERVED_STATE_INTERVAL'' ''30'') of
        None \<Rightarrow> None
      | Some observedSeconds \<Rightarrow>
     (case secondsToDuration observedSeconds of
        None \<Rightarrow> None
      | Some observedInterval \<Rightarrow>
     (case parsePositiveInteger
             (value ''PITCREW_MANAGER_CONTRACT_VERSION'' (show_int managerContractVersion)) of
        None \<Rightarrow> None
      | Some contractVersion \<Rightarrow>
          if contractVersion \<noteq> managerContractVersion then None
          else Some (minimumIdle, scaleDownDelay, observedInterval))))))"

definition load_settings :: "environment \<Rightarrow> parsed_settings option" where
  "load_settings lookup =
     (let value = env_value lookup in
      case load_intervals lookup of
        None \<Rightarrow> None
      | Some (minimumIdle, scaleDownDelay, observedInterval) \<Rightarrow>
     (case parseBooleanFlag (value ''RUNNER_NO_DEFAULT_LABELS'' []) of
        None \<Rightarrow> None
      | Some noDefaultLabels \<Rightarrow>
     (case parseBooleanFlag (value ''PITCREW_ASSUME_UNVERSIONED_CURRENT'' ''0'') of
        None \<Rightarrow> None
      | Some assumeUnversioned \<Rightarrow>
     (case parseLabels (value ''RUNNER_LABELS'' []) of
        None \<Rightarrow> None
      | Some labels \<Rightarrow>
     (case parseOptionalPositiveInteger (value ''PITCREW_AUTOSCALING_MAX_ACTIVE_WORKERS'' []) of
        None \<Rightarrow> None
      | Some maximumActiveWorkers \<Rightarrow>
     (case parseWorkerImageID (value ''PITCREW_WORKER_IMAGE_ID'' []) of
        None \<Rightarrow> None
      | Some workerImageID \<Rightarrow>
          Some \<lparr>ps_minimumIdle = minimumIdle, ps_scaleDownDelay = scaleDownDelay,
            ps_observedInterval = observedInterval, ps_noDefaultLabels = noDefaultLabels,
            ps_assumeUnversioned = assumeUnversioned, ps_labels = labels,
            ps_maximumActiveWorkers = maximumActiveWorkers, ps_workerImageID = workerImageID\<rparr>))))))"

definition assemble_config ::
  "unicode_tables \<Rightarrow> string \<Rightarrow> environment \<Rightarrow> string \<Rightarrow> parsed_settings \<Rightarrow> workerResourcePolicy
    \<Rightarrow> workerRuntimePolicy \<Rightarrow> externalVolume list \<Rightarrow> hostAdmissionConfig \<Rightarrow> config" where
  "assemble_config u defaultRunnerGroup lookup architecture s resources runtime volumes admission =
     (let value = env_value lookup;
          runnerGroup = TrimSpace (value ''RUNNER_GROUP'' defaultRunnerGroup)
      in \<lparr>cf_accessToken = TrimSpace (value ''ACCESS_TOKEN'' []),
          cf_githubApp =
            \<lparr>ga_clientID = TrimSpace (value ''PITCREW_GITHUB_APP_CLIENT_ID'' []),
             ga_privateKeyPath = TrimSpace (value ''PITCREW_GITHUB_APP_PRIVATE_KEY_PATH'' [])\<rparr>,
          cf_profileID = TrimSpace (value ''RUNNER_PROFILE_ID'' []),
          cf_runnerImage = TrimSpace (value ''RUNNER_IMAGE'' []),
          cf_workerRevision = TrimSpace (value ''PITCREW_WORKER_REVISION'' []),
          cf_sessionOwner = TrimSpace (value ''PITCREW_SESSION_OWNER'' []),
          cf_assumeUnversioned = ps_assumeUnversioned s,
          cf_scope = TrimSpace (value ''RUNNER_SCOPE'' []),
          cf_organization = TrimSpace (value ''ORG_NAME'' []),
          cf_enterprise = TrimSpace (value ''ENTERPRISE_NAME'' []),
          cf_namePrefix = TrimSpace (value ''RUNNER_NAME_PREFIX'' []),
          cf_labels = ps_labels s,
          cf_noDefaultLabels = ps_noDefaultLabels s,
          cf_runnerGroup = (if runnerGroup = [] then defaultRunnerGroup else runnerGroup),
          cf_stateDirectory = filepath_Clean (value ''PITCREW_STATE_DIRECTORY'' ''/var/lib/pitcrew''),
          cf_minimumIdle = ps_minimumIdle s,
          cf_maximumActiveWorkers = ps_maximumActiveWorkers s,
          cf_workerImageID = ps_workerImageID s,
          cf_resources = resources,
          cf_runtime = runtime,
          cf_externalVolumes = volumes,
          cf_serviceNetwork = TrimSpace (value ''PITCREW_SERVICE_NETWORK'' []),
          cf_scaleDownDelay = ps_scaleDownDelay s,
          cf_observedInterval = ps_observedInterval s,
          cf_architectureLabel = normalizeArchitecture u architecture,
          cf_legacyRepositoryURLs = value ''REPO_URLS'' [],
          cf_legacyRepositoryURL = value ''REPO_URL'' [],
          cf_legacyReplicas = value ''RUNNER_REPLICAS'' ''1'',
          cf_hostAdmission = admission\<rparr>)"

definition loadConfig ::
  "unicode_tables \<Rightarrow> string \<Rightarrow> environment \<Rightarrow> string \<Rightarrow> config option" where
  "loadConfig u defaultRunnerGroup lookup architecture =
     (case load_settings lookup of
        None \<Rightarrow> None
      | Some settings \<Rightarrow>
     (case loadWorkerResourcePolicy lookup of
        None \<Rightarrow> None
      | Some resources \<Rightarrow>
     (case loadWorkerRuntimePolicy u lookup of
        None \<Rightarrow> None
      | Some runtime \<Rightarrow>
     (case parseExternalVolumes (env_value lookup ''PITCREW_READ_ONLY_VOLUMES'' [])
             (env_value lookup ''PITCREW_READ_WRITE_VOLUMES'' []) of
        None \<Rightarrow> None
      | Some volumes \<Rightarrow>
          if \<not> validDockerNetworkName (TrimSpace (env_value lookup ''PITCREW_SERVICE_NETWORK'' []))
          then None
          else case loadHostAdmissionConfig lookup of
              None \<Rightarrow> None
            | Some admission \<Rightarrow>
                let cfg = assemble_config u defaultRunnerGroup lookup architecture settings
                      resources runtime volumes admission
                in if config_validate u cfg \<noteq> None then None else Some cfg))))"

section \<open>What an accepted configuration guarantees\<close>

definition volumes_ok :: "externalVolume list \<Rightarrow> bool" where
  "volumes_ok vs \<longleftrightarrow> length vs \<le> 8 \<and> distinct (map ev_name vs) \<and> distinct (map ev_source vs)
     \<and> (\<forall>v \<in> set vs. validExternalVolumeName (ev_name v) \<and> validDockerVolumeName (ev_source v))"

lemma parse_volume_entries_ok:
  "parse_volume_entries ro entries vs = Some vs' \<Longrightarrow> volumes_ok vs \<Longrightarrow> volumes_ok vs'"
  by (induction ro entries vs arbitrary: vs' rule: parse_volume_entries.induct)
    (auto simp: volumes_ok_def Let_def split: prod.splits if_splits)

lemma parse_volume_list_ok: "parse_volume_list ro value vs = Some vs' \<Longrightarrow> volumes_ok vs \<Longrightarrow> volumes_ok vs'"
  by (auto simp: parse_volume_list_def Let_def dest: parse_volume_entries_ok split: if_splits)

lemma parseExternalVolumes_ok:
  assumes "parseExternalVolumes ro rw = Some vs" shows "volumes_ok vs"
proof -
  obtain us where us: "parse_volume_list True ro [] = Some us" "parse_volume_list False rw us = Some vs"
    using assms by (auto simp: parseExternalVolumes_def split: option.splits)
  have "volumes_ok []" by (simp add: volumes_ok_def)
  with us show ?thesis by (blast intro: parse_volume_list_ok)
qed

lemma parseNonnegative_range: "parseNonnegativeInteger s = Some n \<Longrightarrow> 0 \<le> n"
  by (auto simp: parseNonnegativeInteger_def dest: parse_digits_range split: if_splits)

lemma parsePositive_range: "parsePositiveInteger s = Some n \<Longrightarrow> 1 \<le> n"
  by (auto simp: parsePositiveInteger_def split: if_splits option.splits)

lemma secondsToDuration_exact:
  assumes "secondsToDuration n = Some d" "0 \<le> n" shows "d = n * time_Second"
proof -
  from assms have "n \<le> max_int64 sdiv time_Second" and d: "d = mul64 n time_Second"
    by (auto simp: secondsToDuration_def split: if_splits)
  then have "n * time_Second \<le> max_int64"
    by (simp add: time_Second_def max_int64_def signed_divide_int_def)
  with assms d show ?thesis by (simp add: time_Second_def mul64_id)
qed

lemma load_intervals_ranges:
  assumes "load_intervals lookup = Some (idle, delay, interval)"
  shows "0 \<le> idle" "30 * time_Second \<le> delay" "delay \<le> 3600 * time_Second" "time_Second \<le> interval"
proof -
  from assms obtain seconds observed where
    idle: "parseNonnegativeInteger (env_value lookup ''PITCREW_AUTOSCALING_MIN_IDLE'' ''0'') = Some idle"
    and seconds: "30 \<le> seconds" "seconds \<le> 3600" "secondsToDuration seconds = Some delay"
    and observed: "parsePositiveInteger (env_value lookup ''PITCREW_OBSERVED_STATE_INTERVAL'' ''30'') = Some observed"
      "secondsToDuration observed = Some interval"
    by (auto simp: load_intervals_def Let_def not_less split: option.splits if_splits)
  show "0 \<le> idle" using parseNonnegative_range [OF idle] .
  show "30 * time_Second \<le> delay" "delay \<le> 3600 * time_Second"
    using secondsToDuration_exact [OF seconds(3)] seconds by (simp_all add: time_Second_def)
  show "time_Second \<le> interval"
    using secondsToDuration_exact [OF observed(2)] parsePositive_range [OF observed(1)]
    by (simp add: time_Second_def)
qed

lemma load_settings_ranges:
  assumes "load_settings lookup = Some s"
  shows "0 \<le> ps_minimumIdle s" "30 * time_Second \<le> ps_scaleDownDelay s"
    "ps_scaleDownDelay s \<le> 3600 * time_Second" "time_Second \<le> ps_observedInterval s"
proof -
  obtain idle delay interval where i: "load_intervals lookup = Some (idle, delay, interval)"
    "ps_minimumIdle s = idle" "ps_scaleDownDelay s = delay" "ps_observedInterval s = interval"
    using assms by (auto simp: load_settings_def Let_def split: option.splits)
  note load_intervals_ranges [OF i(1)]
  with i show "0 \<le> ps_minimumIdle s" "30 * time_Second \<le> ps_scaleDownDelay s"
    "ps_scaleDownDelay s \<le> 3600 * time_Second" "time_Second \<le> ps_observedInterval s" by simp_all
qed

text \<open>What the nested Docker mode requires of the rest of the configuration.\<close>

definition nested_docker_ok :: "config \<Rightarrow> bool" where
  "nested_docker_ok c \<longleftrightarrow>
     cf_architectureLabel c = ''x64'' \<and> hc_enabled (cf_hostAdmission c)
     \<and> cf_externalVolumes c = [] \<and> cf_serviceNetwork c = [] \<and> rt_devices (cf_runtime c) = []
     \<and> wr_cpuCores (cf_resources c) \<noteq> [] \<and> wr_pids (cf_resources c) \<noteq> None
     \<and> (\<exists>memory storage. wr_memoryBytes (cf_resources c) = Some memory
          \<and> wr_memorySwapBytes (cf_resources c) = Some memory
          \<and> rt_dockerStorageBytes (cf_runtime c) = Some storage
          \<and> minimumWorkerSharedMemoryBytes \<le> storage \<and> storage < memory)
     \<and> (\<exists>repository digest. cf_runnerImage c = repository @ CHR ''@'' # digest
          \<and> CHR ''@'' \<notin> set repository \<and> has_prefix digest ''sha256:''
          \<and> parseWorkerImageID digest \<noteq> None)"

lemma validate_worker_nested:
  assumes "validate_worker c = None" and nested: "rt_dockerMode (cf_runtime c) \<noteq> []"
  shows "nested_docker_ok c"
proof -
  have launch: "runtime_validateLaunch (cf_runtime c) (cf_resources c) (cf_externalVolumes c)
      (cf_serviceNetwork c) = None"
    and arch: "cf_architectureLabel c = ''x64''" "hc_enabled (cf_hostAdmission c)"
    and image: "case strings_Cut (cf_runnerImage c) CHR ''@'' of (_, digest, found) \<Rightarrow>
      found \<and> has_prefix digest ''sha256:'' \<and> parseWorkerImageID digest \<noteq> None"
    using assms by (auto simp: validate_worker_def Let_def split: prod.splits)
  have runtime: "runtime_validate (cf_runtime c) = None"
    using launch by (auto simp: runtime_validateLaunch_def split: option.splits)
  then obtain storage where storage: "rt_dockerStorageBytes (cf_runtime c) = Some storage"
    "minimumWorkerSharedMemoryBytes \<le> storage" and devices: "rt_devices (cf_runtime c) = []"
    using nested by (auto simp: runtime_validate_def)
  have "cf_externalVolumes c = []" "cf_serviceNetwork c = []"
    "wr_cpuCores (cf_resources c) \<noteq> []" "wr_pids (cf_resources c) \<noteq> None"
    "wr_memoryBytes (cf_resources c) \<noteq> None" "wr_memorySwapBytes (cf_resources c) \<noteq> None"
    "the (wr_memorySwapBytes (cf_resources c)) = the (wr_memoryBytes (cf_resources c))"
    "storage < the (wr_memoryBytes (cf_resources c))"
    using launch nested storage(1) runtime
    by (auto simp: runtime_validateLaunch_def split: if_splits)
  with storage devices have "cf_externalVolumes c = []" "cf_serviceNetwork c = []"
    "rt_devices (cf_runtime c) = []" "wr_cpuCores (cf_resources c) \<noteq> []" "wr_pids (cf_resources c) \<noteq> None"
    "\<exists>memory storage. wr_memoryBytes (cf_resources c) = Some memory
      \<and> wr_memorySwapBytes (cf_resources c) = Some memory
      \<and> rt_dockerStorageBytes (cf_runtime c) = Some storage
      \<and> minimumWorkerSharedMemoryBytes \<le> storage \<and> storage < memory"
    by auto
  with arch image show ?thesis
    by (auto simp: nested_docker_ok_def dest: strings_Cut_found split: prod.splits)
qed

lemma loadConfig_parts:
  assumes "loadConfig u g lookup arch = Some c"
  obtains s resources runtime volumes admission
  where "load_settings lookup = Some s" "loadHostAdmissionConfig lookup = Some admission"
    "volumes_ok volumes" "config_validate u c = None" "validDockerNetworkName (cf_serviceNetwork c)"
    "c = assemble_config u g lookup arch s resources runtime volumes admission"
proof -
  have "cf_serviceNetwork (assemble_config u g lookup arch s resources runtime volumes admission)
      = TrimSpace (env_value lookup ''PITCREW_SERVICE_NETWORK'' [])" for s resources runtime volumes admission
    by (simp add: assemble_config_def Let_def)
  with assms that show thesis
    by (auto simp: loadConfig_def Let_def dest: parseExternalVolumes_ok split: option.splits if_splits)
qed

lemma host_admission_complete:
  "loadHostAdmissionConfig lookup = Some a \<Longrightarrow>
     (\<forall>f \<in> {hc_namespace, hc_socketPath, hc_hostFingerprint, hc_profileFingerprint}.
        f a \<noteq> [] \<longleftrightarrow> hc_enabled a)"
  by (auto simp: loadHostAdmissionConfig_def Let_def split: if_splits)

text \<open>What the manager relies on: names, the scope, the worker's limits, and single-line text.\<close>

definition identity_ok :: "unicode_tables \<Rightarrow> config \<Rightarrow> bool" where
  "identity_ok u c \<longleftrightarrow>
     [] \<notin> {cf_profileID c, cf_runnerImage c, cf_sessionOwner c, cf_namePrefix c, cf_stateDirectory c,
       cf_architectureLabel c}
     \<and> cf_stateDirectory c \<noteq> ''.''
     \<and> length (cf_workerRevision c) = 64
     \<and> (\<forall>r \<in> set (range_runes (cf_workerRevision c)). 48 \<le> r \<and> r \<le> 57 \<or> 97 \<le> r \<and> r \<le> 102)
     \<and> (\<forall>r \<in> set (range_runes (cf_sessionOwner c)).
          unicode_IsLetter u r \<or> unicode_IsDigit u r \<or> r \<in> {45, 46, 95})
     \<and> parseWorkerImageID (cf_workerImageID c) \<noteq> None"

definition scope_name_ok :: "string \<Rightarrow> bool" where
  "scope_name_ok name \<longleftrightarrow> name \<noteq> [] \<and> set name \<inter> set scope_name_separators = {}"

definition scope_ok :: "config \<Rightarrow> bool" where
  "scope_ok c \<longleftrightarrow>
     cf_scope c = ''repo'' \<and> cf_organization c = [] \<and> cf_enterprise c = []
     \<or> cf_scope c = ''org'' \<and> scope_name_ok (cf_organization c) \<and> cf_enterprise c = []
     \<or> cf_scope c = ''ent'' \<and> scope_name_ok (cf_enterprise c) \<and> cf_organization c = []
       \<and> \<not> githubApp_enabled (cf_githubApp c)"

definition limits_ok :: "workerResourcePolicy \<Rightarrow> workerRuntimePolicy \<Rightarrow> bool" where
  "limits_ok p t \<longleftrightarrow>
     (\<forall>m. wr_memoryBytes p = Some m \<longrightarrow> minimumWorkerMemoryBytes \<le> m)
     \<and> (\<forall>swap. wr_memorySwapBytes p = Some swap \<longrightarrow>
          (\<exists>m. wr_memoryBytes p = Some m \<and> m \<le> swap))
     \<and> (wr_cpuCores p \<noteq> [] \<longrightarrow> validCPUCoresText (wr_cpuCores p))
     \<and> (\<forall>n. wr_pids p = Some n \<longrightarrow> 1 \<le> n \<and> n \<le> maximumWorkerPidsLimit)
     \<and> rt_devices t \<in> {[], [''kvm'']} \<and> rt_dockerMode t \<in> {[], ''privileged-local''}
     \<and> (rt_dockerStorageBytes t = None \<longleftrightarrow> rt_dockerMode t = [])
     \<and> (\<forall>n. rt_sharedMemoryBytes t = Some n \<longrightarrow> minimumWorkerSharedMemoryBytes \<le> n)"

definition single_line :: "config \<Rightarrow> bool" where
  "single_line c \<longleftrightarrow>
     (\<forall>v \<in> {cf_accessToken c, ga_clientID (cf_githubApp c), ga_privateKeyPath (cf_githubApp c),
        cf_profileID c, cf_runnerImage c, cf_workerRevision c, cf_sessionOwner c, cf_organization c,
        cf_enterprise c, cf_namePrefix c, cf_runnerGroup c, cf_stateDirectory c, cf_serviceNetwork c,
        cf_legacyRepositoryURLs c, cf_legacyRepositoryURL c, cf_legacyReplicas c,
        hc_namespace (cf_hostAdmission c), hc_socketPath (cf_hostAdmission c),
        hc_hostFingerprint (cf_hostAdmission c), hc_profileFingerprint (cf_hostAdmission c)}.
      CHR 0x0D \<notin> set v \<and> CHR 0x0A \<notin> set v)"

lemma line_break:
  "strings_ContainsAny v [CHR 0x0D, CHR 0x0A] \<longleftrightarrow> CHR 0x0D \<in> set v \<or> CHR 0x0A \<in> set v"
  by (auto simp: strings_ContainsAny_def list_ex_iff)

lemma required_identity:
  assumes "validate_required u c = None" "validate_worker c = None"
  shows "identity_ok u c"
proof -
  have "parseWorkerImageID (cf_workerImageID c) \<noteq> None"
    using assms(2) by (simp add: validate_worker_def Let_def)
  with assms(1) show ?thesis
    by (auto simp: validate_required_def identity_ok_def has_rune_def list_ex_iff Let_def not_less)
qed

lemma validated_scope:
  assumes "validate_scope c = None" "validate_required u c = None"
  shows "scope_ok c"
  using assms by (auto simp: validate_scope_def validate_required_def scope_ok_def scope_name_ok_def
      strings_ContainsAny_def list_ex_iff Let_def split: if_splits)

lemma validated_limits:
  assumes "resources_validate p = None" "runtime_validate t = None"
  shows "limits_ok p t"
proof -
  have "rt_devices t \<in> {[], [''kvm'']}"
    using assms(2) by (cases "rt_devices t") (auto simp: runtime_validate_def)
  with assms show ?thesis
    by (auto simp: resources_validate_def runtime_validate_def limits_ok_def split: option.splits if_splits)
qed

text \<open>
  C36: A configuration the manager starts with is complete and bounded. Its profile, image,
  session owner, name prefix, state directory and architecture are given, the worker revision is
  64 lower-case hexadecimal digits, and the image ID and service network have valid forms. It has
  exactly one kind of GitHub credential, an App only with both of its fields and never for an
  enterprise. The scope is a repository, an organization or an enterprise, with the names that
  go with it and no others. Host admission has its full identity or none. The scale-down delay
  lies between 30 seconds and an hour, the observation interval is at least a second, and the
  counts are not negative. There are at most eight external volumes, with valid, distinct names
  and sources. Memory, swap, CPU, process, device and shared-memory limits are within their
  ranges. Nested Docker needs an immutable image, host admission, full resource limits with
  storage below memory, and no shared volumes, networks or devices. No text field has a line
  break.
\<close>

theorem accepted_config_is_complete:
  assumes "loadConfig u defaultRunnerGroup lookup architecture = Some c"
  shows "identity_ok u c \<and> scope_ok c \<and> validDockerNetworkName (cf_serviceNetwork c)
    \<and> ((cf_accessToken c \<noteq> []) \<noteq> githubApp_enabled (cf_githubApp c))
    \<and> (ga_clientID (cf_githubApp c) = [] \<longleftrightarrow> ga_privateKeyPath (cf_githubApp c) = [])
    \<and> (\<forall>f \<in> {hc_namespace, hc_socketPath, hc_hostFingerprint, hc_profileFingerprint}.
         f (cf_hostAdmission c) \<noteq> [] \<longleftrightarrow> hc_enabled (cf_hostAdmission c))
    \<and> 30 * time_Second \<le> cf_scaleDownDelay c \<and> cf_scaleDownDelay c \<le> 3600 * time_Second
    \<and> time_Second \<le> cf_observedInterval c \<and> 0 \<le> cf_minimumIdle c \<and> 0 \<le> cf_maximumActiveWorkers c
    \<and> volumes_ok (cf_externalVolumes c) \<and> limits_ok (cf_resources c) (cf_runtime c)
    \<and> (rt_dockerMode (cf_runtime c) \<noteq> [] \<longrightarrow> nested_docker_ok c) \<and> single_line c"
proof -
  obtain s resources runtime volumes admission where
    parts: "load_settings lookup = Some s" "loadHostAdmissionConfig lookup = Some admission"
    "volumes_ok volumes" "config_validate u c = None" "validDockerNetworkName (cf_serviceNetwork c)"
    and c: "c = assemble_config u defaultRunnerGroup lookup architecture s resources runtime volumes admission"
    using loadConfig_parts [OF assms] .
  have valid: "validate_required u c = None" "validate_worker c = None" "validate_scope c = None"
    using parts(4) by (simp_all add: config_validate_def)
  have fields: "cf_hostAdmission c = admission" "cf_externalVolumes c = volumes"
    "cf_scaleDownDelay c = ps_scaleDownDelay s" "cf_observedInterval c = ps_observedInterval s"
    "cf_minimumIdle c = ps_minimumIdle s"
    using c by (simp_all add: assemble_config_def Let_def)
  have credential: "(cf_accessToken c \<noteq> []) \<noteq> githubApp_enabled (cf_githubApp c)"
      "ga_clientID (cf_githubApp c) = [] \<longleftrightarrow> ga_privateKeyPath (cf_githubApp c) = []"
    and maximum: "0 \<le> cf_maximumActiveWorkers c"
    using valid(1) by (auto simp: validate_required_def Let_def)
  have line: "single_line c"
    using parts(4) by (simp add: config_validate_def single_line_def line_break)
  have "resources_validate (cf_resources c) = None" "runtime_validate (cf_runtime c) = None"
    using valid(2) by (auto simp: validate_worker_def runtime_validateLaunch_def Let_def
        split: option.splits)
  note limits = validated_limits [OF this]
  show ?thesis
    using credential maximum line limits host_admission_complete [OF parts(2)]
      load_settings_ranges [OF parts(1)] parts(3,5) validate_worker_nested [OF valid(2)]
      required_identity [OF valid(1,2)] validated_scope [OF valid(3,1)]
    by (simp add: fields)
qed

definition demo_tables :: unicode_tables where
  "demo_tables = \<lparr>ut_letter = (\<lambda>_. False), ut_digit = (\<lambda>_. False), ut_lower = (\<lambda>r. r), ut_fold = (\<lambda>r. r)\<rparr>"

definition demo_environment :: environment where
  "demo_environment = map_of [
     (''ACCESS_TOKEN'', ''t''), (''RUNNER_PROFILE_ID'', ''p''), (''RUNNER_IMAGE'', ''img''),
     (''PITCREW_WORKER_REVISION'', replicate 64 CHR ''a''), (''PITCREW_SESSION_OWNER'', ''o''),
     (''RUNNER_SCOPE'', ''repo''), (''RUNNER_NAME_PREFIX'', ''n''),
     (''PITCREW_READ_ONLY_VOLUMES'', ''a=x,b=y'')]"

theorem accepted_config_is_complete_witness:
  "\<exists>c. loadConfig demo_tables ''Default'' demo_environment ''amd64'' = Some c
    \<and> scope_ok c \<and> volumes_ok (cf_externalVolumes c) \<and> cf_scaleDownDelay c \<le> 3600 * time_Second"
proof -
  have "loadConfig demo_tables ''Default'' demo_environment ''amd64'' \<noteq> None" by code_simp
  then obtain c where "loadConfig demo_tables ''Default'' demo_environment ''amd64'' = Some c" by auto
  with accepted_config_is_complete [OF this] show ?thesis by auto
qed

end
