(* ===== verification/Sha256.thy ===== *)
theory Sha256
  imports Prelude "HOL-Library.Word"
begin

unbundle bit_operations_syntax

text \<open>
  \<^verbatim>\<open>crypto/sha256\<close> and \<^verbatim>\<open>encoding/hex\<close>, from which the manager derives file names, target
  keys, scale-set names and retry jitter. The hash is FIPS 180-4 over 32-bit words.
\<close>

definition ch :: "32 word \<Rightarrow> 32 word \<Rightarrow> 32 word \<Rightarrow> 32 word" where
  "ch x y z = (x AND y) XOR ((NOT x) AND z)"

definition maj :: "32 word \<Rightarrow> 32 word \<Rightarrow> 32 word \<Rightarrow> 32 word" where
  "maj x y z = (x AND y) XOR (x AND z) XOR (y AND z)"

definition big_sigma0 :: "32 word \<Rightarrow> 32 word" where
  "big_sigma0 x = word_rotr 2 x XOR word_rotr 13 x XOR word_rotr 22 x"

definition big_sigma1 :: "32 word \<Rightarrow> 32 word" where
  "big_sigma1 x = word_rotr 6 x XOR word_rotr 11 x XOR word_rotr 25 x"

definition small_sigma0 :: "32 word \<Rightarrow> 32 word" where
  "small_sigma0 x = word_rotr 7 x XOR word_rotr 18 x XOR drop_bit 3 x"

definition small_sigma1 :: "32 word \<Rightarrow> 32 word" where
  "small_sigma1 x = word_rotr 17 x XOR word_rotr 19 x XOR drop_bit 10 x"

text \<open>
  The constants of the standard are the first 32 bits of the fractional parts of cube roots and
  square roots of the first primes; they are computed here rather than listed. The bits of an
  integer root are found from the highest down.
\<close>

fun root_bits :: "(int \<Rightarrow> int) \<Rightarrow> int \<Rightarrow> int list \<Rightarrow> int \<Rightarrow> int" where
  "root_bits f n [] r = r"
| "root_bits f n (b # bs) r =
     root_bits f n bs (if f (r + b) \<le> n then r + b else r)"

definition bit_values :: "int list" where
  "bit_values = rev (map (\<lambda>i. 2 ^ i) [0..<36])"

definition first_primes :: "int list" where
  "first_primes = filter (\<lambda>n. list_all (\<lambda>d. n \<le> d \<or> n mod d \<noteq> 0) [2, 3, 5, 7, 11, 13, 17]) [2..311]"

definition cube_root_word :: "int \<Rightarrow> 32 word" where
  "cube_root_word p = word_of_int (root_bits (\<lambda>x. x * x * x) (p * 2 ^ 96) bit_values 0)"

definition square_root_word :: "int \<Rightarrow> 32 word" where
  "square_root_word p = word_of_int (root_bits (\<lambda>x. x * x) (p * 2 ^ 64) bit_values 0)"

definition round_constants :: "32 word list" where
  "round_constants = map cube_root_word first_primes"

definition initial_hash :: "32 word list" where
  "initial_hash = map square_root_word (take 8 first_primes)"

text \<open>The message schedule, newest word first.\<close>

fun schedule :: "nat \<Rightarrow> 32 word list \<Rightarrow> 32 word list" where
  "schedule 0 ws = rev ws"
| "schedule (Suc n) ws =
     schedule n ((small_sigma1 (ws ! 1) + ws ! 6 + small_sigma0 (ws ! 14) + ws ! 15) # ws)"

fun compress :: "(32 word \<times> 32 word) list \<Rightarrow> 32 word list \<Rightarrow> 32 word list" where
  "compress ((k, w) # kws) [a, b, c, d, e, f, g, h] =
     (let t1 = h + big_sigma1 e + ch e f g + k + w;
          t2 = big_sigma0 a + maj a b c
      in compress kws [t1 + t2, a, b, c, d + t1, e, f, g])"
| "compress _ hs = hs"

definition hash_block :: "32 word list \<Rightarrow> 32 word list \<Rightarrow> 32 word list" where
  "hash_block block hs =
     map2 (+) hs (compress (zip round_constants (schedule 48 (rev block))) hs)"

fun chunks :: "nat \<Rightarrow> 'a list \<Rightarrow> 'a list list" where
  "chunks n xs = (if n = 0 \<or> xs = [] then [] else take n xs # chunks n (drop n xs))"

declare chunks.simps [simp del]

definition be_bytes :: "nat \<Rightarrow> int \<Rightarrow> int list" where
  "be_bytes n v = map (\<lambda>i. (v div 256 ^ i) mod 256) (rev [0..<n])"

definition of_be :: "int list \<Rightarrow> int" where
  "of_be bs = fold (\<lambda>b acc. acc * 256 + b) bs 0"

definition pad_message :: "int list \<Rightarrow> int list" where
  "pad_message bs =
     bs @ [128] @ replicate ((119 - length bs mod 64) mod 64) 0 @ be_bytes 8 (8 * int (length bs))"

definition sha256_words :: "int list \<Rightarrow> 32 word list" where
  "sha256_words bs =
     fold hash_block (map (map (word_of_int \<circ> of_be) \<circ> chunks 4) (chunks 64 (pad_message bs)))
       initial_hash"

definition sha256 :: "string \<Rightarrow> int list" where
  "sha256 s = concat (map (be_bytes 4 \<circ> uint) (sha256_words (map of_char s)))"

definition hex_digit :: "int \<Rightarrow> char" where
  "hex_digit n = ''0123456789abcdef'' ! nat n"

definition hex_encode :: "int list \<Rightarrow> string" where
  "hex_encode bs = concat (map (\<lambda>b. [hex_digit (b div 16), hex_digit (b mod 16)]) bs)"

section \<open>Shape of the digest\<close>

lemma length_compress: "length (compress kws hs) = length hs"
  by (induction kws hs rule: compress.induct) (simp_all add: Let_def)

lemma length_hash_block: "length (hash_block block hs) = length hs"
  by (simp add: hash_block_def length_compress)

lemma length_hash_blocks: "length (fold hash_block blocks hs) = length hs"
  by (induction blocks arbitrary: hs) (simp_all add: length_hash_block)

lemma length_be_bytes [simp]: "length (be_bytes n v) = n"
  by (simp add: be_bytes_def)

lemma length_concat_be: "length (concat (map (be_bytes n \<circ> f) ws)) = n * length ws"
  by (induction ws) simp_all

lemma length_first_primes: "length first_primes = 64"
  by code_simp

lemma length_sha256 [simp]: "length (sha256 s) = 32"
  by (simp only: sha256_def length_concat_be)
    (simp add: sha256_words_def length_hash_blocks initial_hash_def length_first_primes)

lemma sha256_byte: "b \<in> set (sha256 s) \<Longrightarrow> 0 \<le> b \<and> b < 256"
  by (auto simp: sha256_def be_bytes_def)

lemma length_hex_encode [simp]: "length (hex_encode bs) = 2 * length bs"
  by (induction bs) (simp_all add: hex_encode_def)

lemma hex_digit_inj: "0 \<le> a \<Longrightarrow> a < 16 \<Longrightarrow> 0 \<le> b \<Longrightarrow> b < 16 \<Longrightarrow> hex_digit a = hex_digit b \<Longrightarrow> a = b"
proof -
  assume ab: "0 \<le> a" "a < 16" "0 \<le> b" "b < 16" and eq: "hex_digit a = hex_digit b"
  have "distinct ''0123456789abcdef''" by simp
  then have "nat a = nat b"
    using ab eq nth_eq_iff_index_eq [of "''0123456789abcdef''" "nat a" "nat b"]
    by (simp add: hex_digit_def)
  with ab show "a = b" by simp
qed

lemma hex_encode_inj:
  "\<forall>b \<in> set xs \<union> set ys. 0 \<le> b \<and> b < 256 \<Longrightarrow> hex_encode xs = hex_encode ys \<Longrightarrow> xs = ys"
proof (induction xs arbitrary: ys)
  case Nil
  then show ?case by (cases ys) (simp_all add: hex_encode_def)
next
  case (Cons x xs)
  then obtain y ys' where ys: "ys = y # ys'" by (cases ys) (simp_all add: hex_encode_def)
  with Cons.prems have "hex_digit (x div 16) = hex_digit (y div 16)"
    and "hex_digit (x mod 16) = hex_digit (y mod 16)" and rest: "hex_encode xs = hex_encode ys'"
    by (simp_all add: hex_encode_def)
  with Cons.prems ys have "x div 16 = y div 16" and "x mod 16 = y mod 16"
    by (auto intro!: hex_digit_inj)
  then have "x = y" by (metis div_mult_mod_eq)
  with Cons.IH [OF _ rest] Cons.prems ys show ?case by simp
qed

text \<open>The standard's test vector.\<close>

lemma sha256_abc: "hex_encode (sha256 ''abc'')
    = ''ba7816bf8f01cfea414140de5dae2223b00361a396177a9cb410ff61f20015ad''"
  by code_simp

end
