(* ===== verification/Desired_State.thy ===== *)
theory Desired_State
  imports Config Sha256
begin

text \<open>
  \<^verbatim>\<open>autoscaler/desired_state.go\<close>: the desired-capacity document, its decoding from JSON, the
  canonical repository URL, validation, normalisation, and classification against the accepted
  generation. A JSON number is its literal; a JSON object is the map its members decode to.
  Parameters, all from the standard library: \<^verbatim>\<open>net/url\<close> (parsing, and printing from scheme, host
  and path), the JSON decoder and encoder, the integer a rational literal denotes
  (\<^verbatim>\<open>math/big\<close>) and \<^verbatim>\<open>strconv.ParseFloat\<close>.
\<close>

datatype json =
    JNull
  | JBool bool
  | JNumber string
  | JString string
  | JArray "json list"
  | JObject "(string \<times> json) list"

record url =
  url_Scheme :: string
  url_Host :: string
  url_Hostname :: string
  url_Port :: string
  url_Path :: string
  url_hasUser :: bool
  url_RawQuery :: string
  url_Fragment :: string

record net_url =
  nu_Parse :: "string \<Rightarrow> url option"
  nu_String :: "string \<Rightarrow> string \<Rightarrow> string \<Rightarrow> string"

text \<open>A finite float: whole and within the range of \<^verbatim>\<open>int64\<close>, or printed as it is.\<close>

datatype float_value = WholeFloat int | OtherFloat string

text \<open>A value with its numbers normalised.\<close>

datatype normal_json =
    NNull
  | NBool bool
  | NInteger int
  | NFloat string
  | NString string
  | NArray "normal_json list"
  | NObject "(string \<times> normal_json) list"

record json_library =
  jl_Decode :: "string \<Rightarrow> json option"
  jl_Encode :: "normal_json \<Rightarrow> string"
  jl_RatInteger :: "string \<Rightarrow> int option"
  jl_ParseFloat :: "string \<Rightarrow> float_value option"

record desiredRepository =
  dr_URL :: string
  dr_Workers :: int

record desiredState =
  de_SchemaVersion :: int
  de_Generation :: int
  de_Scope :: string
  de_Repositories :: "desiredRepository list"
  de_Replicas :: "int option"

text \<open>The zero value of the Go struct.\<close>

definition zeroDesiredState :: desiredState where
  "zeroDesiredState = \<lparr>de_SchemaVersion = 0, de_Generation = 0, de_Scope = [],
     de_Repositories = [], de_Replicas = None\<rparr>"

record parsedDesiredState =
  pd_state :: desiredState
  pd_stateHash :: string
  pd_raw :: string

datatype desiredClassification =
    classificationInvalid | classificationStale | classificationUnchanged
  | classificationConflict | classificationNew

section \<open>Decoding\<close>

text \<open>Missing members read as \<^verbatim>\<open>nil\<close>, which is no number.\<close>

definition jsonInteger :: "json_library \<Rightarrow> json option \<Rightarrow> int option" where
  "jsonInteger lib value =
     (case value of
        Some (JNumber literal) \<Rightarrow>
          (case jl_RatInteger lib literal of
             None \<Rightarrow> None
           | Some n \<Rightarrow> if - max_int64 - 1 \<le> n \<and> n \<le> max_int64 then Some n else None)
      | _ \<Rightarrow> None)"

fun decode_repositories :: "json_library \<Rightarrow> json list \<Rightarrow> desiredRepository list option" where
  "decode_repositories lib [] = Some []"
| "decode_repositories lib (JObject members # rest) =
     (case map_of members ''url'' of
        Some (JString url) \<Rightarrow>
          (case jsonInteger lib (map_of members ''workers'') of
             None \<Rightarrow> None
           | Some workers \<Rightarrow>
               map_option ((#) \<lparr>dr_URL = url, dr_Workers = workers\<rparr>) (decode_repositories lib rest))
      | _ \<Rightarrow> None)"
| "decode_repositories lib (_ # rest) = None"

definition decode_replicas :: "json_library \<Rightarrow> json option \<Rightarrow> int option option" where
  "decode_replicas lib raw =
     (case raw of
        None \<Rightarrow> Some None
      | Some JNull \<Rightarrow> Some None
      | Some v \<Rightarrow> map_option Some (jsonInteger lib (Some v)))"

definition desiredStateFromJSON :: "json_library \<Rightarrow> (string, json) gomap \<Rightarrow> desiredState option" where
  "desiredStateFromJSON lib raw =
     (case jsonInteger lib (map_of raw ''schemaVersion'') of
        None \<Rightarrow> None
      | Some schemaVersion \<Rightarrow>
     (case jsonInteger lib (map_of raw ''generation'') of
        None \<Rightarrow> None
      | Some generation \<Rightarrow>
     (case map_of raw ''scope'' of
        Some (JString scope) \<Rightarrow>
     (case map_of raw ''repositories'' of
        Some (JArray rawRepositories) \<Rightarrow>
     (case decode_repositories lib rawRepositories of
        None \<Rightarrow> None
      | Some repositories \<Rightarrow>
     (case decode_replicas lib (map_of raw ''replicas'') of
        None \<Rightarrow> None
      | Some replicas \<Rightarrow>
          Some \<lparr>de_SchemaVersion = schemaVersion, de_Generation = generation, de_Scope = scope,
            de_Repositories = repositories, de_Replicas = replicas\<rparr>))
      | _ \<Rightarrow> None)
      | _ \<Rightarrow> None)))"

section \<open>Canonical repository URLs\<close>

definition net_JoinHostPort :: "string \<Rightarrow> string \<Rightarrow> string" where
  "net_JoinHostPort host port =
     (if CHR '':'' \<in> set host then ''['' @ host @ '']:'' @ port else host @ '':'' @ port)"

definition canonical_host :: "string \<Rightarrow> string \<Rightarrow> string \<Rightarrow> string" where
  "canonical_host scheme hostname port0 =
     (let port = (if scheme = ''http'' \<and> port0 = ''80'' \<or> scheme = ''https'' \<and> port0 = ''443''
            then [] else port0)
      in if port \<noteq> [] then net_JoinHostPort hostname port
         else if CHR '':'' \<in> set hostname then ''['' @ hostname @ '']''
         else hostname)"

definition canonicalRepositoryURL ::
  "unicode_tables \<Rightarrow> net_url \<Rightarrow> string \<Rightarrow> string option" where
  "canonicalRepositoryURL u net value =
     (if value = [] \<or> value = ''-'' \<or> value \<noteq> TrimSpace value \<or> has_rune unicode_IsSpace value
      then None
      else case nu_Parse net value of
          None \<Rightarrow> None
        | Some parsed \<Rightarrow>
            let scheme = strings_ToLower u (url_Scheme parsed) in
            if (scheme \<noteq> ''http'' \<and> scheme \<noteq> ''https'') \<or> url_Host parsed = []
              \<or> trim_char CHR ''/'' (url_Path parsed) = [] \<or> url_hasUser parsed
              \<or> url_RawQuery parsed \<noteq> [] \<or> url_Fragment parsed \<noteq> []
            then None
            else
              let path0 = trim_right_char CHR ''/'' (url_Path parsed);
                  path = (if strings_HasSuffix (strings_ToLower u path0) ''.git''
                    then take (length path0 - 4) path0 else path0)
              in if trim_char CHR ''/'' path = [] then None
                 else Some (trim_right_char CHR ''/'' (nu_String net scheme
                   (canonical_host scheme (strings_ToLower u (url_Hostname parsed)) (url_Port parsed))
                   path)))"

text \<open>The canonical URLs replace those of the state and of the raw document.\<close>

fun canonicalize_list ::
  "unicode_tables \<Rightarrow> net_url \<Rightarrow> desiredRepository list \<Rightarrow> desiredRepository list option" where
  "canonicalize_list u net [] = Some []"
| "canonicalize_list u net (r # rs) =
     (case canonicalRepositoryURL u net (dr_URL r) of
        None \<Rightarrow> None
      | Some canonical \<Rightarrow>
          map_option ((#) (r\<lparr>dr_URL := canonical\<rparr>)) (canonicalize_list u net rs))"

fun rewrite_urls :: "desiredRepository list \<Rightarrow> json list \<Rightarrow> json list" where
  "rewrite_urls (r # rs) (JObject members # js) =
     JObject (mput members ''url'' (JString (dr_URL r))) # rewrite_urls rs js"
| "rewrite_urls (r # rs) (j # js) = j # rewrite_urls rs js"
| "rewrite_urls _ js = js"

definition canonicalizeDesiredRepositoryURLs ::
  "unicode_tables \<Rightarrow> net_url \<Rightarrow> desiredState \<Rightarrow> (string, json) gomap
    \<Rightarrow> (desiredState \<times> (string, json) gomap) option" where
  "canonicalizeDesiredRepositoryURLs u net state raw =
     (if de_Scope state \<noteq> ''repo'' then Some (state, raw)
      else case canonicalize_list u net (de_Repositories state) of
          None \<Rightarrow> None
        | Some repositories \<Rightarrow>
            Some (state\<lparr>de_Repositories := repositories\<rparr>,
              (case map_of raw ''repositories'' of
                 Some (JArray js) \<Rightarrow> mput raw ''repositories'' (JArray (rewrite_urls repositories js))
               | _ \<Rightarrow> raw)))"

section \<open>Validation and classification\<close>

fun validate_repositories ::
  "unicode_tables \<Rightarrow> net_url \<Rightarrow> string list \<Rightarrow> desiredRepository list \<Rightarrow> goerr option" where
  "validate_repositories u net seen [] = None"
| "validate_repositories u net seen (r # rs) =
     (case canonicalRepositoryURL u net (dr_URL r) of
        None \<Rightarrow> Some err_other
      | Some canonical \<Rightarrow>
          if dr_Workers r < 0 then Some err_other
          else if canonical \<in> set seen then Some err_other
          else validate_repositories u net (canonical # seen) rs)"

definition validateDesiredState ::
  "unicode_tables \<Rightarrow> net_url \<Rightarrow> desiredState \<Rightarrow> string \<Rightarrow> goerr option" where
  "validateDesiredState u net state expectedScope =
     (if de_SchemaVersion state \<noteq> 1 then Some err_other
      else if de_Generation state < 1 then Some err_other
      else if expectedScope \<noteq> [] \<and> de_Scope state \<noteq> expectedScope then Some err_other
      else if de_Scope state = ''repo'' then
        (if de_Repositories state = [] then Some err_other
         else if de_Replicas state \<noteq> None then Some err_other
         else validate_repositories u net [] (de_Repositories state))
      else if de_Scope state = ''org'' \<or> de_Scope state = ''ent'' then
        (if de_Repositories state \<noteq> [] then Some err_other
         else case de_Replicas state of
             None \<Rightarrow> Some err_other
           | Some n \<Rightarrow> fail_if (n < 0) err_other)
      else Some err_other)"

section \<open>Normalisation and hash\<close>

definition normalize_number :: "json_library \<Rightarrow> string \<Rightarrow> normal_json option" where
  "normalize_number lib literal =
     (case jl_RatInteger lib literal of
        Some n \<Rightarrow> Some (NInteger n)
      | None \<Rightarrow>
          (case jl_ParseFloat lib literal of
             None \<Rightarrow> None
           | Some (WholeFloat n) \<Rightarrow> Some (NInteger n)
           | Some (OtherFloat text) \<Rightarrow> Some (NFloat text)))"

fun normalizeJSONValue :: "json_library \<Rightarrow> json \<Rightarrow> normal_json option"
  and normalize_list :: "json_library \<Rightarrow> json list \<Rightarrow> normal_json list option"
  and normalize_members ::
    "json_library \<Rightarrow> (string \<times> json) list \<Rightarrow> (string \<times> normal_json) list option" where
  "normalizeJSONValue lib (JObject members) = map_option NObject (normalize_members lib members)"
| "normalizeJSONValue lib (JArray items) = map_option NArray (normalize_list lib items)"
| "normalizeJSONValue lib (JNumber literal) = normalize_number lib literal"
| "normalizeJSONValue lib JNull = Some NNull"
| "normalizeJSONValue lib (JBool b) = Some (NBool b)"
| "normalizeJSONValue lib (JString text) = Some (NString text)"
| "normalize_list lib [] = Some []"
| "normalize_list lib (v # vs) =
     (case normalizeJSONValue lib v of
        None \<Rightarrow> None
      | Some n \<Rightarrow> map_option ((#) n) (normalize_list lib vs))"
| "normalize_members lib [] = Some []"
| "normalize_members lib ((k, v) # vs) =
     (case normalizeJSONValue lib v of
        None \<Rightarrow> None
      | Some n \<Rightarrow> map_option ((#) (k, n)) (normalize_members lib vs))"

definition stateHash_of :: "json_library \<Rightarrow> json \<Rightarrow> string option" where
  "stateHash_of lib document =
     (case normalizeJSONValue lib document of
        None \<Rightarrow> None
      | Some normalized \<Rightarrow>
          let canonical = jl_Encode lib normalized
          in if canonical = [] then None else Some (hex_encode (sha256 canonical)))"

section \<open>Parsing and classification\<close>

record desired_library =
  dl_tables :: unicode_tables
  dl_url :: net_url
  dl_json :: json_library

definition parseDesiredState ::
  "desired_library \<Rightarrow> string \<Rightarrow> string \<Rightarrow> parsedDesiredState option" where
  "parseDesiredState lib data expectedScope =
     (case jl_Decode (dl_json lib) data of
        Some (JObject raw) \<Rightarrow>
          (case desiredStateFromJSON (dl_json lib) raw of
             None \<Rightarrow> None
           | Some decoded \<Rightarrow>
               (case canonicalizeDesiredRepositoryURLs (dl_tables lib) (dl_url lib) decoded raw of
                  None \<Rightarrow> None
                | Some (state, raw') \<Rightarrow>
                    if validateDesiredState (dl_tables lib) (dl_url lib) state expectedScope \<noteq> None
                    then None
                    else map_option (\<lambda>h. \<lparr>pd_state = state, pd_stateHash = h, pd_raw = data\<rparr>)
                      (stateHash_of (dl_json lib) (JObject raw'))))
      | _ \<Rightarrow> None)"

definition classifyDesiredState ::
  "desired_library \<Rightarrow> string \<Rightarrow> string \<Rightarrow> int \<Rightarrow> string
    \<Rightarrow> desiredClassification \<times> parsedDesiredState option" where
  "classifyDesiredState lib data expectedScope currentGeneration currentHash =
     (case parseDesiredState lib data expectedScope of
        None \<Rightarrow> (classificationInvalid, None)
      | Some parsed \<Rightarrow>
          ((if de_Generation (pd_state parsed) < currentGeneration then classificationStale
            else if de_Generation (pd_state parsed) = currentGeneration
              \<and> pd_stateHash parsed = currentHash then classificationUnchanged
            else if de_Generation (pd_state parsed) = currentGeneration then classificationConflict
            else classificationNew), Some parsed))"

lemma parse_valid:
  "parseDesiredState lib data scope = Some p
     \<Longrightarrow> validateDesiredState (dl_tables lib) (dl_url lib) (pd_state p) scope = None \<and> pd_raw p = data"
  by (auto simp: parseDesiredState_def split: option.splits json.splits if_splits)

lemma valid_generation: "validateDesiredState u net s scope = None \<Longrightarrow> 1 \<le> de_Generation s"
  by (auto simp: validateDesiredState_def split: if_splits)

lemma classify_new:
  assumes "classifyDesiredState lib data scope g h = (classificationNew, p)"
  obtains parsed where "p = Some parsed" "parseDesiredState lib data scope = Some parsed"
    "g < de_Generation (pd_state parsed)"
proof -
  obtain parsed where p: "parseDesiredState lib data scope = Some parsed"
    using assms by (cases "parseDesiredState lib data scope") (auto simp: classifyDesiredState_def)
  have "p = Some parsed" "g < de_Generation (pd_state parsed)"
    using assms p by (auto simp: classifyDesiredState_def split: if_splits)
  with p show thesis by (intro that)
qed

end
