(* ===== verification/Labels.thy ===== *)
theory Labels
  imports Desired_State
begin

text \<open>
  Target identities (\<^verbatim>\<open>autoscaler/labels.go\<close>) and the capacity acknowledgement built from them
  (\<^verbatim>\<open>autoscaler/state_files.go\<close>): the labels of a worker, the targets of a desired state, the
  slot keys it configures, and the difference between two states.
\<close>

record targetSpec =
  ts_key :: string
  ts_registrationURL :: string
  ts_repository :: string
  ts_maximum :: int
  ts_scaleSetName :: string

definition max_int32 :: int where
  "max_int32 = 2147483647"

definition appendUnique :: "unicode_tables \<Rightarrow> string list \<Rightarrow> string \<Rightarrow> string list" where
  "appendUnique u labels candidate =
     (if list_ex (\<lambda>existing. strings_EqualFold u existing candidate) labels then labels
      else labels @ [candidate])"

definition effectiveLabels :: "unicode_tables \<Rightarrow> config \<Rightarrow> string list" where
  "effectiveLabels u cfg =
     (let labels = appendUnique u (appendUnique u (cf_labels cfg) ''linux'') (cf_architectureLabel cfg)
      in if cf_noDefaultLabels cfg then labels else appendUnique u labels ''self-hosted'')"

definition repositoryTargetKey :: "string \<Rightarrow> string" where
  "repositoryTargetKey repositoryURL = ''repo-'' @ hex_encode (take 8 (sha256 repositoryURL))"

text \<open>The loop over the runes: what the builder holds, and whether it ends with a hyphen just added.\<close>

fun sanitize_runes :: "unicode_tables \<Rightarrow> int list \<Rightarrow> string \<Rightarrow> bool \<Rightarrow> string" where
  "sanitize_runes u [] built lastHyphen = built"
| "sanitize_runes u (r # rs) built lastHyphen =
     (if unicode_IsLetter u r \<or> unicode_IsDigit u r
      then sanitize_runes u rs (built @ string_of_runes [r]) False
      else if \<not> lastHyphen \<and> built \<noteq> [] then sanitize_runes u rs (built @ ''-'') True
      else sanitize_runes u rs built lastHyphen)"

definition sanitizeIdentifier :: "unicode_tables \<Rightarrow> string \<Rightarrow> nat \<Rightarrow> string" where
  "sanitizeIdentifier u value maximum =
     (let result = trim_char CHR ''-'' (sanitize_runes u (range_runes (strings_ToLower u value)) [] False)
      in if length result > maximum then trim_char CHR ''-'' (take maximum result) else result)"

definition stableScaleSetName :: "unicode_tables \<Rightarrow> string \<Rightarrow> string \<Rightarrow> string \<Rightarrow> string" where
  "stableScaleSetName u profileID namePrefix registrationURL =
     (let hash = hex_encode (take 6 (sha256 (namePrefix @ CHR 0x0A # registrationURL)));
          profile = sanitizeIdentifier u profileID 40
      in ''pitcrew-'' @ (if profile = [] then ''profile'' else profile) @ ''-'' @ hash)"

section \<open>Targets\<close>

fun repository_targets ::
  "unicode_tables \<Rightarrow> net_url \<Rightarrow> config \<Rightarrow> string list \<Rightarrow> desiredRepository list
    \<Rightarrow> targetSpec list option" where
  "repository_targets u net cfg seen [] = Some []"
| "repository_targets u net cfg seen (r # rs) =
     (case canonicalRepositoryURL u net (dr_URL r) of
        None \<Rightarrow> None
      | Some canonicalURL \<Rightarrow>
          if canonicalURL \<in> set seen then None
          else if dr_Workers r > max_int32 then None
          else map_option ((#)
            \<lparr>ts_key = repositoryTargetKey canonicalURL, ts_registrationURL = canonicalURL,
             ts_repository = canonicalURL, ts_maximum = dr_Workers r,
             ts_scaleSetName = stableScaleSetName u (cf_profileID cfg) (cf_namePrefix cfg) canonicalURL\<rparr>)
            (repository_targets u net cfg (canonicalURL # seen) rs))"

text \<open>
  A state of organization or enterprise scope with no replicas makes the source dereference a
  nil pointer; validation excludes it, and here it is an error.
\<close>

definition scope_target :: "unicode_tables \<Rightarrow> config \<Rightarrow> string \<Rightarrow> int option \<Rightarrow> targetSpec list option" where
  "scope_target u cfg registrationURL replicas =
     (case replicas of
        None \<Rightarrow> None
      | Some n \<Rightarrow>
          if n > max_int32 then None
          else Some [\<lparr>ts_key = ''scope'', ts_registrationURL = registrationURL, ts_repository = [],
            ts_maximum = n,
            ts_scaleSetName = stableScaleSetName u (cf_profileID cfg) (cf_namePrefix cfg)
              registrationURL\<rparr>])"

definition buildTargetSpecs ::
  "unicode_tables \<Rightarrow> net_url \<Rightarrow> desiredState \<Rightarrow> config \<Rightarrow> targetSpec list option" where
  "buildTargetSpecs u net state cfg =
     map_option (sort_key ts_key)
       (if de_Scope state = ''repo'' then repository_targets u net cfg [] (de_Repositories state)
        else if de_Scope state = ''org'' then
          scope_target u cfg (''https://github.com/'' @ cf_organization cfg) (de_Replicas state)
        else if de_Scope state = ''ent'' then
          scope_target u cfg (''https://github.com/enterprises/'' @ cf_enterprise cfg) (de_Replicas state)
        else None)"

section \<open>Slot keys\<close>

definition slot_keys_of :: "string \<Rightarrow> int \<Rightarrow> string list" where
  "slot_keys_of targetKey n = map (\<lambda>ordinal. targetKey @ ''-'' @ pad6 ordinal) [1..n]"

definition configuredSlotKeys :: "desiredState \<Rightarrow> string list" where
  "configuredSlotKeys state =
     sort (if de_Scope state = ''repo''
       then concat (map (\<lambda>r. slot_keys_of (repositoryTargetKey (dr_URL r)) (dr_Workers r))
         (de_Repositories state))
       else case de_Replicas state of None \<Rightarrow> [] | Some n \<Rightarrow> slot_keys_of ''scope'' n)"

text \<open>Added, draining and unchanged keys; the previous keys are visited as a set.\<close>

definition diffSlotKeys ::
  "desiredState \<Rightarrow> desiredState \<Rightarrow> string list \<times> string list \<times> string list" where
  "diffSlotKeys previous current =
     (let before = configuredSlotKeys previous; now = configuredSlotKeys current in
      (sort (filter (\<lambda>key. key \<notin> set before) now),
       sort (filter (\<lambda>key. key \<notin> set now) (remdups before)),
       sort (filter (\<lambda>key. key \<in> set before) now)))"

record acknowledgement =
  ak_SchemaVersion :: int
  ak_Status :: string
  ak_Generation :: int
  ak_ManagerContractVersion :: int
  ak_DesiredStateHash :: string
  ak_ObservedAt :: stamp
  ak_DesiredSlots :: nat
  ak_AddedSlots :: nat
  ak_DrainingSlots :: nat
  ak_UnchangedSlots :: nat
  ak_AddedKeys :: "string list"
  ak_DrainingKeys :: "string list"
  ak_UnchangedKeys :: "string list"
  ak_ActivationMode :: string
  ak_ActiveSlots :: int
  ak_MinimumIdleSlots :: int

definition buildAcknowledgement ::
  "parsedDesiredState \<Rightarrow> desiredState \<Rightarrow> int \<Rightarrow> int \<Rightarrow> int \<Rightarrow> acknowledgement" where
  "buildAcknowledgement state previous activeSlots minimumIdle now =
     (let (added, draining, unchanged) = diffSlotKeys previous (pd_state state) in
      \<lparr>ak_SchemaVersion = 1, ak_Status = ''accepted'',
       ak_Generation = de_Generation (pd_state state),
       ak_ManagerContractVersion = managerContractVersion,
       ak_DesiredStateHash = pd_stateHash state, ak_ObservedAt = format_RFC3339 now,
       ak_DesiredSlots = length (configuredSlotKeys (pd_state state)),
       ak_AddedSlots = length added, ak_DrainingSlots = length draining,
       ak_UnchangedSlots = length unchanged, ak_AddedKeys = added, ak_DrainingKeys = draining,
       ak_UnchangedKeys = unchanged, ak_ActivationMode = ''autoscaled'',
       ak_ActiveSlots = activeSlots, ak_MinimumIdleSlots = minimumIdle\<rparr>)"

section \<open>Slot keys identify target and ordinal\<close>

lemma digits_value_zeros: "digits_value (replicate k CHR ''0'' @ s) = digits_value s"
  by (induction k) (simp_all add: digits_value_def byte_of_def)

lemma digits_value_pad6: "0 \<le> n \<Longrightarrow> digits_value (pad6 n) = n"
  using show_nat_digits [of "nat n"] by (simp add: pad6_def Let_def digits_value_zeros show_int_def)

lemma pad6_inj: "0 \<le> m \<Longrightarrow> 0 \<le> n \<Longrightarrow> pad6 m = pad6 n \<Longrightarrow> m = n"
  by (metis digits_value_pad6)

lemma length_repositoryTargetKey [simp]: "length (repositoryTargetKey url) = 21"
  by (simp add: repositoryTargetKey_def)

lemma distinct_slot_keys_of: "distinct (slot_keys_of key n)"
  by (auto simp: slot_keys_of_def distinct_map inj_on_def intro: pad6_inj)

lemma length_slot_keys_of: "length (slot_keys_of key n) = nat n"
  by (simp add: slot_keys_of_def)

lemma slot_keys_disjoint:
  "length k = length l \<Longrightarrow> k \<noteq> l \<Longrightarrow> set (slot_keys_of k m) \<inter> set (slot_keys_of l n) = {}"
  by (auto simp: slot_keys_of_def)

text \<open>The repositories of a state have keys of their own: no two truncated digests collide.\<close>

definition distinct_targets :: "desiredState \<Rightarrow> bool" where
  "distinct_targets s \<longleftrightarrow>
     de_Scope s = ''repo'' \<longrightarrow> distinct (map (repositoryTargetKey \<circ> dr_URL) (de_Repositories s))"

lemma distinct_repository_keys:
  "distinct (map (repositoryTargetKey \<circ> dr_URL) rs) \<Longrightarrow>
     distinct (concat (map (\<lambda>r. slot_keys_of (repositoryTargetKey (dr_URL r)) (dr_Workers r)) rs))"
proof (induction rs)
  case (Cons r rs)
  have "set (slot_keys_of (repositoryTargetKey (dr_URL r)) (dr_Workers r))
      \<inter> set (slot_keys_of (repositoryTargetKey (dr_URL q)) (dr_Workers q)) = {}"
    if "q \<in> set rs" for q
    using that Cons.prems by (intro slot_keys_disjoint) auto
  with Cons show ?case by (auto simp: distinct_slot_keys_of)
qed simp

lemma distinct_configuredSlotKeys: "distinct_targets s \<Longrightarrow> distinct (configuredSlotKeys s)"
  by (auto simp: configuredSlotKeys_def distinct_targets_def distinct_repository_keys
    distinct_slot_keys_of split: option.splits)

lemma configured_count:
  "length (configuredSlotKeys s) =
     (if de_Scope s = ''repo'' then sum_list (map (nat \<circ> dr_Workers) (de_Repositories s))
      else case de_Replicas s of None \<Rightarrow> 0 | Some n \<Rightarrow> nat n)"
  by (simp add: configuredSlotKeys_def length_concat length_slot_keys_of comp_def split: option.splits)

lemma partition_length:
  "length (filter P xs) + length (filter (\<lambda>x. \<not> P x) xs) = length xs"
  by (induction xs) auto

lemma common_length:
  assumes "distinct xs" "distinct ys"
  shows "length (filter (\<lambda>x. x \<in> set ys) xs) = length (filter (\<lambda>y. y \<in> set xs) ys)"
proof -
  have "set (filter (\<lambda>x. x \<in> set ys) xs) = set (filter (\<lambda>y. y \<in> set xs) ys)" by auto
  with assms show ?thesis by (metis distinct_card distinct_filter)
qed

lemma diff_counts:
  assumes "diffSlotKeys previous current = (added, draining, unchanged)"
    and "distinct_targets previous" "distinct_targets current"
  shows "length added + length unchanged = length (configuredSlotKeys current)"
    and "length draining + length unchanged = length (configuredSlotKeys previous)"
proof -
  let ?before = "configuredSlotKeys previous" and ?now = "configuredSlotKeys current"
  have d: "distinct ?before" "distinct ?now" using assms by (simp_all add: distinct_configuredSlotKeys)
  have parts: "length added = length (filter (\<lambda>k. k \<notin> set ?before) ?now)"
    "length draining = length (filter (\<lambda>k. k \<notin> set ?now) ?before)"
    "length unchanged = length (filter (\<lambda>k. k \<in> set ?before) ?now)"
    using assms(1) d by (auto simp: diffSlotKeys_def Let_def distinct_remdups_id)
  show "length added + length unchanged = length ?now"
    using parts partition_length [of "\<lambda>k. k \<in> set ?before" ?now] by simp
  show "length draining + length unchanged = length ?before"
    using parts common_length [OF d(2) d(1)] partition_length [of "\<lambda>k. k \<in> set ?now" ?before] by simp
qed

lemma diff_keys:
  assumes "diffSlotKeys previous current = (added, draining, unchanged)"
  shows "set added = set (configuredSlotKeys current) - set (configuredSlotKeys previous)"
    and "set draining = set (configuredSlotKeys previous) - set (configuredSlotKeys current)"
    and "set unchanged = set (configuredSlotKeys previous) \<inter> set (configuredSlotKeys current)"
  using assms by (auto simp: diffSlotKeys_def Let_def)

section \<open>What an acknowledgement reports\<close>

text \<open>
  C39: an acknowledgement accounts for every slot. When no two repositories of a state share a
  truncated digest, the added and unchanged slots are together the slots of the new state, whose
  number is the workers it asks for; the draining and unchanged slots are together those of the
  previous state; and a key is reported as added exactly when only the new state configures it,
  as draining exactly when only the previous one does.
\<close>

theorem acknowledgement_accounts_for_slots:
  assumes "distinct_targets previous" "distinct_targets (pd_state state)"
    and "ack = buildAcknowledgement state previous active idle now"
  shows "ak_AddedSlots ack + ak_UnchangedSlots ack = ak_DesiredSlots ack
    \<and> ak_DesiredSlots ack =
        (if de_Scope (pd_state state) = ''repo''
         then sum_list (map (nat \<circ> dr_Workers) (de_Repositories (pd_state state)))
         else case de_Replicas (pd_state state) of None \<Rightarrow> 0 | Some n \<Rightarrow> nat n)
    \<and> ak_DrainingSlots ack + ak_UnchangedSlots ack = length (configuredSlotKeys previous)
    \<and> set (ak_AddedKeys ack)
        = set (configuredSlotKeys (pd_state state)) - set (configuredSlotKeys previous)
    \<and> set (ak_DrainingKeys ack)
        = set (configuredSlotKeys previous) - set (configuredSlotKeys (pd_state state))"
proof -
  obtain added draining unchanged
    where d: "diffSlotKeys previous (pd_state state) = (added, draining, unchanged)"
    by (cases "diffSlotKeys previous (pd_state state)") auto
  have "ak_AddedSlots ack = length added" "ak_UnchangedSlots ack = length unchanged"
    "ak_DrainingSlots ack = length draining" "ak_AddedKeys ack = added" "ak_DrainingKeys ack = draining"
    "ak_DesiredSlots ack = length (configuredSlotKeys (pd_state state))"
    using d assms(3) by (simp_all add: buildAcknowledgement_def)
  with diff_counts [OF d assms(1,2)] diff_keys [OF d] configured_count [of "pd_state state"]
  show ?thesis by (intro conjI) simp_all
qed

definition demo_org :: "int \<Rightarrow> int \<Rightarrow> desiredState" where
  "demo_org generation n = \<lparr>de_SchemaVersion = 1, de_Generation = generation, de_Scope = ''org'',
     de_Repositories = [], de_Replicas = Some n\<rparr>"

theorem acknowledgement_accounts_for_slots_witness:
  "let ack = buildAcknowledgement
         \<lparr>pd_state = demo_org 2 1, pd_stateHash = ''h'', pd_raw = []\<rparr> (demo_org 1 3) 2 0 0
   in ak_DesiredSlots ack = 1 \<and> ak_AddedSlots ack + ak_UnchangedSlots ack = 1
    \<and> ak_DrainingSlots ack + ak_UnchangedSlots ack = 3
    \<and> ''scope-000003'' \<in> set (ak_DrainingKeys ack)"
proof -
  let ?state = "\<lparr>pd_state = demo_org 2 1, pd_stateHash = ''h'', pd_raw = []\<rparr>"
  have "distinct_targets (demo_org 1 3)" "distinct_targets (pd_state ?state)"
    by (simp_all add: distinct_targets_def demo_org_def)
  note main = acknowledgement_accounts_for_slots [OF this refl, of 2 0 0]
  have keys: "''scope-000003'' \<in> set (configuredSlotKeys (demo_org 1 3))"
    "''scope-000003'' \<notin> set (configuredSlotKeys (demo_org 2 1))"
    "length (configuredSlotKeys (demo_org 1 3)) = 3" by code_simp+
  from main keys show ?thesis by (simp add: Let_def demo_org_def)
qed

end
