(* ===== verification/Identity.thy ===== *)
theory Identity
  imports Errors
begin

text \<open>
  \<^verbatim>\<open>identity.go\<close>: the identity syntax of profiles, slots, registrations, namespaces and
  fingerprints. Each anchored regular expression is a predicate on byte lists: a first-byte
  class, a rest class and a length bound. The classes are ASCII, so matching on runes (as
  Go does) and on bytes agree; Go's \<^verbatim>\<open>$\<close> without the multi-line flag is the end of text.
\<close>

definition is_lower :: "char \<Rightarrow> bool" where
  "is_lower c \<longleftrightarrow> CHR ''a'' \<le> c \<and> c \<le> CHR ''z''"

definition is_upper :: "char \<Rightarrow> bool" where
  "is_upper c \<longleftrightarrow> CHR ''A'' \<le> c \<and> c \<le> CHR ''Z''"

definition is_digit :: "char \<Rightarrow> bool" where
  "is_digit c \<longleftrightarrow> CHR ''0'' \<le> c \<and> c \<le> CHR ''9''"

definition is_alnum :: "char \<Rightarrow> bool" where
  "is_alnum c \<longleftrightarrow> is_lower c \<or> is_upper c \<or> is_digit c"

lemmas char_class_defs = is_lower_def is_upper_def is_digit_def is_alnum_def

text \<open>\<^verbatim>\<open>^[first][rest]{0,n}$\<close>.\<close>

fun token_match :: "(char \<Rightarrow> bool) \<Rightarrow> (char \<Rightarrow> bool) \<Rightarrow> nat \<Rightarrow> string \<Rightarrow> bool" where
  "token_match first rest n [] \<longleftrightarrow> False"
| "token_match first rest n (c # cs) \<longleftrightarrow> first c \<and> length cs \<le> n \<and> list_all rest cs"

definition profileIDPattern :: "string \<Rightarrow> bool" where
  "profileIDPattern =
     token_match is_lower (\<lambda>c. is_lower c \<or> is_digit c \<or> c = CHR ''-'') 31"

definition slotKeyPattern :: "string \<Rightarrow> bool" where
  "slotKeyPattern =
     token_match is_alnum (\<lambda>c. is_alnum c \<or> c \<in> set ''._:-'') 127"

definition registrationNamePattern :: "string \<Rightarrow> bool" where
  "registrationNamePattern =
     token_match is_alnum (\<lambda>c. is_alnum c \<or> c \<in> set ''_.-'') 255"

definition maxFingerprintBytes :: nat where
  "maxFingerprintBytes = 128"

definition fingerprintPattern :: "string \<Rightarrow> bool" where
  "fingerprintPattern s \<longleftrightarrow>
     s \<noteq> [] \<and> length s \<le> 128 \<and> list_all (\<lambda>c. is_alnum c \<or> c \<in> set ''_-'') s"

definition validateProfileID :: "string \<Rightarrow> goerr option" where
  "validateProfileID profileID = fail_if (\<not> profileIDPattern profileID) (raise ErrInvalidIdentity)"

definition validateSlotKey :: "string \<Rightarrow> goerr option" where
  "validateSlotKey slotKey = fail_if (\<not> slotKeyPattern slotKey) (raise ErrInvalidIdentity)"

definition validateRegistrationName :: "string \<Rightarrow> goerr option" where
  "validateRegistrationName name =
     fail_if (\<not> registrationNamePattern name) (raise ErrInvalidIdentity)"

definition validateLeaseIdentity :: "string \<Rightarrow> string \<Rightarrow> goerr option" where
  "validateLeaseIdentity profileID slotKey =
     (case validateProfileID profileID of
        Some e \<Rightarrow> Some e
      | None \<Rightarrow> validateSlotKey slotKey)"

definition validateNamespace :: "string \<Rightarrow> goerr option" where
  "validateNamespace ns =
     (if ns = [] then None
      else fail_if (\<not> profileIDPattern ns) (raise ErrInvalidIdentity))"

definition validateFingerprint :: "string \<Rightarrow> goerr option" where
  "validateFingerprint fingerprint =
     (if fingerprint = [] then None
      else fail_if (length fingerprint > maxFingerprintBytes \<or> \<not> fingerprintPattern fingerprint)
             (raise ErrInvalidPolicy))"

lemmas identity_validators =
  validateProfileID_def validateSlotKey_def validateRegistrationName_def
  validateNamespace_def validateFingerprint_def

lemma validateLeaseIdentity_None [simp]:
  "validateLeaseIdentity p k = None \<longleftrightarrow> profileIDPattern p \<and> slotKeyPattern k"
  by (simp add: validateLeaseIdentity_def identity_validators split: option.splits)

lemma validateLeaseIdentity_Some:
  "validateLeaseIdentity p k = Some e \<Longrightarrow> e = raise ErrInvalidIdentity"
  by (auto simp: validateLeaseIdentity_def identity_validators split: option.splits)

lemma validateProfileID_None [simp]: "validateProfileID p = None \<longleftrightarrow> profileIDPattern p"
  by (simp add: identity_validators)

lemma validateProfileID_Some [simp]:
  "validateProfileID p = Some e \<longleftrightarrow> \<not> profileIDPattern p \<and> e = raise ErrInvalidIdentity"
  by (auto simp: identity_validators)

lemma validateSlotKey_None [simp]: "validateSlotKey k = None \<longleftrightarrow> slotKeyPattern k"
  by (simp add: identity_validators)

lemma token_match_chars:
  "token_match first rest n s \<Longrightarrow> c \<in> set s \<Longrightarrow> first c \<or> rest c"
  by (cases s) (auto simp: list_all_iff)

lemma token_match_nonempty: "token_match first rest n s \<Longrightarrow> s \<noteq> []"
  by (cases s) auto

lemma profileIDPattern_nonempty: "profileIDPattern p \<Longrightarrow> p \<noteq> []"
  by (auto simp: profileIDPattern_def)

lemma slotKeyPattern_nonempty: "slotKeyPattern k \<Longrightarrow> k \<noteq> []"
  by (auto simp: slotKeyPattern_def)

lemma profileID_no_slash: "profileIDPattern p \<Longrightarrow> CHR ''/'' \<notin> set p"
  unfolding profileIDPattern_def
  by (auto dest!: token_match_chars simp: char_class_defs)

lemma profileID_no_hash: "profileIDPattern p \<Longrightarrow> CHR ''#'' \<notin> set p"
  unfolding profileIDPattern_def
  by (auto dest!: token_match_chars simp: char_class_defs)

lemma slotKey_no_hash: "slotKeyPattern k \<Longrightarrow> CHR ''#'' \<notin> set k"
  unfolding slotKeyPattern_def
  by (auto dest!: token_match_chars simp: char_class_defs)

end
