(* ===== verification/Policy.thy ===== *)
theory Policy
  imports Identity
begin

text \<open>
  \<^verbatim>\<open>policy.go\<close>: the host policy and its validation, field by field in the source's order.
  All quantities are Go \<^verbatim>\<open>int\<close>s; the running reservation total wraps at 64 bits.
\<close>

record ProfilePolicy =
  pp_ProfileID :: string
  pp_UnitCost :: int
  pp_ReservedUnits :: int
  pp_Borrowable :: bool
  pp_ProfilePolicyFingerprint :: string

record HostPolicy =
  hp_Generation :: int
  hp_TotalUnits :: int
  hp_Namespace :: string
  hp_CapacityUnits :: int
  hp_SafetyMarginUnits :: int
  hp_HostPolicyFingerprint :: string
  hp_Profiles :: "ProfilePolicy list"

text \<open>The zero value \<^verbatim>\<open>HostPolicy{}\<close> of a coordinator no policy was applied to.\<close>

definition zeroPolicy :: HostPolicy where
  "zeroPolicy = \<lparr>hp_Generation = 0, hp_TotalUnits = 0, hp_Namespace = [], hp_CapacityUnits = 0,
     hp_SafetyMarginUnits = 0, hp_HostPolicyFingerprint = [], hp_Profiles = []\<rparr>"

definition ProfilePolicy_validate :: "ProfilePolicy \<Rightarrow> goerr option" where
  "ProfilePolicy_validate p =
     (case validateProfileID (pp_ProfileID p) of
        Some e \<Rightarrow> Some (wrap_both ErrInvalidPolicy e)
      | None \<Rightarrow>
          if pp_UnitCost p < 1 then Some (raise ErrInvalidPolicy)
          else if pp_ReservedUnits p < 0 then Some (raise ErrInvalidPolicy)
          else validateFingerprint (pp_ProfilePolicyFingerprint p))"

text \<open>The capacity checks of \<^verbatim>\<open>HostPolicy.validate\<close>: the \<^verbatim>\<open>switch\<close> on measured capacity.\<close>

definition validate_capacity :: "HostPolicy \<Rightarrow> goerr option" where
  "validate_capacity h =
     (if hp_CapacityUnits h < 0 \<or> hp_SafetyMarginUnits h < 0 then Some (raise ErrInvalidPolicy)
      else if hp_CapacityUnits h = 0 \<and> hp_SafetyMarginUnits h > 0
        then Some (raise ErrInvalidPolicy)
      else if hp_CapacityUnits h > 0 then
        (if hp_SafetyMarginUnits h \<ge> hp_CapacityUnits h then Some (raise ErrInvalidPolicy)
         else fail_if (sub64 (hp_CapacityUnits h) (hp_SafetyMarginUnits h) \<noteq> hp_TotalUnits h)
                (raise ErrInvalidPolicy))
      else None)"

text \<open>
  The loop over the profiles: \<open>seen\<close> holds the identities met so far and \<open>reserved\<close> the
  running total; the total is compared with the budget after the loop.
\<close>

fun validate_profiles ::
  "int \<Rightarrow> string list \<Rightarrow> int \<Rightarrow> ProfilePolicy list \<Rightarrow> goerr option" where
  "validate_profiles budget seen reserved [] =
     fail_if (reserved > budget) (raise ErrInvalidPolicy)"
| "validate_profiles budget seen reserved (p # ps) =
     (case ProfilePolicy_validate p of
        Some e \<Rightarrow> Some e
      | None \<Rightarrow>
          if pp_ProfileID p \<in> set seen then Some (raise ErrInvalidPolicy)
          else if pp_UnitCost p > budget then Some (raise ErrInvalidPolicy)
          else if pp_ReservedUnits p > budget then Some (raise ErrInvalidPolicy)
          else validate_profiles budget (pp_ProfileID p # seen)
                 (add64 reserved (pp_ReservedUnits p)) ps)"

definition HostPolicy_validate :: "HostPolicy \<Rightarrow> goerr option" where
  "HostPolicy_validate h =
     (if hp_Generation h < 1 then Some (raise ErrInvalidPolicy)
      else if hp_TotalUnits h < 1 then Some (raise ErrInvalidPolicy)
      else first_error
        [validateNamespace (hp_Namespace h),
         validateFingerprint (hp_HostPolicyFingerprint h),
         validate_capacity h,
         validate_profiles (hp_TotalUnits h) [] 0 (hp_Profiles h)])"

definition EffectiveTotalUnits :: "HostPolicy \<Rightarrow> int" where
  "EffectiveTotalUnits h = hp_TotalUnits h"

text \<open>The first profile with the identity, as the linear search of \<^verbatim>\<open>HostPolicy.profile\<close>.\<close>

definition policy_profile :: "HostPolicy \<Rightarrow> string \<Rightarrow> ProfilePolicy option" where
  "policy_profile h profileID = find (\<lambda>p. pp_ProfileID p = profileID) (hp_Profiles h)"

definition sortedProfileIDs :: "HostPolicy \<Rightarrow> string list" where
  "sortedProfileIDs h = sort (map pp_ProfileID (hp_Profiles h))"

text \<open>Copying has no observable effect on values.\<close>

definition clonePolicy :: "HostPolicy \<Rightarrow> HostPolicy" where
  "clonePolicy p =
     \<lparr>hp_Generation = hp_Generation p, hp_TotalUnits = hp_TotalUnits p,
      hp_Namespace = hp_Namespace p, hp_CapacityUnits = hp_CapacityUnits p,
      hp_SafetyMarginUnits = hp_SafetyMarginUnits p,
      hp_HostPolicyFingerprint = hp_HostPolicyFingerprint p, hp_Profiles = hp_Profiles p\<rparr>"

section \<open>What validation accepts\<close>

lemma clonePolicy_id [simp]: "clonePolicy p = p"
  by (simp add: clonePolicy_def)

definition profile_ok :: "int \<Rightarrow> ProfilePolicy \<Rightarrow> bool" where
  "profile_ok budget p \<longleftrightarrow>
     profileIDPattern (pp_ProfileID p) \<and> 1 \<le> pp_UnitCost p \<and> pp_UnitCost p \<le> budget
     \<and> 0 \<le> pp_ReservedUnits p \<and> pp_ReservedUnits p \<le> budget
     \<and> validateFingerprint (pp_ProfilePolicyFingerprint p) = None"

lemma ProfilePolicy_validate_None:
  "ProfilePolicy_validate p = None \<longleftrightarrow>
     profileIDPattern (pp_ProfileID p) \<and> 1 \<le> pp_UnitCost p \<and> 0 \<le> pp_ReservedUnits p
     \<and> validateFingerprint (pp_ProfilePolicyFingerprint p) = None"
  by (auto simp: ProfilePolicy_validate_def validateProfileID_def fail_if_def not_less)

lemma validate_profiles_None:
  "validate_profiles budget seen reserved ps = None \<longleftrightarrow>
     (\<forall>p \<in> set ps. profile_ok budget p)
     \<and> distinct (map pp_ProfileID ps) \<and> set (map pp_ProfileID ps) \<inter> set seen = {}
     \<and> sum64 reserved (map pp_ReservedUnits ps) \<le> budget"
proof (induction ps arbitrary: seen reserved)
  case Nil
  then show ?case by auto
next
  case (Cons p ps)
  show ?case
  proof (cases "ProfilePolicy_validate p")
    case None
    with ProfilePolicy_validate_None [of p] show ?thesis
      by (auto simp: Cons.IH profile_ok_def not_less)
  next
    case (Some e)
    with ProfilePolicy_validate_None [of p] have "\<not> profile_ok budget p"
      by (auto simp: profile_ok_def)
    with Some show ?thesis by auto
  qed
qed

lemma HostPolicy_validate_None:
  "HostPolicy_validate h = None \<longleftrightarrow>
     1 \<le> hp_Generation h \<and> 1 \<le> hp_TotalUnits h
     \<and> validateNamespace (hp_Namespace h) = None
     \<and> validateFingerprint (hp_HostPolicyFingerprint h) = None
     \<and> validate_capacity h = None
     \<and> (\<forall>p \<in> set (hp_Profiles h). profile_ok (hp_TotalUnits h) p)
     \<and> distinct (map pp_ProfileID (hp_Profiles h))
     \<and> sum64 0 (map pp_ReservedUnits (hp_Profiles h)) \<le> hp_TotalUnits h"
  by (simp add: HostPolicy_validate_def validate_profiles_None not_less)

lemma policy_profile_Some:
  "policy_profile h i = Some p \<Longrightarrow> p \<in> set (hp_Profiles h) \<and> pp_ProfileID p = i"
  by (auto simp: policy_profile_def find_Some_iff)

lemma policy_profile_None:
  "policy_profile h i = None \<longleftrightarrow> i \<notin> pp_ProfileID ` set (hp_Profiles h)"
  by (auto simp: policy_profile_def find_None_iff)

lemma policy_profile_mem:
  "distinct (map pp_ProfileID (hp_Profiles h)) \<Longrightarrow> p \<in> set (hp_Profiles h)
    \<Longrightarrow> policy_profile h (pp_ProfileID p) = Some p"
  by (cases "policy_profile h (pp_ProfileID p)")
    (auto simp: policy_profile_None distinct_map dest!: policy_profile_Some inj_onD)

text \<open>
  C32: An accepted policy never promises more than the host has, as long as the reservations
  add up within a Go int: their sum is at most the total, every profile's cost and reservation
  fit the total, and identities are unique.
\<close>

theorem accepted_policy_is_consistent:
  assumes "HostPolicy_validate h = None"
    and "sum_list (map pp_ReservedUnits (hp_Profiles h)) \<le> max_int64"
  shows "sum_list (map pp_ReservedUnits (hp_Profiles h)) \<le> hp_TotalUnits h
    \<and> (\<forall>p \<in> set (hp_Profiles h). 1 \<le> pp_UnitCost p \<and> pp_UnitCost p \<le> hp_TotalUnits h
         \<and> 0 \<le> pp_ReservedUnits p \<and> pp_ReservedUnits p \<le> hp_TotalUnits h)
    \<and> distinct (map pp_ProfileID (hp_Profiles h))"
proof -
  have "sum64 0 (map pp_ReservedUnits (hp_Profiles h)) = 0 + sum_list (map pp_ReservedUnits (hp_Profiles h))"
    using assms by (intro sum64_exact) (auto simp: HostPolicy_validate_None profile_ok_def)
  with assms show ?thesis by (auto simp: HostPolicy_validate_None profile_ok_def)
qed

text \<open>Two profiles that reserve the same amount on a host of that size.\<close>

definition twin_policy :: "int \<Rightarrow> int \<Rightarrow> HostPolicy" where
  "twin_policy budget reserved = \<lparr>hp_Generation = 1, hp_TotalUnits = budget, hp_Namespace = [],
     hp_CapacityUnits = 0, hp_SafetyMarginUnits = 0, hp_HostPolicyFingerprint = [],
     hp_Profiles = [
       \<lparr>pp_ProfileID = ''a'', pp_UnitCost = 1, pp_ReservedUnits = reserved, pp_Borrowable = False,
        pp_ProfilePolicyFingerprint = []\<rparr>,
       \<lparr>pp_ProfileID = ''b'', pp_UnitCost = 1, pp_ReservedUnits = reserved, pp_Borrowable = False,
        pp_ProfilePolicyFingerprint = []\<rparr>]\<rparr>"

theorem accepted_policy_is_consistent_witness:
  "sum_list (map pp_ReservedUnits (hp_Profiles (twin_policy 8 4))) \<le> hp_TotalUnits (twin_policy 8 4)"
proof -
  have "HostPolicy_validate (twin_policy 8 4) = None" by code_simp
  moreover have "sum_list (map pp_ReservedUnits (hp_Profiles (twin_policy 8 4))) \<le> max_int64"
    by (simp add: twin_policy_def max_int64_def)
  ultimately show ?thesis using accepted_policy_is_consistent by blast
qed

text \<open>The running sum is the true sum, wrapped once at the end.\<close>

lemma wrap64_add: "wrap64 (wrap64 a + b) = wrap64 (a + b)"
  by (simp add: wrap64_def algebra_simps mod_simps)

lemma sum64_wraps: "sum64 (wrap64 acc) vs = wrap64 (acc + sum_list vs)"
proof (induction vs arbitrary: acc)
  case (Cons v vs)
  from Cons.IH [of "acc + v"] show ?case by (simp add: add64_def wrap64_add add.assoc)
qed simp

lemma wrap64_shift: "wrap64 (x - 2 ^ 64) = wrap64 x"
  using minus_mod_self2 [of "x + 9223372036854775808" 18446744073709551616]
  by (simp add: wrap64_def)

text \<open>
  C33: The reservation check compares a sum that may have wrapped around. Take any policy that
  passes every other check, with a total that fits a Go int. If its reservations add up to 2^63
  or more but to less than 2^64, the policy is accepted, although it promises more than the host
  has.
\<close>

theorem overflowing_reservations_accepted:
  assumes "1 \<le> hp_Generation h" and "1 \<le> hp_TotalUnits h" and "hp_TotalUnits h \<le> max_int64"
    and "validateNamespace (hp_Namespace h) = None"
    and "validateFingerprint (hp_HostPolicyFingerprint h) = None"
    and "validate_capacity h = None"
    and "\<forall>p \<in> set (hp_Profiles h). ProfilePolicy_validate p = None
      \<and> pp_UnitCost p \<le> hp_TotalUnits h \<and> pp_ReservedUnits p \<le> hp_TotalUnits h"
    and "distinct (map pp_ProfileID (hp_Profiles h))"
    and "2 ^ 63 \<le> sum_list (map pp_ReservedUnits (hp_Profiles h))"
    and "sum_list (map pp_ReservedUnits (hp_Profiles h)) < 2 ^ 64"
  shows "HostPolicy_validate h = None
    \<and> hp_TotalUnits h < sum_list (map pp_ReservedUnits (hp_Profiles h))"
proof -
  let ?sum = "sum_list (map pp_ReservedUnits (hp_Profiles h))"
  have "sum64 0 (map pp_ReservedUnits (hp_Profiles h)) = wrap64 ?sum"
    using sum64_wraps [of 0] by (simp add: wrap64_def)
  also have "\<dots> = wrap64 (?sum - 2 ^ 64)" by (simp only: wrap64_shift)
  also have "\<dots> = ?sum - 2 ^ 64" using assms(9,10) by (intro wrap64_signed_id) (simp_all add: max_int64_def)
  finally have "sum64 0 (map pp_ReservedUnits (hp_Profiles h)) \<le> hp_TotalUnits h"
    using assms(2,10) by simp
  with assms(1-8) have "HostPolicy_validate h = None"
    by (simp add: HostPolicy_validate_None profile_ok_def ProfilePolicy_validate_None)
  with assms(3,9) show ?thesis by (simp add: max_int64_def)
qed

theorem overflowing_reservations_accepted_witness:
  "HostPolicy_validate (twin_policy (2 ^ 62) (2 ^ 62)) = None
   \<and> hp_TotalUnits (twin_policy (2 ^ 62) (2 ^ 62))
       < sum_list (map pp_ReservedUnits (hp_Profiles (twin_policy (2 ^ 62) (2 ^ 62))))"
  by (rule overflowing_reservations_accepted) code_simp+

end
