(* ===== verification/Lease.thy ===== *)
theory Lease
  imports Identity
begin

text \<open>
  \<^verbatim>\<open>lease.go\<close>: leases, tombstones, adoption fences and the durable map key. Go's string
  enumerations are datatypes with an extra constructor for any other decoded string, so that
  a document read back from disk is represented as it is.
\<close>

datatype WithholdingReason =
    WithholdingBudgetExhausted
  | WithholdingProtectedReservation
  | WithholdingFairShareContention
  | WithholdingAdoptionPending

datatype LeaseStatus = LeaseProvisional | LeaseActive | LeaseStatusOther string

record Lease =
  lease_ProfileID :: string
  lease_SlotKey :: string
  lease_LeaseID :: string
  lease_RegistrationName :: string
  lease_Units :: int
  lease_Status :: LeaseStatus
  lease_ExpiresAtUnixNano :: int
  lease_GrantedAtSequence :: int
  lease_ActivatedAtSequence :: int

text \<open>The zero value \<^verbatim>\<open>Lease{}\<close> returned beside an error.\<close>

definition zeroLease :: Lease where
  "zeroLease = \<lparr>lease_ProfileID = [], lease_SlotKey = [], lease_LeaseID = [],
     lease_RegistrationName = [], lease_Units = 0, lease_Status = LeaseStatusOther [],
     lease_ExpiresAtUnixNano = 0, lease_GrantedAtSequence = 0, lease_ActivatedAtSequence = 0\<rparr>"

definition leaseKey_String :: "string \<Rightarrow> string \<Rightarrow> string" where
  "leaseKey_String profileID slotKey = profileID @ ''/'' @ slotKey"

definition lease_key :: "Lease \<Rightarrow> string" where
  "lease_key l = leaseKey_String (lease_ProfileID l) (lease_SlotKey l)"

text \<open>\<^verbatim>\<open>fmt.Sprintf("%s#%d", key.String(), sequence)\<close>.\<close>

definition leaseID_for :: "string \<Rightarrow> int \<Rightarrow> string" where
  "leaseID_for key sequence = key @ ''#'' @ show_int sequence"

datatype TombstoneReason =
    TombstoneReleased
  | TombstoneExpired
  | TombstoneReconciledAbsent
  | TombstoneRestartDiscarded
  | TombstoneReasonOther string

record Tombstone =
  tomb_ProfileID :: string
  tomb_SlotKey :: string
  tomb_LeaseID :: string
  tomb_Reason :: TombstoneReason
  tomb_Evidence :: string
  tomb_Sequence :: int

definition tomb_key :: "Tombstone \<Rightarrow> string" where
  "tomb_key t = leaseKey_String (tomb_ProfileID t) (tomb_SlotKey t)"

text \<open>A nil \<^verbatim>\<open>PendingLeaseKeys\<close> slice is told apart from an empty one by validation.\<close>

record AdoptionFence =
  fence_ProfileID :: string
  fence_PendingLeaseKeys :: "string list option"

definition pending_keys :: "AdoptionFence \<Rightarrow> string list" where
  "pending_keys f = (case fence_PendingLeaseKeys f of None \<Rightarrow> [] | Some ks \<Rightarrow> ks)"

lemma split_at_separator:
  assumes "sep \<notin> set a" and "sep \<notin> set b" and "a @ sep # x = b @ sep # y"
  shows "a = b \<and> x = y"
  using assms
proof (induction a arbitrary: b)
  case Nil
  then show ?case by (cases b) auto
next
  case (Cons c a)
  then show ?case by (cases b) auto
qed

lemma leaseKey_String_inj:
  assumes "profileIDPattern p" and "profileIDPattern q"
    and "leaseKey_String p k = leaseKey_String q l"
  shows "p = q \<and> k = l"
  using split_at_separator [of "CHR ''/''" p q k l] assms profileID_no_slash
  by (simp add: leaseKey_String_def)

lemma leaseKey_same_profile [simp]: "leaseKey_String p k = leaseKey_String p l \<longleftrightarrow> k = l"
  by (simp add: leaseKey_String_def)

lemma leaseKey_no_hash:
  "profileIDPattern p \<Longrightarrow> slotKeyPattern k \<Longrightarrow> CHR ''#'' \<notin> set (leaseKey_String p k)"
  by (auto simp: leaseKey_String_def profileID_no_hash slotKey_no_hash)

lemma leaseID_for_inj:
  assumes "CHR ''#'' \<notin> set k" and "CHR ''#'' \<notin> set l" and "0 \<le> i" and "0 \<le> j"
    and "leaseID_for k i = leaseID_for l j"
  shows "k = l \<and> i = j"
  using split_at_separator [of "CHR ''#''" k l "show_int i" "show_int j"] assms show_int_inj
  by (auto simp: leaseID_for_def)

text \<open>
  Distinct workers never share a ledger entry. For identities the service accepts, the
  joined map key determines the profile and the slot.
\<close>

theorem lease_keys_never_collide:
  assumes "validateLeaseIdentity p k = None" and "validateLeaseIdentity q j = None"
  shows "leaseKey_String p k = leaseKey_String q j \<longleftrightarrow> p = q \<and> k = j"
  using assms leaseKey_String_inj [of p q k j] by auto

theorem lease_keys_never_collide_witness:
  "leaseKey_String ''a-b'' ''c'' \<noteq> leaseKey_String ''a'' ''b-c''"
proof -
  have "validateLeaseIdentity ''a-b'' ''c'' = None" "validateLeaseIdentity ''a'' ''b-c'' = None"
    by code_simp+
  from lease_keys_never_collide [OF this] show ?thesis by simp
qed

end
