(* ===== verification/Protocol.thy ===== *)
theory Protocol
  imports Policy Lease
begin

text \<open>
  \<^verbatim>\<open>protocol.go\<close>: protocol versions, commands and wire error codes. Go's open string types
  carry one constructor per declared constant and one for any other string.
\<close>

definition AdmissionExplainabilityProtocolVersion :: int where
  "AdmissionExplainabilityProtocolVersion = 3"

definition RegistrationBindingProtocolVersion :: int where
  "RegistrationBindingProtocolVersion = 4"

definition CurrentProtocolVersion :: int where
  "CurrentProtocolVersion = RegistrationBindingProtocolVersion"

definition previousProtocolVersion :: int where
  "previousProtocolVersion = AdmissionExplainabilityProtocolVersion"

definition releasedCompatibilityProtocolVersion :: int where
  "releasedCompatibilityProtocolVersion = 2"

lemmas protocol_versions =
  AdmissionExplainabilityProtocolVersion_def RegistrationBindingProtocolVersion_def
  CurrentProtocolVersion_def previousProtocolVersion_def releasedCompatibilityProtocolVersion_def

definition ServerSupportedVersions :: "int list" where
  "ServerSupportedVersions =
     [CurrentProtocolVersion, previousProtocolVersion, releasedCompatibilityProtocolVersion]"

definition ClientSupportedVersions :: "int list" where
  "ClientSupportedVersions =
     [CurrentProtocolVersion, previousProtocolVersion, releasedCompatibilityProtocolVersion]"

text \<open>The loop of \<^verbatim>\<open>NegotiateProtocolVersion\<close> over the client's versions.\<close>

fun negotiate_loop :: "int list \<Rightarrow> int list \<Rightarrow> int \<Rightarrow> bool \<Rightarrow> int \<times> bool" where
  "negotiate_loop supported [] best found = (best, found)"
| "negotiate_loop supported (version # versions) best found =
     (if version \<in> set supported \<and> version > best
      then negotiate_loop supported versions version True
      else negotiate_loop supported versions best found)"

definition NegotiateProtocolVersion :: "int list \<Rightarrow> int list \<Rightarrow> int \<times> bool" where
  "NegotiateProtocolVersion serverVersions clientVersions =
     negotiate_loop serverVersions clientVersions 0 False"

datatype Command =
    CommandApplyPolicy
  | CommandSetDemand
  | CommandAcquire
  | CommandBindRegistration
  | CommandAdopt
  | CommandBeginAdoption
  | CommandCompleteAdoption
  | CommandRenew
  | CommandActivate
  | CommandRelease
  | CommandReconcile
  | CommandStatus
  | CommandOther string

fun isLeaseDecision :: "Command \<Rightarrow> bool" where
  "isLeaseDecision CommandAcquire = True"
| "isLeaseDecision CommandAdopt = True"
| "isLeaseDecision CommandRenew = True"
| "isLeaseDecision CommandActivate = True"
| "isLeaseDecision CommandRelease = True"
| "isLeaseDecision CommandReconcile = True"
| "isLeaseDecision _ = False"

fun supportedBy :: "Command \<Rightarrow> int \<Rightarrow> bool" where
  "supportedBy CommandAdopt version = (version \<ge> 2)"
| "supportedBy CommandBeginAdoption version = (version \<ge> 2)"
| "supportedBy CommandCompleteAdoption version = (version \<ge> 2)"
| "supportedBy CommandBindRegistration version = (version \<ge> RegistrationBindingProtocolVersion)"
| "supportedBy (CommandOther _) version = False"
| "supportedBy _ version = (version \<ge> 1)"

fun minimumProtocolVersion :: "Command \<Rightarrow> int" where
  "minimumProtocolVersion CommandBindRegistration = RegistrationBindingProtocolVersion"
| "minimumProtocolVersion CommandAdopt = releasedCompatibilityProtocolVersion"
| "minimumProtocolVersion CommandBeginAdoption = releasedCompatibilityProtocolVersion"
| "minimumProtocolVersion CommandCompleteAdoption = releasedCompatibilityProtocolVersion"
| "minimumProtocolVersion (CommandOther _) = CurrentProtocolVersion"
| "minimumProtocolVersion _ = 1"

datatype ErrorCode =
    ErrorCodeNone
  | ErrorCodeUnknownProfile
  | ErrorCodeDuplicateLease
  | ErrorCodeLeaseNotFound
  | ErrorCodeLeaseExpired
  | ErrorCodeLeaseNotProvisional
  | ErrorCodeBudgetExceeded
  | ErrorCodeBudgetExhausted
  | ErrorCodeProtectedReservation
  | ErrorCodeFairShareContention
  | ErrorCodeAdoptionPending
  | ErrorCodeEvidenceRequired
  | ErrorCodeEvidenceInvalid
  | ErrorCodeInvalidPolicy
  | ErrorCodeInvalidIdentity
  | ErrorCodeStalePolicy
  | ErrorCodeCorruptState
  | ErrorCodeRequestTooLarge
  | ErrorCodeMalformedRequest
  | ErrorCodeProtocolMismatch
  | ErrorCodeOther string

fun ErrorCode_valid :: "ErrorCode \<Rightarrow> bool" where
  "ErrorCode_valid (ErrorCodeOther _) = False"
| "ErrorCode_valid _ = True"

definition errorCodeForErrVersion :: "goerr \<Rightarrow> int \<Rightarrow> ErrorCode" where
  "errorCodeForErrVersion err version =
     (if version < AdmissionExplainabilityProtocolVersion \<and> errors_Is err ErrBudgetExceeded
        then ErrorCodeBudgetExceeded
      else if errors_Is err ErrDuplicateLease then ErrorCodeDuplicateLease
      else if errors_Is err ErrUnknownProfile then ErrorCodeUnknownProfile
      else if errors_Is err ErrLeaseNotFound then ErrorCodeLeaseNotFound
      else if errors_Is err ErrLeaseExpired then ErrorCodeLeaseExpired
      else if errors_Is err ErrLeaseNotProvisional then ErrorCodeLeaseNotProvisional
      else if errors_Is err ErrBudgetExhausted then ErrorCodeBudgetExhausted
      else if errors_Is err ErrProtectedReservation then ErrorCodeProtectedReservation
      else if errors_Is err ErrFairShareContention then ErrorCodeFairShareContention
      else if errors_Is err ErrBudgetExceeded then ErrorCodeBudgetExceeded
      else if errors_Is err ErrAdoptionPending then ErrorCodeAdoptionPending
      else if errors_Is err ErrEvidenceInvalid then ErrorCodeEvidenceInvalid
      else if errors_Is err ErrEvidenceRequired then ErrorCodeEvidenceRequired
      else if errors_Is err ErrStalePolicy then ErrorCodeStalePolicy
      else if errors_Is err ErrInvalidIdentity then ErrorCodeInvalidIdentity
      else if errors_Is err ErrInvalidPolicy then ErrorCodeInvalidPolicy
      else if errors_Is err ErrCorruptState then ErrorCodeCorruptState
      else ErrorCodeNone)"

definition errorCodeForErr :: "goerr \<Rightarrow> ErrorCode" where
  "errorCodeForErr err = errorCodeForErrVersion err CurrentProtocolVersion"

fun errForErrorCode :: "ErrorCode \<Rightarrow> sentinel option" where
  "errForErrorCode ErrorCodeDuplicateLease = Some ErrDuplicateLease"
| "errForErrorCode ErrorCodeUnknownProfile = Some ErrUnknownProfile"
| "errForErrorCode ErrorCodeLeaseNotFound = Some ErrLeaseNotFound"
| "errForErrorCode ErrorCodeLeaseExpired = Some ErrLeaseExpired"
| "errForErrorCode ErrorCodeLeaseNotProvisional = Some ErrLeaseNotProvisional"
| "errForErrorCode ErrorCodeBudgetExceeded = Some ErrBudgetExceeded"
| "errForErrorCode ErrorCodeBudgetExhausted = Some ErrBudgetExhausted"
| "errForErrorCode ErrorCodeProtectedReservation = Some ErrProtectedReservation"
| "errForErrorCode ErrorCodeFairShareContention = Some ErrFairShareContention"
| "errForErrorCode ErrorCodeAdoptionPending = Some ErrAdoptionPending"
| "errForErrorCode ErrorCodeEvidenceInvalid = Some ErrEvidenceInvalid"
| "errForErrorCode ErrorCodeEvidenceRequired = Some ErrEvidenceRequired"
| "errForErrorCode ErrorCodeStalePolicy = Some ErrStalePolicy"
| "errForErrorCode ErrorCodeInvalidIdentity = Some ErrInvalidIdentity"
| "errForErrorCode ErrorCodeInvalidPolicy = Some ErrInvalidPolicy"
| "errForErrorCode ErrorCodeCorruptState = Some ErrCorruptState"
| "errForErrorCode ErrorCodeProtocolMismatch = Some ErrProtocolMismatch"
| "errForErrorCode _ = None"

definition durableDecisionErrorCode :: "goerr \<Rightarrow> ErrorCode" where
  "durableDecisionErrorCode err =
     (if errors_Is err ErrBudgetExceeded then ErrorCodeBudgetExceeded else errorCodeForErr err)"

definition withholdingReasonForError :: "goerr \<Rightarrow> WithholdingReason option" where
  "withholdingReasonForError err =
     (if errors_Is err ErrBudgetExhausted then Some WithholdingBudgetExhausted
      else if errors_Is err ErrProtectedReservation then Some WithholdingProtectedReservation
      else if errors_Is err ErrFairShareContention then Some WithholdingFairShareContention
      else if errors_Is err ErrAdoptionPending then Some WithholdingAdoptionPending
      else None)"

definition sortedInts :: "int list \<Rightarrow> int list" where
  "sortedInts values = sort values"

section \<open>Negotiation\<close>

lemma negotiate_loop_result:
  assumes "negotiate_loop sv vs best found = (b, f)"
  shows "best \<le> b
    \<and> (\<forall>v \<in> set vs \<inter> set sv. v \<le> b)
    \<and> (b = best \<or> b \<in> set vs \<inter> set sv)
    \<and> f = (found \<or> (\<exists>v \<in> set vs \<inter> set sv. best < v))"
  using assms
proof (induction vs arbitrary: best found)
  case Nil
  then show ?case by simp
next
  case (Cons v vs)
  show ?case
  proof (cases "v \<in> set sv \<and> v > best")
    case True
    with Cons.prems have "negotiate_loop sv vs v True = (b, f)" by simp
    from Cons.IH [OF this] True show ?thesis by auto
  next
    case False
    with Cons.prems have "negotiate_loop sv vs best found = (b, f)" by auto
    from Cons.IH [OF this] False show ?thesis by auto
  qed
qed

lemma negotiated:
  "NegotiateProtocolVersion sv cv = (v, found) \<Longrightarrow>
     found = (\<exists>x \<in> set sv \<inter> set cv. 0 < x)
     \<and> (found \<longrightarrow> v \<in> set sv \<inter> set cv \<and> 0 < v \<and> (\<forall>x \<in> set sv \<inter> set cv. x \<le> v))
     \<and> (\<not> found \<longrightarrow> v = 0)"
  unfolding NegotiateProtocolVersion_def
  by (drule negotiate_loop_result) force

lemma errorCodeForErrVersion_valid: "ErrorCode_valid (errorCodeForErrVersion e v)"
  by (simp add: errorCodeForErrVersion_def)

lemma durableDecisionErrorCode_valid: "ErrorCode_valid (durableDecisionErrorCode e)"
  by (simp add: durableDecisionErrorCode_def errorCodeForErr_def errorCodeForErrVersion_valid)

text \<open>A code chosen for an error names a sentinel the error wraps.\<close>

lemma errorCode_names_sentinel:
  "errForErrorCode (errorCodeForErrVersion e v) = Some s \<Longrightarrow> errors_Is e s"
  by (auto simp: errorCodeForErrVersion_def split: if_splits)

lemma errorCode_none:
  "errForErrorCode (errorCodeForErrVersion e v) = None \<longleftrightarrow>
     set (err_chain e) \<subseteq> {ErrProtocolMismatch}"
proof -
  have "set (err_chain e) \<subseteq> {ErrProtocolMismatch} \<longleftrightarrow>
      (\<forall>s. s \<noteq> ErrProtocolMismatch \<longrightarrow> \<not> errors_Is e s)"
    by (auto simp: errors_Is_def)
  also have "\<dots> \<longleftrightarrow> errForErrorCode (errorCodeForErrVersion e v) = None"
    by (rule iffI, simp add: errorCodeForErrVersion_def)
      (intro allI impI notI, rename_tac s, case_tac s;
        auto simp: errorCodeForErrVersion_def split: if_splits)
  finally show ?thesis by simp
qed

text \<open>
  Negotiation picks the highest version both sides speak, and reports failure exactly when
  they share none.
\<close>

theorem negotiation_picks_best_common:
  "NegotiateProtocolVersion serverVersions clientVersions =
     (let common = {v \<in> set serverVersions \<inter> set clientVersions. 0 < v}
      in if common = {} then (0, False) else (Max common, True))"
proof -
  obtain v found where r: "NegotiateProtocolVersion serverVersions clientVersions = (v, found)"
    by force
  let ?common = "{v \<in> set serverVersions \<inter> set clientVersions. 0 < v}"
  note n = negotiated [OF r]
  show ?thesis
  proof (cases found)
    case True
    with n have "Max ?common = v" by (intro Max_eqI) auto
    with n True r show ?thesis by (auto simp: Let_def)
  next
    case False
    with n r show ?thesis by (auto simp: Let_def)
  qed
qed

end
