(* ===== verification/Atomic_File.thy ===== *)
theory Atomic_File
  imports Errors
begin

text \<open>
  \<^verbatim>\<open>writeFileAtomically\<close> of \<^verbatim>\<open>state.go\<close>, call by call, over a file system with the target
  path and the temporary file. Any call may fail; the model returns every file-system state
  the process passes through, so that a crash between two calls leaves one of them.
\<close>

datatype 'd file_content = FileEmpty | FilePartial | FileFull 'd

record 'd fsys =
  fs_target :: "'d file_content option"
  fs_temp :: "'d file_content option"

datatype fs_call =
    MkdirAll | CreateTemp | Chmod | WriteData | SyncFile | CloseFile | Rename
  | OpenDir | SyncDir | CloseDir | RemoveTemp

text \<open>A rename gives the target whatever the temporary file holds at that moment.\<close>

definition rename_temp :: "'d fsys \<Rightarrow> 'd fsys" where
  "rename_temp fs = fs\<lparr>fs_target := fs_temp fs, fs_temp := None\<rparr>"

text \<open>The deferred \<^verbatim>\<open>os.Remove(temporaryPath)\<close>, whose own failure is ignored.\<close>

definition remove_temp :: "(fs_call \<Rightarrow> bool) \<Rightarrow> 'd fsys \<Rightarrow> 'd fsys" where
  "remove_temp fails fs = (if fails RemoveTemp then fs else fs\<lparr>fs_temp := None\<rparr>)"

text \<open>The directory sync after the rename, skipped on Windows.\<close>

definition sync_directory :: "bool \<Rightarrow> (fs_call \<Rightarrow> bool) \<Rightarrow> goerr option" where
  "sync_directory windows fails =
     (if windows then None
      else if fails OpenDir then Some err_other
      else if fails SyncDir then Some err_other
      else if fails CloseDir then Some err_other
      else None)"

definition writeFileAtomically ::
  "bool \<Rightarrow> (fs_call \<Rightarrow> bool) \<Rightarrow> 'd fsys \<Rightarrow> 'd \<Rightarrow> 'd fsys list \<times> goerr option" where
  "writeFileAtomically windows fails fs data =
     (if fails MkdirAll \<or> fails CreateTemp then ([fs], Some err_other)
      else
        let created = fs\<lparr>fs_temp := Some FileEmpty\<rparr>;
            partially = fs\<lparr>fs_temp := Some FilePartial\<rparr>;
            written = fs\<lparr>fs_temp := Some (FileFull data)\<rparr>;
            renamed = rename_temp written
        in if fails Chmod then ([fs, created, remove_temp fails created], Some err_other)
           else if fails WriteData then
             ([fs, created, partially, remove_temp fails partially], Some err_other)
           else if fails SyncFile \<or> fails CloseFile \<or> fails Rename then
             ([fs, created, partially, written, remove_temp fails written], Some err_other)
           else ([fs, created, partially, written, renamed], sync_directory windows fails))"

section \<open>The store contract\<close>

text \<open>
  What the coordinator relies on in a store: a reported success means the document is in
  place; a reported failure means the old document or the new one is in place, never
  anything else.
\<close>

locale document_store =
  fixes save :: "'st \<Rightarrow> 'd \<Rightarrow> 'st \<times> goerr option"
    and contents :: "'st \<Rightarrow> 'd option"
  assumes save_success: "save st d = (st', None) \<Longrightarrow> contents st' = Some d"
    and save_failure:
      "save st d = (st', Some e) \<Longrightarrow> contents st' = contents st \<or> contents st' = Some d"
begin

lemma save_contents: "contents (fst (save st d)) = contents st \<or> contents (fst (save st d)) = Some d"
  by (cases "save st d"; cases "snd (save st d)") (auto dest: save_success save_failure)

lemma saves_contents:
  "contents (fold (\<lambda>d st. fst (save st d)) ds st) \<in> insert (contents st) (Some ` set ds)"
proof (induction ds arbitrary: st)
  case Nil
  then show ?case by simp
next
  case (Cons d ds)
  from Cons.IH [of "fst (save st d)"] save_contents [of st d] show ?case by auto
qed

text \<open>Once a save has succeeded the document never reverts to an older one.\<close>

lemma saved_never_reverts:
  assumes "save st d = (st', None)"
  shows "contents (fold (\<lambda>d st. fst (save st d)) ds st') \<in> Some ` insert d (set ds)"
  using saves_contents [of ds st'] save_success [OF assms] by auto

end

definition atomic_save ::
  "bool \<Rightarrow> (fs_call \<Rightarrow> bool) \<Rightarrow> 'd fsys \<Rightarrow> 'd \<Rightarrow> 'd fsys \<times> goerr option" where
  "atomic_save windows fails fs data =
     (let (states, err) = writeFileAtomically windows fails fs data in (last states, err))"

lemma sync_directory_err: "sync_directory windows fails \<in> {None, Some err_other}"
  by (simp add: sync_directory_def)

text \<open>The document a reader finds in the target, if it is complete.\<close>

definition target_document :: "'d fsys \<Rightarrow> 'd option" where
  "target_document fs = (case fs_target fs of Some (FileFull d) \<Rightarrow> Some d | _ \<Rightarrow> None)"

lemma target_document_full [simp]: "fs_target fs = Some (FileFull d) \<Longrightarrow> target_document fs = Some d"
  by (simp add: target_document_def)

lemma target_document_same: "fs_target fs' = fs_target fs \<Longrightarrow> target_document fs' = target_document fs"
  by (simp add: target_document_def)

lemma atomic_save_target:
  assumes "atomic_save windows fails fs d = (fs', err)"
  shows "fs_target fs' = Some (FileFull d) \<or> err \<noteq> None \<and> fs_target fs' = fs_target fs"
  using assms by (auto simp: atomic_save_def writeFileAtomically_def remove_temp_def rename_temp_def
      Let_def split: if_splits)

interpretation atomic_file: document_store "atomic_save windows fails" target_document
  by unfold_locales (use target_document_same in \<open>force dest!: atomic_save_target\<close>)+

text \<open>
  C30: The ledger file is replaced atomically. Whatever call fails and wherever the process
  crashes, the target holds the old document or the complete new one. A reported success means
  the new one is in place and the temporary file is gone; a failure up to the rename leaves the
  old one; only a failed directory sync reports an error with the new document in place.
\<close>

theorem write_is_atomic:
  "fs_target ` set (fst (writeFileAtomically windows fails fs data)) \<subseteq> {fs_target fs, Some (FileFull data)}
   \<and> (case writeFileAtomically windows fails fs data of
        (states, None) \<Rightarrow> fs_target (last states) = Some (FileFull data) \<and> fs_temp (last states) = None
      | (states, Some err) \<Rightarrow>
          fs_target (last states) = (if \<exists>c. fails c \<and> c \<in> {MkdirAll, CreateTemp, Chmod, WriteData,
              SyncFile, CloseFile, Rename}
            then fs_target fs else Some (FileFull data)))"
proof -
  consider "fails MkdirAll" | "fails CreateTemp" | "fails Chmod" | "fails WriteData" | "fails SyncFile"
    | "fails CloseFile" | "fails Rename"
    | "\<not> (\<exists>c. fails c \<and> c \<in> {MkdirAll, CreateTemp, Chmod, WriteData, SyncFile, CloseFile, Rename})"
    by blast
  then show ?thesis
    by cases (auto simp: writeFileAtomically_def remove_temp_def rename_temp_def Let_def split: option.splits)
qed

end
