(* ===== verification/Durable.thy ===== *)
theory Durable
  imports Protocol Atomic_File
begin

text \<open>
  \<^verbatim>\<open>state.go\<close>: the durable ledger, its validation, the document store and tombstone
  compaction. The document on disk is modelled decoded: JSON text that does not decode is
  \<^verbatim>\<open>Malformed\<close>, a read error is \<^verbatim>\<open>Unreadable\<close>.
\<close>

definition stateSchemaVersion :: int where
  "stateSchemaVersion = 3"

definition previousStateSchemaVersion :: int where
  "previousStateSchemaVersion = 2"

record Decision =
  dec_Sequence :: int
  dec_Command :: Command
  dec_ProfileID :: string
  dec_Granted :: bool
  dec_FailureCategory :: ErrorCode
  dec_DecidedAtUnixNano :: int

record durableState =
  ds_SchemaVersion :: int
  ds_Epoch :: int
  ds_DecisionSequence :: int
  ds_Policy :: HostPolicy
  ds_Leases :: "(string, Lease) gomap"
  ds_Tombstones :: "(string, Tombstone) gomap"
  ds_AdoptionFences :: "(string, AdoptionFence) gomap"
  ds_LastDecision :: "Decision option"

definition newDurableState :: durableState where
  "newDurableState = \<lparr>ds_SchemaVersion = stateSchemaVersion, ds_Epoch = 0,
     ds_DecisionSequence = 0, ds_Policy = zeroPolicy, ds_Leases = [], ds_Tombstones = [],
     ds_AdoptionFences = [], ds_LastDecision = None\<rparr>"

text \<open>
  \<^verbatim>\<open>clone\<close> copies every map and slice; on values it only turns a nil pending list into an
  empty one.
\<close>

definition clone_fence :: "AdoptionFence \<Rightarrow> AdoptionFence" where
  "clone_fence f = f\<lparr>fence_PendingLeaseKeys := Some (pending_keys f)\<rparr>"

definition clone :: "durableState \<Rightarrow> durableState" where
  "clone s =
     \<lparr>ds_SchemaVersion = ds_SchemaVersion s, ds_Epoch = ds_Epoch s,
      ds_DecisionSequence = ds_DecisionSequence s, ds_Policy = clonePolicy (ds_Policy s),
      ds_Leases = ds_Leases s, ds_Tombstones = ds_Tombstones s,
      ds_AdoptionFences = map (\<lambda>(k, f). (k, clone_fence f)) (ds_AdoptionFences s),
      ds_LastDecision = ds_LastDecision s\<rparr>"

section \<open>Validation\<close>

definition check_lease :: "string \<times> Lease \<Rightarrow> goerr option" where
  "check_lease = (\<lambda>(key, lease).
     if key \<noteq> lease_key lease then Some (raise ErrCorruptState)
     else if lease_ProfileID lease = [] \<or> lease_SlotKey lease = [] \<or> lease_Units lease < 1
       then Some (raise ErrCorruptState)
     else if lease_RegistrationName lease \<noteq> []
         \<and> validateRegistrationName (lease_RegistrationName lease) \<noteq> None
       then Some (raise ErrCorruptState)
     else fail_if (lease_Status lease \<noteq> LeaseProvisional \<and> lease_Status lease \<noteq> LeaseActive)
            (raise ErrCorruptState))"

definition check_tombstone :: "string \<times> Tombstone \<Rightarrow> goerr option" where
  "check_tombstone = (\<lambda>(key, tombstone).
     fail_if (key \<noteq> tomb_key tombstone) (raise ErrCorruptState))"

text \<open>The loop over one fence's pending slot keys.\<close>

fun check_pending ::
  "(string, Lease) gomap \<Rightarrow> string \<Rightarrow> string list \<Rightarrow> string list \<Rightarrow> goerr option" where
  "check_pending leases profileID seen [] = None"
| "check_pending leases profileID seen (slotKey # rest) =
     (if validateSlotKey slotKey \<noteq> None then Some (raise ErrCorruptState)
      else if slotKey \<in> set seen then Some (raise ErrCorruptState)
      else case map_of leases (leaseKey_String profileID slotKey) of
        None \<Rightarrow> Some (raise ErrCorruptState)
      | Some lease \<Rightarrow>
          if lease_Status lease \<noteq> LeaseActive then Some (raise ErrCorruptState)
          else check_pending leases profileID (slotKey # seen) rest)"

definition check_fence :: "durableState \<Rightarrow> string \<times> AdoptionFence \<Rightarrow> goerr option" where
  "check_fence s = (\<lambda>(profileID, fence).
     if profileID \<noteq> fence_ProfileID fence then Some (raise ErrCorruptState)
     else if validateProfileID profileID \<noteq> None then Some (raise ErrCorruptState)
     else if policy_profile (ds_Policy s) profileID = None then Some (raise ErrCorruptState)
     else case fence_PendingLeaseKeys fence of
       None \<Rightarrow> Some (raise ErrCorruptState)
     | Some pending \<Rightarrow> check_pending (ds_Leases s) profileID [] pending)"

definition check_decision :: "Decision \<Rightarrow> goerr option" where
  "check_decision d =
     (if dec_Sequence d < 0 then Some (raise ErrCorruptState)
      else if \<not> isLeaseDecision (dec_Command d) then Some (raise ErrCorruptState)
      else if validateProfileID (dec_ProfileID d) \<noteq> None then Some (raise ErrCorruptState)
      else fail_if (\<not> ErrorCode_valid (dec_FailureCategory d)) (raise ErrCorruptState))"

text \<open>
  Every failure wraps \<^verbatim>\<open>ErrCorruptState\<close> and nothing else (an invalid policy's own error is
  formatted with \<^verbatim>\<open>%v\<close>), so the order in which Go visits the maps is not observable.
\<close>

definition durableState_validate :: "durableState \<Rightarrow> goerr option" where
  "durableState_validate s = first_error
     ([fail_if (ds_SchemaVersion s \<noteq> stateSchemaVersion) (raise ErrCorruptState),
       fail_if (ds_Epoch s < 0 \<or> ds_DecisionSequence s < 0) (raise ErrCorruptState),
       fail_if (hp_Generation (ds_Policy s) > 0 \<and> HostPolicy_validate (ds_Policy s) \<noteq> None)
         (raise ErrCorruptState)]
      @ map check_lease (ds_Leases s)
      @ map check_tombstone (ds_Tombstones s)
      @ map (check_fence s) (ds_AdoptionFences s)
      @ map (\<lambda>e. fail_if (map_of (ds_Tombstones s) (fst e) \<noteq> None) (raise ErrCorruptState))
          (ds_Leases s)
      @ [case ds_LastDecision s of None \<Rightarrow> None | Some d \<Rightarrow> check_decision d])"

section \<open>Stores\<close>

text \<open>
  A file store is what the path holds and the outcomes of the saves to come: a save succeeds,
  fails before the rename, or fails after it (the directory sync). No scheduled outcome left
  means the saves succeed.
\<close>

datatype disk = NoFile | Unreadable | Malformed | Document durableState

datatype save_outcome = Saved | NotReplaced | ReplacedUnsynced

record store =
  store_disk :: disk
  store_outcomes :: "save_outcome list"

definition activeLeaseSlotKeys :: "(string, Lease) gomap \<Rightarrow> string \<Rightarrow> string list" where
  "activeLeaseSlotKeys leases profileID =
     sort (map (\<lambda>e. lease_SlotKey (snd e))
       (filter (\<lambda>e. lease_ProfileID (snd e) = profileID \<and> lease_Status (snd e) = LeaseActive)
         leases))"

text \<open>The upgrade of a document of the previous schema.\<close>

definition upgrade_document :: "durableState \<Rightarrow> durableState" where
  "upgrade_document s =
     (if ds_SchemaVersion s = previousStateSchemaVersion
      then s\<lparr>ds_AdoptionFences := map (\<lambda>(profileID, fence).
               (profileID, fence\<lparr>fence_PendingLeaseKeys :=
                  Some (activeLeaseSlotKeys (ds_Leases s) profileID)\<rparr>)) (ds_AdoptionFences s),
             ds_SchemaVersion := stateSchemaVersion\<rparr>
      else s)"

definition fileStore_Load :: "store \<Rightarrow> goerr + durableState option" where
  "fileStore_Load st =
     (case store_disk st of
        NoFile \<Rightarrow> Inr None
      | Unreadable \<Rightarrow> Inl err_other
      | Malformed \<Rightarrow> Inl (raise ErrCorruptState)
      | Document doc \<Rightarrow>
          let s = upgrade_document doc in
          case durableState_validate s of
            Some e \<Rightarrow> Inl e
          | None \<Rightarrow> Inr (Some s))"

definition fileStore_Save :: "store \<Rightarrow> durableState \<Rightarrow> store \<times> goerr option" where
  "fileStore_Save st s =
     (case store_outcomes st of
        [] \<Rightarrow> (st\<lparr>store_disk := Document s\<rparr>, None)
      | Saved # os \<Rightarrow> (st\<lparr>store_disk := Document s, store_outcomes := os\<rparr>, None)
      | NotReplaced # os \<Rightarrow> (st\<lparr>store_outcomes := os\<rparr>, Some err_other)
      | ReplacedUnsynced # os \<Rightarrow>
          (st\<lparr>store_disk := Document s, store_outcomes := os\<rparr>, Some err_other))"

definition store_contents :: "store \<Rightarrow> durableState option" where
  "store_contents st = (case store_disk st of Document s \<Rightarrow> Some s | _ \<Rightarrow> None)"

text \<open>The in-memory store: a state and whether one was ever saved.\<close>

record memoryStore =
  mem_state :: durableState
  mem_exists :: bool

definition newMemoryStore :: memoryStore where
  "newMemoryStore = \<lparr>mem_state = newDurableState\<lparr>ds_SchemaVersion := 0\<rparr>, mem_exists = False\<rparr>"

definition memoryStore_Load :: "memoryStore \<Rightarrow> goerr + durableState option" where
  "memoryStore_Load m = (if \<not> mem_exists m then Inr None else Inr (Some (clone (mem_state m))))"

definition memoryStore_Save :: "memoryStore \<Rightarrow> durableState \<Rightarrow> memoryStore \<times> goerr option" where
  "memoryStore_Save m s = (m\<lparr>mem_state := clone s, mem_exists := True\<rparr>, None)"

interpretation file_store: document_store fileStore_Save store_contents
  by unfold_locales
    (auto simp: fileStore_Save_def store_contents_def split: list.splits save_outcome.splits)

definition sortedStateKeys :: "(string, 'v) gomap \<Rightarrow> string list" where
  "sortedStateKeys values = sort (mkeys values)"

section \<open>Tombstone compaction\<close>

definition maxTombstones :: nat where
  "maxTombstones = 4096"

text \<open>
  \<open>ks\<close> is the order in which the runtime visits the tombstone map; \<^verbatim>\<open>sort.Slice\<close> is not
  stable, so entries with equal sequences may end up in any order.
\<close>

definition compactTombstones :: "string list \<Rightarrow> durableState \<Rightarrow> durableState" where
  "compactTombstones ks s =
     (if length (ds_Tombstones s) \<le> maxTombstones then s
      else s\<lparr>ds_Tombstones := take maxTombstones
               (sort_key (\<lambda>e. - tomb_Sequence (snd e)) (in_order ks (ds_Tombstones s)))\<rparr>)"

section \<open>Loading and compaction\<close>

text \<open>
  C31: Loading fails closed. A ledger is loaded only from a document of the current or the
  previous schema that passes every validation check, and what is loaded has the current
  schema; anything else is an error, never an empty ledger.
\<close>

theorem load_fails_closed:
  assumes "fileStore_Load st = Inr found"
  shows "case found of
      None \<Rightarrow> store_disk st = NoFile
    | Some s \<Rightarrow> ds_SchemaVersion s = stateSchemaVersion \<and> durableState_validate s = None
        \<and> (\<exists>doc. store_disk st = Document doc \<and> s = upgrade_document doc
             \<and> ds_SchemaVersion doc \<in> {previousStateSchemaVersion, stateSchemaVersion})"
proof (cases "store_disk st")
  case (Document doc)
  with assms have s: "found = Some (upgrade_document doc)"
    "durableState_validate (upgrade_document doc) = None"
    by (auto simp: fileStore_Load_def Let_def split: option.splits)
  then have "ds_SchemaVersion (upgrade_document doc) = stateSchemaVersion"
    by (auto simp: durableState_validate_def)
  with Document s show ?thesis by (auto simp: upgrade_document_def split: if_splits)
qed (use assms in \<open>auto simp: fileStore_Load_def\<close>)

theorem load_fails_closed_witness:
  "case Some newDurableState of
      None \<Rightarrow> False
    | Some s \<Rightarrow> ds_SchemaVersion s = stateSchemaVersion \<and> durableState_validate s = None"
proof -
  let ?st = "\<lparr>store_disk = Document newDurableState, store_outcomes = []\<rparr>"
  have "fileStore_Load ?st = Inr (Some newDurableState)" by code_simp
  from load_fails_closed [OF this] show ?thesis by simp
qed

text \<open>
  Compaction drops only the oldest tombstones. The ledger keeps at most 4096 of them, all
  of them when there are no more; every tombstone dropped has a sequence no newer than any kept.
\<close>

theorem compaction_drops_oldest:
  assumes ok: "map_ok (ds_Tombstones s)"
  shows "length (ds_Tombstones (compactTombstones ks s)) = min maxTombstones (length (ds_Tombstones s))
    \<and> set (ds_Tombstones (compactTombstones ks s)) \<subseteq> set (ds_Tombstones s)
    \<and> (\<forall>kept \<in> set (ds_Tombstones (compactTombstones ks s)).
         \<forall>dropped \<in> set (ds_Tombstones s) - set (ds_Tombstones (compactTombstones ks s)).
           tomb_Sequence (snd dropped) \<le> tomb_Sequence (snd kept))"
proof (cases "length (ds_Tombstones s) \<le> maxTombstones")
  case True
  then show ?thesis by (simp add: compactTombstones_def)
next
  case False
  let ?f = "\<lambda>e :: string \<times> Tombstone. - tomb_Sequence (snd e)"
  let ?sorted = "sort_key ?f (in_order ks (ds_Tombstones s))"
  have set: "set ?sorted = set (ds_Tombstones s)" using ok by (simp add: set_in_order)
  have "sorted (map ?f (take maxTombstones ?sorted @ drop maxTombstones ?sorted))"
    by (simp only: append_take_drop_id sorted_sort_key)
  then have order: "\<forall>kept \<in> set (take maxTombstones ?sorted). \<forall>dropped \<in> set (drop maxTombstones ?sorted).
      ?f kept \<le> ?f dropped"
    by (simp only: map_append sorted_append set_map) blast
  have "set (ds_Tombstones s) - set (take maxTombstones ?sorted) \<subseteq> set (drop maxTombstones ?sorted)"
    using set by (metis Diff_subset_conv append_take_drop_id order_refl set_append)
  with order False set show ?thesis
    by (auto simp: compactTombstones_def length_in_order [OF ok] dest: in_set_takeD)
qed

definition demo_tombstone :: "int \<Rightarrow> Tombstone" where
  "demo_tombstone q = \<lparr>tomb_ProfileID = ''a'', tomb_SlotKey = ''s'', tomb_LeaseID = [],
     tomb_Reason = TombstoneReleased, tomb_Evidence = [], tomb_Sequence = q\<rparr>"

theorem compaction_drops_oldest_witness:
  "length (ds_Tombstones (compactTombstones [] (newDurableState
     \<lparr>ds_Tombstones := [(''a/s'', demo_tombstone 1), (''a/t'', demo_tombstone 2)]\<rparr>))) = 2"
proof -
  let ?s = "newDurableState\<lparr>ds_Tombstones := [(''a/s'', demo_tombstone 1), (''a/t'', demo_tombstone 2)]\<rparr>"
  have "map_ok (ds_Tombstones ?s)" by simp
  from compaction_drops_oldest [OF this, of "[]"] show ?thesis by (simp add: maxTombstones_def)
qed

end
