(* ===== verification/Backoff.thy ===== *)
theory Backoff
  imports Go_Time Sha256
begin

text \<open>
  Retry pacing (\<^verbatim>\<open>autoscaler/backoff.go\<close> and the delays built on it in
  \<^verbatim>\<open>registration_cleanup.go\<close>, \<^verbatim>\<open>manager.go\<close> and \<^verbatim>\<open>scaler.go\<close>): a doubling delay bounded by a
  maximum, with a jitter derived from a hash of the identity.
\<close>

text \<open>The loop over \<^verbatim>\<open>attempt\<close>; the third argument counts the iterations that remain.\<close>

fun backoff_loop :: "int \<Rightarrow> int \<Rightarrow> nat \<Rightarrow> int" where
  "backoff_loop maximum delay 0 = (if delay > maximum then maximum else delay)"
| "backoff_loop maximum delay (Suc n) =
     (if delay \<ge> maximum \<or> delay > maximum sdiv 2 then maximum
      else backoff_loop maximum (mul64 delay 2) n)"

definition boundedExponentialBackoff :: "int \<Rightarrow> int \<Rightarrow> int \<Rightarrow> int" where
  "boundedExponentialBackoff base maximum consecutiveFailures =
     (if base \<le> 0 \<or> consecutiveFailures \<le> 0 then 0
      else if maximum \<le> 0 then base
      else if base \<ge> maximum then maximum
      else backoff_loop maximum base (nat (consecutiveFailures - 1)))"

definition deterministicRetryJitter :: "string \<Rightarrow> int \<Rightarrow> int" where
  "deterministicRetryJitter identity window =
     (let windowSeconds = window sdiv time_Second in
      if windowSeconds \<le> 0 then 0
      else
        let sum = sha256 identity; value = sum ! 0 * 256 + sum ! 1 in
        (value smod windowSeconds) * time_Second)"

definition registrationOperationRetryBase :: int where
  "registrationOperationRetryBase = time_Minute"

definition registrationOperationRetryMaximum :: int where
  "registrationOperationRetryMaximum = 15 * time_Minute"

definition registrationOperationRetryDelay :: "int \<Rightarrow> int" where
  "registrationOperationRetryDelay attempts =
     boundedExponentialBackoff registrationOperationRetryBase registrationOperationRetryMaximum
       attempts"

definition maxRegistrationCleanupAttempts :: int where
  "maxRegistrationCleanupAttempts = 1000"

definition registrationAccessSuccessInterval :: int where
  "registrationAccessSuccessInterval = time_Hour"

definition registrationAccessFailureInterval :: int where
  "registrationAccessFailureInterval = 5 * time_Minute"

definition registrationAccessRateLimitBase :: int where
  "registrationAccessRateLimitBase = 15 * time_Minute"

definition registrationAccessMaxBackoff :: int where
  "registrationAccessMaxBackoff = time_Hour"

definition registrationAccessJitterWindow :: int where
  "registrationAccessJitterWindow = 5 * time_Minute"

definition registrationAccessInitialDelay :: int where
  "registrationAccessInitialDelay = 30 * time_Second"

definition registrationAccessJitter :: "string \<Rightarrow> int" where
  "registrationAccessJitter profileID =
     deterministicRetryJitter profileID registrationAccessJitterWindow"

definition registrationAccessFirstCheckDelay :: "string \<Rightarrow> int" where
  "registrationAccessFirstCheckDelay profileID =
     registrationAccessInitialDelay + registrationAccessJitter profileID"

definition registrationAccessNextDelay :: "string \<Rightarrow> int \<Rightarrow> bool \<Rightarrow> int" where
  "registrationAccessNextDelay profileID consecutiveFailures rateLimited =
     (if consecutiveFailures \<le> 0
      then registrationAccessSuccessInterval + registrationAccessJitter profileID
      else
        (if rateLimited
         then boundedExponentialBackoff registrationAccessRateLimitBase
           registrationAccessMaxBackoff consecutiveFailures
         else registrationAccessFailureInterval)
        + registrationAccessJitter profileID)"

definition workerLaunchRetryBase :: int where
  "workerLaunchRetryBase = time_Minute"

definition workerLaunchRetryMaximum :: int where
  "workerLaunchRetryMaximum = 15 * time_Minute"

definition workerExitRetryJitter :: int where
  "workerExitRetryJitter = 15 * time_Second"

definition workerExitRetryDelay :: "string \<Rightarrow> string \<Rightarrow> int \<Rightarrow> int" where
  "workerExitRetryDelay profileID targetKey failures =
     (let delay = boundedExponentialBackoff workerLaunchRetryBase workerLaunchRetryMaximum failures in
      if delay = 0 then 0
      else
        let jitter = deterministicRetryJitter (profileID @ CHR 0x00 # targetKey) workerExitRetryJitter
        in min (delay + jitter) workerLaunchRetryMaximum)"

lemmas pacing = registrationOperationRetryBase_def registrationOperationRetryMaximum_def
  registrationAccessSuccessInterval_def registrationAccessFailureInterval_def
  registrationAccessRateLimitBase_def registrationAccessMaxBackoff_def
  registrationAccessJitterWindow_def registrationAccessInitialDelay_def
  workerLaunchRetryBase_def workerLaunchRetryMaximum_def workerExitRetryJitter_def

section \<open>Bounds\<close>

lemma half_bounds:
  assumes "0 < (m::int)" shows "2 * (m sdiv 2) \<le> m" "m < 2 * (m sdiv 2) + 2"
  using assms by (simp_all add: signed_divide_int_def)

lemma backoff_loop_closed:
  assumes "0 < delay" "0 < maximum" "maximum \<le> max_int64"
  shows "backoff_loop maximum delay n = min maximum (delay * 2 ^ n)"
  using assms(1)
proof (induction n arbitrary: delay)
  case (Suc n)
  show ?case
  proof (cases "delay > maximum sdiv 2")
    case True
    then have "maximum \<le> 2 * delay" using half_bounds(2) [OF assms(2)] by linarith
    also have "\<dots> \<le> delay * 2 ^ Suc n" using Suc.prems by simp
    finally show ?thesis using True by simp
  next
    case False
    then have fits: "delay * 2 \<le> maximum" using half_bounds(1) [OF assms(2)] by linarith
    then have "mul64 delay 2 = delay * 2" using Suc.prems assms(3) by (intro mul64_id) auto
    with False fits Suc.prems Suc.IH [of "delay * 2"] show ?thesis by (simp add: mult.assoc)
  qed
qed simp

lemma backoff_closed:
  assumes "0 < base" "0 < maximum" "maximum \<le> max_int64" "0 < failures"
  shows "boundedExponentialBackoff base maximum failures
    = min maximum (base * 2 ^ nat (failures - 1))"
proof (cases "base \<ge> maximum")
  case True
  have "base * 1 \<le> base * 2 ^ nat (failures - 1)"
    using assms(1) by (intro mult_left_mono) auto
  with True have "maximum \<le> base * 2 ^ nat (failures - 1)" by simp
  with True assms show ?thesis by (simp add: boundedExponentialBackoff_def)
qed (use assms in \<open>simp add: boundedExponentialBackoff_def backoff_loop_closed\<close>)

lemma digest_value_range: "0 \<le> sha256 s ! 0 * 256 + sha256 s ! 1"
  using sha256_byte [of "sha256 s ! 0" s] sha256_byte [of "sha256 s ! 1" s] by simp

lemma jitter_range:
  "0 \<le> deterministicRetryJitter identity window"
  "0 < window \<Longrightarrow> deterministicRetryJitter identity window < window"
proof -
  let ?w = "window sdiv time_Second"
  let ?v = "sha256 identity ! 0 * 256 + sha256 identity ! 1"
  have mod: "?v smod ?w = ?v mod ?w" if "0 < ?w"
    using digest_value_range that by (rule smod_mod_positive [OF _ less_imp_le])
  then show "0 \<le> deterministicRetryJitter identity window"
    by (auto simp: deterministicRetryJitter_def Let_def time_Second_def)
  assume pos: "0 < window"
  then have w: "?w * time_Second \<le> window"
    by (simp add: signed_divide_int_def time_Second_def)
  have "(?v mod ?w + 1) * time_Second \<le> ?w * time_Second" if "0 < ?w"
    using that by (intro mult_right_mono) (auto simp: time_Second_def intro: pos_mod_bound zless_imp_add1_zle)
  with w pos mod show "deterministicRetryJitter identity window < window"
    by (auto simp: deterministicRetryJitter_def Let_def time_Second_def)
qed

text \<open>
  C38: The retry delay is the doubling sequence cut off at the maximum. After n consecutive
  failures the wait is the smaller of the maximum and base times 2 to the n-1, for every
  failure count: no count overflows the 64-bit duration, and a larger count never waits less.
\<close>

theorem backoff_doubles_to_maximum:
  assumes "0 < base" "0 < maximum" "maximum \<le> max_int64" "0 < failures"
  shows "boundedExponentialBackoff base maximum failures
      = min maximum (base * 2 ^ nat (failures - 1))
    \<and> boundedExponentialBackoff base maximum failures
        \<le> boundedExponentialBackoff base maximum (failures + 1)"
proof -
  have "base * 2 ^ nat (failures - 1) \<le> base * 2 ^ nat (failures + 1 - 1)"
    using assms by (intro mult_left_mono power_increasing) auto
  with assms show ?thesis by (auto simp: backoff_closed min_le_iff_disj)
qed

theorem backoff_doubles_to_maximum_witness:
  "boundedExponentialBackoff time_Minute (15 * time_Minute) 4 = 8 * time_Minute
   \<and> boundedExponentialBackoff time_Minute (15 * time_Minute) 5 = 15 * time_Minute"
  using backoff_doubles_to_maximum [of time_Minute "15 * time_Minute" 4]
    backoff_doubles_to_maximum [of time_Minute "15 * time_Minute" 5]
  by (simp add: durations max_int64_def)

end
