(* ===== verification/State_Files.thy ===== *)
theory State_Files
  imports Durable Backoff Config
begin

text \<open>
  The manager's state files (\<^verbatim>\<open>autoscaler/state_files.go\<close>): the atomic replacement, call by
  call, and the documents kept in single files with their load, save and remove. A file holds
  no document, bytes that cannot be read, text that does not decode, or a decoded document.
\<close>

text \<open>
  \<^verbatim>\<open>writeBytesAtomically\<close> removes the temporary file unless the rename committed; the rename
  itself takes it away.
\<close>

definition writeBytesAtomically ::
  "bool \<Rightarrow> (fs_call \<Rightarrow> bool) \<Rightarrow> 'd fsys \<Rightarrow> 'd \<Rightarrow> 'd fsys list \<times> goerr option" where
  "writeBytesAtomically windows fails fs data =
     (if fails MkdirAll \<or> fails CreateTemp then ([fs], Some err_other)
      else
        let created = fs\<lparr>fs_temp := Some FileEmpty\<rparr>;
            partially = fs\<lparr>fs_temp := Some FilePartial\<rparr>;
            written = fs\<lparr>fs_temp := Some (FileFull data)\<rparr>;
            committed = rename_temp written
        in if fails Chmod then ([fs, created, remove_temp fails created], Some err_other)
           else if fails WriteData then
             ([fs, created, partially, remove_temp fails partially], Some err_other)
           else if fails SyncFile \<or> fails CloseFile \<or> fails Rename then
             ([fs, created, partially, written, remove_temp fails written], Some err_other)
           else ([fs, created, partially, written, committed], sync_directory windows fails))"

definition manager_save ::
  "bool \<Rightarrow> (fs_call \<Rightarrow> bool) \<Rightarrow> 'd fsys \<Rightarrow> 'd \<Rightarrow> 'd fsys \<times> goerr option" where
  "manager_save windows fails fs data =
     (let (states, err) = writeBytesAtomically windows fails fs data in (last states, err))"

lemma manager_save_target:
  assumes "manager_save windows fails fs d = (fs', err)"
  shows "fs_target fs' = Some (FileFull d) \<or> err \<noteq> None \<and> fs_target fs' = fs_target fs"
  using assms by (auto simp: manager_save_def writeBytesAtomically_def remove_temp_def rename_temp_def
      Let_def split: if_splits)

interpretation manager_file: document_store "manager_save windows fails" target_document
  by unfold_locales (use target_document_same in \<open>force dest!: manager_save_target\<close>)+

section \<open>Single documents\<close>

datatype 'd state_file = NoStateFile | UnreadableFile | UndecodableFile | StateFile 'd

text \<open>\<^verbatim>\<open>readOptionalFile\<close> followed by \<^verbatim>\<open>json.Unmarshal\<close>.\<close>

fun read_document :: "'d state_file \<Rightarrow> goerr + 'd option" where
  "read_document NoStateFile = Inr None"
| "read_document UnreadableFile = Inl err_other"
| "read_document UndecodableFile = Inl err_other"
| "read_document (StateFile d) = Inr (Some d)"

text \<open>\<^verbatim>\<open>writeJSONAtomically\<close>, by what it leaves in place of the target.\<close>

fun write_document :: "save_outcome \<Rightarrow> 'd state_file \<Rightarrow> 'd \<Rightarrow> 'd state_file \<times> goerr option" where
  "write_document Saved f d = (StateFile d, None)"
| "write_document NotReplaced f d = (f, Some err_other)"
| "write_document ReplacedUnsynced f d = (StateFile d, Some err_other)"

text \<open>\<^verbatim>\<open>os.Remove\<close>, a missing file counting as removed.\<close>

definition remove_document :: "bool \<Rightarrow> 'd state_file \<Rightarrow> 'd state_file \<times> goerr option" where
  "remove_document fails f =
     (case f of
        NoStateFile \<Rightarrow> (f, None)
      | _ \<Rightarrow> if fails then (f, Some err_other) else (NoStateFile, None))"

definition document_of :: "'d state_file \<Rightarrow> 'd option" where
  "document_of f = (case f of StateFile d \<Rightarrow> Some d | _ \<Rightarrow> None)"

interpretation state_document: document_store "write_document outcome" document_of
  by unfold_locales (cases outcome; auto simp: document_of_def)+

section \<open>Queues of records for one target\<close>

text \<open>
  The three retry queues (registration cleanup, host lease cleanup, registration fences) are
  documents with the same envelope: versions, the target they belong to, and the records.
\<close>

record 'r target_document =
  td_SchemaVersion :: int
  td_ManagerContractVersion :: int
  td_TargetKey :: string
  td_Records :: "'r list"

text \<open>
  The loop over the records: each must pass its check and have a key not seen before; its
  attempt count is clamped.
\<close>

fun parse_records ::
  "('r \<Rightarrow> bool) \<Rightarrow> ('r \<Rightarrow> string) \<Rightarrow> ('r \<Rightarrow> 'r) \<Rightarrow> string list \<Rightarrow> 'r list \<Rightarrow> 'r list option" where
  "parse_records check key clamp seen [] = Some []"
| "parse_records check key clamp seen (r # rs) =
     (if \<not> check r then None
      else if key r \<in> set seen then None
      else map_option ((#) (clamp r)) (parse_records check key clamp (key r # seen) rs))"

lemma parse_records_Some:
  "parse_records check key clamp seen rs = Some rs' \<longleftrightarrow>
     (\<forall>r \<in> set rs. check r) \<and> distinct (map key rs) \<and> set seen \<inter> key ` set rs = {}
     \<and> rs' = map clamp rs"
  by (induction rs arbitrary: seen rs') auto

lemma distinct_sort_map: "distinct (map f (sort_key g xs)) = distinct (map f xs)"
proof -
  have "mset (map f (sort_key g xs)) = mset (map f xs)" by simp
  then show ?thesis by (rule mset_eq_imp_distinct_iff)
qed

definition parse_target_document ::
  "int \<Rightarrow> (string \<Rightarrow> 'r \<Rightarrow> bool) \<Rightarrow> ('r \<Rightarrow> string) \<Rightarrow> ('r \<Rightarrow> 'r) \<Rightarrow> 'r target_document \<Rightarrow> string
    \<Rightarrow> goerr + 'r target_document" where
  "parse_target_document oldest check key clamp document targetKey =
     (if td_SchemaVersion document \<noteq> 1 then Inl err_other
      else if td_ManagerContractVersion document < oldest
        \<or> td_ManagerContractVersion document > managerContractVersion then Inl err_other
      else if td_TargetKey document \<noteq> targetKey then Inl err_other
      else case parse_records (check targetKey) key clamp [] (td_Records document) of
          None \<Rightarrow> Inl err_other
        | Some records \<Rightarrow> Inr (document\<lparr>td_Records := records\<rparr>))"

definition load_records ::
  "('r target_document \<Rightarrow> string \<Rightarrow> goerr + 'r target_document) \<Rightarrow> string
    \<Rightarrow> 'r target_document state_file \<Rightarrow> goerr + 'r list" where
  "load_records parse targetKey f =
     (case read_document f of
        Inl err \<Rightarrow> Inl err
      | Inr None \<Rightarrow> Inr []
      | Inr (Some document) \<Rightarrow>
          (case parse document targetKey of
             Inl err \<Rightarrow> Inl err
           | Inr parsed \<Rightarrow> Inr (td_Records parsed)))"

text \<open>
  Saving sorts by key (the keys of a queue are distinct, so any sort gives this order); an
  empty queue removes the file.
\<close>

definition save_records ::
  "int \<Rightarrow> ('r \<Rightarrow> string) \<Rightarrow> string \<Rightarrow> save_outcome \<Rightarrow> 'r list \<Rightarrow> 'r target_document state_file
    \<Rightarrow> 'r target_document state_file \<times> goerr option" where
  "save_records version key targetKey outcome records f =
     (if records = [] then remove_document (outcome \<noteq> Saved) f
      else write_document outcome f
        \<lparr>td_SchemaVersion = 1, td_ManagerContractVersion = version, td_TargetKey = targetKey,
         td_Records = sort_key key records\<rparr>)"

end
