(* ===== verification/Manager_Errors.thy ===== *)
theory Manager_Errors
  imports Errors
begin

text \<open>
  Errors of the autoscaler manager. A manager error is the list of sentinels that
  \<^verbatim>\<open>errors.Is\<close> finds in it: the manager's own, the admission package's, those of the GitHub
  client and of the standard library. \<open>RateLimitText\<close> stands for a message that
  \<^verbatim>\<open>githubRateLimitMessage\<close> recognises. Covers the classifications of \<^verbatim>\<open>diagnostics.go\<close>,
  \<^verbatim>\<open>host_admission.go\<close> and \<^verbatim>\<open>scaler.go\<close>.
\<close>

datatype manager_sentinel =
    Admission sentinel
  | errHostAdmissionWithheld
  | errHostAdmissionUnavailable
  | errHostAdmissionDegraded
  | errGitHubRunnerAuthorization
  | errGitHubRunnerCredentialRejected
  | errGitHubRunnerPermissionDenied
  | errGitHubRunnerOrganizationAccess
  | errGitHubRunnerNotFound
  | errGitHubRunnerRateLimited
  | errGitHubRunnerResponse
  | RateLimitText
  | RunnerNotFoundError
  | JobStillRunningError
  | ContextDeadlineExceeded
  | ContextCanceled
  | OsErrNotExist
  | OsErrPermission

type_synonym manager_error = "manager_sentinel list"

definition error_Is :: "manager_error \<Rightarrow> manager_sentinel \<Rightarrow> bool" where
  "error_Is err s \<longleftrightarrow> s \<in> set err"

text \<open>Returning one of the manager's sentinels; three of them wrap the authorization failure.\<close>

fun manager_raise :: "manager_sentinel \<Rightarrow> manager_error" where
  "manager_raise errGitHubRunnerCredentialRejected =
     [errGitHubRunnerCredentialRejected, errGitHubRunnerAuthorization]"
| "manager_raise errGitHubRunnerPermissionDenied =
     [errGitHubRunnerPermissionDenied, errGitHubRunnerAuthorization]"
| "manager_raise errGitHubRunnerOrganizationAccess =
     [errGitHubRunnerOrganizationAccess, errGitHubRunnerAuthorization]"
| "manager_raise s = [s]"

text \<open>An admission error as the manager receives it.\<close>

definition from_admission :: "goerr \<Rightarrow> manager_error" where
  "from_admission err = map Admission (err_chain err)"

lemma error_Is_from_admission [simp]:
  "error_Is (from_admission err) (Admission s) \<longleftrightarrow> errors_Is err s"
  by (auto simp: error_Is_def from_admission_def errors_Is_def)

lemma from_admission_other [simp]: "s \<notin> range Admission \<Longrightarrow> \<not> error_Is (from_admission err) s"
  by (auto simp: error_Is_def from_admission_def)

lemma error_Is_append [simp]: "error_Is (e @ f) s \<longleftrightarrow> error_Is e s \<or> error_Is f s"
  "error_Is (x # e) s \<longleftrightarrow> x = s \<or> error_Is e s" "\<not> error_Is [] s"
  by (auto simp: error_Is_def)

text \<open>\<^verbatim>\<open>errors.Join\<close>: nil when every argument is nil.\<close>

definition errors_Join :: "manager_error option list \<Rightarrow> manager_error option" where
  "errors_Join errs =
     (let present = List.map_filter id errs in if present = [] then None else Some (concat present))"

lemma map_filter_id_Nil: "List.map_filter id xs = [] \<longleftrightarrow> (\<forall>x \<in> set xs. x = None)"
  by (induction xs) (auto simp: List.map_filter_simps split: option.splits)

lemma errors_Join_None [simp]: "errors_Join errs = None \<longleftrightarrow> (\<forall>e \<in> set errs. e = None)"
  by (simp add: errors_Join_def Let_def map_filter_id_Nil)

section \<open>Failure classes\<close>

datatype failure_reason =
    reasonNone | reasonDockerUnavailable | reasonDockerFailed | reasonTimeout | reasonRateLimited
  | reasonAuthorizationFailed | reasonNotFound | reasonConflict | reasonInvalidState
  | reasonCapacityCeiling | reasonRetryBackoff | reasonCancelled | reasonRecovered | reasonUnknown

fun classifyFailure :: "manager_error option \<Rightarrow> failure_reason" where
  "classifyFailure None = reasonNone"
| "classifyFailure (Some err) =
     (if error_Is err errGitHubRunnerAuthorization then reasonAuthorizationFailed
      else if error_Is err errGitHubRunnerRateLimited then reasonRateLimited
      else if error_Is err RateLimitText then reasonRateLimited
      else if error_Is err errGitHubRunnerNotFound then reasonNotFound
      else if error_Is err ContextDeadlineExceeded then reasonTimeout
      else if error_Is err ContextCanceled then reasonCancelled
      else if error_Is err RunnerNotFoundError then reasonNotFound
      else if error_Is err JobStillRunningError then reasonConflict
      else if error_Is err OsErrNotExist then reasonNotFound
      else if error_Is err OsErrPermission then reasonAuthorizationFailed
      else reasonUnknown)"

datatype operation_outcome =
    outcomeSucceeded | outcomeFailed | outcomeTimedOut | outcomeRetry | outcomeBlocked
  | outcomeRecovered | outcomeUnknownResult

definition failureOutcome :: "manager_error option \<Rightarrow> operation_outcome" where
  "failureOutcome err =
     (if classifyFailure err = reasonTimeout then outcomeTimedOut else outcomeFailed)"

definition dockerFailureReason :: "manager_error option \<Rightarrow> failure_reason" where
  "dockerFailureReason err =
     (case classifyFailure err of
        reasonUnknown \<Rightarrow> reasonDockerFailed
      | reasonNotFound \<Rightarrow> reasonDockerUnavailable
      | reason \<Rightarrow> reason)"

text \<open>A registration that is already gone counts as removed.\<close>

definition registrationRemovalError :: "manager_error option \<Rightarrow> manager_error option" where
  "registrationRemovalError err =
     (case err of
        None \<Rightarrow> None
      | Some e \<Rightarrow> if error_Is e RunnerNotFoundError then None else Some e)"

datatype hostAdmissionOutcome =
    hostAdmissionGranted | hostAdmissionBudgetDenied | hostAdmissionDegraded | hostAdmissionOutage

definition classifyHostAdmissionFailure :: "goerr \<Rightarrow> hostAdmissionOutcome \<times> manager_error" where
  "classifyHostAdmissionFailure err =
     (if errors_Is err ErrBudgetExceeded \<or> errors_Is err ErrAdoptionPending
      then (hostAdmissionBudgetDenied, errHostAdmissionWithheld # from_admission err)
      else if errors_Is err ErrUnknownProfile \<or> errors_Is err ErrInvalidPolicy
        \<or> errors_Is err ErrInvalidIdentity \<or> errors_Is err ErrStalePolicy
        \<or> errors_Is err ErrCorruptState \<or> errors_Is err ErrProtocolMismatch
        \<or> errors_Is err ErrLeaseNotFound \<or> errors_Is err ErrLeaseExpired
        \<or> errors_Is err ErrLeaseNotProvisional
      then (hostAdmissionDegraded, errHostAdmissionDegraded # from_admission err)
      else (hostAdmissionOutage, errHostAdmissionUnavailable # from_admission err))"

datatype deficit_reason =
    deficitNone | deficitAdmissionCeiling | deficitHostAdmissionWithheld
  | deficitHostAdmissionDegraded | deficitHostAdmissionUnavailable | deficitLaunchPending
  | deficitDockerUnavailable | deficitDockerFailed | deficitJITPending | deficitJITFailed
  | deficitListenerUnavailable | deficitSessionUnavailable | deficitCleanupPending
  | deficitWorkerDraining | deficitInvalidDesiredState | deficitRetryBackoff | deficitUnknown

definition hostAdmissionFailureDetails ::
  "manager_error \<Rightarrow> deficit_reason \<times> failure_reason \<times> string" where
  "hostAdmissionFailureDetails err =
     (if error_Is err (Admission ErrBudgetExhausted)
      then (deficitHostAdmissionWithheld, reasonCapacityCeiling,
        ''effective host-admission budget cannot fit another worker'')
      else if error_Is err (Admission ErrProtectedReservation)
      then (deficitHostAdmissionWithheld, reasonCapacityCeiling,
        ''capacity is protected by another profile's non-borrowable reservation'')
      else if error_Is err (Admission ErrFairShareContention)
      then (deficitHostAdmissionWithheld, reasonCapacityCeiling,
        ''shared capacity is withheld by the current fair-share decision'')
      else if error_Is err errHostAdmissionWithheld
      then (deficitHostAdmissionWithheld, reasonCapacityCeiling,
        ''host admission coordinator denied worker activation'')
      else if error_Is err errHostAdmissionDegraded
      then (deficitHostAdmissionDegraded, reasonInvalidState,
        ''host admission policy or lease state is incompatible'')
      else (deficitHostAdmissionUnavailable, reasonUnknown,
        ''host admission coordinator unavailable''))"

end
