(* ===== verification/Retry_Queues.thy ===== *)
theory Retry_Queues
  imports Labels State_Files Manager_Errors
begin

text \<open>
  Work that must survive a restart of the manager. Exit evidence
  (\<^verbatim>\<open>autoscaler/exit_evidence.go\<close>), the three queues of records kept per target
  (\<^verbatim>\<open>registration_cleanup.go\<close>, \<^verbatim>\<open>host_lease_cleanup.go\<close>, \<^verbatim>\<open>registration_fence.go\<close>) as
  instances of one contract, and the queue of host lease releases in \<^verbatim>\<open>scaler.go\<close>.
\<close>

section \<open>Exit evidence\<close>

record containerExitState =
  ce_exitCode :: int
  ce_oomKilled :: "bool option"

datatype exit_classification =
    ExitUnknown | ExitOomKilled | ExitSigkill | ExitSignal | ExitClean | ExitError | ExitLaunchFailure

datatype exit_source = DockerWait | DockerInspect | Unavailable | LaunchSource

record lastExitDiagnostic =
  le_ObservedAt :: stamp
  le_Classification :: exit_classification
  le_ExitCode :: "int option"
  le_Signal :: "int option"
  le_DockerOOMKilled :: "bool option"
  le_Evidence :: exit_source

definition signalFromExitCode :: "int \<Rightarrow> int" where
  "signalFromExitCode exitCode = (if exitCode \<le> 128 \<or> exitCode > 128 + 64 then 0 else exitCode - 128)"

definition classifyContainerExit :: "containerExitState \<Rightarrow> bool \<Rightarrow> int \<Rightarrow> lastExitDiagnostic" where
  "classifyContainerExit state inspected observedAt =
     (let oom = (if inspected then ce_oomKilled state else None);
          exitCode = ce_exitCode state;
          base = \<lparr>le_ObservedAt = format_RFC3339 observedAt, le_Classification = ExitUnknown,
            le_ExitCode = None, le_Signal = None, le_DockerOOMKilled = oom,
            le_Evidence = (if inspected then DockerInspect else DockerWait)\<rparr>
      in if exitCode < 0 \<or> exitCode > 255 then base\<lparr>le_Evidence := Unavailable\<rparr>
         else
           let signal = signalFromExitCode exitCode in
           base\<lparr>le_ExitCode := Some exitCode,
             le_Signal := (if signal > 0 then Some signal else None),
             le_Classification :=
               (if inspected \<and> ce_oomKilled state = Some True then ExitOomKilled
                else if signal = 9 then ExitSigkill
                else if signal > 0 then ExitSignal
                else if exitCode = 0 then ExitClean
                else ExitError)\<rparr>)"

definition launchFailureDiagnostic :: "int \<Rightarrow> lastExitDiagnostic" where
  "launchFailureDiagnostic observedAt =
     \<lparr>le_ObservedAt = format_RFC3339 observedAt, le_Classification = ExitLaunchFailure,
      le_ExitCode = None, le_Signal = None, le_DockerOOMKilled = None, le_Evidence = LaunchSource\<rparr>"

text \<open>Exit code 137 alone is no evidence of an out-of-memory kill.\<close>

lemma oom_needs_docker_evidence:
  "le_Classification (classifyContainerExit state inspected t) = ExitOomKilled
     \<longleftrightarrow> inspected \<and> ce_oomKilled state = Some True \<and> 0 \<le> ce_exitCode state \<and> ce_exitCode state \<le> 255"
  by (auto simp: classifyContainerExit_def Let_def)

section \<open>The contract of a queue\<close>

text \<open>
  A queue has the oldest document version it reads, the version it writes, the check of a record
  for its target, the key of a record, and the clamp applied to the attempts of a record read.
\<close>

locale retry_queue =
  fixes oldest :: int
    and version :: int
    and check :: "string \<Rightarrow> 'r \<Rightarrow> bool"
    and key :: "'r \<Rightarrow> string"
    and clamp :: "'r \<Rightarrow> 'r"
  assumes version_readable: "oldest \<le> version" "version \<le> managerContractVersion"
    and check_clamp: "check target (clamp r) = check target r"
    and key_clamp: "key (clamp r) = key r"
    and clamp_clamp: "clamp (clamp r) = clamp r"
begin

lemma parse_written:
  assumes "distinct (map key records)" "\<forall>r \<in> set records. check target r"
  shows "parse_target_document oldest check key clamp
      \<lparr>td_SchemaVersion = 1, td_ManagerContractVersion = version, td_TargetKey = target,
       td_Records = sort_key key records\<rparr> target
    = Inr \<lparr>td_SchemaVersion = 1, td_ManagerContractVersion = version, td_TargetKey = target,
       td_Records = map clamp (sort_key key records)\<rparr>"
proof -
  have "distinct (map key (sort_key key records))"
    using assms(1) by (simp only: distinct_sort_map)
  then have "parse_records (check target) key clamp [] (sort_key key records)
      = Some (map clamp (sort_key key records))"
    using assms(2) by (simp add: parse_records_Some)
  then show ?thesis using version_readable by (simp add: parse_target_document_def)
qed

text \<open>What was saved is loaded, sorted and clamped; an empty queue leaves no file.\<close>

lemma save_load:
  assumes "distinct (map key records)" "\<forall>r \<in> set records. check target r"
    and "save_records version key target Saved records f = (f', err)"
  shows "load_records (parse_target_document oldest check key clamp) target f'
    = Inr (map clamp (sort_key key records)) \<and> err = None"
proof (cases "records = []")
  case True
  with assms(3) show ?thesis
    by (auto simp: save_records_def remove_document_def load_records_def split: state_file.splits)
next
  case False
  with assms(3) parse_written [OF assms(1,2)] show ?thesis
    by (auto simp: save_records_def load_records_def)
qed

text \<open>Whatever the outcome, the file holds the saved records or what it held before.\<close>

lemma save_outcomes:
  assumes "distinct (map key records)" "\<forall>r \<in> set records. check target r" "records \<noteq> []"
    and "save_records version key target outcome records f = (f', err)"
  shows "load_records (parse_target_document oldest check key clamp) target f'
    \<in> {Inr (map clamp (sort_key key records)), load_records (parse_target_document oldest check key clamp) target f}"
  using assms(3,4) parse_written [OF assms(1,2)]
  by (cases outcome) (auto simp: save_records_def load_records_def)

text \<open>A load that succeeds returns checked, clamped records with distinct keys, of this target only.\<close>

lemma load_sound:
  assumes "load_records (parse_target_document oldest check key clamp) target f = Inr records"
  shows "(\<forall>r \<in> set records. check target r \<and> clamp r = r) \<and> distinct (map key records)"
proof (cases f)
  case (StateFile d)
  with assms obtain rs where "parse_records (check target) key clamp [] (td_Records d) = Some rs"
    and "records = rs"
    by (auto simp: load_records_def parse_target_document_def split: if_splits option.splits)
  then show ?thesis
    by (auto simp: parse_records_Some check_clamp clamp_clamp key_clamp comp_def)
qed (use assms in \<open>simp_all add: load_records_def\<close>)

text \<open>Saving what was loaded and loading it again changes nothing but the order.\<close>

lemma reload:
  assumes "load_records (parse_target_document oldest check key clamp) target f = Inr records"
    and "save_records version key target Saved records f = (f', err)"
  shows "load_records (parse_target_document oldest check key clamp) target f'
    = Inr (sort_key key records)"
proof -
  note sound = load_sound [OF assms(1)]
  have "map clamp (sort_key key records) = sort_key key records"
    using sound by (intro map_idI) simp
  with save_load [OF _ _ assms(2)] sound show ?thesis by simp
qed

end

text \<open>
  The stores kept in memory when there is no state directory, the same for the three queues: a
  load returns a copy of what was saved last.
\<close>

definition memory_store_load :: "'r list \<Rightarrow> goerr + 'r list" where
  "memory_store_load stored = Inr stored"

definition memory_store_save :: "'r list \<Rightarrow> 'r list \<Rightarrow> 'r list \<times> goerr option" where
  "memory_store_save records stored = (records, None)"

definition clamp_attempts :: "int \<Rightarrow> int" where
  "clamp_attempts n = (if n > maxRegistrationCleanupAttempts then maxRegistrationCleanupAttempts else n)"

lemma clamp_attempts_idem [simp]: "clamp_attempts (clamp_attempts n) = clamp_attempts n"
  by (simp add: clamp_attempts_def)

lemma clamp_attempts_neg [simp]: "clamp_attempts n < 0 \<longleftrightarrow> n < 0"
  by (simp add: clamp_attempts_def maxRegistrationCleanupAttempts_def)

text \<open>The file of a target: \<^verbatim>\<open>registrationCleanupPath\<close> and its two siblings.\<close>

definition queue_path :: "unicode_tables \<Rightarrow> string \<Rightarrow> string \<Rightarrow> string \<Rightarrow> string" where
  "queue_path u stateDirectory kind targetKey =
     (let name = sanitizeIdentifier u targetKey 48
      in filepath_Join [stateDirectory, kind,
           (if name = [] then ''target'' else name) @ ''-''
             @ hex_encode (take 4 (sha256 targetKey)) @ ''.json''])"

definition registrationCleanupPath :: "unicode_tables \<Rightarrow> string \<Rightarrow> string \<Rightarrow> string" where
  "registrationCleanupPath u dir targetKey = queue_path u dir ''registration-cleanup'' targetKey"

definition hostLeaseCleanupPath :: "unicode_tables \<Rightarrow> string \<Rightarrow> string \<Rightarrow> string" where
  "hostLeaseCleanupPath u dir targetKey = queue_path u dir ''host-lease-cleanup'' targetKey"

definition registrationFencePath :: "unicode_tables \<Rightarrow> string \<Rightarrow> string \<Rightarrow> string" where
  "registrationFencePath u dir targetKey = queue_path u dir ''registration-fence'' targetKey"

section \<open>Registration cleanup\<close>

record registrationCleanupRecord =
  rc_TargetKey :: string
  rc_SlotKey :: string
  rc_RunnerID :: int
  rc_RunnerName :: string
  rc_ContainerID :: string
  rc_ContainerName :: string
  rc_Attempts :: int
  rc_FirstFailedAt :: stamp
  rc_LastAttemptAt :: stamp
  rc_NextAttemptAt :: stamp
  rc_LastExit :: "lastExitDiagnostic option"

definition registrationCleanupDocumentContractVersion :: int where
  "registrationCleanupDocumentContractVersion = 10"

definition registration_cleanup_ok :: "string \<Rightarrow> registrationCleanupRecord \<Rightarrow> bool" where
  "registration_cleanup_ok targetKey r \<longleftrightarrow>
     \<not> (rc_TargetKey r \<noteq> targetKey \<or> rc_SlotKey r = [] \<or> rc_RunnerID r < 1 \<or> rc_RunnerName r = []
       \<or> rc_ContainerID r = [])
     \<and> \<not> rc_Attempts r < 0
     \<and> stamp_ok (rc_FirstFailedAt r) \<and> stamp_ok (rc_LastAttemptAt r) \<and> stamp_ok (rc_NextAttemptAt r)"

definition clamp_cleanup :: "registrationCleanupRecord \<Rightarrow> registrationCleanupRecord" where
  "clamp_cleanup r = r\<lparr>rc_Attempts := clamp_attempts (rc_Attempts r)\<rparr>"

definition parseRegistrationCleanupDocument ::
  "registrationCleanupRecord target_document \<Rightarrow> string
    \<Rightarrow> goerr + registrationCleanupRecord target_document" where
  "parseRegistrationCleanupDocument =
     parse_target_document 10 registration_cleanup_ok rc_SlotKey clamp_cleanup"

definition registrationCleanup_load ::
  "string \<Rightarrow> registrationCleanupRecord target_document state_file
    \<Rightarrow> goerr + registrationCleanupRecord list" where
  "registrationCleanup_load targetKey f = load_records parseRegistrationCleanupDocument targetKey f"

definition registrationCleanup_save ::
  "string \<Rightarrow> save_outcome \<Rightarrow> registrationCleanupRecord list
    \<Rightarrow> registrationCleanupRecord target_document state_file
    \<Rightarrow> registrationCleanupRecord target_document state_file \<times> goerr option" where
  "registrationCleanup_save targetKey outcome records f =
     save_records registrationCleanupDocumentContractVersion rc_SlotKey targetKey outcome records f"

definition registrationCleanupDue :: "registrationCleanupRecord \<Rightarrow> int \<Rightarrow> bool" where
  "registrationCleanupDue r now =
     (case parse_RFC3339 (rc_NextAttemptAt r) of None \<Rightarrow> True | Some t \<Rightarrow> \<not> now < t)"

interpretation registration_cleanup: retry_queue 10 registrationCleanupDocumentContractVersion
  registration_cleanup_ok rc_SlotKey clamp_cleanup
  by unfold_locales (auto simp: registrationCleanupDocumentContractVersion_def
    managerContractVersion_def registration_cleanup_ok_def clamp_cleanup_def)

section \<open>Registration fences\<close>

datatype fence_purpose = registrationFenceScaleDown | registrationFenceStale
  | registrationFenceShutdown | unsupportedPurpose string

definition registrationFenceContractVersion :: int where
  "registrationFenceContractVersion = 22"

record registrationFenceRecord =
  rf_TargetKey :: string
  rf_SlotKey :: string
  rf_Purpose :: fence_purpose
  rf_RunnerID :: int
  rf_RunnerName :: string
  rf_ContainerID :: string
  rf_ContainerName :: string
  rf_Attempts :: int
  rf_FirstFailedAt :: stamp
  rf_LastAttemptAt :: stamp
  rf_NextAttemptAt :: stamp

definition registration_fence_ok :: "string \<Rightarrow> registrationFenceRecord \<Rightarrow> bool" where
  "registration_fence_ok targetKey r \<longleftrightarrow>
     \<not> (rf_TargetKey r \<noteq> targetKey \<or> rf_SlotKey r = [] \<or> rf_RunnerID r < 1 \<or> rf_RunnerName r = []
       \<or> rf_ContainerID r = [] \<or> rf_Attempts r < 0)
     \<and> rf_Purpose r \<in> {registrationFenceScaleDown, registrationFenceStale, registrationFenceShutdown}
     \<and> stamp_ok (rf_FirstFailedAt r) \<and> stamp_ok (rf_LastAttemptAt r) \<and> stamp_ok (rf_NextAttemptAt r)"

definition clamp_fence :: "registrationFenceRecord \<Rightarrow> registrationFenceRecord" where
  "clamp_fence r = r\<lparr>rf_Attempts := clamp_attempts (rf_Attempts r)\<rparr>"

definition parseRegistrationFenceDocument ::
  "registrationFenceRecord target_document \<Rightarrow> string
    \<Rightarrow> goerr + registrationFenceRecord target_document" where
  "parseRegistrationFenceDocument =
     parse_target_document registrationFenceContractVersion registration_fence_ok rf_SlotKey clamp_fence"

definition registrationFence_load ::
  "string \<Rightarrow> registrationFenceRecord target_document state_file
    \<Rightarrow> goerr + registrationFenceRecord list" where
  "registrationFence_load targetKey f = load_records parseRegistrationFenceDocument targetKey f"

definition registrationFence_save ::
  "string \<Rightarrow> save_outcome \<Rightarrow> registrationFenceRecord list
    \<Rightarrow> registrationFenceRecord target_document state_file
    \<Rightarrow> registrationFenceRecord target_document state_file \<times> goerr option" where
  "registrationFence_save targetKey outcome records f =
     save_records registrationFenceContractVersion rf_SlotKey targetKey outcome records f"

text \<open>Unlike the two cleanup queues, a fence with an unreadable deadline is not due.\<close>

definition registrationFenceDue :: "registrationFenceRecord \<Rightarrow> int \<Rightarrow> bool" where
  "registrationFenceDue r now =
     (rf_NextAttemptAt r = NoStamp
      \<or> (case parse_RFC3339 (rf_NextAttemptAt r) of None \<Rightarrow> False | Some t \<Rightarrow> \<not> now < t))"

interpretation registration_fence: retry_queue registrationFenceContractVersion
  registrationFenceContractVersion registration_fence_ok rf_SlotKey clamp_fence
  by unfold_locales (auto simp: registrationFenceContractVersion_def managerContractVersion_def
    registration_fence_ok_def clamp_fence_def)

section \<open>Host lease cleanup\<close>

definition hostLeaseReleaseRetryDelay :: int where
  "hostLeaseReleaseRetryDelay = 15 * time_Second"

record hostLeaseCleanupRecord =
  hl_TargetKey :: string
  hl_RunnerKey :: string
  hl_HostSlotKey :: string
  hl_Attempts :: int
  hl_FirstFailedAt :: stamp
  hl_LastAttemptAt :: stamp
  hl_NextAttemptAt :: stamp

definition hostLeaseCleanupDocumentContractVersion :: int where
  "hostLeaseCleanupDocumentContractVersion = 17"

definition host_lease_ok :: "string \<Rightarrow> hostLeaseCleanupRecord \<Rightarrow> bool" where
  "host_lease_ok targetKey r \<longleftrightarrow>
     \<not> (hl_TargetKey r \<noteq> targetKey \<or> hl_RunnerKey r = [] \<or> hl_HostSlotKey r = [])"

definition parseHostLeaseCleanupDocument ::
  "hostLeaseCleanupRecord target_document \<Rightarrow> string
    \<Rightarrow> goerr + hostLeaseCleanupRecord target_document" where
  "parseHostLeaseCleanupDocument =
     parse_target_document hostLeaseCleanupDocumentContractVersion host_lease_ok hl_HostSlotKey (\<lambda>r. r)"

definition hostLeaseCleanup_load ::
  "string \<Rightarrow> hostLeaseCleanupRecord target_document state_file \<Rightarrow> goerr + hostLeaseCleanupRecord list" where
  "hostLeaseCleanup_load targetKey f = load_records parseHostLeaseCleanupDocument targetKey f"

definition hostLeaseCleanup_save ::
  "string \<Rightarrow> save_outcome \<Rightarrow> hostLeaseCleanupRecord list
    \<Rightarrow> hostLeaseCleanupRecord target_document state_file
    \<Rightarrow> hostLeaseCleanupRecord target_document state_file \<times> goerr option" where
  "hostLeaseCleanup_save targetKey outcome records f =
     save_records hostLeaseCleanupDocumentContractVersion hl_HostSlotKey targetKey outcome records f"

definition hostLeaseReleaseDue :: "hostLeaseCleanupRecord \<Rightarrow> int \<Rightarrow> bool" where
  "hostLeaseReleaseDue r now =
     (case parse_RFC3339 (hl_NextAttemptAt r) of None \<Rightarrow> True | Some t \<Rightarrow> \<not> now < t)"

interpretation host_lease: retry_queue hostLeaseCleanupDocumentContractVersion
  hostLeaseCleanupDocumentContractVersion host_lease_ok hl_HostSlotKey "\<lambda>r. r"
  by unfold_locales (simp_all add: hostLeaseCleanupDocumentContractVersion_def managerContractVersion_def)

section \<open>Releasing host leases\<close>

text \<open>
  The part of \<^verbatim>\<open>runnerScaler\<close> that releases host leases: the target, the pending records in memory,
  the file, and the errors passed to \<^verbatim>\<open>onError\<close>. What the admission service answers to a release
  is an argument; a lease it does not know counts as released.
\<close>

record release_queue =
  rl_targetKey :: string
  rl_pending :: "(string, hostLeaseCleanupRecord) gomap"
  rl_file :: "hostLeaseCleanupRecord target_document state_file"
  rl_reported :: nat

definition persistPendingHostLeaseReleases :: "save_outcome \<Rightarrow> release_queue \<Rightarrow> release_queue" where
  "persistPendingHostLeaseReleases outcome q =
     (let (f, err) = hostLeaseCleanup_save (rl_targetKey q) outcome
            (sort_key hl_HostSlotKey (map snd (rl_pending q))) (rl_file q)
      in q\<lparr>rl_file := f, rl_reported := rl_reported q + (if err = None then 0 else 1)\<rparr>)"

definition beginPendingHostLeaseReleaseLocked ::
  "string \<Rightarrow> string \<Rightarrow> int \<Rightarrow> release_queue \<Rightarrow> hostLeaseCleanupRecord \<times> release_queue" where
  "beginPendingHostLeaseReleaseLocked runnerKey hostSlotKey now q =
     (let r = (case map_of (rl_pending q) hostSlotKey of
            Some r \<Rightarrow> r
          | None \<Rightarrow> \<lparr>hl_TargetKey = rl_targetKey q, hl_RunnerKey = runnerKey,
              hl_HostSlotKey = hostSlotKey, hl_Attempts = 0, hl_FirstFailedAt = format_RFC3339 now,
              hl_LastAttemptAt = NoStamp, hl_NextAttemptAt = NoStamp\<rparr>)
      in (r, q\<lparr>rl_pending := mput (rl_pending q) (hl_HostSlotKey r) r\<rparr>))"

definition beginPendingHostLeaseRelease ::
  "save_outcome \<Rightarrow> string \<Rightarrow> string \<Rightarrow> int \<Rightarrow> release_queue
    \<Rightarrow> hostLeaseCleanupRecord \<times> release_queue" where
  "beginPendingHostLeaseRelease outcome runnerKey hostSlotKey now q =
     (let (r, q') = beginPendingHostLeaseReleaseLocked runnerKey hostSlotKey now q
      in (r, persistPendingHostLeaseReleases outcome q'))"

definition attempted_release :: "int \<Rightarrow> hostLeaseCleanupRecord \<Rightarrow> hostLeaseCleanupRecord" where
  "attempted_release now r =
     r\<lparr>hl_FirstFailedAt := (if hl_FirstFailedAt r = NoStamp then format_RFC3339 now
          else hl_FirstFailedAt r),
       hl_Attempts := add64 (hl_Attempts r) 1,
       hl_LastAttemptAt := format_RFC3339 now,
       hl_NextAttemptAt := format_RFC3339 (now + hostLeaseReleaseRetryDelay)\<rparr>"

definition markPendingHostLeaseReleaseAttempt ::
  "save_outcome \<Rightarrow> hostLeaseCleanupRecord \<Rightarrow> int \<Rightarrow> release_queue \<Rightarrow> release_queue" where
  "markPendingHostLeaseReleaseAttempt outcome r now q =
     (let current = (case map_of (rl_pending q) (hl_HostSlotKey r) of Some c \<Rightarrow> c | None \<Rightarrow> r);
          updated = attempted_release now current;
          q' = persistPendingHostLeaseReleases outcome
            (q\<lparr>rl_pending := mput (rl_pending q) (hl_HostSlotKey updated) updated\<rparr>)
      in q'\<lparr>rl_reported := rl_reported q' + 1\<rparr>)"

definition resolvePendingHostLeaseRelease :: "save_outcome \<Rightarrow> string \<Rightarrow> release_queue \<Rightarrow> release_queue" where
  "resolvePendingHostLeaseRelease outcome hostSlotKey q =
     (if map_of (rl_pending q) hostSlotKey = None then q
      else persistPendingHostLeaseReleases outcome
        (q\<lparr>rl_pending := mdel (rl_pending q) hostSlotKey\<rparr>))"

definition attemptPendingHostLeaseRelease ::
  "(string \<Rightarrow> goerr option) \<Rightarrow> save_outcome \<Rightarrow> int \<Rightarrow> hostLeaseCleanupRecord \<Rightarrow> release_queue
    \<Rightarrow> goerr option \<times> release_queue" where
  "attemptPendingHostLeaseRelease release outcome now r q =
     (case release (hl_HostSlotKey r) of
        Some err \<Rightarrow> (Some err, markPendingHostLeaseReleaseAttempt outcome r now q)
      | None \<Rightarrow> (None, resolvePendingHostLeaseRelease outcome (hl_HostSlotKey r) q))"

definition releaseHostLeaseOrEnqueue ::
  "(string \<Rightarrow> goerr option) \<Rightarrow> save_outcome \<Rightarrow> save_outcome \<Rightarrow> int \<Rightarrow> int \<Rightarrow> string \<Rightarrow> string
    \<Rightarrow> release_queue \<Rightarrow> goerr option \<times> release_queue" where
  "releaseHostLeaseOrEnqueue release begun settled now later runnerKey hostSlotKey q =
     (if hostSlotKey = [] then (None, q)
      else
        let (r, q') = beginPendingHostLeaseRelease begun runnerKey hostSlotKey now q
        in attemptPendingHostLeaseRelease release settled later r q')"

fun retry_releases ::
  "(string \<Rightarrow> goerr option) \<Rightarrow> (string \<Rightarrow> save_outcome) \<Rightarrow> int \<Rightarrow> hostLeaseCleanupRecord list
    \<Rightarrow> release_queue \<Rightarrow> goerr list \<times> release_queue" where
  "retry_releases release outcome now [] q = ([], q)"
| "retry_releases release outcome now (r # rs) q =
     (if \<not> hostLeaseReleaseDue r now then retry_releases release outcome now rs q
      else
        let (err, q') = attemptPendingHostLeaseRelease release (outcome (hl_HostSlotKey r)) now r q;
            (errs, q'') = retry_releases release outcome now rs q'
        in ((case err of None \<Rightarrow> errs | Some e \<Rightarrow> e # errs), q''))"

definition retryPendingHostLeaseReleases ::
  "(string \<Rightarrow> goerr option) \<Rightarrow> (string \<Rightarrow> save_outcome) \<Rightarrow> int \<Rightarrow> release_queue
    \<Rightarrow> goerr list \<times> release_queue" where
  "retryPendingHostLeaseReleases release outcome now q =
     retry_releases release outcome now (sort_key hl_HostSlotKey (map snd (rl_pending q))) q"

text \<open>What a restarted manager holds. A release queue that cannot be loaded is only reported.\<close>

definition restorePendingHostLeaseReleases ::
  "string \<Rightarrow> hostLeaseCleanupRecord target_document state_file \<Rightarrow> release_queue" where
  "restorePendingHostLeaseReleases targetKey f =
     (case hostLeaseCleanup_load targetKey f of
        Inl err \<Rightarrow> \<lparr>rl_targetKey = targetKey, rl_pending = [], rl_file = f, rl_reported = 1\<rparr>
      | Inr records \<Rightarrow> \<lparr>rl_targetKey = targetKey,
          rl_pending = fold (\<lambda>r m. mput m (hl_HostSlotKey r) r) records [],
          rl_file = f, rl_reported = 0\<rparr>)"

section \<open>No release is lost\<close>

definition queue_ok :: "release_queue \<Rightarrow> bool" where
  "queue_ok q \<longleftrightarrow> map_ok (rl_pending q)
     \<and> (\<forall>(k, r) \<in> set (rl_pending q). hl_HostSlotKey r = k \<and> host_lease_ok (rl_targetKey q) r)"

text \<open>The lease is in the queue a restarted manager would load.\<close>

definition on_disk :: "release_queue \<Rightarrow> string \<Rightarrow> bool" where
  "on_disk q slot \<longleftrightarrow>
     (\<exists>records. hostLeaseCleanup_load (rl_targetKey q) (rl_file q) = Inr records
       \<and> slot \<in> hl_HostSlotKey ` set records)"

lemma queue_ok_put:
  assumes "queue_ok q" "host_lease_ok (rl_targetKey q) r"
  shows "queue_ok (q\<lparr>rl_pending := mput (rl_pending q) (hl_HostSlotKey r) r\<rparr>)"
  using assms by (auto simp: queue_ok_def set_mput)

lemma queue_ok_del: "queue_ok q \<Longrightarrow> queue_ok (q\<lparr>rl_pending := mdel (rl_pending q) k\<rparr>)"
  by (auto simp: queue_ok_def set_mdel)

lemma queue_keys:
  assumes "queue_ok q"
  shows "hl_HostSlotKey ` set (map snd (rl_pending q)) = set (mkeys (rl_pending q))"
    and "distinct (map hl_HostSlotKey (map snd (rl_pending q)))"
    and "\<forall>r \<in> set (map snd (rl_pending q)). host_lease_ok (rl_targetKey q) r"
proof -
  have keys: "map hl_HostSlotKey (map snd (rl_pending q)) = mkeys (rl_pending q)"
    using assms by (auto simp: queue_ok_def)
  show "distinct (map hl_HostSlotKey (map snd (rl_pending q)))"
    unfolding keys using assms by (simp add: queue_ok_def)
  show "hl_HostSlotKey ` set (map snd (rl_pending q)) = set (mkeys (rl_pending q))"
    using keys by (metis list.set_map)
  show "\<forall>r \<in> set (map snd (rl_pending q)). host_lease_ok (rl_targetKey q) r"
    using assms by (auto simp: queue_ok_def)
qed

text \<open>After a write, the file holds exactly the pending leases, or what it held before.\<close>

lemma persist_on_disk:
  assumes "queue_ok q"
  shows "outcome = Saved \<Longrightarrow> on_disk (persistPendingHostLeaseReleases outcome q) slot
      \<longleftrightarrow> slot \<in> set (mkeys (rl_pending q))"
    and "slot \<in> set (mkeys (rl_pending q)) \<Longrightarrow> on_disk q slot
      \<Longrightarrow> on_disk (persistPendingHostLeaseReleases outcome q) slot"
proof -
  let ?rs = "sort_key hl_HostSlotKey (map snd (rl_pending q))"
  obtain f err where s: "hostLeaseCleanup_save (rl_targetKey q) outcome ?rs (rl_file q) = (f, err)"
    by (metis surj_pair)
  have q': "rl_file (persistPendingHostLeaseReleases outcome q) = f"
    "rl_targetKey (persistPendingHostLeaseReleases outcome q) = rl_targetKey q"
    using s by (simp_all add: persistPendingHostLeaseReleases_def)
  have d: "distinct (map hl_HostSlotKey ?rs)"
    using queue_keys(2) [OF assms] by (simp only: distinct_sort_map)
  have c: "\<forall>r \<in> set ?rs. host_lease_ok (rl_targetKey q) r" using queue_keys(3) [OF assms] by simp
  have keys: "hl_HostSlotKey ` set (sort_key hl_HostSlotKey ?rs) = set (mkeys (rl_pending q))"
    using queue_keys(1) [OF assms] by simp
  note save = s [unfolded hostLeaseCleanup_save_def]
  show "outcome = Saved \<Longrightarrow> on_disk (persistPendingHostLeaseReleases outcome q) slot
      \<longleftrightarrow> slot \<in> set (mkeys (rl_pending q))"
    using host_lease.save_load [OF d c, of "rl_file q" f err] save keys q'
    by (auto simp: on_disk_def hostLeaseCleanup_load_def parseHostLeaseCleanupDocument_def)
  show "on_disk (persistPendingHostLeaseReleases outcome q) slot"
    if "slot \<in> set (mkeys (rl_pending q))" "on_disk q slot"
  proof -
    have "?rs \<noteq> []" using that(1) by (metis list.set_map length_0_conv length_map length_sort empty_iff list.set(1) image_is_empty)
    from host_lease.save_outcomes [OF d c this save] that(2) show ?thesis
      using that(1) keys unfolding on_disk_def hostLeaseCleanup_load_def
        parseHostLeaseCleanupDocument_def q' by (elim insertE) simp_all
  qed
qed

lemma begin_effect:
  assumes "queue_ok q" "runnerKey \<noteq> []" "slot \<noteq> []"
    and "beginPendingHostLeaseReleaseLocked runnerKey slot now q = (r, q')"
  shows "hl_HostSlotKey r = slot" "queue_ok q'" "map_of (rl_pending q') = (map_of (rl_pending q))(slot \<mapsto> r)"
    "rl_targetKey q' = rl_targetKey q" "host_lease_ok (rl_targetKey q) r"
proof -
  have r: "hl_HostSlotKey r = slot \<and> host_lease_ok (rl_targetKey q) r"
  proof (cases "map_of (rl_pending q) slot")
    case None
    with assms(2-4) show ?thesis
      by (auto simp: beginPendingHostLeaseReleaseLocked_def host_lease_ok_def Let_def)
  next
    case (Some c)
    with assms(4) have "r = c" by (simp add: beginPendingHostLeaseReleaseLocked_def Let_def)
    with Some assms(1) show ?thesis by (auto simp: queue_ok_def dest: map_of_SomeD)
  qed
  have q': "q' = q\<lparr>rl_pending := mput (rl_pending q) (hl_HostSlotKey r) r\<rparr>"
    using assms(4) by (auto simp: beginPendingHostLeaseReleaseLocked_def Let_def)
  from r show "hl_HostSlotKey r = slot" "host_lease_ok (rl_targetKey q) r" by simp_all
  show "queue_ok q'" unfolding q' using r by (intro queue_ok_put [OF assms(1)]) simp
  show "map_of (rl_pending q') = (map_of (rl_pending q))(slot \<mapsto> r)" "rl_targetKey q' = rl_targetKey q"
    unfolding q' using r by simp_all
qed

lemma persist_simps [simp]:
  "rl_pending (persistPendingHostLeaseReleases outcome q) = rl_pending q"
  "rl_targetKey (persistPendingHostLeaseReleases outcome q) = rl_targetKey q"
  by (simp_all add: persistPendingHostLeaseReleases_def split: prod.split)

lemma queue_ok_persist [simp]: "queue_ok (persistPendingHostLeaseReleases outcome q) = queue_ok q"
  by (simp add: queue_ok_def)

lemma on_disk_update [simp]:
  "on_disk (q\<lparr>rl_pending := x\<rparr>) = on_disk q" "on_disk (q\<lparr>rl_reported := n\<rparr>) = on_disk q"
  by (auto simp: on_disk_def fun_eq_iff)

lemma attempted_release_simps [simp]:
  "hl_HostSlotKey (attempted_release now r) = hl_HostSlotKey r"
  "host_lease_ok t (attempted_release now r) = host_lease_ok t r"
  by (simp_all add: attempted_release_def host_lease_ok_def)

lemma attempted_due:
  "hostLeaseReleaseDue (attempted_release now r) t
     \<longleftrightarrow> truncate_second (now + hostLeaseReleaseRetryDelay) \<le> t"
  by (auto simp: hostLeaseReleaseDue_def attempted_release_def parse_format)

lemma mark_effect:
  assumes ok: "queue_ok q" and r: "map_of (rl_pending q) slot = Some r" "hl_HostSlotKey r = slot"
    and disk: "on_disk q slot"
  shows "queue_ok (markPendingHostLeaseReleaseAttempt outcome r now q)
    \<and> on_disk (markPendingHostLeaseReleaseAttempt outcome r now q) slot
    \<and> map_of (rl_pending (markPendingHostLeaseReleaseAttempt outcome r now q))
        = (map_of (rl_pending q))(slot \<mapsto> attempted_release now r)"
proof -
  define p where "p = q\<lparr>rl_pending := mput (rl_pending q) slot (attempted_release now r)\<rparr>"
  have rok: "host_lease_ok (rl_targetKey q) r" using ok r(1) by (auto simp: queue_ok_def dest: map_of_SomeD)
  have pok: "queue_ok p" using queue_ok_put [OF ok, of "attempted_release now r"] rok r(2)
    by (simp add: p_def)
  have key: "slot \<in> set (mkeys (rl_pending p))" by (simp add: p_def keys_mput)
  have m: "markPendingHostLeaseReleaseAttempt outcome r now q
      = (persistPendingHostLeaseReleases outcome p)
          \<lparr>rl_reported := rl_reported (persistPendingHostLeaseReleases outcome p) + 1\<rparr>"
    using r by (simp add: markPendingHostLeaseReleaseAttempt_def p_def Let_def)
  have "on_disk p slot" using disk by (simp add: p_def)
  then have "on_disk (persistPendingHostLeaseReleases outcome p) slot"
    by (rule persist_on_disk(2) [OF pok key])
  with pok show ?thesis unfolding m by (simp add: queue_ok_def p_def)
qed

text \<open>
  One decision and its attempt. Once the decision to release is on disk, a crash before the
  service is asked leaves it in the queue a restarted manager loads. If the service refuses, the
  lease stays queued, in memory and on disk, whatever the second write did, and is retried after
  the delay; if the service confirms, it leaves the queue. Other queued leases are untouched.
\<close>

theorem release_attempt_effect:
  assumes ok: "queue_ok q" and names: "runnerKey \<noteq> []" "slot \<noteq> []"
    and begun: "beginPendingHostLeaseRelease Saved runnerKey slot now q = (r, q1)"
    and step: "releaseHostLeaseOrEnqueue release Saved settled now later runnerKey slot q = (err, q2)"
  shows "on_disk q1 slot \<and> queue_ok q2 \<and> err = release slot
    \<and> (release slot \<noteq> None \<longrightarrow> on_disk q2 slot \<and> (\<exists>p. map_of (rl_pending q2) slot = Some p
        \<and> (\<forall>t. hostLeaseReleaseDue p t \<longleftrightarrow> truncate_second (later + hostLeaseReleaseRetryDelay) \<le> t)))
    \<and> (release slot = None \<longrightarrow> map_of (rl_pending q2) slot = None
        \<and> (settled = Saved \<longrightarrow> \<not> on_disk q2 slot))
    \<and> (\<forall>k. k \<noteq> slot \<longrightarrow> map_of (rl_pending q2) k = map_of (rl_pending q) k)"
proof -
  obtain q0 where locked: "beginPendingHostLeaseReleaseLocked runnerKey slot now q = (r, q0)"
    and q1: "q1 = persistPendingHostLeaseReleases Saved q0"
    using begun by (auto simp: beginPendingHostLeaseRelease_def split: prod.splits)
  note b = begin_effect [OF ok names locked]
  have key: "slot \<in> set (mkeys (rl_pending q0))" using b(3) by (metis fun_upd_same map_of_eq_None_iff list.set_map option.distinct(1))
  have disk: "on_disk q1 slot" unfolding q1 using persist_on_disk(1) [OF b(2) refl] key by blast
  have q1ok: "queue_ok q1" "map_of (rl_pending q1) slot = Some r"
    "\<And>k. k \<noteq> slot \<Longrightarrow> map_of (rl_pending q1) k = map_of (rl_pending q) k"
    using b by (simp_all add: q1)
  have attempt: "attemptPendingHostLeaseRelease release settled later r q1 = (err, q2)"
    using step begun names by (simp add: releaseHostLeaseOrEnqueue_def)
  show ?thesis
  proof (cases "release slot")
    case (Some e)
    with attempt b(1) have "err = Some e" "q2 = markPendingHostLeaseReleaseAttempt settled r later q1"
      by (auto simp: attemptPendingHostLeaseRelease_def)
    with mark_effect [OF q1ok(1,2) b(1) disk, of settled later] Some disk q1ok(3) show ?thesis
      by (simp add: attempted_due)
  next
    case None
    let ?p = "q1\<lparr>rl_pending := mdel (rl_pending q1) slot\<rparr>"
    have "err = None" and q2: "q2 = persistPendingHostLeaseReleases settled ?p"
      using None attempt b(1) q1ok(2)
      by (auto simp: attemptPendingHostLeaseRelease_def resolvePendingHostLeaseRelease_def)
    moreover have pok: "queue_ok ?p" by (rule queue_ok_del [OF q1ok(1)])
    moreover have "settled = Saved \<Longrightarrow> \<not> on_disk q2 slot"
      unfolding q2 using persist_on_disk(1) [OF pok, of settled slot] by (simp add: keys_mdel)
    ultimately show ?thesis using None disk q1ok(3) by (simp del: on_disk_update)
  qed
qed

section \<open>Runs of the release queue\<close>

text \<open>
  What happens to the queue of one target, in any order: a release is decided (recorded and
  written), a pending release is attempted, both in one call, the due releases are retried, and
  the manager restarts from the file. A crash inside a call is one of the first two followed by
  a restart; a write that a crash cuts off is one that failed. Every event carries what the
  service answers to a release and what becomes of each write.
\<close>

datatype release_event =
    Decide save_outcome string string int
  | Attempt "string \<Rightarrow> goerr option" save_outcome string int
  | Give "string \<Rightarrow> goerr option" save_outcome save_outcome string string int int
  | RetryDue "string \<Rightarrow> goerr option" "string \<Rightarrow> save_outcome" int
  | ManagerRestart

fun release_react :: "release_event \<Rightarrow> release_queue \<Rightarrow> release_queue" where
  "release_react (Decide outcome runnerKey slot now) q =
     snd (beginPendingHostLeaseRelease outcome runnerKey slot now q)"
| "release_react (Attempt release outcome slot now) q =
     (case map_of (rl_pending q) slot of
        None \<Rightarrow> q
      | Some r \<Rightarrow> snd (attemptPendingHostLeaseRelease release outcome now r q))"
| "release_react (Give release begun settled runnerKey slot now later) q =
     snd (releaseHostLeaseOrEnqueue release begun settled now later runnerKey slot q)"
| "release_react (RetryDue release outcome now) q =
     snd (retryPendingHostLeaseReleases release outcome now q)"
| "release_react ManagerRestart q = restorePendingHostLeaseReleases (rl_targetKey q) (rl_file q)"

text \<open>The service confirms no release of the slot; runners and slots have names.\<close>

fun unconfirmed :: "string \<Rightarrow> release_event \<Rightarrow> bool" where
  "unconfirmed slot (Decide outcome runnerKey k now) \<longleftrightarrow> runnerKey \<noteq> [] \<and> k \<noteq> []"
| "unconfirmed slot (Attempt release outcome k now) \<longleftrightarrow> release slot \<noteq> None"
| "unconfirmed slot (Give release begun settled runnerKey k now later) \<longleftrightarrow>
     release slot \<noteq> None \<and> runnerKey \<noteq> []"
| "unconfirmed slot (RetryDue release outcome now) \<longleftrightarrow> release slot \<noteq> None"
| "unconfirmed slot ManagerRestart \<longleftrightarrow> True"

definition queued :: "string \<Rightarrow> release_queue \<Rightarrow> bool" where
  "queued slot q \<longleftrightarrow> queue_ok q \<and> slot \<in> dom (map_of (rl_pending q)) \<and> on_disk q slot"

lemma queued_persist:
  "queued slot q \<Longrightarrow> queued slot (persistPendingHostLeaseReleases outcome q)"
  using persist_on_disk(2) [of q slot outcome] by (auto simp: queued_def dom_map_of_conv_image_fst)

lemma queued_put:
  assumes "queued slot q" "host_lease_ok (rl_targetKey q) r"
  shows "queued slot (q\<lparr>rl_pending := mput (rl_pending q) (hl_HostSlotKey r) r\<rparr>)"
  using assms queue_ok_put by (auto simp: queued_def)

lemma queued_begin:
  assumes q: "queued slot q" and names: "runnerKey \<noteq> []" "k \<noteq> []"
    and b: "beginPendingHostLeaseRelease outcome runnerKey k now q = (r, q')"
  shows "queued slot q' \<and> host_lease_ok (rl_targetKey q') r \<and> hl_HostSlotKey r = k"
proof -
  obtain q0 where locked: "beginPendingHostLeaseReleaseLocked runnerKey k now q = (r, q0)"
    and q': "q' = persistPendingHostLeaseReleases outcome q0"
    using b by (auto simp: beginPendingHostLeaseRelease_def split: prod.splits)
  have "queue_ok q" using q by (simp add: queued_def)
  note b = begin_effect [OF this names locked]
  have "q0 = q\<lparr>rl_pending := mput (rl_pending q) (hl_HostSlotKey r) r\<rparr>"
    using locked by (auto simp: beginPendingHostLeaseReleaseLocked_def Let_def)
  with queued_put [OF q b(5)] have "queued slot q0" by simp
  with b show ?thesis unfolding q' by (simp add: queued_persist)
qed

lemma queued_mark:
  assumes q: "queued slot q" and r: "host_lease_ok (rl_targetKey q) r"
  shows "queued slot (markPendingHostLeaseReleaseAttempt outcome r now q)"
proof -
  let ?c = "case map_of (rl_pending q) (hl_HostSlotKey r) of Some c \<Rightarrow> c | None \<Rightarrow> r"
  have "host_lease_ok (rl_targetKey q) (attempted_release now ?c)"
    using q r by (auto simp: queued_def queue_ok_def dest: map_of_SomeD split: option.split)
  from queued_persist [OF queued_put [OF q this], of outcome] show ?thesis
    by (simp add: markPendingHostLeaseReleaseAttempt_def Let_def queued_def queue_ok_def)
qed

lemma queued_resolve:
  assumes q: "queued slot q" and k: "k \<noteq> slot"
  shows "queued slot (resolvePendingHostLeaseRelease outcome k q)"
proof -
  have "queued slot (q\<lparr>rl_pending := mdel (rl_pending q) k\<rparr>)"
    using q k queue_ok_del by (auto simp: queued_def)
  then show ?thesis using q by (simp add: resolvePendingHostLeaseRelease_def queued_persist)
qed

lemma queued_attempt:
  assumes "queued slot q" "host_lease_ok (rl_targetKey q) r" "release slot \<noteq> None"
    and "attemptPendingHostLeaseRelease release outcome now r q = (err, q')"
  shows "queued slot q' \<and> rl_targetKey q' = rl_targetKey q"
proof (cases "release (hl_HostSlotKey r)")
  case None
  then have "hl_HostSlotKey r \<noteq> slot" using assms(3) by auto
  with None queued_resolve [OF assms(1)] assms(4) show ?thesis
    by (auto simp: attemptPendingHostLeaseRelease_def resolvePendingHostLeaseRelease_def)
next
  case (Some e)
  with queued_mark [OF assms(1,2), of outcome now] assms(4) show ?thesis
    by (auto simp: attemptPendingHostLeaseRelease_def markPendingHostLeaseReleaseAttempt_def Let_def)
qed

lemma queued_retry:
  assumes "queued slot q" "\<forall>r \<in> set rs. host_lease_ok (rl_targetKey q) r" "release slot \<noteq> None"
  shows "queued slot (snd (retry_releases release outcome now rs q))"
  using assms(1,2)
proof (induction rs arbitrary: q)
  case (Cons r rs)
  obtain err q' where attempt:
    "attemptPendingHostLeaseRelease release (outcome (hl_HostSlotKey r)) now r q = (err, q')"
    by (metis surj_pair)
  from queued_attempt [OF Cons.prems(1) _ assms(3) attempt] Cons.prems Cons.IH [of q] Cons.IH [of q']
  show ?case by (simp add: attempt case_prod_beta)
qed simp

lemma restored_pending:
  assumes "\<forall>r \<in> set records. host_lease_ok tk r" "queue_ok q" "rl_targetKey q = tk"
  shows "queue_ok (q\<lparr>rl_pending := fold (\<lambda>r m. mput m (hl_HostSlotKey r) r) records (rl_pending q)\<rparr>)
    \<and> hl_HostSlotKey ` set records \<subseteq> dom (map_of (fold (\<lambda>r m. mput m (hl_HostSlotKey r) r) records (rl_pending q)))
    \<and> dom (map_of (rl_pending q)) \<subseteq> dom (map_of (fold (\<lambda>r m. mput m (hl_HostSlotKey r) r) records (rl_pending q)))"
  using assms
proof (induction records arbitrary: q)
  case (Cons r rs)
  let ?q = "q\<lparr>rl_pending := mput (rl_pending q) (hl_HostSlotKey r) r\<rparr>"
  have "queue_ok ?q" using Cons.prems by (intro queue_ok_put) simp_all
  moreover have "dom (map_of (rl_pending ?q)) = insert (hl_HostSlotKey r) (dom (map_of (rl_pending q)))"
    by simp
  ultimately show ?case using Cons.IH [of ?q] Cons.prems by (simp del: map_of_mput)
qed simp

lemma restored_queue:
  assumes "hostLeaseCleanup_load tk f = Inr records"
  shows "queue_ok (restorePendingHostLeaseReleases tk f)"
    "hl_HostSlotKey ` set records \<subseteq> dom (map_of (rl_pending (restorePendingHostLeaseReleases tk f)))"
proof -
  have "\<forall>r \<in> set records. host_lease_ok tk r"
    using host_lease.load_sound [of tk f records] assms
    by (simp add: hostLeaseCleanup_load_def parseHostLeaseCleanupDocument_def)
  from restored_pending [OF this, of "\<lparr>rl_targetKey = tk, rl_pending = [], rl_file = f, rl_reported = 0\<rparr>"]
  show "queue_ok (restorePendingHostLeaseReleases tk f)"
    "hl_HostSlotKey ` set records \<subseteq> dom (map_of (rl_pending (restorePendingHostLeaseReleases tk f)))"
    by (simp_all add: restorePendingHostLeaseReleases_def assms queue_ok_def)
qed

lemma queued_restart:
  assumes "queued slot q"
  shows "queued slot (restorePendingHostLeaseReleases (rl_targetKey q) (rl_file q))"
proof -
  obtain records where l: "hostLeaseCleanup_load (rl_targetKey q) (rl_file q) = Inr records"
    "slot \<in> hl_HostSlotKey ` set records" using assms by (auto simp: queued_def on_disk_def)
  with restored_queue [OF l(1)] show ?thesis
    by (auto simp: queued_def on_disk_def restorePendingHostLeaseReleases_def)
qed

interpretation release_run: input_system release_react "unconfirmed slot" "queued slot" for slot
proof unfold_locales
  fix i q
  assume i: "unconfirmed slot i" and q: "queued slot q"
  have pending: "\<forall>r \<in> set (map snd (rl_pending q)). host_lease_ok (rl_targetKey q) r"
    using q by (auto simp: queued_def queue_ok_def)
  show "queued slot (release_react i q)"
  proof (cases i)
    case (Decide outcome runnerKey k now)
    with i q queued_begin [OF q] show ?thesis by (simp split: prod.split) (metis surj_pair snd_conv)
  next
    case (Attempt release outcome k now)
    with i q queued_attempt [OF q, of _ release outcome now] pending show ?thesis
      by (auto split: option.split dest!: map_of_SomeD) (metis surj_pair snd_conv image_eqI)
  next
    case (Give release begun settled runnerKey k now later)
    obtain r q1 where b: "beginPendingHostLeaseRelease begun runnerKey k now q = (r, q1)"
      by (metis surj_pair)
    obtain err q2 where a: "attemptPendingHostLeaseRelease release settled later r q1 = (err, q2)"
      by (metis surj_pair)
    from Give i q queued_begin [OF q _ _ b] queued_attempt [OF _ _ _ a] b a show ?thesis
      by (simp add: releaseHostLeaseOrEnqueue_def)
  next
    case (RetryDue release outcome now)
    with i queued_retry [OF q _, of _ release] pending show ?thesis
      by (simp add: retryPendingHostLeaseReleases_def)
  qed (use queued_restart [OF q] in simp)
qed


definition demo_queue :: release_queue where
  "demo_queue = \<lparr>rl_targetKey = ''t'', rl_pending = [], rl_file = NoStateFile, rl_reported = 0\<rparr>"


end
