(* ===== verification/Launch_Intent.thy ===== *)
theory Launch_Intent
  imports Retry_Queues
begin

text \<open>
  The durable intent to launch a runner (\<^verbatim>\<open>autoscaler/launch_intent.go\<close>): the record, its file,
  the in-memory store used without a state directory, and what a restarted manager loads.
\<close>

definition launchIntentContractVersion :: int where
  "launchIntentContractVersion = 22"

record launchIntentRecord =
  li_SchemaVersion :: int
  li_ManagerContractVersion :: int
  li_TargetKey :: string
  li_RunnerName :: string
  li_RunnerID :: int
  li_Attempts :: int
  li_LastAttemptAt :: stamp
  li_NextAttemptAt :: stamp

definition launchIntentPath :: "unicode_tables \<Rightarrow> string \<Rightarrow> string \<Rightarrow> string" where
  "launchIntentPath u dir targetKey = queue_path u dir ''launch-intent'' targetKey"

definition memoryLaunchIntent_load :: "launchIntentRecord option \<Rightarrow> goerr + launchIntentRecord option" where
  "memoryLaunchIntent_load stored = Inr stored"

definition memoryLaunchIntent_save ::
  "launchIntentRecord \<Rightarrow> launchIntentRecord option \<Rightarrow> launchIntentRecord option \<times> goerr option" where
  "memoryLaunchIntent_save r stored = (Some r, None)"

definition memoryLaunchIntent_clear ::
  "launchIntentRecord option \<Rightarrow> launchIntentRecord option \<times> goerr option" where
  "memoryLaunchIntent_clear stored = (None, None)"

definition launch_intent_ok :: "string \<Rightarrow> launchIntentRecord \<Rightarrow> bool" where
  "launch_intent_ok targetKey r \<longleftrightarrow>
     \<not> (li_SchemaVersion r \<noteq> 1
        \<or> li_ManagerContractVersion r < launchIntentContractVersion
        \<or> li_ManagerContractVersion r > managerContractVersion
        \<or> li_TargetKey r \<noteq> targetKey \<or> li_RunnerName r = [] \<or> li_RunnerID r < 0
        \<or> li_Attempts r < 1)
     \<and> stamp_ok (li_LastAttemptAt r) \<and> stamp_ok (li_NextAttemptAt r)"

definition launchIntent_load ::
  "string \<Rightarrow> launchIntentRecord state_file \<Rightarrow> goerr + launchIntentRecord option" where
  "launchIntent_load targetKey f =
     (case read_document f of
        Inl err \<Rightarrow> Inl err
      | Inr None \<Rightarrow> Inr None
      | Inr (Some r) \<Rightarrow>
          if launch_intent_ok targetKey r
          then Inr (Some (r\<lparr>li_Attempts := clamp_attempts (li_Attempts r)\<rparr>))
          else Inl err_other)"

definition launchIntent_save ::
  "save_outcome \<Rightarrow> launchIntentRecord \<Rightarrow> launchIntentRecord state_file
    \<Rightarrow> launchIntentRecord state_file \<times> goerr option" where
  "launchIntent_save outcome r f = write_document outcome f r"

definition launchIntent_clear ::
  "save_outcome \<Rightarrow> launchIntentRecord state_file \<Rightarrow> launchIntentRecord state_file \<times> goerr option" where
  "launchIntent_clear outcome f = remove_document (outcome \<noteq> Saved) f"

text \<open>A written intent is loaded as it was, with its attempts clamped; a cleared one is gone.\<close>

lemma launch_intent_round_trip:
  "launch_intent_ok targetKey r \<Longrightarrow> launchIntent_save Saved r f = (f', err)
    \<Longrightarrow> launchIntent_load targetKey f' = Inr (Some (r\<lparr>li_Attempts := clamp_attempts (li_Attempts r)\<rparr>))
      \<and> err = None"
  by (auto simp: launchIntent_save_def launchIntent_load_def)

lemma launch_intent_cleared:
  "launchIntent_clear Saved f = (f', err) \<Longrightarrow> launchIntent_load targetKey f' = Inr None \<and> err = None"
  by (auto simp: launchIntent_clear_def remove_document_def launchIntent_load_def split: state_file.splits)

end
