(* ===== verification/Diagnostics.thy ===== *)
theory Diagnostics
  imports Manager_Errors Go_Strings State_Files
begin

text \<open>
  The manager's operation journal and subsystem health (\<^verbatim>\<open>autoscaler/diagnostics.go\<close>): the
  closed vocabularies, the recorder with its bounded and coalescing journal, its durable
  document, the health summaries and the projection that keeps the journal within its size
  budget. Observations are made of the vocabulary, events of its texts, because a restored
  document may hold any text. The length of the JSON encoding of the events is a parameter.
\<close>

definition journalCapacity :: nat where
  "journalCapacity = 64"

definition journalMaximumBytes :: int where
  "journalMaximumBytes = 16384"

definition evidenceMaximumRunes :: nat where
  "evidenceMaximumRunes = 160"

definition identityMaximumRunes :: nat where
  "identityMaximumRunes = 128"

definition subsystemFailureBand :: int where
  "subsystemFailureBand = 3"

definition maxOccurrenceCount :: int where
  "maxOccurrenceCount = 2147483647"

section \<open>Vocabulary\<close>

datatype journal_subsystem =
    subsystemDocker | subsystemRegistration | subsystemSession | subsystemListener | subsystemJIT
  | subsystemWorkerLaunch | subsystemWorkerExit | subsystemTelemetry | subsystemReconciliation
  | subsystemCleanup | subsystemAdmission | subsystemRecovery

fun subsystem_text :: "journal_subsystem \<Rightarrow> string" where
  "subsystem_text subsystemDocker = ''docker''"
| "subsystem_text subsystemRegistration = ''registration''"
| "subsystem_text subsystemSession = ''scale-set-session''"
| "subsystem_text subsystemListener = ''listener''"
| "subsystem_text subsystemJIT = ''jit''"
| "subsystem_text subsystemWorkerLaunch = ''worker-launch''"
| "subsystem_text subsystemWorkerExit = ''worker-exit''"
| "subsystem_text subsystemTelemetry = ''telemetry''"
| "subsystem_text subsystemReconciliation = ''reconciliation''"
| "subsystem_text subsystemCleanup = ''cleanup''"
| "subsystem_text subsystemAdmission = ''admission''"
| "subsystem_text subsystemRecovery = ''recovery''"

datatype journal_operation =
    operationDockerPing | operationDockerRun | operationDockerInspect | operationDockerRemove
  | operationRunnerRemoval | operationSessionCreate | operationSessionDelete
  | operationMessagePoll | operationMessageAcknowledge | operationJITConfigGenerate
  | operationWorkerLaunch | operationWorkerExit | operationTelemetrySample
  | operationDesiredStateLoad | operationDesiredStateApply | operationCapacityAcknowledge
  | operationObservedStatePublish | operationRegistrationCleanup | operationContainerCleanup
  | operationAdmissionReserve | operationAdmissionSettle | operationManagerStart
  | operationManagerShutdown | operationJournalRestore | operationRegistrationTokenCall

fun operation_text :: "journal_operation \<Rightarrow> string" where
  "operation_text operationDockerPing = ''docker-ping''"
| "operation_text operationDockerRun = ''docker-run''"
| "operation_text operationDockerInspect = ''docker-inspect''"
| "operation_text operationDockerRemove = ''docker-remove''"
| "operation_text operationRunnerRemoval = ''runner-removal''"
| "operation_text operationSessionCreate = ''session-create''"
| "operation_text operationSessionDelete = ''session-delete''"
| "operation_text operationMessagePoll = ''message-poll''"
| "operation_text operationMessageAcknowledge = ''message-acknowledge''"
| "operation_text operationJITConfigGenerate = ''jit-config-generate''"
| "operation_text operationWorkerLaunch = ''worker-launch''"
| "operation_text operationWorkerExit = ''worker-exit''"
| "operation_text operationTelemetrySample = ''telemetry-sample''"
| "operation_text operationDesiredStateLoad = ''desired-state-load''"
| "operation_text operationDesiredStateApply = ''desired-state-apply''"
| "operation_text operationCapacityAcknowledge = ''capacity-acknowledge''"
| "operation_text operationObservedStatePublish = ''observed-state-publish''"
| "operation_text operationRegistrationCleanup = ''registration-cleanup''"
| "operation_text operationContainerCleanup = ''container-cleanup''"
| "operation_text operationAdmissionReserve = ''admission-reserve''"
| "operation_text operationAdmissionSettle = ''admission-settle''"
| "operation_text operationManagerStart = ''manager-start''"
| "operation_text operationManagerShutdown = ''manager-shutdown''"
| "operation_text operationJournalRestore = ''journal-restore''"
| "operation_text operationRegistrationTokenCall = ''registration-token-request''"

fun outcome_text :: "operation_outcome \<Rightarrow> string" where
  "outcome_text outcomeSucceeded = ''succeeded''"
| "outcome_text outcomeFailed = ''failed''"
| "outcome_text outcomeTimedOut = ''timed-out''"
| "outcome_text outcomeRetry = ''retry-scheduled''"
| "outcome_text outcomeBlocked = ''blocked''"
| "outcome_text outcomeRecovered = ''recovered''"
| "outcome_text outcomeUnknownResult = ''unknown''"

fun reason_text :: "failure_reason \<Rightarrow> string" where
  "reason_text reasonNone = ''none''"
| "reason_text reasonDockerUnavailable = ''docker-unavailable''"
| "reason_text reasonDockerFailed = ''docker-failed''"
| "reason_text reasonTimeout = ''timeout''"
| "reason_text reasonRateLimited = ''rate-limited''"
| "reason_text reasonAuthorizationFailed = ''authorization-failed''"
| "reason_text reasonNotFound = ''not-found''"
| "reason_text reasonConflict = ''conflict''"
| "reason_text reasonInvalidState = ''invalid-state''"
| "reason_text reasonCapacityCeiling = ''capacity-ceiling''"
| "reason_text reasonRetryBackoff = ''retry-backoff''"
| "reason_text reasonCancelled = ''cancelled''"
| "reason_text reasonRecovered = ''recovered''"
| "reason_text reasonUnknown = ''unknown''"

datatype subsystem_state =
  subsystemHealthy | subsystemDegraded | subsystemUnavailable | subsystemUnknown

datatype journal_status = journalStatusCurrent | journalStatusTruncated | journalStatusUnavailable

datatype health_kind = healthNone | healthDocker | healthGitHub

section \<open>Events and the recorder\<close>

record managerEvent =
  me_Sequence :: int
  me_ManagerInstanceID :: string
  me_ObservedAt :: stamp
  me_FirstObservedAt :: stamp
  me_LastObservedAt :: stamp
  me_OccurrenceCount :: int
  me_Subsystem :: string
  me_Operation :: string
  me_Target :: "string option"
  me_Outcome :: string
  me_DurationMilliseconds :: "int option"
  me_Attempt :: "int option"
  me_ConsecutiveFailures :: "int option"
  me_RetryAt :: "stamp option"
  me_Reason :: string
  me_Evidence :: "string option"

record managerOperationJournal =
  oj_Status :: journal_status
  oj_Capacity :: nat
  oj_HighestSequence :: "int option"
  oj_DroppedEvents :: int
  oj_EvictedEvents :: int
  oj_RejectedEvents :: int
  oj_UnclassifiedEvents :: int
  oj_Events :: "managerEvent list"

record subsystemOperationEvidence =
  se_Operation :: string
  se_ObservedAt :: stamp
  se_DurationMilliseconds :: "int option"
  se_Reason :: failure_reason
  se_Evidence :: "string option"

record subsystemHealthSummary =
  sh_State :: subsystem_state
  sh_ObservedAt :: stamp
  sh_ConsecutiveFailures :: int
  sh_RetryAt :: "stamp option"
  sh_LastSuccess :: "subsystemOperationEvidence option"
  sh_LastFailure :: "subsystemOperationEvidence option"

record journalDocument =
  jd_SchemaVersion :: int
  jd_HighestSequence :: int
  jd_DroppedEvents :: int
  jd_EvictedEvents :: int
  jd_RejectedEvents :: int
  jd_UnclassifiedEvents :: int
  jd_Events :: "managerEvent list"

text \<open>An empty reason or target of an observation is \<^const>\<open>None\<close> or the empty string.\<close>

record diagnosticsObservation =
  do_subsystem :: journal_subsystem
  do_operation :: journal_operation
  do_target :: string
  do_outcome :: operation_outcome
  do_reason :: "failure_reason option"
  do_evidence :: string
  do_duration :: "int option"
  do_attempt :: int
  do_retryAt :: "int option"
  do_healthKind :: health_kind

record subsystemHealthState =
  hs_consecutiveFailures :: int
  hs_observedAt :: int
  hs_retryAt :: "int option"
  hs_lastSuccess :: "subsystemOperationEvidence option"
  hs_lastFailure :: "subsystemOperationEvidence option"
  hs_observed :: bool

text \<open>The journal file is part of the recorder's state; without a state directory there is none.\<close>

record diagnosticsRecorder =
  dr_instanceID :: string
  dr_hasPath :: bool
  dr_file :: "journalDocument state_file"
  dr_events :: "managerEvent list"
  dr_highestSequence :: int
  dr_evictedEvents :: int
  dr_rejectedEvents :: int
  dr_unclassifiedEvents :: int
  dr_restoreFailed :: bool
  dr_persistFailed :: bool
  dr_docker :: subsystemHealthState
  dr_github :: subsystemHealthState

definition newHealthState :: subsystemHealthState where
  "newHealthState = \<lparr>hs_consecutiveFailures = 0, hs_observedAt = zeroTime, hs_retryAt = None,
     hs_lastSuccess = None, hs_lastFailure = None, hs_observed = False\<rparr>"

definition newDiagnosticsRecorder ::
  "string \<Rightarrow> string \<Rightarrow> journalDocument state_file \<Rightarrow> diagnosticsRecorder" where
  "newDiagnosticsRecorder stateDirectory instanceID journalFile =
     \<lparr>dr_instanceID = instanceID, dr_hasPath = (stateDirectory \<noteq> []), dr_file = journalFile,
      dr_events = [], dr_highestSequence = 0, dr_evictedEvents = 0, dr_rejectedEvents = 0,
      dr_unclassifiedEvents = 0, dr_restoreFailed = False, dr_persistFailed = False,
      dr_docker = newHealthState, dr_github = newHealthState\<rparr>"

section \<open>Texts\<close>

text \<open>\<^verbatim>\<open>strings.FieldsFunc\<close>: the maximal runs without separators.\<close>

fun split_fields :: "('a \<Rightarrow> bool) \<Rightarrow> 'a list \<Rightarrow> 'a list list" where
  "split_fields sep [] = [[]]"
| "split_fields sep (x # xs) =
     (if sep x then [] # split_fields sep xs
      else case split_fields sep xs of f # fs \<Rightarrow> (x # f) # fs | [] \<Rightarrow> [[x]])"

definition fields_func :: "('a \<Rightarrow> bool) \<Rightarrow> 'a list \<Rightarrow> 'a list list" where
  "fields_func sep xs = filter (\<lambda>f. f \<noteq> []) (split_fields sep xs)"

text \<open>\<^verbatim>\<open>strings.Join\<close>.\<close>

fun join_with :: "'a list \<Rightarrow> 'a list list \<Rightarrow> 'a list" where
  "join_with sep [] = []"
| "join_with sep [f] = f"
| "join_with sep (f # fs) = f @ sep @ join_with sep fs"

definition boundedDuration :: "int \<Rightarrow> int" where
  "boundedDuration duration =
     (let milliseconds = duration sdiv 1000000
      in if milliseconds < 0 then 0 else if milliseconds > 86400000 then 86400000
         else milliseconds)"

definition boundedIdentity :: "string \<Rightarrow> string" where
  "boundedIdentity value =
     (let runes = range_runes (TrimSpace value)
      in string_of_runes
           (if length runes > identityMaximumRunes then take identityMaximumRunes runes
            else runes))"

definition optionalIdentity :: "string \<Rightarrow> string option" where
  "optionalIdentity value =
     (let bounded = boundedIdentity value in if bounded = [] then None else Some bounded)"

text \<open>The contract's safe characters: letters, digits and \<^verbatim>\<open> .,_()'-\<close>.\<close>

definition evidence_alphanumeric :: "int \<Rightarrow> bool" where
  "evidence_alphanumeric r \<longleftrightarrow>
     65 \<le> r \<and> r \<le> 90 \<or> 97 \<le> r \<and> r \<le> 122 \<or> 48 \<le> r \<and> r \<le> 57"

definition evidence_punctuation :: "int \<Rightarrow> bool" where
  "evidence_punctuation r \<longleftrightarrow> r \<in> {32, 46, 44, 95, 40, 41, 39, 45}"

definition evidence_rune :: "int \<Rightarrow> int" where
  "evidence_rune r = (if evidence_alphanumeric r \<or> evidence_punctuation r then r else 32)"

text \<open>
  The sanitised text has only one-byte runes, so trimming, bounding and re-encoding work on
  its runes.
\<close>

definition sanitizedEvidence :: "string \<Rightarrow> string option" where
  "sanitizedEvidence txt =
     (if txt = [] then None
      else
        let cleaned = map evidence_rune (range_runes txt);
            collapsed = join_with [32] (fields_func unicode_IsSpace cleaned);
            trimmed = dropWhile evidence_punctuation collapsed;
            bounded = (if length trimmed > evidenceMaximumRunes
                       then take evidenceMaximumRunes trimmed else trimmed);
            shown = rev (dropWhile ((=) 32) (rev bounded))
        in if shown = [] then None else Some (string_of_runes shown))"

section \<open>The journal\<close>

definition validJournalEvent :: "managerEvent \<Rightarrow> bool" where
  "validJournalEvent event \<longleftrightarrow>
     \<not> (me_Sequence event < 1 \<or> me_ManagerInstanceID event = [] \<or> me_ObservedAt event = NoStamp
        \<or> me_Subsystem event = [] \<or> me_Operation event = [] \<or> me_Outcome event = []
        \<or> me_Reason event = [])
     \<and> (case (parse_RFC3339 (me_ObservedAt event), parse_RFC3339 (me_FirstObservedAt event),
             parse_RFC3339 (me_LastObservedAt event)) of
          (Some observedAt, Some firstObservedAt, Some lastObservedAt) \<Rightarrow>
            \<not> (me_OccurrenceCount event < 1 \<or> me_OccurrenceCount event > maxOccurrenceCount
               \<or> firstObservedAt > lastObservedAt \<or> observedAt \<noteq> lastObservedAt)
        | _ \<Rightarrow> False)"

definition normalizeManagerEvent :: "managerEvent \<Rightarrow> managerEvent" where
  "normalizeManagerEvent event =
     event\<lparr>me_FirstObservedAt :=
             (if me_FirstObservedAt event = NoStamp then me_ObservedAt event
              else me_FirstObservedAt event),
           me_LastObservedAt :=
             (if me_LastObservedAt event = NoStamp then me_ObservedAt event
              else me_LastObservedAt event),
           me_OccurrenceCount :=
             (if me_OccurrenceCount event = 0 then 1 else me_OccurrenceCount event)\<rparr>"

definition boundedOccurrenceSum :: "int \<Rightarrow> int \<Rightarrow> int" where
  "boundedOccurrenceSum left right =
     (if left \<ge> maxOccurrenceCount \<or> right \<ge> maxOccurrenceCount - left then maxOccurrenceCount
      else left + right)"

definition journalOutcomeCoalescible :: "string \<Rightarrow> bool" where
  "journalOutcomeCoalescible outcome \<longleftrightarrow>
     outcome \<in> outcome_text `
       {outcomeFailed, outcomeTimedOut, outcomeBlocked, outcomeRetry, outcomeUnknownResult}"

definition sameJournalEventScope :: "managerEvent \<Rightarrow> managerEvent \<Rightarrow> bool" where
  "sameJournalEventScope left right \<longleftrightarrow>
     me_Subsystem left = me_Subsystem right \<and> me_Operation left = me_Operation right
     \<and> me_Target left = me_Target right"

text \<open>The loop from the newest event down, over the events in reverse.\<close>

fun coalescible_scan :: "managerEvent \<Rightarrow> managerEvent list \<Rightarrow> int" where
  "coalescible_scan event [] = -1"
| "coalescible_scan event (previous # older) =
     (if \<not> sameJournalEventScope previous event then coalescible_scan event older
      else if me_Outcome previous = me_Outcome event \<and> me_Reason previous = me_Reason event
      then int (length older)
      else -1)"

definition coalescibleJournalEventIndex :: "managerEvent list \<Rightarrow> managerEvent \<Rightarrow> int" where
  "coalescibleJournalEventIndex events event =
     (if \<not> journalOutcomeCoalescible (me_Outcome event) then -1
      else coalescible_scan event (rev events))"

definition coalesceJournalEvent :: "managerEvent list \<Rightarrow> managerEvent \<Rightarrow> managerEvent list" where
  "coalesceJournalEvent events e =
     (let event = normalizeManagerEvent e;
          index = coalescibleJournalEventIndex events event
      in if index < 0 then events @ [event]
         else
           let previous = normalizeManagerEvent (events ! nat index)
           in take (nat index) events @ drop (Suc (nat index)) events
              @ [event\<lparr>me_FirstObservedAt := me_FirstObservedAt previous,
                       me_OccurrenceCount := boundedOccurrenceSum (me_OccurrenceCount previous)
                         (me_OccurrenceCount event)\<rparr>])"

fun unresolved_scan :: "managerEvent list \<Rightarrow> int" where
  "unresolved_scan [] = -1"
| "unresolved_scan (event # older) =
     (if me_Subsystem event \<noteq> subsystem_text subsystemRecovery then unresolved_scan older
      else if me_Outcome event = outcome_text outcomeRecovered then -1
      else if me_Outcome event \<in> outcome_text `
          {outcomeBlocked, outcomeFailed, outcomeTimedOut, outcomeRetry}
      then int (length older)
      else unresolved_scan older)"

definition unresolvedRecoveryEventIndex :: "managerEvent list \<Rightarrow> int" where
  "unresolvedRecoveryEventIndex events = unresolved_scan (rev events)"

definition dropOldestJournalEvent :: "managerEvent list \<Rightarrow> managerEvent list" where
  "dropOldestJournalEvent events =
     (if events = [] then events
      else
        let dropIndex =
              (if unresolvedRecoveryEventIndex events = 0 \<and> length events > 1 then 1 else 0)
        in take dropIndex events @ drop (Suc dropIndex) events)"

lemma length_dropOldest [simp]: "length (dropOldestJournalEvent events) = length events - 1"
  by (auto simp: dropOldestJournalEvent_def Let_def min_def)

text \<open>\<^verbatim>\<open>for len(events) > journalCapacity\<close>, counting what is evicted.\<close>

function evict_events :: "managerEvent list \<Rightarrow> int \<Rightarrow> managerEvent list \<times> int" where
  "evict_events events evicted =
     (if length events > journalCapacity
      then evict_events (dropOldestJournalEvent events) (add64 evicted 1)
      else (events, evicted))"
  by pat_completeness auto
termination by (relation "measure (length \<circ> fst)") auto

declare evict_events.simps [simp del]

section \<open>Recording\<close>

definition failureCountLocked :: "diagnosticsRecorder \<Rightarrow> health_kind \<Rightarrow> int" where
  "failureCountLocked r kind =
     (case kind of
        healthDocker \<Rightarrow> hs_consecutiveFailures (dr_docker r)
      | healthGitHub \<Rightarrow> hs_consecutiveFailures (dr_github r)
      | healthNone \<Rightarrow> -1)"

definition buildEventLocked ::
  "diagnosticsObservation \<Rightarrow> int \<Rightarrow> diagnosticsRecorder \<Rightarrow> diagnosticsRecorder \<times> managerEvent" where
  "buildEventLocked observation now r =
     (let sequence = add64 (dr_highestSequence r) 1;
          failures = failureCountLocked r (do_healthKind observation)
      in (r\<lparr>dr_highestSequence := sequence\<rparr>,
          \<lparr>me_Sequence = sequence,
           me_ManagerInstanceID = boundedIdentity (dr_instanceID r),
           me_ObservedAt = format_RFC3339 now, me_FirstObservedAt = format_RFC3339 now,
           me_LastObservedAt = format_RFC3339 now, me_OccurrenceCount = 1,
           me_Subsystem = subsystem_text (do_subsystem observation),
           me_Operation = operation_text (do_operation observation),
           me_Target = optionalIdentity (do_target observation),
           me_Outcome = outcome_text (do_outcome observation),
           me_DurationMilliseconds = map_option boundedDuration (do_duration observation),
           me_Attempt = (if do_attempt observation > 0
             then Some (min (do_attempt observation) 1000) else None),
           me_ConsecutiveFailures = (if failures \<ge> 0 then Some (min failures 1000) else None),
           me_RetryAt = map_option format_RFC3339 (do_retryAt observation),
           me_Reason = reason_text
             (if do_outcome observation = outcomeSucceeded then reasonNone
              else case do_reason observation of None \<Rightarrow> reasonNone | Some reason \<Rightarrow> reason),
           me_Evidence = sanitizedEvidence (do_evidence observation)\<rparr>))"

definition appendLocked :: "managerEvent \<Rightarrow> diagnosticsRecorder \<Rightarrow> diagnosticsRecorder" where
  "appendLocked event r =
     (let (events, evicted) =
            evict_events (coalesceJournalEvent (dr_events r) event) (dr_evictedEvents r)
      in r\<lparr>dr_events := events, dr_evictedEvents := evicted\<rparr>)"

definition journalWorthy :: "diagnosticsObservation \<Rightarrow> bool" where
  "journalWorthy observation \<longleftrightarrow>
     do_outcome observation \<in> {outcomeFailed, outcomeTimedOut, outcomeBlocked, outcomeRetry,
       outcomeRecovered, outcomeUnknownResult}
     \<or> do_operation observation \<in> {operationManagerStart, operationManagerShutdown,
       operationDesiredStateApply, operationWorkerLaunch, operationWorkerExit,
       operationRegistrationCleanup, operationJournalRestore}"

text \<open>The fold of one observation into a health state, with whether the subsystem recovered.\<close>

definition update_state ::
  "diagnosticsObservation \<Rightarrow> int \<Rightarrow> subsystemHealthState \<Rightarrow> subsystemHealthState \<times> bool" where
  "update_state observation now state =
     (let reason = (case do_reason observation of None \<Rightarrow> reasonNone | Some reason \<Rightarrow> reason);
          evidence = \<lparr>se_Operation = operation_text (do_operation observation),
            se_ObservedAt = format_RFC3339 now,
            se_DurationMilliseconds = map_option boundedDuration (do_duration observation),
            se_Reason = reason, se_Evidence = sanitizedEvidence (do_evidence observation)\<rparr>;
          seen = state\<lparr>hs_observed := True, hs_observedAt := now\<rparr>
      in if do_outcome observation \<in> {outcomeSucceeded, outcomeRecovered} then
           (seen\<lparr>hs_consecutiveFailures := 0, hs_retryAt := None,
                 hs_lastSuccess := Some (evidence\<lparr>se_Reason := reasonNone\<rparr>)\<rparr>,
            hs_consecutiveFailures state > 0)
         else if do_outcome observation \<in> {outcomeFailed, outcomeTimedOut} then
           (seen\<lparr>hs_consecutiveFailures := add64 (hs_consecutiveFailures state) 1,
                 hs_lastFailure := Some (evidence\<lparr>se_Reason :=
                   (if reason = reasonNone then reasonUnknown else reason)\<rparr>),
                 hs_retryAt := do_retryAt observation\<rparr>, False)
         else (seen, False))"

definition updateHealthLocked ::
  "diagnosticsObservation \<Rightarrow> int \<Rightarrow> diagnosticsRecorder \<Rightarrow> diagnosticsRecorder \<times> bool" where
  "updateHealthLocked observation now r =
     (case do_healthKind observation of
        healthDocker \<Rightarrow>
          let (state, recovered) = update_state observation now (dr_docker r)
          in (r\<lparr>dr_docker := state\<rparr>, recovered)
      | healthGitHub \<Rightarrow>
          let (state, recovered) = update_state observation now (dr_github r)
          in (r\<lparr>dr_github := state\<rparr>, recovered)
      | healthNone \<Rightarrow> (r, False))"

definition diagnosticsSchemaVersion :: int where
  "diagnosticsSchemaVersion = 3"

definition previousDiagnosticsSchemaVersion :: int where
  "previousDiagnosticsSchemaVersion = 2"

definition legacyDiagnosticsSchemaVersion :: int where
  "legacyDiagnosticsSchemaVersion = 1"

definition documentLocked :: "diagnosticsRecorder \<Rightarrow> journalDocument" where
  "documentLocked r =
     \<lparr>jd_SchemaVersion = diagnosticsSchemaVersion, jd_HighestSequence = dr_highestSequence r,
      jd_DroppedEvents =
        add64 (add64 (dr_evictedEvents r) (dr_rejectedEvents r)) (dr_unclassifiedEvents r),
      jd_EvictedEvents = dr_evictedEvents r, jd_RejectedEvents = dr_rejectedEvents r,
      jd_UnclassifiedEvents = dr_unclassifiedEvents r, jd_Events = dr_events r\<rparr>"

definition diagnostics_persist ::
  "save_outcome \<Rightarrow> journalDocument \<Rightarrow> diagnosticsRecorder \<Rightarrow> diagnosticsRecorder" where
  "diagnostics_persist outcome document r =
     (if \<not> dr_hasPath r then r
      else
        let (journalFile, err) = write_document outcome (dr_file r) document
        in r\<lparr>dr_file := journalFile, dr_persistFailed := (err \<noteq> None)\<rparr>)"

definition persistenceDegraded :: "diagnosticsRecorder \<Rightarrow> bool" where
  "persistenceDegraded r = dr_persistFailed r"

text \<open>The first success after failures is journaled as a recovery.\<close>

definition shown_observation :: "bool \<Rightarrow> diagnosticsObservation \<Rightarrow> diagnosticsObservation" where
  "shown_observation recovered observation =
     (if recovered \<and> do_outcome observation = outcomeSucceeded
      then observation\<lparr>do_outcome := outcomeRecovered, do_reason := Some reasonRecovered,
        do_evidence := (if do_evidence observation = []
          then ''operation recovered after consecutive failures''
          else do_evidence observation)\<rparr>
      else observation)"

text \<open>
  A recorded observation and the write of the resulting document, as one step. The source reads
  the clock before it takes the lock and writes after it has released it; recorders that overlap,
  whose times or writes are then out of order, are not modelled.
\<close>

definition diagnostics_record ::
  "save_outcome \<Rightarrow> int \<Rightarrow> diagnosticsObservation \<Rightarrow> diagnosticsRecorder \<Rightarrow> diagnosticsRecorder" where
  "diagnostics_record outcome now observation r =
     (let (r1, recovered) = updateHealthLocked observation now r;
          journaled = journalWorthy observation \<or> recovered
      in if journaled
         then
           let (r2, event) = buildEventLocked (shown_observation recovered observation) now r1;
               r3 = appendLocked event r2
           in diagnostics_persist outcome (documentLocked r3) r3
         else r1)"

section \<open>Restoring after a restart\<close>

definition refuse_journal :: "diagnosticsRecorder \<Rightarrow> diagnosticsRecorder" where
  "refuse_journal r =
     r\<lparr>dr_restoreFailed := True, dr_rejectedEvents := add64 (dr_rejectedEvents r) 1\<rparr>"

text \<open>The counters of a document: evicted, rejected and unclassified events.\<close>

definition restored_counters :: "journalDocument \<Rightarrow> int \<times> int \<times> int" where
  "restored_counters document =
     (if jd_SchemaVersion document = diagnosticsSchemaVersion then
        let evicted = max (jd_EvictedEvents document) 0;
            rejected = max (jd_RejectedEvents document) 0;
            unclassified = max (jd_UnclassifiedEvents document) 0;
            classified = add64 (add64 evicted rejected) unclassified
        in if jd_DroppedEvents document \<noteq> classified \<or> jd_EvictedEvents document < 0
             \<or> jd_RejectedEvents document < 0 \<or> jd_UnclassifiedEvents document < 0
           then (evicted, add64 rejected 1,
             add64 unclassified (max (sub64 (jd_DroppedEvents document) classified) 0))
           else (evicted, rejected, unclassified)
      else (0, 0, max (jd_DroppedEvents document) 0))"

text \<open>The loop over the events: the highest sequence, the rejections and the valid events.\<close>

fun scan_events ::
  "bool \<Rightarrow> int \<Rightarrow> int \<Rightarrow> managerEvent list \<Rightarrow> int \<times> int \<times> managerEvent list" where
  "scan_events migrate highest rejected [] = (highest, rejected, [])"
| "scan_events migrate highest rejected (e # es) =
     (let event = (if migrate then normalizeManagerEvent e else e);
          highest' = max highest (me_Sequence event)
      in if \<not> validJournalEvent event then scan_events migrate highest' (add64 rejected 1) es
         else
           let (h, j, valid) = scan_events migrate highest' rejected es
           in (h, j, event # valid))"

definition restore_document :: "journalDocument \<Rightarrow> diagnosticsRecorder \<Rightarrow> diagnosticsRecorder" where
  "restore_document document r =
     (let (evicted, rejected, unclassified) = restored_counters document;
          (highest, rejected', validEvents) =
            scan_events (jd_SchemaVersion document = legacyDiagnosticsSchemaVersion)
              (max (jd_HighestSequence document) 0) rejected (jd_Events document);
          (retained, evicted') = evict_events
            (fold (\<lambda>event events. coalesceJournalEvent events event)
              (sort_key me_Sequence validEvents) []) evicted
      in r\<lparr>dr_events := retained, dr_highestSequence := highest, dr_evictedEvents := evicted',
           dr_rejectedEvents := rejected', dr_unclassifiedEvents := unclassified\<rparr>)"

definition restore_observation :: diagnosticsObservation where
  "restore_observation =
     \<lparr>do_subsystem = subsystemRecovery, do_operation = operationJournalRestore, do_target = [],
      do_outcome = outcomeSucceeded, do_reason = Some reasonNone,
      do_evidence = ''restored durable operation evidence after manager restart'',
      do_duration = None, do_attempt = 0, do_retryAt = None, do_healthKind = healthNone\<rparr>"

definition diagnostics_restore ::
  "save_outcome \<Rightarrow> int \<Rightarrow> diagnosticsRecorder \<Rightarrow> diagnosticsRecorder" where
  "diagnostics_restore outcome now r =
     (if \<not> dr_hasPath r then r
      else case read_document (dr_file r) of
          Inl err \<Rightarrow> refuse_journal r
        | Inr None \<Rightarrow> r
        | Inr (Some document) \<Rightarrow>
            if jd_SchemaVersion document \<noteq> diagnosticsSchemaVersion
              \<and> jd_SchemaVersion document \<noteq> previousDiagnosticsSchemaVersion
              \<and> jd_SchemaVersion document \<noteq> legacyDiagnosticsSchemaVersion
            then refuse_journal r
            else
              let restored = restore_document document r
              in if dr_events restored \<noteq> []
                 then diagnostics_record outcome now restore_observation restored
                 else diagnostics_persist outcome (documentLocked restored) restored)"

section \<open>Projections\<close>

definition unknownSubsystemHealth :: "int \<Rightarrow> subsystemHealthSummary" where
  "unknownSubsystemHealth now =
     \<lparr>sh_State = subsystemUnknown, sh_ObservedAt = format_RFC3339 now,
      sh_ConsecutiveFailures = 0, sh_RetryAt = None, sh_LastSuccess = None,
      sh_LastFailure = None\<rparr>"

definition projectSubsystemHealth ::
  "subsystemHealthState \<Rightarrow> int \<Rightarrow> subsystemHealthSummary" where
  "projectSubsystemHealth state now =
     (if \<not> hs_observed state then unknownSubsystemHealth now
      else
        let observedAt = (if hs_observedAt state = zeroTime then now else hs_observedAt state);
            summary = \<lparr>sh_State = subsystemUnknown, sh_ObservedAt = format_RFC3339 observedAt,
              sh_ConsecutiveFailures = min (hs_consecutiveFailures state) 1000,
              sh_RetryAt = map_option format_RFC3339 (hs_retryAt state),
              sh_LastSuccess = hs_lastSuccess state, sh_LastFailure = hs_lastFailure state\<rparr>
        in if hs_consecutiveFailures state > 0 then
             (if hs_lastFailure state = None
              then summary\<lparr>sh_ConsecutiveFailures := 0, sh_RetryAt := None,
                sh_LastSuccess := None\<rparr>
              else summary\<lparr>sh_State :=
                (if hs_consecutiveFailures state \<ge> subsystemFailureBand then subsystemUnavailable
                 else subsystemDegraded)\<rparr>)
           else if hs_lastSuccess state \<noteq> None then summary\<lparr>sh_State := subsystemHealthy\<rparr>
           else unknownSubsystemHealth now)"

definition subsystemHealth ::
  "int \<Rightarrow> diagnosticsRecorder \<Rightarrow> subsystemHealthSummary \<times> subsystemHealthSummary" where
  "subsystemHealth now r =
     (projectSubsystemHealth (dr_docker r) now, projectSubsystemHealth (dr_github r) now)"

text \<open>
  The loop of \<^verbatim>\<open>journal\<close> that drops events until their encoding fits; the length of the
  encoding is \<^const>\<open>None\<close> when encoding fails.
\<close>

function fit_events ::
  "(managerEvent list \<Rightarrow> int option) \<Rightarrow> managerEvent list \<Rightarrow> int \<Rightarrow> managerEvent list \<times> int" where
  "fit_events encoded events evicted =
     (if events = [] then (events, evicted)
      else if (case encoded events of Some n \<Rightarrow> n \<le> journalMaximumBytes | None \<Rightarrow> False)
      then (events, evicted)
      else fit_events encoded (dropOldestJournalEvent events) (add64 evicted 1))"
  by pat_completeness auto
termination by (relation "measure (length \<circ> fst \<circ> snd)") auto

declare fit_events.simps [simp del]

definition diagnostics_journal ::
  "(managerEvent list \<Rightarrow> int option) \<Rightarrow> diagnosticsRecorder \<Rightarrow> managerOperationJournal" where
  "diagnostics_journal encoded r =
     (let (events, evicted) = fit_events encoded (dr_events r) (dr_evictedEvents r);
          rejected = dr_rejectedEvents r;
          unclassified = dr_unclassifiedEvents r;
          projected = \<lparr>oj_Status = journalStatusCurrent, oj_Capacity = journalCapacity,
            oj_HighestSequence = (if events = [] then None else Some (me_Sequence (last events))),
            oj_DroppedEvents = add64 (add64 evicted rejected) unclassified,
            oj_EvictedEvents = evicted, oj_RejectedEvents = rejected,
            oj_UnclassifiedEvents = unclassified, oj_Events = events\<rparr>
      in if events = [] \<and> dr_restoreFailed r then
           let unavailable = projected\<lparr>oj_Status := journalStatusUnavailable\<rparr>
           in if rejected = 0
              then unavailable\<lparr>oj_RejectedEvents := 1,
                oj_DroppedEvents := add64 (oj_DroppedEvents unavailable) 1\<rparr>
              else unavailable
         else if rejected > 0 then projected\<lparr>oj_Status := journalStatusTruncated\<rparr>
         else projected)"

end
