(* ===== verification/Job_Context.thy ===== *)
theory Job_Context
  imports Diagnostics
begin

text \<open>
  The job a worker runs, as the manager publishes it (\<^verbatim>\<open>autoscaler/job_context.go\<close>). The
  messages of the scale-set service are records of the fields the code reads.
\<close>

definition maxGitHubOwnerLength :: nat where
  "maxGitHubOwnerLength = 39"

definition maxGitHubRepositoryLength :: nat where
  "maxGitHubRepositoryLength = 100"

definition maxJobIDLength :: nat where
  "maxJobIDLength = 32"

definition maxJobDisplayNameLength :: nat where
  "maxJobDisplayNameLength = 256"

definition maxJobEventNameLength :: nat where
  "maxJobEventNameLength = 64"

definition maxJobResultLength :: nat where
  "maxJobResultLength = 64"

record observedJobContext =
  jc_Repository :: string
  jc_WorkflowRunID :: int
  jc_JobID :: string
  jc_DisplayName :: "string option"
  jc_EventName :: "string option"
  jc_QueuedAt :: "stamp option"
  jc_ScaleSetAssignedAt :: "stamp option"
  jc_RunnerAssignedAt :: "stamp option"
  jc_StartedAt :: stamp
  jc_FinishedAt :: "stamp option"
  jc_Result :: "string option"

text \<open>The fields of the service's job messages; the last four are not part of its base.\<close>

record jobMessage =
  jm_OwnerName :: string
  jm_RepositoryName :: string
  jm_JobID :: string
  jm_WorkflowRunID :: int
  jm_JobDisplayName :: string
  jm_EventName :: string
  jm_QueueTime :: int
  jm_ScaleSetAssignTime :: int
  jm_RunnerAssignTime :: int
  jm_RunnerID :: int
  jm_RunnerName :: string
  jm_FinishTime :: int
  jm_Result :: string

definition timestampPointer :: "int \<Rightarrow> stamp option" where
  "timestampPointer value = (if value = zeroTime then None else Some (format_RFC3339 value))"

definition path_rune :: "int \<Rightarrow> bool" where
  "path_rune r \<longleftrightarrow> 97 \<le> r \<and> r \<le> 122 \<or> 65 \<le> r \<and> r \<le> 90 \<or> 48 \<le> r \<and> r \<le> 57
     \<or> r = 45 \<or> r = 95 \<or> r = 46"

definition githubPathSegment :: "string \<Rightarrow> nat \<Rightarrow> string" where
  "githubPathSegment value maximum =
     (if value = [] \<or> length value > maximum \<or> TrimSpace value \<noteq> value then []
      else if list_all path_rune (range_runes value) then value else [])"

definition numericIdentifier :: "string \<Rightarrow> nat \<Rightarrow> string" where
  "numericIdentifier value maximum =
     (if value = [] \<or> length value > maximum \<or> TrimSpace value \<noteq> value \<or> hd value = CHR ''0''
      then []
      else if list_all (\<lambda>r. 48 \<le> r \<and> r \<le> 57) (range_runes value) then value else [])"

text \<open>The fields are cut from the string, so an invalid byte stays as it is unless the text is bounded.\<close>

definition boundedTextPointer :: "string \<Rightarrow> nat \<Rightarrow> string option" where
  "boundedTextPointer value maximum =
     (let separator = (\<lambda>seg. case fst seg of
            Some r \<Rightarrow> unicode_IsSpace r \<or> unicode_IsControl r | None \<Rightarrow> False);
          parts = map (\<lambda>segs. concat (map snd segs)) (fields_func separator (decode_runes value));
          normalized = join_with '' '' parts;
          runes = range_runes normalized
      in if parts = [] then None
         else if length runes > maximum then Some (string_of_runes (take maximum runes))
         else Some normalized)"

definition jobContextFromMessage :: "jobMessage \<Rightarrow> int \<Rightarrow> observedJobContext option" where
  "jobContextFromMessage message observedAt =
     (let owner = githubPathSegment (jm_OwnerName message) maxGitHubOwnerLength;
          repository = githubPathSegment (jm_RepositoryName message) maxGitHubRepositoryLength;
          jobID = numericIdentifier (jm_JobID message) maxJobIDLength
      in if owner = [] \<or> repository = [] \<or> jobID = [] \<or> jm_WorkflowRunID message \<le> 0 then None
         else Some \<lparr>jc_Repository = ''https://github.com/'' @ owner @ ''/'' @ repository,
           jc_WorkflowRunID = jm_WorkflowRunID message, jc_JobID = jobID,
           jc_DisplayName = boundedTextPointer (jm_JobDisplayName message) maxJobDisplayNameLength,
           jc_EventName = boundedTextPointer (jm_EventName message) maxJobEventNameLength,
           jc_QueuedAt = timestampPointer (jm_QueueTime message),
           jc_ScaleSetAssignedAt = timestampPointer (jm_ScaleSetAssignTime message),
           jc_RunnerAssignedAt = timestampPointer (jm_RunnerAssignTime message),
           jc_StartedAt = format_RFC3339 observedAt, jc_FinishedAt = None, jc_Result = None\<rparr>)"

definition jobContextFromStarted :: "jobMessage option \<Rightarrow> int \<Rightarrow> observedJobContext option" where
  "jobContextFromStarted job observedAt =
     (case job of None \<Rightarrow> None | Some message \<Rightarrow> jobContextFromMessage message observedAt)"

definition sameJobContext ::
  "observedJobContext option \<Rightarrow> observedJobContext option \<Rightarrow> bool" where
  "sameJobContext left right \<longleftrightarrow>
     (case (left, right) of
        (Some l, Some r) \<Rightarrow> jc_Repository l = jc_Repository r
          \<and> jc_WorkflowRunID l = jc_WorkflowRunID r \<and> jc_JobID l = jc_JobID r
      | _ \<Rightarrow> False)"

definition firstString :: "'a option \<Rightarrow> 'a option \<Rightarrow> 'a option" where
  "firstString current fallback = (case current of None \<Rightarrow> fallback | Some _ \<Rightarrow> current)"

definition mergeStartedJobContext ::
  "observedJobContext option \<Rightarrow> observedJobContext option \<Rightarrow> observedJobContext option" where
  "mergeStartedJobContext existing nextContext =
     (case nextContext of
        None \<Rightarrow> existing
      | Some n \<Rightarrow>
          (case existing of
             None \<Rightarrow> nextContext
           | Some e \<Rightarrow>
               if \<not> sameJobContext existing nextContext then nextContext
               else Some (n\<lparr>jc_StartedAt := jc_StartedAt e,
                 jc_DisplayName := firstString (jc_DisplayName n) (jc_DisplayName e),
                 jc_EventName := firstString (jc_EventName n) (jc_EventName e),
                 jc_QueuedAt := firstString (jc_QueuedAt n) (jc_QueuedAt e),
                 jc_ScaleSetAssignedAt :=
                   firstString (jc_ScaleSetAssignedAt n) (jc_ScaleSetAssignedAt e),
                 jc_RunnerAssignedAt :=
                   firstString (jc_RunnerAssignedAt n) (jc_RunnerAssignedAt e)\<rparr>)))"

definition jobContextFromCompleted ::
  "jobMessage option \<Rightarrow> int \<Rightarrow> observedJobContext option \<Rightarrow> observedJobContext option" where
  "jobContextFromCompleted job observedAt existing =
     (case (job, existing) of
        (Some message, Some next) \<Rightarrow>
          if \<not> sameJobContext existing (jobContextFromMessage message observedAt) then existing
          else Some (next\<lparr>
            jc_FinishedAt :=
              (case timestampPointer (jm_FinishTime message) of
                 Some finishedAt \<Rightarrow> Some finishedAt
               | None \<Rightarrow> if jc_FinishedAt next = None then timestampPointer observedAt
                   else jc_FinishedAt next),
            jc_Result :=
              (case boundedTextPointer (jm_Result message) maxJobResultLength of
                 Some result \<Rightarrow> Some result | None \<Rightarrow> jc_Result next)\<rparr>)
      | _ \<Rightarrow> None)"

section \<open>Repeated and late messages\<close>

lemma message_again:
  assumes "jobContextFromMessage message t = Some c"
  shows "jobContextFromMessage message t' = Some (c\<lparr>jc_StartedAt := format_RFC3339 t'\<rparr>)"
    and "jc_FinishedAt c = None" "jc_Result c = None"
  using assms unfolding jobContextFromMessage_def Let_def
  by (simp_all split: if_split_asm add: observedJobContext.defs)
    (metis observedJobContext.select_convs observedJobContext.update_convs(9))+

lemma sameJobContext_message:
  "jobContextFromMessage message t = Some c \<Longrightarrow>
    sameJobContext (Some c) (jobContextFromMessage message t')"
  using message_again(1) [of message t c t'] by (simp add: sameJobContext_def)

lemma firstString_same [simp]: "firstString x x = x"
  by (simp add: firstString_def split: option.split)

text \<open>A repeated start message leaves the context as the first one made it.\<close>

lemma repeated_start:
  assumes "jobContextFromStarted job t = Some c"
  shows "mergeStartedJobContext (Some c) (jobContextFromStarted job t') = Some c"
proof -
  obtain message where "job = Some message" "jobContextFromMessage message t = Some c"
    using assms by (auto simp: jobContextFromStarted_def split: option.splits)
  with message_again(1) [of message t c t'] show ?thesis
    by (simp add: jobContextFromStarted_def mergeStartedJobContext_def sameJobContext_def)
qed

text \<open>
  The completion of a job finishes its own context and no other, keeps when it started, and
  keeps the first finish time when it is repeated without one.
\<close>

lemma completion_finishes:
  assumes "jobContextFromMessage message t = Some c" "t' \<noteq> zeroTime"
  shows "\<exists>d. jobContextFromCompleted (Some message) t' (Some c) = Some d
    \<and> jc_FinishedAt d \<noteq> None \<and> jc_StartedAt d = jc_StartedAt c
    \<and> sameJobContext (Some d) (Some c)"
  using sameJobContext_message [OF assms(1), of t'] assms(2)
  by (auto simp: jobContextFromCompleted_def timestampPointer_def sameJobContext_def
      split: option.splits)

lemma completion_of_other_job:
  "\<not> sameJobContext (Some c) (jobContextFromMessage message t)
    \<Longrightarrow> jobContextFromCompleted (Some message) t (Some c) = Some c"
  by (simp add: jobContextFromCompleted_def)

end
