(* ===== verification/Scaler_State.thy ===== *)
theory Scaler_State
  imports Launch_Intent Job_Context "HOL-Library.State_Monad" "HOL-Library.Product_Lexorder"
begin

text \<open>
  The runner scaler of one target (\<^verbatim>\<open>autoscaler/scaler.go\<close>): its state, the services it calls
  and the reads of its state. An operation is a state transformer in the state monad. Every
  call of a service is logged, together with the durable state at that moment, and answered
  by a \<open>world\<close>, which may depend on everything that happened before: it stands for GitHub,
  Docker, the admission components, the file system, the clock and the random source. The
  runners of a scaler are listed by their keys; operations run one at a time, as the operation
  gate makes them.
\<close>

section \<open>Runners\<close>

datatype runnerLifecycleState =
  runnerStarting | runnerIdle | runnerBusy | runnerDraining | runnerCleanupPending

record runnerRecord =
  rr_key :: string
  rr_targetKey :: string
  rr_repository :: string
  rr_runnerName :: string
  rr_runnerID :: int
  rr_containerID :: string
  rr_container :: string
  rr_containerRunning :: bool
  rr_containerConfirmedAt :: int
  rr_state :: runnerLifecycleState
  rr_startedAt :: int
  rr_updatedAt :: int
  rr_idleSince :: "int option"
  rr_jobStartedAt :: "int option"
  rr_completedAt :: "int option"
  rr_currentJob :: "observedJobContext option"
  rr_revision :: string
  rr_stale :: bool
  rr_fenceAttempts :: int
  rr_fenceRetryAt :: "int option"
  rr_recovered :: bool
  rr_protected :: bool
  rr_registrationRemoved :: bool
  rr_hostSlotKey :: string
  rr_hostLeaseReleased :: bool
  rr_hostLeaseAdopted :: bool

text \<open>The record with only the identity of a runner set.\<close>

definition identity_record ::
  "string \<Rightarrow> string \<Rightarrow> string \<Rightarrow> int \<Rightarrow> string \<Rightarrow> string \<Rightarrow> runnerRecord" where
  "identity_record key targetKey runnerName runnerID containerID container =
     \<lparr>rr_key = key, rr_targetKey = targetKey, rr_repository = [], rr_runnerName = runnerName,
      rr_runnerID = runnerID, rr_containerID = containerID, rr_container = container,
      rr_containerRunning = False, rr_containerConfirmedAt = zeroTime, rr_state = runnerStarting,
      rr_startedAt = zeroTime, rr_updatedAt = zeroTime, rr_idleSince = None,
      rr_jobStartedAt = None, rr_completedAt = None, rr_currentJob = None, rr_revision = [],
      rr_stale = False, rr_fenceAttempts = 0, rr_fenceRetryAt = None, rr_recovered = False,
      rr_protected = False, rr_registrationRemoved = False, rr_hostSlotKey = [],
      rr_hostLeaseReleased = False, rr_hostLeaseAdopted = False\<rparr>"

record scalerStatistics =
  st_observedAt :: int
  st_assignedJobs :: int
  st_runningJobs :: int
  st_availableJobs :: int
  st_acquiredJobs :: int
  st_registeredRunners :: int
  st_busyRunners :: int
  st_idleRunners :: int

definition zeroStatistics :: scalerStatistics where
  "zeroStatistics = \<lparr>st_observedAt = zeroTime, st_assignedJobs = 0, st_runningJobs = 0,
     st_availableJobs = 0, st_acquiredJobs = 0, st_registeredRunners = 0, st_busyRunners = 0,
     st_idleRunners = 0\<rparr>"

text \<open>The zero block has no reason.\<close>

record capacityBlock =
  cb_reason :: "deficit_reason option"
  cb_evidence :: string

definition noBlock :: capacityBlock where
  "noBlock = \<lparr>cb_reason = None, cb_evidence = []\<rparr>"

section \<open>Services\<close>

record jitRunnerConfig =
  jr_runnerID :: int
  jr_runnerName :: string
  jr_encoded :: string

record containerLaunch =
  cl_name :: string
  cl_image :: string
  cl_jitConfig :: string
  cl_labels :: "(string, string) gomap"
  cl_resources :: workerResourcePolicy
  cl_runtime :: workerRuntimePolicy
  cl_volumes :: "externalVolume list"
  cl_network :: string

record recoveredContainer =
  re_containerID :: string
  re_name :: string
  re_runnerName :: string
  re_runnerID :: int
  re_targetKey :: string
  re_slotKey :: string
  re_revision :: string
  re_createdAt :: int
  re_unstarted :: bool
  re_hostSlotKey :: string

text \<open>
  What the scaler asks of the rest of the system: the control plane, Docker, host admission,
  the profile admission controller, its files, the journal, the clock and its callbacks.
\<close>

datatype service_call =
    AcquireOperation
  | PollShutdown
  | LifecycleEnded
  | ReadClock
  | NameSuffix
  | IterateRunners
  | RemoveRunner int
  | FindRunnerByName string
  | GenerateJIT int string
  | DockerRun containerLaunch
  | DockerCreate containerLaunch
  | DockerStart string
  | DockerStopAndRemove string
  | DockerStop string
  | DockerIsRunning string
  | DockerInspectExit string
  | DockerReadLogs string
  | StartMonitor string int
  | HostAcquire string
  | HostBind string string
  | HostAdopt string
  | HostRenew string
  | HostActivate string
  | HostRelease string
  | SetTargetDemand int
  | AdmissionJoin
  | AdmissionLeave
  | AdmissionSetDemand int
  | AdmissionReserve int
  | AdmissionSettle int
  | SaveCleanups
  | SaveFences
  | SaveIntent
  | ClearIntent
  | SaveReleases
  | Diagnose diagnosticsObservation
  | OnChange
  | OnError

text \<open>The files of a target that survive a crash.\<close>

record durable_files =
  df_cleanups :: "registrationCleanupRecord target_document state_file"
  df_fences :: "registrationFenceRecord target_document state_file"
  df_intent :: "launchIntentRecord state_file"
  df_releases :: "hostLeaseCleanupRecord target_document state_file"

type_synonym trace = "(durable_files \<times> service_call) list"

text \<open>
  The answers. Each is a function of the trace so far, whose last entry is the call answered:
  an error or none, the clock, a choice of iteration order, and so on.
\<close>

record world =
  w_err :: "trace \<Rightarrow> manager_error option"
  w_now :: "trace \<Rightarrow> int"
  w_order :: "trace \<Rightarrow> string list"
  w_text :: "trace \<Rightarrow> manager_error + string"
  w_jit :: "trace \<Rightarrow> manager_error + jitRunnerConfig"
  w_find :: "trace \<Rightarrow> manager_error + int option"
  w_running :: "trace \<Rightarrow> manager_error + bool"
  w_exit :: "trace \<Rightarrow> containerExitState option"
  w_logs :: "trace \<Rightarrow> manager_error + string list"
  w_granted :: "trace \<Rightarrow> int"
  w_release :: "trace \<Rightarrow> goerr option"
  w_save :: "trace \<Rightarrow> save_outcome"
  w_signal :: "trace \<Rightarrow> bool"
  w_unicode :: unicode_tables

section \<open>The scaler\<close>

record runnerScaler =
  sc_cfg :: config
  sc_hostAdmission :: bool
  sc_target :: targetSpec
  sc_scaleSetID :: int
  sc_runners :: "runnerRecord list"
  sc_statistics :: scalerStatistics
  sc_targetSlots :: int
  sc_scaleDownAt :: "int option"
  sc_shuttingDown :: bool
  sc_retiring :: bool
  sc_pendingRegistrations :: "(string, registrationCleanupRecord) gomap"
  sc_cleanupStateError :: "manager_error option"
  sc_pendingFences :: "(string, registrationFenceRecord) gomap"
  sc_fenceStateError :: "manager_error option"
  sc_pendingLaunchIntent :: "launchIntentRecord option"
  sc_launchIntentStateError :: "manager_error option"
  sc_releases :: release_queue
  sc_blocking :: capacityBlock
  sc_launchFailures :: int
  sc_launchRetryAt :: int
  sc_exitFailures :: int
  sc_exitRetryAt :: int
  sc_cleanupFile :: "registrationCleanupRecord target_document state_file"
  sc_fenceFile :: "registrationFenceRecord target_document state_file"
  sc_intentFile :: "launchIntentRecord state_file"
  sc_trace :: trace

type_synonym 'a op = "(runnerScaler, 'a) state"

definition durable :: "runnerScaler \<Rightarrow> durable_files" where
  "durable s = \<lparr>df_cleanups = sc_cleanupFile s, df_fences = sc_fenceFile s,
     df_intent = sc_intentFile s, df_releases = rl_file (sc_releases s)\<rparr>"

abbreviation done_with :: "'a \<Rightarrow> 'a op" where
  "done_with \<equiv> State_Monad.return"

definition gets :: "(runnerScaler \<Rightarrow> 'a) \<Rightarrow> 'a op" where
  "gets f = State (\<lambda>s. (f s, s))"

definition modify :: "(runnerScaler \<Rightarrow> runnerScaler) \<Rightarrow> unit op" where
  "modify f = State (\<lambda>s. ((), f s))"

definition ask :: "service_call \<Rightarrow> (trace \<Rightarrow> 'a) \<Rightarrow> 'a op" where
  "ask c answer = State (\<lambda>s. let t = sc_trace s @ [(durable s, c)] in (answer t, s\<lparr>sc_trace := t\<rparr>))"

definition tell :: "service_call \<Rightarrow> unit op" where
  "tell c = ask c (\<lambda>_. ())"

definition clock_now :: "world \<Rightarrow> int op" where
  "clock_now w = ask ReadClock (w_now w)"

definition diagnose :: "diagnosticsObservation \<Rightarrow> unit op" where
  "diagnose observation = tell (Diagnose observation)"

text \<open>
  Reading the shutdown flag. A concurrent \<^verbatim>\<open>shutdown\<close> raises it, and drops the scale-down
  deadline, before it waits for the operation gate.
\<close>

definition poll_shutdown :: "world \<Rightarrow> bool op" where
  "poll_shutdown w =
     do { raised \<leftarrow> ask PollShutdown (w_signal w);
          modify (\<lambda>s. if raised then s\<lparr>sc_shuttingDown := True, sc_scaleDownAt := None\<rparr> else s);
          gets sc_shuttingDown }"

text \<open>An error of the manager's own, without a sentinel.\<close>

abbreviation plain_error :: manager_error where
  "plain_error \<equiv> []"

text \<open>\<^verbatim>\<open>for _, x := range xs\<close> collecting the errors of the body.\<close>

fun for_each :: "('a \<Rightarrow> manager_error option op) \<Rightarrow> 'a list \<Rightarrow> manager_error option list op" where
  "for_each body [] = done_with []"
| "for_each body (x # xs) =
     do { err \<leftarrow> body x; errs \<leftarrow> for_each body xs; done_with (err # errs) }"

section \<open>Runners by key\<close>

definition runner_at :: "string \<Rightarrow> runnerScaler \<Rightarrow> runnerRecord option" where
  "runner_at key s = find (\<lambda>r. rr_key r = key) (sc_runners s)"

definition update_runner :: "string \<Rightarrow> (runnerRecord \<Rightarrow> runnerRecord) \<Rightarrow> runnerScaler \<Rightarrow> runnerScaler" where
  "update_runner key f s =
     s\<lparr>sc_runners := map (\<lambda>r. if rr_key r = key then f r else r) (sc_runners s)\<rparr>"

definition delete_runner :: "string \<Rightarrow> runnerScaler \<Rightarrow> runnerScaler" where
  "delete_runner key s = s\<lparr>sc_runners := filter (\<lambda>r. rr_key r \<noteq> key) (sc_runners s)\<rparr>"

definition insert_runner :: "runnerRecord \<Rightarrow> runnerScaler \<Rightarrow> runnerScaler" where
  "insert_runner r s = s\<lparr>sc_runners := filter (\<lambda>q. rr_key q \<noteq> rr_key r) (sc_runners s) @ [r]\<rparr>"

text \<open>An iteration order chosen by the runtime: the runners named first, then the others.\<close>

definition runners_in :: "string list \<Rightarrow> runnerRecord list \<Rightarrow> runnerRecord list" where
  "runners_in keys rs =
     concat (map (\<lambda>k. filter (\<lambda>r. rr_key r = k) rs) (remdups keys))
     @ filter (\<lambda>r. rr_key r \<notin> set keys) rs"

definition findRunnerLocked :: "world \<Rightarrow> string \<Rightarrow> int \<Rightarrow> runnerRecord option op" where
  "findRunnerLocked w name runnerID =
     do { keys \<leftarrow> ask IterateRunners (w_order w);
          rs \<leftarrow> gets sc_runners;
          done_with (find (\<lambda>r. runnerID > 0 \<and> rr_runnerID r = runnerID
            \<or> name \<noteq> [] \<and> rr_runnerName r = name) (runners_in keys rs)) }"

definition findRunnerByContainerLocked :: "world \<Rightarrow> string \<Rightarrow> runnerRecord option op" where
  "findRunnerByContainerLocked w containerID =
     do { keys \<leftarrow> ask IterateRunners (w_order w);
          rs \<leftarrow> gets sc_runners;
          done_with (find (\<lambda>r. rr_containerID r = containerID) (runners_in keys rs)) }"

section \<open>Counting and choosing runners\<close>

definition calculateTarget :: "int \<Rightarrow> int \<Rightarrow> int \<Rightarrow> int" where
  "calculateTarget maximum minimumIdle assignedJobs =
     (if maximum < 0 \<or> minimumIdle < 0 \<or> assignedJobs < 0 then 0
      else if minimumIdle \<ge> maximum \<or> assignedJobs \<ge> sub64 maximum minimumIdle then maximum
      else add64 minimumIdle assignedJobs)"

definition counts_as_capacity :: "runnerRecord \<Rightarrow> bool" where
  "counts_as_capacity r \<longleftrightarrow> rr_state r \<noteq> runnerCleanupPending \<and> rr_state r \<noteq> runnerDraining"

definition capacityCountLocked :: "runnerScaler \<Rightarrow> int" where
  "capacityCountLocked s = int (length (filter counts_as_capacity (sc_runners s)))"

definition runnerCount :: "runnerScaler \<Rightarrow> int" where
  "runnerCount s = int (length (sc_runners s))"

definition idleRunnersLocked :: "runnerScaler \<Rightarrow> runnerRecord list" where
  "idleRunnersLocked s =
     sort_key (\<lambda>r. (case rr_idleSince r of Some t \<Rightarrow> t | None \<Rightarrow> rr_startedAt r, rr_key r))
       (filter (\<lambda>r. rr_state r = runnerIdle \<and> \<not> rr_protected r \<and> rr_fenceRetryAt r = None)
         (sc_runners s))"

definition oldestIdleRunnerLocked :: "runnerScaler \<Rightarrow> runnerRecord option" where
  "oldestIdleRunnerLocked s =
     (case idleRunnersLocked s of [] \<Rightarrow> None | r # _ \<Rightarrow> runner_at (rr_key r) s)"

definition oldestProtectedRecoveredRunnerLocked :: "runnerScaler \<Rightarrow> runnerRecord option" where
  "oldestProtectedRecoveredRunnerLocked s =
     (case sort_key (\<lambda>r. (rr_startedAt r, rr_key r))
         (filter (\<lambda>r. rr_recovered r \<and> rr_protected r \<and> rr_state r = runnerStarting
           \<and> \<not> rr_registrationRemoved r) (sc_runners s)) of
        [] \<Rightarrow> None | r # _ \<Rightarrow> runner_at (rr_key r) s)"

definition registrationHeldByLiveRunner :: "registrationCleanupRecord \<Rightarrow> runnerScaler \<Rightarrow> bool" where
  "registrationHeldByLiveRunner record s \<longleftrightarrow>
     list_ex (\<lambda>r. \<not> rr_registrationRemoved r
       \<and> (rr_runnerID r = rc_RunnerID record
          \<or> rc_ContainerID record \<noteq> [] \<and> rr_containerID r = rc_ContainerID record)) (sc_runners s)"

definition hostLeasesAdopted :: "runnerScaler \<Rightarrow> bool" where
  "hostLeasesAdopted s \<longleftrightarrow>
     \<not> sc_hostAdmission s
     \<or> list_all (\<lambda>r. rr_hostLeaseReleased r \<or> rr_hostLeaseAdopted r) (sc_runners s)"

section \<open>The snapshot\<close>

record scalerSnapshot =
  sn_blocking :: capacityBlock
  sn_target :: targetSpec
  sn_scaleSetID :: int
  sn_targetSlots :: int
  sn_scaleDownAt :: "int option"
  sn_statistics :: scalerStatistics
  sn_runners :: "runnerRecord list"
  sn_pendingCleanups :: "registrationCleanupRecord list"
  sn_activeRunners :: int
  sn_idleRunners :: int
  sn_busyRunners :: int
  sn_drainingRunners :: int
  sn_staleRunners :: int
  sn_minimumIdleSlots :: int
  sn_retiring :: bool

definition count_runners :: "(runnerRecord \<Rightarrow> bool) \<Rightarrow> runnerScaler \<Rightarrow> int" where
  "count_runners p s = int (length (filter p (sc_runners s)))"

definition pendingRegistrationsLocked :: "runnerScaler \<Rightarrow> registrationCleanupRecord list" where
  "pendingRegistrationsLocked s = sort_key rc_SlotKey (map snd (sc_pendingRegistrations s))"

definition pendingRegistrationFencesLocked :: "runnerScaler \<Rightarrow> registrationFenceRecord list" where
  "pendingRegistrationFencesLocked s = sort_key rf_SlotKey (map snd (sc_pendingFences s))"

definition snapshot :: "runnerScaler \<Rightarrow> scalerSnapshot" where
  "snapshot s =
     \<lparr>sn_blocking = sc_blocking s, sn_target = sc_target s, sn_scaleSetID = sc_scaleSetID s,
      sn_targetSlots = sc_targetSlots s, sn_scaleDownAt = sc_scaleDownAt s,
      sn_statistics = sc_statistics s, sn_runners = sort_key rr_key (sc_runners s),
      sn_pendingCleanups = pendingRegistrationsLocked s,
      sn_activeRunners = capacityCountLocked s,
      sn_idleRunners = count_runners (\<lambda>r. rr_state r = runnerIdle) s,
      sn_busyRunners = count_runners (\<lambda>r. rr_state r = runnerBusy) s,
      sn_drainingRunners = count_runners (\<lambda>r. rr_state r \<in> {runnerDraining, runnerCleanupPending}) s,
      sn_staleRunners = count_runners rr_stale s,
      sn_minimumIdleSlots =
        (if sc_retiring s then 0 else min (cf_minimumIdle (sc_cfg s)) (ts_maximum (sc_target s))),
      sn_retiring = sc_retiring s\<rparr>"

end
