(* ===== verification/Scaler_Queues.thy ===== *)
theory Scaler_Queues
  imports Scaler_State
begin

text \<open>
  The durable work of a scaler (\<^verbatim>\<open>autoscaler/scaler.go\<close>): registration cleanups, registration
  fences, the launch intent and host lease releases, each written to its file before the call
  it stands for is made.
\<close>

section \<open>Observations\<close>

definition observation ::
  "journal_subsystem \<Rightarrow> journal_operation \<Rightarrow> string \<Rightarrow> operation_outcome \<Rightarrow> failure_reason \<Rightarrow> string
    \<Rightarrow> diagnosticsObservation" where
  "observation subsystem operation target outcome reason evidence =
     \<lparr>do_subsystem = subsystem, do_operation = operation, do_target = target,
      do_outcome = outcome, do_reason = Some reason, do_evidence = evidence, do_duration = None,
      do_attempt = 0, do_retryAt = None, do_healthKind = healthNone\<rparr>"

definition deadline_of :: "stamp \<Rightarrow> int" where
  "deadline_of stamp = (case parse_RFC3339 stamp of Some t \<Rightarrow> t | None \<Rightarrow> zeroTime)"

definition setBlocking :: "deficit_reason \<Rightarrow> string \<Rightarrow> unit op" where
  "setBlocking reason evidence =
     modify (\<lambda>s. s\<lparr>sc_blocking := \<lparr>cb_reason = Some reason, cb_evidence = evidence\<rparr>\<rparr>)"

definition clearBlocking :: "unit op" where
  "clearBlocking = modify (\<lambda>s. s\<lparr>sc_blocking := noBlock\<rparr>)"

definition setProfileAdmissionDemand :: "int \<Rightarrow> unit op" where
  "setProfileAdmissionDemand demand = tell (AdmissionSetDemand demand)"

section \<open>Registration cleanup\<close>

definition persistPendingRegistrations ::
  "world \<Rightarrow> registrationCleanupRecord list \<Rightarrow> manager_error option op" where
  "persistPendingRegistrations w records =
     do { outcome \<leftarrow> ask SaveCleanups (w_save w);
          s \<leftarrow> gets id;
          let (f, err) = registrationCleanup_save (ts_key (sc_target s)) outcome records (sc_cleanupFile s);
          if err \<noteq> None
          then do { modify (\<lambda>s. s\<lparr>sc_cleanupFile := f, sc_cleanupStateError := Some plain_error\<rparr>);
                    tell OnError;
                    done_with (Some plain_error) }
          else do { modify (\<lambda>s. s\<lparr>sc_cleanupFile := f, sc_cleanupStateError := None\<rparr>);
                    done_with None } }"

text \<open>The record a cleanup begins with: a new one, or the pending one with its identity renewed.\<close>

definition cleanup_record_for ::
  "runnerRecord \<Rightarrow> lastExitDiagnostic option \<Rightarrow> int \<Rightarrow> runnerScaler \<Rightarrow> registrationCleanupRecord" where
  "cleanup_record_for runner diagnostic now s =
     (let record = (case map_of (sc_pendingRegistrations s) (rr_key runner) of
            None \<Rightarrow> \<lparr>rc_TargetKey = ts_key (sc_target s), rc_SlotKey = rr_key runner,
              rc_RunnerID = rr_runnerID runner, rc_RunnerName = rr_runnerName runner,
              rc_ContainerID = rr_containerID runner, rc_ContainerName = rr_container runner,
              rc_Attempts = 1, rc_FirstFailedAt = format_RFC3339 now,
              rc_LastAttemptAt = format_RFC3339 now,
              rc_NextAttemptAt = format_RFC3339 (now + registrationOperationRetryDelay 1),
              rc_LastExit = None\<rparr>
          | Some record \<Rightarrow> record\<lparr>rc_RunnerID := rr_runnerID runner,
              rc_RunnerName := rr_runnerName runner, rc_ContainerID := rr_containerID runner,
              rc_ContainerName := rr_container runner\<rparr>)
      in case diagnostic of None \<Rightarrow> record | Some d \<Rightarrow> record\<lparr>rc_LastExit := Some d\<rparr>)"

definition beginPendingRegistrationCleanup ::
  "world \<Rightarrow> runnerRecord \<Rightarrow> lastExitDiagnostic option \<Rightarrow> int
    \<Rightarrow> (registrationCleanupRecord \<times> manager_error option) op" where
  "beginPendingRegistrationCleanup w runner diagnostic now =
     do { record \<leftarrow> gets (cleanup_record_for runner diagnostic now);
          modify (\<lambda>s. s\<lparr>sc_pendingRegistrations :=
            mput (sc_pendingRegistrations s) (rc_SlotKey record) record\<rparr>);
          records \<leftarrow> gets pendingRegistrationsLocked;
          err \<leftarrow> persistPendingRegistrations w records;
          done_with (record, err) }"

definition next_cleanup_attempt :: "int \<Rightarrow> registrationCleanupRecord \<Rightarrow> registrationCleanupRecord" where
  "next_cleanup_attempt now record =
     (let attempts = (if rc_Attempts record < maxRegistrationCleanupAttempts
            then rc_Attempts record + 1 else rc_Attempts record)
      in record\<lparr>rc_Attempts := attempts, rc_LastAttemptAt := format_RFC3339 now,
           rc_NextAttemptAt := format_RFC3339 (now + registrationOperationRetryDelay attempts)\<rparr>)"

definition preparePendingRegistrationRetry ::
  "world \<Rightarrow> registrationCleanupRecord \<Rightarrow> int \<Rightarrow> (manager_error + registrationCleanupRecord) op" where
  "preparePendingRegistrationRetry w record now =
     do { current \<leftarrow> gets (\<lambda>s. map_of (sc_pendingRegistrations s) (rc_SlotKey record));
          case current of
            None \<Rightarrow> done_with (Inl plain_error)
          | Some c \<Rightarrow>
              (let updated = next_cleanup_attempt now c
               in do { modify (\<lambda>s. s\<lparr>sc_pendingRegistrations :=
                         mput (sc_pendingRegistrations s) (rc_SlotKey updated) updated\<rparr>);
                       records \<leftarrow> gets pendingRegistrationsLocked;
                       err \<leftarrow> persistPendingRegistrations w records;
                       done_with (case err of Some e \<Rightarrow> Inl e | None \<Rightarrow> Inr updated) }) }"

definition recordPendingRegistrationFailure ::
  "registrationCleanupRecord \<Rightarrow> manager_error \<Rightarrow> unit op" where
  "recordPendingRegistrationFailure record cause =
     do { diagnose ((observation subsystemCleanup operationRegistrationCleanup (rc_SlotKey record)
            outcomeRetry (classifyFailure (Some cause))
            ''exact runner registration removal is still pending'')
            \<lparr>do_attempt := rc_Attempts record, do_retryAt := Some (deadline_of (rc_NextAttemptAt record))\<rparr>);
          tell OnError }"

definition resolvePendingRegistration :: "world \<Rightarrow> string \<Rightarrow> string \<Rightarrow> unit op" where
  "resolvePendingRegistration w slotKey reason =
     do { exists \<leftarrow> gets (\<lambda>s. map_of (sc_pendingRegistrations s) slotKey \<noteq> None);
          modify (\<lambda>s. s\<lparr>sc_pendingRegistrations := mdel (sc_pendingRegistrations s) slotKey\<rparr>);
          records \<leftarrow> gets pendingRegistrationsLocked;
          if \<not> exists then done_with ()
          else do { persistPendingRegistrations w records;
                    diagnose (observation subsystemCleanup operationRegistrationCleanup slotKey
                      outcomeSucceeded reasonNone
                      (''exact runner registration cleanup resolved as '' @ reason)) } }"

definition removeRunner :: "world \<Rightarrow> int \<Rightarrow> manager_error option op" where
  "removeRunner w runnerID =
     do { err \<leftarrow> ask (RemoveRunner runnerID) (w_err w); done_with (registrationRemovalError err) }"

definition attemptPendingRegistrationCleanup ::
  "world \<Rightarrow> registrationCleanupRecord \<Rightarrow> manager_error option op" where
  "attemptPendingRegistrationCleanup w record =
     do { err \<leftarrow> removeRunner w (rc_RunnerID record);
          case err of
            None \<Rightarrow> do { resolvePendingRegistration w (rc_SlotKey record) ''removed''; done_with None }
          | Some e \<Rightarrow> do { recordPendingRegistrationFailure record e; done_with (Some e) } }"

definition retry_registration ::
  "world \<Rightarrow> registrationCleanupRecord \<Rightarrow> manager_error option op" where
  "retry_registration w record =
     do { held \<leftarrow> gets (registrationHeldByLiveRunner record);
          if held
          then do { resolvePendingRegistration w (rc_SlotKey record) ''held-by-live-runner'';
                    done_with None }
          else do {
            now \<leftarrow> clock_now w;
            if \<not> registrationCleanupDue record now then done_with None
            else do {
              attemptAt \<leftarrow> clock_now w;
              prepared \<leftarrow> preparePendingRegistrationRetry w record attemptAt;
              case prepared of
                Inl e \<Rightarrow> done_with (Some e)
              | Inr r \<Rightarrow> do {
                  err \<leftarrow> removeRunner w (rc_RunnerID r);
                  case err of
                    None \<Rightarrow> do { resolvePendingRegistration w (rc_SlotKey r) ''removed''; done_with None }
                  | Some e \<Rightarrow> do { recordPendingRegistrationFailure r e; done_with (Some e) } } } } }"

definition retryPendingRegistrations :: "world \<Rightarrow> manager_error option op" where
  "retryPendingRegistrations w =
     do { pending \<leftarrow> gets pendingRegistrationsLocked;
          errs \<leftarrow> for_each (retry_registration w) pending;
          done_with (errors_Join errs) }"

section \<open>Launch intents\<close>

definition save_intent :: "world \<Rightarrow> launchIntentRecord \<Rightarrow> manager_error option op" where
  "save_intent w record =
     do { outcome \<leftarrow> ask SaveIntent (w_save w);
          f \<leftarrow> gets sc_intentFile;
          let (f', err) = launchIntent_save outcome record f;
          if err \<noteq> None
          then do { modify (\<lambda>s. s\<lparr>sc_intentFile := f', sc_launchIntentStateError := Some plain_error\<rparr>);
                    done_with (Some plain_error) }
          else do { modify (\<lambda>s. s\<lparr>sc_intentFile := f', sc_pendingLaunchIntent := Some record,
                      sc_launchIntentStateError := None\<rparr>);
                    done_with None } }"

definition beginLaunchIntent :: "world \<Rightarrow> string \<Rightarrow> int \<Rightarrow> manager_error option op" where
  "beginLaunchIntent w runnerName now =
     do { targetKey \<leftarrow> gets (\<lambda>s. ts_key (sc_target s));
          save_intent w \<lparr>li_SchemaVersion = 1, li_ManagerContractVersion = launchIntentContractVersion,
            li_TargetKey = targetKey, li_RunnerName = runnerName, li_RunnerID = 0, li_Attempts = 1,
            li_LastAttemptAt = format_RFC3339 now,
            li_NextAttemptAt = format_RFC3339 (now + registrationOperationRetryDelay 1)\<rparr> }"

definition updateLaunchIntentRunnerID :: "world \<Rightarrow> int \<Rightarrow> manager_error option op" where
  "updateLaunchIntentRunnerID w runnerID =
     do { intent \<leftarrow> gets sc_pendingLaunchIntent;
          case intent of
            None \<Rightarrow> done_with (Some plain_error)
          | Some record \<Rightarrow> save_intent w (record\<lparr>li_RunnerID := runnerID\<rparr>) }"

definition prepareLaunchIntentRetry ::
  "world \<Rightarrow> launchIntentRecord \<Rightarrow> int \<Rightarrow> manager_error option op" where
  "prepareLaunchIntentRetry w record now =
     (let attempts = (if li_Attempts record < maxRegistrationCleanupAttempts
            then li_Attempts record + 1 else li_Attempts record)
      in save_intent w (record\<lparr>li_Attempts := attempts, li_LastAttemptAt := format_RFC3339 now,
           li_NextAttemptAt := format_RFC3339 (now + registrationOperationRetryDelay attempts)\<rparr>))"

definition clearLaunchIntent :: "world \<Rightarrow> manager_error option op" where
  "clearLaunchIntent w =
     do { outcome \<leftarrow> ask ClearIntent (w_save w);
          f \<leftarrow> gets sc_intentFile;
          let (f', err) = launchIntent_clear outcome f;
          if err \<noteq> None
          then do { modify (\<lambda>s. s\<lparr>sc_intentFile := f', sc_launchIntentStateError := Some plain_error\<rparr>);
                    done_with (Some plain_error) }
          else do { modify (\<lambda>s. s\<lparr>sc_intentFile := f', sc_pendingLaunchIntent := None,
                      sc_launchIntentStateError := None\<rparr>);
                    done_with None } }"

definition recover_intent :: "world \<Rightarrow> launchIntentRecord \<Rightarrow> manager_error option op" where
  "recover_intent w record =
     do { found \<leftarrow> ask (FindRunnerByName (li_RunnerName record)) (w_find w);
          case found of
            Inl e \<Rightarrow> done_with (Some e)
          | Inr None \<Rightarrow> clearLaunchIntent w
          | Inr (Some runnerID) \<Rightarrow> do {
              err \<leftarrow> removeRunner w runnerID;
              case err of Some e \<Rightarrow> done_with (Some e) | None \<Rightarrow> clearLaunchIntent w } }"

definition retryPendingLaunchIntent :: "world \<Rightarrow> manager_error option op" where
  "retryPendingLaunchIntent w =
     do { intent \<leftarrow> gets sc_pendingLaunchIntent;
          case intent of
            None \<Rightarrow> done_with None
          | Some record \<Rightarrow> do {
              live \<leftarrow> gets (\<lambda>s. list_ex (\<lambda>r. rr_runnerName r = li_RunnerName record) (sc_runners s));
              if live then clearLaunchIntent w
              else case parse_RFC3339 (li_NextAttemptAt record) of
                None \<Rightarrow> done_with (Some plain_error)
              | Some nextAttemptAt \<Rightarrow> do {
                  now \<leftarrow> clock_now w;
                  if now < nextAttemptAt
                  then do { setBlocking deficitRetryBackoff
                              ''runner launch recovery is waiting on retry backoff'';
                            done_with None }
                  else do {
                    err \<leftarrow> prepareLaunchIntentRetry w record now;
                    case err of Some e \<Rightarrow> done_with (Some e) | None \<Rightarrow> recover_intent w record } } } }"

definition removeLaunchIntentRegistration :: "world \<Rightarrow> manager_error option op" where
  "removeLaunchIntentRegistration w =
     do { intent \<leftarrow> gets sc_pendingLaunchIntent;
          case intent of
            None \<Rightarrow> done_with (Some plain_error)
          | Some record \<Rightarrow>
              if li_RunnerID record < 1 then done_with (Some plain_error)
              else do { err \<leftarrow> removeRunner w (li_RunnerID record);
                        case err of Some e \<Rightarrow> done_with (Some e) | None \<Rightarrow> clearLaunchIntent w } }"

definition removeRegistrationOrEnqueue :: "world \<Rightarrow> runnerRecord \<Rightarrow> manager_error option op" where
  "removeRegistrationOrEnqueue w runner =
     (if rr_containerID runner = [] then removeLaunchIntentRegistration w
      else do {
        now \<leftarrow> clock_now w;
        (record, err) \<leftarrow> beginPendingRegistrationCleanup w runner None now;
        case err of
          Some e \<Rightarrow> done_with (Some e)
        | None \<Rightarrow> do {
            err \<leftarrow> clearLaunchIntent w;
            case err of
              Some e \<Rightarrow> done_with (Some e)
            | None \<Rightarrow> attemptPendingRegistrationCleanup w record } })"

section \<open>Host lease releases\<close>

definition queue_op :: "(release_queue \<Rightarrow> 'a \<times> release_queue) \<Rightarrow> 'a op" where
  "queue_op f = State (\<lambda>s. let (a, q) = f (sc_releases s) in (a, s\<lparr>sc_releases := q\<rparr>))"

text \<open>A release by the queue of \<^verbatim>\<open>Retry_Queues\<close>, with the calls it makes.\<close>

definition attemptHostLeaseRelease :: "world \<Rightarrow> hostLeaseCleanupRecord \<Rightarrow> manager_error option op" where
  "attemptHostLeaseRelease w record =
     do { err \<leftarrow> ask (HostRelease (hl_HostSlotKey record)) (w_release w);
          case err of
            Some e \<Rightarrow> do {
              now \<leftarrow> clock_now w;
              outcome \<leftarrow> ask SaveReleases (w_save w);
              queue_op (\<lambda>q. ((), markPendingHostLeaseReleaseAttempt outcome record now q));
              attempts \<leftarrow> gets (\<lambda>s. case map_of (rl_pending (sc_releases s)) (hl_HostSlotKey record) of
                Some current \<Rightarrow> hl_Attempts current | None \<Rightarrow> 0);
              diagnose ((observation subsystemAdmission operationAdmissionSettle (hl_HostSlotKey record)
                outcomeRetry reasonUnknown ''exact host admission lease release is still pending'')
                \<lparr>do_attempt := attempts, do_retryAt := Some (now + hostLeaseReleaseRetryDelay)\<rparr>);
              tell OnError;
              done_with (Some (from_admission e)) }
          | None \<Rightarrow> do {
              pending \<leftarrow> gets (\<lambda>s. map_of (rl_pending (sc_releases s)) (hl_HostSlotKey record) \<noteq> None);
              (if pending
               then do { outcome \<leftarrow> ask SaveReleases (w_save w);
                         queue_op (\<lambda>q. ((), resolvePendingHostLeaseRelease outcome
                           (hl_HostSlotKey record) q)) }
               else done_with ());
              done_with None } }"

definition releaseLeaseOrEnqueue :: "world \<Rightarrow> string \<Rightarrow> string \<Rightarrow> manager_error option op" where
  "releaseLeaseOrEnqueue w runnerKey hostSlotKey =
     (if hostSlotKey = [] then done_with None
      else do {
        now \<leftarrow> clock_now w;
        outcome \<leftarrow> ask SaveReleases (w_save w);
        record \<leftarrow> queue_op (beginPendingHostLeaseRelease outcome runnerKey hostSlotKey now);
        attemptHostLeaseRelease w record })"

definition retry_release :: "world \<Rightarrow> hostLeaseCleanupRecord \<Rightarrow> manager_error option op" where
  "retry_release w record =
     do { now \<leftarrow> clock_now w;
          if \<not> hostLeaseReleaseDue record now then done_with None
          else attemptHostLeaseRelease w record }"

definition retryHostLeaseReleases :: "world \<Rightarrow> manager_error option op" where
  "retryHostLeaseReleases w =
     do { pending \<leftarrow> gets (\<lambda>s. sort_key hl_HostSlotKey (map snd (rl_pending (sc_releases s))));
          errs \<leftarrow> for_each (retry_release w) pending;
          done_with (errors_Join errs) }"

text \<open>
  \<^verbatim>\<open>settleStoppedRunner\<close>: a runner is forgotten only when the release of its lease is queued
  on disk, or when it holds no lease.
\<close>

definition settleStoppedRunner :: "world \<Rightarrow> runnerRecord \<Rightarrow> manager_error option op" where
  "settleStoppedRunner w runner =
     do { current \<leftarrow> gets (runner_at (rr_key runner));
          case current of
            None \<Rightarrow> done_with None
          | Some c \<Rightarrow>
              if rr_hostSlotKey c = [] \<or> rr_hostLeaseReleased c
              then do { modify (delete_runner (rr_key runner)); done_with None }
              else do {
                now \<leftarrow> clock_now w;
                record \<leftarrow> queue_op (beginPendingHostLeaseReleaseLocked (rr_key runner)
                  (rr_hostSlotKey c) now);
                outcome \<leftarrow> ask SaveReleases (w_save w);
                q \<leftarrow> gets sc_releases;
                let (f, err) = hostLeaseCleanup_save (rl_targetKey q) outcome
                      (sort_key hl_HostSlotKey (map snd (rl_pending q))) (rl_file q);
                modify (\<lambda>s. s\<lparr>sc_releases := (sc_releases s)\<lparr>rl_file := f\<rparr>\<rparr>);
                if err \<noteq> None then do { tell OnError; done_with (Some plain_error) }
                else do {
                  modify (delete_runner (rr_key runner));
                  attemptHostLeaseRelease w record } } }"

section \<open>Registration fences\<close>

definition fence_evidence :: string where
  "fence_evidence = ''runner registration fencing is waiting on retry backoff''"

definition persistPendingRegistrationFences ::
  "world \<Rightarrow> registrationFenceRecord list \<Rightarrow> manager_error option op" where
  "persistPendingRegistrationFences w records =
     do { outcome \<leftarrow> ask SaveFences (w_save w);
          s \<leftarrow> gets id;
          let (f, err) = registrationFence_save (ts_key (sc_target s)) outcome records (sc_fenceFile s);
          if err \<noteq> None
          then do { modify (\<lambda>s. s\<lparr>sc_fenceFile := f, sc_fenceStateError := Some plain_error\<rparr>);
                    tell OnError;
                    done_with (Some plain_error) }
          else do { modify (\<lambda>s. s\<lparr>sc_fenceFile := f, sc_fenceStateError := None\<rparr>);
                    done_with None } }"

definition fence_record_for :: "runnerRecord \<Rightarrow> fence_purpose \<Rightarrow> int \<Rightarrow> runnerScaler \<Rightarrow> registrationFenceRecord" where
  "fence_record_for runner purpose now s =
     (case map_of (sc_pendingFences s) (rr_key runner) of
        Some record \<Rightarrow> record
      | None \<Rightarrow> \<lparr>rf_TargetKey = ts_key (sc_target s), rf_SlotKey = rr_key runner,
          rf_Purpose = purpose, rf_RunnerID = rr_runnerID runner,
          rf_RunnerName = rr_runnerName runner, rf_ContainerID = rr_containerID runner,
          rf_ContainerName = rr_container runner, rf_Attempts = 1,
          rf_FirstFailedAt = format_RFC3339 now, rf_LastAttemptAt = format_RFC3339 now,
          rf_NextAttemptAt = format_RFC3339 (now + registrationOperationRetryDelay 1)\<rparr>)"

text \<open>Storing a fence marks its runner and blocks capacity while it is pending.\<close>

definition put_fence :: "registrationFenceRecord \<Rightarrow> int \<Rightarrow> runnerScaler \<Rightarrow> runnerScaler" where
  "put_fence record retryAt s =
     update_runner (rf_SlotKey record)
       (\<lambda>r. r\<lparr>rr_fenceAttempts := rf_Attempts record, rr_fenceRetryAt := Some retryAt\<rparr>)
       (s\<lparr>sc_pendingFences := mput (sc_pendingFences s) (rf_SlotKey record) record,
          sc_blocking := \<lparr>cb_reason = Some deficitRetryBackoff, cb_evidence = fence_evidence\<rparr>\<rparr>)"

definition beginPendingRegistrationFence ::
  "world \<Rightarrow> runnerRecord \<Rightarrow> fence_purpose \<Rightarrow> int
    \<Rightarrow> (registrationFenceRecord \<times> manager_error option) op" where
  "beginPendingRegistrationFence w runner purpose now =
     do { record \<leftarrow> gets (fence_record_for runner purpose now);
          modify (put_fence record (deadline_of (rf_NextAttemptAt record)));
          records \<leftarrow> gets pendingRegistrationFencesLocked;
          err \<leftarrow> persistPendingRegistrationFences w records;
          done_with (record, err) }"

definition next_fence_attempt :: "int \<Rightarrow> registrationFenceRecord \<Rightarrow> registrationFenceRecord" where
  "next_fence_attempt now record =
     (let attempts = (if rf_Attempts record < maxRegistrationCleanupAttempts
            then rf_Attempts record + 1 else rf_Attempts record)
      in record\<lparr>rf_Attempts := attempts, rf_LastAttemptAt := format_RFC3339 now,
           rf_NextAttemptAt := format_RFC3339 (now + registrationOperationRetryDelay attempts)\<rparr>)"

definition preparePendingRegistrationFenceRetry ::
  "world \<Rightarrow> registrationFenceRecord \<Rightarrow> int \<Rightarrow> (manager_error + registrationFenceRecord) op" where
  "preparePendingRegistrationFenceRetry w record now =
     do { current \<leftarrow> gets (\<lambda>s. map_of (sc_pendingFences s) (rf_SlotKey record));
          case current of
            None \<Rightarrow> done_with (Inl plain_error)
          | Some c \<Rightarrow>
              (let updated = next_fence_attempt now c
               in do { modify (put_fence updated
                         (now + registrationOperationRetryDelay (rf_Attempts updated)));
                       records \<leftarrow> gets pendingRegistrationFencesLocked;
                       err \<leftarrow> persistPendingRegistrationFences w records;
                       done_with (case err of Some e \<Rightarrow> Inl e | None \<Rightarrow> Inr updated) }) }"

definition recordPendingRegistrationFenceFailure ::
  "registrationFenceRecord \<Rightarrow> manager_error \<Rightarrow> unit op" where
  "recordPendingRegistrationFenceFailure record cause =
     diagnose ((observation subsystemCleanup operationRegistrationCleanup (rf_SlotKey record)
       outcomeRetry (classifyFailure (Some cause))
       ''live runner registration fencing is still pending'')
       \<lparr>do_attempt := rf_Attempts record, do_retryAt := Some (deadline_of (rf_NextAttemptAt record))\<rparr>)"

definition resolvePendingRegistrationFence :: "world \<Rightarrow> string \<Rightarrow> string \<Rightarrow> unit op" where
  "resolvePendingRegistrationFence w slotKey reason =
     do { exists \<leftarrow> gets (\<lambda>s. map_of (sc_pendingFences s) slotKey \<noteq> None);
          modify (\<lambda>s. update_runner slotKey
            (\<lambda>r. r\<lparr>rr_fenceAttempts := 0, rr_fenceRetryAt := None\<rparr>)
            (s\<lparr>sc_pendingFences := mdel (sc_pendingFences s) slotKey\<rparr>));
          records \<leftarrow> gets pendingRegistrationFencesLocked;
          if \<not> exists then done_with ()
          else do { persistPendingRegistrationFences w records;
                    diagnose (observation subsystemCleanup operationRegistrationCleanup slotKey
                      outcomeSucceeded reasonNone
                      (''live runner registration fence resolved as '' @ reason)) } }"

section \<open>Removing a fenced runner\<close>

text \<open>
  The steps scale-down, stale retirement and fence retries share. A candidate is marked as
  draining; a failed fence or a failed removal restores it, except that a runner still running
  a job becomes busy.
\<close>

definition mark_draining :: "world \<Rightarrow> string \<Rightarrow> unit op" where
  "mark_draining w key =
     do { now \<leftarrow> clock_now w;
          modify (update_runner key (\<lambda>r. r\<lparr>rr_state := runnerDraining, rr_idleSince := None,
            rr_updatedAt := now\<rparr>));
          tell OnChange }"

definition restore_runner :: "world \<Rightarrow> runnerRecord \<Rightarrow> unit op" where
  "restore_runner w previous =
     do { draining \<leftarrow> gets (\<lambda>s. case runner_at (rr_key previous) s of
            Some r \<Rightarrow> rr_state r = runnerDraining | None \<Rightarrow> False);
          (if draining
           then do { now \<leftarrow> clock_now w;
                     modify (update_runner (rr_key previous) (\<lambda>r. r\<lparr>rr_state := rr_state previous,
                       rr_idleSince := rr_idleSince previous, rr_updatedAt := now\<rparr>)) }
           else done_with ());
          tell OnChange }"

definition undo_draining :: "world \<Rightarrow> runnerRecord \<Rightarrow> manager_error \<Rightarrow> unit op" where
  "undo_draining w previous err =
     do { current \<leftarrow> gets (runner_at (rr_key previous));
          case current of
            None \<Rightarrow> done_with ()
          | Some c \<Rightarrow> do {
              now \<leftarrow> clock_now w;
              modify (update_runner (rr_key previous) (\<lambda>r.
                (if error_Is err JobStillRunningError
                 then r\<lparr>rr_state := runnerBusy, rr_protected := False\<rparr>
                 else if rr_state r = runnerDraining
                 then r\<lparr>rr_state := rr_state previous, rr_idleSince := rr_idleSince previous\<rparr>
                 else r)\<lparr>rr_updatedAt := now\<rparr>)) } }"

definition mark_cleanup_pending :: "world \<Rightarrow> string \<Rightarrow> bool \<Rightarrow> unit op" where
  "mark_cleanup_pending w key removed =
     do { present \<leftarrow> gets (\<lambda>s. runner_at key s \<noteq> None);
          (if present
           then do { now \<leftarrow> clock_now w;
                     modify (update_runner key (\<lambda>r. r\<lparr>rr_state := runnerCleanupPending,
                       rr_registrationRemoved := removed \<or> rr_registrationRemoved r,
                       rr_updatedAt := now\<rparr>)) }
           else done_with ());
          tell OnChange }"

end
