(* ===== verification/Scaler_Workers.thy ===== *)
theory Scaler_Workers
  imports Scaler_Queues
begin

text \<open>
  The life of a worker (\<^verbatim>\<open>autoscaler/scaler.go\<close>): launching it under a host lease, fencing and
  removing it, recovering it after a restart, observing its container and its log, and
  settling it when its container has gone.
\<close>

section \<open>Launching\<close>

definition nextRunnerName :: "world \<Rightarrow> (manager_error + string) op" where
  "nextRunnerName w =
     do { suffix \<leftarrow> ask NameSuffix (w_text w);
          case suffix of
            Inl e \<Rightarrow> done_with (Inl e)
          | Inr sx \<Rightarrow> do {
              s \<leftarrow> gets id;
              let prefix = sanitizeIdentifier (w_unicode w) (cf_namePrefix (sc_cfg s)) 30;
              let target = sanitizeIdentifier (w_unicode w) (ts_key (sc_target s)) 16;
              done_with (Inr ((if prefix = [] then ''runner'' else prefix) @ ''-'' @ target
                @ ''-'' @ sx)) } }"

definition launchOutcome :: "failure_reason \<Rightarrow> operation_outcome" where
  "launchOutcome reason = (if reason = reasonTimeout then outcomeTimedOut else outcomeFailed)"

definition recordLaunchFailure :: "world \<Rightarrow> string \<Rightarrow> failure_reason \<Rightarrow> string \<Rightarrow> int \<Rightarrow> unit op" where
  "recordLaunchFailure w slotKey reason evidence startedAt =
     do { targetKey \<leftarrow> gets (\<lambda>s. ts_key (sc_target s));
          now \<leftarrow> clock_now w;
          diagnose ((observation subsystemWorkerLaunch operationWorkerLaunch
            (if slotKey = [] then targetKey else slotKey) (launchOutcome reason) reason evidence)
            \<lparr>do_duration := Some (now - startedAt), do_attempt := 1\<rparr>) }"

definition recordLaunchOutcome :: "world \<Rightarrow> string \<Rightarrow> int \<Rightarrow> unit op" where
  "recordLaunchOutcome w slotKey startedAt =
     do { now \<leftarrow> clock_now w;
          diagnose ((observation subsystemWorkerLaunch operationWorkerLaunch slotKey
            outcomeSucceeded reasonNone ''worker launched for one job'')
            \<lparr>do_duration := Some (now - startedAt), do_attempt := 1\<rparr>) }"

text \<open>A host admission failure blocks capacity and is journaled.\<close>

definition host_admission_failed ::
  "journal_operation \<Rightarrow> operation_outcome \<Rightarrow> manager_error \<Rightarrow> unit op" where
  "host_admission_failed operation outcome err =
     (let (blockingReason, reason, evidence) = hostAdmissionFailureDetails err
      in do { setBlocking blockingReason evidence;
              targetKey \<leftarrow> gets (\<lambda>s. ts_key (sc_target s));
              diagnose (observation subsystemAdmission operation targetKey outcome reason evidence) })"

definition docker_launch_failed ::
  "world \<Rightarrow> string \<Rightarrow> string \<Rightarrow> manager_error \<Rightarrow> int \<Rightarrow> unit op" where
  "docker_launch_failed w slotKey evidence err startedAt =
     do { observed \<leftarrow> clock_now w;
          setBlocking deficitDockerFailed evidence;
          recordLaunchFailure w slotKey (dockerFailureReason (Some err)) evidence startedAt }"

text \<open>The identity of a launch once its registration exists.\<close>

record launch_identity =
  la_requestedName :: string
  la_hostSlotKey :: string
  la_slotKey :: string
  la_jit :: jitRunnerConfig
  la_startedAt :: int

definition registration_of :: "launch_identity \<Rightarrow> string \<Rightarrow> string \<Rightarrow> runnerScaler \<Rightarrow> runnerRecord" where
  "registration_of la containerID containerName s =
     identity_record (la_slotKey la) (ts_key (sc_target s)) (jr_runnerName (la_jit la))
       (jr_runnerID (la_jit la)) containerID containerName"

definition abandonLaunch ::
  "world \<Rightarrow> launch_identity \<Rightarrow> string \<Rightarrow> string \<Rightarrow> manager_error \<Rightarrow> manager_error op" where
  "abandonLaunch w la containerID containerName cause =
     do { registration \<leftarrow> gets (registration_of la containerID containerName);
          removeErr \<leftarrow> removeRegistrationOrEnqueue w registration;
          containerErr \<leftarrow> (if containerID \<noteq> [] then ask (DockerStopAndRemove containerID) (w_err w)
            else done_with None);
          enabled \<leftarrow> gets sc_hostAdmission;
          releaseErr \<leftarrow> (if enabled then releaseLeaseOrEnqueue w (la_slotKey la) (la_hostSlotKey la)
            else done_with None);
          done_with (cause @ concat (List.map_filter id [removeErr, containerErr, releaseErr])) }"

definition launch_labels :: "launch_identity \<Rightarrow> runnerScaler \<Rightarrow> (string, string) gomap" where
  "launch_labels la s =
     [(''ephemeral-managed-runner-profile'', cf_profileID (sc_cfg s)),
      (''ephemeral-managed-runner-slot'', la_slotKey la),
      (''pitcrew-autoscaler'', ''true''),
      (''pitcrew-autoscaler-target-key'', ts_key (sc_target s)),
      (''pitcrew-autoscaler-runner-name'', jr_runnerName (la_jit la)),
      (''pitcrew-autoscaler-runner-id'', show_int (jr_runnerID (la_jit la))),
      (''pitcrew-worker-revision'', cf_workerRevision (sc_cfg s))]
     @ (if sc_hostAdmission s then [(''pitcrew-host-admission-slot'', la_hostSlotKey la)] else [])"

definition container_launch :: "launch_identity \<Rightarrow> string \<Rightarrow> runnerScaler \<Rightarrow> containerLaunch" where
  "container_launch la containerName s =
     \<lparr>cl_name = containerName, cl_image = cf_runnerImage (sc_cfg s),
      cl_jitConfig = jr_encoded (la_jit la), cl_labels = launch_labels la s,
      cl_resources = cf_resources (sc_cfg s), cl_runtime = cf_runtime (sc_cfg s),
      cl_volumes = cf_externalVolumes (sc_cfg s), cl_network = cf_serviceNetwork (sc_cfg s)\<rparr>"

text \<open>With host admission the container is created, the lease activated, and only then started.\<close>

definition launch_leased ::
  "world \<Rightarrow> launch_identity \<Rightarrow> string \<Rightarrow> (manager_error + string) op" where
  "launch_leased w la containerName =
     do { renewErr \<leftarrow> ask (HostRenew (la_hostSlotKey la)) (w_err w);
          case renewErr of
            Some e \<Rightarrow> do {
              host_admission_failed operationAdmissionReserve outcomeFailed e;
              err \<leftarrow> abandonLaunch w la [] containerName e;
              done_with (Inl err) }
          | None \<Rightarrow> do {
              launch \<leftarrow> gets (container_launch la containerName);
              created \<leftarrow> ask (DockerCreate launch) (w_text w);
              case created of
                Inl e \<Rightarrow> do {
                  docker_launch_failed w (la_slotKey la) ''worker container create failed'' e
                    (la_startedAt la);
                  err \<leftarrow> abandonLaunch w la [] containerName e;
                  done_with (Inl err) }
              | Inr containerID \<Rightarrow> do {
                  renewErr \<leftarrow> ask (HostRenew (la_hostSlotKey la)) (w_err w);
                  case renewErr of
                    Some e \<Rightarrow> do {
                      host_admission_failed operationAdmissionReserve outcomeFailed e;
                      err \<leftarrow> abandonLaunch w la containerID containerName e;
                      done_with (Inl err) }
                  | None \<Rightarrow> do {
                      activateErr \<leftarrow> ask (HostActivate (la_hostSlotKey la)) (w_err w);
                      case activateErr of
                        Some e \<Rightarrow> do {
                          host_admission_failed operationAdmissionSettle outcomeFailed e;
                          err \<leftarrow> abandonLaunch w la containerID containerName e;
                          done_with (Inl err) }
                      | None \<Rightarrow> do {
                          startErr \<leftarrow> ask (DockerStart containerID) (w_err w);
                          case startErr of
                            Some e \<Rightarrow> do {
                              docker_launch_failed w (la_slotKey la) ''worker container start failed'' e
                                (la_startedAt la);
                              err \<leftarrow> abandonLaunch w la containerID containerName e;
                              done_with (Inl err) }
                          | None \<Rightarrow> done_with (Inr containerID) } } } } }"

definition launch_unleased ::
  "world \<Rightarrow> launch_identity \<Rightarrow> string \<Rightarrow> (manager_error + string) op" where
  "launch_unleased w la containerName =
     do { launch \<leftarrow> gets (container_launch la containerName);
          started \<leftarrow> ask (DockerRun launch) (w_text w);
          case started of
            Inr containerID \<Rightarrow> done_with (Inr containerID)
          | Inl e \<Rightarrow> do {
              docker_launch_failed w (la_slotKey la) ''worker container launch failed'' e
                (la_startedAt la);
              err \<leftarrow> abandonLaunch w la [] containerName e;
              done_with (Inl err) } }"

definition launched_runner :: "launch_identity \<Rightarrow> string \<Rightarrow> string \<Rightarrow> int \<Rightarrow> runnerScaler \<Rightarrow> runnerRecord" where
  "launched_runner la containerID containerName now s =
     (registration_of la containerID containerName s)
       \<lparr>rr_repository := ts_repository (sc_target s), rr_containerRunning := True,
        rr_containerConfirmedAt := now, rr_revision := cf_workerRevision (sc_cfg s),
        rr_startedAt := now, rr_updatedAt := now, rr_hostSlotKey := la_hostSlotKey la,
        rr_hostLeaseAdopted := sc_hostAdmission s\<rparr>"

text \<open>A worker whose container runs joins the runners, unless a shutdown began meanwhile.\<close>

definition finish_launch ::
  "world \<Rightarrow> launch_identity \<Rightarrow> string \<Rightarrow> string \<Rightarrow> manager_error option op" where
  "finish_launch w la containerID containerName =
     do { now \<leftarrow> clock_now w;
          runner \<leftarrow> gets (launched_runner la containerID containerName now);
          shuttingDown \<leftarrow> poll_shutdown w;
          enabled \<leftarrow> gets sc_hostAdmission;
          if shuttingDown
          then do {
            removeErr \<leftarrow> removeRegistrationOrEnqueue w runner;
            containerErr \<leftarrow> ask (DockerStopAndRemove containerID) (w_err w);
            releaseErr \<leftarrow> (if enabled
              then releaseLeaseOrEnqueue w (la_slotKey la) (la_hostSlotKey la) else done_with None);
            done_with (errors_Join [Some plain_error, removeErr, containerErr, releaseErr]) }
          else do {
            modify (insert_runner runner);
            err \<leftarrow> clearLaunchIntent w;
            (if err \<noteq> None then tell OnError else done_with ());
            recordLaunchOutcome w (la_slotKey la) (la_startedAt la);
            tell (StartMonitor containerID now);
            tell OnChange;
            done_with None } }"

text \<open>From a bound registration to a running container.\<close>

definition launch_container :: "world \<Rightarrow> launch_identity \<Rightarrow> manager_error option op" where
  "launch_container w la =
     (let containerName = sanitizeIdentifier (w_unicode w) (jr_runnerName (la_jit la)) 63
      in if containerName = []
         then do {
           registration \<leftarrow> gets (registration_of la [] []);
           removeErr \<leftarrow> removeRegistrationOrEnqueue w registration;
           enabled \<leftarrow> gets sc_hostAdmission;
           releaseErr \<leftarrow> (if enabled
             then releaseLeaseOrEnqueue w (la_slotKey la) (la_hostSlotKey la) else done_with None);
           done_with (errors_Join [Some plain_error, removeErr, releaseErr]) }
         else do {
           enabled \<leftarrow> gets sc_hostAdmission;
           container \<leftarrow> (if enabled then launch_leased w la containerName
             else launch_unleased w la containerName);
           case container of
             Inl err \<Rightarrow> done_with (Some err)
           | Inr containerID \<Rightarrow> finish_launch w la containerID containerName })"

definition launch_registered ::
  "world \<Rightarrow> string \<Rightarrow> string \<Rightarrow> int \<Rightarrow> jitRunnerConfig \<Rightarrow> manager_error option op" where
  "launch_registered w requestedName hostSlotKey startedAt jit =
     do { targetKey \<leftarrow> gets (\<lambda>s. ts_key (sc_target s));
          let la = \<lparr>la_requestedName = requestedName, la_hostSlotKey = hostSlotKey,
                la_slotKey = targetKey @ ''-'' @ show_int (jr_runnerID jit), la_jit = jit,
                la_startedAt = startedAt\<rparr>;
          enabled \<leftarrow> gets sc_hostAdmission;
          bound \<leftarrow> (if enabled then ask (HostBind hostSlotKey (jr_runnerName jit)) (w_err w)
            else done_with None);
          case bound of
            Some e \<Rightarrow> do {
              registration \<leftarrow> gets (registration_of la [] []);
              removeErr \<leftarrow> removeRegistrationOrEnqueue w registration;
              releaseErr \<leftarrow> releaseLeaseOrEnqueue w (la_slotKey la) hostSlotKey;
              setBlocking deficitHostAdmissionDegraded
                ''host admission lease could not bind the exact runner registration'';
              done_with (errors_Join [Some e, removeErr, releaseErr]) }
          | None \<Rightarrow> launch_container w la }"

definition release_if_leased :: "world \<Rightarrow> string \<Rightarrow> string \<Rightarrow> unit op" where
  "release_if_leased w requestedName hostSlotKey =
     do { enabled \<leftarrow> gets sc_hostAdmission;
          if enabled
          then do { releaseLeaseOrEnqueue w requestedName hostSlotKey; done_with () }
          else done_with () }"

definition start_admitted :: "world \<Rightarrow> string \<Rightarrow> string \<Rightarrow> int \<Rightarrow> manager_error option op" where
  "start_admitted w requestedName hostSlotKey startedAt =
     do { now \<leftarrow> clock_now w;
          intentErr \<leftarrow> beginLaunchIntent w requestedName now;
          case intentErr of
            Some e \<Rightarrow> do { release_if_leased w requestedName hostSlotKey; done_with (Some e) }
          | None \<Rightarrow> do {
              scaleSetID \<leftarrow> gets sc_scaleSetID;
              jit \<leftarrow> ask (GenerateJIT scaleSetID requestedName) (w_jit w);
              case jit of
                Inl e \<Rightarrow> do {
                  release_if_leased w requestedName hostSlotKey;
                  setBlocking deficitJITFailed
                    ''just-in-time runner configuration could not be generated'';
                  recordLaunchFailure w [] (classifyFailure (Some e))
                    ''just-in-time runner configuration could not be generated'' startedAt;
                  done_with (Some e) }
              | Inr j \<Rightarrow> do {
                  updateErr \<leftarrow> updateLaunchIntentRunnerID w (jr_runnerID j);
                  case updateErr of
                    Some e \<Rightarrow> do { release_if_leased w requestedName hostSlotKey; done_with (Some e) }
                  | None \<Rightarrow> launch_registered w requestedName hostSlotKey startedAt j } } }"

definition startRunner :: "world \<Rightarrow> manager_error option op" where
  "startRunner w =
     do { name \<leftarrow> nextRunnerName w;
          case name of
            Inl e \<Rightarrow> done_with (Some e)
          | Inr requestedName \<Rightarrow> do {
              startedAt \<leftarrow> clock_now w;
              enabled \<leftarrow> gets sc_hostAdmission;
              if enabled
              then do {
                acquired \<leftarrow> ask (HostAcquire requestedName) (w_err w);
                case acquired of
                  Some e \<Rightarrow> (let (blockingReason, reason, evidence) = hostAdmissionFailureDetails e
                    in do {
                      setBlocking blockingReason evidence;
                      recordLaunchFailure w [] reason evidence startedAt;
                      targetKey \<leftarrow> gets (\<lambda>s. ts_key (sc_target s));
                      diagnose (observation subsystemAdmission operationAdmissionReserve targetKey
                        outcomeBlocked reason evidence);
                      done_with (Some e) })
                | None \<Rightarrow> start_admitted w requestedName requestedName startedAt }
              else start_admitted w requestedName [] startedAt } }"

section \<open>Fences, stale workers and pending cleanup\<close>

text \<open>
  What follows a successful removal: the fence is resolved, the container stopped, and the
  runner settled or left for cleanup. The result tells whether the container was stopped.
\<close>

definition stop_removed ::
  "world \<Rightarrow> runnerRecord \<Rightarrow> bool \<Rightarrow> (bool \<times> manager_error option) op" where
  "stop_removed w runner removed =
     do { resolvePendingRegistrationFence w (rr_key runner) ''removed'';
          err \<leftarrow> ask (DockerStopAndRemove (rr_containerID runner)) (w_err w);
          case err of
            Some e \<Rightarrow> do { mark_cleanup_pending w (rr_key runner) removed; done_with (False, Some e) }
          | None \<Rightarrow> do { err \<leftarrow> settleStoppedRunner w runner; done_with (True, err) } }"

definition mark_registration_removed :: "world \<Rightarrow> string \<Rightarrow> unit op" where
  "mark_registration_removed w key =
     do { present \<leftarrow> gets (\<lambda>s. runner_at key s \<noteq> None);
          if present
          then do { now \<leftarrow> clock_now w;
                    modify (update_runner key (\<lambda>r. r\<lparr>rr_registrationRemoved := True,
                      rr_updatedAt := now\<rparr>)) }
          else done_with () }"

definition fenced_retry ::
  "world \<Rightarrow> registrationFenceRecord \<Rightarrow> runnerRecord \<Rightarrow> manager_error option op" where
  "fenced_retry w record runner =
     do { mark_draining w (rr_key runner);
          now \<leftarrow> clock_now w;
          prepared \<leftarrow> preparePendingRegistrationFenceRetry w record now;
          case prepared of
            Inl e \<Rightarrow> do { restore_runner w runner; done_with (Some e) }
          | Inr r \<Rightarrow> do {
              err \<leftarrow> removeRunner w (rr_runnerID runner);
              case err of
                Some e \<Rightarrow> do {
                  undo_draining w runner e;
                  if error_Is e JobStillRunningError
                  then do { resolvePendingRegistrationFence w (rf_SlotKey r) ''job-still-running'';
                            tell OnChange; done_with None }
                  else do { recordPendingRegistrationFenceFailure r e;
                            tell OnChange; done_with (Some e) } }
              | None \<Rightarrow> do {
                  mark_registration_removed w (rr_key runner);
                  (stopped, err) \<leftarrow> stop_removed w runner False;
                  (if stopped \<and> err = None then tell OnChange else done_with ());
                  done_with err } } }"

definition orphaned_fence :: "world \<Rightarrow> registrationFenceRecord \<Rightarrow> manager_error option op" where
  "orphaned_fence w record =
     do { now \<leftarrow> clock_now w;
          (cleanup, err) \<leftarrow> beginPendingRegistrationCleanup w
            (identity_record (rf_SlotKey record) (rf_TargetKey record) (rf_RunnerName record)
              (rf_RunnerID record) (rf_ContainerID record) (rf_ContainerName record)) None now;
          case err of
            Some e \<Rightarrow> done_with (Some e)
          | None \<Rightarrow> do {
              resolvePendingRegistrationFence w (rf_SlotKey record) ''container-absent'';
              attemptPendingRegistrationCleanup w cleanup } }"

definition retryPendingRegistrationFence ::
  "world \<Rightarrow> registrationFenceRecord \<Rightarrow> manager_error option op" where
  "retryPendingRegistrationFence w record =
     do { s \<leftarrow> gets id;
          case runner_at (rf_SlotKey record) s of
            None \<Rightarrow> orphaned_fence w record
          | Some runner \<Rightarrow>
              if rr_runnerID runner \<noteq> rf_RunnerID record then orphaned_fence w record
              else if rf_Purpose record = registrationFenceScaleDown
                \<and> capacityCountLocked s \<le> sc_targetSlots s
              then do { resolvePendingRegistrationFence w (rf_SlotKey record) ''scale-down-cancelled'';
                        done_with None }
              else if rf_Purpose record = registrationFenceStale \<and> \<not> rr_stale runner
              then do { resolvePendingRegistrationFence w (rf_SlotKey record) ''stale-fence-cancelled'';
                        done_with None }
              else if rr_state runner = runnerBusy \<or> rr_registrationRemoved runner
              then do { resolvePendingRegistrationFence w (rf_SlotKey record) ''live-runner-preserved'';
                        done_with None }
              else fenced_retry w record runner }"

definition retry_fence_if_due :: "world \<Rightarrow> registrationFenceRecord \<Rightarrow> manager_error option op" where
  "retry_fence_if_due w record =
     do { now \<leftarrow> clock_now w;
          if \<not> registrationFenceDue record now then done_with None
          else retryPendingRegistrationFence w record }"

definition retryPendingRegistrationFences :: "world \<Rightarrow> manager_error option op" where
  "retryPendingRegistrationFences w =
     do { pending \<leftarrow> gets pendingRegistrationFencesLocked;
          errs \<leftarrow> for_each (retry_fence_if_due w) pending;
          done_with (errors_Join errs) }"

definition cleanup_pending_runner :: "world \<Rightarrow> runnerRecord \<Rightarrow> manager_error option op" where
  "cleanup_pending_runner w runner =
     do { err \<leftarrow> ask (DockerStopAndRemove (rr_containerID runner)) (w_err w);
          case err of
            Some e \<Rightarrow> done_with (Some e)
          | None \<Rightarrow> do { err \<leftarrow> settleStoppedRunner w runner; tell OnChange; done_with err } }"

definition retryCleanupPending :: "world \<Rightarrow> manager_error option op" where
  "retryCleanupPending w =
     do { pending \<leftarrow> gets (\<lambda>s. sort_key rr_key
            (filter (\<lambda>r. rr_state r = runnerCleanupPending) (sc_runners s)));
          errs \<leftarrow> for_each (cleanup_pending_runner w) pending;
          done_with (errors_Join errs) }"

definition stale_candidate :: "runnerRecord \<Rightarrow> bool" where
  "stale_candidate r \<longleftrightarrow>
     rr_stale r \<and> \<not> rr_registrationRemoved r
     \<and> rr_state r \<notin> {runnerBusy, runnerDraining, runnerCleanupPending}"

definition retire_stale :: "world \<Rightarrow> runnerRecord \<Rightarrow> manager_error option op" where
  "retire_stale w candidate =
     do { current \<leftarrow> gets (runner_at (rr_key candidate));
          case current of
            None \<Rightarrow> done_with None
          | Some c \<Rightarrow>
              if \<not> stale_candidate c then done_with None
              else do {
                mark_draining w (rr_key candidate);
                now \<leftarrow> clock_now w;
                (fence, err) \<leftarrow> beginPendingRegistrationFence w candidate registrationFenceStale now;
                case err of
                  Some e \<Rightarrow> do { restore_runner w c; done_with (Some e) }
                | None \<Rightarrow> do {
                    err \<leftarrow> removeRunner w (rr_runnerID c);
                    case err of
                      Some e \<Rightarrow> do {
                        undo_draining w c e;
                        if error_Is e JobStillRunningError
                        then do { resolvePendingRegistrationFence w (rr_key candidate) ''job-still-running'';
                                  tell OnChange; done_with None }
                        else do { recordPendingRegistrationFenceFailure fence e;
                                  tell OnChange; done_with (Some e) } }
                    | None \<Rightarrow> do {
                        (stopped, err) \<leftarrow> stop_removed w c True;
                        (if stopped then tell OnChange else done_with ());
                        done_with err } } } }"

definition retireStaleRunners :: "world \<Rightarrow> manager_error option op" where
  "retireStaleRunners w =
     do { now \<leftarrow> clock_now w;
          candidates \<leftarrow> gets (\<lambda>s. sort_key rr_key (filter (\<lambda>r. stale_candidate r
            \<and> \<not> (case rr_fenceRetryAt r of Some retryAt \<Rightarrow> now < retryAt | None \<Rightarrow> False))
            (sc_runners s)));
          errs \<leftarrow> for_each (retire_stale w) candidates;
          done_with (errors_Join errs) }"

section \<open>Container exits\<close>

fun classification_text :: "exit_classification \<Rightarrow> string" where
  "classification_text ExitUnknown = ''unknown''"
| "classification_text ExitOomKilled = ''oom-killed''"
| "classification_text ExitSigkill = ''sigkill''"
| "classification_text ExitSignal = ''signal''"
| "classification_text ExitClean = ''clean''"
| "classification_text ExitError = ''error''"
| "classification_text ExitLaunchFailure = ''launch-failure''"

definition captureExitEvidence :: "world \<Rightarrow> string \<Rightarrow> int option \<Rightarrow> lastExitDiagnostic op" where
  "captureExitEvidence w containerID exitCode =
     do { observedAt \<leftarrow> clock_now w;
          inspected \<leftarrow> ask (DockerInspectExit containerID) (w_exit w);
          done_with (case inspected of
            Some state \<Rightarrow> classifyContainerExit state True observedAt
          | None \<Rightarrow> classifyContainerExit
              \<lparr>ce_exitCode = (case exitCode of None \<Rightarrow> -1 | Some code \<Rightarrow> code), ce_oomKilled = None\<rparr>
              False observedAt) }"

definition workerExitRetryEvidence :: string where
  "workerExitRetryEvidence = ''worker replacement is waiting after an unexpected container exit''"

definition scheduleExitRetry :: "world \<Rightarrow> unit op" where
  "scheduleExitRetry w =
     do { now \<leftarrow> clock_now w;
          s \<leftarrow> gets id;
          let attempt = add64 (sc_exitFailures s) 1;
          let retryAt = now + workerExitRetryDelay (cf_profileID (sc_cfg s)) (ts_key (sc_target s)) attempt;
          modify (\<lambda>s. s\<lparr>sc_exitFailures := attempt, sc_exitRetryAt := retryAt,
            sc_blocking := \<lparr>cb_reason = Some deficitRetryBackoff,
              cb_evidence = workerExitRetryEvidence\<rparr>\<rparr>);
          diagnose ((observation subsystemWorkerExit operationWorkerExit (ts_key (sc_target s))
            outcomeRetry reasonRetryBackoff workerExitRetryEvidence)
            \<lparr>do_attempt := attempt, do_retryAt := Some retryAt\<rparr>);
          tell OnChange }"

definition workerExitOutcome :: "bool \<Rightarrow> exit_classification \<Rightarrow> operation_outcome" where
  "workerExitOutcome unexpected classification =
     (if unexpected \<and> classification \<noteq> ExitClean then outcomeFailed else outcomeSucceeded)"

definition workerExitReason :: "bool \<Rightarrow> exit_classification \<Rightarrow> failure_reason" where
  "workerExitReason unexpected classification =
     (if unexpected \<and> classification \<noteq> ExitClean then reasonUnknown else reasonNone)"

text \<open>
  The settlement of an exited runner: its lease is released, the scale-down deadline reset, the
  exit journaled, and the registration removed. The result tells whether capacity is missing.
\<close>

definition settle_exit ::
  "world \<Rightarrow> runnerRecord \<Rightarrow> lastExitDiagnostic \<Rightarrow> bool \<Rightarrow> registrationCleanupRecord option \<Rightarrow> bool op" where
  "settle_exit w exited diagnostic unexpected registration =
     do { settleErr \<leftarrow> settleStoppedRunner w exited;
          (if settleErr \<noteq> None then tell OnError else done_with ());
          shuttingDown \<leftarrow> poll_shutdown w;
          needsReconcile \<leftarrow> gets (\<lambda>s. \<not> shuttingDown \<and> capacityCountLocked s < sc_targetSlots s);
          modify (\<lambda>s. if capacityCountLocked s \<le> sc_targetSlots s then s\<lparr>sc_scaleDownAt := None\<rparr> else s);
          tell OnChange;
          diagnose (observation subsystemWorkerExit operationWorkerExit (rr_key exited)
            (workerExitOutcome unexpected (le_Classification diagnostic))
            (workerExitReason unexpected (le_Classification diagnostic))
            (''worker container exited with classification ''
              @ classification_text (le_Classification diagnostic)));
          (if unexpected \<and> le_Classification diagnostic \<noteq> ExitClean then tell OnError else done_with ());
          (case registration of
             None \<Rightarrow> done_with ()
           | Some record \<Rightarrow> do { attemptPendingRegistrationCleanup w record; done_with () });
          done_with needsReconcile }"

text \<open>\<^verbatim>\<open>handleContainerExitLocked\<close> up to its reconciliation.\<close>

definition exit_locked :: "world \<Rightarrow> string \<Rightarrow> int option \<Rightarrow> bool op" where
  "exit_locked w containerID exitCode =
     do { diagnostic \<leftarrow> captureExitEvidence w containerID exitCode;
          found \<leftarrow> findRunnerByContainerLocked w containerID;
          case found of
            None \<Rightarrow> done_with False
          | Some exited \<Rightarrow> do {
              shuttingDown \<leftarrow> poll_shutdown w;
              let unexpected = (rr_state exited \<noteq> runnerDraining \<and> \<not> shuttingDown);
              (if \<not> unexpected \<and> le_Classification diagnostic = ExitClean \<and> rr_completedAt exited \<noteq> None
               then modify (\<lambda>s. s\<lparr>sc_exitFailures := 0, sc_exitRetryAt := zeroTime\<rparr>)
               else done_with ());
              (if unexpected \<and> le_Classification diagnostic \<noteq> ExitClean
               then scheduleExitRetry w else done_with ());
              if \<not> shuttingDown \<and> \<not> rr_registrationRemoved exited
              then do {
                now \<leftarrow> clock_now w;
                (record, err) \<leftarrow> beginPendingRegistrationCleanup w exited (Some diagnostic) now;
                if err \<noteq> None
                then do {
                  present \<leftarrow> gets (\<lambda>s. runner_at (rr_key exited) s \<noteq> None);
                  (if present
                   then do { later \<leftarrow> clock_now w;
                             modify (update_runner (rr_key exited) (\<lambda>r. r\<lparr>rr_containerRunning := False,
                               rr_state := runnerCleanupPending, rr_updatedAt := later\<rparr>)) }
                   else done_with ());
                  tell OnError;
                  tell OnChange;
                  done_with False }
                else settle_exit w exited diagnostic unexpected (Some record) }
              else settle_exit w exited diagnostic unexpected None } }"

definition containerLivenessReconcileGrace :: int where
  "containerLivenessReconcileGrace = 3 * time_Minute"

definition reconcile_liveness :: "world \<Rightarrow> runnerRecord \<Rightarrow> manager_error option op" where
  "reconcile_liveness w candidate =
     do { answer \<leftarrow> ask (DockerIsRunning (rr_containerID candidate)) (w_running w);
          case answer of
            Inl e \<Rightarrow> done_with (Some e)
          | Inr True \<Rightarrow> do {
              same \<leftarrow> gets (\<lambda>s. case runner_at (rr_key candidate) s of
                Some c \<Rightarrow> rr_containerID c = rr_containerID candidate | None \<Rightarrow> False);
              (if same
               then do { now \<leftarrow> clock_now w;
                         modify (update_runner (rr_key candidate) (\<lambda>r. r\<lparr>rr_containerRunning := True,
                           rr_containerConfirmedAt := now\<rparr>)) }
               else done_with ());
              done_with None }
          | Inr False \<Rightarrow> do { exit_locked w (rr_containerID candidate) None; done_with None } }"

definition reconcileContainerLiveness :: "world \<Rightarrow> manager_error option op" where
  "reconcileContainerLiveness w =
     do { now \<leftarrow> clock_now w;
          candidates \<leftarrow> gets (\<lambda>s. sort_key rr_key (filter (\<lambda>r. rr_containerID r \<noteq> []
            \<and> \<not> now - rr_containerConfirmedAt r < containerLivenessReconcileGrace) (sc_runners s)));
          errs \<leftarrow> for_each (reconcile_liveness w) candidates;
          done_with (errors_Join errs) }"

definition confirmContainerRunning :: "world \<Rightarrow> string \<Rightarrow> bool op" where
  "confirmContainerRunning w containerID =
     do { found \<leftarrow> findRunnerByContainerLocked w containerID;
          case found of
            None \<Rightarrow> done_with False
          | Some r \<Rightarrow> do { now \<leftarrow> clock_now w;
              modify (update_runner (rr_key r) (\<lambda>r. r\<lparr>rr_containerRunning := True,
                rr_containerConfirmedAt := now\<rparr>));
              done_with True } }"

section \<open>Log signals\<close>

definition lifecycleStateFromLog :: "unicode_tables \<Rightarrow> string \<Rightarrow> runnerLifecycleState option" where
  "lifecycleStateFromLog u line =
     (let lower = strings_ToLower u line
      in if strings_Contains lower ''listening for jobs'' then Some runnerIdle
         else if strings_Contains lower ''running job'' \<or> strings_Contains lower ''job started''
         then Some runnerBusy
         else if strings_Contains lower ''job completed'' \<or> strings_Contains lower ''completed job''
           \<or> strings_Contains lower ''job '' \<and> strings_Contains lower '' completed''
         then Some runnerDraining
         else None)"

definition log_transition :: "runnerLifecycleState \<Rightarrow> int \<Rightarrow> runnerRecord \<Rightarrow> runnerRecord" where
  "log_transition nextState observedAt r =
     r\<lparr>rr_state := nextState, rr_protected := False, rr_updatedAt := observedAt,
       rr_idleSince := (if nextState = runnerIdle then Some observedAt else None),
       rr_jobStartedAt := (if nextState = runnerBusy \<and> rr_jobStartedAt r = None
         then Some observedAt else rr_jobStartedAt r),
       rr_completedAt := (if nextState = runnerDraining \<and> rr_completedAt r = None
         then Some observedAt else rr_completedAt r)\<rparr>"

definition applyLogState :: "world \<Rightarrow> string \<Rightarrow> runnerLifecycleState \<Rightarrow> int \<Rightarrow> unit op" where
  "applyLogState w containerID nextState observedAt =
     do { gate \<leftarrow> ask AcquireOperation (w_err w);
          if gate \<noteq> None then done_with ()
          else do {
            found \<leftarrow> findRunnerByContainerLocked w containerID;
            case found of
              None \<Rightarrow> done_with ()
            | Some r \<Rightarrow>
                if rr_registrationRemoved r \<or> nextState = runnerIdle \<and> rr_state r = runnerBusy
                then done_with ()
                else do { modify (update_runner (rr_key r) (log_transition nextState observedAt));
                          tell OnChange } } }"

definition handleLogSignal :: "world \<Rightarrow> string \<Rightarrow> string \<Rightarrow> unit op" where
  "handleLogSignal w containerID line =
     (case lifecycleStateFromLog (w_unicode w) line of
        None \<Rightarrow> done_with ()
      | Some nextState \<Rightarrow> do { now \<leftarrow> clock_now w; applyLogState w containerID nextState now })"

section \<open>Recovery after a restart\<close>

definition discardUnstartedContainer ::
  "world \<Rightarrow> recoveredContainer \<Rightarrow> string \<Rightarrow> manager_error \<Rightarrow> manager_error option op" where
  "discardUnstartedContainer w container hostSlotKey cause =
     do { registrationErr \<leftarrow> removeRegistrationOrEnqueue w
            (identity_record (re_slotKey container) (re_targetKey container)
              (re_runnerName container) (re_runnerID container) (re_containerID container)
              (re_name container));
          removeErr \<leftarrow> ask (DockerStopAndRemove (re_containerID container)) (w_err w);
          releaseErr \<leftarrow> releaseLeaseOrEnqueue w (re_slotKey container) hostSlotKey;
          done_with (case errors_Join [registrationErr, removeErr, releaseErr] of
            None \<Rightarrow> None
          | Some cleanupErr \<Rightarrow> Some (cause @ cleanupErr)) }"

definition recovered_runner :: "recoveredContainer \<Rightarrow> bool \<Rightarrow> int \<Rightarrow> int \<Rightarrow> int \<Rightarrow> runnerScaler \<Rightarrow> runnerRecord" where
  "recovered_runner container hostLeaseAdopted startedAt confirmedAt updatedAt s =
     (identity_record (re_slotKey container) (re_targetKey container) (re_runnerName container)
        (re_runnerID container) (re_containerID container) (re_name container))
       \<lparr>rr_repository := ts_repository (sc_target s), rr_containerRunning := True,
        rr_containerConfirmedAt := confirmedAt, rr_revision := re_revision container,
        rr_stale := (re_revision container \<noteq> cf_workerRevision (sc_cfg s)
          \<and> \<not> (re_revision container = [] \<and> cf_assumeUnversioned (sc_cfg s))),
        rr_startedAt := startedAt, rr_updatedAt := updatedAt, rr_recovered := True,
        rr_protected := True, rr_hostSlotKey := re_hostSlotKey container,
        rr_hostLeaseAdopted := hostLeaseAdopted\<rparr>"

text \<open>The state the last telling line of a log leaves the runner in.\<close>

definition latest_log_state :: "unicode_tables \<Rightarrow> string list \<Rightarrow> runnerLifecycleState option" where
  "latest_log_state u logLines =
     fold (\<lambda>line latest. case lifecycleStateFromLog u line of Some st \<Rightarrow> Some st | None \<Rightarrow> latest)
       logLines None"

definition replay_logs :: "world \<Rightarrow> recoveredContainer \<Rightarrow> int \<Rightarrow> int \<Rightarrow> int op" where
  "replay_logs w container startedAt snapshotAt =
     do { answer \<leftarrow> ask (DockerReadLogs (re_containerID container)) (w_logs w);
          case answer of
            Inl e \<Rightarrow> do { tell OnError; done_with startedAt }
          | Inr logLines \<Rightarrow> do {
              (case latest_log_state (w_unicode w) logLines of
                 None \<Rightarrow> done_with ()
               | Some latest \<Rightarrow> applyLogState w (re_containerID container) latest snapshotAt);
              done_with snapshotAt } }"

definition insertRecoveredRunner ::
  "world \<Rightarrow> recoveredContainer \<Rightarrow> bool \<Rightarrow> bool \<Rightarrow> manager_error option op" where
  "insertRecoveredRunner w container replayLogs hostLeaseAdopted =
     do { startedAt \<leftarrow> (if re_createdAt container = zeroTime then clock_now w
            else done_with (re_createdAt container));
          confirmedAt \<leftarrow> clock_now w;
          updatedAt \<leftarrow> clock_now w;
          runner \<leftarrow> gets (recovered_runner container hostLeaseAdopted startedAt confirmedAt updatedAt);
          s \<leftarrow> gets id;
          if runner_at (rr_key runner) s \<noteq> None then done_with (Some plain_error)
          else
            let fence = (case map_of (sc_pendingFences s) (rr_key runner) of
                  Some record \<Rightarrow> if rf_NextAttemptAt record \<noteq> NoStamp then Some record else None
                | None \<Rightarrow> None)
            in if (case fence of Some record \<Rightarrow> parse_RFC3339 (rf_NextAttemptAt record) = None
                  | None \<Rightarrow> False)
               then done_with (Some plain_error)
               else do {
                 modify (insert_runner (case fence of
                   None \<Rightarrow> runner
                 | Some record \<Rightarrow> runner\<lparr>rr_fenceRetryAt := Some (deadline_of (rf_NextAttemptAt record)),
                     rr_fenceAttempts := rf_Attempts record\<rparr>));
                 snapshotAt \<leftarrow> clock_now w;
                 monitorSince \<leftarrow> (if replayLogs then replay_logs w container startedAt snapshotAt
                   else done_with snapshotAt);
                 tell (StartMonitor (re_containerID container) monitorSince);
                 tell OnChange;
                 done_with None } }"

definition start_recovered :: "world \<Rightarrow> recoveredContainer \<Rightarrow> manager_error option op" where
  "start_recovered w container =
     do { startErr \<leftarrow> ask (DockerStart (re_containerID container)) (w_err w);
          case startErr of
            Some e \<Rightarrow> discardUnstartedContainer w container (re_hostSlotKey container) e
          | None \<Rightarrow> do { enabled \<leftarrow> gets sc_hostAdmission;
                         insertRecoveredRunner w container False enabled } }"

definition recoverCreated :: "world \<Rightarrow> recoveredContainer \<Rightarrow> manager_error option op" where
  "recoverCreated w container =
     (let slot = re_hostSlotKey container
      in do {
        enabled \<leftarrow> gets sc_hostAdmission;
        if \<not> enabled then start_recovered w container
        else if slot = [] then discardUnstartedContainer w container [] plain_error
        else do {
          bound \<leftarrow> ask (HostBind slot (re_runnerName container)) (w_err w);
          case bound of
            Some e \<Rightarrow> discardUnstartedContainer w container slot e
          | None \<Rightarrow> do {
              adopted \<leftarrow> ask (HostAdopt slot) (w_err w);
              case adopted of
                Some e \<Rightarrow> discardUnstartedContainer w container slot e
              | None \<Rightarrow> do {
                  confirmed \<leftarrow> ask (HostBind slot (re_runnerName container)) (w_err w);
                  case confirmed of
                    Some e \<Rightarrow> discardUnstartedContainer w container slot e
                  | None \<Rightarrow> start_recovered w container } } } })"

text \<open>Adopting the lease of a running worker; a failure is reported and leaves it to be retried.\<close>

definition adopt_running :: "world \<Rightarrow> string \<Rightarrow> string \<Rightarrow> bool op" where
  "adopt_running w slot runnerName =
     do { bound \<leftarrow> ask (HostBind slot runnerName) (w_err w);
          case bound of
            Some e \<Rightarrow>
              if error_Is e (Admission ErrLeaseNotFound)
              then do {
                adopted \<leftarrow> ask (HostAdopt slot) (w_err w);
                if adopted \<noteq> None then do { tell OnError; done_with False }
                else do {
                  rebound \<leftarrow> ask (HostBind slot runnerName) (w_err w);
                  if rebound \<noteq> None then do { tell OnError; done_with False }
                  else done_with True } }
              else do { tell OnError; done_with False }
          | None \<Rightarrow> do {
              adopted \<leftarrow> ask (HostAdopt slot) (w_err w);
              if adopted \<noteq> None then do { tell OnError; done_with False }
              else done_with True } }"

definition recoverRunning :: "world \<Rightarrow> recoveredContainer \<Rightarrow> manager_error option op" where
  "recoverRunning w container =
     do { enabled \<leftarrow> gets sc_hostAdmission;
          if \<not> enabled then insertRecoveredRunner w container True False
          else
            let named = (if re_hostSlotKey container = []
                  then container\<lparr>re_hostSlotKey := re_runnerName container\<rparr> else container)
            in do {
              adopted \<leftarrow> adopt_running w (re_hostSlotKey named) (re_runnerName named);
              insertRecoveredRunner w named True adopted } }"

definition scaler_recover :: "world \<Rightarrow> recoveredContainer \<Rightarrow> manager_error option op" where
  "scaler_recover w container =
     do { targetKey \<leftarrow> gets (\<lambda>s. ts_key (sc_target s));
          if re_targetKey container \<noteq> targetKey then done_with (Some plain_error)
          else if re_unstarted container then recoverCreated w container
          else recoverRunning w container }"

section \<open>Adopting leases of recovered workers\<close>

definition awaiting_adoption :: "runnerRecord \<Rightarrow> bool" where
  "awaiting_adoption r \<longleftrightarrow> \<not> rr_hostLeaseReleased r \<and> \<not> rr_hostLeaseAdopted r"

definition confirm_adoption :: "world \<Rightarrow> runnerRecord \<Rightarrow> manager_error option op" where
  "confirm_adoption w candidate =
     do { same \<leftarrow> gets (\<lambda>s. case runner_at (rr_key candidate) s of
            Some r \<Rightarrow> rr_hostSlotKey r = rr_hostSlotKey candidate \<and> \<not> rr_hostLeaseReleased r
          | None \<Rightarrow> False);
          (if same
           then do { now \<leftarrow> clock_now w;
                     modify (update_runner (rr_key candidate) (\<lambda>r. r\<lparr>rr_hostLeaseAdopted := True,
                       rr_updatedAt := now\<rparr>)) }
           else done_with ());
          tell OnChange;
          done_with None }"

definition retry_adoption :: "world \<Rightarrow> runnerRecord \<Rightarrow> manager_error option op" where
  "retry_adoption w candidate =
     (let slot = rr_hostSlotKey candidate
      in if slot = [] then done_with (Some [Admission ErrInvalidIdentity])
         else do {
           bound \<leftarrow> ask (HostBind slot (rr_runnerName candidate)) (w_err w);
           let missingLease = (case bound of Some e \<Rightarrow> error_Is e (Admission ErrLeaseNotFound) | None \<Rightarrow> False);
           if bound \<noteq> None \<and> \<not> missingLease then done_with bound
           else do {
             attempted \<leftarrow> gets (\<lambda>s. case runner_at (rr_key candidate) s of
               Some r \<Rightarrow> rr_hostSlotKey r = slot \<and> awaiting_adoption r | None \<Rightarrow> False);
             if \<not> attempted then done_with None
             else do {
               adopted \<leftarrow> ask (HostAdopt slot) (w_err w);
               if adopted \<noteq> None then done_with adopted
               else do {
                 rebound \<leftarrow> (if missingLease
                   then ask (HostBind slot (rr_runnerName candidate)) (w_err w) else done_with None);
                 if rebound \<noteq> None then done_with rebound
                 else confirm_adoption w candidate } } } })"

definition retryPendingHostLeaseAdoptions :: "world \<Rightarrow> (bool \<times> manager_error option) op" where
  "retryPendingHostLeaseAdoptions w =
     do { enabled \<leftarrow> gets sc_hostAdmission;
          if \<not> enabled then done_with (True, None)
          else do {
            pending \<leftarrow> gets (\<lambda>s. sort_key rr_key (filter awaiting_adoption (sc_runners s)));
            errs \<leftarrow> for_each (retry_adoption w) pending;
            allAdopted \<leftarrow> gets (\<lambda>s. list_all (\<lambda>r. \<not> awaiting_adoption r) (sc_runners s));
            done_with (allAdopted, errors_Join errs) } }"

end
