(* ===== verification/Scaler_Frame.thy ===== *)
theory Scaler_Frame
  imports Scaler_Workers
begin

text \<open>
  Reasoning about scaler operations. A locale for relations between the states before and after
  an operation that are preorders, with the rules that carry them through the operations, and
  the rules of a Hoare logic for the properties that need more than a relation.
\<close>

named_theorems relates \<open>operations that stay within a relation\<close>

definition logged :: "service_call \<Rightarrow> runnerScaler \<Rightarrow> runnerScaler" where
  "logged c s = s\<lparr>sc_trace := sc_trace s @ [(durable s, c)]\<rparr>"

lemma run_ops [simp]:
  "run_state (gets f) s = (f s, s)"
  "run_state (modify g) s = ((), g s)"
  "run_state (ask c answer) s = (answer (sc_trace s @ [(durable s, c)]), logged c s)"
  "run_state (queue_op h) s = (fst (h (sc_releases s)), s\<lparr>sc_releases := snd (h (sc_releases s))\<rparr>)"
  by (simp_all add: gets_def modify_def ask_def logged_def queue_op_def Let_def split: prod.split)

lemma run_tell [simp]: "run_state (tell c) s = ((), logged c s)"
  by (simp add: tell_def)

lemma logged_fields [simp]:
  "sc_runners (logged c s) = sc_runners s" "sc_targetSlots (logged c s) = sc_targetSlots s"
  "sc_target (logged c s) = sc_target s" "sc_cleanupFile (logged c s) = sc_cleanupFile s"
  "sc_fenceFile (logged c s) = sc_fenceFile s" "sc_intentFile (logged c s) = sc_intentFile s"
  "sc_pendingFences (logged c s) = sc_pendingFences s"
  "sc_pendingRegistrations (logged c s) = sc_pendingRegistrations s"
  "sc_pendingLaunchIntent (logged c s) = sc_pendingLaunchIntent s"
  "sc_releases (logged c s) = sc_releases s" "sc_hostAdmission (logged c s) = sc_hostAdmission s"
  "sc_trace (logged c s) = sc_trace s @ [(durable s, c)]" "durable (logged c s) = durable s"
  by (simp_all add: logged_def durable_def)

section \<open>Relations\<close>

locale state_relation =
  fixes R :: "runnerScaler \<Rightarrow> runnerScaler \<Rightarrow> bool"
  assumes refl: "R s s" and trans: "R s t \<Longrightarrow> R t u \<Longrightarrow> R s u"
begin

definition within :: "'a op \<Rightarrow> bool" where
  "within m \<longleftrightarrow> (\<forall>s. R s (snd (run_state m s)))"

lemma within_run: "within m \<Longrightarrow> run_state m s = (a, s') \<Longrightarrow> R s s'"
  unfolding within_def by (drule spec [of _ s]) simp

lemma within_return: "within (State_Monad.return a)"
  by (simp add: within_def refl)

lemma within_gets: "within (gets f)"
  by (simp add: within_def refl)

lemma within_modify: "(\<And>s. R s (f s)) \<Longrightarrow> within (modify f)"
  by (simp add: within_def)

lemma within_ask: "(\<And>s. R s (logged c s)) \<Longrightarrow> within (ask c answer)"
  by (simp add: within_def)

lemma within_tell: "(\<And>s. R s (logged c s)) \<Longrightarrow> within (tell c)"
  by (simp add: within_def)

lemma within_queue_op: "(\<And>s q. R s (s\<lparr>sc_releases := q\<rparr>)) \<Longrightarrow> within (queue_op h)"
  by (simp add: within_def)

lemma within_bind: "within m \<Longrightarrow> (\<And>a. within (f a)) \<Longrightarrow> within (State_Monad.bind m f)"
  unfolding within_def
proof
  fix s
  assume m: "\<forall>s. R s (snd (run_state m s))" and f: "\<And>a. \<forall>s. R s (snd (run_state (f a) s))"
  obtain a t where run: "run_state m s = (a, t)" by fastforce
  from m [rule_format, of s] f [rule_format, of t a] run
  show "R s (snd (run_state (State_Monad.bind m f) s))" by (auto intro: trans)
qed

lemma within_bind_gets: "(\<And>s. within (g (f s))) \<Longrightarrow> within (State_Monad.bind (gets f) g)"
  by (simp add: within_def)

lemma within_if: "within m \<Longrightarrow> within n \<Longrightarrow> within (if b then m else n)"
  by simp

lemma within_option: "within m \<Longrightarrow> (\<And>a. within (f a)) \<Longrightarrow> within (case x of None \<Rightarrow> m | Some a \<Rightarrow> f a)"
  by (cases x) auto

lemma within_sum: "(\<And>a. within (f a)) \<Longrightarrow> (\<And>b. within (g b)) \<Longrightarrow> within (case x of Inl a \<Rightarrow> f a | Inr b \<Rightarrow> g b)"
  by (cases x) auto

lemma within_prod: "(\<And>a b. within (f a b)) \<Longrightarrow> within (case x of (a, b) \<Rightarrow> f a b)"
  by (cases x) auto

lemma within_bool: "within m \<Longrightarrow> within n \<Longrightarrow> within (case x of True \<Rightarrow> m | False \<Rightarrow> n)"
  by (cases x) auto

lemma within_let: "(\<And>a. within (f a)) \<Longrightarrow> within (let a = x in f a)"
  by simp

lemma within_for_each: "(\<And>x. within (body x)) \<Longrightarrow> within (for_each body xs)"
  by (induction xs) (auto intro!: within_return within_bind)

lemmas within_intros = within_return within_gets within_bind within_if within_option within_sum
  within_prod within_bool within_let within_for_each

end

text \<open>
  Where the relation also ignores the trace, every call of a service is within it.
\<close>

locale untraced_relation = state_relation +
  assumes ignores_trace: "R s (s\<lparr>sc_trace := t\<rparr>)"
begin

lemma within_any_ask [intro!]: "within (ask c answer)"
  by (rule within_ask) (simp add: logged_def ignores_trace)

lemma within_any_tell [intro!]: "within (tell c)"
  by (rule within_tell) (simp add: logged_def ignores_trace)

lemma within_clock: "within (clock_now w)"
  unfolding clock_now_def by (rule within_any_ask)

lemma within_diagnose: "within (diagnose obs)"
  unfolding diagnose_def by (rule within_any_tell)

lemma within_removeRunner: "within (removeRunner w i)"
  unfolding removeRunner_def by (intro within_intros within_any_ask)

lemmas call_intros = within_any_ask within_any_tell within_clock within_diagnose within_removeRunner

end

section \<open>Capacity\<close>

text \<open>Operations that do not add to the capacity nor to the runners, and leave the target alone.\<close>

definition no_growth :: "runnerScaler \<Rightarrow> runnerScaler \<Rightarrow> bool" where
  "no_growth s s' \<longleftrightarrow> capacityCountLocked s' \<le> capacityCountLocked s \<and> sc_targetSlots s' = sc_targetSlots s
     \<and> rr_key ` set (filter counts_as_capacity (sc_runners s'))
         \<subseteq> rr_key ` set (filter counts_as_capacity (sc_runners s))"

interpretation growth: untraced_relation no_growth
proof
  fix s t u and x :: trace
  show "no_growth s s" "no_growth s (s\<lparr>sc_trace := x\<rparr>)"
    by (simp_all add: no_growth_def capacityCountLocked_def)
  assume "no_growth s t" "no_growth t u"
  then show "no_growth s u"
    unfolding no_growth_def by (intro conjI; (elim conjE)?) (erule (1) order_trans | simp)+
qed

lemma no_growth_runners:
  "sc_runners s' = sc_runners s \<Longrightarrow> sc_targetSlots s' = sc_targetSlots s \<Longrightarrow> no_growth s s'"
  by (simp add: no_growth_def capacityCountLocked_def)

text \<open>Updates that keep the key of a runner and count it only if it was counted.\<close>

lemma no_growth_map:
  assumes "\<And>r. r \<in> set (sc_runners s) \<Longrightarrow> rr_key (g r) = rr_key r"
    and "\<And>r. r \<in> set (sc_runners s) \<Longrightarrow> counts_as_capacity (g r) \<longrightarrow> counts_as_capacity r"
  shows "no_growth s (s\<lparr>sc_runners := map g (sc_runners s)\<rparr>)"
proof -
  have "length (filter counts_as_capacity (map g rs)) \<le> length (filter counts_as_capacity rs)
    \<and> rr_key ` set (filter counts_as_capacity (map g rs)) \<subseteq> rr_key ` set (filter counts_as_capacity rs)"
    if "set rs \<subseteq> set (sc_runners s)" for rs
    using that
  proof (induction rs)
    case (Cons r rs)
    have "rr_key (g r) = rr_key r" "counts_as_capacity (g r) \<longrightarrow> counts_as_capacity r"
      using assms Cons.prems by auto
    with Cons show ?case by (cases "counts_as_capacity (g r)"; cases "counts_as_capacity r") auto
  qed simp
  from this [of "sc_runners s"] show ?thesis by (simp add: no_growth_def capacityCountLocked_def)
qed

lemma no_growth_update:
  assumes "\<And>r. rr_key (f r) = rr_key r" "\<And>r. counts_as_capacity (f r) \<longrightarrow> counts_as_capacity r"
  shows "no_growth s (update_runner key f s)"
  unfolding update_runner_def by (rule no_growth_map) (simp_all add: assms)

lemma no_growth_delete: "no_growth s (delete_runner key s)"
proof -
  have "length (filter counts_as_capacity (filter (\<lambda>r. rr_key r \<noteq> key) rs))
      \<le> length (filter counts_as_capacity rs)" for rs
    by (induction rs) auto
  then show ?thesis by (auto simp: no_growth_def capacityCountLocked_def delete_runner_def)
qed

end
