(* ===== verification/Scaler_Capacity.thy ===== *)
theory Scaler_Capacity
  imports Scaler_Frame
begin

text \<open>
  Scaling down (\<^verbatim>\<open>reconcileLocked\<close> of \<^verbatim>\<open>autoscaler/scaler.go\<close>, its last loop): one round fences,
  deregisters and stops the oldest idle runner. The loop has no bound in the code; that it ends
  is the termination proof of \<open>scale_down\<close>: a round that goes on has lowered the capacity.
\<close>

text \<open>The candidate of a round: the oldest idle runner, or while retiring a protected one.\<close>

definition scale_down_candidate :: "runnerScaler \<Rightarrow> runnerRecord option" where
  "scale_down_candidate s =
     (case oldestIdleRunnerLocked s of
        Some r \<Rightarrow> Some r
      | None \<Rightarrow> if sc_retiring s then oldestProtectedRecoveredRunnerLocked s else None)"

text \<open>
  One round ends the loop with a count and an error (\<open>Inl\<close>), or goes on after collecting an
  error of stopping or settling the runner (\<open>Inr\<close>).
\<close>

definition remove_candidate ::
  "world \<Rightarrow> runnerRecord \<Rightarrow> ((int \<times> manager_error option) + manager_error option) op" where
  "remove_candidate w candidate =
     do { mark_draining w (rr_key candidate);
          stoppedRunner \<leftarrow> gets (\<lambda>s. case runner_at (rr_key candidate) s of
            Some r \<Rightarrow> r | None \<Rightarrow> candidate);
          now \<leftarrow> clock_now w;
          (fence, err) \<leftarrow> beginPendingRegistrationFence w stoppedRunner registrationFenceScaleDown now;
          case err of
            Some e \<Rightarrow> do {
              restore_runner w candidate;
              count \<leftarrow> gets capacityCountLocked;
              done_with (Inl (count, Some e)) }
          | None \<Rightarrow> do {
              err \<leftarrow> removeRunner w (rr_runnerID candidate);
              case err of
                Some e \<Rightarrow> do {
                  undo_draining w candidate e;
                  modify (\<lambda>s. s\<lparr>sc_scaleDownAt := None\<rparr>);
                  (if error_Is e JobStillRunningError
                   then resolvePendingRegistrationFence w (rr_key candidate) ''job-still-running''
                   else recordPendingRegistrationFenceFailure fence e);
                  tell OnChange;
                  count \<leftarrow> gets capacityCountLocked;
                  done_with (Inl (count, Some e)) }
              | None \<Rightarrow> do {
                  (stopped, err) \<leftarrow> stop_removed w stoppedRunner True;
                  (if stopped then tell OnChange else done_with ());
                  done_with (Inr err) } } }"

definition scale_down_round :: "world \<Rightarrow> ((int \<times> manager_error option) + manager_error option) op" where
  "scale_down_round w =
     do { s \<leftarrow> gets id;
          if capacityCountLocked s \<le> sc_targetSlots s
          then do { modify (\<lambda>s. s\<lparr>sc_scaleDownAt := None\<rparr>);
                    count \<leftarrow> gets capacityCountLocked;
                    tell OnChange;
                    done_with (Inl (count, None)) }
          else case scale_down_candidate s of
            None \<Rightarrow> done_with (Inl (capacityCountLocked s, None))
          | Some candidate \<Rightarrow> remove_candidate w candidate }"

section \<open>A round that goes on lowers the capacity\<close>

lemmas growth_intros = growth.within_intros growth.call_intros

lemma growth_modify:
  "(\<And>s. sc_runners (f s) = sc_runners s) \<Longrightarrow> (\<And>s. sc_targetSlots (f s) = sc_targetSlots s)
    \<Longrightarrow> growth.within (modify f)"
  by (intro growth.within_modify no_growth_runners) auto

lemma growth_queue_op: "growth.within (queue_op h)"
  by (intro growth.within_queue_op no_growth_runners) simp_all

lemma growth_put_fence: "growth.within (modify (put_fence record t))"
proof (rule growth.within_modify)
  fix s
  have "no_growth s (s\<lparr>sc_pendingFences := p, sc_blocking := b\<rparr>)" for p b
    by (rule no_growth_runners) simp_all
  then show "no_growth s (put_fence record t s)"
    unfolding put_fence_def
    by (rule growth.trans) (rule no_growth_update, simp_all add: counts_as_capacity_def)
qed

lemma growth_update:
  assumes "\<And>r. rr_key (f r) = rr_key r" "\<And>r. counts_as_capacity (f r) \<longrightarrow> counts_as_capacity r"
  shows "growth.within (modify (update_runner key f))"
  by (rule growth.within_modify) (rule no_growth_update [OF assms])

lemma growth_persist_fences: "growth.within (persistPendingRegistrationFences w records)"
  unfolding persistPendingRegistrationFences_def Let_def
  by (intro growth_intros growth_modify) simp_all

lemma growth_begin_fence: "growth.within (beginPendingRegistrationFence w r p now)"
  unfolding beginPendingRegistrationFence_def
  by (intro growth_intros growth_put_fence growth_persist_fences)

lemma growth_resolve_fence: "growth.within (resolvePendingRegistrationFence w k reason)"
proof -
  have "growth.within (modify (\<lambda>s. update_runner k (\<lambda>r. r\<lparr>rr_fenceAttempts := 0, rr_fenceRetryAt := None\<rparr>)
      (s\<lparr>sc_pendingFences := mdel (sc_pendingFences s) k\<rparr>)))"
  proof (rule growth.within_modify)
    fix s
    have "no_growth s (s\<lparr>sc_pendingFences := mdel (sc_pendingFences s) k\<rparr>)"
      by (rule no_growth_runners) simp_all
    then show "no_growth s (update_runner k (\<lambda>r. r\<lparr>rr_fenceAttempts := 0, rr_fenceRetryAt := None\<rparr>)
        (s\<lparr>sc_pendingFences := mdel (sc_pendingFences s) k\<rparr>))"
      by (rule growth.trans) (rule no_growth_update, simp_all add: counts_as_capacity_def)
  qed
  then show ?thesis
    unfolding resolvePendingRegistrationFence_def
    by (intro growth_intros growth_persist_fences)
qed

lemma growth_cleanup_pending: "growth.within (mark_cleanup_pending w k removed)"
  unfolding mark_cleanup_pending_def
  by (intro growth_intros growth_update) (simp_all add: counts_as_capacity_def)

lemma growth_attempt_release: "growth.within (attemptHostLeaseRelease w r)"
  unfolding attemptHostLeaseRelease_def by (intro growth_intros growth_queue_op)

lemma growth_settle: "growth.within (settleStoppedRunner w r)"
  unfolding settleStoppedRunner_def Let_def
  by (intro growth_intros growth_queue_op growth_attempt_release growth.within_modify no_growth_delete
      no_growth_runners) simp_all

lemma growth_stop_removed: "growth.within (stop_removed w r removed)"
  unfolding stop_removed_def
  by (intro growth_intros growth_resolve_fence growth_cleanup_pending growth_settle)

lemma runner_at_key: "runner_at k s = Some r \<Longrightarrow> rr_key r = k \<and> r \<in> set (sc_runners s)"
  by (auto simp: runner_at_def find_Some_iff)

text \<open>The candidate of a round waits for a job: it is idle, or a recovered runner still starting.\<close>

lemma candidate_waits:
  assumes "scale_down_candidate s = Some c"
  shows "\<exists>r \<in> set (sc_runners s). rr_key r = rr_key c \<and> rr_state r \<in> {runnerIdle, runnerStarting}"
proof -
  have idle: "\<exists>r \<in> set (sc_runners s). rr_key r = rr_key c \<and> rr_state r \<in> {runnerIdle, runnerStarting}"
    if "oldestIdleRunnerLocked s = Some c"
  proof -
    from that obtain r rs where "idleRunnersLocked s = r # rs" "runner_at (rr_key r) s = Some c"
      by (auto simp: oldestIdleRunnerLocked_def split: list.splits)
    then have "r \<in> set (idleRunnersLocked s)" "rr_key c = rr_key r"
      using runner_at_key by auto
    then show ?thesis by (auto simp: idleRunnersLocked_def)
  qed
  have protected: "\<exists>r \<in> set (sc_runners s). rr_key r = rr_key c \<and> rr_state r \<in> {runnerIdle, runnerStarting}"
    if "oldestProtectedRecoveredRunnerLocked s = Some c"
  proof -
    let ?p = "sort_key (\<lambda>r. (rr_startedAt r, rr_key r)) (filter (\<lambda>r. rr_recovered r \<and> rr_protected r
      \<and> rr_state r = runnerStarting \<and> \<not> rr_registrationRemoved r) (sc_runners s))"
    from that obtain r rs where "?p = r # rs" "runner_at (rr_key r) s = Some c"
      by (auto simp: oldestProtectedRecoveredRunnerLocked_def split: list.splits)
    then have "r \<in> set ?p" "rr_key c = rr_key r" using runner_at_key by auto
    then show ?thesis by auto
  qed
  from assms idle protected show ?thesis
    by (auto simp: scale_down_candidate_def split: option.splits if_splits)
qed

lemma candidate_counts:
  assumes "scale_down_candidate s = Some c"
  shows "\<exists>r \<in> set (sc_runners s). rr_key r = rr_key c \<and> counts_as_capacity r"
  using candidate_waits [OF assms] by (auto simp: counts_as_capacity_def)

lemma draining_lowers:
  assumes "r \<in> set (sc_runners s)" "rr_key r = k" "counts_as_capacity r"
  shows "capacityCountLocked (snd (run_state (mark_draining w k) s)) < capacityCountLocked s"
proof -
  let ?d = "\<lambda>t r. r\<lparr>rr_state := runnerDraining, rr_idleSince := None, rr_updatedAt := t\<rparr>"
  have "length (filter counts_as_capacity (map (\<lambda>r. if rr_key r = k then ?d t r else r) rs))
      \<le> length (filter counts_as_capacity rs)" for t rs
    by (induction rs) (auto simp: counts_as_capacity_def)
  then have "r \<in> set rs \<Longrightarrow>
      length (filter counts_as_capacity (map (\<lambda>r. if rr_key r = k then ?d t r else r) rs))
      < length (filter counts_as_capacity rs)" for t rs
    using assms(2,3) by (induction rs) (auto simp: counts_as_capacity_def less_Suc_eq_le)
  with assms(1) show ?thesis
    by (simp add: mark_draining_def clock_now_def update_runner_def capacityCountLocked_def)
qed

lemma remove_candidate_lowers:
  assumes counts: "r \<in> set (sc_runners s)" "rr_key r = rr_key c" "counts_as_capacity r"
    and run: "run_state (remove_candidate w c) s = (Inr err, s')"
  shows "capacityCountLocked s' < capacityCountLocked s"
proof -
  define s1 where "s1 = snd (run_state (mark_draining w (rr_key c)) s)"
  define stopped where "stopped = (case runner_at (rr_key c) s1 of Some r \<Rightarrow> r | None \<Rightarrow> c)"
  obtain now s2 where clock: "run_state (clock_now w) s1 = (now, s2)" by fastforce
  obtain fence e s3 where fenced:
    "run_state (beginPendingRegistrationFence w stopped registrationFenceScaleDown now) s2 = ((fence, e), s3)"
    by (metis prod.exhaust)
  obtain e' s4 where removed: "run_state (removeRunner w (rr_runnerID c)) s3 = (e', s4)" by fastforce
  obtain b e'' s5 where stop: "run_state (stop_removed w stopped True) s4 = ((b, e''), s5)"
    by (metis prod.exhaust)
  have start: "run_state (mark_draining w (rr_key c)) s = ((), s1)"
    by (simp add: s1_def prod_eq_iff)
  have none: "e = None" "e' = None" "s' = s5 \<or> s' = logged OnChange s5"
    using run start clock fenced removed stop unfolding remove_candidate_def stopped_def
    by (auto split: option.splits if_splits prod.splits)
  have "no_growth s1 s5"
    using growth.within_run [OF growth.within_clock clock] growth.within_run [OF growth_begin_fence fenced]
      growth.within_run [OF growth.within_removeRunner removed] growth.within_run [OF growth_stop_removed stop]
    by (blast intro: growth.trans)
  then have "capacityCountLocked s' \<le> capacityCountLocked s1"
    using none(3) by (auto simp: no_growth_def capacityCountLocked_def)
  with draining_lowers [OF counts, of w] show ?thesis by (simp add: s1_def)
qed

lemma round_lowers:
  assumes "run_state (scale_down_round w) s = (Inr err, s')"
  shows "nat (capacityCountLocked s') < nat (capacityCountLocked s)"
proof -
  obtain c where c: "scale_down_candidate s = Some c" "run_state (remove_candidate w c) s = (Inr err, s')"
    using assms by (auto simp: scale_down_round_def split: if_splits option.splits)
  from candidate_counts [OF c(1)] obtain r where
    "r \<in> set (sc_runners s)" "rr_key r = rr_key c" "counts_as_capacity r" by blast
  from remove_candidate_lowers [OF this c(2)] show ?thesis
    by (simp add: capacityCountLocked_def)
qed

function scale_down ::
  "world \<Rightarrow> manager_error option list \<Rightarrow> runnerScaler \<Rightarrow> (int \<times> manager_error option) \<times> runnerScaler" where
  "scale_down w errs s =
     (case run_state (scale_down_round w) s of
        (Inl (n, err), s') \<Rightarrow> ((n, errors_Join (errs @ [err])), s')
      | (Inr err, s') \<Rightarrow> scale_down w (errs @ [err]) s')"
  by pat_completeness auto
termination
  by (relation "measure (\<lambda>(w, errs, s). nat (capacityCountLocked s))")
    (simp, metis case_prod_conv in_measure round_lowers)

declare scale_down.simps [simp del]

end
