(* ===== verification/Scaler.thy ===== *)
theory Scaler
  imports Scaler_Capacity
begin

text \<open>
  The operations of the runner scaler (\<^verbatim>\<open>autoscaler/scaler.go\<close>): construction from the durable
  files, reconciliation of the workers with the target, the handlers of the listener, container
  exits, retirement, reactivation and shutdown.
\<close>

section \<open>Construction\<close>

definition restorePendingRegistrations ::
  "string \<Rightarrow> durable_files \<Rightarrow> (string, registrationCleanupRecord) gomap \<times> manager_error option" where
  "restorePendingRegistrations targetKey files =
     (case registrationCleanup_load targetKey (df_cleanups files) of
        Inl err \<Rightarrow> ([], Some plain_error)
      | Inr records \<Rightarrow> (fold (\<lambda>r m. mput m (rc_SlotKey r) (clamp_cleanup r)) records [], None))"

definition restorePendingFences ::
  "string \<Rightarrow> durable_files \<Rightarrow> (string, registrationFenceRecord) gomap \<times> manager_error option" where
  "restorePendingFences targetKey files =
     (case registrationFence_load targetKey (df_fences files) of
        Inl err \<Rightarrow> ([], Some plain_error)
      | Inr records \<Rightarrow> (fold (\<lambda>r m. mput m (rf_SlotKey r) r) records [], None))"

definition restoreLaunchIntent ::
  "string \<Rightarrow> durable_files \<Rightarrow> launchIntentRecord option \<times> manager_error option" where
  "restoreLaunchIntent targetKey files =
     (case launchIntent_load targetKey (df_intent files) of
        Inl err \<Rightarrow> (None, Some plain_error)
      | Inr intent \<Rightarrow> (intent, None))"

definition newRunnerScaler ::
  "config \<Rightarrow> bool \<Rightarrow> targetSpec \<Rightarrow> int \<Rightarrow> durable_files \<Rightarrow> runnerScaler" where
  "newRunnerScaler cfg hostAdmission target scaleSetID files =
     (let (registrations, cleanupErr) = restorePendingRegistrations (ts_key target) files;
          (fences, fenceErr) = restorePendingFences (ts_key target) files;
          (intent, intentErr) = restoreLaunchIntent (ts_key target) files
      in \<lparr>sc_cfg = cfg, sc_hostAdmission = hostAdmission, sc_target = target,
          sc_scaleSetID = scaleSetID, sc_runners = [], sc_statistics = zeroStatistics,
          sc_targetSlots = calculateTarget (ts_maximum target) (cf_minimumIdle cfg) 0,
          sc_scaleDownAt = None, sc_shuttingDown = False, sc_retiring = False,
          sc_pendingRegistrations = registrations, sc_cleanupStateError = cleanupErr,
          sc_pendingFences = fences, sc_fenceStateError = fenceErr,
          sc_pendingLaunchIntent = intent, sc_launchIntentStateError = intentErr,
          sc_releases = restorePendingHostLeaseReleases (ts_key target) (df_releases files),
          sc_blocking = noBlock, sc_launchFailures = 0, sc_launchRetryAt = zeroTime,
          sc_exitFailures = 0, sc_exitRetryAt = zeroTime, sc_cleanupFile = df_cleanups files,
          sc_fenceFile = df_fences files, sc_intentFile = df_intent files,
          sc_trace = [(files, AdmissionJoin)]\<rparr>)"

section \<open>Launch retries\<close>

definition workerLaunchRetryEvidence :: string where
  "workerLaunchRetryEvidence =
     ''worker launch retry is waiting after a failed dependency operation''"

definition scheduleLaunchRetry :: "world \<Rightarrow> unit op" where
  "scheduleLaunchRetry w =
     do { now \<leftarrow> clock_now w;
          s \<leftarrow> gets id;
          let attempt = add64 (sc_launchFailures s) 1;
          let retryAt = now + boundedExponentialBackoff time_Minute (15 * time_Minute) attempt;
          modify (\<lambda>s. s\<lparr>sc_launchFailures := attempt, sc_launchRetryAt := retryAt,
            sc_blocking := \<lparr>cb_reason = Some deficitRetryBackoff,
              cb_evidence = workerLaunchRetryEvidence\<rparr>\<rparr>);
          diagnose ((observation subsystemWorkerLaunch operationWorkerLaunch (ts_key (sc_target s))
            outcomeRetry reasonRetryBackoff workerLaunchRetryEvidence)
            \<lparr>do_attempt := attempt, do_retryAt := Some retryAt\<rparr>);
          tell OnChange }"

definition clearLaunchRetry :: "unit op" where
  "clearLaunchRetry = modify (\<lambda>s. s\<lparr>sc_launchFailures := 0, sc_launchRetryAt := zeroTime\<rparr>)"

section \<open>Reconciliation\<close>

type_synonym pass_result = "int \<times> manager_error option"

definition registration_state_error :: "runnerScaler \<Rightarrow> manager_error option" where
  "registration_state_error s =
     errors_Join [sc_cleanupStateError s, sc_fenceStateError s, sc_launchIntentStateError s]"

definition withdraw_demand :: "unit op" where
  "withdraw_demand = do { setProfileAdmissionDemand 0; tell (SetTargetDemand 0) }"

definition blocked_pass :: "string \<Rightarrow> manager_error option list \<Rightarrow> pass_result op" where
  "blocked_pass evidence errs =
     do { current \<leftarrow> gets capacityCountLocked;
          setBlocking deficitRetryBackoff evidence;
          withdraw_demand;
          done_with (current, errors_Join errs) }"

definition host_admission_error :: "manager_error \<Rightarrow> bool" where
  "host_admission_error e \<longleftrightarrow>
     error_Is e errHostAdmissionWithheld \<or> error_Is e errHostAdmissionUnavailable
     \<or> error_Is e errHostAdmissionDegraded"

text \<open>The loop that starts the admitted workers; the first failure gives the rest back.\<close>

fun launch_workers :: "world \<Rightarrow> nat \<Rightarrow> manager_error option list \<Rightarrow> pass_result op" where
  "launch_workers w 0 errs =
     do { tell (SetTargetDemand 0);
          tell OnChange;
          current \<leftarrow> gets capacityCountLocked;
          done_with (current, errors_Join errs) }"
| "launch_workers w (Suc remaining) errs =
     do { err \<leftarrow> startRunner w;
          tell (AdmissionSettle 1);
          case err of
            None \<Rightarrow> do { clearLaunchRetry; launch_workers w remaining errs }
          | Some e \<Rightarrow> do {
              tell (AdmissionSettle (int remaining));
              (if \<not> host_admission_error e
               then do { tell (SetTargetDemand 0); scheduleLaunchRetry w }
               else done_with ());
              current \<leftarrow> gets capacityCountLocked;
              done_with (current, errors_Join (errs @ [Some e])) } }"

definition reserve_workers :: "int \<Rightarrow> world \<Rightarrow> int op" where
  "reserve_workers missing w =
     do { admitted \<leftarrow> ask (AdmissionReserve missing) (w_granted w);
          targetKey \<leftarrow> gets (\<lambda>s. ts_key (sc_target s));
          (if admitted < missing
           then do {
             setBlocking deficitAdmissionCeiling ''profile active-worker ceiling deferred requested capacity'';
             diagnose (observation subsystemAdmission operationAdmissionReserve targetKey outcomeBlocked
               reasonCapacityCeiling ''profile active-worker ceiling deferred requested capacity'') }
           else if admitted > 0
           then setBlocking deficitLaunchPending ''admitted workers are still starting''
           else done_with ());
          tell (SetTargetDemand admitted);
          done_with admitted }"

definition scale_up ::
  "world \<Rightarrow> bool \<Rightarrow> manager_error option \<Rightarrow> int \<Rightarrow> int \<Rightarrow> manager_error option list \<Rightarrow> pass_result op" where
  "scale_up w adopted adoptionErr current target errs =
     (if \<not> adopted
      then do {
        setProfileAdmissionDemand 0;
        (let (blockingReason, _, evidence) =
               hostAdmissionFailureDetails (case adoptionErr of Some e \<Rightarrow> e | None \<Rightarrow> plain_error)
         in setBlocking blockingReason evidence);
        done_with (current, errors_Join errs) }
      else do {
        pending \<leftarrow> gets (\<lambda>s. int (length (sc_pendingRegistrations s)));
        let missing = (target - current) - min pending (target - current);
        (if pending > 0
         then setBlocking deficitCleanupPending
           ''replacement capacity waits for exact registration cleanup''
         else done_with ());
        (if missing = 0 then setProfileAdmissionDemand 0 else done_with ());
        admitted \<leftarrow> reserve_workers missing w;
        launch_workers w (nat admitted) errs })"

definition begin_scale_down :: "world \<Rightarrow> manager_error option list \<Rightarrow> pass_result op" where
  "begin_scale_down w errs =
     do { setProfileAdmissionDemand 0;
          clearBlocking;
          tell (SetTargetDemand 0);
          now \<leftarrow> clock_now w;
          delay \<leftarrow> gets (\<lambda>s. cf_scaleDownDelay (sc_cfg s));
          modify (\<lambda>s. if sc_scaleDownAt s = None then s\<lparr>sc_scaleDownAt := Some (now + delay)\<rparr> else s);
          early \<leftarrow> gets (\<lambda>s. case sc_scaleDownAt s of Some t \<Rightarrow> now < t | None \<Rightarrow> False);
          if early
          then do { current \<leftarrow> gets capacityCountLocked; tell OnChange; done_with (current, errors_Join errs) }
          else State (scale_down w errs) }"

text \<open>After the launch backoffs: growing, keeping or shrinking.\<close>

definition adjust_capacity ::
  "world \<Rightarrow> bool \<Rightarrow> manager_error option \<Rightarrow> manager_error option list \<Rightarrow> pass_result op" where
  "adjust_capacity w adopted adoptionErr errs =
     do { current \<leftarrow> gets capacityCountLocked;
          target \<leftarrow> gets sc_targetSlots;
          modify (\<lambda>s. if target \<ge> current then s\<lparr>sc_scaleDownAt := None\<rparr> else s);
          if target > current then scale_up w adopted adoptionErr current target errs
          else if target = current
          then do { withdraw_demand; clearBlocking;
                    settled \<leftarrow> gets capacityCountLocked;
                    done_with (settled, errors_Join errs) }
          else begin_scale_down w errs }"

definition pace_capacity ::
  "world \<Rightarrow> bool \<Rightarrow> manager_error option \<Rightarrow> bool \<Rightarrow> manager_error option list \<Rightarrow> pass_result op" where
  "pace_capacity w adopted adoptionErr launchIntentPending errs =
     do { current \<leftarrow> gets capacityCountLocked;
          target \<leftarrow> gets sc_targetSlots;
          if launchIntentPending \<and> target > current
          then blocked_pass ''runner launch recovery is waiting on retry backoff'' errs
          else do {
            launchNow \<leftarrow> clock_now w;
            retryAt \<leftarrow> gets sc_launchRetryAt;
            (if target \<le> current then clearLaunchRetry
             else if retryAt \<noteq> zeroTime \<and> \<not> launchNow < retryAt
             then modify (\<lambda>s. s\<lparr>sc_launchRetryAt := zeroTime\<rparr>) else done_with ());
            exitRetryAt \<leftarrow> gets sc_exitRetryAt;
            if target > current \<and> retryAt \<noteq> zeroTime \<and> launchNow < retryAt
            then blocked_pass workerLaunchRetryEvidence errs
            else if target > current \<and> launchNow < exitRetryAt
            then blocked_pass workerExitRetryEvidence errs
            else adjust_capacity w adopted adoptionErr errs } }"

definition reconcile_open :: "world \<Rightarrow> pass_result op" where
  "reconcile_open w =
     do { (adopted, adoptionErr) \<leftarrow> retryPendingHostLeaseAdoptions w;
          intentErr \<leftarrow> (if adopted then retryPendingLaunchIntent w else done_with None);
          launchIntentPending \<leftarrow> gets (\<lambda>s. sc_pendingLaunchIntent s \<noteq> None);
          releaseErr \<leftarrow> retryHostLeaseReleases w;
          registrationErr \<leftarrow> retryPendingRegistrations w;
          fenceErr \<leftarrow> retryPendingRegistrationFences w;
          cleanupErr \<leftarrow> retryCleanupPending w;
          staleErr \<leftarrow> retireStaleRunners w;
          livenessErr \<leftarrow> reconcileContainerLiveness w;
          shuttingDown \<leftarrow> poll_shutdown w;
          current \<leftarrow> gets capacityCountLocked;
          let errs = [adoptionErr, intentErr, releaseErr, registrationErr, fenceErr, cleanupErr,
                staleErr, livenessErr];
          if shuttingDown
          then do { setProfileAdmissionDemand 0; done_with (current, errors_Join errs) }
          else pace_capacity w adopted adoptionErr launchIntentPending errs }"

definition reconcileLocked :: "world \<Rightarrow> pass_result op" where
  "reconcileLocked w =
     do { s \<leftarrow> gets id;
          if registration_state_error s \<noteq> None
          then do {
            setBlocking deficitInvalidDesiredState ''durable registration retry state is unavailable'';
            current \<leftarrow> gets capacityCountLocked;
            withdraw_demand;
            done_with (current, registration_state_error s) }
          else reconcile_open w }"

section \<open>Demand\<close>

text \<open>The target slots follow the demand, unless the target is retiring.\<close>

definition retarget :: "runnerScaler \<Rightarrow> runnerScaler" where
  "retarget s = s\<lparr>sc_targetSlots := (if sc_retiring s then 0
     else calculateTarget (ts_maximum (sc_target s)) (cf_minimumIdle (sc_cfg s))
       (st_assignedJobs (sc_statistics s)))\<rparr>"

definition set_maximum :: "int \<Rightarrow> runnerScaler \<Rightarrow> runnerScaler" where
  "set_maximum maximum s = retarget (s\<lparr>sc_target := (sc_target s)\<lparr>ts_maximum := maximum\<rparr>\<rparr>)"

definition HandleDesiredRunnerCount :: "world \<Rightarrow> int \<Rightarrow> pass_result op" where
  "HandleDesiredRunnerCount w assignedJobs =
     (if assignedJobs < 0 then done_with (0, Some plain_error)
      else do {
        gate \<leftarrow> ask AcquireOperation (w_err w);
        if gate \<noteq> None then do { current \<leftarrow> gets capacityCountLocked; done_with (current, gate) }
        else do {
          modify (\<lambda>s. retarget (s\<lparr>sc_statistics := (sc_statistics s)\<lparr>st_assignedJobs := assignedJobs\<rparr>\<rparr>));
          reconcileLocked w } })"

definition RecordStatistics :: "world \<Rightarrow> scalerStatistics option \<Rightarrow> unit op" where
  "RecordStatistics w statistics =
     (case statistics of
        None \<Rightarrow> tell OnError
      | Some st \<Rightarrow> do {
          now \<leftarrow> clock_now w;
          modify (\<lambda>s. s\<lparr>sc_statistics := st\<lparr>st_observedAt := now\<rparr>\<rparr>);
          tell OnChange })"

definition setMaximum :: "world \<Rightarrow> int \<Rightarrow> manager_error option op" where
  "setMaximum w maximum =
     (if maximum < 0 then done_with (Some plain_error)
      else do {
        gate \<leftarrow> ask AcquireOperation (w_err w);
        if gate \<noteq> None then done_with gate
        else do {
          previousMaximum \<leftarrow> gets (\<lambda>s. ts_maximum (sc_target s));
          previousScaleDownAt \<leftarrow> gets sc_scaleDownAt;
          modify (set_maximum maximum);
          (_, applyErr) \<leftarrow> reconcileLocked w;
          if applyErr = None then done_with None
          else do {
            modify (\<lambda>s. (set_maximum previousMaximum s)\<lparr>sc_scaleDownAt := previousScaleDownAt\<rparr>);
            (_, rollbackErr) \<leftarrow> reconcileLocked w;
            done_with (errors_Join [applyErr, rollbackErr]) } } })"

definition beginRetirement :: "world \<Rightarrow> manager_error option op" where
  "beginRetirement w =
     do { gate \<leftarrow> ask AcquireOperation (w_err w);
          if gate \<noteq> None then done_with gate
          else do {
            now \<leftarrow> clock_now w;
            modify (\<lambda>s. s\<lparr>sc_retiring := True, sc_target := (sc_target s)\<lparr>ts_maximum := 0\<rparr>,
              sc_targetSlots := 0, sc_scaleDownAt := Some now\<rparr>);
            (_, err) \<leftarrow> reconcileLocked w;
            done_with err } }"

definition reactivate :: "world \<Rightarrow> targetSpec \<Rightarrow> manager_error option op" where
  "reactivate w target =
     (if ts_maximum target < 0 then done_with (Some plain_error)
      else do {
        gate \<leftarrow> ask AcquireOperation (w_err w);
        if gate \<noteq> None then done_with gate
        else do {
          modify (\<lambda>s. (retarget (s\<lparr>sc_retiring := False, sc_target := target\<rparr>))\<lparr>sc_scaleDownAt := None\<rparr>);
          (_, err) \<leftarrow> reconcileLocked w;
          done_with err } })"

definition tick :: "world \<Rightarrow> manager_error option op" where
  "tick w =
     do { gate \<leftarrow> ask AcquireOperation (w_err w);
          if gate \<noteq> None then done_with gate
          else do { (_, err) \<leftarrow> reconcileLocked w; done_with err } }"

section \<open>Jobs\<close>

definition started_runner :: "jobMessage \<Rightarrow> int \<Rightarrow> runnerRecord \<Rightarrow> runnerRecord" where
  "started_runner job now r =
     r\<lparr>rr_state := runnerBusy, rr_protected := False, rr_idleSince := None,
       rr_jobStartedAt := (if rr_jobStartedAt r = None then Some now else rr_jobStartedAt r),
       rr_currentJob := mergeStartedJobContext (rr_currentJob r) (jobContextFromStarted (Some job) now),
       rr_updatedAt := now\<rparr>"

definition completed_runner :: "jobMessage \<Rightarrow> int \<Rightarrow> runnerRecord \<Rightarrow> runnerRecord" where
  "completed_runner job now r =
     r\<lparr>rr_state := runnerDraining, rr_protected := False, rr_idleSince := None,
       rr_completedAt := Some now,
       rr_currentJob := jobContextFromCompleted (Some job) now (rr_currentJob r),
       rr_updatedAt := now\<rparr>"

definition HandleJobStarted :: "world \<Rightarrow> jobMessage option \<Rightarrow> manager_error option op" where
  "HandleJobStarted w jobInfo =
     (case jobInfo of
        None \<Rightarrow> done_with (Some plain_error)
      | Some job \<Rightarrow> do {
          gate \<leftarrow> ask AcquireOperation (w_err w);
          if gate \<noteq> None then done_with gate
          else do {
            now \<leftarrow> clock_now w;
            found \<leftarrow> findRunnerLocked w (jm_RunnerName job) (jm_RunnerID job);
            case found of
              None \<Rightarrow> done_with (Some plain_error)
            | Some r \<Rightarrow>
                if rr_registrationRemoved r then done_with (Some plain_error)
                else do { modify (update_runner (rr_key r) (started_runner job now));
                          tell OnChange;
                          done_with None } } })"

definition HandleJobCompleted :: "world \<Rightarrow> jobMessage option \<Rightarrow> manager_error option op" where
  "HandleJobCompleted w jobInfo =
     (case jobInfo of
        None \<Rightarrow> done_with (Some plain_error)
      | Some job \<Rightarrow> do {
          gate \<leftarrow> ask AcquireOperation (w_err w);
          if gate \<noteq> None then done_with gate
          else do {
            now \<leftarrow> clock_now w;
            found \<leftarrow> findRunnerLocked w (jm_RunnerName job) (jm_RunnerID job);
            case found of
              None \<Rightarrow> do {
                setProfileAdmissionDemand 0;
                setBlocking deficitUnknown ''unknown runner completion invalidated transient profile admission state; exact demand reconciliation is pending'';
                targetKey \<leftarrow> gets (\<lambda>s. ts_key (sc_target s));
                diagnose (observation subsystemAdmission operationAdmissionSettle targetKey
                  outcomeRecovered reasonRecovered ''transient profile admission demand was cleared after an unknown runner completion'');
                tell OnChange;
                done_with (Some plain_error) }
            | Some r \<Rightarrow>
                if rr_registrationRemoved r then done_with (Some plain_error)
                else do { modify (update_runner (rr_key r) (completed_runner job now));
                          tell OnChange;
                          done_with None } } })"

section \<open>Exits and shutdown\<close>

definition handleContainerExit :: "world \<Rightarrow> string \<Rightarrow> int option \<Rightarrow> unit op" where
  "handleContainerExit w containerID exitCode =
     do { gate \<leftarrow> ask AcquireOperation (w_err w);
          if gate \<noteq> None then done_with ()
          else do {
            needsReconcile \<leftarrow> exit_locked w containerID exitCode;
            ended \<leftarrow> (if needsReconcile then ask LifecycleEnded (w_signal w) else done_with True);
            if ended then done_with ()
            else do { (_, err) \<leftarrow> reconcileLocked w;
                      if err \<noteq> None then tell OnError else done_with () } } }"

text \<open>
  The first phase of \<^verbatim>\<open>shutdown\<close>: an idle runner is fenced, deregistered, stopped and settled. The
  result tells whether it must be preserved for the next manager.
\<close>

definition shutdown_idle :: "world \<Rightarrow> runnerRecord \<Rightarrow> (bool \<times> manager_error option) op" where
  "shutdown_idle w runner =
     do { now \<leftarrow> clock_now w;
          (fence, err) \<leftarrow> beginPendingRegistrationFence w runner registrationFenceShutdown now;
          case err of
            Some e \<Rightarrow> done_with (True, Some e)
          | None \<Rightarrow> do {
              err \<leftarrow> removeRunner w (rr_runnerID runner);
              case err of
                Some e \<Rightarrow> do { recordPendingRegistrationFenceFailure fence e; done_with (True, Some e) }
              | None \<Rightarrow> do {
                  resolvePendingRegistrationFence w (rr_key runner) ''removed'';
                  err \<leftarrow> ask (DockerStopAndRemove (rr_containerID runner)) (w_err w);
                  case err of
                    Some e \<Rightarrow> done_with (False, Some e)
                  | None \<Rightarrow> do { err \<leftarrow> settleStoppedRunner w runner; done_with (False, err) } } } }"

fun shutdown_idle_runners ::
  "world \<Rightarrow> runnerRecord list \<Rightarrow> (string list \<times> manager_error option list) op" where
  "shutdown_idle_runners w [] = done_with ([], [])"
| "shutdown_idle_runners w (r # rs) =
     do { (preserve, err) \<leftarrow> shutdown_idle w r;
          (kept, errs) \<leftarrow> shutdown_idle_runners w rs;
          done_with (if preserve then rr_key r # kept else kept, err # errs) }"

definition shutdown_remaining :: "world \<Rightarrow> string list \<Rightarrow> runnerRecord \<Rightarrow> manager_error option op" where
  "shutdown_remaining w preserved runner =
     (if rr_key runner \<in> set preserved then done_with None
      else do {
        err \<leftarrow> ask (DockerStop (rr_containerID runner)) (w_err w);
        case err of Some e \<Rightarrow> done_with (Some e) | None \<Rightarrow> settleStoppedRunner w runner })"

text \<open>
  The runners of a phase are handled concurrently; their steps on different runners are taken
  one runner after the other, in an order the runtime chooses.
\<close>

definition shutdown :: "world \<Rightarrow> manager_error option op" where
  "shutdown w =
     do { modify (\<lambda>s. s\<lparr>sc_shuttingDown := True, sc_scaleDownAt := None\<rparr>);
          tell OnChange;
          gate \<leftarrow> ask AcquireOperation (w_err w);
          if gate \<noteq> None then done_with gate
          else do {
            firstOrder \<leftarrow> ask IterateRunners (w_order w);
            idle \<leftarrow> gets (\<lambda>s. runners_in firstOrder (idleRunnersLocked s));
            (preserved, idleErrs) \<leftarrow> shutdown_idle_runners w idle;
            secondOrder \<leftarrow> ask IterateRunners (w_order w);
            remaining \<leftarrow> gets (\<lambda>s. runners_in secondOrder (sort_key rr_key (sc_runners s)));
            errs \<leftarrow> for_each (shutdown_remaining w preserved) remaining;
            tell AdmissionLeave;
            tell OnChange;
            done_with (errors_Join (idleErrs @ errs)) } }"

end
