(* ===== verification/Scaler_Invariants.thy ===== *)
theory Scaler_Invariants
  imports Scaler
begin

text \<open>
  What an invariant of a scaler must promise so that every operation keeps it. The locales fix
  the invariant, the calls that can be logged under it, the runners that may change state, and
  the containers that count as gone; their laws are checked once for each invariant, and the
  operations are carried through once for all.
\<close>

locale state_invariant =
  fixes I :: "runnerScaler \<Rightarrow> bool" and loggable :: "service_call \<Rightarrow> bool"
  assumes logged_keeps: "loggable c \<Longrightarrow> I s \<Longrightarrow> I (logged c s)"

sublocale state_invariant \<subseteq> keeps: state_relation "\<lambda>s s'. I s \<longrightarrow> I s'"
  by unfold_locales auto

context state_invariant
begin

lemma keeps_ask: "loggable c \<Longrightarrow> keeps.within (ask c answer)"
  by (rule keeps.within_ask) (simp add: logged_keeps)

lemma keeps_tell: "loggable c \<Longrightarrow> keeps.within (tell c)"
  by (rule keeps.within_tell) (simp add: logged_keeps)

lemma keeps_bind_gets:
  "(\<And>s. I s \<Longrightarrow> keeps.within (g (f s))) \<Longrightarrow> keeps.within (State_Monad.bind (gets f) g)"
  by (auto simp: keeps.within_def)

lemma keeps_bind_ask:
  assumes "loggable c" "\<And>s. I s \<Longrightarrow> keeps.within (g (answer (sc_trace s @ [(durable s, c)])))"
  shows "keeps.within (State_Monad.bind (ask c answer) g)"
  using assms logged_keeps [OF assms(1)] by (auto simp: keeps.within_def)

text \<open>Carrying what is known of a result, or of the state a result was read from.\<close>

lemma keeps_bind_result:
  assumes "\<And>s a s'. I s \<Longrightarrow> run_state m s = (a, s') \<Longrightarrow> P a" "keeps.within m"
    and "\<And>a. P a \<Longrightarrow> keeps.within (g a)"
  shows "keeps.within (State_Monad.bind m g)"
  unfolding keeps.within_def
proof (intro allI impI)
  fix s assume "I s"
  obtain a t where run: "run_state m s = (a, t)" by fastforce
  have "I t" using keeps.within_run [OF assms(2) run] \<open>I s\<close> by blast
  with assms(3) [OF assms(1) [OF \<open>I s\<close> run]] run
  show "I (snd (run_state (State_Monad.bind m g) s))" by (simp add: keeps.within_def)
qed

lemma keeps_bind_post:
  assumes "\<And>s a s'. I s \<Longrightarrow> run_state m s = (a, s') \<Longrightarrow> I s' \<and> P a s'"
    and "\<And>a s. I s \<Longrightarrow> P a s \<Longrightarrow> I (snd (run_state (g a) s))"
  shows "keeps.within (State_Monad.bind m g)"
  unfolding keeps.within_def
proof (intro allI impI)
  fix s assume "I s"
  obtain a t where run: "run_state m s = (a, t)" by fastforce
  from assms(1) [OF \<open>I s\<close> run] assms(2) [of t a] run
  show "I (snd (run_state (State_Monad.bind m g) s))" by simp
qed

text \<open>Carrying what a branch knows.\<close>

lemma keeps_option:
  "(x = None \<Longrightarrow> keeps.within m) \<Longrightarrow> (\<And>a. x = Some a \<Longrightarrow> keeps.within (f a))
    \<Longrightarrow> keeps.within (case x of None \<Rightarrow> m | Some a \<Rightarrow> f a)"
  by (cases x) auto

lemma keeps_if:
  "(b \<Longrightarrow> keeps.within m) \<Longrightarrow> (\<not> b \<Longrightarrow> keeps.within n) \<Longrightarrow> keeps.within (if b then m else n)"
  by simp

lemma keeps_sum:
  "(\<And>a. x = Inl a \<Longrightarrow> keeps.within (f a)) \<Longrightarrow> (\<And>b. x = Inr b \<Longrightarrow> keeps.within (g b))
    \<Longrightarrow> keeps.within (case x of Inl a \<Rightarrow> f a | Inr b \<Rightarrow> g b)"
  by (cases x) auto

lemma keeps_probe:
  "(\<And>e. keeps.within (f e)) \<Longrightarrow> keeps.within m \<Longrightarrow> (x = Inr False \<Longrightarrow> keeps.within n)
    \<Longrightarrow> keeps.within (case x of Inl e \<Rightarrow> f e | Inr True \<Rightarrow> m | Inr False \<Rightarrow> n)"
  by (auto split: sum.split bool.split)

lemma keeps_for_each:
  assumes "\<And>x. x \<in> set xs \<Longrightarrow> keeps.within (body x)"
  shows "keeps.within (for_each body xs)"
  using assms by (induction xs) (auto intro!: keeps.within_return keeps.within_bind)

end

lemma set_runners_in: "set (runners_in keys rs) = set rs"
  by (auto simp: runners_in_def)

lemma find_mem: "find P xs = Some x \<Longrightarrow> x \<in> set xs \<and> P x"
  by (auto simp: find_Some_iff)

text \<open>The calls every invariant must tolerate: all but those that launch a worker.\<close>

fun ordinary :: "service_call \<Rightarrow> bool" where
  "ordinary (GenerateJIT i n) = False"
| "ordinary (DockerRun l) = False"
| "ordinary (DockerStart c) = False"
| "ordinary c = True"

text \<open>An update that leaves the identity of a runner and its lease alone.\<close>

definition same_identity :: "runnerRecord \<Rightarrow> runnerRecord \<Rightarrow> bool" where
  "same_identity r r' \<longleftrightarrow>
     rr_key r' = rr_key r \<and> rr_containerID r' = rr_containerID r
     \<and> rr_hostSlotKey r' = rr_hostSlotKey r \<and> rr_hostLeaseReleased r' = rr_hostLeaseReleased r"

definition same_workers :: "runnerScaler \<Rightarrow> runnerScaler \<Rightarrow> bool" where
  "same_workers s s' \<longleftrightarrow>
     sc_runners s' = sc_runners s \<and> ts_key (sc_target s') = ts_key (sc_target s)
     \<and> sc_hostAdmission s' = sc_hostAdmission s \<and> sc_releases s' = sc_releases s
     \<and> sc_trace s' = sc_trace s"

locale worker_invariant = state_invariant I loggable
  for I :: "runnerScaler \<Rightarrow> bool" and loggable :: "service_call \<Rightarrow> bool" +
  fixes w :: world and movable :: "string \<Rightarrow> bool" and gone :: "string \<Rightarrow> bool"
    and releasable :: "hostLeaseCleanupRecord \<Rightarrow> bool"
  assumes ordinary_loggable: "ordinary c \<Longrightarrow> loggable c"
    and frame: "same_workers s s' \<Longrightarrow> I s \<Longrightarrow> I s'"
    and moved: "movable j \<Longrightarrow> (\<And>r. same_identity r (f r)) \<Longrightarrow> I s \<Longrightarrow> I (update_runner j f s)"
    and benign: "(\<And>r. same_identity r (f r) \<and> rr_state (f r) = rr_state r) \<Longrightarrow> I s
      \<Longrightarrow> I (update_runner j f s)"
    and idle_movable: "I s \<Longrightarrow> r \<in> set (sc_runners s) \<Longrightarrow> rr_state r \<noteq> runnerBusy \<Longrightarrow> movable (rr_key r)"
    and gone_movable: "I s \<Longrightarrow> r \<in> set (sc_runners s) \<Longrightarrow> gone (rr_containerID r) \<Longrightarrow> movable (rr_key r)"
    and probed: "I s \<Longrightarrow> w_running w (sc_trace s @ [(durable s, DockerIsRunning cid)]) = Inr False \<Longrightarrow> gone cid"
    and queued: "I s \<Longrightarrow> h \<in> snd ` set (rl_pending (sc_releases s)) \<Longrightarrow> releasable h"
    and released: "releasable h \<Longrightarrow> keeps.within (attemptHostLeaseRelease w h)"
    and enqueued: "key \<noteq> [] \<Longrightarrow> keeps.within (releaseLeaseOrEnqueue w key slot)"
    and settled: "movable (rr_key r) \<Longrightarrow> keeps.within (settleStoppedRunner w r)"
begin

lemma keeps_ordinary: "ordinary c \<Longrightarrow> keeps.within (ask c answer)" "ordinary c \<Longrightarrow> keeps.within (tell c)"
  by (simp_all add: keeps_ask keeps_tell ordinary_loggable)

lemma keeps_clock: "keeps.within (clock_now w')"
  unfolding clock_now_def by (rule keeps_ordinary) simp

lemma keeps_diagnose: "keeps.within (diagnose obs)"
  unfolding diagnose_def by (rule keeps_ordinary) simp

lemma keeps_frame: "(\<And>s. same_workers s (f s)) \<Longrightarrow> keeps.within (modify f)"
  by (rule keeps.within_modify) (auto intro: frame)

lemma keeps_poll: "keeps.within (poll_shutdown w')"
  unfolding poll_shutdown_def
  by (intro keeps.within_intros keeps_ordinary keeps_frame) (simp_all add: same_workers_def)

lemma keeps_blocking: "keeps.within (setBlocking reason evidence)" "keeps.within clearBlocking"
  unfolding setBlocking_def clearBlocking_def by (intro keeps_frame; simp add: same_workers_def)+

lemma keeps_removeRunner: "keeps.within (removeRunner w' i)"
  unfolding removeRunner_def by (intro keeps.within_intros keeps_ordinary) simp

lemmas steps = keeps.within_intros keeps_clock keeps_diagnose keeps_poll keeps_blocking
  keeps_removeRunner

lemma keeps_find: "keeps.within (findRunnerByContainerLocked w' c)" "keeps.within (findRunnerLocked w' n i)"
  unfolding findRunnerByContainerLocked_def findRunnerLocked_def
  by (intro steps keeps_ordinary; simp)+

section \<open>Queues\<close>

lemma keeps_persist_registrations: "keeps.within (persistPendingRegistrations w' records)"
  unfolding persistPendingRegistrations_def Let_def
  by (intro steps keeps_ordinary keeps_frame) (simp_all add: same_workers_def)

lemma keeps_begin_cleanup: "keeps.within (beginPendingRegistrationCleanup w' r d now)"
  unfolding beginPendingRegistrationCleanup_def
  by (intro steps keeps_persist_registrations keeps_frame) (simp_all add: same_workers_def)

lemma keeps_prepare_cleanup: "keeps.within (preparePendingRegistrationRetry w' r now)"
  unfolding preparePendingRegistrationRetry_def
  by (intro steps keeps_persist_registrations keeps_frame) (simp_all add: same_workers_def)

lemma keeps_resolve_cleanup: "keeps.within (resolvePendingRegistration w' k reason)"
  unfolding resolvePendingRegistration_def
  by (intro steps keeps_persist_registrations keeps_frame) (simp_all add: same_workers_def)

lemma keeps_cleanup_failure: "keeps.within (recordPendingRegistrationFailure r e)"
  unfolding recordPendingRegistrationFailure_def by (intro steps keeps_ordinary) simp

lemma keeps_attempt_cleanup: "keeps.within (attemptPendingRegistrationCleanup w' r)"
  unfolding attemptPendingRegistrationCleanup_def
  by (intro steps keeps_resolve_cleanup keeps_cleanup_failure)

lemma keeps_retry_registrations: "keeps.within (retryPendingRegistrations w')"
  unfolding retryPendingRegistrations_def retry_registration_def
  by (intro steps keeps_resolve_cleanup keeps_cleanup_failure keeps_prepare_cleanup)

lemma keeps_save_intent: "keeps.within (save_intent w' r)"
  unfolding save_intent_def Let_def
  by (intro steps keeps_ordinary keeps_frame) (simp_all add: same_workers_def)

lemma keeps_clear_intent: "keeps.within (clearLaunchIntent w')"
  unfolding clearLaunchIntent_def Let_def
  by (intro steps keeps_ordinary keeps_frame) (simp_all add: same_workers_def)

lemma keeps_intents: "keeps.within (beginLaunchIntent w' n t)" "keeps.within (updateLaunchIntentRunnerID w' i)"
  unfolding beginLaunchIntent_def updateLaunchIntentRunnerID_def by (intro steps keeps_save_intent)+

lemma keeps_retry_intent: "keeps.within (retryPendingLaunchIntent w')"
  unfolding retryPendingLaunchIntent_def prepareLaunchIntentRetry_def recover_intent_def Let_def
  by (intro steps keeps_ordinary keeps_save_intent keeps_clear_intent) simp

lemma keeps_remove_registration: "keeps.within (removeRegistrationOrEnqueue w' r)"
  unfolding removeRegistrationOrEnqueue_def removeLaunchIntentRegistration_def
  by (intro steps keeps_begin_cleanup keeps_clear_intent keeps_attempt_cleanup)

lemma keeps_retry_releases: "keeps.within (retryHostLeaseReleases w)"
  unfolding retryHostLeaseReleases_def retry_release_def
  by (intro steps keeps_bind_gets keeps_for_each released) (auto intro: queued)

section \<open>Fences\<close>

lemma keeps_benign:
  "(\<And>r. same_identity r (f r) \<and> rr_state (f r) = rr_state r) \<Longrightarrow> keeps.within (modify (update_runner j f))"
  by (rule keeps.within_modify) (auto intro: benign)

lemma keeps_moved:
  "movable j \<Longrightarrow> (\<And>r. same_identity r (f r)) \<Longrightarrow> keeps.within (modify (update_runner j f))"
  by (rule keeps.within_modify) (auto intro: moved)

lemma keeps_persist_fences: "keeps.within (persistPendingRegistrationFences w' records)"
  unfolding persistPendingRegistrationFences_def Let_def
  by (intro steps keeps_ordinary keeps_frame) (simp_all add: same_workers_def)

lemma keeps_put_fence: "keeps.within (modify (put_fence record t))"
proof (rule keeps.within_modify, rule impI)
  fix s assume "I s"
  then have "I (s\<lparr>sc_pendingFences := p, sc_blocking := b\<rparr>)" for p b
    by (rule frame [rotated]) (simp add: same_workers_def)
  then show "I (put_fence record t s)"
    unfolding put_fence_def by (rule benign [rotated]) (simp add: same_identity_def)
qed

lemma keeps_begin_fence: "keeps.within (beginPendingRegistrationFence w' r p now)"
  unfolding beginPendingRegistrationFence_def by (intro steps keeps_put_fence keeps_persist_fences)

lemma keeps_prepare_fence: "keeps.within (preparePendingRegistrationFenceRetry w' r now)"
  unfolding preparePendingRegistrationFenceRetry_def
  by (intro steps keeps_put_fence keeps_persist_fences)

lemma keeps_resolve_fence: "keeps.within (resolvePendingRegistrationFence w' k reason)"
proof -
  have "keeps.within (modify (\<lambda>s. update_runner k (\<lambda>r. r\<lparr>rr_fenceAttempts := 0, rr_fenceRetryAt := None\<rparr>)
      (s\<lparr>sc_pendingFences := mdel (sc_pendingFences s) k\<rparr>)))"
  proof (rule keeps.within_modify, rule impI)
    fix s assume "I s"
    then have "I (s\<lparr>sc_pendingFences := mdel (sc_pendingFences s) k\<rparr>)"
      by (rule frame [rotated]) (simp add: same_workers_def)
    then show "I (update_runner k (\<lambda>r. r\<lparr>rr_fenceAttempts := 0, rr_fenceRetryAt := None\<rparr>)
        (s\<lparr>sc_pendingFences := mdel (sc_pendingFences s) k\<rparr>))"
      by (rule benign [rotated]) (simp add: same_identity_def)
  qed
  then show ?thesis
    unfolding resolvePendingRegistrationFence_def by (intro steps keeps_persist_fences)
qed

lemma keeps_fence_failure: "keeps.within (recordPendingRegistrationFenceFailure r e)"
  unfolding recordPendingRegistrationFenceFailure_def by (rule keeps_diagnose)

lemmas fence_steps = steps keeps_begin_fence keeps_prepare_fence keeps_resolve_fence
  keeps_fence_failure keeps_removeRunner

lemma keeps_draining: "movable j \<Longrightarrow> keeps.within (mark_draining w' j)"
  unfolding mark_draining_def
  by (intro steps keeps_moved keeps_ordinary) (simp_all add: same_identity_def)

lemma keeps_restore: "movable (rr_key p) \<Longrightarrow> keeps.within (restore_runner w' p)"
  unfolding restore_runner_def
  by (intro steps keeps_moved keeps_ordinary) (simp_all add: same_identity_def)

lemma keeps_undo: "movable (rr_key p) \<Longrightarrow> keeps.within (undo_draining w' p e)"
  unfolding undo_draining_def
  by (intro steps keeps_moved) (simp_all add: same_identity_def)

lemma keeps_cleanup_pending: "movable j \<Longrightarrow> keeps.within (mark_cleanup_pending w' j removed)"
  unfolding mark_cleanup_pending_def
  by (intro steps keeps_moved keeps_ordinary) (simp_all add: same_identity_def)

lemma keeps_registration_removed: "keeps.within (mark_registration_removed w' j)"
  unfolding mark_registration_removed_def
  by (intro steps keeps_benign) (simp add: same_identity_def)

lemma keeps_stop_removed: "movable (rr_key r) \<Longrightarrow> keeps.within (stop_removed w r removed)"
  unfolding stop_removed_def
  by (intro fence_steps keeps_ordinary keeps_cleanup_pending settled) simp_all

lemma keeps_fenced_retry: "movable (rr_key r) \<Longrightarrow> keeps.within (fenced_retry w record r)"
  unfolding fenced_retry_def
  by (intro fence_steps keeps_draining keeps_restore keeps_undo keeps_registration_removed
      keeps_stop_removed keeps_ordinary; simp)

lemma keeps_orphaned: "keeps.within (orphaned_fence w' record)"
  unfolding orphaned_fence_def
  by (intro fence_steps keeps_begin_cleanup keeps_attempt_cleanup)

lemma keeps_retry_fence: "keeps.within (retryPendingRegistrationFence w record)"
  unfolding retryPendingRegistrationFence_def
proof (rule keeps_bind_gets, goal_cases)
  case (1 s)
  have mov: "movable (rr_key r)"
    if "runner_at k (id s) = Some r" "\<not> (rr_state r = runnerBusy \<or> b)" for k r b
    using idle_movable [OF 1, of r] runner_at_key [OF that(1)] that(2) by simp
  show ?case
    by (intro keeps_option keeps_if keeps_orphaned fence_steps keeps_fenced_retry) (erule (1) mov)
qed

lemma keeps_retry_fences: "keeps.within (retryPendingRegistrationFences w)"
  unfolding retryPendingRegistrationFences_def retry_fence_if_due_def
  by (intro steps keeps_retry_fence)

lemma keeps_retry_cleanup: "keeps.within (retryCleanupPending w)"
  unfolding retryCleanupPending_def cleanup_pending_runner_def
  by (intro steps keeps_bind_gets keeps_for_each keeps_ordinary settled)
    (auto intro: idle_movable)

lemma keeps_retire_stale: "keeps.within (retire_stale w c)"
  unfolding retire_stale_def
proof (rule keeps_bind_gets, goal_cases)
  case (1 s)
  have mov: "movable (rr_key c)" "movable (rr_key r)"
    if "runner_at (rr_key c) s = Some r" "\<not> \<not> stale_candidate r" for r
    using idle_movable [OF 1, of r] runner_at_key [OF that(1)] that(2)
    by (simp_all add: stale_candidate_def)
  show ?case
    apply (rule keeps_option)
     apply (rule keeps.within_return)
    apply (rule keeps_if)
     apply (rule keeps.within_return)
    subgoal for r
      using mov [of r]
      by (intro fence_steps keeps_draining keeps_restore keeps_undo keeps_stop_removed keeps_ordinary)
        simp_all
    done
qed

lemma keeps_retire: "keeps.within (retireStaleRunners w)"
  unfolding retireStaleRunners_def by (intro steps keeps_retire_stale)

section \<open>Exits and liveness\<close>

lemma keeps_settle_exit: "movable (rr_key r) \<Longrightarrow> keeps.within (settle_exit w r d u reg)"
  unfolding settle_exit_def
  by (intro steps settled keeps_frame keeps_attempt_cleanup keeps_ordinary)
    (simp_all add: same_workers_def)

lemma find_by_container:
  "run_state (findRunnerByContainerLocked w c) s = (Some r, s')
    \<Longrightarrow> r \<in> set (sc_runners s) \<and> rr_containerID r = c"
  by (auto simp: findRunnerByContainerLocked_def set_runners_in dest: find_mem)

lemma keeps_exit:
  assumes "\<And>s r. I s \<Longrightarrow> r \<in> set (sc_runners s) \<Longrightarrow> rr_containerID r = c \<Longrightarrow> movable (rr_key r)"
  shows "keeps.within (exit_locked w c code)"
proof -
  have evidence: "keeps.within (captureExitEvidence w c code)"
    unfolding captureExitEvidence_def by (intro steps keeps_ordinary) simp
  have retry: "keeps.within (scheduleExitRetry w)"
    unfolding scheduleExitRetry_def Let_def
    by (intro steps keeps_frame keeps_ordinary) (simp_all add: same_workers_def)
  have found: "\<forall>r. a = Some r \<longrightarrow> movable (rr_key r)"
    if "I s" "run_state (findRunnerByContainerLocked w c) s = (a, s')" for s a s'
    using that find_by_container assms by blast
  show ?thesis
    unfolding exit_locked_def Let_def
    apply (rule keeps.within_bind [OF evidence])
    apply (rule keeps_bind_result [OF found keeps_find(1)], assumption, assumption)
    apply (rule keeps_option, rule keeps.within_return)
    by (intro steps retry keeps_begin_cleanup keeps_settle_exit keeps_moved keeps_frame keeps_ordinary)
      (simp_all add: same_workers_def same_identity_def)
qed

lemma keeps_liveness: "keeps.within (reconcileContainerLiveness w)"
proof -
  have "keeps.within (reconcile_liveness w r)" for r
    unfolding reconcile_liveness_def
    apply (rule keeps_bind_ask)
     apply (rule ordinary_loggable, simp)
    apply (rule keeps_probe)
      apply (rule keeps.within_return)
     apply (intro steps keeps_benign, simp add: same_identity_def)
    apply (intro steps keeps_exit gone_movable)
      apply (auto dest: probed)
    done
  then show ?thesis unfolding reconcileContainerLiveness_def by (intro steps)
qed

section \<open>Adoption and scaling down\<close>

lemma keeps_adoptions: "keeps.within (retryPendingHostLeaseAdoptions w')"
  unfolding retryPendingHostLeaseAdoptions_def retry_adoption_def confirm_adoption_def Let_def
  by (intro steps keeps_ordinary keeps_benign) (simp_all add: same_identity_def)

lemma keeps_remove_candidate:
  assumes "movable (rr_key c)"
  shows "keeps.within (remove_candidate w c)"
proof -
  have key: "rr_key (case runner_at (rr_key c) s of Some r \<Rightarrow> r | None \<Rightarrow> c) = rr_key c" for s
    using runner_at_key by (auto split: option.split)
  show ?thesis
    unfolding remove_candidate_def
    apply (rule keeps.within_bind [OF keeps_draining [OF assms]])
    apply (rule keeps_bind_gets)
    by (intro fence_steps keeps_restore keeps_undo keeps_stop_removed keeps_frame keeps_ordinary)
      (simp_all add: assms key same_workers_def)
qed

lemma keeps_round: "keeps.within (scale_down_round w)"
  unfolding scale_down_round_def
proof (rule keeps_bind_gets, goal_cases)
  case (1 s)
  have "movable (rr_key c)" if "scale_down_candidate s = Some c" for c
  proof -
    from candidate_waits [OF that] obtain r where
      "r \<in> set (sc_runners s)" "rr_key r = rr_key c" "rr_state r \<noteq> runnerBusy" by auto
    with idle_movable [OF 1, of r] show ?thesis by simp
  qed
  then show ?case
    by (intro keeps_option keeps_if keeps_remove_candidate steps keeps_frame keeps_ordinary)
      (simp_all add: same_workers_def)
qed

lemma keeps_scale_down: "keeps.within (State (scale_down w errs))"
proof -
  have "I s \<Longrightarrow> I (snd (scale_down w' errs s))" if "w' = w" for w' s
    using that
  proof (induction w' errs s rule: scale_down.induct)
    case (1 w' errs s)
    obtain a t where run: "run_state (scale_down_round w') s = (a, t)" by fastforce
    have "I t" using keeps.within_run [OF keeps_round, of s a t] run 1(2,3) by simp
    with 1 run show ?case
      by (subst scale_down.simps) (auto split: sum.split)
  qed
  then show ?thesis by (simp add: keeps.within_def)
qed

lemma keeps_begin_scale_down: "keeps.within (begin_scale_down w errs)"
  unfolding begin_scale_down_def setProfileAdmissionDemand_def
  by (intro steps keeps_scale_down keeps_frame keeps_ordinary) (simp_all add: same_workers_def)

lemma keeps_withdraw: "keeps.within withdraw_demand"
  unfolding withdraw_demand_def setProfileAdmissionDemand_def by (intro steps keeps_ordinary) simp_all

lemma keeps_blocked_pass: "keeps.within (blocked_pass evidence errs)"
  unfolding blocked_pass_def by (intro steps keeps_withdraw)

section \<open>Launching\<close>

lemma keeps_record_launch:
  "keeps.within (recordLaunchFailure w' k reason evidence t)" "keeps.within (recordLaunchOutcome w' k t)"
  unfolding recordLaunchFailure_def recordLaunchOutcome_def by (intro steps)+

lemma keeps_launch_failed:
  "keeps.within (host_admission_failed operation outcome e)"
  "keeps.within (docker_launch_failed w' k evidence e t)"
  unfolding host_admission_failed_def docker_launch_failed_def
  by (intro steps keeps_record_launch)+

lemma keeps_abandon: "la_slotKey la \<noteq> [] \<Longrightarrow> keeps.within (abandonLaunch w la cid cn e)"
  unfolding abandonLaunch_def
  by (intro steps keeps_remove_registration keeps_ordinary enqueued) simp_all

lemma keeps_release_if_leased: "n \<noteq> [] \<Longrightarrow> keeps.within (release_if_leased w n h)"
  unfolding release_if_leased_def by (intro steps enqueued) simp

lemma keeps_next_name: "keeps.within (nextRunnerName w')"
  unfolding nextRunnerName_def Let_def by (intro steps keeps_ordinary) simp

lemma next_name_nonempty: "run_state (nextRunnerName w') s = (Inr n, s') \<Longrightarrow> n \<noteq> []"
  by (auto simp: nextRunnerName_def Let_def split: sum.splits)

text \<open>The start of a launch, down to the part that follows the acquired lease.\<close>

lemma keeps_start_runner:
  assumes "\<And>n h t. n \<noteq> [] \<Longrightarrow> keeps.within (start_admitted w n h t)"
  shows "keeps.within (startRunner w)"
proof -
  have name: "\<forall>n. a = Inr n \<longrightarrow> n \<noteq> []" if "run_state (nextRunnerName w) s = (a, s')" for s a s'
    using that next_name_nonempty by blast
  show ?thesis
    unfolding startRunner_def
    apply (rule keeps_bind_result [OF name keeps_next_name], assumption)
    apply (rule keeps_sum, rule keeps.within_return)
    by (intro steps keeps_record_launch keeps_ordinary assms) simp_all
qed

end

text \<open>
  An invariant that survives a launch survives reconciliation, and with it every operation that
  steers the target.
\<close>

locale launching_invariant = worker_invariant +
  assumes started: "keeps.within (startRunner w)"
begin

lemma keeps_launch_retry: "keeps.within (scheduleLaunchRetry w')" "keeps.within clearLaunchRetry"
  unfolding scheduleLaunchRetry_def clearLaunchRetry_def Let_def
  by (intro steps keeps_frame keeps_ordinary; simp add: same_workers_def)+

lemma keeps_launch_workers: "keeps.within (launch_workers w n errs)"
proof (induction n)
  case (Suc n)
  show ?case
    unfolding launch_workers.simps
    by (intro steps started Suc.IH keeps_launch_retry keeps_ordinary) simp_all
next
  case 0
  show ?case unfolding launch_workers.simps by (intro steps keeps_ordinary) simp_all
qed

lemma keeps_scale_up: "keeps.within (scale_up w adopted e current target errs)"
  unfolding scale_up_def reserve_workers_def setProfileAdmissionDemand_def
  by (intro steps keeps_launch_workers keeps_ordinary) simp_all

lemma keeps_adjust: "keeps.within (adjust_capacity w adopted e errs)"
  unfolding adjust_capacity_def
  by (intro steps keeps_scale_up keeps_withdraw keeps_begin_scale_down keeps_frame)
    (simp add: same_workers_def)

lemma keeps_pace: "keeps.within (pace_capacity w adopted e pending errs)"
  unfolding pace_capacity_def
  by (intro steps keeps_blocked_pass keeps_launch_retry keeps_adjust keeps_frame)
    (simp add: same_workers_def)

lemma keeps_reconcile: "keeps.within (reconcileLocked w)"
  unfolding reconcileLocked_def reconcile_open_def setProfileAdmissionDemand_def
  by (intro steps keeps_withdraw keeps_adoptions keeps_retry_intent keeps_retry_releases
      keeps_retry_registrations keeps_retry_fences keeps_retry_cleanup keeps_retire keeps_liveness
      keeps_pace keeps_ordinary) simp

lemma keeps_desired_count: "keeps.within (HandleDesiredRunnerCount w n)"
  unfolding HandleDesiredRunnerCount_def
  by (intro steps keeps_reconcile keeps_frame keeps_ordinary)
    (simp_all add: same_workers_def retarget_def)

lemma keeps_set_maximum: "keeps.within (setMaximum w n)"
  unfolding setMaximum_def
  by (intro steps keeps_reconcile keeps_frame keeps_ordinary)
    (simp_all add: same_workers_def retarget_def set_maximum_def)

lemma keeps_retirement: "keeps.within (beginRetirement w)"
  unfolding beginRetirement_def
  by (intro steps keeps_reconcile keeps_frame keeps_ordinary) (simp_all add: same_workers_def)

lemma keeps_tick: "keeps.within (tick w)"
  unfolding tick_def by (intro steps keeps_reconcile keeps_ordinary) simp

lemma keeps_reactivate:
  assumes "\<And>s. I s \<Longrightarrow> ts_key target = ts_key (sc_target s)"
  shows "keeps.within (reactivate w target)"
proof -
  have "keeps.within (modify (\<lambda>s. (retarget (s\<lparr>sc_retiring := False, sc_target := target\<rparr>))
      \<lparr>sc_scaleDownAt := None\<rparr>))"
  proof (rule keeps.within_modify, rule impI)
    fix s assume "I s"
    from assms [OF this] show "I ((retarget (s\<lparr>sc_retiring := False, sc_target := target\<rparr>))\<lparr>sc_scaleDownAt := None\<rparr>)"
      by (intro frame [OF _ \<open>I s\<close>]) (simp add: same_workers_def retarget_def)
  qed
  then show ?thesis
    unfolding reactivate_def by (intro steps keeps_reconcile keeps_ordinary) simp
qed

lemma keeps_statistics: "keeps.within (RecordStatistics w' st)"
  unfolding RecordStatistics_def
  by (intro steps keeps_frame keeps_ordinary) (simp_all add: same_workers_def)

lemma keeps_container_exit:
  assumes "\<And>s r. I s \<Longrightarrow> r \<in> set (sc_runners s) \<Longrightarrow> rr_containerID r = c \<Longrightarrow> movable (rr_key r)"
  shows "keeps.within (handleContainerExit w c code)"
  unfolding handleContainerExit_def
  by (intro steps keeps_exit assms keeps_reconcile keeps_ordinary) simp_all

end

end
