(* ===== verification/Scaler_Launch.thy ===== *)
theory Scaler_Launch
  imports Scaler_Invariants
begin

text \<open>
  Invariants that no call breaks and that admit new runners: a launch keeps them, and where every
  runner may change state so does every other operation of the scaler.
\<close>

section \<open>Launches\<close>

locale open_invariant = worker_invariant +
  fixes insertable :: "string \<Rightarrow> bool"
  assumes any_call: "loggable c"
    and inserted: "insertable (rr_key r) \<Longrightarrow> I s \<Longrightarrow> I (insert_runner r s)"
    and jit_insertable: "I s \<Longrightarrow> w_jit w (sc_trace s @ [(durable s, GenerateJIT i n)]) = Inr j \<Longrightarrow> I s'
      \<Longrightarrow> insertable (ts_key (sc_target s') @ ''-'' @ show_int (jr_runnerID j))"
begin

lemmas calls = keeps_ask [OF any_call] keeps_tell [OF any_call]

lemma keeps_finish_launch:
  assumes "insertable (la_slotKey la)" "la_slotKey la \<noteq> []"
  shows "keeps.within (finish_launch w la c cn)"
proof -
  have insert: "keeps.within (modify (insert_runner r))" if "rr_key r = la_slotKey la" for r
    by (rule keeps.within_modify) (simp add: inserted assms that)
  show ?thesis
    unfolding finish_launch_def
    apply (rule keeps.within_bind [OF keeps_clock])
    apply (rule keeps_bind_gets)
    by (intro steps keeps_remove_registration keeps_clear_intent keeps_record_launch enqueued insert calls)
      (simp_all add: assms launched_runner_def registration_of_def identity_record_def)
qed

lemma keeps_launch_container:
  assumes "insertable (la_slotKey la)" "la_slotKey la \<noteq> []"
  shows "keeps.within (launch_container w la)"
  unfolding launch_container_def launch_leased_def launch_unleased_def Let_def
  by (intro steps keeps_remove_registration enqueued keeps_abandon keeps_launch_failed
      keeps_finish_launch calls) (simp_all add: assms)

lemma keeps_launch_registered:
  assumes "\<And>s. I s \<Longrightarrow> insertable (ts_key (sc_target s) @ ''-'' @ show_int (jr_runnerID j))"
  shows "keeps.within (launch_registered w n h t j)"
  unfolding launch_registered_def Let_def
  apply (rule keeps_bind_gets)
  by (intro steps keeps_remove_registration enqueued keeps_launch_container calls) (use assms in simp_all)

lemma keeps_start_admitted:
  assumes "n \<noteq> []" shows "keeps.within (start_admitted w n h t)"
  unfolding start_admitted_def
  apply (rule keeps.within_bind [OF keeps_clock], rule keeps.within_bind [OF keeps_intents(1)])
  apply (rule keeps_option, rule keeps.within_bind [OF keeps.within_gets])
   apply (rule keeps_bind_ask [OF any_call], rule keeps_sum)
    apply (intro steps keeps_release_if_leased [OF assms] keeps_record_launch)
   apply (intro steps keeps_release_if_leased [OF assms] keeps_intents keeps_launch_registered)
   apply (erule (2) jit_insertable)
  by (intro steps keeps_release_if_leased [OF assms])

lemma keeps_start: "keeps.within (startRunner w)"
  by (intro keeps_start_runner keeps_start_admitted)

end

sublocale open_invariant \<subseteq> launching_invariant
  by unfold_locales (rule keeps_start)

section \<open>Handlers, recovery and shutdown\<close>

locale admitting_invariant = launching_invariant +
  assumes all_movable: "movable j"
    and recovered_inserted: "I s \<Longrightarrow> runner_at (rr_key r) s = None \<Longrightarrow> rr_key r \<noteq> [] \<Longrightarrow> I (insert_runner r s)"
begin

lemma keeps_update: "(\<And>r. same_identity r (f r)) \<Longrightarrow> keeps.within (modify (update_runner j f))"
  by (rule keeps_moved [OF all_movable])

lemma keeps_job_started: "keeps.within (HandleJobStarted w' job)"
  unfolding HandleJobStarted_def
  by (intro steps keeps_find keeps_update keeps_ordinary)
    (simp_all add: same_identity_def started_runner_def)

lemma keeps_job_completed: "keeps.within (HandleJobCompleted w' job)"
  unfolding HandleJobCompleted_def setProfileAdmissionDemand_def
  by (intro steps keeps_find keeps_update keeps_ordinary)
    (simp_all add: same_identity_def completed_runner_def)

lemma keeps_any_exit: "keeps.within (handleContainerExit w c code)"
  by (rule keeps_container_exit) (rule all_movable)

lemma keeps_confirm: "keeps.within (confirmContainerRunning w' c)"
  unfolding confirmContainerRunning_def
  by (intro steps keeps_find keeps_update) (simp add: same_identity_def)

lemma keeps_log_state: "keeps.within (applyLogState w' c st t)"
  unfolding applyLogState_def
  by (intro steps keeps_find keeps_update keeps_ordinary)
    (simp_all add: same_identity_def log_transition_def)

lemma keeps_log_signal: "keeps.within (handleLogSignal w' c line)"
  unfolding handleLogSignal_def by (intro steps keeps_log_state)

lemma keeps_shutdown_idle: "keeps.within (shutdown_idle_runners w rs)"
proof (induction rs)
  case (Cons r rs)
  show ?case
    unfolding shutdown_idle_runners.simps shutdown_idle_def
    by (intro fence_steps Cons.IH settled all_movable keeps_ordinary) simp
qed (simp add: keeps.within_return)

lemma keeps_shutdown: "keeps.within (shutdown w)"
  unfolding shutdown_def shutdown_remaining_def
  by (intro steps keeps_shutdown_idle settled all_movable keeps_frame keeps_ordinary)
    (simp_all add: same_workers_def)

lemma keeps_discard: "re_slotKey c \<noteq> [] \<Longrightarrow> keeps.within (discardUnstartedContainer w c slot e)"
  unfolding discardUnstartedContainer_def
  by (intro steps keeps_remove_registration enqueued keeps_ordinary) simp_all

lemma keeps_bind_state:
  "(\<And>s. I s \<Longrightarrow> I (snd (run_state (g s) s))) \<Longrightarrow> keeps.within (State_Monad.bind (gets id) g)"
  by (simp add: keeps.within_def)

lemma state_if:
  "(b \<Longrightarrow> I (snd (run_state m s))) \<Longrightarrow> (\<not> b \<Longrightarrow> I (snd (run_state n s)))
    \<Longrightarrow> I (snd (run_state (if b then m else n) s))"
  by simp

lemma keeps_insert_absent:
  assumes "\<And>u. keeps.within (g u)" "I s" "runner_at (rr_key r) s = None" "rr_key r \<noteq> []"
  shows "I (snd (run_state (State_Monad.bind (modify (insert_runner r)) g) s))"
  using assms(1) [unfolded keeps.within_def] recovered_inserted [OF assms(2-4)] by simp

lemma keeps_insert_recovered:
  assumes "re_slotKey c \<noteq> []" shows "keeps.within (insertRecoveredRunner w c replay adopted)"
proof -
  have replay: "keeps.within (replay_logs w c a b)" for a b
    unfolding replay_logs_def by (intro steps keeps_log_state keeps_ordinary) simp_all
  have key: "rr_key (recovered_runner c adopted a b d s) = re_slotKey c" for a b d s
    by (simp add: recovered_runner_def identity_record_def)
  show ?thesis
    unfolding insertRecoveredRunner_def Let_def
    apply (rule keeps.within_bind)
     apply (intro steps)
    apply (rule keeps.within_bind [OF keeps_clock], rule keeps.within_bind [OF keeps_clock])
    apply (rule keeps_bind_gets)
    apply (rule keeps_bind_state)
    apply (rule state_if, simp)
    apply (rule state_if, simp)
    apply (rule keeps_insert_absent)
       apply (intro steps replay keeps_ordinary)
    by (simp_all add: key assms split: option.split)
qed

lemma keeps_recover_running: "re_slotKey c \<noteq> [] \<Longrightarrow> keeps.within (recoverRunning w c)"
  unfolding recoverRunning_def adopt_running_def Let_def
  by (intro steps keeps_insert_recovered keeps_ordinary) simp_all

end

section \<open>Runs of a scaler\<close>

text \<open>
  What happens to a scaler: the calls of the listener and of the manager, and what the monitors
  of its containers report. Each event runs to its end before the next, under the operation gate.
\<close>

datatype scaler_event =
    DesiredCount int
  | Statistics "scalerStatistics option"
  | SetMaximum int
  | BeginRetirement
  | Reactivate targetSpec
  | Tick
  | JobStarted "jobMessage option"
  | JobCompleted "jobMessage option"
  | ContainerExit string "int option"
  | ContainerAlive string
  | LogLine string string
  | Recover recoveredContainer
  | Shutdown

fun scaler_step :: "world \<Rightarrow> scaler_event \<Rightarrow> unit op" where
  "scaler_step w (DesiredCount n) = do { HandleDesiredRunnerCount w n; done_with () }"
| "scaler_step w (Statistics st) = RecordStatistics w st"
| "scaler_step w (SetMaximum n) = do { setMaximum w n; done_with () }"
| "scaler_step w BeginRetirement = do { beginRetirement w; done_with () }"
| "scaler_step w (Reactivate target) = do { reactivate w target; done_with () }"
| "scaler_step w Tick = do { tick w; done_with () }"
| "scaler_step w (JobStarted job) = do { HandleJobStarted w job; done_with () }"
| "scaler_step w (JobCompleted job) = do { HandleJobCompleted w job; done_with () }"
| "scaler_step w (ContainerExit c code) = handleContainerExit w c code"
| "scaler_step w (ContainerAlive c) = do { confirmContainerRunning w c; done_with () }"
| "scaler_step w (LogLine c line) = handleLogSignal w c line"
| "scaler_step w (Recover c) = do { scaler_recover w c; done_with () }"
| "scaler_step w Shutdown = do { shutdown w; done_with () }"

fun scaler_run :: "world \<Rightarrow> scaler_event list \<Rightarrow> unit op" where
  "scaler_run w [] = done_with ()"
| "scaler_run w (e # es) = do { scaler_step w e; scaler_run w es }"

text \<open>
  The manager reactivates a scaler only with the target it was built for, and Docker lists only
  containers with a slot label.
\<close>

fun event_ok :: "string \<Rightarrow> scaler_event \<Rightarrow> bool" where
  "event_ok tk (Reactivate target) \<longleftrightarrow> ts_key target = tk"
| "event_ok tk (Recover c) \<longleftrightarrow> re_slotKey c \<noteq> []"
| "event_ok tk _ \<longleftrightarrow> True"

text \<open>The events that only steer the target, and never report on one of its workers.\<close>

fun steering :: "string \<Rightarrow> scaler_event \<Rightarrow> bool" where
  "steering tk (DesiredCount n) \<longleftrightarrow> True"
| "steering tk (Statistics st) \<longleftrightarrow> True"
| "steering tk (SetMaximum n) \<longleftrightarrow> True"
| "steering tk BeginRetirement \<longleftrightarrow> True"
| "steering tk (Reactivate target) \<longleftrightarrow> ts_key target = tk"
| "steering tk Tick \<longleftrightarrow> True"
| "steering tk _ \<longleftrightarrow> False"

context launching_invariant
begin

lemma keeps_steering:
  assumes "\<And>s. I s \<Longrightarrow> ts_key (sc_target s) = tk" "list_all (steering tk) es"
  shows "keeps.within (scaler_run w es)"
  using assms(2)
proof (induction es)
  case (Cons e es)
  have "keeps.within (scaler_step w e)"
  proof (cases e)
    case (Reactivate target)
    then show ?thesis using keeps_reactivate [of target] assms(1) Cons.prems by (auto intro!: steps)
  qed (use Cons.prems in \<open>simp_all add: keeps.within_bind keeps.within_return keeps_desired_count
      keeps_statistics keeps_set_maximum keeps_retirement keeps_tick\<close>)
  with Cons show ?case by (auto intro!: keeps.within_bind)
qed (simp add: keeps.within_return)

end

locale settling_invariant = admitting_invariant +
  fixes tk :: string and recoverable :: "recoveredContainer \<Rightarrow> bool"
  assumes target_key: "I s \<Longrightarrow> ts_key (sc_target s) = tk"
    and created_recovered:
      "recoverable cont \<Longrightarrow> re_slotKey cont \<noteq> [] \<Longrightarrow> keeps.within (recoverCreated w cont)"
begin

lemma keeps_recover:
  "recoverable c \<Longrightarrow> re_slotKey c \<noteq> [] \<Longrightarrow> keeps.within (scaler_recover w c)"
  unfolding scaler_recover_def by (intro steps created_recovered keeps_recover_running)

lemma keeps_step:
  assumes "event_ok tk e" "\<And>c. e = Recover c \<Longrightarrow> recoverable c"
  shows "keeps.within (scaler_step w e)"
proof (cases e)
  case (Reactivate target)
  then show ?thesis
    using keeps_reactivate [of target] target_key assms(1) by (auto intro!: steps)
qed (use assms in \<open>simp_all add: keeps.within_bind keeps.within_return keeps_desired_count keeps_statistics
    keeps_set_maximum keeps_retirement keeps_tick keeps_job_started keeps_job_completed
    keeps_any_exit keeps_confirm keeps_log_signal keeps_recover keeps_shutdown\<close>)

lemma keeps_run:
  "list_all (event_ok tk) es \<Longrightarrow> (\<And>c. Recover c \<in> set es \<Longrightarrow> recoverable c)
     \<Longrightarrow> keeps.within (scaler_run w es)"
  by (induction es) (auto intro!: keeps.within_return keeps.within_bind keeps_step)

end

text \<open>Where no call breaks the invariant, recovering a created container needs no law of its own.\<close>

locale open_settling_invariant = open_invariant +
  fixes tk :: string
  assumes moves: "movable j"
    and absent_inserted: "I s \<Longrightarrow> runner_at (rr_key r) s = None \<Longrightarrow> rr_key r \<noteq> [] \<Longrightarrow> I (insert_runner r s)"
    and same_target: "I s \<Longrightarrow> ts_key (sc_target s) = tk"

sublocale open_settling_invariant \<subseteq> admitting_invariant
  by unfold_locales (rule moves, rule absent_inserted)

sublocale open_settling_invariant \<subseteq> settling_invariant where recoverable = "\<lambda>_. True"
proof unfold_locales
  fix cont :: recoveredContainer assume "re_slotKey cont \<noteq> []"
  then show "keeps.within (recoverCreated w cont)"
    unfolding recoverCreated_def start_recovered_def Let_def
    by (intro steps keeps_discard keeps_insert_recovered calls)
qed (rule same_target)

context open_settling_invariant
begin

lemma keeps_any_run: "list_all (event_ok tk) es \<Longrightarrow> keeps.within (scaler_run w es)"
  by (rule keeps_run) simp_all

end

end
