(* ===== verification/Scaler_Example.thy ===== *)
theory Scaler_Example
  imports Scaler_Launch
begin

text \<open>
  One concrete scaler, for the examples beside the properties: a target with room for two workers,
  services that answer without an error, and runner identifiers that grow with the calls made.
\<close>

definition example_config :: config where
  "example_config =
     \<lparr>cf_accessToken = ''t'', cf_githubApp = \<lparr>ga_clientID = [], ga_privateKeyPath = []\<rparr>,
      cf_profileID = ''p'', cf_runnerImage = ''img'', cf_workerRevision = ''r'', cf_sessionOwner = ''o'',
      cf_assumeUnversioned = False, cf_scope = ''repo'', cf_organization = [], cf_enterprise = [],
      cf_namePrefix = ''n'', cf_labels = [], cf_noDefaultLabels = False, cf_runnerGroup = [],
      cf_stateDirectory = ''/s'', cf_minimumIdle = 0, cf_maximumActiveWorkers = 0,
      cf_workerImageID = [],
      cf_resources = \<lparr>wr_memoryBytes = None, wr_memorySwapBytes = None, wr_cpuCores = [], wr_pids = None\<rparr>,
      cf_runtime = \<lparr>rt_devices = [], rt_sharedMemoryBytes = None, rt_dockerMode = [], rt_dockerStorageBytes = None\<rparr>,
      cf_externalVolumes = [], cf_serviceNetwork = [], cf_scaleDownDelay = 0, cf_observedInterval = 0,
      cf_architectureLabel = [], cf_legacyRepositoryURLs = [], cf_legacyRepositoryURL = [],
      cf_legacyReplicas = [],
      cf_hostAdmission = \<lparr>hc_enabled = True, hc_namespace = [], hc_socketPath = [],
        hc_hostFingerprint = [], hc_profileFingerprint = []\<rparr>\<rparr>"

definition example_target :: targetSpec where
  "example_target = \<lparr>ts_key = ''t'', ts_registrationURL = ''u'', ts_repository = ''u'', ts_maximum = 2,
     ts_scaleSetName = ''s''\<rparr>"

definition example_files :: durable_files where
  "example_files = \<lparr>df_cleanups = NoStateFile, df_fences = NoStateFile, df_intent = NoStateFile,
     df_releases = NoStateFile\<rparr>"

definition example_world :: world where
  "example_world =
     \<lparr>w_err = (\<lambda>_. None), w_now = (\<lambda>_. 0), w_order = (\<lambda>_. []), w_text = (\<lambda>_. Inr ''c''),
      w_jit = (\<lambda>t. Inr \<lparr>jr_runnerID = int (length t), jr_runnerName = ''w'', jr_encoded = ''e''\<rparr>),
      w_find = (\<lambda>_. Inr None), w_running = (\<lambda>_. Inr True), w_exit = (\<lambda>_. None),
      w_logs = (\<lambda>_. Inr []), w_granted = (\<lambda>_. 1), w_release = (\<lambda>_. None), w_save = (\<lambda>_. Saved),
      w_signal = (\<lambda>_. False), w_unicode = demo_tables\<rparr>"

definition example_job :: jobMessage where
  "example_job = \<lparr>jm_OwnerName = ''o'', jm_RepositoryName = ''r'', jm_JobID = ''1'', jm_WorkflowRunID = 1,
     jm_JobDisplayName = ''d'', jm_EventName = ''e'', jm_QueueTime = 0, jm_ScaleSetAssignTime = 0,
     jm_RunnerAssignTime = 0, jm_RunnerID = 0, jm_RunnerName = ''w'', jm_FinishTime = 0, jm_Result = []\<rparr>"

definition example_run :: "bool \<Rightarrow> scaler_event list \<Rightarrow> runnerScaler" where
  "example_run h es =
     snd (run_state (scaler_run example_world es) (newRunnerScaler example_config h example_target 5 example_files))"

text \<open>The rules that run it.\<close>

lemma logged_settings [simp]:
  "sc_cfg (logged c s) = sc_cfg s" "sc_scaleSetID (logged c s) = sc_scaleSetID s"
  "sc_statistics (logged c s) = sc_statistics s" "sc_scaleDownAt (logged c s) = sc_scaleDownAt s"
  "sc_shuttingDown (logged c s) = sc_shuttingDown s" "sc_retiring (logged c s) = sc_retiring s"
  "sc_cleanupStateError (logged c s) = sc_cleanupStateError s" "sc_fenceStateError (logged c s) = sc_fenceStateError s"
  "sc_launchIntentStateError (logged c s) = sc_launchIntentStateError s" "sc_blocking (logged c s) = sc_blocking s"
  "sc_launchFailures (logged c s) = sc_launchFailures s" "sc_launchRetryAt (logged c s) = sc_launchRetryAt s"
  "sc_exitFailures (logged c s) = sc_exitFailures s" "sc_exitRetryAt (logged c s) = sc_exitRetryAt s"
  by (simp_all add: logged_def)

lemma example_answers [simp]:
  "w_err example_world t = None" "w_now example_world t = 0" "w_text example_world t = Inr ''c''"
  "w_jit example_world t = Inr \<lparr>jr_runnerID = int (length t), jr_runnerName = ''w'', jr_encoded = ''e''\<rparr>"
  "w_granted example_world t = 1" "w_save example_world t = Saved" "w_signal example_world t = False"
  "w_unicode example_world = demo_tables" "w_running example_world t = Inr True" "w_release example_world t = None"
  "w_order example_world t = []"
  by (simp_all add: example_world_def)

lemma example_names [simp]:
  "sanitizeIdentifier demo_tables ''w'' 63 = ''w''" "sanitizeIdentifier demo_tables ''n'' 30 = ''n''"
  "sanitizeIdentifier demo_tables ''t'' 16 = ''t''" "calculateTarget 2 0 0 = 0" "calculateTarget 2 0 1 = 1"
  by code_simp+

lemmas example_setup = newRunnerScaler_def restorePendingRegistrations_def restorePendingFences_def
  restoreLaunchIntent_def restorePendingHostLeaseReleases_def registrationCleanup_load_def
  registrationFence_load_def launchIntent_load_def hostLeaseCleanup_load_def load_records_def
  example_files_def example_target_def example_config_def zeroStatistics_def

lemmas launch_run = startRunner_def nextRunnerName_def start_admitted_def clock_now_def beginLaunchIntent_def
  save_intent_def launchIntent_save_def updateLaunchIntentRunnerID_def launch_registered_def
  launch_container_def launch_leased_def finish_launch_def poll_shutdown_def clearLaunchIntent_def
  launchIntent_clear_def recordLaunchOutcome_def diagnose_def Let_def remove_document_def
  launched_runner_def registration_of_def identity_record_def insert_runner_def

lemmas pass_run = HandleDesiredRunnerCount_def reconcileLocked_def reconcile_open_def registration_state_error_def
  retryPendingHostLeaseAdoptions_def retryPendingLaunchIntent_def retryHostLeaseReleases_def
  retryPendingRegistrations_def pendingRegistrationsLocked_def retryPendingRegistrationFences_def
  pendingRegistrationFencesLocked_def retryCleanupPending_def retireStaleRunners_def
  reconcileContainerLiveness_def pace_capacity_def adjust_capacity_def scale_up_def reserve_workers_def
  capacityCountLocked_def retarget_def clearLaunchRetry_def setBlocking_def setProfileAdmissionDemand_def

lemmas example_eval = example_run_def example_setup launch_run pass_run errors_Join_def List.map_filter_def

text \<open>The first demand launches one worker; its calls come in this order.\<close>

lemma example_launch:
  "length (sc_trace (example_run True [DesiredCount 1])) = 31"
  "snd (sc_trace (example_run True [DesiredCount 1]) ! 13) = GenerateJIT 5 ''n-t-c''"
  "snd (sc_trace (example_run True [DesiredCount 1]) ! 20) = DockerStart ''c''"
  by (simp_all add: example_eval nth_append)

lemma example_runner:
  "map (\<lambda>r. (rr_key r, rr_containerID r, rr_hostSlotKey r, rr_hostLeaseReleased r))
     (sc_runners (example_run True [DesiredCount 1])) = [(''t-'' @ show_int 14, ''c'', ''n-t-c'', False)]"
  by (simp add: example_eval)

text \<open>A job makes it busy.\<close>

definition example_events :: "scaler_event list" where
  "example_events = [DesiredCount 1, JobStarted (Some example_job)]"

lemma example_busy:
  "map (\<lambda>r. (rr_key r, rr_containerID r, rr_state r)) (sc_runners (example_run True example_events))
     = [(''t-'' @ show_int 14, ''c'', runnerBusy)]"
  "length (sc_trace (example_run True example_events)) \<ge> 31" "ts_key (sc_target (example_run True example_events)) = ''t''"
  by (simp_all add: example_eval example_events_def HandleJobStarted_def example_job_def findRunnerLocked_def
      runners_in_def update_runner_def started_runner_def)

end
