(* ===== verification/Scaler_Safety.thy ===== *)
theory Scaler_Safety
  imports Scaler_Example
begin

text \<open>
  What the scaler promises over its runs: a busy worker is not touched by reconciliation, and
  no worker is launched without its durable intent and its host lease.
\<close>

section \<open>Invariants that ignore the release queue\<close>

definition same_runners :: "runnerScaler \<Rightarrow> runnerScaler \<Rightarrow> bool" where
  "same_runners s s' \<longleftrightarrow>
     sc_runners s' = sc_runners s \<and> ts_key (sc_target s') = ts_key (sc_target s)
     \<and> sc_hostAdmission s' = sc_hostAdmission s \<and> sc_trace s' = sc_trace s"

locale unqueued_invariant = state_invariant I loggable
  for I :: "runnerScaler \<Rightarrow> bool" and loggable :: "service_call \<Rightarrow> bool" +
  fixes w :: world and movable :: "string \<Rightarrow> bool" and gone :: "string \<Rightarrow> bool"
  assumes ordinary_calls: "ordinary c \<Longrightarrow> loggable c"
    and unchanged: "same_runners s s' \<Longrightarrow> I s \<Longrightarrow> I s'"
    and update_moved: "movable j \<Longrightarrow> (\<And>r. same_identity r (f r)) \<Longrightarrow> I s \<Longrightarrow> I (update_runner j f s)"
    and update_benign: "(\<And>r. same_identity r (f r) \<and> rr_state (f r) = rr_state r) \<Longrightarrow> I s
      \<Longrightarrow> I (update_runner j f s)"
    and deleted: "movable j \<Longrightarrow> I s \<Longrightarrow> I (delete_runner j s)"
    and waiting_movable: "I s \<Longrightarrow> r \<in> set (sc_runners s) \<Longrightarrow> rr_state r \<noteq> runnerBusy \<Longrightarrow> movable (rr_key r)"
    and exited_movable: "I s \<Longrightarrow> r \<in> set (sc_runners s) \<Longrightarrow> gone (rr_containerID r) \<Longrightarrow> movable (rr_key r)"
    and probed_gone: "I s \<Longrightarrow> w_running w (sc_trace s @ [(durable s, DockerIsRunning cid)]) = Inr False \<Longrightarrow> gone cid"
begin

lemma keeps_call: "ordinary c \<Longrightarrow> keeps.within (ask c answer)" "ordinary c \<Longrightarrow> keeps.within (tell c)"
  by (simp_all add: keeps_ask keeps_tell ordinary_calls)

lemma keeps_queue: "keeps.within (queue_op h)"
  by (rule keeps.within_queue_op) (auto intro: unchanged simp: same_runners_def)

lemma keeps_unchanged: "(\<And>s. same_runners s (f s)) \<Longrightarrow> keeps.within (modify f)"
  by (rule keeps.within_modify) (auto intro: unchanged)

lemma keeps_attempt: "keeps.within (attemptHostLeaseRelease w h)"
  unfolding attemptHostLeaseRelease_def clock_now_def diagnose_def
  by (intro keeps.within_intros keeps_call keeps_queue) simp_all

lemma keeps_enqueue: "keeps.within (releaseLeaseOrEnqueue w key slot)"
  unfolding releaseLeaseOrEnqueue_def clock_now_def
  by (intro keeps.within_intros keeps_call keeps_queue keeps_attempt) simp_all

lemma keeps_settle: "movable (rr_key r) \<Longrightarrow> keeps.within (settleStoppedRunner w r)"
proof -
  assume "movable (rr_key r)"
  then have delete: "keeps.within (modify (delete_runner (rr_key r)))"
    by (intro keeps.within_modify) (auto intro: deleted)
  show ?thesis
    unfolding settleStoppedRunner_def clock_now_def Let_def
    by (intro delete keeps.within_intros keeps_call keeps_queue keeps_attempt keeps_unchanged)
      (simp_all add: same_runners_def)
qed

end

sublocale unqueued_invariant \<subseteq> worker_invariant I loggable w movable gone "\<lambda>_. True"
proof unfold_locales
  fix s s' assume "same_workers s s'"
  then have "same_runners s s'" by (simp add: same_workers_def same_runners_def)
  then show "I s \<Longrightarrow> I s'" by (rule unchanged)
next
  show "movable j \<Longrightarrow> (\<And>r. same_identity r (f r)) \<Longrightarrow> I s \<Longrightarrow> I (update_runner j f s)" for j f s
    by (rule update_moved)
next
  show "(\<And>r. same_identity r (f r) \<and> rr_state (f r) = rr_state r) \<Longrightarrow> I s \<Longrightarrow> I (update_runner j f s)" for f s j
    by (rule update_benign)
qed (erule ordinary_calls, erule (2) waiting_movable, erule (2) exited_movable, erule (1) probed_gone, rule TrueI,
    rule keeps_attempt, rule keeps_enqueue, erule keeps_settle)

section \<open>Busy workers\<close>

text \<open>
  From some moment on the control plane does not hand out the identifier of a registered runner
  again, and Docker does not deny that its container runs.
\<close>

definition fresh_identifiers :: "world \<Rightarrow> trace \<Rightarrow> string \<Rightarrow> string \<Rightarrow> bool" where
  "fresh_identifiers w past tk k \<longleftrightarrow>
     (\<forall>t d i n j. w_jit w (past @ t @ [(d, GenerateJIT i n)]) = Inr j
        \<longrightarrow> tk @ ''-'' @ show_int (jr_runnerID j) \<noteq> k)"

lemma fresh_jit:
  assumes "fresh_identifiers w past tk k" "\<exists>t. all = past @ t" "w_jit w (all @ [(d, GenerateJIT i n)]) = Inr j"
  shows "tk @ ''-'' @ show_int (jr_runnerID j) \<noteq> k"
proof -
  obtain t where "w_jit w (past @ t @ [(d, GenerateJIT i n)]) = Inr j" using assms(2,3) by auto
  with assms(1) show ?thesis unfolding fresh_identifiers_def by blast
qed

definition stays_alive :: "world \<Rightarrow> trace \<Rightarrow> string \<Rightarrow> bool" where
  "stays_alive w past c \<longleftrightarrow> (\<forall>t d. w_running w (past @ t @ [(d, DockerIsRunning c)]) \<noteq> Inr False)"

definition busy_worker :: "string \<Rightarrow> string \<Rightarrow> runnerScaler \<Rightarrow> bool" where
  "busy_worker k c s \<longleftrightarrow>
     distinct (map rr_key (sc_runners s))
     \<and> (\<exists>r \<in> set (sc_runners s). rr_key r = k \<and> rr_containerID r = c \<and> rr_state r = runnerBusy)"

definition spared :: "world \<Rightarrow> trace \<Rightarrow> string \<Rightarrow> string \<Rightarrow> string \<Rightarrow> runnerScaler \<Rightarrow> bool" where
  "spared w past tk k c s \<longleftrightarrow>
     fresh_identifiers w past tk k \<and> stays_alive w past c \<and> (\<exists>t. sc_trace s = past @ t)
     \<and> ts_key (sc_target s) = tk \<and> busy_worker k c s"

lemma distinct_update: "(\<And>r. rr_key (f r) = rr_key r)
  \<Longrightarrow> map rr_key (sc_runners (update_runner j f s)) = map rr_key (sc_runners s)"
  by (simp add: update_runner_def)

lemma busy_update:
  assumes "busy_worker k c s" "\<And>r. same_identity r (f r)" "j = k \<longrightarrow> (\<forall>r. rr_state (f r) = rr_state r)"
  shows "busy_worker k c (update_runner j f s)"
proof -
  have "map rr_key (sc_runners (update_runner j f s)) = map rr_key (sc_runners s)"
    using assms(2) by (intro distinct_update) (simp add: same_identity_def)
  moreover obtain r where r: "r \<in> set (sc_runners s)" "rr_key r = k" "rr_containerID r = c" "rr_state r = runnerBusy"
    using assms(1) by (auto simp: busy_worker_def)
  let ?r = "if rr_key r = j then f r else r"
  have "?r \<in> set (sc_runners (update_runner j f s))" using r(1) by (auto simp: update_runner_def)
  moreover have "rr_key ?r = k" "rr_containerID ?r = c" "rr_state ?r = runnerBusy"
    using r assms(2) [of r] assms(3) by (auto simp: same_identity_def)
  ultimately show ?thesis using assms(1) unfolding busy_worker_def by (intro conjI bexI [of _ ?r]) simp_all
qed

lemma busy_delete: "busy_worker k c s \<Longrightarrow> j \<noteq> k \<Longrightarrow> busy_worker k c (delete_runner j s)"
  by (auto simp: busy_worker_def delete_runner_def distinct_map intro: inj_on_subset)

lemma busy_insert: "busy_worker k c s \<Longrightarrow> rr_key r \<noteq> k \<Longrightarrow> busy_worker k c (insert_runner r s)"
  by (auto simp: busy_worker_def insert_runner_def distinct_map intro: inj_on_subset)

lemma busy_only: "busy_worker k c s \<Longrightarrow> r \<in> set (sc_runners s) \<Longrightarrow> rr_key r = k
  \<Longrightarrow> rr_state r = runnerBusy \<and> rr_containerID r = c"
  by (auto simp: busy_worker_def distinct_map inj_on_def)

interpretation busy: unqueued_invariant "spared w past tk k c" "\<lambda>_. True" w "\<lambda>j. j \<noteq> k" "\<lambda>x. x \<noteq> c"
  for w past tk k c
proof unfold_locales
  show "spared w past tk k c s \<Longrightarrow> spared w past tk k c (logged call s)" for call s
    by (auto simp: spared_def busy_worker_def)
  show "same_runners s s' \<Longrightarrow> spared w past tk k c s \<Longrightarrow> spared w past tk k c s'" for s s'
    by (simp add: spared_def busy_worker_def same_runners_def)
  show "j \<noteq> k \<Longrightarrow> (\<And>r. same_identity r (f r)) \<Longrightarrow> spared w past tk k c s \<Longrightarrow> spared w past tk k c (update_runner j f s)" for j f s
    using busy_update [of k c s f j] by (auto simp: spared_def update_runner_def)
  show "(\<And>r. same_identity r (f r) \<and> rr_state (f r) = rr_state r) \<Longrightarrow> spared w past tk k c s
      \<Longrightarrow> spared w past tk k c (update_runner j f s)" for f s j
    using busy_update [of k c s f j] by (auto simp: spared_def update_runner_def)
  show "j \<noteq> k \<Longrightarrow> spared w past tk k c s \<Longrightarrow> spared w past tk k c (delete_runner j s)" for j s
    using busy_delete [of k c s j] by (auto simp: spared_def delete_runner_def)
qed (auto simp: spared_def stays_alive_def dest: busy_only)

interpretation busy: open_invariant "spared w past tk k c" "\<lambda>_. True" w "\<lambda>j. j \<noteq> k" "\<lambda>x. x \<noteq> c"
  "\<lambda>_. True" "\<lambda>j. j \<noteq> k" for w past tk k c
proof unfold_locales
  show "rr_key r \<noteq> k \<Longrightarrow> spared w past tk k c s \<Longrightarrow> spared w past tk k c (insert_runner r s)" for r s
    using busy_insert [of k c s r] by (auto simp: spared_def insert_runner_def)
  show "spared w past tk k c s \<Longrightarrow> w_jit w (sc_trace s @ [(durable s, GenerateJIT i n)]) = Inr j
      \<Longrightarrow> spared w past tk k c s' \<Longrightarrow> ts_key (sc_target s') @ ''-'' @ show_int (jr_runnerID j) \<noteq> k" for s i n j s'
    using fresh_jit [of w past tk k "sc_trace s"] by (simp add: spared_def)
qed simp

text \<open>
  C8: Whatever the demand does, reconciliation leaves a busy worker alone. Over any sequence of
  demand changes, maximum changes, retirement, reactivation and ticks, with every answer of the
  services, as long as its identifier is not handed out again for a new runner and Docker never
  reports its container as not running, the worker stays in the table, busy, with its container:
  it is not scaled down, not retired as stale, not fenced and not replaced.
\<close>

theorem reconciliation_spares_busy_workers:
  assumes "fresh_identifiers w (sc_trace s) (ts_key (sc_target s)) k" "stays_alive w (sc_trace s) c"
    and "busy_worker k c s"
    and "list_all (steering (ts_key (sc_target s))) es" "run_state (scaler_run w es) s = (u, s')"
  shows "busy_worker k c s'"
proof -
  have "state_relation.within (\<lambda>t t'. spared w (sc_trace s) (ts_key (sc_target s)) k c t
      \<longrightarrow> spared w (sc_trace s) (ts_key (sc_target s)) k c t') (scaler_run w es)"
    by (rule busy.keeps_steering [OF _ assms(4)]) (simp add: spared_def)
  from busy.keeps.within_run [OF this assms(5)] assms(1-3) show ?thesis by (simp add: spared_def)
qed

lemma example_fresh:
  assumes "14 < length past" shows "fresh_identifiers example_world past ''t'' (''t-'' @ show_int 14)"
proof -
  have "show_int (int (length (past @ t @ [e]))) \<noteq> show_int 14" for t e
    using assms show_int_inj [of "int (length (past @ t @ [e]))" 14] by auto
  then show ?thesis by (simp add: fresh_identifiers_def)
qed

theorem reconciliation_spares_busy_workers_witness:
  "\<exists>s' u. run_state (scaler_run example_world [DesiredCount 0, SetMaximum 0, BeginRetirement, Tick])
      (example_run True example_events) = (u, s') \<and> busy_worker (''t-'' @ show_int 14) ''c'' s'"
proof -
  let ?s = "example_run True example_events" and ?es = "[DesiredCount 0, SetMaximum 0, BeginRetirement, Tick]"
  obtain u s' where run: "run_state (scaler_run example_world ?es) ?s = (u, s')" by (meson surj_pair)
  have "busy_worker (''t-'' @ show_int 14) ''c'' ?s"
    using example_busy(1) by (auto simp: busy_worker_def map_eq_Cons_conv)
  moreover have "fresh_identifiers example_world (sc_trace ?s) (ts_key (sc_target ?s)) (''t-'' @ show_int 14)"
    using example_busy(2,3) example_fresh by simp
  moreover have "stays_alive example_world (sc_trace ?s) ''c''" by (simp add: stays_alive_def)
  ultimately have "busy_worker (''t-'' @ show_int 14) ''c'' s'"
    using reconciliation_spares_busy_workers [OF _ _ _ _ run] by simp
  with run show ?thesis by blast
qed

section \<open>Launches\<close>

text \<open>The intent of a launch is on disk, and names the runner.\<close>

definition intent_names :: "string \<Rightarrow> string \<Rightarrow> durable_files \<Rightarrow> bool" where
  "intent_names tk n d \<longleftrightarrow>
     (\<exists>r. launchIntent_load tk (df_intent d) = Inr (Some r) \<and> li_RunnerName r = n)"

text \<open>
  The host lease of a container is confirmed by the calls just made. Either the container was
  just created with the label that names its lease, and that lease was renewed and activated
  without an error; or the container was recovered after a restart, and its lease was adopted and
  bound to its registration again without an error.
\<close>

definition launch_confirmed :: "world \<Rightarrow> string \<Rightarrow> trace \<Rightarrow> bool" where
  "launch_confirmed w c t \<longleftrightarrow>
     (\<exists>t0 d1 d2 d3 launch slot.
        t = t0 @ [(d1, DockerCreate launch), (d2, HostRenew slot), (d3, HostActivate slot)]
        \<and> map_of (cl_labels launch) ''pitcrew-host-admission-slot'' = Some slot
        \<and> w_text w (t0 @ [(d1, DockerCreate launch)]) = Inr c
        \<and> w_err w (t0 @ [(d1, DockerCreate launch), (d2, HostRenew slot)]) = None \<and> w_err w t = None)"

definition recovery_confirmed :: "world \<Rightarrow> recoveredContainer set \<Rightarrow> string \<Rightarrow> trace \<Rightarrow> bool" where
  "recovery_confirmed w recovered c t \<longleftrightarrow>
     (\<exists>t0 d1 d2. \<exists>container \<in> recovered. re_containerID container = c
        \<and> t = t0 @ [(d1, HostAdopt (re_hostSlotKey container)),
            (d2, HostBind (re_hostSlotKey container) (re_runnerName container))]
        \<and> w_err w (t0 @ [(d1, HostAdopt (re_hostSlotKey container))]) = None \<and> w_err w t = None)"

fun launch_ok :: "world \<Rightarrow> recoveredContainer set \<Rightarrow> bool \<Rightarrow> string \<Rightarrow> trace \<Rightarrow> durable_files \<times> service_call \<Rightarrow> bool" where
  "launch_ok w R h tk before (d, GenerateJIT i n) \<longleftrightarrow> intent_names tk n d"
| "launch_ok w R h tk before (d, DockerRun l) \<longleftrightarrow> \<not> h"
| "launch_ok w R h tk before (d, DockerStart c) \<longleftrightarrow> (h \<longrightarrow> launch_confirmed w c before \<or> recovery_confirmed w R c before)"
| "launch_ok w R h tk before _ \<longleftrightarrow> True"

definition disciplined :: "world \<Rightarrow> recoveredContainer set \<Rightarrow> bool \<Rightarrow> string \<Rightarrow> runnerScaler \<Rightarrow> bool" where
  "disciplined w R h tk s \<longleftrightarrow>
     sc_hostAdmission s = h \<and> ts_key (sc_target s) = tk
     \<and> (\<forall>before entry after. sc_trace s = before @ entry # after \<longrightarrow> launch_ok w R h tk before entry)"

lemma disciplined_fields: "disciplined w R h tk s \<Longrightarrow> sc_hostAdmission s = h \<and> ts_key (sc_target s) = tk"
  by (simp add: disciplined_def)

lemma disciplined_logged:
  assumes "disciplined w R h tk s" "launch_ok w R h tk (sc_trace s) (durable s, call)"
  shows "disciplined w R h tk (logged call s)"
proof -
  have "launch_ok w R h tk before entry" if "sc_trace s @ [(durable s, call)] = before @ entry # after" for before entry after
  proof (cases after rule: rev_cases)
    case (snoc ys y)
    with that have "sc_trace s = before @ entry # ys" by simp
    with assms(1) show ?thesis unfolding disciplined_def by blast
  qed (use that assms(2) in simp)
  with assms(1) show ?thesis by (simp add: disciplined_def)
qed

lemma ordinary_ok: "ordinary call \<Longrightarrow> launch_ok w R h tk before (d, call)"
  by (cases call) auto

interpretation discipline: unqueued_invariant "disciplined w R h tk" ordinary w "\<lambda>_. True" "\<lambda>_. True"
  for w R h tk
proof unfold_locales
  show "ordinary call \<Longrightarrow> disciplined w R h tk s \<Longrightarrow> disciplined w R h tk (logged call s)" for call s
    by (simp add: disciplined_logged ordinary_ok)
qed (simp_all add: disciplined_def same_runners_def update_runner_def delete_runner_def)

abbreviation keeps_discipline :: "world \<Rightarrow> recoveredContainer set \<Rightarrow> bool \<Rightarrow> string \<Rightarrow> 'a op \<Rightarrow> bool" where
  "keeps_discipline w R h tk \<equiv>
     state_relation.within (\<lambda>s s'. disciplined w R h tk s \<longrightarrow> disciplined w R h tk s')"

text \<open>The three places where a launch passes the point its discipline is about.\<close>

lemma written_document: "write_document outcome f r = (f', None) \<Longrightarrow> f' = StateFile r"
  by (cases outcome) auto

lemma begin_intent_names:
  assumes run: "run_state (beginLaunchIntent w n t) s = (None, s')" and "ts_key (sc_target s) = tk" "n \<noteq> []"
  shows "intent_names tk n (durable s')"
proof -
  obtain r where "sc_intentFile s' = StateFile r" and "launch_intent_ok tk r" "li_RunnerName r = n"
    using assms
    by (auto simp: beginLaunchIntent_def save_intent_def Let_def launchIntent_save_def
        launch_intent_ok_def launchIntentContractVersion_def managerContractVersion_def
        stamp_ok_def parse_format split: if_splits prod.splits dest!: written_document)
  then show ?thesis by (simp add: intent_names_def launchIntent_load_def durable_def)
qed

lemma launch_label:
  "sc_hostAdmission s \<Longrightarrow>
     map_of (cl_labels (container_launch la n s)) ''pitcrew-host-admission-slot'' = Some (la_hostSlotKey la)"
  by (simp add: container_launch_def launch_labels_def)

lemma discipline_leased:
  assumes "\<And>e. keeps_discipline w R h tk (f e)" "\<And>c e. keeps_discipline w R h tk (g c e)"
    and "\<And>c e. keeps_discipline w R h tk (k c e)" "\<And>c e. keeps_discipline w R h tk (p c e)"
  shows "keeps_discipline w R h tk (do {
    launch \<leftarrow> gets (container_launch la n);
    created \<leftarrow> ask (DockerCreate launch) (w_text w);
    case created of
      Inl e \<Rightarrow> f e
    | Inr c \<Rightarrow> do {
        renewErr \<leftarrow> ask (HostRenew (la_hostSlotKey la)) (w_err w);
        case renewErr of
          Some e \<Rightarrow> g c e
        | None \<Rightarrow> do {
            activateErr \<leftarrow> ask (HostActivate (la_hostSlotKey la)) (w_err w);
            case activateErr of
              Some e \<Rightarrow> k c e
            | None \<Rightarrow> do { startErr \<leftarrow> ask (DockerStart c) (w_err w); p c startErr } } } })"
  unfolding discipline.keeps.within_def
proof (intro allI impI)
  fix s assume s: "disciplined w R h tk s"
  let ?a = "logged (DockerCreate (container_launch la n s)) s"
  let ?b = "logged (HostRenew (la_hostSlotKey la)) ?a"
  let ?d = "logged (HostActivate (la_hostSlotKey la)) ?b"
  have three: "disciplined w R h tk ?a" "disciplined w R h tk ?b" "disciplined w R h tk ?d"
    using s by (simp_all add: disciplined_logged)
  have start: "disciplined w R h tk (logged (DockerStart c) ?d)"
    if "w_text w (sc_trace ?a) = Inr c" "w_err w (sc_trace ?b) = None" "w_err w (sc_trace ?d) = None" for c
  proof (rule disciplined_logged [OF three(3)])
    have "h \<longrightarrow> launch_confirmed w c (sc_trace ?d)"
      unfolding launch_confirmed_def
      using that launch_label [of s la n] disciplined_fields [OF s] by auto
    then show "launch_ok w R h tk (sc_trace ?d) (durable ?d, DockerStart c)" by simp
  qed
  show "disciplined w R h tk (snd (run_state (do {
      launch \<leftarrow> gets (container_launch la n);
      created \<leftarrow> ask (DockerCreate launch) (w_text w);
      case created of
        Inl e \<Rightarrow> f e
      | Inr c \<Rightarrow> do {
          renewErr \<leftarrow> ask (HostRenew (la_hostSlotKey la)) (w_err w);
          case renewErr of
            Some e \<Rightarrow> g c e
          | None \<Rightarrow> do {
              activateErr \<leftarrow> ask (HostActivate (la_hostSlotKey la)) (w_err w);
              case activateErr of
                Some e \<Rightarrow> k c e
              | None \<Rightarrow> do { startErr \<leftarrow> ask (DockerStart c) (w_err w); p c startErr } } } }) s))"
    using s three start assms [unfolded discipline.keeps.within_def]
    by (simp split: option.split sum.split)
qed

lemma discipline_adopted:
  assumes "\<And>e. keeps_discipline w R h tk (f e)" "\<And>e. keeps_discipline w R h tk (g e)"
    and "\<And>e. keeps_discipline w R h tk (k e)"
    and cont: "cont \<in> R" "slot = re_hostSlotKey cont" "n = re_runnerName cont" "c = re_containerID cont"
  shows "keeps_discipline w R h tk (do {
    adopted \<leftarrow> ask (HostAdopt slot) (w_err w);
    case adopted of
      Some e \<Rightarrow> f e
    | None \<Rightarrow> do {
        confirmed \<leftarrow> ask (HostBind slot n) (w_err w);
        case confirmed of
          Some e \<Rightarrow> g e
        | None \<Rightarrow> do { startErr \<leftarrow> ask (DockerStart c) (w_err w); k startErr } } })"
proof -
  let ?a = "\<lambda>s. logged (HostAdopt slot) s"
  let ?b = "\<lambda>s. logged (HostBind slot n) (?a s)"
  have two: "disciplined w R h tk (?a s)" "disciplined w R h tk (?b s)" if "disciplined w R h tk s" for s
    using that by (simp_all add: disciplined_logged)
  have three: "disciplined w R h tk (logged (DockerStart c) (?b s))"
    if "disciplined w R h tk s" "w_err w (sc_trace (?a s)) = None" "w_err w (sc_trace (?b s)) = None" for s
    using that cont by (intro disciplined_logged two) (auto simp: recovery_confirmed_def)
  show ?thesis
    unfolding discipline.keeps.within_def
  proof (intro allI impI)
    fix s assume s: "disciplined w R h tk s"
    show "disciplined w R h tk (snd (run_state (do {
        adopted \<leftarrow> ask (HostAdopt slot) (w_err w);
        case adopted of
          Some e \<Rightarrow> f e
        | None \<Rightarrow> do {
            confirmed \<leftarrow> ask (HostBind slot n) (w_err w);
            case confirmed of
              Some e \<Rightarrow> g e
            | None \<Rightarrow> do { startErr \<leftarrow> ask (DockerStart c) (w_err w); k startErr } } }) s))"
      using s two [OF s] three [OF s] assms(1-3) [unfolded discipline.keeps.within_def]
      by (simp split: option.split)
  qed
qed

lemma discipline_direct: "\<not> h \<Longrightarrow> keeps_discipline w R h tk (ask (DockerStart c) answer)"
  "\<not> h \<Longrightarrow> keeps_discipline w R h tk (ask (DockerRun l) answer)"
  by (rule discipline.keeps.within_ask, simp add: disciplined_logged)+

lemmas discipline_intros = discipline.steps discipline.keeps_remove_registration discipline.keeps_clear_intent
  discipline.keeps_intents discipline.keeps_record_launch discipline.keeps_launch_failed
  discipline.keeps_abandon discipline.keeps_release_if_leased discipline.enqueued discipline.keeps_ordinary

lemma discipline_finish:
  assumes "la_slotKey la \<noteq> []" shows "keeps_discipline w R h tk (finish_launch w la c cn)"
proof -
  have "keeps_discipline w R h tk (modify (insert_runner r))" for r
    by (rule discipline.keeps.within_modify) (simp add: disciplined_def insert_runner_def)
  then show ?thesis
    unfolding finish_launch_def by (intro discipline_intros) (simp_all add: assms)
qed

lemma discipline_container:
  assumes "la_slotKey la \<noteq> []" shows "keeps_discipline w R h tk (launch_container w la)"
proof -
  have leased: "keeps_discipline w R h tk (launch_leased w la cn)" for cn
    unfolding launch_leased_def
    by (intro discipline_leased discipline_intros) (simp_all add: assms)
  have unleased: "\<not> h \<Longrightarrow> keeps_discipline w R h tk (launch_unleased w la cn)" for cn
    unfolding launch_unleased_def
    by (intro discipline_direct discipline_intros) (simp_all add: assms)
  have "keeps_discipline w R h tk (if sc_hostAdmission s then launch_leased w la cn else launch_unleased w la cn)"
    if "disciplined w R h tk s" for s cn
    using disciplined_fields [OF that] leased unleased by (cases h) auto
  then show ?thesis
    unfolding launch_container_def Let_def
    apply (intro discipline.keeps.within_if)
     apply (intro discipline_intros; simp add: assms)
    apply (rule discipline.keeps_bind_gets)
    by (intro discipline.keeps.within_bind discipline.keeps.within_sum discipline.keeps.within_return
        discipline_finish assms)
qed

lemma discipline_jit:
  assumes "disciplined w R h tk s" "intent_names tk n (durable s)" "\<And>j. keeps_discipline w R h tk (f j)"
  shows "disciplined w R h tk (snd (run_state (do {
    i \<leftarrow> gets sc_scaleSetID; j \<leftarrow> ask (GenerateJIT i n) (w_jit w); f j }) s))"
proof -
  have "disciplined w R h tk (logged (GenerateJIT i n) s)" for i
    using assms(1,2) by (simp add: disciplined_logged)
  then show ?thesis using assms(3) [unfolded discipline.keeps.within_def] by simp
qed

lemma discipline_registered: "keeps_discipline w R h tk (launch_registered w n slot t j)"
  unfolding launch_registered_def Let_def
  by (intro discipline_intros discipline_container) simp_all

lemma discipline_admitted:
  assumes "n \<noteq> []" shows "keeps_discipline w R h tk (start_admitted w n slot t)"
proof -
  have recorded: "disciplined w R h tk s' \<and> (a = None \<longrightarrow> intent_names tk n (durable s'))"
    if "disciplined w R h tk s" "run_state (beginLaunchIntent w n now) s = (a, s')" for now s a s'
    using that begin_intent_names [of w n now s s' tk] disciplined_fields [OF that(1)] assms
      discipline.keeps.within_run [OF discipline.keeps_intents(1) that(2)] by auto
  show ?thesis
    unfolding start_admitted_def
    apply (rule discipline.keeps.within_bind [OF discipline.keeps_clock])
    apply (rule discipline.keeps_bind_post)
     apply (erule (1) recorded)
    subgoal for now a s
    proof (cases a)
      case None
      assume "disciplined w R h tk s" "a = None \<longrightarrow> intent_names tk n (durable s)"
      with None show ?thesis
        by (simp only: option.case simp_thms)
          (erule (1) discipline_jit, intro discipline_intros discipline_registered assms)
    next
      case (Some e)
      have "keeps_discipline w R h tk (do { release_if_leased w n slot; done_with (Some e) })"
        by (intro discipline_intros assms)
      moreover assume "disciplined w R h tk s"
      ultimately show ?thesis using Some by (simp add: discipline.keeps.within_def)
    qed
    done
qed

lemma discipline_start: "keeps_discipline w R h tk (startRunner w)"
  by (intro discipline.keeps_start_runner discipline_admitted)

interpretation discipline: admitting_invariant "disciplined w R h tk" ordinary w "\<lambda>_. True" "\<lambda>_. True" "\<lambda>_. True"
  for w R h tk
proof unfold_locales
  show "disciplined w R h tk s \<Longrightarrow> disciplined w R h tk (insert_runner r s)" for r s
    by (simp add: disciplined_def insert_runner_def)
qed (rule discipline_start, rule TrueI)

lemma discipline_created:
  assumes "c \<in> R" "re_slotKey c \<noteq> []" shows "keeps_discipline w R h tk (recoverCreated w c)"
proof -
  have direct: "\<not> h \<Longrightarrow> keeps_discipline w R h tk (start_recovered w c)"
    unfolding start_recovered_def
    by (intro discipline_direct discipline_intros discipline.keeps_discard discipline.keeps_insert_recovered assms)
  show ?thesis
    unfolding recoverCreated_def Let_def
    apply (rule discipline.keeps_bind_gets, drule disciplined_fields)
    apply (rule discipline.keeps_if)
     apply (rule direct, simp)
    unfolding start_recovered_def
    by (intro discipline_adopted [OF _ _ _ assms(1)] discipline_intros discipline.keeps_discard
        discipline.keeps_insert_recovered assms) simp_all
qed

interpretation discipline: settling_invariant "disciplined w R h tk" ordinary w "\<lambda>_. True" "\<lambda>_. True" "\<lambda>_. True" tk
  "\<lambda>c. c \<in> R" for w R h tk
  by unfold_locales (simp_all add: discipline_created disciplined_fields)

lemma new_scaler_disciplined: "disciplined w R h (ts_key target) (newRunnerScaler cfg h target i files)"
  by (auto simp: disciplined_def newRunnerScaler_def Let_def Cons_eq_append_conv split: prod.split)

lemma run_disciplined:
  assumes "run_state (scaler_run w es) (newRunnerScaler cfg h target i files) = (u, s)"
    and "list_all (event_ok (ts_key target)) es" "sc_trace s = before @ entry # after"
  shows "launch_ok w {c. Recover c \<in> set es} h (ts_key target) before entry"
proof -
  have "keeps_discipline w {c. Recover c \<in> set es} h (ts_key target) (scaler_run w es)"
    using assms(2) by (intro discipline.keeps_run) simp_all
  then have "disciplined w {c. Recover c \<in> set es} h (ts_key target) s"
    using discipline.keeps.within_run [OF _ assms(1)] new_scaler_disciplined by blast
  with assms(3) show ?thesis unfolding disciplined_def by blast
qed

text \<open>
  C7: A registration is never created without its launch intent on disk. In every run of a scaler,
  when the control plane is asked for a runner, the durable files hold an intent for exactly that
  runner name; so a manager that crashes at that moment, or any time before the file is written
  again, restarts with the intent pending and can find and remove the registration.
\<close>

theorem registration_has_durable_intent:
  assumes "run_state (scaler_run w es) (newRunnerScaler cfg h target i files) = (u, s)"
    and "list_all (event_ok (ts_key target)) es"
    and "sc_trace s = before @ (d, GenerateJIT scaleSet n) # after"
  shows "\<exists>r. sc_pendingLaunchIntent (newRunnerScaler cfg' h' target i' d) = Some r \<and> li_RunnerName r = n
    \<and> sc_launchIntentStateError (newRunnerScaler cfg' h' target i' d) = None"
  using run_disciplined [OF assms]
  by (auto simp: intent_names_def newRunnerScaler_def restoreLaunchIntent_def Let_def split: prod.split)

text \<open>The run of the example, for the theorems over runs.\<close>

lemma example_run_state:
  "\<exists>u. run_state (scaler_run example_world es) (newRunnerScaler example_config h example_target 5 example_files)
     = (u, example_run h es)"
  by (metis example_run_def prod.collapse)

theorem registration_has_durable_intent_witness:
  "\<exists>before d after r. sc_trace (example_run True [DesiredCount 1]) = before @ (d, GenerateJIT 5 ''n-t-c'') # after
     \<and> sc_pendingLaunchIntent (newRunnerScaler example_config True example_target 5 d) = Some r
     \<and> li_RunnerName r = ''n-t-c''"
proof -
  let ?t = "sc_trace (example_run True [DesiredCount 1])"
  obtain d where "?t ! 13 = (d, GenerateJIT 5 ''n-t-c'')" using example_launch(2) by (cases "?t ! 13") auto
  then have split: "?t = take 13 ?t @ (d, GenerateJIT 5 ''n-t-c'') # drop 14 ?t"
    using id_take_nth_drop [of 13 ?t] example_launch(1) by simp
  obtain u where "run_state (scaler_run example_world [DesiredCount 1])
      (newRunnerScaler example_config True example_target 5 example_files) = (u, example_run True [DesiredCount 1])"
    using example_run_state by blast
  moreover have "list_all (event_ok (ts_key example_target)) [DesiredCount 1]" by simp
  ultimately show ?thesis
    using registration_has_durable_intent [OF _ _ split, of example_world "[DesiredCount 1]"] split by blast
qed

text \<open>
  C9: With host admission no worker is started outside its lease. In every run, whatever the
  services answer, no container is created and started in one step. Each start of a container
  directly follows one of two sequences of calls. Either the container was just created with a
  label naming a host slot, and the lease of that slot was renewed and then activated, both
  without an error. Or the container is one of those the run recovered, and the lease of its
  slot was adopted and then bound to its registration name, both without an error. Recovered
  containers have a slot key, and a target is reactivated under its own key.
\<close>

theorem worker_starts_under_lease:
  assumes "run_state (scaler_run w es) (newRunnerScaler cfg True target i files) = (u, s)"
    and "list_all (event_ok (ts_key target)) es" "sc_trace s = before @ (d, call) # after"
  shows "(\<forall>launch. call \<noteq> DockerRun launch)
    \<and> (\<forall>c. call = DockerStart c \<longrightarrow> launch_confirmed w c before
        \<or> recovery_confirmed w {container. Recover container \<in> set es} c before)"
  using run_disciplined [OF assms] by auto

theorem worker_starts_under_lease_witness:
  "\<exists>before d after. sc_trace (example_run True [DesiredCount 1]) = before @ (d, DockerStart ''c'') # after
     \<and> launch_confirmed example_world ''c'' before"
proof -
  let ?t = "sc_trace (example_run True [DesiredCount 1])"
  obtain d where "?t ! 20 = (d, DockerStart ''c'')" using example_launch(3) by (cases "?t ! 20") auto
  then have split: "?t = take 20 ?t @ (d, DockerStart ''c'') # drop 21 ?t"
    using id_take_nth_drop [of 20 ?t] example_launch(1) by simp
  obtain u where "run_state (scaler_run example_world [DesiredCount 1])
      (newRunnerScaler example_config True example_target 5 example_files) = (u, example_run True [DesiredCount 1])"
    using example_run_state by blast
  from worker_starts_under_lease [OF this _ split]
  have "launch_confirmed example_world ''c'' (take 20 ?t)" by (auto simp: recovery_confirmed_def)
  with split show ?thesis by blast
qed

end
