(* ===== verification/Scaler_Leases.thy ===== *)
theory Scaler_Leases
  imports Scaler_Safety
begin

text \<open>
  Host leases over the runs of a scaler. Invariants that hold a well-formed release queue are
  kept by the release operations and by the settlement of a stopped runner; two of them are that
  the table of runners is tidy, and that a lease is either held or given back durably.
\<close>

section \<open>Invariants over the release queue\<close>

text \<open>A successful write of the queue leaves each pending release on disk.\<close>

lemma saved_on_disk:
  assumes ok: "queue_ok q" and key: "slot \<in> set (mkeys (rl_pending q))"
    and save: "hostLeaseCleanup_save (rl_targetKey q) outcome
      (sort_key hl_HostSlotKey (map snd (rl_pending q))) (rl_file q) = (f, None)"
  shows "on_disk (q\<lparr>rl_file := f\<rparr>) slot"
proof -
  have "set (sort_key hl_HostSlotKey (map snd (rl_pending q))) \<noteq> {}" using key by auto
  then have "sort_key hl_HostSlotKey (map snd (rl_pending q)) \<noteq> []" by (metis list.set(1))
  then have "outcome = Saved"
    using save by (cases outcome) (auto simp: hostLeaseCleanup_save_def save_records_def)
  moreover from this save have "rl_file (persistPendingHostLeaseReleases Saved q) = f"
    by (simp add: persistPendingHostLeaseReleases_def)
  ultimately show ?thesis using persist_on_disk(1) [OF ok refl, of slot] key by (simp add: on_disk_def)
qed

lemma mark_ok:
  assumes "queue_ok q" "host_lease_ok (rl_targetKey q) r"
  shows "queue_ok (markPendingHostLeaseReleaseAttempt outcome r now q)"
proof -
  let ?c = "case map_of (rl_pending q) (hl_HostSlotKey r) of Some c \<Rightarrow> c | None \<Rightarrow> r"
  have "host_lease_ok (rl_targetKey q) ?c"
    using assms by (auto simp: queue_ok_def dest: map_of_SomeD split: option.split)
  from queue_ok_put [OF assms(1), of "attempted_release now ?c"] this show ?thesis
    by (simp add: markPendingHostLeaseReleaseAttempt_def Let_def queue_ok_def)
qed

lemma mark_target: "rl_targetKey (markPendingHostLeaseReleaseAttempt outcome r now q) = rl_targetKey q"
  by (simp add: markPendingHostLeaseReleaseAttempt_def Let_def)

lemma resolve_ok: "queue_ok q \<Longrightarrow> queue_ok (resolvePendingHostLeaseRelease outcome slot q)"
  "rl_targetKey (resolvePendingHostLeaseRelease outcome slot q) = rl_targetKey q"
  by (simp_all add: resolvePendingHostLeaseRelease_def queue_ok_del)

locale queue_invariant = state_invariant I "\<lambda>_. True"
  for I :: "runnerScaler \<Rightarrow> bool" +
  fixes w :: world and tk :: string
  assumes queue: "I s \<Longrightarrow> queue_ok (sc_releases s) \<and> rl_targetKey (sc_releases s) = tk"
    and requeued: "I s \<Longrightarrow> queue_ok q \<Longrightarrow> rl_targetKey q = tk \<Longrightarrow> I (s\<lparr>sc_releases := q\<rparr>)"
    and reframed: "same_workers s s' \<Longrightarrow> I s \<Longrightarrow> I s'"
    and updated: "(\<And>r. same_identity r (f r)) \<Longrightarrow> I s \<Longrightarrow> I (update_runner j f s)"
    and named: "I s \<Longrightarrow> r \<in> set (sc_runners s) \<Longrightarrow> rr_key r \<noteq> []"
    and dropped: "I s \<Longrightarrow> runner_at j s = Some r \<Longrightarrow> rr_hostSlotKey r = [] \<or> rr_hostLeaseReleased r
      \<Longrightarrow> I (delete_runner j s)"
    and surrendered: "I s \<Longrightarrow> runner_at j s = Some r \<Longrightarrow> on_disk (sc_releases s) (rr_hostSlotKey r)
      \<Longrightarrow> I (logged (HostRelease (rr_hostSlotKey r)) (delete_runner j s))"
begin

lemma keeps_any: "keeps.within (ask c answer)" "keeps.within (tell c)"
  by (simp_all add: keeps_ask keeps_tell)

lemma keeps_queue:
  assumes "\<And>q. queue_ok q \<Longrightarrow> rl_targetKey q = tk \<Longrightarrow> queue_ok (snd (h q)) \<and> rl_targetKey (snd (h q)) = tk"
  shows "keeps.within (queue_op h)"
  unfolding keeps.within_def using assms queue requeued by simp

text \<open>What follows the call of a release.\<close>

lemma attempt_tail:
  assumes "host_lease_ok tk h"
  shows "\<exists>f. attemptHostLeaseRelease w h = State_Monad.bind (ask (HostRelease (hl_HostSlotKey h)) (w_release w)) f
    \<and> (\<forall>a. keeps.within (f a))"
  unfolding attemptHostLeaseRelease_def clock_now_def diagnose_def
  by (intro exI conjI, rule refl, rule allI)
    (intro keeps.within_intros keeps_any keeps_queue; simp add: assms mark_ok mark_target resolve_ok)

lemma keeps_attempt: "host_lease_ok tk h \<Longrightarrow> keeps.within (attemptHostLeaseRelease w h)"
  using attempt_tail keeps.within_bind keeps_any(1) by metis

lemma begun:
  assumes "I s" "key \<noteq> []" "slot \<noteq> []"
    and "beginPendingHostLeaseReleaseLocked key slot now (sc_releases s) = (h, q)"
  shows "hl_HostSlotKey h = slot" "queue_ok q" "rl_targetKey q = tk" "host_lease_ok tk h"
    "slot \<in> set (mkeys (rl_pending q))"
proof -
  note b = begin_effect [OF _ assms(2,3,4)]
  have q: "queue_ok (sc_releases s)" "rl_targetKey (sc_releases s) = tk" using queue [OF assms(1)] by auto
  show "hl_HostSlotKey h = slot" "queue_ok q" "rl_targetKey q = tk" "host_lease_ok tk h"
    using b [OF q(1)] q(2) by simp_all
  have "map_of (rl_pending q) slot \<noteq> None" using b(3) [OF q(1)] by simp
  then show "slot \<in> set (mkeys (rl_pending q))" by (simp add: map_of_eq_None_iff)
qed

lemma keeps_enqueue:
  assumes "key \<noteq> []" shows "keeps.within (releaseLeaseOrEnqueue w key slot)"
proof -
  have "host_lease_ok tk h \<and> I s'"
    if slot: "slot \<noteq> []" and s: "I s"
      and run: "run_state (queue_op (beginPendingHostLeaseRelease outcome key slot now)) s = (h, s')" for s h s' outcome now
  proof -
    obtain q where q: "beginPendingHostLeaseReleaseLocked key slot now (sc_releases s) = (h, q)"
      "s' = s\<lparr>sc_releases := persistPendingHostLeaseReleases outcome q\<rparr>"
      using run by (auto simp: beginPendingHostLeaseRelease_def split: prod.splits)
    from begun [OF s assms slot q(1)] s show ?thesis unfolding q(2)
      by (simp add: requeued)
  qed
  then show ?thesis
    unfolding releaseLeaseOrEnqueue_def clock_now_def
    apply (intro keeps_if keeps.within_return)
    apply (rule keeps.within_bind [OF keeps_any(1)], rule keeps.within_bind [OF keeps_any(1)])
    by (rule keeps_bind_result [where P = "host_lease_ok tk"])
      (auto simp: keeps.within_def intro: keeps_attempt [unfolded keeps.within_def, rule_format])
qed

lemma keeps_settle: "keeps.within (settleStoppedRunner w r)"
  unfolding keeps.within_def
proof (intro allI impI)
  fix s assume s: "I s"
  show "I (snd (run_state (settleStoppedRunner w r) s))"
  proof (cases "runner_at (rr_key r) s")
    case None
    with s show ?thesis by (simp add: settleStoppedRunner_def)
  next
    case (Some c)
    have name: "rr_key r \<noteq> []" using named [OF s, of c] runner_at_key [OF Some] by auto
    show ?thesis
    proof (cases "rr_hostSlotKey c = [] \<or> rr_hostLeaseReleased c")
      case True
      with s Some dropped show ?thesis by (simp add: settleStoppedRunner_def)
    next
      case False
      define s1 where "s1 = logged ReadClock s"
      define now where "now = w_now w (sc_trace s1)"
      obtain h q where b: "beginPendingHostLeaseReleaseLocked (rr_key r) (rr_hostSlotKey c) now (sc_releases s1) = (h, q)"
        by fastforce
      define s2 where "s2 = logged SaveReleases (s1\<lparr>sc_releases := q\<rparr>)"
      obtain f err where save: "hostLeaseCleanup_save (rl_targetKey q) (w_save w (sc_trace s2))
          (sort_key hl_HostSlotKey (map snd (rl_pending q))) (rl_file q) = (f, err)" by fastforce
      define s3 where "s3 = s2\<lparr>sc_releases := q\<lparr>rl_file := f\<rparr>\<rparr>"
      have "I s1" using s by (simp add: s1_def logged_keeps)
      note bg = begun [OF this name _ b]
      have "I s2" using \<open>I s1\<close> bg False by (simp add: s2_def logged_keeps requeued)
      then have "I s3" unfolding s3_def using bg False by (intro requeued) (simp_all add: queue_ok_def)
      have run: "run_state (settleStoppedRunner w r) s = (if err \<noteq> None then (Some plain_error, logged OnError s3)
          else run_state (attemptHostLeaseRelease w h) (delete_runner (rr_key r) s3))"
        using Some False b save
        by (simp add: settleStoppedRunner_def clock_now_def Let_def s3_def s2_def s1_def now_def)
      show ?thesis
      proof (cases err)
        case (Some e)
        with run \<open>I s3\<close> show ?thesis by (simp add: logged_keeps)
      next
        case None
        have "on_disk (sc_releases s3) (rr_hostSlotKey c)"
          using saved_on_disk [OF _ _ save [unfolded None]] bg False by (simp add: s3_def)
        moreover have "runner_at (rr_key r) s3 = Some c"
          using Some by (simp add: s3_def s2_def s1_def runner_at_def)
        ultimately have I: "I (logged (HostRelease (rr_hostSlotKey c)) (delete_runner (rr_key r) s3))"
          using surrendered [OF \<open>I s3\<close>] by blast
        obtain tail where "attemptHostLeaseRelease w h
            = State_Monad.bind (ask (HostRelease (rr_hostSlotKey c)) (w_release w)) tail" "\<And>a. keeps.within (tail a)"
          using attempt_tail [of h] bg False by metis
        with run None I show ?thesis by (simp add: keeps.within_def)
      qed
    qed
  qed
qed

end

sublocale queue_invariant \<subseteq> worker_invariant I "\<lambda>_. True" w "\<lambda>_. True" "\<lambda>_. True" "host_lease_ok tk"
proof unfold_locales
  show "same_workers s s' \<Longrightarrow> I s \<Longrightarrow> I s'" for s s' by (rule reframed)
  show "(\<And>r. same_identity r (f r)) \<Longrightarrow> I s \<Longrightarrow> I (update_runner j f s)" for f s j by (rule updated)
  show "(\<And>r. same_identity r (f r) \<and> rr_state (f r) = rr_state r) \<Longrightarrow> I s \<Longrightarrow> I (update_runner j f s)" for f s j
    by (rule updated) blast
  show "I s \<Longrightarrow> h \<in> snd ` set (rl_pending (sc_releases s)) \<Longrightarrow> host_lease_ok tk h" for s h
    using queue [of s] by (auto simp: queue_ok_def)
qed (simp_all add: keeps_attempt keeps_enqueue keeps_settle)

section \<open>The table of runners is tidy\<close>

definition tidy :: "string \<Rightarrow> runnerScaler \<Rightarrow> bool" where
  "tidy tk s \<longleftrightarrow>
     distinct (map rr_key (sc_runners s)) \<and> (\<forall>r \<in> set (sc_runners s). rr_key r \<noteq> [])
     \<and> queue_ok (sc_releases s) \<and> rl_targetKey (sc_releases s) = tk \<and> ts_key (sc_target s) = tk"

lemma tidy_logged [simp]: "tidy tk (logged c s) = tidy tk s"
  by (simp add: tidy_def)

lemma tidy_queue: "tidy tk s \<Longrightarrow> queue_ok q \<Longrightarrow> rl_targetKey q = tk \<Longrightarrow> tidy tk (s\<lparr>sc_releases := q\<rparr>)"
  by (simp add: tidy_def)

lemma tidy_frame: "same_workers s s' \<Longrightarrow> tidy tk s \<Longrightarrow> tidy tk s'"
  by (simp add: tidy_def same_workers_def)

lemma tidy_update:
  assumes "\<And>r. same_identity r (f r)" "tidy tk s"
  shows "tidy tk (update_runner j f s)"
proof -
  have keys: "map rr_key (sc_runners (update_runner j f s)) = map rr_key (sc_runners s)"
    using assms(1) by (intro distinct_update) (simp add: same_identity_def)
  then have "rr_key ` set (sc_runners (update_runner j f s)) = rr_key ` set (sc_runners s)"
    by (metis list.set_map)
  with assms(2) have "\<forall>r \<in> set (sc_runners (update_runner j f s)). rr_key r \<noteq> []"
    unfolding tidy_def by (metis imageE imageI)
  with assms(2) keys show ?thesis by (simp add: tidy_def) (simp add: update_runner_def)
qed

lemma tidy_delete: "tidy tk s \<Longrightarrow> tidy tk (delete_runner j s)"
  by (auto simp: tidy_def delete_runner_def distinct_map intro: inj_on_subset)

lemma tidy_insert: "tidy tk s \<Longrightarrow> rr_key r \<noteq> [] \<Longrightarrow> tidy tk (insert_runner r s)"
  by (auto simp: tidy_def insert_runner_def distinct_map intro: inj_on_subset)

interpretation tidy: queue_invariant "tidy tk" w tk for tk w
  by unfold_locales (simp_all add: tidy_queue tidy_delete tidy_update, simp_all add: tidy_def same_workers_def)

interpretation tidy: open_settling_invariant "tidy tk" "\<lambda>_. True" w "\<lambda>_. True" "\<lambda>_. True"
  "host_lease_ok tk" "\<lambda>j. j \<noteq> []" tk for tk w
  by unfold_locales (simp_all add: tidy_insert, simp add: tidy_def)

section \<open>No lease is forgotten\<close>

text \<open>The release of a lease is in the files: a restarted manager has it pending.\<close>

definition release_on_disk :: "string \<Rightarrow> string \<Rightarrow> durable_files \<Rightarrow> bool" where
  "release_on_disk tk slot d \<longleftrightarrow>
     (\<exists>records. hostLeaseCleanup_load tk (df_releases d) = Inr records \<and> slot \<in> hl_HostSlotKey ` set records)"

definition holds_lease :: "string \<Rightarrow> string \<Rightarrow> runnerScaler \<Rightarrow> bool" where
  "holds_lease k slot s \<longleftrightarrow>
     (\<exists>r \<in> set (sc_runners s). rr_key r = k \<and> rr_hostSlotKey r = slot \<and> \<not> rr_hostLeaseReleased r)"

definition returned_since :: "trace \<Rightarrow> string \<Rightarrow> string \<Rightarrow> runnerScaler \<Rightarrow> bool" where
  "returned_since past tk slot s \<longleftrightarrow>
     (\<exists>t d. sc_trace s = past @ t \<and> (d, HostRelease slot) \<in> set t \<and> release_on_disk tk slot d)"

definition kept_lease :: "world \<Rightarrow> string \<Rightarrow> string \<Rightarrow> string \<Rightarrow> trace \<Rightarrow> runnerScaler \<Rightarrow> bool" where
  "kept_lease w tk k slot past s \<longleftrightarrow>
     tidy tk s \<and> fresh_identifiers w past tk k \<and> slot \<noteq> [] \<and> (\<exists>t. sc_trace s = past @ t)
     \<and> (holds_lease k slot s \<or> returned_since past tk slot s)"

lemma returned_logged: "returned_since past tk slot s \<Longrightarrow> returned_since past tk slot (logged c s)"
  by (auto simp: returned_since_def)

lemma returned_same: "sc_trace s' = sc_trace s \<Longrightarrow> returned_since past tk slot s' = returned_since past tk slot s"
  by (simp add: returned_since_def)

lemma holds_update:
  assumes "\<And>r. same_identity r (f r)" "holds_lease k slot s"
  shows "holds_lease k slot (update_runner j f s)"
proof -
  obtain r where r: "r \<in> set (sc_runners s)" "rr_key r = k" "rr_hostSlotKey r = slot" "\<not> rr_hostLeaseReleased r"
    using assms(2) by (auto simp: holds_lease_def)
  let ?r = "if rr_key r = j then f r else r"
  have "?r \<in> set (sc_runners (update_runner j f s))" using r(1) by (auto simp: update_runner_def)
  then show ?thesis
    unfolding holds_lease_def using r assms(1) [of r]
    by (intro bexI [of _ ?r]) (auto simp: same_identity_def)
qed

lemma holds_delete: "holds_lease k slot s \<Longrightarrow> j \<noteq> k \<Longrightarrow> holds_lease k slot (delete_runner j s)"
  by (auto simp: holds_lease_def delete_runner_def)

lemma holds_insert: "holds_lease k slot s \<Longrightarrow> rr_key r \<noteq> k \<Longrightarrow> holds_lease k slot (insert_runner r s)"
  by (auto simp: holds_lease_def insert_runner_def)

lemma holds_at:
  assumes "tidy tk s" "runner_at k s = Some r" "holds_lease k slot s"
  shows "rr_hostSlotKey r = slot \<and> \<not> rr_hostLeaseReleased r"
  using assms runner_at_key [OF assms(2)] by (auto simp: tidy_def holds_lease_def distinct_map inj_on_def)

lemma absent_not_held: "runner_at j s = None \<Longrightarrow> holds_lease k slot s \<Longrightarrow> j \<noteq> k"
  by (auto simp: holds_lease_def runner_at_def find_None_iff)

interpretation lease: queue_invariant "kept_lease w tk k slot past" w tk for w tk k slot past
proof unfold_locales
  let ?I = "kept_lease w tk k slot past"
  show "?I s \<Longrightarrow> ?I (logged c s)" for c s
    by (auto simp: kept_lease_def returned_logged holds_lease_def)
  show "?I s \<Longrightarrow> queue_ok (sc_releases s) \<and> rl_targetKey (sc_releases s) = tk" for s
    by (simp add: kept_lease_def tidy_def)
  show "?I s \<Longrightarrow> queue_ok q \<Longrightarrow> rl_targetKey q = tk \<Longrightarrow> ?I (s\<lparr>sc_releases := q\<rparr>)" for s q
    by (auto simp: kept_lease_def tidy_queue holds_lease_def returned_since_def)
  show "same_workers s s' \<Longrightarrow> ?I s \<Longrightarrow> ?I s'" for s s'
    using tidy_frame [of s s' tk]
    by (auto simp: kept_lease_def same_workers_def holds_lease_def returned_since_def)
  show "(\<And>r. same_identity r (f r)) \<Longrightarrow> ?I s \<Longrightarrow> ?I (update_runner j f s)" for f s j
    using holds_update [of f k slot s j] tidy_update [of f tk s j]
    by (auto simp: kept_lease_def returned_since_def update_runner_def)
  show "?I s \<Longrightarrow> r \<in> set (sc_runners s) \<Longrightarrow> rr_key r \<noteq> []" for s r
    by (simp add: kept_lease_def tidy_def)
  show "?I (delete_runner j s)"
    if I: "?I s" and at: "runner_at j s = Some r" and free: "rr_hostSlotKey r = [] \<or> rr_hostLeaseReleased r" for s j r
  proof -
    have "holds_lease k slot s \<Longrightarrow> j \<noteq> k"
      using holds_at [of tk s k r slot] I at free by (auto simp: kept_lease_def)
    with I holds_delete [of k slot s j] tidy_delete [of tk s j] show ?thesis
      by (auto simp: kept_lease_def returned_since_def delete_runner_def)
  qed
  show "?I (logged (HostRelease (rr_hostSlotKey r)) (delete_runner j s))"
    if I: "?I s" and at: "runner_at j s = Some r" and disk: "on_disk (sc_releases s) (rr_hostSlotKey r)" for s j r
  proof (cases "holds_lease k slot s \<and> j = k")
    case True
    then have slot: "rr_hostSlotKey r = slot" using holds_at [of tk s k r slot] I at by (auto simp: kept_lease_def)
    have "release_on_disk tk slot (durable (delete_runner j s))"
      using disk I slot
      by (simp add: on_disk_def release_on_disk_def durable_def delete_runner_def kept_lease_def tidy_def)
    then show ?thesis
      using I slot tidy_delete [of tk s j]
      by (auto simp: kept_lease_def returned_since_def delete_runner_def)
  next
    case False
    then have "holds_lease k slot (delete_runner j s) \<or> returned_since past tk slot (delete_runner j s)"
      using I holds_delete [of k slot s j] by (auto simp: kept_lease_def returned_since_def delete_runner_def)
    then show ?thesis
      using I tidy_delete [of tk s j] returned_logged
      by (auto simp: kept_lease_def holds_lease_def delete_runner_def)
  qed
qed

interpretation lease: open_settling_invariant "kept_lease w tk k slot past" "\<lambda>_. True" w "\<lambda>_. True" "\<lambda>_. True"
  "host_lease_ok tk" "\<lambda>j. j \<noteq> k \<and> j \<noteq> []" tk for w tk k slot past
proof unfold_locales
  let ?I = "kept_lease w tk k slot past"
  have insert: "?I (insert_runner r s)" if "?I s" "rr_key r \<noteq> []" "holds_lease k slot s \<Longrightarrow> rr_key r \<noteq> k" for r s
    using that holds_insert [of k slot s r] tidy_insert [of tk s r]
    by (auto simp: kept_lease_def returned_since_def insert_runner_def)
  show "rr_key r \<noteq> k \<and> rr_key r \<noteq> [] \<Longrightarrow> ?I s \<Longrightarrow> ?I (insert_runner r s)" for r s
    by (simp add: insert)
  show "?I s \<Longrightarrow> runner_at (rr_key r) s = None \<Longrightarrow> rr_key r \<noteq> [] \<Longrightarrow> ?I (insert_runner r s)" for r s
    using absent_not_held insert by blast
  show "?I s \<Longrightarrow> w_jit w (sc_trace s @ [(durable s, GenerateJIT i m)]) = Inr j \<Longrightarrow> ?I s'
      \<Longrightarrow> ts_key (sc_target s') @ ''-'' @ show_int (jr_runnerID j) \<noteq> k
        \<and> ts_key (sc_target s') @ ''-'' @ show_int (jr_runnerID j) \<noteq> []" for s s' i m j
    using fresh_jit [of w past tk k "sc_trace s"] by (auto simp: kept_lease_def tidy_def)
qed (simp_all add: kept_lease_def tidy_def)

text \<open>What a new scaler restores.\<close>

lemma new_scaler_tidy: "tidy (ts_key target) (newRunnerScaler cfg h target i files)"
proof (cases "hostLeaseCleanup_load (ts_key target) (df_releases files)")
  case (Inr records)
  from restored_queue(1) [OF this] show ?thesis
    by (simp add: tidy_def newRunnerScaler_def Let_def restorePendingHostLeaseReleases_def Inr split: prod.split)
qed (simp add: tidy_def newRunnerScaler_def Let_def restorePendingHostLeaseReleases_def queue_ok_def
    split: prod.split)

lemma run_tidy:
  assumes "run_state (scaler_run w es) (newRunnerScaler cfg h target i files) = (u, s)"
    and "list_all (event_ok (ts_key target)) es"
  shows "tidy (ts_key target) s"
  using tidy.keeps.within_run [OF tidy.keeps_any_run [OF assms(2)] assms(1)] new_scaler_tidy by blast

text \<open>
  C6: The host lease of a worker is never forgotten. Take any reachable scaler, a worker in it that
  holds a lease, and any further run: exits, retirement, fences, recovery, shutdown, whatever the
  services and the file system answer. Afterwards the worker is still there with its lease, or the
  release of that lease was asked for at a moment when it was on disk, so that a manager restarted
  from the files of that moment still has it pending.
\<close>

theorem lease_is_never_forgotten:
  assumes reach: "run_state (scaler_run w es) (newRunnerScaler cfg h target i files) = (u, s)"
    and holder: "holds_lease k slot s" "slot \<noteq> []"
    and further: "run_state (scaler_run w es') s = (u', s')"
    and events: "list_all (event_ok (ts_key target)) (es @ es')"
    and fresh: "fresh_identifiers w (sc_trace s) (ts_key target) k"
  shows "holds_lease k slot s'
    \<or> (\<exists>before d after. sc_trace s' = sc_trace s @ before @ (d, HostRelease slot) # after
        \<and> slot \<in> dom (map_of (rl_pending (sc_releases (newRunnerScaler cfg' h' target i' d)))))"
proof -
  let ?I = "kept_lease w (ts_key target) k slot (sc_trace s)"
  have "?I s" using run_tidy [OF reach] events holder fresh by (simp add: kept_lease_def)
  moreover have "?I s \<longrightarrow> ?I s'"
    using lease.keeps.within_run [OF lease.keeps_any_run further] events by simp
  ultimately have "?I s'" by blast
  moreover have "slot \<in> dom (map_of (rl_pending (sc_releases (newRunnerScaler cfg' h' target i' d))))"
    if "release_on_disk (ts_key target) slot d" for d
    using that restored_queue(2) [of "ts_key target" "df_releases d"]
    by (auto simp: release_on_disk_def newRunnerScaler_def Let_def split: prod.split)
  ultimately show ?thesis by (fastforce simp: kept_lease_def returned_since_def dest: split_list)
qed

theorem lease_is_never_forgotten_witness:
  "\<exists>s' u. run_state (scaler_run example_world [ContainerExit ''c'' None, Shutdown])
      (example_run True [DesiredCount 1]) = (u, s')
    \<and> (holds_lease (''t-'' @ show_int 14) ''n-t-c'' s'
       \<or> (\<exists>before d after. sc_trace s' = sc_trace (example_run True [DesiredCount 1]) @ before @ (d, HostRelease ''n-t-c'') # after
          \<and> ''n-t-c'' \<in> dom (map_of (rl_pending (sc_releases (newRunnerScaler example_config True example_target 5 d))))))"
proof -
  let ?s = "example_run True [DesiredCount 1]" and ?es = "[ContainerExit ''c'' None, Shutdown]"
  obtain u where reach: "run_state (scaler_run example_world [DesiredCount 1])
      (newRunnerScaler example_config True example_target 5 example_files) = (u, ?s)"
    using example_run_state by blast
  obtain u' s' where run: "run_state (scaler_run example_world ?es) ?s = (u', s')" by (meson surj_pair)
  have "holds_lease (''t-'' @ show_int 14) ''n-t-c'' ?s"
    using example_runner by (auto simp: holds_lease_def map_eq_Cons_conv)
  moreover have "fresh_identifiers example_world (sc_trace ?s) (ts_key example_target) (''t-'' @ show_int 14)"
    using example_launch(1) example_fresh by (simp add: example_target_def)
  moreover have "list_all (event_ok (ts_key example_target)) ([DesiredCount 1] @ ?es)" by simp
  ultimately show ?thesis using lease_is_never_forgotten [OF reach _ _ run] run by blast
qed

end
