(* ===== verification/Scaler_Passes.thy ===== *)
theory Scaler_Passes
  imports Scaler_Leases
begin

text \<open>
  What one pass of the scaler does to its capacity: scaling down stops at the target, and a target
  whose durable retry state is unavailable does nothing at all.
\<close>

section \<open>Scaling down\<close>

text \<open>A round touches the capacity of its candidate only.\<close>

definition same_others :: "string \<Rightarrow> runnerScaler \<Rightarrow> runnerScaler \<Rightarrow> bool" where
  "same_others k s s' \<longleftrightarrow>
     map rr_key (filter (\<lambda>r. counts_as_capacity r \<and> rr_key r \<noteq> k) (sc_runners s'))
       = map rr_key (filter (\<lambda>r. counts_as_capacity r \<and> rr_key r \<noteq> k) (sc_runners s))
     \<and> sc_targetSlots s' = sc_targetSlots s
     \<and> (distinct (map rr_key (sc_runners s)) \<longrightarrow> distinct (map rr_key (sc_runners s')))"

interpretation others: untraced_relation "same_others k" for k
  by unfold_locales (simp_all add: same_others_def)

lemma others_runners: "sc_runners s' = sc_runners s \<Longrightarrow> sc_targetSlots s' = sc_targetSlots s \<Longrightarrow> same_others k s s'"
  by (simp add: same_others_def)

lemma others_update:
  assumes "\<And>r. rr_key (f r) = rr_key r" "j = k \<or> (\<forall>r. counts_as_capacity (f r) = counts_as_capacity r)"
  shows "same_others k s (update_runner j f s)"
proof -
  have filtered: "map rr_key (filter (\<lambda>r. counts_as_capacity r \<and> rr_key r \<noteq> k) (map (\<lambda>r. if rr_key r = j then f r else r) rs))
      = map rr_key (filter (\<lambda>r. counts_as_capacity r \<and> rr_key r \<noteq> k) rs)" for rs
    using assms by (induction rs) auto
  have keys: "map rr_key (sc_runners (update_runner j f s)) = map rr_key (sc_runners s)"
    by (rule distinct_update) (rule assms(1))
  show ?thesis
    unfolding same_others_def keys using filtered by (simp add: update_runner_def)
qed

lemma others_delete: "same_others k s (delete_runner k s)"
  by (auto simp: same_others_def delete_runner_def conj_commute distinct_map intro: inj_on_subset
      intro!: arg_cong [where f = "map rr_key"] filter_cong)

lemmas others_intros = others.within_intros others.call_intros

lemma others_modify:
  "(\<And>s. sc_runners (f s) = sc_runners s) \<Longrightarrow> (\<And>s. sc_targetSlots (f s) = sc_targetSlots s)
    \<Longrightarrow> state_relation.within (same_others k) (modify f)"
  by (intro others.within_modify others_runners) auto

lemma others_queue: "state_relation.within (same_others k) (queue_op h)"
  by (intro others.within_queue_op others_runners) simp_all

lemma others_put_fence: "state_relation.within (same_others k) (modify (put_fence record t))"
proof (rule others.within_modify)
  fix s
  have "same_others k s (s\<lparr>sc_pendingFences := p, sc_blocking := b\<rparr>)" for p b
    by (rule others_runners) simp_all
  then show "same_others k s (put_fence record t s)"
    unfolding put_fence_def
    by (rule others.trans) (rule others_update, simp_all add: counts_as_capacity_def)
qed

lemma others_persist_fences: "state_relation.within (same_others k) (persistPendingRegistrationFences w records)"
  unfolding persistPendingRegistrationFences_def Let_def
  by (intro others_intros others_modify) simp_all

lemma others_begin_fence: "state_relation.within (same_others k) (beginPendingRegistrationFence w r p now)"
  unfolding beginPendingRegistrationFence_def
  by (intro others_intros others_put_fence others_persist_fences)

lemma others_resolve_fence: "state_relation.within (same_others k) (resolvePendingRegistrationFence w j reason)"
proof -
  have "state_relation.within (same_others k) (modify (\<lambda>s. update_runner j
      (\<lambda>r. r\<lparr>rr_fenceAttempts := 0, rr_fenceRetryAt := None\<rparr>) (s\<lparr>sc_pendingFences := mdel (sc_pendingFences s) j\<rparr>)))"
  proof (rule others.within_modify)
    fix s
    have "same_others k s (s\<lparr>sc_pendingFences := mdel (sc_pendingFences s) j\<rparr>)"
      by (rule others_runners) simp_all
    then show "same_others k s (update_runner j (\<lambda>r. r\<lparr>rr_fenceAttempts := 0, rr_fenceRetryAt := None\<rparr>)
        (s\<lparr>sc_pendingFences := mdel (sc_pendingFences s) j\<rparr>))"
      by (rule others.trans) (rule others_update, simp_all add: counts_as_capacity_def)
  qed
  then show ?thesis
    unfolding resolvePendingRegistrationFence_def by (intro others_intros others_persist_fences)
qed

lemma others_own:
  assumes "\<And>r. rr_key (f r) = rr_key r" shows "state_relation.within (same_others k) (modify (update_runner k f))"
  by (rule others.within_modify) (rule others_update, simp_all add: assms)

lemma others_settle: "rr_key r = k \<Longrightarrow> state_relation.within (same_others k) (settleStoppedRunner w r)"
proof -
  assume "rr_key r = k"
  then have delete: "state_relation.within (same_others k) (modify (delete_runner (rr_key r)))"
    by (intro others.within_modify) (simp add: others_delete)
  show ?thesis
    unfolding settleStoppedRunner_def attemptHostLeaseRelease_def Let_def
    by (intro delete others_intros others_queue others_modify) simp_all
qed

lemma others_stop_removed: "rr_key r = k \<Longrightarrow> state_relation.within (same_others k) (stop_removed w r removed)"
  unfolding stop_removed_def mark_cleanup_pending_def
  by (intro others_intros others_resolve_fence others_settle) (auto intro: others_own)

lemma others_remove_candidate: "state_relation.within (same_others (rr_key c)) (remove_candidate w c)"
proof -
  let ?stopped = "\<lambda>s. case runner_at (rr_key c) s of Some r \<Rightarrow> r | None \<Rightarrow> c"
  have key: "rr_key (?stopped s) = rr_key c" for s
    by (auto split: option.split dest: runner_at_key)
  have draining: "state_relation.within (same_others (rr_key c)) (mark_draining w (rr_key c))"
    unfolding mark_draining_def by (intro others_intros others_own) simp
  have restore: "state_relation.within (same_others (rr_key c)) (restore_runner w c)"
    unfolding restore_runner_def by (intro others_intros others_own) simp
  have undo: "state_relation.within (same_others (rr_key c)) (undo_draining w c e)" for e
    unfolding undo_draining_def by (intro others_intros others_own) simp
  have failure: "state_relation.within (same_others (rr_key c)) (recordPendingRegistrationFenceFailure f e)" for f e
    unfolding recordPendingRegistrationFenceFailure_def by (rule others.within_diagnose)
  show ?thesis
    unfolding remove_candidate_def
    apply (rule others.within_bind [OF draining])
    apply (rule others.within_bind_gets)
    by (intro others_intros others_begin_fence restore undo failure others_resolve_fence others_stop_removed
        others_modify) (simp_all add: key)
qed

text \<open>So a round gives up at most one worker.\<close>

lemma capacity_others:
  assumes "distinct (map rr_key (sc_runners s))"
  shows "capacityCountLocked s
    \<le> int (length (filter (\<lambda>r. counts_as_capacity r \<and> rr_key r \<noteq> k) (sc_runners s))) + 1"
proof -
  have "length (filter counts_as_capacity rs)
      \<le> length (filter (\<lambda>r. counts_as_capacity r \<and> rr_key r \<noteq> k) rs) + 1" if "distinct (map rr_key rs)" for rs
    using that
  proof (induction rs)
    case (Cons r rs)
    have "filter (\<lambda>r. counts_as_capacity r \<and> rr_key r \<noteq> k) rs = filter counts_as_capacity rs" if "rr_key r = k"
      using Cons.prems that by (intro filter_cong) (auto simp: image_iff)
    with Cons show ?case by auto
  qed simp
  from this [OF assms] show ?thesis by (simp add: capacityCountLocked_def)
qed

lemma others_capacity: "length (filter (\<lambda>r. counts_as_capacity r \<and> rr_key r \<noteq> k) rs) \<le> length (filter counts_as_capacity rs)"
  by (induction rs) auto

lemma round_gives_up_one:
  assumes "distinct (map rr_key (sc_runners s))" "run_state (scale_down_round w) s = (a, s')"
  shows "distinct (map rr_key (sc_runners s')) \<and> sc_targetSlots s' = sc_targetSlots s
    \<and> (capacityCountLocked s \<le> sc_targetSlots s \<longrightarrow> capacityCountLocked s' = capacityCountLocked s)
    \<and> capacityCountLocked s - 1 \<le> capacityCountLocked s'"
proof (cases "\<exists>c. scale_down_candidate s = Some c \<and> \<not> capacityCountLocked s \<le> sc_targetSlots s")
  case True
  then obtain c where c: "run_state (remove_candidate w c) s = (a, s')" "\<not> capacityCountLocked s \<le> sc_targetSlots s"
    using assms(2) by (auto simp: scale_down_round_def)
  have o: "same_others (rr_key c) s s'" by (rule others.within_run [OF others_remove_candidate c(1)])
  then have "length (filter (\<lambda>r. counts_as_capacity r \<and> rr_key r \<noteq> rr_key c) (sc_runners s'))
      = length (filter (\<lambda>r. counts_as_capacity r \<and> rr_key r \<noteq> rr_key c) (sc_runners s))"
    unfolding same_others_def by (elim conjE) (drule arg_cong [where f = length], simp)
  with capacity_others [OF assms(1), of "rr_key c"] others_capacity [of "rr_key c" "sc_runners s'"] o c(2) assms(1)
  show ?thesis by (simp add: same_others_def capacityCountLocked_def)
next
  case False
  with assms show ?thesis
    by (auto simp: scale_down_round_def capacityCountLocked_def split: if_splits option.splits)
qed

text \<open>How a round ends the loop.\<close>

lemma round_ends:
  assumes "run_state (scale_down_round w) s = (Inl (n, err), s')"
  shows "n = capacityCountLocked s'
    \<and> (capacityCountLocked s' \<le> sc_targetSlots s' \<or> scale_down_candidate s' = None \<or> err \<noteq> None)"
proof (cases "capacityCountLocked s \<le> sc_targetSlots s \<or> scale_down_candidate s = None")
  case True
  with assms show ?thesis
    by (auto simp: scale_down_round_def capacityCountLocked_def split: if_splits option.splits)
next
  case False
  then obtain c where "run_state (remove_candidate w c) s = (Inl (n, err), s')"
    using assms by (auto simp: scale_down_round_def)
  then show ?thesis
    by (auto simp: remove_candidate_def capacityCountLocked_def split: if_splits option.splits prod.splits)
qed

lemma errors_Join_last: "errors_Join (errs @ [Some e]) \<noteq> None"
  by (auto simp: errors_Join_def List.map_filter_def)

text \<open>
  C18: Scaling down stops at the target. The loop, which has no bound in the code, always ends; it
  reports the capacity it leaves, which is not below the target unless it was before, and which is
  above it only when no worker may be removed or an error ended the loop.
\<close>

theorem scale_down_stops_at_target:
  assumes "distinct (map rr_key (sc_runners s))" "scale_down w errs s = ((n, err), s')"
  shows "n = capacityCountLocked s' \<and> sc_targetSlots s' = sc_targetSlots s
    \<and> min (capacityCountLocked s) (sc_targetSlots s) \<le> capacityCountLocked s'
    \<and> (capacityCountLocked s' \<le> sc_targetSlots s' \<or> scale_down_candidate s' = None \<or> err \<noteq> None)"
  using assms
proof (induction w errs s rule: scale_down.induct)
  case (1 w errs s)
  obtain a t where run: "run_state (scale_down_round w) s = (a, t)" by fastforce
  note one = round_gives_up_one [OF 1(2) run]
  show ?case
  proof (cases a)
    case (Inl x)
    then obtain m e where a: "a = Inl (m, e)" by (cases x) auto
    have result: "n = m" "err = errors_Join (errs @ [e])" "s' = t"
      using 1(3) run a by (simp_all add: scale_down.simps [of w errs s])
    have "e \<noteq> None \<longrightarrow> err \<noteq> None" using result(2) errors_Join_last by auto
    with round_ends [OF run [unfolded a]] one result show ?thesis by auto
  next
    case (Inr e)
    have more: "\<not> capacityCountLocked s \<le> sc_targetSlots s"
      using run Inr by (auto simp: scale_down_round_def split: if_splits)
    have "scale_down w (errs @ [e]) t = ((n, err), s')"
      using 1(3) run Inr by (simp add: scale_down.simps [of w errs s])
    from 1(1) [OF run [symmetric] Inr _ this] one more show ?thesis by auto
  qed
qed

theorem scale_down_stops_at_target_witness:
  "\<exists>n err s'. scale_down example_world [] (example_run True [DesiredCount 1]) = ((n, err), s')
     \<and> n = capacityCountLocked s' \<and> min 1 (sc_targetSlots s') \<le> capacityCountLocked s'"
proof -
  let ?s = "example_run True [DesiredCount 1]"
  obtain r where "sc_runners ?s = [r]" using example_runner by (auto simp: map_eq_Cons_conv)
  then have keys: "distinct (map rr_key (sc_runners ?s))" by simp
  have "capacityCountLocked ?s = 1" by (simp add: example_eval counts_as_capacity_def)
  moreover obtain n err s' where run: "scale_down example_world [] ?s = ((n, err), s')"
    by (cases "scale_down example_world [] ?s") auto
  ultimately show ?thesis using scale_down_stops_at_target [OF keys run] by auto
qed

section \<open>Unavailable state\<close>

text \<open>The calls of a pass that launches and removes nothing and asks for no capacity.\<close>

fun harmless :: "service_call \<Rightarrow> bool" where
  "harmless AcquireOperation \<longleftrightarrow> True"
| "harmless ReadClock \<longleftrightarrow> True"
| "harmless OnChange \<longleftrightarrow> True"
| "harmless OnError \<longleftrightarrow> True"
| "harmless (AdmissionSetDemand n) \<longleftrightarrow> n = 0"
| "harmless (SetTargetDemand n) \<longleftrightarrow> n = 0"
| "harmless _ \<longleftrightarrow> False"

definition closed :: "runnerScaler \<Rightarrow> runnerScaler \<Rightarrow> bool" where
  "closed s s' \<longleftrightarrow>
     (registration_state_error s \<noteq> None \<longrightarrow>
        sc_runners s' = sc_runners s \<and> registration_state_error s' = registration_state_error s
        \<and> durable s' = durable s
        \<and> (\<exists>t. sc_trace s' = sc_trace s @ t \<and> list_all (\<lambda>(d, c). harmless c) t))"

interpretation closed: state_relation closed
  by unfold_locales (auto simp: closed_def)

lemma closed_logged: "harmless c \<Longrightarrow> closed s (logged c s)"
  by (simp add: closed_def registration_state_error_def)

lemma closed_ask: "harmless c \<Longrightarrow> state_relation.within closed (ask c answer)"
  "harmless c \<Longrightarrow> state_relation.within closed (tell c)"
  by (simp_all add: closed.within_ask closed.within_tell closed_logged)

lemma closed_modify:
  assumes "\<And>s. sc_runners (f s) = sc_runners s" "\<And>s. registration_state_error (f s) = registration_state_error s"
    and "\<And>s. durable (f s) = durable s" "\<And>s. sc_trace (f s) = sc_trace s"
  shows "state_relation.within closed (modify f)"
  by (rule closed.within_modify) (simp add: closed_def assms)

lemma closed_reconcile: "state_relation.within closed (reconcileLocked w)"
proof -
  have "state_relation.within closed (do {
      setBlocking deficitInvalidDesiredState ''durable registration retry state is unavailable'';
      current \<leftarrow> gets capacityCountLocked;
      withdraw_demand;
      done_with (current, err) })" for err
    unfolding setBlocking_def withdraw_demand_def setProfileAdmissionDemand_def
    by (intro closed.within_intros closed_ask closed_modify)
      (simp_all add: registration_state_error_def durable_def)
  note shut = this [unfolded closed.within_def, rule_format]
  show ?thesis
    unfolding closed.within_def
  proof
    fix s
    show "closed s (snd (run_state (reconcileLocked w) s))"
    proof (cases "registration_state_error s")
      case (Some e)
      with shut [of s "registration_state_error s"] show ?thesis unfolding reconcileLocked_def by simp
    qed (simp add: closed_def)
  qed
qed

lemmas closed_intros = closed.within_intros closed_ask closed_modify closed_reconcile

lemma closed_step: "steering tk e \<Longrightarrow> state_relation.within closed (scaler_step w e)"
proof (cases e)
  case (DesiredCount n)
  show ?thesis unfolding DesiredCount scaler_step.simps HandleDesiredRunnerCount_def
    by (intro closed_intros) (simp_all add: registration_state_error_def durable_def retarget_def)
next
  case (Statistics st)
  show ?thesis unfolding Statistics scaler_step.simps RecordStatistics_def clock_now_def
    by (intro closed_intros) (simp_all add: registration_state_error_def durable_def)
next
  case (SetMaximum n)
  show ?thesis unfolding SetMaximum scaler_step.simps setMaximum_def
    by (intro closed_intros)
      (simp_all add: registration_state_error_def durable_def retarget_def set_maximum_def)
next
  case BeginRetirement
  show ?thesis unfolding BeginRetirement scaler_step.simps beginRetirement_def clock_now_def
    by (intro closed_intros) (simp_all add: registration_state_error_def durable_def)
next
  case (Reactivate target)
  show ?thesis unfolding Reactivate scaler_step.simps reactivate_def
    by (intro closed_intros) (simp_all add: registration_state_error_def durable_def retarget_def)
next
  case Tick
  show ?thesis unfolding Tick scaler_step.simps tick_def by (intro closed_intros) simp
qed simp_all

text \<open>
  C19: A target whose durable retry state is unavailable is closed. Whatever the demand, the maximum
  or a retirement asks of it, no registration is created or removed, no container is launched or
  stopped, its files are left alone and it asks for no capacity. The error stays, so only a write
  outside these passes, or a restart, opens the target again.
\<close>

theorem closed_target_does_nothing:
  assumes "registration_state_error s \<noteq> None" "list_all (steering tk) es"
    and "run_state (scaler_run w es) s = (u, s')"
  shows "sc_runners s' = sc_runners s \<and> registration_state_error s' = registration_state_error s
    \<and> durable s' = durable s
    \<and> (\<exists>t. sc_trace s' = sc_trace s @ t \<and> list_all (\<lambda>(d, c). harmless c) t)"
proof -
  have "state_relation.within closed (scaler_run w es)"
    using assms(2) by (induction es) (auto intro!: closed.within_return closed.within_bind closed_step)
  from closed.within_run [OF this assms(3)] assms(1) show ?thesis by (simp add: closed_def)
qed

text \<open>A launch intent that cannot be decoded closes the target.\<close>

theorem closed_target_does_nothing_witness:
  "\<exists>s s' u. s = newRunnerScaler example_config True example_target 5 (example_files\<lparr>df_intent := UndecodableFile\<rparr>)
     \<and> run_state (scaler_run example_world [DesiredCount 2, Tick, BeginRetirement]) s = (u, s')
     \<and> registration_state_error s' \<noteq> None \<and> sc_runners s' = []"
proof -
  let ?s = "newRunnerScaler example_config True example_target 5 (example_files\<lparr>df_intent := UndecodableFile\<rparr>)"
  let ?es = "[DesiredCount 2, Tick, BeginRetirement]"
  have err: "registration_state_error ?s \<noteq> None" "sc_runners ?s = []"
    by (simp_all add: example_setup registration_state_error_def errors_Join_def List.map_filter_def)
  obtain u s' where run: "run_state (scaler_run example_world ?es) ?s = (u, s')" by (meson surj_pair)
  from closed_target_does_nothing [OF err(1) _ run, of "[]"] err run show ?thesis by auto
qed

end
