(* ===== verification/Journal.thy ===== *)
theory Journal
  imports Diagnostics
begin

text \<open>
  Correctness of the operation journal: it stays bounded, its sequences increase strictly,
  equivalent observations stay coalesced, every event passes the validation a restart
  applies, and a restart brings the persisted journal back as it was.
\<close>

section \<open>Vocabulary texts\<close>

lemma subsystem_text_nonempty [simp]: "subsystem_text s \<noteq> []"
  by (cases s) simp_all

lemma operation_text_nonempty [simp]: "operation_text p \<noteq> []"
  by (cases p) simp_all

lemma outcome_text_nonempty [simp]: "outcome_text p \<noteq> []"
  by (cases p) simp_all

lemma reason_text_nonempty [simp]: "reason_text p \<noteq> []"
  by (cases p) simp_all

lemma outcome_text_inject [simp]: "outcome_text p = outcome_text q \<longleftrightarrow> p = q"
  by (cases p; cases q) simp_all

section \<open>Scanning for an event to coalesce with\<close>

text \<open>Whether the newest event of the same scope, in a newest-first list, is equivalent.\<close>

definition clash :: "managerEvent \<Rightarrow> managerEvent list \<Rightarrow> bool" where
  "clash event older \<longleftrightarrow>
     (case find (\<lambda>p. sameJournalEventScope p event) older of
        None \<Rightarrow> False
      | Some p \<Rightarrow> me_Outcome p = me_Outcome event \<and> me_Reason p = me_Reason event)"

lemma clash_simps [simp]:
  "\<not> clash event []"
  "clash event (p # older) \<longleftrightarrow>
     (if sameJournalEventScope p event
      then me_Outcome p = me_Outcome event \<and> me_Reason p = me_Reason event
      else clash event older)"
  by (simp_all add: clash_def)

lemma scan_negative: "coalescible_scan event older < 0 \<longleftrightarrow> \<not> clash event older"
  by (induction older) auto

lemma scan_found:
  "clash event older \<Longrightarrow> \<exists>newer p rest. older = newer @ p # rest
     \<and> coalescible_scan event older = int (length rest)
     \<and> (\<forall>q \<in> set newer. \<not> sameJournalEventScope q event)
     \<and> sameJournalEventScope p event \<and> me_Outcome p = me_Outcome event
     \<and> me_Reason p = me_Reason event"
proof (induction older)
  case Nil
  then show ?case by simp
next
  case (Cons a older)
  show ?case
  proof (cases "sameJournalEventScope a event")
    case True
    with Cons.prems show ?thesis by (intro exI [of _ "[]"] exI [of _ a] exI [of _ older]) simp
  next
    case False
    with Cons.prems have "clash event older" by simp
    from Cons.IH [OF this] obtain newer p rest where
      *: "older = newer @ p # rest" "coalescible_scan event older = int (length rest)"
        "\<forall>q \<in> set newer. \<not> sameJournalEventScope q event" "sameJournalEventScope p event"
        "me_Outcome p = me_Outcome event" "me_Reason p = me_Reason event" by blast
    with False show ?thesis
      by (intro exI [of _ "a # newer"] exI [of _ p] exI [of _ rest]) simp
  qed
qed

lemma clash_append:
  "clash event (xs @ ys) \<longleftrightarrow>
     (if \<exists>q \<in> set xs. sameJournalEventScope q event then clash event xs else clash event ys)"
  by (induction xs) auto

lemma clash_none: "\<forall>q \<in> set xs. \<not> sameJournalEventScope q event \<Longrightarrow> \<not> clash event xs"
  by (induction xs) auto

lemma clash_cong:
  "sameJournalEventScope e f \<Longrightarrow> me_Outcome e = me_Outcome f \<Longrightarrow> me_Reason e = me_Reason f
    \<Longrightarrow> clash e older = clash f older"
  by (induction older) (auto simp: sameJournalEventScope_def)

text \<open>No event of a newest-first list could have been coalesced with an older one.\<close>

fun separated :: "managerEvent list \<Rightarrow> bool" where
  "separated [] = True"
| "separated (e # older) \<longleftrightarrow>
     \<not> (journalOutcomeCoalescible (me_Outcome e) \<and> clash e older) \<and> separated older"

lemma separated_appendD: "separated (xs @ ys) \<Longrightarrow> separated ys"
  by (induction xs) auto

lemma separated_butlast: "separated (xs @ [z]) \<Longrightarrow> separated xs"
  by (induction xs) (auto simp: clash_append clash_none split: if_splits)

text \<open>Taking out an event whose scope no newer event shares.\<close>

lemma separated_remove:
  "separated (xs @ y # ys) \<Longrightarrow> (\<And>q. q \<in> set xs \<Longrightarrow> \<not> sameJournalEventScope q y)
    \<Longrightarrow> separated (xs @ ys)"
proof (induction xs)
  case (Cons a xs)
  have "\<not> sameJournalEventScope y a" using Cons.prems(2) [of a]
    by (auto simp: sameJournalEventScope_def)
  with Cons show ?case by (auto simp: clash_append split: if_splits)
qed simp

section \<open>Dropping the oldest event\<close>

lemma unresolved_scan_zero:
  "unresolved_scan (xs @ [z]) = 0 \<Longrightarrow>
     (\<forall>e \<in> set xs. me_Subsystem e = subsystem_text subsystemRecovery \<longrightarrow>
        me_Outcome e \<notin> outcome_text ` {outcomeBlocked, outcomeFailed, outcomeTimedOut, outcomeRetry})
     \<and> me_Subsystem z = subsystem_text subsystemRecovery
     \<and> me_Outcome z \<in> outcome_text ` {outcomeBlocked, outcomeFailed, outcomeTimedOut, outcomeRetry}"
  by (induction xs) (auto split: if_splits)

lemma separated_drop_second:
  assumes "separated (xs @ [y, z])" "unresolved_scan (xs @ [y, z]) = 0"
  shows "separated (xs @ [z])"
proof -
  have none: "\<forall>e \<in> set xs. me_Subsystem e = subsystem_text subsystemRecovery \<longrightarrow>
      me_Outcome e \<notin> outcome_text ` {outcomeBlocked, outcomeFailed, outcomeTimedOut, outcomeRetry}"
    and z: "me_Subsystem z = subsystem_text subsystemRecovery"
      "me_Outcome z \<in> outcome_text ` {outcomeBlocked, outcomeFailed, outcomeTimedOut, outcomeRetry}"
    using unresolved_scan_zero [of "xs @ [y]" z] assms(2) by simp_all
  from none assms(1) show ?thesis
  proof (induction xs)
    case Nil
    then show ?case by simp
  next
    case (Cons a xs)
    have "\<not> (sameJournalEventScope z a \<and> me_Outcome z = me_Outcome a)"
      using Cons.prems(1) z by (auto simp: sameJournalEventScope_def)
    with Cons show ?case by (auto simp: clash_append split: if_splits)
  qed
qed

lemma dropOldest_cases:
  obtains (empty) "events = []" "dropOldestJournalEvent events = []"
  | (first) e where "events = e # dropOldestJournalEvent events"
  | (second) e f rest where "events = e # f # rest" "dropOldestJournalEvent events = e # rest"
      "unresolvedRecoveryEventIndex events = 0"
proof (cases events)
  case Nil
  then show ?thesis using empty by (simp add: dropOldestJournalEvent_def)
next
  case (Cons e more)
  show ?thesis
  proof (cases "unresolvedRecoveryEventIndex events = 0 \<and> length events > 1")
    case True
    then obtain f rest where "more = f # rest" using Cons by (cases more) auto
    with Cons True show ?thesis
      by (intro second [of e f rest]) (simp_all add: dropOldestJournalEvent_def Let_def)
  next
    case False
    with Cons have "dropOldestJournalEvent events = more"
      by (auto simp: dropOldestJournalEvent_def Let_def)
    with Cons show ?thesis by (intro first [of e]) simp
  qed
qed

lemma set_dropOldest: "set (dropOldestJournalEvent events) \<subseteq> set events"
proof (cases rule: dropOldest_cases [of events])
  case (first e)
  then have "set events = insert e (set (dropOldestJournalEvent events))" by (metis list.simps(15))
  then show ?thesis by blast
qed auto

lemma sorted_wrt_dropOldest:
  assumes "sorted_wrt P events" shows "sorted_wrt P (dropOldestJournalEvent events)"
proof (cases rule: dropOldest_cases [of events])
  case (first e)
  with assms show ?thesis by (metis sorted_wrt.simps(2))
qed (use assms in auto)

lemma separated_dropOldest:
  assumes "separated (rev events)" shows "separated (rev (dropOldestJournalEvent events))"
proof (cases rule: dropOldest_cases [of events])
  case empty
  then show ?thesis by simp
next
  case (first e)
  then have "rev events = rev (dropOldestJournalEvent events) @ [e]" by (metis rev.simps(2))
  with assms show ?thesis by (auto intro: separated_butlast)
next
  case (second e f rest)
  then show ?thesis using assms separated_drop_second [of "rev rest" f e]
    by (simp add: unresolvedRecoveryEventIndex_def)
qed

text \<open>The evidence of an unresolved recovery outlives the capacity bound.\<close>

lemma unresolved_recovery_kept:
  "unresolvedRecoveryEventIndex events = 0 \<Longrightarrow> length events > 1
    \<Longrightarrow> hd (dropOldestJournalEvent events) = hd events"
  by (cases events) (auto simp: dropOldestJournalEvent_def Let_def)

section \<open>The journal invariant\<close>

text \<open>
  The events of a journal whose highest sequence is \<open>highest\<close> and whose last event was
  observed no later than \<open>now\<close>.
\<close>

definition events_ok :: "int \<Rightarrow> int \<Rightarrow> managerEvent list \<Rightarrow> bool" where
  "events_ok now highest events \<longleftrightarrow>
     sorted_wrt (<) (map me_Sequence events) \<and> separated (rev events)
     \<and> (\<forall>e \<in> set events. validJournalEvent e \<and> me_Sequence e \<le> highest
          \<and> (\<exists>t. me_LastObservedAt e = At t \<and> t \<le> now div time_Second))"

lemma events_ok_Nil [simp]: "events_ok now highest []"
  by (simp add: events_ok_def)

lemma events_ok_mono:
  "events_ok now highest events \<Longrightarrow> now \<le> now' \<Longrightarrow> highest \<le> highest'
    \<Longrightarrow> events_ok now' highest' events"
  using zdiv_mono1 [of now now' time_Second]
  by (fastforce simp: events_ok_def time_Second_def)

lemma events_ok_dropOldest:
  "events_ok now highest events \<Longrightarrow> events_ok now highest (dropOldestJournalEvent events)"
  using set_dropOldest [of events] separated_dropOldest [of events]
  by (auto simp: events_ok_def sorted_wrt_map intro: sorted_wrt_dropOldest)

lemma valid_normalized: "validJournalEvent e \<Longrightarrow> normalizeManagerEvent e = e"
  by (auto simp: validJournalEvent_def normalizeManagerEvent_def split: option.splits)

lemma boundedOccurrenceSum_range:
  "1 \<le> l \<Longrightarrow> 1 \<le> r \<Longrightarrow> 1 \<le> boundedOccurrenceSum l r \<and> boundedOccurrenceSum l r \<le> maxOccurrenceCount"
  by (auto simp: boundedOccurrenceSum_def maxOccurrenceCount_def)

text \<open>An event newer than the journal: its three times are the same.\<close>

definition fresh_event :: "int \<Rightarrow> int \<Rightarrow> managerEvent \<Rightarrow> bool" where
  "fresh_event now highest e \<longleftrightarrow>
     validJournalEvent e \<and> highest < me_Sequence e \<and> me_ObservedAt e = format_RFC3339 now
     \<and> me_FirstObservedAt e = format_RFC3339 now \<and> me_LastObservedAt e = format_RFC3339 now"

lemma coalesce_cases:
  assumes "validJournalEvent e" "\<forall>p \<in> set events. validJournalEvent p"
  obtains (appended) "coalesceJournalEvent events e = events @ [e]"
      "\<not> (journalOutcomeCoalescible (me_Outcome e) \<and> clash e (rev events))"
  | (merged) xs p ys where "events = xs @ p # ys" "sameJournalEventScope p e"
      "me_Outcome p = me_Outcome e" "me_Reason p = me_Reason e"
      "journalOutcomeCoalescible (me_Outcome e)"
      "\<forall>q \<in> set ys. \<not> sameJournalEventScope q e"
      "coalesceJournalEvent events e = xs @ ys @ [e\<lparr>me_FirstObservedAt := me_FirstObservedAt p,
         me_OccurrenceCount := boundedOccurrenceSum (me_OccurrenceCount p) (me_OccurrenceCount e)\<rparr>]"
proof (cases "journalOutcomeCoalescible (me_Outcome e) \<and> clash e (rev events)")
  case False
  then have "coalescibleJournalEventIndex events e < 0"
    by (auto simp: coalescibleJournalEventIndex_def scan_negative)
  with assms(1) False show ?thesis
    by (intro appended) (simp_all add: coalesceJournalEvent_def valid_normalized)
next
  case True
  then obtain newer p rest where f: "rev events = newer @ p # rest"
      "coalescible_scan e (rev events) = int (length rest)"
      "\<forall>q \<in> set newer. \<not> sameJournalEventScope q e" "sameJournalEventScope p e"
      "me_Outcome p = me_Outcome e" "me_Reason p = me_Reason e"
    using scan_found [of e "rev events"] by blast
  have ev: "events = rev rest @ p # rev newer" using f(1) by (metis append.assoc append_Cons
      append_Nil rev.simps(2) rev_append rev_rev_ident)
  have idx: "coalescibleJournalEventIndex events e = int (length rest)"
    using True f(2) by (simp add: coalescibleJournalEventIndex_def)
  have "validJournalEvent p" using assms(2) ev by simp
  then have "coalesceJournalEvent events e = rev rest @ rev newer
      @ [e\<lparr>me_FirstObservedAt := me_FirstObservedAt p,
           me_OccurrenceCount := boundedOccurrenceSum (me_OccurrenceCount p) (me_OccurrenceCount e)\<rparr>]"
    using assms(1)
    by (simp add: coalesceJournalEvent_def idx valid_normalized Let_def)
      (simp add: ev nth_append valid_normalized)
  with True ev f show ?thesis by (intro merged [of "rev rest" p "rev newer"]) simp_all
qed

lemma length_coalesce:
  assumes "validJournalEvent e" "\<forall>p \<in> set events. validJournalEvent p"
  shows "length (coalesceJournalEvent events e) \<le> Suc (length events)"
    and "coalesceJournalEvent events e \<noteq> []"
  by (cases rule: coalesce_cases [OF assms]; simp)+

lemma merged_valid:
  assumes p: "validJournalEvent p" "me_LastObservedAt p = At t" "t \<le> now div time_Second"
    and e: "fresh_event now highest e"
  shows "validJournalEvent (e\<lparr>me_FirstObservedAt := me_FirstObservedAt p,
    me_OccurrenceCount := boundedOccurrenceSum (me_OccurrenceCount p) (me_OccurrenceCount e)\<rparr>)"
proof -
  have counts: "1 \<le> me_OccurrenceCount p" "1 \<le> me_OccurrenceCount e"
    using p(1) e by (auto simp: validJournalEvent_def fresh_event_def split: option.splits)
  obtain f where f: "me_FirstObservedAt p = At f" "f \<le> t"
    using p(1,2) by (auto simp: validJournalEvent_def time_Second_def split: option.splits
        elim: parse_RFC3339.elims)
  show ?thesis
    using e f p(3) boundedOccurrenceSum_range [OF counts]
    by (auto simp: fresh_event_def validJournalEvent_def format_RFC3339_def time_Second_def)
qed

lemma events_ok_coalesce:
  assumes ok: "events_ok now highest events" and e: "fresh_event now highest e"
  shows "events_ok now (me_Sequence e) (coalesceJournalEvent events e)"
proof -
  have valid: "validJournalEvent e" "\<forall>p \<in> set events. validJournalEvent p"
    using ok e by (auto simp: events_ok_def fresh_event_def)
  have newest: "\<forall>p \<in> set events. me_Sequence p < me_Sequence e"
    using ok e by (fastforce simp: events_ok_def fresh_event_def)
  from valid show ?thesis
  proof (cases rule: coalesce_cases)
    case appended
    then show ?thesis using ok e newest
      by (fastforce simp: events_ok_def sorted_wrt_append fresh_event_def format_RFC3339_def)
  next
    case (merged xs p ys)
    define m where "m = e\<lparr>me_FirstObservedAt := me_FirstObservedAt p,
      me_OccurrenceCount := boundedOccurrenceSum (me_OccurrenceCount p) (me_OccurrenceCount e)\<rparr>"
    obtain t where t: "me_LastObservedAt p = At t" "t \<le> now div time_Second"
      using ok merged(1) by (auto simp: events_ok_def)
    have vm: "validJournalEvent m"
      unfolding m_def using merged_valid [OF _ t e] valid merged(1) by simp
    have sep: "separated (rev ys @ p # rev xs)"
      using ok merged(1) by (simp add: events_ok_def)
    have away: "\<not> sameJournalEventScope q p" if "q \<in> set (rev ys)" for q
      using merged(2,6) that by (auto simp: sameJournalEventScope_def)
    have rest: "separated (rev ys @ rev xs)" using separated_remove [OF sep away] .
    have "\<not> clash p (rev xs)" using separated_appendD [OF sep] merged(3,5) by simp
    then have "\<not> clash m (rev xs)"
      using clash_cong [of m p "rev xs"] merged(2-4)
      by (simp add: m_def sameJournalEventScope_def)
    moreover have "\<not> sameJournalEventScope q m" if "q \<in> set ys" for q
      using merged(6) that by (auto simp: m_def sameJournalEventScope_def)
    ultimately have "\<not> clash m (rev ys @ rev xs)" by (auto simp: clash_append)
    with rest have "separated (rev (xs @ ys @ [m]))" by simp
    moreover have "sorted_wrt (<) (map me_Sequence (xs @ ys @ [m]))"
      using ok newest merged(1) by (auto simp: events_ok_def sorted_wrt_append m_def)
    moreover have "\<exists>t. me_LastObservedAt m = At t \<and> t \<le> now div time_Second"
      using e by (simp add: m_def fresh_event_def format_RFC3339_def)
    ultimately show ?thesis
      using ok vm newest merged(1) unfolding merged(7) m_def [symmetric] events_ok_def
      by (auto simp: less_imp_le) (simp_all add: m_def)
  qed
qed

section \<open>Recording and restarting\<close>

lemma evict_events_bounded:
  "length events \<le> journalCapacity \<Longrightarrow> evict_events events evicted = (events, evicted)"
  "length events = Suc journalCapacity
    \<Longrightarrow> evict_events events evicted = (dropOldestJournalEvent events, add64 evicted 1)"
  by (simp_all add: evict_events.simps)

text \<open>
  A document the recorder writes: \<open>budget\<close> bounds how many more events fit the counters.
\<close>

definition document_ok :: "int \<Rightarrow> int \<Rightarrow> journalDocument \<Rightarrow> bool" where
  "document_ok budget now d \<longleftrightarrow>
     events_ok now (jd_HighestSequence d) (jd_Events d) \<and> length (jd_Events d) \<le> journalCapacity
     \<and> 0 \<le> jd_HighestSequence d \<and> jd_HighestSequence d + budget \<le> max_int64
     \<and> 0 \<le> jd_EvictedEvents d \<and> jd_EvictedEvents d + budget \<le> max_int64
     \<and> jd_RejectedEvents d = 0 \<and> jd_UnclassifiedEvents d = 0
     \<and> jd_DroppedEvents d = jd_EvictedEvents d \<and> jd_SchemaVersion d = diagnosticsSchemaVersion"

lemma document_ok_mono:
  "document_ok budget now d \<Longrightarrow> now \<le> now' \<Longrightarrow> budget' \<le> budget \<Longrightarrow> document_ok budget' now' d"
  by (auto simp: document_ok_def intro: events_ok_mono)

lemma scan_events_ok:
  "\<forall>e \<in> set events. validJournalEvent e \<and> me_Sequence e \<le> highest
    \<Longrightarrow> scan_events False highest rejected events = (highest, rejected, events)"
  by (induction events) auto

lemma fold_coalesce_separated:
  "separated (rev (acc @ events)) \<Longrightarrow> \<forall>e \<in> set (acc @ events). validJournalEvent e
    \<Longrightarrow> fold (\<lambda>event events. coalesceJournalEvent events event) events acc = acc @ events"
proof (induction events arbitrary: acc)
  case (Cons e events)
  have "separated (rev (acc @ [e]))"
    using Cons.prems(1) separated_appendD [of "rev events" "rev (acc @ [e])"] by simp
  then have free: "\<not> (journalOutcomeCoalescible (me_Outcome e) \<and> clash e (rev acc))" by simp
  have "normalizeManagerEvent e = e" using Cons.prems(2) by (simp add: valid_normalized)
  with free have "coalesceJournalEvent acc e = acc @ [e]"
    by (auto simp: coalesceJournalEvent_def coalescibleJournalEventIndex_def scan_negative)
  with Cons show ?case by simp
qed simp

lemma restored_document:
  assumes "document_ok budget now d" "0 \<le> budget"
  shows "documentLocked (restore_document d r) = d"
proof -
  note ok = assms(1) [unfolded document_ok_def events_ok_def]
  have wrap: "wrap64 (jd_EvictedEvents d) = jd_EvictedEvents d"
    using ok assms(2) by (intro wrap64_id) linarith+
  have counters: "restored_counters d = (jd_EvictedEvents d, 0, 0)"
    using ok by (simp add: restored_counters_def add64_def wrap)
  have scan: "scan_events False (jd_HighestSequence d) 0 (jd_Events d)
      = (jd_HighestSequence d, 0, jd_Events d)"
    using ok by (intro scan_events_ok) simp
  have "sorted (map me_Sequence (jd_Events d))" using ok by (auto simp: strict_sorted_iff)
  then have sort: "sort_key me_Sequence (jd_Events d) = jd_Events d" by (rule sort_key_id_if_sorted)
  have "fold (\<lambda>event events. coalesceJournalEvent events event) (jd_Events d) [] = jd_Events d"
    using fold_coalesce_separated [of "[]" "jd_Events d"] ok by simp
  with counters scan sort ok wrap show ?thesis
    by (cases d) (simp add: restore_document_def documentLocked_def evict_events_bounded
        legacyDiagnosticsSchemaVersion_def diagnosticsSchemaVersion_def add64_def)
qed

text \<open>The event built for an observation is fresh.\<close>

lemma built_event:
  assumes "0 \<le> dr_highestSequence r" "dr_highestSequence r < max_int64"
    and "boundedIdentity (dr_instanceID r) \<noteq> []" and "buildEventLocked obs now r = (r', e)"
  shows "fresh_event now (dr_highestSequence r) e"
    and "r' = r\<lparr>dr_highestSequence := dr_highestSequence r + 1\<rparr>"
    and "me_Sequence e = dr_highestSequence r + 1"
    and "me_Operation e = operation_text (do_operation obs)"
    and "me_Outcome e = outcome_text (do_outcome obs)"
  using assms
  by (auto simp: buildEventLocked_def Let_def add64_id max_int64_def fresh_event_def
      validJournalEvent_def format_RFC3339_def maxOccurrenceCount_def)

lemma append_document:
  assumes ok: "document_ok (budget + 1) now (documentLocked r)" and "0 \<le> budget"
    and name: "boundedIdentity (dr_instanceID r) \<noteq> []"
    and built: "buildEventLocked obs now r = (r', e)"
  shows "document_ok budget now (documentLocked (appendLocked e r'))"
    and "dr_events (appendLocked e r') = (if length (coalesceJournalEvent (dr_events r) e)
        \<le> journalCapacity then coalesceJournalEvent (dr_events r) e
      else dropOldestJournalEvent (coalesceJournalEvent (dr_events r) e))"
proof -
  note facts = ok [unfolded document_ok_def documentLocked_def, simplified]
  note b = built_event [OF _ _ name built]
  have fresh: "fresh_event now (dr_highestSequence r) e"
    and r': "r' = r\<lparr>dr_highestSequence := dr_highestSequence r + 1\<rparr>"
    and seq: "me_Sequence e = dr_highestSequence r + 1"
    using b facts \<open>0 \<le> budget\<close> by simp_all
  define c where "c = coalesceJournalEvent (dr_events r) e"
  have okc: "events_ok now (dr_highestSequence r + 1) c"
    using events_ok_coalesce [OF _ fresh] facts seq by (simp add: c_def)
  have "length c \<le> Suc journalCapacity"
    using length_coalesce(1) [of e "dr_events r"] fresh facts
    by (fastforce simp: c_def fresh_event_def events_ok_def)
  then consider "length c \<le> journalCapacity" | "length c = Suc journalCapacity" by linarith
  then have "document_ok budget now (documentLocked (appendLocked e r'))
      \<and> dr_events (appendLocked e r') = (if length c \<le> journalCapacity then c
        else dropOldestJournalEvent c)"
  proof cases
    case 1
    then show ?thesis using facts okc \<open>0 \<le> budget\<close>
      by (simp add: appendLocked_def r' c_def [symmetric] evict_events_bounded document_ok_def
          documentLocked_def add64_id max_int64_def)
  next
    case 2
    then show ?thesis using facts events_ok_dropOldest [OF okc] \<open>0 \<le> budget\<close>
      by (simp add: appendLocked_def r' c_def [symmetric] evict_events_bounded document_ok_def
          documentLocked_def add64_id max_int64_def)
  qed
  then show "document_ok budget now (documentLocked (appendLocked e r'))"
    and "dr_events (appendLocked e r') = (if length (coalesceJournalEvent (dr_events r) e)
        \<le> journalCapacity then coalesceJournalEvent (dr_events r) e
      else dropOldestJournalEvent (coalesceJournalEvent (dr_events r) e))"
    by (simp_all add: c_def)
qed

definition file_ok :: "int \<Rightarrow> int \<Rightarrow> journalDocument state_file \<Rightarrow> bool" where
  "file_ok budget now f \<longleftrightarrow> f = NoStateFile \<or> (\<exists>d. f = StateFile d \<and> document_ok budget now d)"

definition recorder_ok :: "int \<Rightarrow> int \<Rightarrow> diagnosticsRecorder \<Rightarrow> bool" where
  "recorder_ok budget now r \<longleftrightarrow>
     document_ok budget now (documentLocked r) \<and> boundedIdentity (dr_instanceID r) \<noteq> []
     \<and> file_ok budget now (dr_file r)
     \<and> (dr_hasPath r \<and> \<not> dr_persistFailed r \<longrightarrow>
          dr_file r = StateFile (documentLocked r) \<or> dr_file r = NoStateFile \<and> dr_events r = [])"

lemma file_ok_mono:
  "file_ok budget now f \<Longrightarrow> now \<le> now' \<Longrightarrow> budget' \<le> budget \<Longrightarrow> file_ok budget' now' f"
  by (auto simp: file_ok_def intro: document_ok_mono)

lemma recorder_ok_mono:
  "recorder_ok budget now r \<Longrightarrow> now \<le> now' \<Longrightarrow> budget' \<le> budget \<Longrightarrow> recorder_ok budget' now' r"
  by (auto simp: recorder_ok_def intro: document_ok_mono file_ok_mono)

lemma documentLocked_persist [simp]:
  "documentLocked (diagnostics_persist outcome d r) = documentLocked r"
  by (simp add: diagnostics_persist_def documentLocked_def split: prod.split)

lemma persisted_ok:
  assumes "document_ok budget now (documentLocked r)" "file_ok budget now (dr_file r)"
    and "boundedIdentity (dr_instanceID r) \<noteq> []"
  shows "recorder_ok budget now (diagnostics_persist outcome (documentLocked r) r)"
proof (cases "dr_hasPath r")
  case True
  with assms show ?thesis
    by (cases outcome) (auto simp: recorder_ok_def diagnostics_persist_def documentLocked_def file_ok_def)
next
  case False
  with assms show ?thesis by (simp add: recorder_ok_def diagnostics_persist_def)
qed

lemma updateHealth_frame:
  assumes "updateHealthLocked obs now r = (r', recovered)"
  shows "documentLocked r' = documentLocked r" "dr_file r' = dr_file r"
    "dr_instanceID r' = dr_instanceID r" "dr_hasPath r' = dr_hasPath r"
    "dr_persistFailed r' = dr_persistFailed r" "dr_events r' = dr_events r"
  using assms
  by (auto simp: updateHealthLocked_def documentLocked_def split: health_kind.splits prod.splits)

lemma append_frame:
  assumes "buildEventLocked obs now r = (r', e)"
  shows "dr_file (appendLocked e r') = dr_file r" "dr_instanceID (appendLocked e r') = dr_instanceID r"
  using assms by (auto simp: buildEventLocked_def appendLocked_def Let_def split: prod.splits)

lemma recorder_ok_record:
  assumes ok: "recorder_ok (budget + 1) now r" and "0 \<le> budget"
  shows "recorder_ok budget now (diagnostics_record outcome now obs r)"
proof -
  obtain r1 recovered where up: "updateHealthLocked obs now r = (r1, recovered)" by fastforce
  note frame = updateHealth_frame [OF up]
  have ok1: "recorder_ok (budget + 1) now r1" using ok by (simp add: recorder_ok_def frame)
  show ?thesis
  proof (cases "journalWorthy obs \<or> recovered")
    case False
    then have "diagnostics_record outcome now obs r = r1"
      using up by (simp add: diagnostics_record_def)
    with recorder_ok_mono [OF ok1, of now budget] show ?thesis by simp
  next
    case True
    obtain r2 e where built: "buildEventLocked (shown_observation recovered obs) now r1 = (r2, e)"
      by fastforce
    have eq: "diagnostics_record outcome now obs r
        = diagnostics_persist outcome (documentLocked (appendLocked e r2)) (appendLocked e r2)"
      using up True built by (simp add: diagnostics_record_def Let_def)
    have name: "boundedIdentity (dr_instanceID r1) \<noteq> []"
      and doc: "document_ok (budget + 1) now (documentLocked r1)"
      and journal: "file_ok (budget + 1) now (dr_file r1)"
      using ok1 by (simp_all add: recorder_ok_def)
    show ?thesis unfolding eq
    proof (rule persisted_ok)
      show "document_ok budget now (documentLocked (appendLocked e r2))"
        by (rule append_document(1) [OF doc \<open>0 \<le> budget\<close> name built])
      show "file_ok budget now (dr_file (appendLocked e r2))"
        using file_ok_mono [OF journal, of now budget] by (simp add: append_frame [OF built])
      show "boundedIdentity (dr_instanceID (appendLocked e r2)) \<noteq> []"
        using name by (simp add: append_frame [OF built])
    qed
  qed
qed

text \<open>What a restart makes of the file the recorder left.\<close>

lemma restore_frame [simp]:
  "dr_file (restore_document d r) = dr_file r"
  "dr_instanceID (restore_document d r) = dr_instanceID r"
  "dr_hasPath (restore_document d r) = dr_hasPath r"
  "dr_persistFailed (restore_document d r) = dr_persistFailed r"
  by (simp_all add: restore_document_def split: prod.split)

lemma documentLocked_events: "jd_Events (documentLocked r) = dr_events r"
  by (simp add: documentLocked_def)

lemma documentLocked_sequence: "jd_HighestSequence (documentLocked r) = dr_highestSequence r"
  by (simp add: documentLocked_def)

lemma schema_versions [simp]:
  "jd_SchemaVersion d = diagnosticsSchemaVersion \<Longrightarrow>
    \<not> (jd_SchemaVersion d \<noteq> diagnosticsSchemaVersion
       \<and> jd_SchemaVersion d \<noteq> previousDiagnosticsSchemaVersion
       \<and> jd_SchemaVersion d \<noteq> legacyDiagnosticsSchemaVersion)"
  by simp

lemma new_recorder_fields [simp]:
  "dr_file (newDiagnosticsRecorder dir instanceID f) = f"
  "dr_instanceID (newDiagnosticsRecorder dir instanceID f) = instanceID"
  "dr_hasPath (newDiagnosticsRecorder dir instanceID f) = (dir \<noteq> [])"
  "dr_events (newDiagnosticsRecorder dir instanceID f) = []"
  "dr_persistFailed (newDiagnosticsRecorder dir instanceID f) = False"
  by (simp_all add: newDiagnosticsRecorder_def)

lemma new_recorder_ok:
  assumes "boundedIdentity instanceID \<noteq> []" "budget \<le> max_int64"
  shows "recorder_ok budget now (newDiagnosticsRecorder dir instanceID NoStateFile)"
  using assms by (simp add: recorder_ok_def newDiagnosticsRecorder_def documentLocked_def
      document_ok_def file_ok_def add64_def wrap64_id max_int64_def)

lemma recorder_ok_restore:
  assumes f: "file_ok (budget + 1) now f" and "0 \<le> budget" "budget + 1 \<le> max_int64"
    and name: "boundedIdentity instanceID \<noteq> []"
  shows "recorder_ok budget now (diagnostics_restore outcome now
    (newDiagnosticsRecorder dir instanceID f))"
proof -
  let ?r = "newDiagnosticsRecorder dir instanceID f"
  have empty: "document_ok budget now (documentLocked ?r)"
    using new_recorder_ok [OF name, of budget now dir] assms(3)
    by (simp add: recorder_ok_def newDiagnosticsRecorder_def documentLocked_def)
  consider "dir = []" | "dir \<noteq> []" "f = NoStateFile"
    | d where "dir \<noteq> []" "f = StateFile d" "document_ok (budget + 1) now d"
    using f by (auto simp: file_ok_def)
  then show ?thesis
  proof cases
    case 1
    then show ?thesis using empty name file_ok_mono [OF f, of now budget]
      by (simp add: recorder_ok_def diagnostics_restore_def)
  next
    case 2
    then show ?thesis using empty name
      by (simp add: recorder_ok_def diagnostics_restore_def file_ok_def)
  next
    case (3 d)
    let ?s = "restore_document d ?r"
    have doc: "documentLocked ?s = d"
      using restored_document [OF 3(3)] \<open>0 \<le> budget\<close> by simp
    have "recorder_ok (budget + 1) now ?s"
      using 3 f name doc by (simp add: recorder_ok_def)
    moreover have "recorder_ok budget now (diagnostics_persist outcome (documentLocked ?s) ?s)"
      using 3 name doc file_ok_mono [OF f, of now budget] document_ok_mono [OF 3(3), of now budget]
      by (intro persisted_ok) simp_all
    moreover have "jd_SchemaVersion d = diagnosticsSchemaVersion" using 3(3) by (simp add: document_ok_def)
    ultimately show ?thesis
      using 3(1,2) recorder_ok_record [of budget now ?s outcome restore_observation] \<open>0 \<le> budget\<close>
      by (simp add: diagnostics_restore_def Let_def)
  qed
qed

lemma restored_events:
  assumes doc: "document_ok (budget + 1) now d" and "0 \<le> budget" and "dir \<noteq> []"
    and name: "boundedIdentity instanceID \<noteq> []" and "jd_Events d \<noteq> []"
  shows "\<exists>e. me_Operation e = operation_text operationJournalRestore
    \<and> dr_events (diagnostics_restore outcome now (newDiagnosticsRecorder dir instanceID (StateFile d)))
        = (if length (jd_Events d) < journalCapacity then jd_Events d @ [e]
           else dropOldestJournalEvent (jd_Events d @ [e]))"
proof -
  let ?r = "newDiagnosticsRecorder dir instanceID (StateFile d)"
  let ?s = "restore_document d ?r"
  have same: "documentLocked ?s = d" using restored_document [OF doc] \<open>0 \<le> budget\<close> by simp
  then have events: "dr_events ?s = jd_Events d" and seq: "dr_highestSequence ?s = jd_HighestSequence d"
    by (metis documentLocked_events, metis documentLocked_sequence)
  obtain r2 e where built: "buildEventLocked restore_observation now ?s = (r2, e)" by fastforce
  have plain: "updateHealthLocked restore_observation now ?s = (?s, False)"
    "journalWorthy restore_observation" "shown_observation False restore_observation = restore_observation"
    by (simp_all add: restore_observation_def updateHealthLocked_def journalWorthy_def
        shown_observation_def)
  have "jd_SchemaVersion d = diagnosticsSchemaVersion" using doc by (simp add: document_ok_def)
  then have "dr_events (diagnostics_restore outcome now ?r) = dr_events (appendLocked e r2)"
    using \<open>dir \<noteq> []\<close> \<open>jd_Events d \<noteq> []\<close> events
    by (simp add: diagnostics_restore_def diagnostics_record_def plain built Let_def
        diagnostics_persist_def split: prod.split)
  moreover have "document_ok (budget + 1) now (documentLocked ?s)" using doc same by simp
  note app = append_document(2) [OF this \<open>0 \<le> budget\<close> _ built]
  moreover have facts: "0 \<le> dr_highestSequence ?s" "dr_highestSequence ?s < max_int64"
    using doc \<open>0 \<le> budget\<close> unfolding seq by (auto simp: document_ok_def)
  moreover have "validJournalEvent e"
    using built_event(1) [OF facts _ built] name by (simp add: fresh_event_def)
  then have "coalesceJournalEvent (jd_Events d) e = jd_Events d @ [e]"
    using built_event(5) [OF facts _ built] name
    by (simp add: coalesceJournalEvent_def coalescibleJournalEventIndex_def valid_normalized
        journalOutcomeCoalescible_def restore_observation_def)
  ultimately show ?thesis
    using name events built_event(4) [OF facts _ built]
    by (intro exI [of _ e]) (simp add: restore_observation_def Suc_le_eq)
qed

section \<open>Runs\<close>

text \<open>
  An observation is recorded, or the manager restarts with a new recorder over the same state
  directory and restores the journal; each persists with some outcome.
\<close>

datatype recorder_step =
    Observed save_outcome int diagnosticsObservation
  | Restarted save_outcome int string

fun step_time :: "recorder_step \<Rightarrow> int" where
  "step_time (Observed outcome now observation) = now"
| "step_time (Restarted outcome now instanceID) = now"

fun step_named :: "recorder_step \<Rightarrow> bool" where
  "step_named (Observed outcome now observation) = True"
| "step_named (Restarted outcome now instanceID) = (boundedIdentity instanceID \<noteq> [])"

fun run_step :: "string \<Rightarrow> recorder_step \<Rightarrow> diagnosticsRecorder \<Rightarrow> diagnosticsRecorder" where
  "run_step dir (Observed outcome now observation) r =
     diagnostics_record outcome now observation r"
| "run_step dir (Restarted outcome now instanceID) r =
     diagnostics_restore outcome now (newDiagnosticsRecorder dir instanceID (dr_file r))"

lemma recorder_ok_step:
  assumes "recorder_ok (budget + 1) before r" "0 \<le> budget" "budget + 1 \<le> max_int64"
    "before \<le> step_time s" "step_named s"
  shows "recorder_ok budget (step_time s) (run_step dir s r)"
proof (cases s)
  case (Observed outcome now observation)
  then show ?thesis
    using recorder_ok_record [of budget now r] recorder_ok_mono [OF assms(1), of now "budget + 1"] assms
    by simp
next
  case (Restarted outcome now instanceID)
  have "file_ok (budget + 1) now (dr_file r)"
    using assms(1,4) Restarted file_ok_mono by (fastforce simp: recorder_ok_def)
  from recorder_ok_restore [OF this] show ?thesis using assms Restarted by simp
qed

lemma recorder_ok_run:
  "recorder_ok (budget + int (length steps)) before r \<Longrightarrow> 0 \<le> budget
    \<Longrightarrow> budget + int (length steps) \<le> max_int64 \<Longrightarrow> sorted (before # map step_time steps)
    \<Longrightarrow> list_all step_named steps
    \<Longrightarrow> recorder_ok budget (last (before # map step_time steps)) (fold (run_step dir) steps r)"
proof (induction steps arbitrary: before r)
  case (Cons s steps)
  have "recorder_ok (budget + int (length steps)) (step_time s) (run_step dir s r)"
    using Cons.prems by (intro recorder_ok_step [of _ before]) (simp_all add: algebra_simps)
  from Cons.IH [OF this] Cons.prems show ?case by (simp add: last_map)
qed simp

lemma record_has_path: "dr_hasPath (diagnostics_record outcome now obs r) = dr_hasPath r"
proof -
  obtain r1 recovered where up: "updateHealthLocked obs now r = (r1, recovered)" by fastforce
  obtain r2 e where built: "buildEventLocked (shown_observation recovered obs) now r1 = (r2, e)"
    by fastforce
  then have "dr_hasPath (appendLocked e r2) = dr_hasPath r1"
    by (auto simp: buildEventLocked_def appendLocked_def Let_def split: prod.splits)
  with updateHealth_frame(4) [OF up] show ?thesis
    by (simp add: diagnostics_record_def up built Let_def diagnostics_persist_def split: prod.split)
qed

lemma restore_has_path: "dr_hasPath (diagnostics_restore outcome now r) = dr_hasPath r"
  by (simp add: diagnostics_restore_def record_has_path diagnostics_persist_def refuse_journal_def
      Let_def split: sum.split option.split prod.split)

lemma run_has_path:
  assumes dir: "dir \<noteq> []"
  shows "dr_hasPath (fold (run_step dir) steps (newDiagnosticsRecorder dir instanceID f))"
proof -
  have "dr_hasPath (run_step dir s r)" if "dr_hasPath r" for s r
    using that dir by (cases s) (simp_all add: record_has_path restore_has_path)
  then have "dr_hasPath r \<Longrightarrow> dr_hasPath (fold (run_step dir) steps r)" for r
    by (induction steps arbitrary: r) auto
  with dir show ?thesis by simp
qed

lemma recorder_ok_bounds:
  "recorder_ok budget now r \<Longrightarrow> length (dr_events r) \<le> journalCapacity
    \<and> sorted_wrt (<) (map me_Sequence (dr_events r))
    \<and> list_all validJournalEvent (dr_events r) \<and> dr_rejectedEvents r = 0"
  by (simp add: recorder_ok_def document_ok_def documentLocked_def events_ok_def list_all_iff)

text \<open>
  C15: The journal survives restarts. From a fresh installation, over any sequence of recorded
  observations and restarts, taken one after another, each with its write, which may fail, as
  long as the clock does not run backwards, instance identifiers are not blank and there are
  fewer than 2^63 steps: the journal holds at most 64 events
  with strictly increasing sequences, every event would pass the validation of a restart, and
  none was ever rejected by one. If the last write succeeded, a restart at any later time
  brings back every event and adds the evidence of the restart, evicting one event only when
  the journal was full.
\<close>

theorem journal_survives_restart:
  assumes "sorted (map step_time steps @ [now])" "list_all step_named steps"
    and "boundedIdentity instanceID \<noteq> []" "boundedIdentity newID \<noteq> []"
    and "int (length steps) + 1 \<le> max_int64"
    and r: "r = fold (run_step dir) steps (newDiagnosticsRecorder dir instanceID NoStateFile)"
  shows "length (dr_events r) \<le> journalCapacity
    \<and> sorted_wrt (<) (map me_Sequence (dr_events r))
    \<and> list_all validJournalEvent (dr_events r) \<and> dr_rejectedEvents r = 0
    \<and> (dir \<noteq> [] \<and> \<not> persistenceDegraded r \<and> dr_events r \<noteq> [] \<longrightarrow>
        (\<exists>e. me_Operation e = operation_text operationJournalRestore
           \<and> dr_events (diagnostics_restore outcome now
               (newDiagnosticsRecorder dir newID (dr_file r)))
             = (if length (dr_events r) < journalCapacity then dr_events r @ [e]
                else dropOldestJournalEvent (dr_events r @ [e]))))"
proof -
  define before where "before = hd (map step_time steps @ [now])"
  have times: "sorted (before # map step_time steps)" "last (before # map step_time steps) \<le> now"
    using assms(1) unfolding before_def by (cases steps; auto simp: sorted_append last_map)+
  have "recorder_ok (1 + int (length steps)) before
      (newDiagnosticsRecorder dir instanceID NoStateFile)"
    using new_recorder_ok [OF assms(3)] assms(5) by (simp add: algebra_simps)
  from recorder_ok_run [OF this _ _ times(1) assms(2)] assms(5)
  have "recorder_ok 1 (last (before # map step_time steps)) r" unfolding r by simp
  from recorder_ok_mono [OF this times(2)] have ok: "recorder_ok 1 now r" by simp
  have "\<exists>e. me_Operation e = operation_text operationJournalRestore
       \<and> dr_events (diagnostics_restore outcome now
           (newDiagnosticsRecorder dir newID (dr_file r)))
         = (if length (dr_events r) < journalCapacity then dr_events r @ [e]
            else dropOldestJournalEvent (dr_events r @ [e]))"
    if "dir \<noteq> []" "\<not> persistenceDegraded r" "dr_events r \<noteq> []"
  proof -
    have path: "dr_hasPath r"
      using that(1) unfolding r by (rule run_has_path)
    have disk: "dr_file r = StateFile (documentLocked r)"
      using ok path that(2,3) by (simp add: recorder_ok_def persistenceDegraded_def)
    have "document_ok (0 + 1) now (documentLocked r)" using ok by (simp add: recorder_ok_def)
    from restored_events [OF this _ that(1) assms(4)] that(3) show ?thesis
      unfolding disk documentLocked_events by simp
  qed
  with recorder_ok_bounds [OF ok] show ?thesis by blast
qed

definition sample_failure :: diagnosticsObservation where
  "sample_failure =
     \<lparr>do_subsystem = subsystemListener, do_operation = operationMessagePoll, do_target = ''org'',
      do_outcome = outcomeFailed, do_reason = Some reasonTimeout, do_evidence = ''poll failed'',
      do_duration = None, do_attempt = 1, do_retryAt = None, do_healthKind = healthGitHub\<rparr>"

theorem journal_survives_restart_witness:
  "let steps = [Observed Saved 5 sample_failure, Restarted NotReplaced 7 ''b''];
       r = fold (run_step ''/state'') steps (newDiagnosticsRecorder ''/state'' ''a'' NoStateFile)
   in length (dr_events r) \<le> journalCapacity \<and> list_all validJournalEvent (dr_events r)"
proof -
  have names: "boundedIdentity ''a'' \<noteq> []" "boundedIdentity ''b'' \<noteq> []" by code_simp+
  let ?steps = "[Observed Saved 5 sample_failure, Restarted NotReplaced 7 ''b'']"
  have times: "sorted (map step_time ?steps @ [9])" by simp
  have steps: "list_all step_named ?steps" using names by simp
  have few: "int (length ?steps) + 1 \<le> max_int64" by (simp add: max_int64_def)
  from journal_survives_restart [OF times steps names few refl] show ?thesis
    unfolding Let_def by blast
qed

section \<open>The projection\<close>

lemma fit_events_spec:
  "fit_events encoded events evicted = (kept, evicted') \<Longrightarrow> 0 \<le> evicted
    \<Longrightarrow> evicted + int (length events) \<le> max_int64 \<Longrightarrow> sorted_wrt P events
    \<Longrightarrow> (kept = [] \<or> (\<exists>n. encoded kept = Some n \<and> n \<le> journalMaximumBytes))
      \<and> set kept \<subseteq> set events \<and> sorted_wrt P kept \<and> length kept \<le> length events
      \<and> evicted' = evicted + int (length events - length kept)"
proof (induction encoded events evicted rule: fit_events.induct)
  case (1 encoded events evicted)
  show ?case
  proof (cases "events = [] \<or> (\<exists>n. encoded events = Some n \<and> n \<le> journalMaximumBytes)")
    case True
    with 1(2) have "kept = events \<and> evicted' = evicted" by (subst (asm) fit_events.simps) (auto split: if_splits)
    with 1(5) True show ?thesis by auto
  next
    case False
    then have guard: "events \<noteq> []" "\<not> (case encoded events of Some n \<Rightarrow> n \<le> journalMaximumBytes | None \<Rightarrow> False)"
      by (auto split: option.splits)
    have len: "0 < length events" using guard(1) by simp
    have add: "add64 evicted 1 = evicted + 1" using 1(3,4) len by (intro add64_id) linarith+
    have "fit_events encoded (dropOldestJournalEvent events) (evicted + 1) = (kept, evicted')"
      using 1(2) guard add by (subst (asm) fit_events.simps) simp
    from 1(1) [OF guard, unfolded add, OF this] 1(3,4) len sorted_wrt_dropOldest [OF 1(5)]
    have *: "(kept = [] \<or> (\<exists>n. encoded kept = Some n \<and> n \<le> journalMaximumBytes))
      \<and> set kept \<subseteq> set (dropOldestJournalEvent events) \<and> sorted_wrt P kept
      \<and> length kept \<le> length events - 1
      \<and> evicted' = evicted + 1 + int (length events - 1 - length kept)"
      by simp
    have "1 + int (length events - 1 - length kept) = int (length events - length kept)"
      using * len by linarith
    with * set_dropOldest [of events] len show ?thesis by auto
  qed
qed

text \<open>
  C40: Projecting the journal always ends, after at most as many drops as there are events. What
  it publishes is empty or encodes within the size budget of 16384 bytes, holds only events
  of the journal in increasing order, and accounts for every event it left out in the count
  of evicted events.
\<close>

theorem journal_projection_fits:
  assumes "0 \<le> dr_evictedEvents r" "dr_evictedEvents r + int (length (dr_events r)) \<le> max_int64"
    and "sorted_wrt (<) (map me_Sequence (dr_events r))"
  shows "let j = diagnostics_journal encoded r in
    (oj_Events j = [] \<or> (\<exists>n. encoded (oj_Events j) = Some n \<and> n \<le> journalMaximumBytes))
    \<and> set (oj_Events j) \<subseteq> set (dr_events r)
    \<and> sorted_wrt (<) (map me_Sequence (oj_Events j))
    \<and> length (oj_Events j) \<le> length (dr_events r)
    \<and> oj_EvictedEvents j = dr_evictedEvents r + int (length (dr_events r) - length (oj_Events j))"
proof -
  obtain kept evicted where fit: "fit_events encoded (dr_events r) (dr_evictedEvents r) = (kept, evicted)"
    by fastforce
  have "oj_Events (diagnostics_journal encoded r) = kept"
    "oj_EvictedEvents (diagnostics_journal encoded r) = evicted"
    by (simp_all add: diagnostics_journal_def fit Let_def)
  with fit_events_spec [OF fit assms(1,2) assms(3) [unfolded sorted_wrt_map]] show ?thesis
    by (simp add: sorted_wrt_map Let_def)
qed

theorem journal_projection_fits_witness:
  "let r = (newDiagnosticsRecorder [] ''a'' NoStateFile)\<lparr>dr_events :=
       [snd (buildEventLocked sample_failure 5 (newDiagnosticsRecorder [] ''a'' NoStateFile))]\<rparr>;
     j = diagnostics_journal (\<lambda>events. Some (16385 * int (length events))) r
   in oj_Events j = [] \<and> oj_EvictedEvents j = 1"
proof -
  let ?r = "(newDiagnosticsRecorder [] ''a'' NoStateFile)\<lparr>dr_events :=
    [snd (buildEventLocked sample_failure 5 (newDiagnosticsRecorder [] ''a'' NoStateFile))]\<rparr>"
  let ?j = "diagnostics_journal (\<lambda>events. Some (16385 * int (length events))) ?r"
  have "0 \<le> dr_evictedEvents ?r" "dr_evictedEvents ?r + int (length (dr_events ?r)) \<le> max_int64"
    "sorted_wrt (<) (map me_Sequence (dr_events ?r))" and one: "length (dr_events ?r) = 1"
    "dr_evictedEvents ?r = 0"
    by (simp_all add: newDiagnosticsRecorder_def max_int64_def)
  note fits = journal_projection_fits [OF this(1-3), unfolded Let_def,
      of "\<lambda>events. Some (16385 * int (length events))"]
  have "oj_Events ?j = []"
    using fits by (cases "oj_Events ?j") (simp_all add: journalMaximumBytes_def)
  with fits one show ?thesis by (simp add: Let_def)
qed

section \<open>Evidence\<close>

lemma set_join_with: "set (join_with sep fs) \<subseteq> set sep \<union> \<Union> (set ` set fs)"
  by (induction sep fs rule: join_with.induct) auto

lemma set_split_fields: "f \<in> set (split_fields sep xs) \<Longrightarrow> set f \<subseteq> set xs"
proof (induction xs arbitrary: f)
  case (Cons x xs)
  show ?case
  proof (cases "sep x")
    case True
    with Cons show ?thesis by fastforce
  next
    case False
    show ?thesis
    proof (cases "split_fields sep xs")
      case Nil
      with False Cons.prems show ?thesis by simp
    next
      case (Cons g gs)
      have "set h \<subseteq> set xs" if "h \<in> set (g # gs)" for h using Cons.IH [of h] that Cons by simp
      with False Cons.prems Cons show ?thesis by fastforce
    qed
  qed
qed simp

lemma set_fields_func: "f \<in> set (fields_func sep xs) \<Longrightarrow> set f \<subseteq> set xs"
  using set_split_fields [of f sep xs] by (simp add: fields_func_def)

definition evidence_safe :: "int \<Rightarrow> bool" where
  "evidence_safe r \<longleftrightarrow> evidence_alphanumeric r \<or> evidence_punctuation r"

lemma evidence_rune_safe: "evidence_safe (evidence_rune r)"
  by (simp add: evidence_rune_def evidence_safe_def evidence_punctuation_def)

lemma evidence_safe_ascii: "evidence_safe r \<Longrightarrow> 0 \<le> r \<and> r < 128"
  by (auto simp: evidence_safe_def evidence_alphanumeric_def evidence_punctuation_def)

lemma string_of_ascii: "\<forall>r \<in> set rs. 0 \<le> r \<and> r < 128 \<Longrightarrow> map byte_of (string_of_runes rs) = rs"
proof (induction rs)
  case (Cons r rs)
  then have "of_char (char_of r :: char) = r"
    by (simp add: of_char_of)
  with Cons show ?case by (simp add: string_of_runes_def encode_rune_def byte_of_def)
qed (simp add: string_of_runes_def)

text \<open>
  Evidence is safe to publish: whatever text an operation reports, the journal keeps
  nothing of it or at most 160 characters, all of them letters, digits, spaces or one of
  \<^verbatim>\<open>.,_()'-\<close>, beginning with a letter or digit and not ending in a space.
\<close>

theorem evidence_is_safe:
  assumes "sanitizedEvidence txt = Some s"
  shows "s \<noteq> [] \<and> length s \<le> evidenceMaximumRunes
    \<and> list_all (\<lambda>c. evidence_alphanumeric (byte_of c) \<or> evidence_punctuation (byte_of c)) s
    \<and> evidence_alphanumeric (byte_of (hd s)) \<and> byte_of (last s) \<noteq> 32"
proof -
  define trimmed where "trimmed = dropWhile evidence_punctuation
    (join_with [32] (fields_func unicode_IsSpace (map evidence_rune (range_runes txt))))"
  define shown where "shown = rev (dropWhile ((=) 32) (rev (take evidenceMaximumRunes trimmed)))"
  have s: "s = string_of_runes shown" "shown \<noteq> []"
    using assms by (auto simp: sanitizedEvidence_def Let_def shown_def trimmed_def split: if_splits)
  have "set trimmed \<subseteq> {32} \<union> evidence_rune ` set (range_runes txt)"
    using set_join_with [of "[32]" "fields_func unicode_IsSpace (map evidence_rune (range_runes txt))"]
      set_fields_func [of _ unicode_IsSpace "map evidence_rune (range_runes txt)"]
    unfolding trimmed_def by (auto dest!: set_dropWhileD)
  then have safe: "evidence_safe r" if "r \<in> set trimmed" for r
    using that evidence_rune_safe by (auto simp: evidence_safe_def evidence_punctuation_def)
  obtain rest where split: "take evidenceMaximumRunes trimmed = shown @ rest"
    unfolding shown_def using takeWhile_dropWhile_id [of "(=) 32" "rev (take evidenceMaximumRunes trimmed)"]
    by (metis rev_append rev_rev_ident)
  have sub: "set shown \<subseteq> set trimmed" using split by (metis le_sup_iff set_append set_take_subset)
  have "length shown \<le> evidenceMaximumRunes"
    using arg_cong [OF split, of length] by simp
  moreover have bytes: "map byte_of s = shown"
    unfolding s(1) using sub safe evidence_safe_ascii by (intro string_of_ascii) blast
  moreover have "hd shown = hd trimmed" "trimmed \<noteq> []"
    using split s(2) by (metis append_is_Nil_conv hd_append2 hd_take take_eq_Nil take_Nil gr0I)+
  then have "\<not> evidence_punctuation (hd shown)"
    unfolding trimmed_def by (metis hd_dropWhile)
  moreover have "last shown \<noteq> 32"
    using s(2) hd_dropWhile [of "(=) 32" "rev (take evidenceMaximumRunes trimmed)"]
    by (auto simp: shown_def last_rev)
  moreover have "evidence_safe (hd shown)" using safe sub s(2) by (metis hd_in_set subsetD)
  moreover have "s \<noteq> []" "length s = length shown" using bytes s(2) by auto
  moreover have "byte_of (hd s) = hd shown" "byte_of (last s) = last shown"
    using bytes \<open>s \<noteq> []\<close> by (metis hd_map, metis last_map)
  moreover have "\<forall>c \<in> set s. byte_of c \<in> set shown" unfolding bytes [symmetric] by simp
  then have "list_all (\<lambda>c. evidence_safe (byte_of c)) s"
    using safe sub by (auto simp: list_all_iff)
  ultimately show ?thesis by (auto simp: evidence_safe_def)
qed

theorem evidence_is_safe_witness:
  "sanitizedEvidence ''GET https://x?token=1'' = Some ''GET https x token 1''
   \<and> length ''GET https x token 1'' \<le> evidenceMaximumRunes"
proof -
  have run: "sanitizedEvidence ''GET https://x?token=1'' = Some ''GET https x token 1''" by code_simp
  from evidence_is_safe [OF run] run show ?thesis by blast
qed

end
