(* ===== verification/Search.thy ===== *)
theory Search
  imports Prelude
begin

text \<open>
  The standard library's binary search over sorted strings, which both controllers use, and
  its correctness.
\<close>

text \<open>
  \<^verbatim>\<open>sort.SearchStrings\<close>: the binary search of the standard library, which finds the least
  index whose element is not below the key when the list is sorted.
\<close>

function search_strings :: "string list \<Rightarrow> string \<Rightarrow> nat \<Rightarrow> nat \<Rightarrow> nat" where
  "search_strings xs x i j =
     (if i < j then
        let h = (i + j) div 2 in
        if xs ! h < x then search_strings xs x (h + 1) j else search_strings xs x i h
      else i)"
  by pat_completeness auto
termination
  by (relation "measure (\<lambda>(xs, x, i, j). j - i)") auto

declare search_strings.simps [simp del]

definition SearchStrings :: "string list \<Rightarrow> string \<Rightarrow> nat" where
  "SearchStrings xs x = search_strings xs x 0 (length xs)"

lemma search_strings_correct:
  assumes "sorted xs" and "i \<le> j" and "j \<le> length xs"
    and "\<forall>m < i. xs ! m < x" and "\<forall>m. j \<le> m \<and> m < length xs \<longrightarrow> x \<le> xs ! m"
  shows "search_strings xs x i j \<le> length xs
    \<and> (\<forall>m < search_strings xs x i j. xs ! m < x)
    \<and> (\<forall>m. search_strings xs x i j \<le> m \<and> m < length xs \<longrightarrow> x \<le> xs ! m)"
  using assms
proof (induction xs x i j rule: search_strings.induct)
  case (1 xs x i j)
  show ?case
  proof (cases "i < j")
    case False
    with "1.prems" show ?thesis by (auto simp: search_strings.simps)
  next
    case True
    let ?h = "(i + j) div 2"
    have h: "i \<le> ?h" "?h < j" "?h < length xs" using True "1.prems" by auto
    show ?thesis
    proof (cases "xs ! ?h < x")
      case below: True
      have "\<forall>m < ?h + 1. xs ! m < x"
        using sorted_nth_mono [OF "1.prems"(1), of _ ?h] h below
        by (metis Suc_eq_plus1 le_less_trans less_Suc_eq_le)
      with "1.IH"(1) [OF True refl below] True below h "1.prems" show ?thesis
        by (simp add: search_strings.simps [of xs x i j])
    next
      case above: False
      have "\<forall>m. ?h \<le> m \<and> m < length xs \<longrightarrow> x \<le> xs ! m"
        using sorted_nth_mono [OF "1.prems"(1), of ?h] above by force
      with "1.IH"(2) [OF True refl above] True above h "1.prems" show ?thesis
        by (simp add: search_strings.simps [of xs x i j])
    qed
  qed
qed

lemma SearchStrings_correct:
  assumes "sorted xs"
  shows "SearchStrings xs x \<le> length xs"
    and "m < SearchStrings xs x \<Longrightarrow> xs ! m < x"
    and "SearchStrings xs x \<le> m \<Longrightarrow> m < length xs \<Longrightarrow> x \<le> xs ! m"
proof -
  have "SearchStrings xs x \<le> length xs \<and> (\<forall>m < SearchStrings xs x. xs ! m < x)
      \<and> (\<forall>m. SearchStrings xs x \<le> m \<and> m < length xs \<longrightarrow> x \<le> xs ! m)"
    unfolding SearchStrings_def by (rule search_strings_correct [OF assms]) auto
  then show "SearchStrings xs x \<le> length xs"
    and "m < SearchStrings xs x \<Longrightarrow> xs ! m < x"
    and "SearchStrings xs x \<le> m \<Longrightarrow> m < length xs \<Longrightarrow> x \<le> xs ! m"
    by auto
qed

lemma SearchStrings_found:
  assumes "sorted xs"
  shows "SearchStrings xs x < length xs \<and> xs ! SearchStrings xs x = x \<longleftrightarrow> x \<in> set xs"
proof
  assume "x \<in> set xs"
  then obtain m where m: "m < length xs" "xs ! m = x" by (auto simp: in_set_conv_nth)
  let ?r = "SearchStrings xs x"
  have "?r \<le> m"
  proof (rule ccontr)
    assume "\<not> ?r \<le> m"
    with SearchStrings_correct(2) [OF assms, of m x] m show False by simp
  qed
  with m have r: "?r < length xs" by simp
  have "xs ! ?r \<le> x" using sorted_nth_mono [OF assms \<open>?r \<le> m\<close> m(1)] m(2) by simp
  with SearchStrings_correct(3) [OF assms, of x ?r] r show "?r < length xs \<and> xs ! ?r = x" by simp
next
  assume "SearchStrings xs x < length xs \<and> xs ! SearchStrings xs x = x"
  then show "x \<in> set xs" by (metis nth_mem)
qed

end
