(* ===== verification/Fair_Share.thy ===== *)
theory Fair_Share
  imports Prelude
begin

text \<open>
  The rotating equal split both controllers use: the host coordinator for the shared unit
  pool, the profile controller for its worker ceiling. The contract is the formula of the
  source; its consequences are proved once here and reach both through interpretations.
\<close>

locale rotating_share =
  fixes share :: "int \<Rightarrow> int \<Rightarrow> int \<Rightarrow> int \<Rightarrow> int"
    \<comment> \<open>rotation, number of contenders, units to split, index of the contender\<close>
  assumes share_formula:
    "0 < n \<Longrightarrow> share rot n amount i =
       (if (i - rot + n) smod n < amount smod n
        then amount sdiv n + 1 else amount sdiv n)"
begin

lemma share_in_range:
  assumes "0 \<le> rot" "rot < n" "0 \<le> i" "i < n" "0 \<le> amount"
  shows "share rot n amount i =
    (if (i - rot) mod n < amount mod n then amount div n + 1 else amount div n)"
proof -
  have "(i - rot + n) smod n = (i - rot + n) mod n"
    using assms by (intro smod_mod_positive) auto
  moreover have "amount smod n = amount mod n" and "amount sdiv n = amount div n"
    using assms by (cases "amount = 0"; simp add: smod_mod_positive signed_divide_int_def)+
  ultimately show ?thesis
    using assms share_formula [of n rot amount i] by simp
qed

lemma share_bounds:
  assumes "0 \<le> rot" "rot < n" "0 \<le> i" "i < n" "0 \<le> amount"
  shows "amount div n \<le> share rot n amount i"
    and "share rot n amount i \<le> amount div n + 1"
    and "0 \<le> share rot n amount i"
  using assms by (auto simp: share_in_range pos_imp_zdiv_nonneg_iff)

text \<open>Rotating the indices permutes the remainders, so each rotation gives out everything.\<close>

lemma card_extra:
  assumes "0 \<le> r" "r \<le> n" "0 < n"
  shows "card {i \<in> {0..<n}. (i - rot) mod n < r} = nat r"
proof -
  have inj: "inj_on (\<lambda>i. (i - rot) mod n) {0..<n}"
  proof (rule inj_onI)
    fix x y
    assume x: "x \<in> {0..<n}" and y: "y \<in> {0..<n}"
      and eq: "(x - rot) mod n = (y - rot) mod n"
    from eq have "(x - rot + rot) mod n = (y - rot + rot) mod n"
      by (metis mod_add_left_eq)
    with x y show "x = y" by simp
  qed
  have img: "(\<lambda>i. (i - rot) mod n) ` {0..<n} = {0..<n}"
  proof (rule card_subset_eq)
    show "(\<lambda>i. (i - rot) mod n) ` {0..<n} \<subseteq> {0..<n}"
      using assms by auto
    show "card ((\<lambda>i. (i - rot) mod n) ` {0..<n}) = card {0..<n}"
      using inj by (rule card_image)
  qed simp
  have "(\<lambda>i. (i - rot) mod n) ` {i \<in> {0..<n}. (i - rot) mod n < r} = {0..<r}"
  proof (intro set_eqI iffI)
    fix x assume "x \<in> {0..<r}"
    with assms img have "x \<in> (\<lambda>i. (i - rot) mod n) ` {0..<n}" by auto
    with \<open>x \<in> {0..<r}\<close>
    show "x \<in> (\<lambda>i. (i - rot) mod n) ` {i \<in> {0..<n}. (i - rot) mod n < r}" by auto
  qed (use assms in auto)
  moreover have "card ((\<lambda>i. (i - rot) mod n) ` {i \<in> {0..<n}. (i - rot) mod n < r})
      = card {i \<in> {0..<n}. (i - rot) mod n < r}"
    by (rule card_image) (rule inj_on_subset [OF inj], auto)
  ultimately show ?thesis by simp
qed

lemma sum_const_plus_extra:
  assumes "finite A"
  shows "(\<Sum>i\<in>A. if P i then b + 1 else b) = int (card A) * b + int (card {i \<in> A. P i})"
proof -
  have "(\<Sum>i\<in>A. if P i then b + 1 else b) = (\<Sum>i\<in>A. b + (if P i then 1 else 0))"
    by (intro sum.cong) auto
  also have "\<dots> = int (card A) * b + (\<Sum>i\<in>{i \<in> A. P i}. 1)"
    using assms by (simp only: sum.distrib sum.inter_filter) simp
  finally show ?thesis by simp
qed

text \<open>The shares of one rotation add up to exactly what there is to split.\<close>

lemma sum_shares:
  assumes "0 \<le> rot" "rot < n" "0 \<le> amount"
  shows "(\<Sum>i\<in>{0..<n}. share rot n amount i) = amount"
proof -
  have "(\<Sum>i\<in>{0..<n}. share rot n amount i)
      = (\<Sum>i\<in>{0..<n}. if (i - rot) mod n < amount mod n
           then amount div n + 1 else amount div n)"
    using assms by (intro sum.cong) (auto simp: share_in_range)
  also have "\<dots> = n * (amount div n) + amount mod n"
    using assms sum_const_plus_extra [of "{0..<n}"]
      card_extra [of "amount mod n" n rot] by (simp add: pos_mod_bound less_imp_le)
  finally show ?thesis by simp
qed

text \<open>Over one full cycle of the rotation every contender is given the same amount.\<close>

lemma sum_rotations:
  assumes "0 \<le> i" "i < n" "0 \<le> amount"
  shows "(\<Sum>rot\<in>{0..<n}. share rot n amount i) = amount"
proof -
  have pos: "0 < n" using assms by simp
  have flip: "(i - rot) mod n = (n - 1 - ((rot - (i + 1)) mod n))" for rot
  proof -
    have "(i - rot) mod n = (- 1 - (rot - (i + 1))) mod n" by (simp add: algebra_simps)
    also have "\<dots> = (n - 1 - (rot - (i + 1)) mod n) mod n"
      by (metis (no_types, opaque_lifting) diff_diff_eq2 diff_minus_eq_add minus_diff_eq
          mod_add_self2 mod_diff_right_eq uminus_add_conv_diff add.commute)
    also have "\<dots> = n - 1 - (rot - (i + 1)) mod n"
      using pos [THEN pos_mod_bound, of "rot - (i + 1)"] pos [THEN pos_mod_sign, of "rot - (i + 1)"]
      by (intro mod_pos_pos_trivial) linarith+
    finally show ?thesis .
  qed
  let ?r = "amount mod n"
  have r: "0 \<le> ?r" "?r < n" using assms by auto
  have "card {rot \<in> {0..<n}. (i - rot) mod n < ?r}
      = card ({0..<n} - {rot \<in> {0..<n}. (rot - (i + 1)) mod n < n - ?r})"
    by (rule arg_cong [where f = card]) (auto simp: flip)
  also have "\<dots> = nat n - nat (n - ?r)"
    using card_extra [of "n - ?r" n "i + 1"] r
    by (subst card_Diff_subset) (auto intro: finite_subset [of _ "{0..<n}"])
  finally have "card {rot \<in> {0..<n}. (i - rot) mod n < ?r} = nat ?r"
    using r by simp
  moreover have "(\<Sum>rot\<in>{0..<n}. share rot n amount i)
      = (\<Sum>rot\<in>{0..<n}. if (i - rot) mod n < ?r
           then amount div n + 1 else amount div n)"
    using assms by (intro sum.cong) (auto simp: share_in_range)
  ultimately show ?thesis
    using r assms sum_const_plus_extra [of "{0..<n}"] by simp
qed

text \<open>
  A rotation of twice the number of contenders or more makes the truncated remainder negative or
  zero for every index, so the shares are too large.
\<close>

lemma share_beyond:
  assumes "0 \<le> i" "i < n" "2 * n - 1 \<le> rot" "0 \<le> amount"
  shows "share rot n amount i
    = (if 0 < amount mod n \<or> (i - rot) mod n \<noteq> 0 then amount div n + 1 else amount div n)"
proof -
  let ?x = "rot - i - n"
  have x: "0 \<le> ?x" using assms by simp
  have "(i - rot + n) smod n = - (?x mod n)"
    using x assms by (cases "?x = 0") (auto simp: signed_modulo_int_def signed_divide_int_def
        sgn_if minus_div_mult_eq_mod [symmetric] algebra_simps)
  moreover have "?x mod n = 0 \<longleftrightarrow> (i - rot) mod n = 0"
    using dvd_diff_commute [of n rot i] by (simp add: mod_eq_0_iff_dvd)
  moreover have "0 \<le> ?x mod n" "0 \<le> amount mod n"
    using pos_mod_sign [of n ?x] pos_mod_sign [of n amount] assms by simp_all
  moreover have "amount smod n = amount mod n" "amount sdiv n = amount div n"
    using assms by (cases "amount = 0"; simp add: smod_mod_positive signed_divide_int_def)+
  ultimately have "(i - rot + n) smod n < amount smod n \<longleftrightarrow> 0 < amount mod n \<or> (i - rot) mod n \<noteq> 0"
    and "amount sdiv n = amount div n" by simp_all (cases "?x mod n = 0"; simp)
  then show ?thesis
    using share_formula [of n rot amount i] assms by simp
qed

lemma sum_beyond:
  assumes "0 < n" "2 * n - 1 \<le> rot" "0 \<le> amount"
  shows "(\<Sum>i\<in>{0..<n}. share rot n amount i)
    = amount + (if amount mod n = 0 then n - 1 else n - amount mod n)"
proof -
  define extra where "extra = {i \<in> {0..<n}. 0 < amount mod n \<or> (i - rot) mod n \<noteq> 0}"
  have "(\<Sum>i\<in>{0..<n}. share rot n amount i)
      = (\<Sum>i\<in>{0..<n}. if 0 < amount mod n \<or> (i - rot) mod n \<noteq> 0 then amount div n + 1 else amount div n)"
    using assms by (intro sum.cong refl share_beyond) simp_all
  then have total: "(\<Sum>i\<in>{0..<n}. share rot n amount i) = n * (amount div n) + int (card extra)"
    using assms(1) by (simp only: sum_const_plus_extra extra_def finite_atLeastLessThan_int) simp
  have "int (card extra) = (if amount mod n = 0 then n - 1 else n)"
  proof (cases "amount mod n = 0")
    case True
    have small: "(i - rot) mod n < 1 \<longleftrightarrow> (i - rot) mod n = 0" for i
      using pos_mod_sign [OF assms(1), of "i - rot"] by linarith
    have "extra = {0..<n} - {i \<in> {0..<n}. (i - rot) mod n < 1}"
      unfolding extra_def small True by fastforce
    moreover have "card ({0..<n} - {i \<in> {0..<n}. (i - rot) mod n < 1})
        = card {0..<n} - card {i \<in> {0..<n}. (i - rot) mod n < 1}"
      by (rule card_Diff_subset) (rule finite_subset [of _ "{0..<n}"], blast, simp, blast)
    ultimately have "card extra = nat n - 1" using card_extra [of 1 n rot] assms(1) by simp
    with True assms(1) show ?thesis by simp
  next
    case False
    then have "0 < amount mod n" using assms(1) pos_mod_sign [of n amount] by linarith
    then have "extra = {0..<n}" unfolding extra_def by blast
    with False assms(1) show ?thesis by simp
  qed
  moreover have "n * (amount div n) = amount - amount mod n"
    using mult_div_mod_eq [of n amount] by linarith
  ultimately show ?thesis using total by simp
qed

end

end
