(* ===== verification/Profile_Admission.thy ===== *)
theory Profile_Admission
  imports Search Fair_Share
begin

text \<open>
  \<^verbatim>\<open>autoscaler/admission.go\<close>: the profile-wide ceiling on active workers across the targets of
  one profile. A member's \<^verbatim>\<open>live\<close> function reads state the controller does not own, so it is a
  function of the world \<open>'w\<close> at the moment of the call. A nil controller is \<^term>\<open>None\<close>. Counts
  are numbers of workers, far below the range of \<^verbatim>\<open>int\<close>.
\<close>

record 'w admissionMember =
  am_live :: "('w \<Rightarrow> int) option"
  am_demand :: int
  am_inFlight :: int

record 'w admissionController =
  ac_ceiling :: int
  ac_members :: "(string, 'w admissionMember) gomap"
  ac_rotation :: int

definition newAdmissionController :: "int \<Rightarrow> 'w admissionController" where
  "newAdmissionController ceiling =
     \<lparr>ac_ceiling = (if ceiling < 0 then 0 else ceiling), ac_members = [], ac_rotation = 0\<rparr>"

definition heldCount :: "'w \<Rightarrow> 'w admissionMember \<Rightarrow> int" where
  "heldCount w m =
     am_inFlight m + (case am_live m of None \<Rightarrow> 0 | Some live \<Rightarrow> max (live w) 0)"

fun admission_join ::
  "'w admissionController option \<Rightarrow> string \<Rightarrow> ('w \<Rightarrow> int) option \<Rightarrow> 'w admissionController option" where
  "admission_join None key live = None"
| "admission_join (Some a) key live =
     Some (if key = [] \<or> live = None then a
           else case map_of (ac_members a) key of
             Some member \<Rightarrow>
               a\<lparr>ac_members := mput (ac_members a) key (member\<lparr>am_live := live\<rparr>)\<rparr>
           | None \<Rightarrow>
               a\<lparr>ac_members := mput (ac_members a) key
                   \<lparr>am_live = live, am_demand = 0, am_inFlight = 0\<rparr>\<rparr>)"

fun admission_leave ::
  "'w admissionController option \<Rightarrow> string \<Rightarrow> 'w admissionController option" where
  "admission_leave None key = None"
| "admission_leave (Some a) key =
     (let members = mdel (ac_members a) key in
      Some (a\<lparr>ac_members := members,
        ac_rotation := (if ac_rotation a > int (length members) then 0 else ac_rotation a)\<rparr>))"

fun admission_setDemand ::
  "'w admissionController option \<Rightarrow> string \<Rightarrow> int \<Rightarrow> 'w admissionController option" where
  "admission_setDemand None key demand = None"
| "admission_setDemand (Some a) key demand =
     Some (case map_of (ac_members a) key of
        None \<Rightarrow> a
      | Some member \<Rightarrow>
          a\<lparr>ac_members := mput (ac_members a) key (member\<lparr>am_demand := max demand 0\<rparr>)\<rparr>)"

definition orderedKeysLocked :: "'w admissionController \<Rightarrow> string list" where
  "orderedKeysLocked a = sort (mkeys (ac_members a))"

definition rotatedShare :: "int \<Rightarrow> int \<Rightarrow> int \<Rightarrow> int \<Rightarrow> int" where
  "rotatedShare rotation n ceiling index =
     (let base = ceiling sdiv n; remainder = ceiling smod n in
      if (index - rotation + n) smod n < remainder then base + 1 else base)"

definition shareLocked :: "'w admissionController \<Rightarrow> string list \<Rightarrow> string \<Rightarrow> int" where
  "shareLocked a keys key =
     (let count = int (length keys) in
      if count = 0 then ac_ceiling a
      else
        let index = SearchStrings keys key in
        if int index \<ge> count \<or> keys ! index \<noteq> key then 0
        else rotatedShare (ac_rotation a) count (ac_ceiling a) (int index))"

text \<open>The map \<^verbatim>\<open>held\<close> that \<^verbatim>\<open>reserve\<close> fills.\<close>

definition held_by :: "'w admissionController \<Rightarrow> 'w \<Rightarrow> string \<Rightarrow> int" where
  "held_by a w k = (case map_of (ac_members a) k of None \<Rightarrow> 0 | Some m \<Rightarrow> heldCount w m)"

text \<open>What a target is given out of its own guarantee.\<close>

definition guaranteed_grant ::
  "'w admissionController \<Rightarrow> 'w \<Rightarrow> string list \<Rightarrow> string \<Rightarrow> int \<Rightarrow> int \<Rightarrow> int" where
  "guaranteed_grant a w keys key want free =
     (let guarantee = shareLocked a keys key in
      if held_by a w key < guarantee
      then min want (min (guarantee - held_by a w key) free) else 0)"

text \<open>The unmet demand of one other target, up to its guarantee.\<close>

definition protected_for ::
  "'w admissionController \<Rightarrow> 'w \<Rightarrow> string list \<Rightarrow> string \<Rightarrow> int" where
  "protected_for a w keys other =
     (case map_of (ac_members a) other of
        None \<Rightarrow> 0
      | Some m \<Rightarrow>
          let need = am_demand m - held_by a w other in
          if need \<le> 0 then 0 else min need (shareLocked a keys other))"

definition protected_total ::
  "'w admissionController \<Rightarrow> 'w \<Rightarrow> string list \<Rightarrow> string \<Rightarrow> int" where
  "protected_total a w keys key =
     sum_list (map (protected_for a w keys) (filter (\<lambda>other. other \<noteq> key) keys))"

text \<open>The grant: the guarantee first, then what no other target is protected for.\<close>

definition admit ::
  "'w admissionController \<Rightarrow> 'w \<Rightarrow> string list \<Rightarrow> string \<Rightarrow> int \<Rightarrow> int \<Rightarrow> int" where
  "admit a w keys key want free =
     (let granted = guaranteed_grant a w keys key want free in
      if granted < want
      then
        let surplus = free - granted - protected_total a w keys key in
        if surplus > 0 then granted + min (want - granted) surplus else granted
      else granted)"

definition total_held :: "'w admissionController \<Rightarrow> 'w \<Rightarrow> int" where
  "total_held a w = sum_list (map (held_by a w) (orderedKeysLocked a))"

definition reserve_body ::
  "'w admissionController \<Rightarrow> 'w \<Rightarrow> string \<Rightarrow> int \<Rightarrow> 'w admissionController \<times> int" where
  "reserve_body a w key want =
     (case map_of (ac_members a) key of
        None \<Rightarrow> (a, want)
      | Some member \<Rightarrow>
          let asked = a\<lparr>ac_members := mput (ac_members a) key (member\<lparr>am_demand := want\<rparr>)\<rparr> in
          if ac_ceiling a \<le> 0 then (asked, want)
          else
            let keys = orderedKeysLocked asked;
                free = ac_ceiling asked - total_held asked w
            in if free \<le> 0 then (asked, 0)
               else
                 let granted = admit asked w keys key want free;
                     inFlight = (if granted > 0 then am_inFlight member + granted
                       else am_inFlight member);
                     rotation = (if granted > 0 \<and> length keys > 0
                       then (ac_rotation a + 1) smod int (length keys) else ac_rotation a)
                 in (asked\<lparr>ac_members := mput (ac_members asked) key
                       (member\<lparr>am_demand := want - granted, am_inFlight := inFlight\<rparr>),
                       ac_rotation := rotation\<rparr>, granted))"

fun admission_reserve ::
  "'w \<Rightarrow> 'w admissionController option \<Rightarrow> string \<Rightarrow> int \<Rightarrow> 'w admissionController option \<times> int" where
  "admission_reserve w None key want = (None, max want 0)"
| "admission_reserve w (Some a) key want =
     (if want \<le> 0 then (Some a, max want 0)
      else let (a', granted) = reserve_body a w key want in (Some a', granted))"

fun admission_settle ::
  "'w admissionController option \<Rightarrow> string \<Rightarrow> int \<Rightarrow> 'w admissionController option" where
  "admission_settle None key n = None"
| "admission_settle (Some a) key n =
     Some (if n \<le> 0 then a
           else case map_of (ac_members a) key of
             None \<Rightarrow> a
           | Some member \<Rightarrow>
               a\<lparr>ac_members := mput (ac_members a) key
                   (member\<lparr>am_inFlight := max (am_inFlight member - n) 0\<rparr>)\<rparr>)"

fun admission_limit :: "'w admissionController option \<Rightarrow> int" where
  "admission_limit None = 0"
| "admission_limit (Some a) = ac_ceiling a"

section \<open>Shares\<close>

interpretation profile_share: rotating_share rotatedShare
  by unfold_locales (simp add: rotatedShare_def Let_def)

definition controller_ok :: "'w admissionController \<Rightarrow> bool" where
  "controller_ok a \<longleftrightarrow> map_ok (ac_members a) \<and> 0 \<le> ac_ceiling a
     \<and> 0 \<le> ac_rotation a \<and> ac_rotation a \<le> int (length (ac_members a))
     \<and> (\<forall>m \<in> snd ` set (ac_members a). 0 \<le> am_inFlight m)"

lemma ordered_keys [simp]:
  "set (orderedKeysLocked a) = fst ` set (ac_members a)"
  "length (orderedKeysLocked a) = length (ac_members a)"
  "distinct (orderedKeysLocked a) = map_ok (ac_members a)"
  "sorted (orderedKeysLocked a)"
  by (simp_all add: orderedKeysLocked_def)

text \<open>A rotation equal to the member count, which \<^verbatim>\<open>leave\<close> can produce, acts as zero.\<close>

lemma rotation_wraps: "0 < n \<Longrightarrow> 0 \<le> i \<Longrightarrow> i < n \<Longrightarrow> rotatedShare n n c i = rotatedShare 0 n c i"
proof -
  assume "0 < n" "0 \<le> i" "i < n"
  then have "i smod n = i mod n" and "(i + n) smod n = (i + n) mod n"
    by (cases "i = 0"; simp add: smod_mod_positive)+
  then show ?thesis by (simp add: rotatedShare_def)
qed

lemma SearchStrings_index:
  assumes "sorted xs" "distinct xs" "i < length xs"
  shows "SearchStrings xs (xs ! i) = i"
  using SearchStrings_found [OF assms(1), of "xs ! i"] assms(2,3) nth_eq_iff_index_eq [OF assms(2)]
    nth_mem [OF assms(3)] by blast

lemma share_at_index:
  assumes ok: "controller_ok a" and i: "i < length (ac_members a)"
  shows "shareLocked a (orderedKeysLocked a) (orderedKeysLocked a ! i)
    = rotatedShare (ac_rotation a) (int (length (ac_members a))) (ac_ceiling a) (int i)"
  using assms SearchStrings_index [of "orderedKeysLocked a" i]
  by (auto simp: shareLocked_def Let_def controller_ok_def)

lemma shares_exhaust_ceiling:
  assumes ok: "controller_ok a" and members: "ac_members a \<noteq> []"
  shows "sum_list (map (shareLocked a (orderedKeysLocked a)) (orderedKeysLocked a)) = ac_ceiling a"
    (is "sum_list (map ?f ?ks) = _")
proof -
  let ?n = "int (length (ac_members a))"
  let ?rot = "if ac_rotation a = ?n then 0 else ac_rotation a"
  have n: "0 < ?n" using members by simp
  have "sum_list (map ?f ?ks) = (\<Sum>i = 0..<length ?ks. ?f (?ks ! i))"
    by (simp add: sum_list_sum_nth)
  also have "\<dots> = (\<Sum>i = 0..<length (ac_members a). rotatedShare ?rot ?n (ac_ceiling a) (int i))"
    using ok rotation_wraps [OF n] by (intro sum.cong) (auto simp: share_at_index)
  also have "\<dots> = (\<Sum>i \<in> int ` {0..<length (ac_members a)}. rotatedShare ?rot ?n (ac_ceiling a) i)"
    by (subst sum.reindex) auto
  also have "int ` {0..<length (ac_members a)} = {0..<?n}"
    using image_int_atLeastLessThan [of 0 "length (ac_members a)"] by simp
  also have "(\<Sum>i \<in> {0..<?n}. rotatedShare ?rot ?n (ac_ceiling a) i) = ac_ceiling a"
    using ok n by (intro profile_share.sum_shares) (auto simp: controller_ok_def)
  finally show ?thesis .
qed

lemma share_nonneg:
  assumes ok: "controller_ok a" and k: "k \<in> fst ` set (ac_members a)"
  shows "0 \<le> shareLocked a (orderedKeysLocked a) k"
proof -
  from k obtain i where i: "i < length (ac_members a)" "k = orderedKeysLocked a ! i"
    by (metis in_set_conv_nth ordered_keys(1,2))
  let ?n = "int (length (ac_members a))"
  have ne: "ac_members a \<noteq> []" using i by auto
  have "0 \<le> rotatedShare (ac_rotation a) ?n (ac_ceiling a) (int i)"
  proof (cases "ac_rotation a = ?n")
    case True
    then show ?thesis
      using profile_share.share_bounds(3) [of 0 ?n "int i" "ac_ceiling a"] ok i(1) ne
        rotation_wraps [of ?n "int i" "ac_ceiling a"] by (auto simp: controller_ok_def)
  next
    case False
    then show ?thesis
      using profile_share.share_bounds(3) [of "ac_rotation a" ?n "int i" "ac_ceiling a"] ok i(1)
      by (simp add: controller_ok_def)
  qed
  with i share_at_index [OF ok i(1)] show ?thesis by simp
qed

section \<open>One reservation\<close>

lemma sum_nonneg_map: "(\<And>x. x \<in> set xs \<Longrightarrow> (0::int) \<le> f x) \<Longrightarrow> 0 \<le> sum_list (map f xs)"
  by (induction xs) auto

lemma protected_nonneg: "controller_ok a \<Longrightarrow> 0 \<le> protected_total a w (orderedKeysLocked a) key"
  unfolding protected_total_def
  by (rule sum_nonneg_map) (auto simp: protected_for_def Let_def share_nonneg split: option.split)

lemma guaranteed_grant_bounds:
  assumes "0 < want" "0 < free"
  shows "0 \<le> guaranteed_grant a w keys key want free"
    and "guaranteed_grant a w keys key want free \<le> want"
    and "guaranteed_grant a w keys key want free \<le> free"
  using assms by (auto simp: guaranteed_grant_def Let_def)

lemma admit_bounds:
  assumes "controller_ok a" "0 < want" "0 < free"
  shows "0 \<le> admit a w (orderedKeysLocked a) key want free"
    and "admit a w (orderedKeysLocked a) key want free \<le> want"
    and "admit a w (orderedKeysLocked a) key want free \<le> free"
    and "guaranteed_grant a w (orderedKeysLocked a) key want free
      \<le> admit a w (orderedKeysLocked a) key want free"
  using guaranteed_grant_bounds [OF assms(2,3), of a w "orderedKeysLocked a" key]
    protected_nonneg [OF assms(1), of w key]
  by (auto simp: admit_def Let_def)

text \<open>Beyond its guarantee a target only takes what leaves every protected demand its room.\<close>

lemma admit_leaves_protected:
  assumes "guaranteed_grant a w keys key want free < admit a w keys key want free"
  shows "protected_total a w keys key \<le> free - admit a w keys key want free"
  using assms by (auto simp: admit_def Let_def split: if_splits)

lemma heldCount_update:
  "heldCount w (m\<lparr>am_demand := d\<rparr>) = heldCount w m"
  "heldCount w (m\<lparr>am_demand := d, am_inFlight := n\<rparr>) = heldCount w m + (n - am_inFlight m)"
  "heldCount w (m\<lparr>am_inFlight := n\<rparr>) = heldCount w m + (n - am_inFlight m)"
  by (simp_all add: heldCount_def)

lemma total_held_members:
  assumes "map_ok (ac_members a)"
  shows "total_held a w = (\<Sum>k \<in> fst ` set (ac_members a). held_by a w k)"
  unfolding total_held_def using assms
  by (subst sum_list_distinct_conv_sum_set) auto

lemma total_held_put:
  assumes ok: "map_ok (ac_members a)" and k: "map_of (ac_members a) k = Some m"
    and a': "ac_members a' = mput (ac_members a) k m'"
  shows "total_held a' w = total_held a w + heldCount w m' - heldCount w m"
proof -
  have mem: "k \<in> fst ` set (ac_members a)" using k by (metis fst_conv image_eqI map_of_SomeD)
  then have keys: "fst ` set (ac_members a') = fst ` set (ac_members a)"
    using a' by (auto simp: dom_update)
  let ?rest = "fst ` set (ac_members a) - {k}"
  have "total_held b w = held_by b w k + sum (held_by b w) ?rest"
    if "map_ok (ac_members b)" "fst ` set (ac_members b) = fst ` set (ac_members a)" for b
    using mem that by (simp add: total_held_members sum.remove)
  moreover have "sum (held_by a' w) ?rest = sum (held_by a w) ?rest"
    using a' by (intro sum.cong) (auto simp: held_by_def)
  ultimately show ?thesis using ok k a' keys by (simp add: held_by_def)
qed

lemma member_inFlight_nonneg:
  "controller_ok a \<Longrightarrow> map_of (ac_members a) k = Some m \<Longrightarrow> 0 \<le> am_inFlight m"
  by (force simp: controller_ok_def dest: map_of_SomeD)

lemma length_mput_member: "map_of xs k = Some m \<Longrightarrow> length (mput xs k m') = length xs"
  by (induction xs) (auto split: if_splits)

lemma length_mput_le: "length xs \<le> length (mput xs k v)"
  by (induction xs) auto

text \<open>Replacing one member's record, with a rotation inside the member count.\<close>

lemma controller_ok_put:
  assumes ok: "controller_ok a" and k: "map_of (ac_members a) k = Some m" and m': "0 \<le> am_inFlight m'"
    and a': "ac_members a' = mput (ac_members a) k m'" "ac_ceiling a' = ac_ceiling a"
      "0 \<le> ac_rotation a'" "ac_rotation a' \<le> int (length (ac_members a))"
  shows "controller_ok a'"
proof -
  have "\<forall>x \<in> set (ac_members a'). 0 \<le> am_inFlight (snd x)"
    using ok m' a'(1) by (auto simp: controller_ok_def set_mput)
  with ok a' k show ?thesis by (auto simp: controller_ok_def length_mput_member)
qed

text \<open>What a reservation by a member of a limited controller does.\<close>

lemma reserve_member:
  assumes ok: "controller_ok a" and k: "map_of (ac_members a) key = Some m"
    and want: "0 < want" and ceiling: "0 < ac_ceiling a"
    and result: "reserve_body a w key want = (a', g)"
  obtains m' where "ac_members a' = mput (ac_members a) key m'" "ac_ceiling a' = ac_ceiling a"
    "am_live m' = am_live m" "am_inFlight m' = am_inFlight m + g" "controller_ok a'"
    "0 \<le> g" "g \<le> want" "g > 0 \<longrightarrow> total_held a w + g \<le> ac_ceiling a"
proof -
  let ?asked = "a\<lparr>ac_members := mput (ac_members a) key (m\<lparr>am_demand := want\<rparr>)\<rparr>"
  let ?free = "ac_ceiling a - total_held ?asked w"
  let ?g = "admit ?asked w (orderedKeysLocked ?asked) key want ?free"
  have in_flight: "0 \<le> am_inFlight m" using member_inFlight_nonneg [OF ok k] .
  have asked: "controller_ok ?asked"
    using ok k in_flight by (intro controller_ok_put [OF ok k]) (auto simp: controller_ok_def)
  have total: "total_held ?asked w = total_held a w"
    using total_held_put [of a key m ?asked "m\<lparr>am_demand := want\<rparr>" w] ok k
    by (simp add: controller_ok_def heldCount_update)
  show thesis
  proof (cases "?free \<le> 0")
    case True
    with k ceiling result have "a' = ?asked" "g = 0" by (simp_all add: reserve_body_def Let_def)
    with asked want show thesis by (intro that [of "m\<lparr>am_demand := want\<rparr>"]) simp_all
  next
    case False
    note bounds = admit_bounds [OF asked want, of ?free w key]
    let ?n = "length (orderedKeysLocked ?asked)"
    let ?rot = "if ?g > 0 \<and> ?n > 0 then (ac_rotation a + 1) smod int ?n else ac_rotation a"
    let ?m = "m\<lparr>am_demand := want - ?g, am_inFlight := (if ?g > 0 then am_inFlight m + ?g else am_inFlight m)\<rparr>"
    have "reserve_body a w key want
        = (?asked\<lparr>ac_members := mput (ac_members ?asked) key ?m, ac_rotation := ?rot\<rparr>, ?g)"
      using k ceiling False by (simp add: reserve_body_def Let_def)
    with result have a': "a' = ?asked\<lparr>ac_members := mput (ac_members ?asked) key ?m, ac_rotation := ?rot\<rparr>"
      and g: "g = ?g" by (metis prod.inject)+
    have members: "ac_members a' = mput (ac_members a) key ?m"
      using a' by simp
    have n: "?n = length (ac_members a)" using k by (simp add: length_mput_member)
    have "0 \<le> ?rot \<and> ?rot \<le> int (length (ac_members a))"
      using ok n by (auto simp: controller_ok_def smod_mod_positive less_imp_le)
    then have "controller_ok a'"
      using a' members in_flight bounds(1) False
      by (intro controller_ok_put [OF ok k, of ?m]) (auto split: if_splits)
    with a' members g bounds False total show thesis by (intro that [of ?m]) auto
  qed
qed

section \<open>Launches of all targets\<close>

text \<open>
  The controller together with the workers of its targets. A scaler asks for workers, and for
  each admitted one makes a launch attempt that ends in a tracked worker or a failure and is
  then settled (\<^verbatim>\<open>reconcileLocked\<close>); workers disappear; targets join and leave. Between the
  moment a worker is tracked and its settlement it is counted twice. A worker of an earlier
  manager is inserted without a reservation (\<^verbatim>\<open>insertRecoveredRunner\<close>), and a member may join
  with workers it already has (\<^verbatim>\<open>scanRecovered\<close> joins the recovered workers as one member). An
  activity the scaler cannot perform in a state (tracking without a reservation, settling what
  was not tracked) leaves the state unchanged.
\<close>

type_synonym live_counts = "string \<Rightarrow> int"

record profile_run =
  pr_controller :: "live_counts admissionController"
  pr_live :: live_counts
  pr_tracked :: live_counts

datatype activity =
    Wanted string int
  | Demanded string int
  | Tracked string
  | Settled string
  | LaunchFailed string
  | WorkerGone string
  | Recovered string
  | Joined string
  | Left string

definition outstanding :: "profile_run \<Rightarrow> string \<Rightarrow> int" where
  "outstanding r k = (case map_of (ac_members (pr_controller r)) k of
     None \<Rightarrow> 0 | Some m \<Rightarrow> am_inFlight m - pr_tracked r k)"

fun act :: "activity \<Rightarrow> profile_run \<Rightarrow> profile_run" where
  "act (Wanted k n) r = r\<lparr>pr_controller :=
     the (fst (admission_reserve (pr_live r) (Some (pr_controller r)) k n))\<rparr>"
| "act (Demanded k n) r = r\<lparr>pr_controller :=
     the (admission_setDemand (Some (pr_controller r)) k n)\<rparr>"
| "act (Tracked k) r =
     (if outstanding r k > 0
      then r\<lparr>pr_live := (pr_live r)(k := pr_live r k + 1),
             pr_tracked := (pr_tracked r)(k := pr_tracked r k + 1)\<rparr>
      else r)"
| "act (Settled k) r =
     (if pr_tracked r k > 0
      then r\<lparr>pr_controller := the (admission_settle (Some (pr_controller r)) k 1),
             pr_tracked := (pr_tracked r)(k := pr_tracked r k - 1)\<rparr>
      else r)"
| "act (LaunchFailed k) r =
     (if outstanding r k > 0
      then r\<lparr>pr_controller := the (admission_settle (Some (pr_controller r)) k 1)\<rparr>
      else r)"
| "act (WorkerGone k) r =
     (if pr_live r k > 0 then r\<lparr>pr_live := (pr_live r)(k := pr_live r k - 1)\<rparr> else r)"
| "act (Recovered k) r = r\<lparr>pr_live := (pr_live r)(k := pr_live r k + 1)\<rparr>"
| "act (Joined k) r =
     r\<lparr>pr_controller := the (admission_join (Some (pr_controller r)) k (Some (\<lambda>live. live k)))\<rparr>"
| "act (Left k) r =
     r\<lparr>pr_controller := the (admission_leave (Some (pr_controller r)) k),
       pr_tracked := (pr_tracked r)(k := 0)\<rparr>"

definition fresh_run :: "int \<Rightarrow> profile_run" where
  "fresh_run ceiling = \<lparr>pr_controller = newAdmissionController ceiling, pr_live = (\<lambda>k. 0),
     pr_tracked = (\<lambda>k. 0)\<rparr>"

abbreviation run_members :: "profile_run \<Rightarrow> string set" where
  "run_members r \<equiv> fst ` set (ac_members (pr_controller r))"

definition members_ok :: "profile_run \<Rightarrow> bool" where
  "members_ok r \<longleftrightarrow>
     (\<forall>k. 0 \<le> pr_live r k \<and> 0 \<le> pr_tracked r k)
     \<and> (\<forall>k m. map_of (ac_members (pr_controller r)) k = Some m \<longrightarrow>
          am_live m = Some (\<lambda>live. live k) \<and> pr_tracked r k \<le> am_inFlight m)
     \<and> (\<forall>k. k \<notin> run_members r \<longrightarrow> pr_tracked r k = 0)"

text \<open>The workers of the members together with the reservations not yet turned into one.\<close>

definition committed :: "profile_run \<Rightarrow> int" where
  "committed r = (\<Sum>k \<in> run_members r. pr_live r k + outstanding r k)"

text \<open>
  The workers an activity brings under the ceiling without a reservation: one recovered by a
  member, or those a new member already has when it joins.
\<close>

fun unreserved_by :: "activity \<Rightarrow> profile_run \<Rightarrow> int" where
  "unreserved_by (Recovered k) r = (if k \<in> run_members r then 1 else 0)"
| "unreserved_by (Joined k) r = (if k = [] \<or> k \<in> run_members r then 0 else pr_live r k)"
| "unreserved_by _ r = 0"

fun unreserved :: "activity list \<Rightarrow> profile_run \<Rightarrow> int" where
  "unreserved [] r = 0"
| "unreserved (i # is) r = unreserved_by i r + unreserved is (act i r)"

definition run_ok :: "profile_run \<Rightarrow> bool" where
  "run_ok r \<longleftrightarrow> controller_ok (pr_controller r) \<and> 0 < ac_ceiling (pr_controller r) \<and> members_ok r"

text \<open>What one activity that brings \<open>u\<close> workers without a reservation may do.\<close>

definition bounded_step :: "profile_run \<Rightarrow> int \<Rightarrow> profile_run \<Rightarrow> bool" where
  "bounded_step r u r' \<longleftrightarrow>
     run_ok r' \<and> committed r' \<le> max (ac_ceiling (pr_controller r)) (committed r) + u"

lemma fresh_run_ok: "0 < ceiling \<Longrightarrow> run_ok (fresh_run ceiling)"
  by (simp add: run_ok_def fresh_run_def newAdmissionController_def controller_ok_def members_ok_def)

lemma fresh_run_committed: "committed (fresh_run ceiling) = 0"
  by (simp add: committed_def fresh_run_def newAdmissionController_def)

lemma bounded_refl [simp]: "run_ok r \<Longrightarrow> bounded_step r 0 r"
  by (simp add: bounded_step_def)

lemma held_by_live:
  assumes "members_ok r" "k \<in> run_members r" "0 \<le> live k"
  shows "held_by (pr_controller r) live k
    = live k + am_inFlight (the (map_of (ac_members (pr_controller r)) k))"
  using assms by (auto simp: members_ok_def held_by_def heldCount_def
      dest!: weak_map_of_SomeI split: option.splits)

lemma outstanding_member:
  "k \<in> run_members r \<Longrightarrow>
     outstanding r k = am_inFlight (the (map_of (ac_members (pr_controller r)) k)) - pr_tracked r k"
  by (auto simp: outstanding_def dest!: weak_map_of_SomeI split: option.splits)

lemma outstanding_cong:
  "map_of (ac_members (pr_controller r')) k = map_of (ac_members (pr_controller r)) k \<Longrightarrow>
     pr_tracked r' k = pr_tracked r k \<Longrightarrow> outstanding r' k = outstanding r k"
  by (simp add: outstanding_def split: option.split)

lemma outstanding_nonneg: "members_ok r \<Longrightarrow> 0 \<le> outstanding r k"
  by (auto simp: members_ok_def outstanding_def split: option.splits)

lemma committed_held:
  assumes "run_ok r"
  shows "committed r
    = total_held (pr_controller r) (pr_live r) - (\<Sum>k \<in> run_members r. pr_tracked r k)"
proof -
  have "total_held (pr_controller r) (pr_live r) = (\<Sum>k \<in> run_members r.
      pr_live r k + am_inFlight (the (map_of (ac_members (pr_controller r)) k)))"
    using assms by (subst total_held_members)
      (auto intro!: sum.cong held_by_live simp: run_ok_def controller_ok_def members_ok_def)
  then show ?thesis
    by (simp add: committed_def sum_subtractf [symmetric] outstanding_member algebra_simps)
qed

text \<open>Changing one member's record and that member's counts.\<close>

lemma bounded_put:
  assumes ok: "run_ok r" and k: "map_of (ac_members (pr_controller r)) k = Some m"
    and r': "ac_members (pr_controller r') = mput (ac_members (pr_controller r)) k m'"
      "ac_ceiling (pr_controller r') = ac_ceiling (pr_controller r)"
      "controller_ok (pr_controller r')" "pr_live r' = pr_live r"
      "pr_tracked r' = (pr_tracked r)(k := t)"
    and m': "am_live m' = am_live m" "0 \<le> t" "t \<le> am_inFlight m'"
    and room: "am_inFlight m' - t \<le> am_inFlight m - pr_tracked r k
      \<or> total_held (pr_controller r) (pr_live r) + am_inFlight m' - am_inFlight m
          \<le> ac_ceiling (pr_controller r) \<and> t = pr_tracked r k"
  shows "bounded_step r 0 r'"
proof -
  have mem: "k \<in> run_members r" using k by (metis fst_conv image_eqI map_of_SomeD)
  then have keys: "run_members r' = run_members r" using r'(1) by (auto simp: dom_update)
  have tracked: "(\<Sum>j \<in> run_members r. pr_tracked r' j)
      = (\<Sum>j \<in> run_members r. pr_tracked r j) + t - pr_tracked r k"
    using mem r'(5) by (simp add: sum.remove [of _ k])
  have held: "total_held (pr_controller r') (pr_live r)
      = total_held (pr_controller r) (pr_live r) + am_inFlight m' - am_inFlight m"
    using total_held_put [OF _ k r'(1), of "pr_live r"] ok m'(1)
    by (simp add: run_ok_def controller_ok_def heldCount_def)
  have nonneg: "0 \<le> (\<Sum>j \<in> run_members r. pr_tracked r j)"
    using ok by (intro sum_nonneg) (auto simp: run_ok_def members_ok_def)
  have "members_ok r'"
    using ok m' r' k mem keys by (auto simp: run_ok_def members_ok_def split: if_splits)
  then have ok': "run_ok r'" using ok r' by (simp add: run_ok_def)
  then have "committed r' \<le> max (ac_ceiling (pr_controller r)) (committed r)"
    using room tracked held nonneg r'(4) by (auto simp: committed_held ok keys)
  with ok' show ?thesis by (simp add: bounded_step_def)
qed

lemma act_Wanted:
  assumes ok: "run_ok r" shows "bounded_step r 0 (act (Wanted k n) r)"
proof (cases "n \<le> 0 \<or> map_of (ac_members (pr_controller r)) k = None")
  case True
  then have "act (Wanted k n) r = r" by (auto simp: reserve_body_def)
  with ok show ?thesis by simp
next
  case False
  then obtain m where n: "0 < n" and k: "map_of (ac_members (pr_controller r)) k = Some m" by auto
  obtain a' g where res: "reserve_body (pr_controller r) (pr_live r) k n = (a', g)" by fastforce
  have a: "controller_ok (pr_controller r)" "0 < ac_ceiling (pr_controller r)"
    and tracked: "0 \<le> pr_tracked r k" "pr_tracked r k \<le> am_inFlight m"
    using ok k by (auto simp: run_ok_def members_ok_def)
  obtain m' where m': "ac_members a' = mput (ac_members (pr_controller r)) k m'"
    "ac_ceiling a' = ac_ceiling (pr_controller r)" "am_live m' = am_live m"
    "am_inFlight m' = am_inFlight m + g" "controller_ok a'" "0 \<le> g"
    "g > 0 \<longrightarrow> total_held (pr_controller r) (pr_live r) + g \<le> ac_ceiling (pr_controller r)"
    using reserve_member [OF a(1) k n a(2) res] by blast
  have "act (Wanted k n) r = r\<lparr>pr_controller := a'\<rparr>" using n res by simp
  then show ?thesis
    using m' tracked by (intro bounded_put [OF ok k, of _ m' "pr_tracked r k"]) auto
qed

lemma act_Demanded:
  assumes ok: "run_ok r" shows "bounded_step r 0 (act (Demanded k n) r)"
proof (cases "map_of (ac_members (pr_controller r)) k")
  case None
  with ok show ?thesis by simp
next
  case (Some m)
  let ?m = "m\<lparr>am_demand := max n 0\<rparr>"
  have a: "controller_ok (pr_controller r)" "0 \<le> pr_tracked r k" "pr_tracked r k \<le> am_inFlight m"
    using ok Some by (auto simp: run_ok_def members_ok_def)
  have "controller_ok (pr_controller (act (Demanded k n) r))"
    using a Some by (intro controller_ok_put [OF a(1) Some, of ?m]) (auto simp: controller_ok_def)
  with a Some show ?thesis by (intro bounded_put [OF ok Some, of _ ?m "pr_tracked r k"]) auto
qed

text \<open>Settling one admission of a member that has one in flight.\<close>

lemma settle_member:
  assumes ok: "controller_ok a" and k: "map_of (ac_members a) k = Some m" and m: "0 < am_inFlight m"
  shows "ac_members (the (admission_settle (Some a) k 1))
      = mput (ac_members a) k (m\<lparr>am_inFlight := am_inFlight m - 1\<rparr>)"
    and "controller_ok (the (admission_settle (Some a) k 1))"
    and "ac_ceiling (the (admission_settle (Some a) k 1)) = ac_ceiling a"
proof -
  let ?a = "the (admission_settle (Some a) k 1)"
  show members: "ac_members ?a = mput (ac_members a) k (m\<lparr>am_inFlight := am_inFlight m - 1\<rparr>)"
    and ceiling: "ac_ceiling ?a = ac_ceiling a"
    using k m by simp_all
  have "ac_rotation ?a = ac_rotation a" using k by simp
  with ok m show "controller_ok ?a"
    by (intro controller_ok_put [OF ok k _ members ceiling]) (auto simp: controller_ok_def)
qed

lemma act_settles:
  assumes ok: "run_ok r"
  shows "bounded_step r 0 (act (Settled k) r)" "bounded_step r 0 (act (LaunchFailed k) r)"
proof -
  show "bounded_step r 0 (act (Settled k) r)"
  proof (cases "0 < pr_tracked r k")
    case True
    with ok obtain m where k: "map_of (ac_members (pr_controller r)) k = Some m"
      by (fastforce simp: run_ok_def members_ok_def map_of_eq_None_iff dest: not_None_eq [THEN iffD1])
    with ok have "pr_tracked r k \<le> am_inFlight m" by (simp add: run_ok_def members_ok_def)
    moreover with True have "0 < am_inFlight m" by simp
    ultimately have "pr_tracked r k \<le> am_inFlight m" "0 < am_inFlight m" .
    with settle_member [of "pr_controller r" k m] ok k True show ?thesis
      by (intro bounded_put [OF ok k, of _ "m\<lparr>am_inFlight := am_inFlight m - 1\<rparr>" "pr_tracked r k - 1"])
        (auto simp: run_ok_def)
  qed (use ok in simp)
  show "bounded_step r 0 (act (LaunchFailed k) r)"
  proof (cases "0 < outstanding r k")
    case True
    then obtain m where k: "map_of (ac_members (pr_controller r)) k = Some m"
      by (auto simp: outstanding_def split: option.splits)
    with ok True have "0 \<le> pr_tracked r k" "pr_tracked r k < am_inFlight m"
      by (auto simp: run_ok_def members_ok_def outstanding_def)
    with settle_member [of "pr_controller r" k m] ok k True show ?thesis
      by (intro bounded_put [OF ok k, of _ "m\<lparr>am_inFlight := am_inFlight m - 1\<rparr>" "pr_tracked r k"])
        (auto simp: run_ok_def)
  qed (use ok in simp)
qed

text \<open>Changes of one target's live and tracked counts alone.\<close>

lemma bounded_counts:
  assumes ok: "run_ok r" and r': "pr_controller r' = pr_controller r" "members_ok r'"
    and same: "\<And>j. j \<noteq> k \<Longrightarrow> pr_live r' j = pr_live r j \<and> pr_tracked r' j = pr_tracked r j"
    and le: "k \<in> run_members r \<Longrightarrow> pr_live r' k - pr_tracked r' k \<le> pr_live r k - pr_tracked r k + u"
    and u: "0 \<le> u"
  shows "bounded_step r u r'"
proof -
  have "committed r' \<le> committed r + u"
  proof (cases "k \<in> run_members r")
    case True
    have sum_k: "committed q = pr_live q k + outstanding q k
        + (\<Sum>j \<in> run_members q - {k}. pr_live q j + outstanding q j)"
      if "run_members q = run_members r" for q
      using True that by (simp add: committed_def sum.remove)
    have "(\<Sum>j \<in> run_members r' - {k}. pr_live r' j + outstanding r' j)
        = (\<Sum>j \<in> run_members r - {k}. pr_live r j + outstanding r j)"
      using same r'(1) by (intro sum.cong) (auto simp: outstanding_cong [of r' _ r])
    with le True r'(1) show ?thesis
      by (simp add: sum_k outstanding_member)
  next
    case False
    then have "pr_live r' j = pr_live r j \<and> outstanding r' j = outstanding r j"
      if "j \<in> run_members r" for j
      using that same [of j] r'(1) outstanding_cong [of r' j r] by (cases "j = k") auto
    then have "committed r' = committed r"
      unfolding committed_def using r'(1) by (intro sum.cong) auto
    with u show ?thesis by simp
  qed
  with ok r' show ?thesis by (simp add: bounded_step_def run_ok_def)
qed

lemma act_Tracked:
  assumes ok: "run_ok r" shows "bounded_step r 0 (act (Tracked k) r)"
proof (cases "0 < outstanding r k")
  case True
  then obtain m where k: "map_of (ac_members (pr_controller r)) k = Some m"
    "pr_tracked r k < am_inFlight m"
    by (auto simp: outstanding_def split: option.splits)
  then have "k \<in> run_members r" by (metis fst_conv image_eqI map_of_SomeD)
  with k have "members_ok (act (Tracked k) r)"
    using ok True by (auto simp: run_ok_def members_ok_def split: if_splits)
  with True show ?thesis by (intro bounded_counts [OF ok, of _ k]) auto
qed (use ok in simp)

lemma act_WorkerGone:
  assumes ok: "run_ok r" shows "bounded_step r 0 (act (WorkerGone k) r)"
proof (cases "0 < pr_live r k")
  case True
  then have "members_ok (act (WorkerGone k) r)"
    using ok by (auto simp: run_ok_def members_ok_def)
  with True show ?thesis by (intro bounded_counts [OF ok, of _ k]) auto
qed (use ok in simp)

lemma act_Recovered:
  assumes ok: "run_ok r"
  shows "bounded_step r (unreserved_by (Recovered k) r) (act (Recovered k) r)"
proof -
  have "members_ok (act (Recovered k) r)"
    using ok by (auto simp: run_ok_def members_ok_def add_nonneg_nonneg)
  then show ?thesis by (intro bounded_counts [OF ok, of _ k]) auto
qed

lemma act_Joined:
  assumes ok: "run_ok r"
  shows "bounded_step r (unreserved_by (Joined k) r) (act (Joined k) r)"
proof (cases "k = [] \<or> k \<in> run_members r")
  case True
  have "act (Joined k) r = r"
  proof (cases "map_of (ac_members (pr_controller r)) k")
    case (Some m)
    with ok have "m\<lparr>am_live := Some (\<lambda>live. live k)\<rparr> = m" by (simp add: run_ok_def members_ok_def)
    with Some show ?thesis by (simp add: AList.update_triv)
  qed (use True in \<open>auto simp: map_of_eq_None_iff\<close>)
  with ok True show ?thesis by simp
next
  case False
  let ?a = "pr_controller r" and ?live = "Some (\<lambda>live. live k) :: (live_counts \<Rightarrow> int) option"
  let ?new = "\<lparr>am_live = ?live, am_demand = 0, am_inFlight = 0\<rparr> :: live_counts admissionMember"
  define r' where "r' = r\<lparr>pr_controller := ?a\<lparr>ac_members := mput (ac_members ?a) k ?new\<rparr>\<rparr>"
  have a: "controller_ok ?a" and mok: "members_ok r" using ok by (simp_all add: run_ok_def)
  have joined: "act (Joined k) r = r'"
    using False map_of_eq_None_iff [of "ac_members ?a" k] by (simp add: r'_def)
  have keys: "run_members r' = insert k (run_members r)" by (simp add: r'_def dom_update)
  have c: "controller_ok (pr_controller r')"
    using a length_mput_le [of "ac_members ?a" k ?new]
    by (auto simp: controller_ok_def r'_def set_mput)
  have m: "members_ok r'"
    using mok keys False by (auto simp: members_ok_def r'_def split: if_splits)
  have "committed r' = pr_live r k + (\<Sum>j \<in> run_members r. pr_live r' j + outstanding r' j)"
    using False mok by (simp add: committed_def keys outstanding_member members_ok_def)
      (simp add: r'_def)
  also have "(\<Sum>j \<in> run_members r. pr_live r' j + outstanding r' j) = committed r"
    unfolding committed_def using False by (intro sum.cong)
      (auto simp: r'_def outstanding_def split: option.split)
  finally show ?thesis
    using ok c m False unfolding joined by (simp add: bounded_step_def run_ok_def r'_def)
qed

lemma act_Left:
  assumes ok: "run_ok r" shows "bounded_step r 0 (act (Left k) r)"
proof -
  let ?r = "act (Left k) r" and ?a = "pr_controller r"
  have a: "controller_ok ?a" and mok: "members_ok r" using ok by (simp_all add: run_ok_def)
  have keys: "run_members ?r = run_members r - {k}" by (simp add: Let_def keys_mdel)
  have c: "controller_ok (pr_controller ?r)"
    using a by (auto simp: controller_ok_def Let_def set_mdel)
  have m: "members_ok ?r"
    using mok by (auto simp: members_ok_def Let_def keys_mdel)
  have "committed ?r = (\<Sum>j \<in> run_members r - {k}. pr_live r j + outstanding r j)"
    unfolding committed_def keys by (intro sum.cong)
      (auto simp: Let_def intro!: outstanding_cong)
  also have "\<dots> \<le> committed r"
    unfolding committed_def using outstanding_nonneg [OF mok] mok
    by (intro sum_mono2) (auto simp: members_ok_def)
  finally show ?thesis using ok c m by (simp add: bounded_step_def run_ok_def Let_def)
qed

lemma act_bounded: "run_ok r \<Longrightarrow> bounded_step r (unreserved_by i r) (act i r)"
  using act_Recovered act_Joined
  by (cases i) (simp_all add: act_Wanted act_Demanded act_Tracked act_settles act_WorkerGone act_Left
      del: act.simps unreserved_by.simps(1,2))

interpretation profile_run: input_system act "\<lambda>_. True" run_ok
  by unfold_locales (use act_bounded in \<open>auto simp: bounded_step_def\<close>)

lemma act_ceiling: "ac_ceiling (pr_controller (act i r)) = ac_ceiling (pr_controller r)"
  by (cases i) (auto simp: Let_def reserve_body_def split: option.split prod.split)

lemma run_ceiling: "ac_ceiling (pr_controller (fold act is r)) = ac_ceiling (pr_controller r)"
  by (induction "is" arbitrary: r) (simp_all add: act_ceiling)

lemma unreserved_by_nonneg: "run_ok r \<Longrightarrow> 0 \<le> unreserved_by i r"
  by (cases i) (auto simp: run_ok_def members_ok_def)

lemma run_committed:
  assumes "run_ok r"
  shows "committed (fold act is r)
    \<le> max (ac_ceiling (pr_controller r)) (committed r) + unreserved is r"
  using assms
proof (induction "is" arbitrary: r)
  case (Cons i "is")
  have step: "run_ok (act i r)"
    "committed (act i r) \<le> max (ac_ceiling (pr_controller r)) (committed r) + unreserved_by i r"
    using act_bounded [OF Cons.prems, of i] by (simp_all add: bounded_step_def)
  from Cons.IH [OF step(1)] step(2) unreserved_by_nonneg [OF Cons.prems, of i] show ?case
    by (auto simp: act_ceiling)
qed simp

text \<open>
  C5: The profile ceiling holds under every interleaving. Starting from a controller with a
  positive ceiling, after any sequence of reservations, launches, failures, settlements, worker
  exits, recovered workers and targets joining or leaving, the live workers of all member
  targets and the outstanding reservations together exceed the ceiling by at most the workers
  that came in without a reservation: those recovered by a member, and those a new member had
  when it joined. From there, no activity that brings in none of those takes the total above
  the ceiling, or further above it.
\<close>

theorem workers_never_exceed_ceiling:
  assumes "0 < ceiling"
  shows "let r = fold act activities (fresh_run ceiling)
    in (\<Sum>k \<in> run_members r. pr_live r k + outstanding r k)
        \<le> ceiling + unreserved activities (fresh_run ceiling)
      \<and> (\<forall>i. (\<Sum>k \<in> run_members (act i r). pr_live (act i r) k + outstanding (act i r) k)
          \<le> max ceiling (\<Sum>k \<in> run_members r. pr_live r k + outstanding r k)
            + unreserved_by i r)"
proof -
  let ?r = "fold act activities (fresh_run ceiling)"
  have ok: "run_ok ?r" by (rule profile_run.run_keeps) (simp_all add: fresh_run_ok assms)
  have ceiling: "ac_ceiling (pr_controller (fresh_run ceiling)) = ceiling"
    using assms by (simp add: fresh_run_def newAdmissionController_def)
  have "committed ?r \<le> ceiling + unreserved activities (fresh_run ceiling)"
    using run_committed [OF fresh_run_ok [OF assms], of activities] assms
    by (simp add: ceiling fresh_run_committed)
  moreover have "committed (act i ?r) \<le> max ceiling (committed ?r) + unreserved_by i ?r" for i
    using act_bounded [OF ok, of i] by (simp add: bounded_step_def run_ceiling ceiling)
  ultimately show ?thesis by (simp add: committed_def Let_def)
qed

theorem workers_never_exceed_ceiling_witness:
  "let activities = [Joined ''a'', Joined ''b'', Demanded ''b'' 1, Wanted ''a'' 5, Tracked ''a'',
       Settled ''a'', Wanted ''a'' 4, Wanted ''b'' 3, Tracked ''b'', Recovered ''b'',
       Settled ''b'', Wanted ''b'' 2];
     r = fold act activities (fresh_run 2)
   in pr_live r ''a'' = 1 \<and> pr_live r ''b'' = 2 \<and> unreserved activities (fresh_run 2) = 1
     \<and> (\<Sum>k \<in> run_members r. pr_live r k + outstanding r k)
         \<le> 2 + unreserved activities (fresh_run 2)"
  unfolding Let_def
  by (intro conjI workers_never_exceed_ceiling [unfolded Let_def, THEN conjunct1])
    (code_simp, code_simp, code_simp, simp)

text \<open>Publishing the caller's demand changes neither the shares nor what is held.\<close>

lemma asked_view:
  assumes k: "map_of (ac_members a) key = Some m"
    and asked_def: "asked = a\<lparr>ac_members := mput (ac_members a) key (m\<lparr>am_demand := want\<rparr>)\<rparr>"
  shows "orderedKeysLocked asked = orderedKeysLocked a"
    and "shareLocked asked keys k' = shareLocked a keys k'"
    and "held_by asked w k' = held_by a w k'"
    and "total_held asked w = total_held a w"
    and "guaranteed_grant asked w keys key n free = guaranteed_grant a w keys key n free"
    and "protected_total asked w keys key = protected_total a w keys key"
proof -
  have "key \<in> set (mkeys (ac_members a))" using k by (force dest: map_of_SomeD)
  then show keys: "orderedKeysLocked asked = orderedKeysLocked a"
    by (simp add: orderedKeysLocked_def asked_def update_keys)
  show share: "shareLocked asked keys k' = shareLocked a keys k'" for keys k'
    by (simp add: shareLocked_def asked_def Let_def)
  show held: "held_by asked w k' = held_by a w k'" for k'
    using k by (simp add: held_by_def asked_def heldCount_update)
  then have "held_by asked w = held_by a w" by auto
  then show "total_held asked w = total_held a w" by (simp add: total_held_def keys)
  show "guaranteed_grant asked w keys key n free = guaranteed_grant a w keys key n free"
    by (simp add: guaranteed_grant_def share held Let_def)
  have "protected_for asked w keys j = protected_for a w keys j" if "j \<noteq> key" for j
  proof -
    have "map_of (ac_members asked) j = map_of (ac_members a) j" using that by (simp add: asked_def)
    then show ?thesis by (simp only: protected_for_def held share)
  qed
  then show "protected_total asked w keys key = protected_total a w keys key"
    unfolding protected_total_def by (intro arg_cong [where f = sum_list] map_cong) auto
qed

text \<open>
  C21: What one reservation grants under a positive ceiling. The members' guarantees add up to
  the ceiling exactly. The grant lies between zero and the request and never takes the total
  above the ceiling; it covers the caller's own guarantee as far as free capacity reaches; and a
  grant beyond the guarantee leaves free the whole protected demand of the other targets.
\<close>

theorem reservation_keeps_guarantees:
  assumes "controller_ok a" and "map_of (ac_members a) key = Some m"
    and "0 < want" and "0 < ac_ceiling a"
    and "admission_reserve w (Some a) key want = (Some a', granted)"
  shows "let keys = orderedKeysLocked a; free = ac_ceiling a - total_held a w;
      guarantee = shareLocked a keys key - held_by a w key
    in sum_list (map (shareLocked a keys) keys) = ac_ceiling a
      \<and> 0 \<le> granted \<and> granted \<le> want
      \<and> total_held a' w = total_held a w + granted
      \<and> total_held a' w \<le> max (ac_ceiling a) (total_held a w)
      \<and> min want (min guarantee free) \<le> granted
      \<and> (granted > max guarantee 0 \<longrightarrow> protected_total a w keys key \<le> free - granted)"
proof -
  let ?keys = "orderedKeysLocked a" and ?free = "ac_ceiling a - total_held a w"
  let ?asked = "a\<lparr>ac_members := mput (ac_members a) key (m\<lparr>am_demand := want\<rparr>)\<rparr>"
  have body: "reserve_body a w key want = (a', granted)"
    using assms(3,5) by (auto split: prod.splits)
  obtain m' where m': "ac_members a' = mput (ac_members a) key m'" "am_live m' = am_live m"
    "am_inFlight m' = am_inFlight m + granted" "0 \<le> granted" "granted \<le> want"
    "granted > 0 \<longrightarrow> total_held a w + granted \<le> ac_ceiling a"
    using reserve_member [OF assms(1-4) body] by blast
  have total: "total_held a' w = total_held a w + granted"
    using total_held_put [OF _ assms(2) m'(1), of w] assms(1) m'(2,3)
    by (simp add: controller_ok_def heldCount_def)
  have shares: "sum_list (map (shareLocked a ?keys) ?keys) = ac_ceiling a"
    using assms(1,2) by (intro shares_exhaust_ceiling) auto
  have asked: "controller_ok ?asked"
    using assms(1) member_inFlight_nonneg [OF assms(1,2)]
    by (intro controller_ok_put [OF assms(1,2)]) (auto simp: controller_ok_def)
  note same = asked_view [OF assms(2) refl, of want]
  have grant: "granted = (if ?free \<le> 0 then 0 else admit ?asked w ?keys key want ?free)"
    using body assms(2,4) by (auto simp: reserve_body_def Let_def same split: if_splits)
  have guarantee: "min want (min (shareLocked a ?keys key - held_by a w key) ?free) \<le> granted"
    and beyond: "granted > max (shareLocked a ?keys key - held_by a w key) 0
      \<longrightarrow> protected_total a w ?keys key \<le> ?free - granted"
    using admit_bounds(1,4) [OF asked assms(3), of ?free w key]
      admit_leaves_protected [of ?asked w ?keys key want ?free] grant
    by (auto simp: same guaranteed_grant_def Let_def split: if_splits)
  show ?thesis
    using shares m' total guarantee beyond by (auto simp: Let_def)
qed

theorem reservation_keeps_guarantees_witness:
  "let a = pr_controller (fold act [Joined ''a'', Joined ''b'', Demanded ''b'' 1] (fresh_run 5));
     live = (\<lambda>k. 0)
   in controller_ok a \<and> 0 < ac_ceiling a
     \<and> snd (admission_reserve live (Some a) ''a'' 9) = 4
     \<and> protected_total a live (orderedKeysLocked a) ''a'' \<le> 5 - 4"
proof -
  let ?a = "pr_controller (fold act [Joined ''a'', Joined ''b'', Demanded ''b'' 1] (fresh_run 5))"
  let ?live = "(\<lambda>k. 0) :: live_counts" and ?keys = "[''a'', ''b'']"
  have ok: "controller_ok ?a" by code_simp
  have granted: "snd (admission_reserve ?live (Some ?a) ''a'' 9) = 4" by code_simp
  obtain m where m: "map_of (ac_members ?a) ''a'' = Some m" by (simp add: fresh_run_def newAdmissionController_def)
  obtain a' where "admission_reserve ?live (Some ?a) ''a'' 9 = (Some a', 4)"
    using granted by (cases "reserve_body ?a ?live ''a'' 9") auto
  note applied = reservation_keeps_guarantees [OF ok m _ _ this]
  have "shareLocked ?a (orderedKeysLocked ?a) ''a'' - held_by ?a ?live ''a'' = 3"
    "ac_ceiling ?a = 5" "total_held ?a ?live = 0" by code_simp+
  with applied ok granted show ?thesis by (simp add: Let_def del: act.simps admission_reserve.simps)
qed

lemma sum_list_all_zero: "(\<And>x. x \<in> set xs \<Longrightarrow> f x = (0::int)) \<Longrightarrow> sum_list (map f xs) = 0"
  by (induction xs) simp_all

text \<open>
  C35: A published deficit protects nothing until it exceeds what its target already holds. The
  protected need of another target is its demand, which is already the number of workers it
  lacks, less what it holds. When under a positive ceiling no other member lacks more workers
  than it holds, a member is granted whatever it wants up to everything that is free, however
  far that goes beyond its own share and however many workers the others lack.
\<close>

theorem deficits_below_holdings_unprotected:
  assumes "controller_ok a" and "map_of (ac_members a) key = Some m"
    and "0 < want" and "0 < ac_ceiling a"
    and lack: "\<forall>other mo. other \<noteq> key \<longrightarrow> map_of (ac_members a) other = Some mo \<longrightarrow>
      am_demand mo \<le> held_by a w other"
  shows "snd (admission_reserve w (Some a) key want)
    = max 0 (min want (ac_ceiling a - total_held a w))"
proof -
  let ?keys = "orderedKeysLocked a" and ?free = "ac_ceiling a - total_held a w"
  let ?asked = "a\<lparr>ac_members := mput (ac_members a) key (m\<lparr>am_demand := want\<rparr>)\<rparr>"
  note same = asked_view [OF assms(2) refl, of want]
  have none: "protected_total a w ?keys key = 0"
    unfolding protected_total_def using lack
    by (intro sum_list_all_zero) (auto simp: protected_for_def Let_def split: option.split)
  have "snd (reserve_body a w key want)
      = (if ?free \<le> 0 then 0 else admit ?asked w ?keys key want ?free)"
    using assms(2,4) by (simp add: reserve_body_def Let_def same)
  also have "\<dots> = max 0 (min want ?free)"
    using assms(3) by (auto simp: admit_def Let_def same none guaranteed_grant_def)
  finally show ?thesis using assms(3) by (simp add: case_prod_beta)
qed

theorem deficits_below_holdings_unprotected_witness:
  "let a = pr_controller (fold act [Recovered ''a'', Recovered ''a'', Recovered ''a'', Recovered ''a'',
       Recovered ''b'', Recovered ''b'', Joined ''a'', Joined ''b'', Demanded ''b'' 2] (fresh_run 8));
     live = (\<lambda>k. if k = ''a'' then 4 else if k = ''b'' then 2 else 0)
   in shareLocked a (orderedKeysLocked a) ''a'' = held_by a live ''a''
     \<and> snd (admission_reserve live (Some a) ''a'' 2) = 2
     \<and> ac_ceiling a - total_held a live = 2"
proof -
  let ?a = "pr_controller (fold act [Recovered ''a'', Recovered ''a'', Recovered ''a'', Recovered ''a'',
    Recovered ''b'', Recovered ''b'', Joined ''a'', Joined ''b'', Demanded ''b'' 2] (fresh_run 8))"
  let ?live = "(\<lambda>k. if k = ''a'' then 4 else if k = ''b'' then 2 else 0) :: live_counts"
  have ok: "controller_ok ?a" "0 < ac_ceiling ?a" "ac_ceiling ?a - total_held ?a ?live = 2"
    "shareLocked ?a (orderedKeysLocked ?a) ''a'' = held_by ?a ?live ''a''"
    "held_by ?a ?live ''b'' = 2" by code_simp+
  have members: "ac_members ?a = [(''a'', \<lparr>am_live = Some (\<lambda>live. live ''a''), am_demand = 0, am_inFlight = 0\<rparr>),
      (''b'', \<lparr>am_live = Some (\<lambda>live. live ''b''), am_demand = 2, am_inFlight = 0\<rparr>)]"
    by (simp add: fresh_run_def newAdmissionController_def)
  have "\<forall>other mo. other \<noteq> ''a'' \<longrightarrow> map_of (ac_members ?a) other = Some mo \<longrightarrow>
      am_demand mo \<le> held_by ?a ?live other"
    using ok(5) unfolding members by (auto split: if_splits)
  from deficits_below_holdings_unprotected [OF ok(1) _ _ ok(2) this, of _ 2] ok members
  show ?thesis by (simp add: Let_def del: act.simps admission_reserve.simps)
qed

end
