(* ===== verification/Retirement.thy ===== *)
theory Retirement
  imports Labels State_Files
begin

text \<open>
  Durable retirement intent (\<^verbatim>\<open>autoscaler/retirement.go\<close>) and the manager's handling of desired
  state (\<^verbatim>\<open>autoscaler/manager.go\<close>): restoring and loading at startup, processing a desired
  document, and the transition that persists retirement intent before the new last-valid state.
  The state of the manager is the part these operations read and write; the files are those of
  \<^verbatim>\<open>statePaths\<close> they use. Journal entries are the evidence texts in the order recorded.
\<close>

definition retirementDocumentContractVersion :: int where
  "retirementDocumentContractVersion = 8"

record retirementRecord =
  rr_Key :: string
  rr_RegistrationURL :: string
  rr_Repository :: string
  rr_Maximum :: int
  rr_ScaleSetName :: string
  rr_RetireAtGeneration :: int
  rr_StartupAttempts :: int
  rr_StartupRetryAt :: stamp

record retirementDocument =
  rd_SchemaVersion :: int
  rd_ManagerContractVersion :: int
  rd_Generation :: int
  rd_Targets :: "retirementRecord list"

text \<open>
  Keys of the map and of its records agree, so they are distinct and any sort by key gives the
  order of \<^const>\<open>sort_key\<close>.
\<close>

definition newRetirementDocument :: "int \<Rightarrow> (string, retirementRecord) gomap \<Rightarrow> retirementDocument" where
  "newRetirementDocument generation records =
     \<lparr>rd_SchemaVersion = 1, rd_ManagerContractVersion = retirementDocumentContractVersion,
      rd_Generation = generation, rd_Targets = sort_key rr_Key (map snd records)\<rparr>"

definition retirement_record_ok :: "retirementRecord \<Rightarrow> bool" where
  "retirement_record_ok r \<longleftrightarrow>
     \<not> (rr_Key r = [] \<or> rr_RegistrationURL r = [] \<or> rr_ScaleSetName r = [] \<or> rr_Maximum r < 1
       \<or> rr_RetireAtGeneration r < 1)
     \<and> \<not> (rr_StartupAttempts r < 0 \<or> rr_StartupAttempts r > maxRegistrationCleanupAttempts
       \<or> (rr_StartupAttempts r = 0) \<noteq> (rr_StartupRetryAt r = NoStamp))
     \<and> stamp_ok (rr_StartupRetryAt r)"

definition parseRetirementDocument :: "retirementDocument \<Rightarrow> goerr + retirementDocument" where
  "parseRetirementDocument document =
     (if rd_SchemaVersion document \<noteq> 1 then Inl err_other
      else if rd_ManagerContractVersion document < 8
        \<or> rd_ManagerContractVersion document > managerContractVersion then Inl err_other
      else if rd_Generation document < 0 then Inl err_other
      else case parse_records retirement_record_ok rr_Key id [] (rd_Targets document) of
          None \<Rightarrow> Inl err_other
        | Some _ \<Rightarrow> Inr document)"

definition retirementRecordFor :: "targetSpec \<Rightarrow> int \<Rightarrow> retirementRecord" where
  "retirementRecordFor target generation =
     \<lparr>rr_Key = ts_key target, rr_RegistrationURL = ts_registrationURL target,
      rr_Repository = ts_repository target, rr_Maximum = ts_maximum target,
      rr_ScaleSetName = ts_scaleSetName target, rr_RetireAtGeneration = generation,
      rr_StartupAttempts = 0, rr_StartupRetryAt = NoStamp\<rparr>"

definition record_targetSpec :: "retirementRecord \<Rightarrow> targetSpec" where
  "record_targetSpec r =
     \<lparr>ts_key = rr_Key r, ts_registrationURL = rr_RegistrationURL r, ts_repository = rr_Repository r,
      ts_maximum = rr_Maximum r, ts_scaleSetName = rr_ScaleSetName r\<rparr>"

section \<open>The manager and its files\<close>

text \<open>What the manager reads of a target controller.\<close>

record controller_view =
  cv_closed :: bool
  cv_listenerStopped :: bool
  cv_retiring :: bool
  cv_targetKey :: string
  cv_maximum :: int
  cv_targetSlots :: int

record manager_state =
  ms_current :: "parsedDesiredState option"
  ms_applied :: "parsedDesiredState option"
  ms_ackPrevious :: desiredState
  ms_ackPending :: bool
  ms_desiredStatus :: string
  ms_lastDocumentHash :: string
  ms_retirementRecords :: "(string, retirementRecord) gomap"
  ms_retirementGeneration :: int
  ms_controllers :: "(string, controller_view) gomap"
  ms_retiring :: "string list"
  ms_pending :: "string list"
  ms_restarts :: "string list"
  ms_listenerFailures :: "string list"
  ms_recovered :: "(string, int) gomap"
  ms_orphanRecoveryTargets :: "(string, string) gomap"
  ms_journal :: "string list"
  ms_dirty :: bool

record state_directory =
  sd_desired :: "string state_file"
  sd_lastValid :: "string state_file"
  sd_retirements :: "retirementDocument state_file"
  sd_acknowledgement :: "acknowledgement state_file"

type_synonym manager_step = "(manager_state \<times> state_directory) \<times> goerr option"

definition record_evidence :: "string \<Rightarrow> manager_state \<Rightarrow> manager_state" where
  "record_evidence evidence m = m\<lparr>ms_journal := ms_journal m @ [evidence]\<rparr>"

definition markDirty :: "manager_state \<Rightarrow> manager_state" where
  "markDirty m = m\<lparr>ms_dirty := True\<rparr>"

section \<open>Startup\<close>

definition restoreLastValid ::
  "desired_library \<Rightarrow> config \<Rightarrow> state_directory \<Rightarrow> manager_state \<Rightarrow> goerr + manager_state" where
  "restoreLastValid lib cfg d m =
     (case read_document (sd_lastValid d) of
        Inl err \<Rightarrow> Inl err
      | Inr None \<Rightarrow> Inr m
      | Inr (Some data) \<Rightarrow>
          (case parseDesiredState lib data (cf_scope cfg) of
             None \<Rightarrow> Inl err_other
           | Some parsed \<Rightarrow>
               Inr (m\<lparr>ms_current := Some parsed, ms_applied := Some parsed,
                 ms_ackPrevious := pd_state parsed, ms_ackPending := True,
                 ms_desiredStatus := ''accepted''\<rparr>)))"

definition loadRetirements :: "state_directory \<Rightarrow> manager_state \<Rightarrow> goerr + manager_state" where
  "loadRetirements d m =
     (case read_document (sd_retirements d) of
        Inl err \<Rightarrow> Inl err
      | Inr None \<Rightarrow> Inr m
      | Inr (Some data) \<Rightarrow>
          (case parseRetirementDocument data of
             Inl err \<Rightarrow> Inl err
           | Inr document \<Rightarrow>
               Inr (m\<lparr>ms_retirementGeneration := rd_Generation document,
                 ms_retirementRecords := fold (\<lambda>r records. mput records (rr_Key r) r)
                   (rd_Targets document) (ms_retirementRecords m)\<rparr>)))"

definition newManager :: manager_state where
  "newManager = \<lparr>ms_current = None, ms_applied = None, ms_ackPrevious = zeroDesiredState,
     ms_ackPending = False, ms_desiredStatus = ''waiting'', ms_lastDocumentHash = [],
     ms_retirementRecords = [], ms_retirementGeneration = 0, ms_controllers = [],
     ms_retiring = [], ms_pending = [], ms_restarts = [], ms_listenerFailures = [],
     ms_recovered = [], ms_orphanRecoveryTargets = [], ms_journal = [], ms_dirty = False\<rparr>"

definition restart_manager ::
  "desired_library \<Rightarrow> config \<Rightarrow> state_directory \<Rightarrow> goerr + manager_state" where
  "restart_manager lib cfg d =
     (case restoreLastValid lib cfg d newManager of
        Inl err \<Rightarrow> Inl err
      | Inr m \<Rightarrow> loadRetirements d m)"

section \<open>Retirement records\<close>

definition persistRetirements ::
  "save_outcome \<Rightarrow> int \<Rightarrow> (string, retirementRecord) gomap \<Rightarrow> manager_state \<times> state_directory
    \<Rightarrow> manager_step" where
  "persistRetirements outcome generation records md =
     (let (m, d) = md;
          (file, err) = write_document outcome (sd_retirements d)
            (newRetirementDocument generation records)
      in if err \<noteq> None then ((m, d\<lparr>sd_retirements := file\<rparr>), err)
         else ((m\<lparr>ms_retirementRecords := records, ms_retirementGeneration := generation\<rparr>,
                d\<lparr>sd_retirements := file\<rparr>), None))"

definition add_retirement ::
  "string set \<Rightarrow> int \<Rightarrow> targetSpec \<Rightarrow> (string, retirementRecord) gomap
    \<Rightarrow> (string, retirementRecord) gomap" where
  "add_retirement nextKeys generation target records =
     (if ts_key target \<in> nextKeys then records
      else if map_of records (ts_key target) = None
      then mput records (ts_key target) (retirementRecordFor target generation)
      else records)"

definition recordsWithNewRetirements ::
  "desired_library \<Rightarrow> config \<Rightarrow> desiredState \<Rightarrow> desiredState \<Rightarrow> manager_state
    \<Rightarrow> (string, retirementRecord) gomap option" where
  "recordsWithNewRetirements lib cfg previous nextState m =
     (case (if de_Scope previous = [] then Some []
            else buildTargetSpecs (dl_tables lib) (dl_url lib) previous cfg) of
        None \<Rightarrow> None
      | Some previousTargets \<Rightarrow>
          (case buildTargetSpecs (dl_tables lib) (dl_url lib) nextState cfg of
             None \<Rightarrow> None
           | Some nextTargets \<Rightarrow>
               Some (fold (add_retirement (set (map ts_key nextTargets)) (de_Generation nextState))
                 previousTargets (ms_retirementRecords m))))"

definition ensureRetirementStateCurrent ::
  "desired_library \<Rightarrow> config \<Rightarrow> save_outcome \<Rightarrow> manager_state \<times> state_directory \<Rightarrow> manager_step" where
  "ensureRetirementStateCurrent lib cfg outcome md =
     (case ms_current (fst md) of
        None \<Rightarrow> (md, None)
      | Some current \<Rightarrow>
          (case buildTargetSpecs (dl_tables lib) (dl_url lib) (pd_state current) cfg of
             None \<Rightarrow> (md, Some err_other)
           | Some desiredTargets \<Rightarrow>
               let records = fold (\<lambda>t rs. mdel rs (ts_key t)) desiredTargets
                     (ms_retirementRecords (fst md))
               in if ms_retirementGeneration (fst md) \<ge> de_Generation (pd_state current)
                    \<and> length records = length (ms_retirementRecords (fst md))
                  then (md, None)
                  else persistRetirements outcome (de_Generation (pd_state current)) records md))"

section \<open>Desired state\<close>

text \<open>The outcomes of the three writes of a transition.\<close>

record transition_writes =
  tw_intent :: save_outcome
  tw_lastValid :: save_outcome
  tw_cleanup :: save_outcome

definition adopt_current :: "manager_state \<Rightarrow> manager_state" where
  "adopt_current m =
     (if ms_applied m = None \<and> ms_current m \<noteq> None then m\<lparr>ms_applied := ms_current m\<rparr> else m)"

definition state_or_zero :: "parsedDesiredState option \<Rightarrow> desiredState" where
  "state_or_zero p = (case p of None \<Rightarrow> zeroDesiredState | Some q \<Rightarrow> pd_state q)"

definition commit_transition ::
  "desired_library \<Rightarrow> config \<Rightarrow> save_outcome \<Rightarrow> parsedDesiredState \<Rightarrow> string \<Rightarrow> desiredState
    \<Rightarrow> manager_state \<times> state_directory \<Rightarrow> manager_step" where
  "commit_transition lib cfg cleanup parsed documentHash previousApplied md =
     (let (m, d) = md;
          accepted = m\<lparr>ms_current := Some parsed, ms_ackPrevious := previousApplied,
            ms_ackPending := True, ms_desiredStatus := ''accepted'',
            ms_lastDocumentHash := documentHash\<rparr>;
          ((m', d'), err) = ensureRetirementStateCurrent lib cfg cleanup (accepted, d)
      in if err \<noteq> None then ((m', d'), err)
         else ((markDirty (record_evidence ''accepted a new desired capacity generation'' m'), d'),
           None))"

definition acceptDesiredTransition ::
  "desired_library \<Rightarrow> config \<Rightarrow> transition_writes \<Rightarrow> parsedDesiredState \<Rightarrow> string
    \<Rightarrow> manager_state \<times> state_directory \<Rightarrow> manager_step" where
  "acceptDesiredTransition lib cfg writes parsed documentHash md =
     (let (m0, d) = md;
          previous = state_or_zero (ms_current m0);
          previousApplied = (case ms_applied m0 of None \<Rightarrow> previous | Some a \<Rightarrow> pd_state a);
          m = adopt_current m0
      in case recordsWithNewRetirements lib cfg previous (pd_state parsed) m of
          None \<Rightarrow> ((m, d), Some err_other)
        | Some records \<Rightarrow>
            let ((m1, d1), err) = persistRetirements (tw_intent writes)
                  (de_Generation (pd_state parsed)) records (m, d)
            in if err \<noteq> None then ((m1, d1), err)
               else
                 let (file, err) = write_document (tw_lastValid writes) (sd_lastValid d1)
                       (pd_raw parsed);
                     d2 = d1\<lparr>sd_lastValid := file\<rparr>
                 in if err \<noteq> None then ((m1, d2), err)
                    else commit_transition lib cfg (tw_cleanup writes) parsed documentHash
                      previousApplied (m1, d2))"

definition reject_desired :: "string \<Rightarrow> string \<Rightarrow> manager_state \<Rightarrow> manager_state" where
  "reject_desired status documentHash m =
     markDirty (record_evidence (''desired capacity was rejected as '' @ status)
       (m\<lparr>ms_lastDocumentHash := documentHash, ms_desiredStatus := status\<rparr>))"

definition desired_absent :: "manager_state \<Rightarrow> manager_state" where
  "desired_absent m =
     (let m' = m\<lparr>ms_lastDocumentHash := [],
            ms_desiredStatus := (if ms_current m = None then ''waiting'' else ''accepted'')\<rparr>
      in if ms_lastDocumentHash m \<noteq> [] then markDirty m' else m')"

definition processDesired ::
  "desired_library \<Rightarrow> config \<Rightarrow> transition_writes \<Rightarrow> manager_state \<times> state_directory
    \<Rightarrow> manager_step" where
  "processDesired lib cfg writes md =
     (let (m, d) = md in
      case read_document (sd_desired d) of
        Inl err \<Rightarrow> (md, Some err)
      | Inr None \<Rightarrow> ((desired_absent m, d), None)
      | Inr (Some data) \<Rightarrow>
          let documentHash = hex_encode (sha256 data) in
          if documentHash = ms_lastDocumentHash m then (md, None)
          else
            let currentGeneration = (case ms_current m of None \<Rightarrow> 0 | Some c \<Rightarrow> de_Generation (pd_state c));
                currentHash = (case ms_current m of None \<Rightarrow> [] | Some c \<Rightarrow> pd_stateHash c)
            in case classifyDesiredState lib data (cf_scope cfg) currentGeneration currentHash of
                (classificationUnchanged, _) \<Rightarrow>
                  ((m\<lparr>ms_lastDocumentHash := documentHash, ms_desiredStatus := ''accepted''\<rparr>, d), None)
              | (classificationNew, Some parsed) \<Rightarrow>
                  acceptDesiredTransition lib cfg writes parsed documentHash md
              | (classificationStale, _) \<Rightarrow>
                  ((reject_desired ''stale'' documentHash m, d), Some err_other)
              | (classificationConflict, _) \<Rightarrow>
                  ((reject_desired ''conflict'' documentHash m, d), Some err_other)
              | _ \<Rightarrow> ((reject_desired ''invalid'' documentHash m, d), Some err_other))"

section \<open>Retiring targets\<close>

definition retirementStartupRetryBase :: int where
  "retirementStartupRetryBase = time_Minute"

definition retirementStartupRetryMax :: int where
  "retirementStartupRetryMax = 15 * time_Minute"

definition current_generation :: "manager_state \<Rightarrow> int" where
  "current_generation m = de_Generation (state_or_zero (ms_current m))"

definition prepareRetirementStartup ::
  "save_outcome \<Rightarrow> int \<Rightarrow> retirementRecord \<Rightarrow> manager_state \<times> state_directory \<Rightarrow> manager_step" where
  "prepareRetirementStartup outcome now r md =
     (if rr_StartupRetryAt r \<noteq> NoStamp
        \<and> (case parse_RFC3339 (rr_StartupRetryAt r) of None \<Rightarrow> True | Some retryAt \<Rightarrow> now < retryAt)
      then (md, Some err_other)
      else
        let attempts = min (rr_StartupAttempts r + 1) maxRegistrationCleanupAttempts;
            r' = r\<lparr>rr_StartupAttempts := attempts,
              rr_StartupRetryAt := format_RFC3339 (now + boundedExponentialBackoff
                retirementStartupRetryBase retirementStartupRetryMax attempts)\<rparr>
        in persistRetirements outcome (current_generation (fst md))
             (mput (ms_retirementRecords (fst md)) (rr_Key r) r') md)"

text \<open>
  What the services answer while one key is reconciled. The scale-set lookup is asked once when
  the retiring controller starts and once before the scale set is deleted.
\<close>

record retirement_services =
  rs_newService :: "goerr option"
  rs_findAtStart :: "goerr + int option"
  rs_startController :: "goerr option"
  rs_beginRetirement :: "goerr option"
  rs_runnerCount :: int
  rs_closeSession :: "goerr option"
  rs_findAtEnd :: "goerr + int option"
  rs_deleteScaleSet :: "int \<Rightarrow> goerr option"

text \<open>Whether a controller runs for the key afterwards, or the error.\<close>

definition startRetiringController ::
  "retirement_services \<Rightarrow> retirementRecord \<Rightarrow> manager_state \<Rightarrow> manager_state \<times> (goerr + bool)" where
  "startRetiringController sv r m0 =
     (let target = record_targetSpec r;
          m = m0\<lparr>ms_orphanRecoveryTargets := mdel (ms_orphanRecoveryTargets m0) (ts_key target)\<rparr>
      in case rs_newService sv of
          Some err \<Rightarrow> (m, Inl err)
        | None \<Rightarrow>
            (case rs_findAtStart sv of
               Inl err \<Rightarrow> (m, Inl err)
             | Inr None \<Rightarrow>
                 if mget0 (ms_recovered m) (ts_key target) \<noteq> 0 then (m, Inl err_other)
                 else (m\<lparr>ms_orphanRecoveryTargets := mput (ms_orphanRecoveryTargets m)
                          (ts_key target) (ts_registrationURL target)\<rparr>, Inr False)
             | Inr (Some _) \<Rightarrow>
                 (case rs_startController sv of
                    Some err \<Rightarrow> (m, Inl err)
                  | None \<Rightarrow>
                      (m\<lparr>ms_orphanRecoveryTargets := mdel (ms_orphanRecoveryTargets m) (ts_key target)\<rparr>,
                       Inr True))))"

text \<open>The outcomes of the writes made for one key: the pacing, the start, and the completion.\<close>

record retirement_writes =
  rw_pacing :: save_outcome
  rw_started :: save_outcome
  rw_completed :: save_outcome

definition remove_key :: "string \<Rightarrow> string list \<Rightarrow> string list" where
  "remove_key key keys = filter (\<lambda>k. k \<noteq> key) keys"

definition complete_retirement ::
  "save_outcome \<Rightarrow> bool \<Rightarrow> string \<Rightarrow> manager_state \<times> state_directory \<Rightarrow> manager_step" where
  "complete_retirement outcome hadController key md =
     (let ((m, d), err) = persistRetirements outcome (current_generation (fst md))
            (mdel (ms_retirementRecords (fst md)) key) md
      in if err \<noteq> None then ((m, d), err)
         else ((m\<lparr>ms_retiring := (if hadController then remove_key key (ms_retiring m) else ms_retiring m),
                  ms_restarts := remove_key key (ms_restarts m),
                  ms_orphanRecoveryTargets := mdel (ms_orphanRecoveryTargets m) key\<rparr>, d), None))"

text \<open>The controller exists: begin, wait for the last runner, close, delete, complete.\<close>

definition drive_retirement ::
  "bool \<Rightarrow> retirement_services \<Rightarrow> save_outcome \<Rightarrow> string \<Rightarrow> manager_state \<times> state_directory
    \<Rightarrow> manager_step" where
  "drive_retirement allowFinalization sv outcome key md =
     (if rs_beginRetirement sv \<noteq> None then (md, rs_beginRetirement sv)
      else if rs_runnerCount sv \<noteq> 0 then (md, None)
      else if \<not> allowFinalization then (md, None)
      else if rs_closeSession sv \<noteq> None then (md, rs_closeSession sv)
      else case rs_findAtEnd sv of
          Inl err \<Rightarrow> (md, Some err)
        | Inr None \<Rightarrow> complete_retirement outcome True key md
        | Inr (Some handle) \<Rightarrow>
            if rs_deleteScaleSet sv handle \<noteq> None then (md, rs_deleteScaleSet sv handle)
            else complete_retirement outcome True key md)"

definition retirement_started ::
  "save_outcome \<Rightarrow> bool \<Rightarrow> retirementRecord \<Rightarrow> manager_state \<times> state_directory \<Rightarrow> manager_step" where
  "retirement_started outcome running r md =
     (let (m, d) = md; key = rr_Key r;
          m' = (if running
            then m\<lparr>ms_retiring := ms_retiring m @ [key],
              ms_orphanRecoveryTargets := mdel (ms_orphanRecoveryTargets m) key,
              ms_recovered := mdel (ms_recovered m) key\<rparr>
            else m)
      in persistRetirements outcome (current_generation m')
           (mput (ms_retirementRecords m') key
             (r\<lparr>rr_StartupAttempts := 0, rr_StartupRetryAt := NoStamp\<rparr>)) (m', d))"

definition reconcile_retirement ::
  "bool \<Rightarrow> int \<Rightarrow> retirement_services \<Rightarrow> retirement_writes \<Rightarrow> string
    \<Rightarrow> manager_state \<times> state_directory \<Rightarrow> manager_step" where
  "reconcile_retirement allowFinalization now sv w key md =
     (case map_of (ms_retirementRecords (fst md)) key of
        None \<Rightarrow> (md, None)
      | Some r \<Rightarrow>
          if key \<in> set (ms_retiring (fst md))
          then drive_retirement allowFinalization sv (rw_completed w) key md
          else
            let (md1, err) = prepareRetirementStartup (rw_pacing w) now r md
            in if err \<noteq> None then (md1, err)
               else case startRetiringController sv r (fst md1) of
                   (m2, Inl err) \<Rightarrow> ((m2, snd md1), Some err)
                 | (m2, Inr running) \<Rightarrow>
                     let (md3, err) = retirement_started (rw_started w) running r (m2, snd md1)
                     in if err \<noteq> None then (md3, err)
                        else if running
                        then drive_retirement allowFinalization sv (rw_completed w) key md3
                        else if \<not> allowFinalization then (md3, None)
                        else complete_retirement (rw_completed w) False key md3)"

text \<open>The keys are those due at the current generation and not desired again; errors are joined.\<close>

fun reconcile_keys ::
  "bool \<Rightarrow> int \<Rightarrow> (string \<Rightarrow> retirement_services) \<Rightarrow> (string \<Rightarrow> retirement_writes) \<Rightarrow> string list
    \<Rightarrow> manager_state \<times> state_directory \<Rightarrow> (manager_state \<times> state_directory) \<times> goerr list" where
  "reconcile_keys allow now sv w [] md = (md, [])"
| "reconcile_keys allow now sv w (key # keys) md =
     (let (md1, err) = reconcile_retirement allow now (sv key) (w key) key md;
          (md2, errs) = reconcile_keys allow now sv w keys md1
      in (md2, (case err of None \<Rightarrow> errs | Some e \<Rightarrow> e # errs)))"

definition due_retirements ::
  "int \<Rightarrow> targetSpec list \<Rightarrow> (string, retirementRecord) gomap \<Rightarrow> string list" where
  "due_retirements generation desired records =
     sort (map fst (filter (\<lambda>(key, r). rr_RetireAtGeneration r \<le> generation
       \<and> key \<notin> set (map ts_key desired)) records))"

definition reconcileRetirementsWithFinalization ::
  "desired_library \<Rightarrow> config \<Rightarrow> bool \<Rightarrow> int \<Rightarrow> (string \<Rightarrow> retirement_services)
    \<Rightarrow> (string \<Rightarrow> retirement_writes) \<Rightarrow> manager_state \<times> state_directory
    \<Rightarrow> (manager_state \<times> state_directory) \<times> goerr list" where
  "reconcileRetirementsWithFinalization lib cfg allowFinalization now sv w md =
     (case ms_current (fst md) of
        None \<Rightarrow> (md, [])
      | Some current \<Rightarrow>
          (case buildTargetSpecs (dl_tables lib) (dl_url lib) (pd_state current) cfg of
             None \<Rightarrow> (md, [err_other])
           | Some desired \<Rightarrow>
               reconcile_keys allowFinalization now sv w
                 (due_retirements (de_Generation (pd_state current)) desired
                   (ms_retirementRecords (fst md))) md))"

section \<open>Acknowledgement\<close>

definition target_coherent :: "manager_state \<Rightarrow> targetSpec \<Rightarrow> bool" where
  "target_coherent m target \<longleftrightarrow>
     (case map_of (ms_controllers m) (ts_key target) of
        None \<Rightarrow> False
      | Some c \<Rightarrow>
          ts_key target \<notin> set (ms_retiring m) \<and> ts_key target \<notin> set (ms_pending m)
          \<and> ts_key target \<notin> set (ms_restarts m) \<and> ts_key target \<notin> set (ms_listenerFailures m)
          \<and> \<not> cv_closed c \<and> \<not> cv_listenerStopped c \<and> \<not> cv_retiring c
          \<and> cv_targetKey c = ts_key target \<and> cv_maximum c = ts_maximum target
          \<and> cv_targetSlots c \<le> ts_maximum target)"

definition currentConfigurationCoherent ::
  "desired_library \<Rightarrow> config \<Rightarrow> manager_state \<Rightarrow> bool" where
  "currentConfigurationCoherent lib cfg m =
     (case ms_current m of
        None \<Rightarrow> False
      | Some current \<Rightarrow>
          (case buildTargetSpecs (dl_tables lib) (dl_url lib) (pd_state current) cfg of
             None \<Rightarrow> False
           | Some targets \<Rightarrow>
               length (ms_controllers m) = length targets
               \<and> list_all (target_coherent m) targets
               \<and> list_all (\<lambda>c. fst c \<in> set (map ts_key targets)) (ms_controllers m)))"

definition publishAcknowledgement ::
  "desired_library \<Rightarrow> config \<Rightarrow> save_outcome \<Rightarrow> int \<Rightarrow> int \<Rightarrow> int
    \<Rightarrow> manager_state \<times> state_directory \<Rightarrow> manager_step" where
  "publishAcknowledgement lib cfg outcome activeRunners minimumIdle now md =
     (let (m, d) = md in
      case ms_current m of
        None \<Rightarrow> (md, None)
      | Some current \<Rightarrow>
          if \<not> ms_ackPending m then (md, None)
          else if \<not> currentConfigurationCoherent lib cfg m then (md, Some err_other)
          else if ms_retirementGeneration m < de_Generation (pd_state current) then (md, Some err_other)
          else case buildTargetSpecs (dl_tables lib) (dl_url lib) (pd_state current) cfg of
              None \<Rightarrow> (md, Some err_other)
            | Some targets \<Rightarrow>
                if list_ex (\<lambda>t. map_of (ms_retirementRecords m) (ts_key t) \<noteq> None) targets
                then (md, Some err_other)
                else
                  let (file, err) = write_document outcome (sd_acknowledgement d)
                        (buildAcknowledgement current (ms_ackPrevious m) activeRunners minimumIdle now)
                  in if err \<noteq> None then ((m, d\<lparr>sd_acknowledgement := file\<rparr>), err)
                     else ((m\<lparr>ms_ackPending := False\<rparr>, d\<lparr>sd_acknowledgement := file\<rparr>), None))"

end
