(* ===== verification/Desired_Transition.thy ===== *)
theory Desired_Transition
  imports Retirement
begin

text \<open>
  What the manager's handling of desired state guarantees across crashes: retirement intent is
  on disk before the state that needs it, a restart finds it, and it is dropped only when the
  scale set is gone.
\<close>

definition records_ok :: "(string, retirementRecord) gomap \<Rightarrow> bool" where
  "records_ok records \<longleftrightarrow> map_ok records \<and> (\<forall>(k, r) \<in> set records. rr_Key r = k)"

definition target_keys :: "desired_library \<Rightarrow> config \<Rightarrow> desiredState \<Rightarrow> string set" where
  "target_keys lib cfg s =
     (case buildTargetSpecs (dl_tables lib) (dl_url lib) s cfg of
        None \<Rightarrow> {}
      | Some ts \<Rightarrow> ts_key ` set ts)"

section \<open>Records\<close>

lemma add_retirement_ok:
  "records_ok records \<Longrightarrow> records_ok (add_retirement nextKeys g t records)"
  by (auto simp: records_ok_def add_retirement_def retirementRecordFor_def set_mput)

lemma add_retirements:
  assumes "records_ok records"
  shows "records_ok (fold (add_retirement nextKeys g) ts records)
    \<and> (\<forall>k r. map_of records k = Some r \<longrightarrow> map_of (fold (add_retirement nextKeys g) ts records) k = Some r)
    \<and> (\<forall>t \<in> set ts. ts_key t \<notin> nextKeys
        \<longrightarrow> map_of (fold (add_retirement nextKeys g) ts records) (ts_key t) \<noteq> None)
    \<and> (\<forall>k r. map_of (fold (add_retirement nextKeys g) ts records) k = Some r \<longrightarrow>
        map_of records k = Some r \<or> (\<exists>t \<in> set ts. r = retirementRecordFor t g))"
  using assms
proof (induction ts arbitrary: records)
  case (Cons t ts)
  let ?a = "add_retirement nextKeys g t records"
  have keep: "map_of records k = Some r \<Longrightarrow> map_of ?a k = Some r" for k r
    by (auto simp: add_retirement_def)
  have added: "ts_key t \<notin> nextKeys \<Longrightarrow> map_of ?a (ts_key t) \<noteq> None"
    by (auto simp: add_retirement_def)
  have source: "map_of ?a k = Some r \<Longrightarrow> map_of records k = Some r \<or> r = retirementRecordFor t g" for k r
    by (auto simp: add_retirement_def split: if_splits)
  let ?f = "fold (add_retirement nextKeys g) ts ?a"
  have ih: "records_ok ?f" "\<And>k r. map_of ?a k = Some r \<Longrightarrow> map_of ?f k = Some r"
    "\<And>u. u \<in> set ts \<Longrightarrow> ts_key u \<notin> nextKeys \<Longrightarrow> map_of ?f (ts_key u) \<noteq> None"
    "\<And>k r. map_of ?f k = Some r \<Longrightarrow>
      map_of ?a k = Some r \<or> (\<exists>u \<in> set ts. r = retirementRecordFor u g)"
    using Cons.IH [OF add_retirement_ok [OF Cons.prems, of nextKeys g t]] by blast+
  have step: "fold (add_retirement nextKeys g) (t # ts) records = ?f" by simp
  have "ts_key t \<notin> nextKeys \<Longrightarrow> map_of ?f (ts_key t) \<noteq> None" using added ih(2) by fastforce
  with ih(1,3) ih(2) [OF keep] show ?case unfolding step
    by (intro conjI allI impI) (simp_all del: not_None_eq, use ih(4) source in blast)
qed simp

lemma set_document_targets: "set (rd_Targets (newRetirementDocument g records)) = snd ` set records"
  by (simp add: newRetirementDocument_def)

lemma fold_mdel:
  "map_of (fold (\<lambda>t rs. mdel rs (ts_key t)) ts records) k
     = (if k \<in> ts_key ` set ts then None else map_of records k)"
  by (induction ts arbitrary: records) auto

lemma fold_mdel_ok:
  "records_ok records \<Longrightarrow> records_ok (fold (\<lambda>t rs. mdel rs (ts_key t)) ts records)"
proof (induction ts arbitrary: records)
  case (Cons t ts)
  then have "records_ok (mdel records (ts_key t))" by (auto simp: records_ok_def set_mdel)
  with Cons.IH show ?case by simp
qed simp

text \<open>Loading a document puts every record back under its key.\<close>

lemma fold_mput_records:
  assumes "distinct (map rr_Key rs)"
  shows "map_of (fold (\<lambda>r records. mput records (rr_Key r) r) rs records) k
    = (case find (\<lambda>r. rr_Key r = k) rs of Some r \<Rightarrow> Some r | None \<Rightarrow> map_of records k)"
  using assms
proof (induction rs arbitrary: records)
  case (Cons r rs)
  have "find (\<lambda>q. rr_Key q = rr_Key r) rs = None"
    using Cons.prems by (auto simp: find_None_iff image_iff)
  with Cons show ?case by (auto split: option.splits)
qed simp

lemma document_distinct:
  assumes "records_ok records"
  shows "distinct (map rr_Key (rd_Targets (newRetirementDocument g records)))"
proof -
  have keys: "map (rr_Key \<circ> snd) records = mkeys records"
    using assms by (auto simp: records_ok_def)
  have "distinct (mkeys records)" using assms by (simp add: records_ok_def)
  then show ?thesis
    by (simp only: newRetirementDocument_def retirementDocument.simps distinct_sort_map map_map keys)
qed

lemma document_lookup:
  assumes ok: "records_ok records"
  shows "map_of (fold (\<lambda>r rs. mput rs (rr_Key r) r) (rd_Targets (newRetirementDocument g records)) []) k
    = map_of records k"
proof -
  let ?rs = "rd_Targets (newRetirementDocument g records)"
  have mem: "r \<in> set ?rs \<and> rr_Key r = k \<longleftrightarrow> map_of records k = Some r" for r
    using ok map_of_mem [of records k r]
    by (force simp: set_document_targets records_ok_def)
  have "find (\<lambda>r. rr_Key r = k) ?rs = map_of records k"
  proof (cases "find (\<lambda>r. rr_Key r = k) ?rs")
    case None
    then have "\<nexists>r. map_of records k = Some r" using mem by (auto simp: find_None_iff)
    with None show ?thesis by (cases "map_of records k") simp_all
  next
    case (Some r)
    then have "r \<in> set ?rs \<and> rr_Key r = k" by (auto simp: find_Some_iff)
    with mem Some show ?thesis by simp
  qed
  then show ?thesis
    using fold_mput_records [OF document_distinct [OF ok, of g], of "[]" k]
    by (simp split: option.splits)
qed

lemma document_keys:
  assumes "records_ok records"
  shows "rr_Key ` set (rd_Targets (newRetirementDocument g records)) = dom (map_of records)"
  using assms by (force simp: set_document_targets records_ok_def dom_map_of_conv_image_fst)

section \<open>The transition\<close>

lemma write_document_None:
  "write_document outcome f x = (f', None) \<longleftrightarrow> outcome = Saved \<and> f' = StateFile x"
  by (cases outcome) auto

lemma write_document_changed:
  "write_document outcome f x = (f', err) \<Longrightarrow> f' \<noteq> f \<Longrightarrow> f' = StateFile x"
  by (cases outcome) auto

lemma persist_effect:
  assumes "persistRetirements outcome g records (m, d) = ((m', d'), err)"
  shows "sd_lastValid d' = sd_lastValid d \<and> sd_desired d' = sd_desired d \<and> ms_current m' = ms_current m
    \<and> (sd_retirements d' = sd_retirements d
       \<or> sd_retirements d' = StateFile (newRetirementDocument g records))
    \<and> (err = None \<longrightarrow> ms_retirementRecords m' = records \<and> ms_retirementGeneration m' = g
       \<and> sd_retirements d' = StateFile (newRetirementDocument g records))
    \<and> (err \<noteq> None \<longrightarrow> m' = m)"
  using assms by (cases outcome) (auto simp: persistRetirements_def Let_def)

lemma ensure_effect:
  assumes "ensureRetirementStateCurrent lib cfg outcome (m, d) = ((m', d'), err)"
    and "ms_current m = Some new"
    and "buildTargetSpecs (dl_tables lib) (dl_url lib) (pd_state new) cfg = Some ts"
  shows "sd_lastValid d' = sd_lastValid d \<and> sd_desired d' = sd_desired d
    \<and> (sd_retirements d' = sd_retirements d
       \<or> sd_retirements d' = StateFile (newRetirementDocument (de_Generation (pd_state new))
           (fold (\<lambda>t rs. mdel rs (ts_key t)) ts (ms_retirementRecords m))))"
  using assms by (auto simp: ensureRetirementStateCurrent_def Let_def split: if_splits dest!: persist_effect)

lemma recordsWithNewRetirements_effect:
  assumes "recordsWithNewRetirements lib cfg (pd_state old) nextState m = Some records"
    and "records_ok (ms_retirementRecords m)" and "de_Scope (pd_state old) \<noteq> []"
  obtains olds ts where
    "buildTargetSpecs (dl_tables lib) (dl_url lib) (pd_state old) cfg = Some olds"
    "buildTargetSpecs (dl_tables lib) (dl_url lib) nextState cfg = Some ts"
    "records = fold (add_retirement (set (map ts_key ts)) (de_Generation nextState)) olds
      (ms_retirementRecords m)"
  using assms by (auto simp: recordsWithNewRetirements_def split: option.splits)

text \<open>A transition that changes the last-valid file has already persisted the intent.\<close>

lemma accept_effect:
  assumes step: "acceptDesiredTransition lib cfg writes parsed h (m, d) = ((m', d'), err)"
    and changed: "sd_lastValid d' \<noteq> sd_lastValid d"
  obtains records where
    "recordsWithNewRetirements lib cfg (state_or_zero (ms_current m)) (pd_state parsed) (adopt_current m)
      = Some records"
    "sd_lastValid d' = StateFile (pd_raw parsed)"
    "sd_retirements d' = StateFile (newRetirementDocument (de_Generation (pd_state parsed)) records)
      \<or> (\<exists>ts. buildTargetSpecs (dl_tables lib) (dl_url lib) (pd_state parsed) cfg = Some ts
        \<and> sd_retirements d' = StateFile (newRetirementDocument (de_Generation (pd_state parsed))
            (fold (\<lambda>t rs. mdel rs (ts_key t)) ts records)))"
proof -
  obtain records where records: "recordsWithNewRetirements lib cfg (state_or_zero (ms_current m))
      (pd_state parsed) (adopt_current m) = Some records"
    using step changed by (cases "recordsWithNewRetirements lib cfg (state_or_zero (ms_current m))
      (pd_state parsed) (adopt_current m)") (auto simp: acceptDesiredTransition_def)
  obtain m1 d1 e1 where p: "persistRetirements (tw_intent writes) (de_Generation (pd_state parsed))
      records (adopt_current m, d) = ((m1, d1), e1)" by (metis surj_pair)
  obtain written e2 where w: "write_document (tw_lastValid writes) (sd_lastValid d1) (pd_raw parsed)
      = (written, e2)" by (metis surj_pair)
  note pe = persist_effect [OF p]
  have e1: "e1 = None"
    using step changed records p pe by (cases e1) (auto simp: acceptDesiredTransition_def)
  have rest: "(if e2 \<noteq> None then ((m1, d1\<lparr>sd_lastValid := written\<rparr>), e2)
      else commit_transition lib cfg (tw_cleanup writes) parsed h
        (case ms_applied m of None \<Rightarrow> state_or_zero (ms_current m) | Some a \<Rightarrow> pd_state a)
        (m1, d1\<lparr>sd_lastValid := written\<rparr>)) = ((m', d'), err)"
    using step records p e1 w by (simp add: acceptDesiredTransition_def Let_def)
  obtain ts where ts: "buildTargetSpecs (dl_tables lib) (dl_url lib) (pd_state parsed) cfg = Some ts"
    using records by (auto simp: recordsWithNewRetirements_def split: option.splits if_splits)
  have "sd_lastValid d' = written \<and> (sd_retirements d' = sd_retirements d1
      \<or> sd_retirements d' = StateFile (newRetirementDocument (de_Generation (pd_state parsed))
            (fold (\<lambda>t rs. mdel rs (ts_key t)) ts records)))"
  proof (cases "e2 = None")
    case False
    with rest show ?thesis by auto
  next
    case True
    define a where "a = m1\<lparr>ms_current := Some parsed,
      ms_ackPrevious := (case ms_applied m of None \<Rightarrow> state_or_zero (ms_current m) | Some a \<Rightarrow> pd_state a),
      ms_ackPending := True, ms_desiredStatus := ''accepted'', ms_lastDocumentHash := h\<rparr>"
    obtain m2 d2 e3 where e: "ensureRetirementStateCurrent lib cfg (tw_cleanup writes)
        (a, d1\<lparr>sd_lastValid := written\<rparr>) = ((m2, d2), e3)" by (metis surj_pair)
    have "d' = d2" using rest True e
      by (simp add: commit_transition_def Let_def a_def [symmetric] split: if_splits)
    moreover have "ms_current a = Some parsed" "ms_retirementRecords a = records"
      using pe e1 by (simp_all add: a_def)
    ultimately show ?thesis using ensure_effect [OF e _ ts] by auto
  qed
  moreover have "written = StateFile (pd_raw parsed)"
    using write_document_changed [OF w] calculation changed pe by auto
  ultimately show thesis using that [OF records] ts pe e1 by auto
qed

lemma process_effect:
  assumes step: "processDesired lib cfg writes (m, d) = ((m', d'), err)"
    and changed: "sd_lastValid d' \<noteq> sd_lastValid d"
    and current: "ms_current m = Some old"
  obtains data parsed where "sd_desired d = StateFile data"
    "parseDesiredState lib data (cf_scope cfg) = Some parsed"
    "de_Generation (pd_state old) < de_Generation (pd_state parsed)"
    "acceptDesiredTransition lib cfg writes parsed (hex_encode (sha256 data)) (m, d) = ((m', d'), err)"
proof -
  obtain data where data: "sd_desired d = StateFile data"
    using step changed by (cases "sd_desired d") (auto simp: processDesired_def)
  obtain c p where c: "classifyDesiredState lib data (cf_scope cfg) (de_Generation (pd_state old))
      (pd_stateHash old) = (c, p)" by (metis surj_pair)
  have accept: "c = classificationNew \<and> (\<exists>parsed. p = Some parsed
      \<and> acceptDesiredTransition lib cfg writes parsed (hex_encode (sha256 data)) (m, d) = ((m', d'), err))"
    using step changed current data c
    by (simp add: processDesired_def Let_def split: if_splits desiredClassification.splits option.splits)
  with c obtain parsed where "p = Some parsed" "parseDesiredState lib data (cf_scope cfg) = Some parsed"
    "de_Generation (pd_state old) < de_Generation (pd_state parsed)"
    by (blast elim: classify_new)
  with accept data show thesis by (intro that) auto
qed

lemma valid_scope: "validateDesiredState u net s scope = None \<Longrightarrow> de_Scope s \<noteq> []"
  by (auto simp: validateDesiredState_def split: if_splits)

text \<open>
  A restart on a transition's files: what it holds if it comes up, and that it does when every
  record is complete.
\<close>

lemma restart_holds:
  assumes "parseDesiredState lib data (cf_scope cfg) = Some parsed"
    and "sd_lastValid d = StateFile data"
    and "sd_retirements d = StateFile (newRetirementDocument g records)"
    and "records_ok records" and "restart_manager lib cfg d = Inr fresh"
  shows "ms_current fresh = Some parsed \<and> ms_retirementGeneration fresh = g
    \<and> map_of (ms_retirementRecords fresh) = map_of records"
proof -
  let ?doc = "newRetirementDocument g records"
  have "parseRetirementDocument ?doc = Inl err_other \<or> parseRetirementDocument ?doc = Inr ?doc"
    by (auto simp: parseRetirementDocument_def split: option.split)
  moreover have "map_of (fold (\<lambda>r rs. mput rs (rr_Key r) r) (rd_Targets ?doc) []) = map_of records"
    using document_lookup [OF assms(4)] by blast
  moreover have "rd_Generation ?doc = g" by (simp add: newRetirementDocument_def)
  ultimately show ?thesis using assms(1-3,5)
    by (auto simp: restart_manager_def restoreLastValid_def loadRetirements_def newManager_def
        split: sum.splits)
qed

lemma restart_comes_up:
  assumes "parseDesiredState lib data (cf_scope cfg) = Some parsed"
    and "sd_lastValid d = StateFile data"
    and "sd_retirements d = StateFile (newRetirementDocument g records)"
    and "records_ok records" "\<forall>r \<in> snd ` set records. retirement_record_ok r" "0 \<le> g"
  shows "\<exists>fresh. restart_manager lib cfg d = Inr fresh"
proof -
  let ?doc = "newRetirementDocument g records"
  have "parse_records retirement_record_ok rr_Key id [] (rd_Targets ?doc) = Some (rd_Targets ?doc)"
    using assms(5) document_distinct [OF assms(4), of g]
    by (simp add: parse_records_Some set_document_targets)
  then have "parseRetirementDocument ?doc = Inr ?doc"
    using assms(6) by (simp add: parseRetirementDocument_def newRetirementDocument_def
      retirementDocumentContractVersion_def managerContractVersion_def)
  then show ?thesis using assms(1-3)
    by (simp add: restart_manager_def restoreLastValid_def loadRetirements_def newManager_def)
qed

text \<open>Targets whose retirement record is complete.\<close>

definition retirable :: "desired_library \<Rightarrow> config \<Rightarrow> desiredState \<Rightarrow> bool" where
  "retirable lib cfg s \<longleftrightarrow>
     (case buildTargetSpecs (dl_tables lib) (dl_url lib) s cfg of
        None \<Rightarrow> True
      | Some ts \<Rightarrow> list_all (\<lambda>t. ts_registrationURL t \<noteq> [] \<and> 1 \<le> ts_maximum t) ts)"

lemma repository_target_names:
  "repository_targets u net cfg seen rs = Some ts \<Longrightarrow> t \<in> set ts
     \<Longrightarrow> ts_key t \<noteq> [] \<and> ts_scaleSetName t \<noteq> []"
proof (induction rs arbitrary: seen ts)
  case (Cons r rs)
  then show ?case
    by (auto simp: repositoryTargetKey_def stableScaleSetName_def Let_def split: option.splits if_splits)
qed simp

lemma target_names:
  "buildTargetSpecs u net s cfg = Some ts \<Longrightarrow> t \<in> set ts \<Longrightarrow> ts_key t \<noteq> [] \<and> ts_scaleSetName t \<noteq> []"
  by (auto simp: buildTargetSpecs_def scope_target_def stableScaleSetName_def Let_def
    dest: repository_target_names split: if_splits option.splits)

lemma new_record_ok:
  assumes "buildTargetSpecs (dl_tables lib) (dl_url lib) s cfg = Some ts" "t \<in> set ts"
    and "retirable lib cfg s" "1 \<le> g"
  shows "retirement_record_ok (retirementRecordFor t g)"
  using assms target_names [OF assms(1,2)]
  by (auto simp: retirable_def list_all_iff retirement_record_ok_def retirementRecordFor_def
    stamp_ok_def maxRegistrationCleanupAttempts_def)

text \<open>The retirement document a transition leaves, as the records it stands for.\<close>

lemma transition_records:
  assumes accept: "acceptDesiredTransition lib cfg writes new h (m, d) = ((m', d'), err)"
    and changed: "sd_lastValid d' \<noteq> sd_lastValid d"
    and current: "ms_current m = Some old" "de_Scope (pd_state old) \<noteq> []"
    and ok: "records_ok (ms_retirementRecords m)"
  obtains kept olds where
    "sd_lastValid d' = StateFile (pd_raw new)"
    "sd_retirements d' = StateFile (newRetirementDocument (de_Generation (pd_state new)) kept)"
    "records_ok kept"
    "buildTargetSpecs (dl_tables lib) (dl_url lib) (pd_state old) cfg = Some olds"
    "\<forall>k \<in> target_keys lib cfg (pd_state old) - target_keys lib cfg (pd_state new). map_of kept k \<noteq> None"
    "\<forall>k r. map_of (ms_retirementRecords m) k = Some r \<and> k \<notin> target_keys lib cfg (pd_state new)
      \<longrightarrow> map_of kept k = Some r"
    "\<forall>k r. map_of kept k = Some r \<longrightarrow> map_of (ms_retirementRecords m) k = Some r
      \<or> (\<exists>t \<in> set olds. r = retirementRecordFor t (de_Generation (pd_state new)))"
proof -
  let ?g = "de_Generation (pd_state new)"
  obtain records where records: "recordsWithNewRetirements lib cfg (pd_state old) (pd_state new)
      (adopt_current m) = Some records"
    and valid: "sd_lastValid d' = StateFile (pd_raw new)"
    and written: "sd_retirements d' = StateFile (newRetirementDocument ?g records)
      \<or> (\<exists>ts. buildTargetSpecs (dl_tables lib) (dl_url lib) (pd_state new) cfg = Some ts
        \<and> sd_retirements d' = StateFile (newRetirementDocument ?g
            (fold (\<lambda>t rs. mdel rs (ts_key t)) ts records)))"
    using accept_effect [OF accept changed] current(1) by (auto simp: state_or_zero_def)
  have m: "ms_retirementRecords (adopt_current m) = ms_retirementRecords m"
    by (simp add: adopt_current_def)
  obtain olds ts where olds: "buildTargetSpecs (dl_tables lib) (dl_url lib) (pd_state old) cfg = Some olds"
    and ts: "buildTargetSpecs (dl_tables lib) (dl_url lib) (pd_state new) cfg = Some ts"
    and folded: "records = fold (add_retirement (set (map ts_key ts)) ?g) olds (ms_retirementRecords m)"
    using recordsWithNewRetirements_effect [OF records] ok m current(2) by metis
  note added = add_retirements [OF ok, of "set (map ts_key ts)" ?g olds, folded folded]
  have keys: "target_keys lib cfg (pd_state old) = ts_key ` set olds"
    "target_keys lib cfg (pd_state new) = ts_key ` set ts"
    using olds ts by (simp_all add: target_keys_def)
  define kept where "kept = (if sd_retirements d' = StateFile (newRetirementDocument ?g records)
    then records else fold (\<lambda>t rs. mdel rs (ts_key t)) ts records)"
  have look: "map_of kept k = (if kept \<noteq> records \<and> k \<in> ts_key ` set ts then None else map_of records k)" for k
    by (auto simp: kept_def fold_mdel)
  show thesis
  proof (rule that [OF valid _ _ olds])
    show "sd_retirements d' = StateFile (newRetirementDocument ?g kept)"
      using written ts by (auto simp: kept_def)
    have "records_ok records" using added by blast
    then show "records_ok kept"
      unfolding kept_def by (cases "sd_retirements d' = StateFile (newRetirementDocument ?g records)")
        (simp_all only: if_True if_False simp_thms fold_mdel_ok)
  qed (use added look keys in \<open>auto split: if_splits\<close>)
qed

text \<open>
  C11: Retirement intent is durable before the state that needs it. When processing a desired
  document replaces the last-valid state on disk, whatever the three writes did, the document
  has a newer generation, and the retirement file on disk is of that generation and names every
  target of the previous state that the new one drops. A manager that comes up from these files
  has the new state as its current one, a retirement record for every dropped target, and every
  earlier record of a target the new state does not desire again, unchanged. It comes up when
  the earlier records were complete and every target of the previous state has a registration
  URL and allowed at least one worker; the loader refuses the record of a target that allowed
  none.
\<close>

theorem retirement_intent_survives_restart:
  assumes step: "processDesired lib cfg writes (m, d) = ((m', d'), err)"
    and changed: "sd_lastValid d' \<noteq> sd_lastValid d"
    and current: "ms_current m = Some old" "parseDesiredState lib (pd_raw old) (cf_scope cfg) = Some old"
    and ok: "records_ok (ms_retirementRecords m)"
  shows "\<exists>new doc. sd_desired d = StateFile (pd_raw new) \<and> sd_lastValid d' = StateFile (pd_raw new)
    \<and> de_Generation (pd_state old) < de_Generation (pd_state new)
    \<and> sd_retirements d' = StateFile doc \<and> rd_Generation doc = de_Generation (pd_state new)
    \<and> target_keys lib cfg (pd_state old) - target_keys lib cfg (pd_state new)
        \<subseteq> rr_Key ` set (rd_Targets doc)
    \<and> (\<forall>fresh. restart_manager lib cfg d' = Inr fresh \<longrightarrow>
        ms_current fresh = Some new
        \<and> ms_retirementGeneration fresh = de_Generation (pd_state new)
        \<and> (\<forall>k \<in> target_keys lib cfg (pd_state old) - target_keys lib cfg (pd_state new).
            map_of (ms_retirementRecords fresh) k \<noteq> None)
        \<and> (\<forall>k r. map_of (ms_retirementRecords m) k = Some r \<and> k \<notin> target_keys lib cfg (pd_state new)
            \<longrightarrow> map_of (ms_retirementRecords fresh) k = Some r))
    \<and> ((\<forall>r \<in> snd ` set (ms_retirementRecords m). retirement_record_ok r)
        \<and> retirable lib cfg (pd_state old) \<longrightarrow> (\<exists>fresh. restart_manager lib cfg d' = Inr fresh))"
proof -
  obtain data new where data: "sd_desired d = StateFile data"
    and new: "parseDesiredState lib data (cf_scope cfg) = Some new"
    and gen: "de_Generation (pd_state old) < de_Generation (pd_state new)"
    and accept: "acceptDesiredTransition lib cfg writes new (hex_encode (sha256 data)) (m, d) = ((m', d'), err)"
    using process_effect [OF step changed current(1)] .
  have raw: "pd_raw new = data" and g: "1 \<le> de_Generation (pd_state new)"
    using parse_valid [OF new] valid_generation by auto
  have "de_Scope (pd_state old) \<noteq> []" using parse_valid [OF current(2)] valid_scope by blast
  then obtain kept olds where
    files: "sd_lastValid d' = StateFile (pd_raw new)"
      "sd_retirements d' = StateFile (newRetirementDocument (de_Generation (pd_state new)) kept)"
    and kept: "records_ok kept"
    and olds: "buildTargetSpecs (dl_tables lib) (dl_url lib) (pd_state old) cfg = Some olds"
    and lookups: "\<forall>k \<in> target_keys lib cfg (pd_state old) - target_keys lib cfg (pd_state new).
        map_of kept k \<noteq> None"
      "\<forall>k r. map_of (ms_retirementRecords m) k = Some r \<and> k \<notin> target_keys lib cfg (pd_state new)
        \<longrightarrow> map_of kept k = Some r"
    and source: "\<forall>k r. map_of kept k = Some r \<longrightarrow> map_of (ms_retirementRecords m) k = Some r
        \<or> (\<exists>t \<in> set olds. r = retirementRecordFor t (de_Generation (pd_state new)))"
    by (rule transition_records [OF accept changed current(1) _ ok])
  let ?doc = "newRetirementDocument (de_Generation (pd_state new)) kept"
  have named: "target_keys lib cfg (pd_state old) - target_keys lib cfg (pd_state new)
      \<subseteq> rr_Key ` set (rd_Targets ?doc)"
    using lookups(1) document_keys [OF kept] by (auto simp: domIff)
  have complete: "retirement_record_ok r"
    if "r \<in> snd ` set kept" "\<forall>r \<in> snd ` set (ms_retirementRecords m). retirement_record_ok r"
      "retirable lib cfg (pd_state old)" for r
  proof -
    from that(1) kept obtain k where "map_of kept k = Some r" by (auto simp: records_ok_def)
    with source have "map_of (ms_retirementRecords m) k = Some r
      \<or> (\<exists>t \<in> set olds. r = retirementRecordFor t (de_Generation (pd_state new)))" by blast
    then show ?thesis
      using that(2) new_record_ok [OF olds _ that(3) g] by (force dest: map_of_SomeD)
  qed
  note holds = restart_holds [OF new files(1) [unfolded raw] files(2) kept]
    and up = restart_comes_up [OF new files(1) [unfolded raw] files(2) kept]
  show ?thesis
    by (rule exI [of _ new], rule exI [of _ ?doc], intro conjI allI impI)
      (use data raw files gen named lookups holds up complete g in
        \<open>auto simp: newRetirementDocument_def\<close>)
qed

definition demo_url :: net_url where
  "demo_url = \<lparr>nu_Parse = (\<lambda>s. if has_prefix s ''https://h/'' then
       Some \<lparr>url_Scheme = ''https'', url_Host = ''h'', url_Hostname = ''h'', url_Port = [],
         url_Path = drop 9 s, url_hasUser = False, url_RawQuery = [], url_Fragment = []\<rparr>
     else None),
     nu_String = (\<lambda>scheme host path. scheme @ ''://'' @ host @ path)\<rparr>"

definition demo_members :: "string \<Rightarrow> string \<Rightarrow> (string \<times> json) list" where
  "demo_members generation url = [(''schemaVersion'', JNumber ''1''),
     (''generation'', JNumber generation), (''scope'', JString ''repo''),
     (''repositories'', JArray [JObject [(''url'', JString url), (''workers'', JNumber ''2'')]])]"

definition demo_library :: desired_library where
  "demo_library = \<lparr>dl_tables = demo_tables, dl_url = demo_url,
     dl_json = \<lparr>jl_Decode = map_of [(''old'', JObject (demo_members ''1'' ''https://h/a'')),
         (''new'', JObject (demo_members ''2'' ''https://h/b''))],
       jl_Encode = (\<lambda>_. ''x''), jl_RatInteger = parse_digits, jl_ParseFloat = (\<lambda>_. None)\<rparr>\<rparr>"

definition demo_state :: "int \<Rightarrow> string \<Rightarrow> desiredState" where
  "demo_state generation url = \<lparr>de_SchemaVersion = 1, de_Generation = generation,
     de_Scope = ''repo'', de_Repositories = [\<lparr>dr_URL = url, dr_Workers = 2\<rparr>], de_Replicas = None\<rparr>"

definition demo_parsed :: "string \<Rightarrow> int \<Rightarrow> string \<Rightarrow> parsedDesiredState" where
  "demo_parsed data generation url = \<lparr>pd_state = demo_state generation url,
     pd_stateHash = hex_encode (sha256 ''x''), pd_raw = data\<rparr>"

lemma demo_library_simps [simp]:
  "dl_tables demo_library = demo_tables" "dl_url demo_library = demo_url"
  "jl_Decode (dl_json demo_library) ''old'' = Some (JObject (demo_members ''1'' ''https://h/a''))"
  "jl_Decode (dl_json demo_library) ''new'' = Some (JObject (demo_members ''2'' ''https://h/b''))"
  "jl_Encode (dl_json demo_library) n = ''x''"
  by (simp_all add: demo_library_def)

lemma demo_parse_steps:
  assumes "jl_Decode (dl_json demo_library) data = Some (JObject members)"
    and "desiredStateFromJSON (dl_json demo_library) members = Some (demo_state g url)"
    and "canonicalizeDesiredRepositoryURLs demo_tables demo_url (demo_state g url) members
      = Some (demo_state g url, members)"
    and "validateDesiredState demo_tables demo_url (demo_state g url) ''repo'' = None"
    and "normalizeJSONValue (dl_json demo_library) (JObject members) \<noteq> None"
  shows "parseDesiredState demo_library data ''repo'' = Some (demo_parsed data g url)"
  using assms by (auto simp: parseDesiredState_def stateHash_of_def demo_parsed_def Let_def)

lemma demo_parse:
  "parseDesiredState demo_library ''old'' ''repo'' = Some (demo_parsed ''old'' 1 ''https://h/a'')"
  "parseDesiredState demo_library ''new'' ''repo'' = Some (demo_parsed ''new'' 2 ''https://h/b'')"
  by (rule demo_parse_steps, rule demo_library_simps, code_simp, code_simp, code_simp, code_simp)+

definition demo_config :: config where
  "demo_config = (the (loadConfig demo_tables ''Default'' demo_environment ''amd64''))
     \<lparr>cf_scope := ''repo'', cf_profileID := ''p'', cf_namePrefix := ''n''\<rparr>"

definition demo_target :: "string \<Rightarrow> targetSpec" where
  "demo_target url = \<lparr>ts_key = repositoryTargetKey url, ts_registrationURL = url, ts_repository = url,
     ts_maximum = 2, ts_scaleSetName = stableScaleSetName demo_tables ''p'' ''n'' url\<rparr>"

lemma demo_targets:
  assumes "canonicalRepositoryURL demo_tables demo_url url = Some url"
  shows "buildTargetSpecs demo_tables demo_url (demo_state g url) demo_config = Some [demo_target url]"
  using assms by (simp add: buildTargetSpecs_def demo_state_def demo_target_def demo_config_def max_int32_def)

lemma demo_canonical:
  "canonicalRepositoryURL demo_tables demo_url ''https://h/a'' = Some ''https://h/a''"
  "canonicalRepositoryURL demo_tables demo_url ''https://h/b'' = Some ''https://h/b''"
  by code_simp+

definition demo_record :: retirementRecord where
  "demo_record = \<lparr>rr_Key = ''gone'', rr_RegistrationURL = ''u'', rr_Repository = [], rr_Maximum = 1,
     rr_ScaleSetName = ''s'', rr_RetireAtGeneration = 1, rr_StartupAttempts = 0,
     rr_StartupRetryAt = NoStamp\<rparr>"

definition demo_manager :: manager_state where
  "demo_manager = newManager\<lparr>ms_current := Some (demo_parsed ''old'' 1 ''https://h/a''),
     ms_retirementRecords := [(''gone'', demo_record)], ms_retirementGeneration := 1\<rparr>"

definition demo_directory :: state_directory where
  "demo_directory = \<lparr>sd_desired = StateFile ''new'', sd_lastValid = StateFile ''old'',
     sd_retirements = NoStateFile, sd_acknowledgement = NoStateFile\<rparr>"

definition demo_writes :: transition_writes where
  "demo_writes = \<lparr>tw_intent = Saved, tw_lastValid = ReplacedUnsynced, tw_cleanup = Saved\<rparr>"

lemma demo_hash: "hex_encode (sha256 data) \<noteq> []"
  by (metis length_hex_encode length_sha256 list.size(3) mult_is_0 numeral_eq_iff zero_neq_numeral)

lemma demo_process:
  "\<exists>m d. processDesired demo_library demo_config demo_writes (demo_manager, demo_directory)
     = ((m, d), Some err_other) \<and> sd_lastValid d = StateFile ''new''"
proof -
  have c: "classifyDesiredState demo_library ''new'' ''repo'' 1 (hex_encode (sha256 ''x''))
     = (classificationNew, Some (demo_parsed ''new'' 2 ''https://h/b''))"
    by (simp add: classifyDesiredState_def demo_parse) (simp add: demo_parsed_def demo_state_def)
  have s: "cf_scope demo_config = ''repo''" by (simp add: demo_config_def)
  have m: "ms_current demo_manager = Some (demo_parsed ''old'' 1 ''https://h/a'')"
    "ms_lastDocumentHash demo_manager = []" "ms_applied demo_manager = None"
    by (simp_all add: demo_manager_def newManager_def)
  have p: "de_Generation (pd_state (demo_parsed x g url)) = g"
    "pd_stateHash (demo_parsed x g url) = hex_encode (sha256 ''x'')"
    "pd_state (demo_parsed x g url) = demo_state g url" "de_Scope (demo_state g url) = ''repo''"
    "pd_raw (demo_parsed x g url) = x" for x g url
    by (simp_all add: demo_parsed_def demo_state_def)
  have step: "processDesired demo_library demo_config demo_writes (demo_manager, demo_directory)
    = acceptDesiredTransition demo_library demo_config demo_writes (demo_parsed ''new'' 2 ''https://h/b'')
       (hex_encode (sha256 ''new'')) (demo_manager, demo_directory)"
    by (simp add: processDesired_def demo_directory_def demo_hash m p(1,2) c s Let_def)
  show ?thesis unfolding step
    by (simp add: acceptDesiredTransition_def demo_writes_def m p demo_targets demo_canonical
      recordsWithNewRetirements_def state_or_zero_def Let_def persistRetirements_def)
qed

lemma repository_key_prefix:
  "repository_targets u net cfg seen rs = Some ts \<Longrightarrow> t \<in> set ts \<Longrightarrow> hd (ts_key t) = CHR ''r''"
proof (induction rs arbitrary: seen ts)
  case (Cons r rs)
  then show ?case by (auto simp: repositoryTargetKey_def split: option.splits if_splits)
qed simp

lemma gone_not_target: "''gone'' \<notin> target_keys lib cfg s"
proof
  assume "''gone'' \<in> target_keys lib cfg s"
  then obtain ts t where "buildTargetSpecs (dl_tables lib) (dl_url lib) s cfg = Some ts" "t \<in> set ts"
    and t: "ts_key t = ''gone''" by (auto simp: target_keys_def split: option.splits)
  then have "hd (ts_key t) = CHR ''r'' \<or> ts_key t = ''scope''"
    by (auto simp: buildTargetSpecs_def scope_target_def dest: repository_key_prefix
      split: option.splits if_splits)
  with t show False by simp
qed

text \<open>The new last-valid state is in place though its directory sync failed.\<close>

theorem retirement_intent_survives_restart_witness:
  "\<exists>m d fresh. processDesired demo_library demo_config demo_writes (demo_manager, demo_directory)
      = ((m, d), Some err_other)
    \<and> restart_manager demo_library demo_config d = Inr fresh
    \<and> 1 < current_generation fresh \<and> map_of (ms_retirementRecords fresh) ''gone'' = Some demo_record"
proof -
  obtain m d where step: "processDesired demo_library demo_config demo_writes
      (demo_manager, demo_directory) = ((m, d), Some err_other)"
    and valid: "sd_lastValid d = StateFile ''new''" using demo_process by blast
  have changed: "sd_lastValid d \<noteq> sd_lastValid demo_directory"
    using valid by (simp add: demo_directory_def)
  have current: "ms_current demo_manager = Some (demo_parsed ''old'' 1 ''https://h/a'')"
    by (simp add: demo_manager_def)
  have parsed: "parseDesiredState demo_library (pd_raw (demo_parsed ''old'' 1 ''https://h/a''))
      (cf_scope demo_config) = Some (demo_parsed ''old'' 1 ''https://h/a'')"
    using demo_parse(1) by (simp add: demo_parsed_def demo_config_def)
  have ok: "records_ok (ms_retirementRecords demo_manager)"
    "\<forall>r \<in> snd ` set (ms_retirementRecords demo_manager). retirement_record_ok r"
    "retirable demo_library demo_config (pd_state (demo_parsed ''old'' 1 ''https://h/a''))"
    by (simp_all add: records_ok_def demo_manager_def demo_record_def retirement_record_ok_def
      stamp_ok_def maxRegistrationCleanupAttempts_def retirable_def demo_parsed_def demo_targets
      demo_canonical demo_target_def)
  from retirement_intent_survives_restart [OF step changed current parsed ok(1)] ok(2,3)
  obtain fresh new where main: "restart_manager demo_library demo_config d = Inr fresh"
    "ms_current fresh = Some new"
    "de_Generation (pd_state (demo_parsed ''old'' 1 ''https://h/a'')) < de_Generation (pd_state new)"
    "map_of (ms_retirementRecords demo_manager) ''gone'' = Some demo_record
      \<Longrightarrow> ''gone'' \<notin> target_keys demo_library demo_config (pd_state new)
      \<Longrightarrow> map_of (ms_retirementRecords fresh) ''gone'' = Some demo_record"
    by blast
  have "''gone'' \<notin> target_keys demo_library demo_config (pd_state new)"
    using gone_not_target .
  with main show ?thesis using step
    by (auto simp: demo_manager_def current_generation_def state_or_zero_def demo_parsed_def demo_state_def)
qed

text \<open>
  A desired state may ask for no workers for a repository. Retiring that repository writes a
  record whose maximum is zero, which the parser of the retirement document refuses: from then
  until the retirement completes, a restarted manager does not come up.
\<close>

lemma zero_capacity_retirement_blocks_restart:
  assumes step: "processDesired lib cfg writes (m, d) = ((m', d'), err)"
    and changed: "sd_lastValid d' \<noteq> sd_lastValid d"
    and current: "ms_current m = Some old" "parseDesiredState lib (pd_raw old) (cf_scope cfg) = Some old"
    and ok: "records_ok (ms_retirementRecords m)"
    and dropped: "k \<in> target_keys lib cfg (pd_state old)" "map_of (ms_retirementRecords m) k = None"
      "sd_desired d = StateFile data" "parseDesiredState lib data (cf_scope cfg) = Some new"
      "k \<notin> target_keys lib cfg (pd_state new)"
    and zero: "buildTargetSpecs (dl_tables lib) (dl_url lib) (pd_state old) cfg = Some olds"
      "\<forall>t \<in> set olds. ts_key t = k \<longrightarrow> ts_maximum t < 1"
  shows "restart_manager lib cfg d' = Inl err_other"
proof -
  have accept: "acceptDesiredTransition lib cfg writes new (hex_encode (sha256 data)) (m, d) = ((m', d'), err)"
    using process_effect [OF step changed current(1)] dropped(3,4) by (metis option.inject state_file.inject)
  have "de_Scope (pd_state old) \<noteq> []" using parse_valid [OF current(2)] valid_scope by blast
  then obtain kept olds' where
    files: "sd_lastValid d' = StateFile (pd_raw new)"
      "sd_retirements d' = StateFile (newRetirementDocument (de_Generation (pd_state new)) kept)"
    and kept: "records_ok kept"
    and olds: "buildTargetSpecs (dl_tables lib) (dl_url lib) (pd_state old) cfg = Some olds'"
    and lookups: "\<forall>k \<in> target_keys lib cfg (pd_state old) - target_keys lib cfg (pd_state new).
        map_of kept k \<noteq> None"
      "\<forall>k r. map_of (ms_retirementRecords m) k = Some r \<and> k \<notin> target_keys lib cfg (pd_state new)
        \<longrightarrow> map_of kept k = Some r"
    and source: "\<forall>k r. map_of kept k = Some r \<longrightarrow> map_of (ms_retirementRecords m) k = Some r
        \<or> (\<exists>t \<in> set olds'. r = retirementRecordFor t (de_Generation (pd_state new)))"
    by (rule transition_records [OF accept changed current(1) _ ok])
  obtain r where r: "map_of kept k = Some r" using lookups(1) dropped(1,5) by blast
  then obtain t where t: "t \<in> set olds" "r = retirementRecordFor t (de_Generation (pd_state new))"
    using source dropped(2) olds zero(1) by fastforce
  have mem: "(k, r) \<in> set kept" using r by (rule map_of_SomeD)
  with kept have "rr_Key r = k" by (auto simp: records_ok_def)
  with t zero(2) have "\<not> retirement_record_ok r"
    by (auto simp: retirement_record_ok_def retirementRecordFor_def)
  with mem have "parse_records retirement_record_ok rr_Key id []
      (rd_Targets (newRetirementDocument (de_Generation (pd_state new)) kept)) = None"
    using parse_records_Some [of retirement_record_ok rr_Key id "[]"
      "rd_Targets (newRetirementDocument (de_Generation (pd_state new)) kept)"]
    by (force simp: set_document_targets not_Some_eq [symmetric] simp del: not_Some_eq)
  then have "parseRetirementDocument (newRetirementDocument (de_Generation (pd_state new)) kept)
      = Inl err_other"
    by (simp add: parseRetirementDocument_def)
  moreover have "pd_raw new = data" using parse_valid [OF dropped(4)] by blast
  ultimately show ?thesis using files dropped(4)
    by (simp add: restart_manager_def restoreLastValid_def loadRetirements_def)
qed

section \<open>Retirements end only when the scale set is gone\<close>

text \<open>
  What the manager does that touches its records: it processes a desired document, brings the
  records in step with the current state, reconciles the retirements, and restarts from its
  files; in between the desired document and the set of retiring controllers may change. A
  manager that does not come up leaves the files as they are.
\<close>

datatype manager_action =
    WriteDesired "string state_file"
  | SetRetiring "string list"
  | ProcessDesired transition_writes
  | EnsureRetirements save_outcome
  | ReconcileRetirements bool int "string \<Rightarrow> retirement_services" "string \<Rightarrow> retirement_writes"
  | RestartManager

fun perform ::
  "desired_library \<Rightarrow> config \<Rightarrow> manager_action \<Rightarrow> manager_state \<times> state_directory
    \<Rightarrow> manager_state \<times> state_directory" where
  "perform lib cfg (WriteDesired f) (m, d) = (m, d\<lparr>sd_desired := f\<rparr>)"
| "perform lib cfg (SetRetiring keys) (m, d) = (m\<lparr>ms_retiring := keys\<rparr>, d)"
| "perform lib cfg (ProcessDesired writes) md = fst (processDesired lib cfg writes md)"
| "perform lib cfg (EnsureRetirements outcome) md =
     fst (ensureRetirementStateCurrent lib cfg outcome md)"
| "perform lib cfg (ReconcileRetirements allow now sv w) md =
     fst (reconcileRetirementsWithFinalization lib cfg allow now sv w md)"
| "perform lib cfg RestartManager (m, d) =
     (case restart_manager lib cfg d of Inl err \<Rightarrow> (m, d) | Inr fresh \<Rightarrow> (fresh, d))"

text \<open>The record of a key, in memory and in the file a restart reads.\<close>

definition recorded :: "string \<Rightarrow> manager_state \<times> state_directory \<Rightarrow> bool" where
  "recorded k md \<longleftrightarrow> map_of (ms_retirementRecords (fst md)) k \<noteq> None
     \<and> (\<exists>doc. sd_retirements (snd md) = StateFile doc \<and> k \<in> rr_Key ` set (rd_Targets doc))"

definition desires :: "desired_library \<Rightarrow> config \<Rightarrow> manager_state \<Rightarrow> string \<Rightarrow> bool" where
  "desires lib cfg m k \<longleftrightarrow>
     (\<exists>current. ms_current m = Some current \<and> k \<in> target_keys lib cfg (pd_state current))"

text \<open>
  The answers that show the scale set of a key to be gone. Once its retiring controller runs, the
  retirement was begun, no runner is left, the session is closed, and the scale set is absent or
  was deleted; before, the lookup that precedes the controller may find it absent.
\<close>

definition confirmed_gone :: "bool \<Rightarrow> retirement_services \<Rightarrow> bool" where
  "confirmed_gone running sv \<longleftrightarrow>
     (\<not> running \<and> rs_findAtStart sv = Inr None)
     \<or> (rs_beginRetirement sv = None \<and> rs_runnerCount sv = 0 \<and> rs_closeSession sv = None
        \<and> (rs_findAtEnd sv = Inr None
           \<or> (\<exists>handle. rs_findAtEnd sv = Inr (Some handle) \<and> rs_deleteScaleSet sv handle = None)))"

text \<open>The invariant of one key's record, with the shape of the records it rests on.\<close>

definition kept :: "string \<Rightarrow> manager_state \<times> state_directory \<Rightarrow> bool" where
  "kept k md \<longleftrightarrow> records_ok (ms_retirementRecords (fst md)) \<and> recorded k md"

lemma persist_kept:
  assumes "persistRetirements outcome g records md = (md', err)" "kept k md"
    and "records_ok records" "map_of records k \<noteq> None"
  shows "kept k md' \<and> ms_current (fst md') = ms_current (fst md)
    \<and> ms_retiring (fst md') = ms_retiring (fst md)"
proof -
  have "k \<in> rr_Key ` set (rd_Targets (newRetirementDocument g records))"
    using document_keys [OF assms(3)] assms(4) by (auto simp: domIff)
  then show ?thesis using assms
    by (cases outcome) (auto simp: persistRetirements_def Let_def kept_def recorded_def split: prod.splits)
qed

lemma records_ok_put: "records_ok records \<Longrightarrow> rr_Key r = k \<Longrightarrow> records_ok (mput records k r)"
  by (auto simp: records_ok_def set_mput)

lemma records_ok_del: "records_ok records \<Longrightarrow> records_ok (mdel records k)"
  by (auto simp: records_ok_def set_mdel)

lemma record_key: "records_ok records \<Longrightarrow> map_of records k = Some r \<Longrightarrow> rr_Key r = k"
  by (auto simp: records_ok_def dest: map_of_SomeD)

lemma keptD: "kept k md \<Longrightarrow> records_ok (ms_retirementRecords (fst md)) \<and> map_of (ms_retirementRecords (fst md)) k \<noteq> None"
  by (simp add: kept_def recorded_def)

lemma kept_fields:
  "ms_retirementRecords m' = ms_retirementRecords m \<Longrightarrow> sd_retirements d' = sd_retirements d
     \<Longrightarrow> kept k (m', d') = kept k (m, d)"
  by (simp add: kept_def recorded_def)

text \<open>One key's reconciliation.\<close>

lemma prepare_kept:
  assumes "prepareRetirementStartup outcome now r md = (md', err)" "kept k md"
    and "map_of (ms_retirementRecords (fst md)) key = Some r"
  shows "kept k md' \<and> ms_retiring (fst md') = ms_retiring (fst md)"
proof -
  have "rr_Key r = key" using record_key keptD [OF assms(2)] assms(3) by blast
  then show ?thesis using assms keptD [OF assms(2)]
    by (auto simp: prepareRetirementStartup_def Let_def records_ok_put dest!: persist_kept [OF _ assms(2)]
        split: if_splits)
qed

lemma started_kept:
  assumes "retirement_started outcome running r md = (md', err)" "kept k md" "rr_Key r = key"
  shows "kept k md' \<and> (k \<noteq> key \<longrightarrow> (k \<in> set (ms_retiring (fst md')) \<longleftrightarrow> k \<in> set (ms_retiring (fst md))))"
proof -
  obtain m d where md: "md = (m, d)" by (metis surj_pair)
  let ?m = "if running then m\<lparr>ms_retiring := ms_retiring m @ [key],
      ms_orphanRecoveryTargets := mdel (ms_orphanRecoveryTargets m) key,
      ms_recovered := mdel (ms_recovered m) key\<rparr> else m"
  have m: "kept k (?m, d)" using assms(2) unfolding md by (subst kept_fields [of _ m _ d]) simp_all
  have "persistRetirements outcome (current_generation ?m) (mput (ms_retirementRecords ?m) key
      (r\<lparr>rr_StartupAttempts := 0, rr_StartupRetryAt := NoStamp\<rparr>)) (?m, d) = (md', err)"
    using assms(1,3) unfolding md by (simp add: retirement_started_def Let_def)
  from persist_kept [OF this m] keptD [OF m] assms(3) show ?thesis
    by (auto simp: records_ok_put md split: if_splits)
qed

lemma complete_kept:
  assumes "complete_retirement outcome c key md = (md', err)" "kept k md" "k \<noteq> key"
  shows "kept k md' \<and> (k \<in> set (ms_retiring (fst md')) \<longleftrightarrow> k \<in> set (ms_retiring (fst md)))"
proof -
  obtain m d e where p: "persistRetirements outcome (current_generation (fst md))
      (mdel (ms_retirementRecords (fst md)) key) md = ((m, d), e)" by (metis surj_pair)
  from persist_kept [OF p assms(2)] keptD [OF assms(2)] assms(3)
  have m: "kept k (m, d)" "ms_retiring m = ms_retiring (fst md)" by (simp_all add: records_ok_del)
  let ?m = "m\<lparr>ms_retiring := (if c then remove_key key (ms_retiring m) else ms_retiring m),
      ms_restarts := remove_key key (ms_restarts m),
      ms_orphanRecoveryTargets := mdel (ms_orphanRecoveryTargets m) key\<rparr>"
  have finished: "kept k (?m, d)" using m(1) by (subst kept_fields [of _ m _ d]) simp_all
  have "md' = (m, d) \<or> md' = (?m, d)"
    using assms(1) p by (auto simp: complete_retirement_def split: if_splits)
  then show ?thesis
    by (elim disjE) (use m finished assms(3) in \<open>auto simp: remove_key_def\<close>)
qed

lemma start_records:
  "startRetiringController sv r m = (m', result) \<Longrightarrow>
     ms_retirementRecords m' = ms_retirementRecords m \<and> ms_retiring m' = ms_retiring m"
  by (auto simp: startRetiringController_def Let_def split: option.splits sum.splits if_splits)

lemma start_absent: "startRetiringController sv r m = (m', Inr False) \<Longrightarrow> rs_findAtStart sv = Inr None"
  by (auto simp: startRetiringController_def Let_def split: option.splits sum.splits if_splits)

lemma drive_kept:
  assumes "drive_retirement allow sv outcome key md = (md', err)" "kept k md"
    and "\<not> (allow \<and> k = key \<and> confirmed_gone running sv)"
  shows "kept k md' \<and> (k \<noteq> key \<longrightarrow> (k \<in> set (ms_retiring (fst md')) \<longleftrightarrow> k \<in> set (ms_retiring (fst md))))"
  using assms complete_kept [of outcome True key md md' err k]
  by (auto simp: drive_retirement_def confirmed_gone_def split: if_splits sum.splits option.splits)

lemma reconcile_one_kept:
  assumes step: "reconcile_retirement allow now sv w key md = (md', err)" and had: "kept k md"
    and spared: "\<not> (allow \<and> k = key \<and> confirmed_gone (k \<in> set (ms_retiring (fst md))) sv)"
  shows "kept k md' \<and> (k \<noteq> key \<longrightarrow> (k \<in> set (ms_retiring (fst md')) \<longleftrightarrow> k \<in> set (ms_retiring (fst md))))"
proof (cases "map_of (ms_retirementRecords (fst md)) key")
  case None
  with step had show ?thesis by (simp add: reconcile_retirement_def)
next
  case (Some r)
  note unfolded = step [unfolded reconcile_retirement_def Some option.case]
  have key: "rr_Key r = key" using record_key keptD [OF had] Some by blast
  show ?thesis
  proof (cases "key \<in> set (ms_retiring (fst md))")
    case True
    with unfolded drive_kept [OF _ had spared] show ?thesis by simp
  next
    case False
    obtain md1 e1 where p: "prepareRetirementStartup (rw_pacing w) now r md = (md1, e1)"
      by (metis surj_pair)
    note h1 = prepare_kept [OF p had Some]
    obtain m2 result where s: "startRetiringController sv r (fst md1) = (m2, result)"
      by (metis surj_pair)
    have h2: "kept k (m2, snd md1)" "ms_retiring m2 = ms_retiring (fst md)"
      using start_records [OF s] h1 kept_fields [of m2 "fst md1" "snd md1" "snd md1" k] by simp_all
    show ?thesis
    proof (cases result)
      case (Inl e)
      with unfolded False p s h1 h2 show ?thesis by (auto split: if_splits)
    next
      case (Inr running)
      obtain md3 e3 where t: "retirement_started (rw_started w) running r (m2, snd md1) = (md3, e3)"
        by (metis surj_pair)
      note h3 = started_kept [OF t h2(1) key]
      have gone: "\<not> running \<Longrightarrow> k = key \<Longrightarrow> confirmed_gone (k \<in> set (ms_retiring (fst md))) sv"
        using start_absent s Inr False by (auto simp: confirmed_gone_def)
      from unfolded False p s Inr t have "md' = md1 \<or> md' = md3
          \<or> drive_retirement allow sv (rw_completed w) key md3 = (md', err)
          \<or> (allow \<and> \<not> running \<and> complete_retirement (rw_completed w) False key md3 = (md', err))"
        by (auto split: if_splits)
      then show ?thesis
        using h1 h2(2) h3 drive_kept [OF _ _ spared, of "rw_completed w" md3 md' err]
          complete_kept [of "rw_completed w" False key md3 md' err k] gone spared by auto
    qed
  qed
qed

lemma reconcile_keys_kept:
  assumes "reconcile_keys allow now sv w keys md = (md', errs)" "kept k md" "distinct keys"
    and "\<not> (allow \<and> k \<in> set keys \<and> confirmed_gone (k \<in> set (ms_retiring (fst md))) (sv k))"
  shows "kept k md'"
  using assms
proof (induction keys arbitrary: md errs)
  case (Cons key keys)
  obtain md1 e where one: "reconcile_retirement allow now (sv key) (w key) key md = (md1, e)"
    by (metis surj_pair)
  have h: "kept k md1 \<and> (k \<noteq> key \<longrightarrow>
      (k \<in> set (ms_retiring (fst md1)) \<longleftrightarrow> k \<in> set (ms_retiring (fst md))))"
    by (rule reconcile_one_kept [OF one Cons.prems(2)]) (use Cons.prems(4) in auto)
  obtain errs' where rest: "reconcile_keys allow now sv w keys md1 = (md', errs')"
    using Cons.prems(1) one by (auto simp: Let_def split: prod.splits)
  show ?case
    using h Cons.prems(3,4) by (intro Cons.IH [OF rest]) auto
qed simp

text \<open>The other actions drop only what the state current afterwards desires.\<close>

lemma ensure_kept:
  assumes "ensureRetirementStateCurrent lib cfg outcome md = (md', err)" "kept k md"
    and "\<not> desires lib cfg (fst md) k"
  shows "kept k md' \<and> ms_current (fst md') = ms_current (fst md)"
proof -
  have "map_of (fold (\<lambda>t rs. mdel rs (ts_key t)) ts (ms_retirementRecords (fst md))) k \<noteq> None"
    if "ms_current (fst md) = Some current"
      "buildTargetSpecs (dl_tables lib) (dl_url lib) (pd_state current) cfg = Some ts" for current ts
    using that assms(3) keptD [OF assms(2)] by (auto simp: fold_mdel desires_def target_keys_def)
  then show ?thesis
    using assms(1,2) keptD [OF assms(2)] fold_mdel_ok
    by (auto simp: ensureRetirementStateCurrent_def Let_def dest!: persist_kept [OF _ assms(2)]
        split: option.splits if_splits)
qed

lemma new_retirements_keep:
  assumes "recordsWithNewRetirements lib cfg previous nextState m = Some records"
    and "records_ok (ms_retirementRecords m)"
  shows "records_ok records
    \<and> (map_of (ms_retirementRecords m) k \<noteq> None \<longrightarrow> map_of records k \<noteq> None)"
  using assms add_retirements [OF assms(2)]
  by (fastforce simp: recordsWithNewRetirements_def split: option.splits if_splits)

lemma accept_kept:
  assumes step: "acceptDesiredTransition lib cfg writes parsed h (m, d) = (md', err)"
    and k: "kept k (m, d)" "\<not> desires lib cfg (fst md') k"
  shows "kept k md'"
proof -
  let ?m = "adopt_current m"
  have m: "kept k (?m, d)" using k(1) by (subst kept_fields [of _ m _ d]) (simp_all add: adopt_current_def)
  show ?thesis
  proof (cases "recordsWithNewRetirements lib cfg (state_or_zero (ms_current m)) (pd_state parsed) ?m")
    case None
    with step m show ?thesis by (auto simp: acceptDesiredTransition_def)
  next
    case (Some records)
    have records: "records_ok records" "map_of records k \<noteq> None"
      using new_retirements_keep [OF Some] keptD [OF m] by simp_all
    obtain m1 d1 e1 where p: "persistRetirements (tw_intent writes) (de_Generation (pd_state parsed))
        records (?m, d) = ((m1, d1), e1)" by (metis surj_pair)
    note k1 = persist_kept [OF p m records]
    obtain written e2 where w: "write_document (tw_lastValid writes) (sd_lastValid d1) (pd_raw parsed)
        = (written, e2)" by (metis surj_pair)
    let ?d2 = "d1\<lparr>sd_lastValid := written\<rparr>"
    let ?prev = "case ms_applied m of None \<Rightarrow> state_or_zero (ms_current m) | Some a \<Rightarrow> pd_state a"
    let ?a = "m1\<lparr>ms_current := Some parsed, ms_ackPrevious := ?prev, ms_ackPending := True,
      ms_desiredStatus := ''accepted'', ms_lastDocumentHash := h\<rparr>"
    obtain m3 d3 e3 where e: "ensureRetirementStateCurrent lib cfg (tw_cleanup writes) (?a, ?d2)
        = ((m3, d3), e3)" by (metis surj_pair)
    have cases: "md' = (m1, d1) \<or> md' = (m1, ?d2) \<or> md' = (m3, d3)
        \<or> md' = (markDirty (record_evidence ''accepted a new desired capacity generation'' m3), d3)"
      using step Some p w e
      by (auto simp: acceptDesiredTransition_def commit_transition_def Let_def split: if_splits)
    have a: "kept k (?a, ?d2)" using k1 by (subst kept_fields [of _ m1 _ d1]) simp_all
    have mark: "ms_retirementRecords (markDirty (record_evidence x q)) = ms_retirementRecords q"
      "ms_current (markDirty (record_evidence x q)) = ms_current q" for x q
      by (simp_all add: markDirty_def record_evidence_def)
    have current: "ms_current m3 = Some parsed"
      using e by (auto simp: ensureRetirementStateCurrent_def Let_def dest!: persist_effect
          split: option.splits if_splits)
    have done3: "kept k (m3, d3)" if "ms_current (fst md') = ms_current m3"
    proof -
      have "\<not> desires lib cfg ?a k" using that k(2) by (simp add: desires_def current)
      from ensure_kept [OF e a] this show ?thesis by simp
    qed
    have valid: "kept k (m1, ?d2)" using k1 by (subst kept_fields [of _ m1 _ d1]) simp_all
    from cases consider "md' = (m1, d1)" | "md' = (m1, ?d2)" | "md' = (m3, d3)"
      | "md' = (markDirty (record_evidence ''accepted a new desired capacity generation'' m3), d3)"
      by blast
    then show ?thesis
    proof cases
      case 4
      have "kept k (m3, d3)" by (rule done3) (simp add: 4 mark)
      then show ?thesis unfolding 4 by (subst kept_fields [of _ m3 _ d3]) (simp_all add: mark)
    next
      case 3
      have "kept k (m3, d3)" by (rule done3) (simp add: 3)
      then show ?thesis unfolding 3 .
    qed (use k1 valid in \<open>simp_all only:\<close>)
  qed
qed

lemma process_kept:
  assumes "processDesired lib cfg writes (m, d) = (md', err)" "kept k (m, d)"
    and "\<not> desires lib cfg (fst md') k"
  shows "kept k md'"
proof -
  have "kept k (m', d)" if "ms_retirementRecords m' = ms_retirementRecords m" for m'
    using that assms(2) by (subst kept_fields [of m' m d d]) simp_all
  then show ?thesis
    using assms accept_kept [of lib cfg writes _ _ m d md' err k]
    by (auto simp: processDesired_def desired_absent_def reject_desired_def markDirty_def
        record_evidence_def Let_def
        split: sum.splits option.splits if_splits prod.splits desiredClassification.splits)
qed

lemma restart_kept:
  assumes "kept k (m, d)" "restart_manager lib cfg d = Inr fresh"
  shows "kept k (fresh, d)"
proof -
  obtain doc where doc: "sd_retirements d = StateFile doc" "k \<in> rr_Key ` set (rd_Targets doc)"
    using assms(1) by (auto simp: kept_def recorded_def)
  have load: "loadRetirements d m1 = Inr fresh \<Longrightarrow> ms_retirementRecords m1 = [] \<Longrightarrow>
      ms_retirementRecords fresh = fold (\<lambda>r records. mput records (rr_Key r) r) (rd_Targets doc) []" for m1
    using doc(1) by (auto simp: loadRetirements_def parseRetirementDocument_def
        split: sum.splits option.splits if_splits)
  have fresh: "ms_retirementRecords fresh = fold (\<lambda>r records. mput records (rr_Key r) r) (rd_Targets doc) []"
    using assms(2) by (auto simp: restart_manager_def restoreLastValid_def newManager_def
        intro!: load split: sum.splits option.splits)
  have "records_ok (fold (\<lambda>r records. mput records (rr_Key r) r) rs records)
      \<and> dom (map_of (fold (\<lambda>r records. mput records (rr_Key r) r) rs records))
        = rr_Key ` set rs \<union> dom (map_of records)" if "records_ok records" for rs records
    using that by (induction rs arbitrary: records) (auto simp: records_ok_put)
  from this [of "[]" "rd_Targets doc"] have "records_ok (ms_retirementRecords fresh)"
    "dom (map_of (ms_retirementRecords fresh)) = rr_Key ` set (rd_Targets doc)"
    by (simp_all only: fresh) (simp_all add: records_ok_def)
  with doc show ?thesis by (auto simp: kept_def recorded_def simp flip: not_None_eq domIff)
qed

text \<open>What must have happened when an action ends the record of a key.\<close>

fun ends_record ::
  "desired_library \<Rightarrow> config \<Rightarrow> string \<Rightarrow> manager_action \<Rightarrow> manager_state \<times> state_directory \<Rightarrow> bool" where
  "ends_record lib cfg k (ReconcileRetirements allow now sv w) (m, d) \<longleftrightarrow>
     allow \<and> confirmed_gone (k \<in> set (ms_retiring m)) (sv k)
     \<and> (\<exists>current r. ms_current m = Some current \<and> map_of (ms_retirementRecords m) k = Some r
        \<and> rr_RetireAtGeneration r \<le> de_Generation (pd_state current)
        \<and> k \<notin> target_keys lib cfg (pd_state current))"
| "ends_record lib cfg k a md \<longleftrightarrow> desires lib cfg (fst (perform lib cfg a md)) k"

lemma reconcile_kept:
  assumes step: "reconcileRetirementsWithFinalization lib cfg allow now sv w (m, d) = (md', errs)"
    and had: "kept k (m, d)"
    and spared: "\<not> ends_record lib cfg k (ReconcileRetirements allow now sv w) (m, d)"
  shows "kept k md'"
proof (cases "ms_current m")
  case None
  with step had show ?thesis by (simp add: reconcileRetirementsWithFinalization_def)
next
  case (Some current)
  show ?thesis
  proof (cases "buildTargetSpecs (dl_tables lib) (dl_url lib) (pd_state current) cfg")
    case None
    with Some step had show ?thesis by (simp add: reconcileRetirementsWithFinalization_def)
  next
    case specs: (Some ts)
    let ?due = "due_retirements (de_Generation (pd_state current)) ts (ms_retirementRecords m)"
    have keys: "reconcile_keys allow now sv w ?due (m, d) = (md', errs)"
      using step Some specs by (simp add: reconcileRetirementsWithFinalization_def)
    have ok: "map_ok (ms_retirementRecords m)" using had by (simp add: kept_def records_ok_def)
    then have "distinct ?due"
      by (simp add: due_retirements_def distinct_map_filter)
    moreover have "\<not> (allow \<and> k \<in> set ?due \<and> confirmed_gone (k \<in> set (ms_retiring m)) (sv k))"
    proof
      assume a: "allow \<and> k \<in> set ?due \<and> confirmed_gone (k \<in> set (ms_retiring m)) (sv k)"
      then obtain r where "(k, r) \<in> set (ms_retirementRecords m)"
        "rr_RetireAtGeneration r \<le> de_Generation (pd_state current)" "k \<notin> ts_key ` set ts"
        by (auto simp: due_retirements_def)
      with a spared Some specs ok show False by (simp add: target_keys_def)
    qed
    ultimately show ?thesis using reconcile_keys_kept [OF keys had] by simp
  qed
qed

lemma perform_kept:
  assumes "kept k md" "\<not> ends_record lib cfg k a md"
  shows "kept k (perform lib cfg a md)"
proof -
  obtain m d where md: "md = (m, d)" by (metis surj_pair)
  show ?thesis
  proof (cases a)
    case (WriteDesired f)
    with assms(1) show ?thesis unfolding md by (simp add: kept_def recorded_def)
  next
    case (SetRetiring keys)
    with assms(1) show ?thesis unfolding md by (simp add: kept_def recorded_def)
  next
    case (ProcessDesired writes)
    with assms process_kept [of lib cfg writes m d _ _ k] show ?thesis
      unfolding md by (simp, metis prod.collapse)
  next
    case (EnsureRetirements outcome)
    obtain md' err where e: "ensureRetirementStateCurrent lib cfg outcome md = (md', err)"
      by (metis surj_pair)
    have "ms_current (fst md') = ms_current (fst md)"
      using e by (auto simp: ensureRetirementStateCurrent_def Let_def persistRetirements_def
          split: option.splits if_splits prod.splits)
    with e assms EnsureRetirements ensure_kept [OF e assms(1)] show ?thesis
      by (auto simp: desires_def)
  next
    case (ReconcileRetirements allow now sv w)
    with assms reconcile_kept [of lib cfg allow now sv w m d _ _ k] show ?thesis
      unfolding md by (simp del: ends_record.simps, metis prod.collapse)
  next
    case RestartManager
    with assms(1) restart_kept [of k m d lib cfg] show ?thesis
      unfolding md by (auto split: sum.split)
  qed
qed

lemma run_kept:
  assumes "kept k md" "\<not> kept k (fold (perform lib cfg) actions md)"
  shows "\<exists>before a after. actions = before @ a # after
    \<and> ends_record lib cfg k a (fold (perform lib cfg) before md)"
  using assms
proof (induction actions arbitrary: md)
  case (Cons a actions)
  show ?case
  proof (cases "ends_record lib cfg k a md")
    case True
    then show ?thesis by (intro exI [of _ "[]"]) simp
  next
    case False
    from Cons.IH [OF perform_kept [OF Cons.prems(1) False]] Cons.prems(2) obtain before b after
      where "actions = before @ b # after"
        "ends_record lib cfg k b (fold (perform lib cfg) before (perform lib cfg a md))" by auto
    then show ?thesis by (intro exI [of _ "a # before"]) simp
  qed
qed simp

text \<open>
  C12: A retirement is forgotten only when its scale set is gone or its target is desired again.
  Take a manager whose records are filed under their keys, with the record of a key in memory and
  in the retirement file, and any sequence of its actions: processing desired documents,
  bringing the records in step, reconciling retirements, restarting, with any outcome of every
  write and any answers of the services. If afterwards the record is missing in memory or on
  disk, then one of the actions was either one after which the current state desires the key, or
  a reconciliation that was allowed to finalize, found the record due at the current generation,
  did not desire the key, and was told by the service that the scale set does not exist or was
  deleted after the last runner had gone.
\<close>

theorem retirement_ends_only_when_gone:
  assumes "records_ok (ms_retirementRecords m)" and "recorded k (m, d)"
    and "\<not> recorded k (fold (perform lib cfg) actions (m, d))"
  shows "\<exists>before a after. actions = before @ a # after
    \<and> (let md = fold (perform lib cfg) before (m, d) in
       case a of
         ReconcileRetirements allow now sv w \<Rightarrow>
           allow \<and> confirmed_gone (k \<in> set (ms_retiring (fst md))) (sv k)
           \<and> (\<exists>current r. ms_current (fst md) = Some current
              \<and> map_of (ms_retirementRecords (fst md)) k = Some r
              \<and> rr_RetireAtGeneration r \<le> de_Generation (pd_state current)
              \<and> k \<notin> target_keys lib cfg (pd_state current))
       | _ \<Rightarrow> \<exists>current. ms_current (fst (perform lib cfg a md)) = Some current
           \<and> k \<in> target_keys lib cfg (pd_state current))"
proof -
  have "kept k (m, d)" "\<not> kept k (fold (perform lib cfg) actions (m, d))"
    using assms by (simp_all add: kept_def)
  from run_kept [OF this] obtain before a after where at: "actions = before @ a # after"
    "ends_record lib cfg k a (fold (perform lib cfg) before (m, d))" by blast
  obtain m1 d1 where "fold (perform lib cfg) before (m, d) = (m1, d1)" by (metis surj_pair)
  with at show ?thesis
    by (intro exI [of _ before] exI [of _ a] exI [of _ after]) (cases a; simp add: desires_def)
qed

lemma only_action: "\<exists>before a after. [x] = before @ a # after \<and> P before a \<Longrightarrow> P [] x"
  by (auto simp: Cons_eq_append_conv)

definition demo_services :: retirement_services where
  "demo_services = \<lparr>rs_newService = None, rs_findAtStart = Inr None, rs_startController = None,
     rs_beginRetirement = None, rs_runnerCount = 0, rs_closeSession = None, rs_findAtEnd = Inr None,
     rs_deleteScaleSet = (\<lambda>_. None)\<rparr>"

definition demo_recorded :: state_directory where
  "demo_recorded = demo_directory
     \<lparr>sd_retirements := StateFile (newRetirementDocument 1 [(''gone'', demo_record)])\<rparr>"

theorem retirement_ends_only_when_gone_witness:
  "let a = ReconcileRetirements True 0 (\<lambda>_. demo_services)
       (\<lambda>_. \<lparr>rw_pacing = Saved, rw_started = Saved, rw_completed = Saved\<rparr>)
   in recorded ''gone'' (demo_manager, demo_recorded)
     \<and> \<not> recorded ''gone'' (fold (perform demo_library demo_config) [a] (demo_manager, demo_recorded))
     \<and> confirmed_gone (''gone'' \<in> set (ms_retiring demo_manager)) demo_services"
proof -
  let ?w = "\<lambda>_. \<lparr>rw_pacing = Saved, rw_started = Saved, rw_completed = Saved\<rparr>"
  let ?a = "ReconcileRetirements True 0 (\<lambda>_. demo_services) ?w"
  have targets: "buildTargetSpecs demo_tables demo_url
      (pd_state (demo_parsed ''old'' 1 ''https://h/a'')) demo_config = Some [demo_target ''https://h/a'']"
    by (simp add: demo_parsed_def demo_targets demo_canonical)
  have due: "due_retirements 1 [demo_target ''https://h/a''] [(''gone'', demo_record)] = [''gone'']"
    by (simp add: due_retirements_def demo_target_def demo_record_def repositoryTargetKey_def)
  have dropped: "\<not> recorded ''gone'' (fold (perform demo_library demo_config) [?a] (demo_manager, demo_recorded))"
    using targets due
    by (simp add: reconcileRetirementsWithFinalization_def demo_manager_def newManager_def
      demo_parsed_def demo_state_def reconcile_retirement_def prepareRetirementStartup_def
      startRetiringController_def retirement_started_def complete_retirement_def
      persistRetirements_def demo_services_def demo_record_def record_targetSpec_def Let_def recorded_def)
  have had: "records_ok (ms_retirementRecords demo_manager)" "recorded ''gone'' (demo_manager, demo_recorded)"
    by (simp_all add: demo_manager_def demo_recorded_def records_ok_def demo_record_def recorded_def
        newRetirementDocument_def)
  from only_action [OF retirement_ends_only_when_gone [OF had dropped]] had dropped show ?thesis
    by (simp add: Let_def del: perform.simps)
qed

end
