(* ===== verification/Ledger.thy ===== *)
theory Ledger
  imports Durable Search
begin

text \<open>
  The coordinator's state (\<^verbatim>\<open>coordinator.go\<close>, \<^verbatim>\<open>type Coordinator\<close>) and the internal steps
  every operation is built from: saving the next ledger, sweeping expired provisional
  leases, expiring stale demand, tombstoning, fence accounting and recording decisions.
  The mutex serialises operations, so each is one atomic state transformer. Time is in
  nanoseconds of the coordinator's monotonic clock.
\<close>

definition DefaultProvisionalLeaseTTL :: int where
  "DefaultProvisionalLeaseTTL = 30 * 1000000000"

definition DefaultDemandTTL :: int where
  "DefaultDemandTTL = 30 * 1000000000"

definition rotationSeedModulus :: int where
  "rotationSeedModulus = 1000000007"

record coordinator =
  co_store :: store
  co_provisionalTTL :: int
  co_state :: durableState
  co_demand :: "(string, int) gomap"
  co_demandKnown :: "(string, bool) gomap"
  co_demandDeadlines :: "(string, int) gomap"
  co_rotation :: int
  co_provisionalDeadlines :: "(string, int) gomap"

text \<open>
  What one call takes from the runtime: the clock reading, and the orders in which it visits
  the lease map and the tombstone map.
\<close>

record env =
  env_now :: int
  env_leaseOrder :: "string list"
  env_tombstoneOrder :: "string list"

text \<open>
  \<^verbatim>\<open>if err := c.store.Save(next); err != nil { return err }; c.state = next\<close>.
\<close>

definition commit :: "coordinator \<Rightarrow> durableState \<Rightarrow> coordinator \<times> goerr option" where
  "commit c new =
     (case fileStore_Save (co_store c) new of
        (st, None) \<Rightarrow> (c\<lparr>co_store := st, co_state := new\<rparr>, None)
      | (st, Some e) \<Rightarrow> (c\<lparr>co_store := st\<rparr>, Some e))"

section \<open>Expiry\<close>

definition tombstone_of :: "Lease \<Rightarrow> TombstoneReason \<Rightarrow> string \<Rightarrow> int \<Rightarrow> Tombstone" where
  "tombstone_of lease reason evidence sequence =
     \<lparr>tomb_ProfileID = lease_ProfileID lease, tomb_SlotKey = lease_SlotKey lease,
      tomb_LeaseID = lease_LeaseID lease, tomb_Reason = reason, tomb_Evidence = evidence,
      tomb_Sequence = sequence\<rparr>"

text \<open>One iteration of the sweeping loops: the lease leaves the ledger under a new sequence.\<close>

definition bury :: "TombstoneReason \<Rightarrow> string \<times> Lease \<Rightarrow> durableState \<Rightarrow> durableState" where
  "bury reason = (\<lambda>(key, lease) s.
     let sequence = ds_DecisionSequence s + 1 in
     s\<lparr>ds_DecisionSequence := sequence,
       ds_Leases := mdel (ds_Leases s) key,
       ds_Tombstones := mput (ds_Tombstones s) key (tombstone_of lease reason [] sequence)\<rparr>)"

text \<open>
  A provisional lease is expired once its in-process deadline has passed, or when no
  deadline is tracked for it.
\<close>

definition lease_expired :: "int \<Rightarrow> (string, int) gomap \<Rightarrow> string \<times> Lease \<Rightarrow> bool" where
  "lease_expired now deadlines = (\<lambda>(key, lease).
     lease_Status lease = LeaseProvisional
     \<and> (case map_of deadlines key of
          None \<Rightarrow> True
        | Some deadline \<Rightarrow> \<not> now < deadline))"

definition mdel_all :: "('k, 'v) gomap \<Rightarrow> 'k list \<Rightarrow> ('k, 'v) gomap" where
  "mdel_all m ks = fold (\<lambda>k m. mdel m k) ks m"

text \<open>
  \<^verbatim>\<open>sweepExpiredLocked\<close>: the expired keys (Go's \<^verbatim>\<open>map[string]bool\<close>), or the save's error.
\<close>

definition sweepExpiredLocked ::
  "env \<Rightarrow> coordinator \<Rightarrow> coordinator \<times> (goerr + string list)" where
  "sweepExpiredLocked e c =
     (let s = clone (co_state c);
          dead = filter (lease_expired (env_now e) (co_provisionalDeadlines c))
                   (in_order (env_leaseOrder e) (ds_Leases s));
          expired = map fst dead;
          expiredProfiles = map (lease_ProfileID \<circ> snd) dead
      in if dead = [] then (c, Inr [])
         else case commit c (compactTombstones (env_tombstoneOrder e)
                               (fold (bury TombstoneExpired) dead s)) of
           (c', Some err) \<Rightarrow> (c', Inl err)
         | (c', None) \<Rightarrow>
             (c'\<lparr>co_demand := mdel_all (co_demand c') expiredProfiles,
                 co_demandKnown := mdel_all (co_demandKnown c') expiredProfiles,
                 co_demandDeadlines := mdel_all (co_demandDeadlines c') expiredProfiles,
                 co_provisionalDeadlines :=
                   mdel_all (co_provisionalDeadlines c') expired\<rparr>, Inr expired))"

definition expireStaleDemandLocked :: "int \<Rightarrow> coordinator \<Rightarrow> coordinator" where
  "expireStaleDemandLocked now c =
     (let stale = map fst (filter (\<lambda>(profileID, deadline). \<not> now < deadline)
                             (co_demandDeadlines c))
      in c\<lparr>co_demand := mdel_all (co_demand c) stale,
           co_demandKnown := mdel_all (co_demandKnown c) stale,
           co_demandDeadlines := mdel_all (co_demandDeadlines c) stale\<rparr>)"

definition discardRestoredProvisionals :: "env \<Rightarrow> durableState \<Rightarrow> durableState \<times> bool" where
  "discardRestoredProvisionals e state =
     (let s = clone state;
          dead = filter (\<lambda>(key, lease). lease_Status lease = LeaseProvisional)
                   (in_order (env_leaseOrder e) (ds_Leases s))
      in if dead = [] then (s, False)
         else (compactTombstones (env_tombstoneOrder e)
                 (fold (bury TombstoneRestartDiscarded) dead s), True))"

section \<open>Fences and tombstones\<close>

definition markLeaseAccountedForAdoption ::
  "durableState \<Rightarrow> string \<Rightarrow> string \<Rightarrow> durableState \<times> bool" where
  "markLeaseAccountedForAdoption s profileID slotKey =
     (case map_of (ds_AdoptionFences s) profileID of
        None \<Rightarrow> (s, False)
      | Some fence \<Rightarrow>
          let pending = pending_keys fence; index = SearchStrings pending slotKey in
          if pending = [] then (s, False)
          else if index \<ge> length pending \<or> pending ! index \<noteq> slotKey then (s, False)
          else (s\<lparr>ds_AdoptionFences := mput (ds_AdoptionFences s) profileID
                    (fence\<lparr>fence_PendingLeaseKeys :=
                       Some (take index pending @ drop (index + 1) pending)\<rparr>)\<rparr>, True))"

definition tombstoneLocked ::
  "env \<Rightarrow> coordinator \<Rightarrow> string \<Rightarrow> string \<Rightarrow> TombstoneReason \<Rightarrow> string
    \<Rightarrow> coordinator \<times> goerr option" where
  "tombstoneLocked e c profileID slotKey reason evidence =
     (let key = leaseKey_String profileID slotKey in
      case map_of (ds_Leases (co_state c)) key of
        None \<Rightarrow>
          if map_of (ds_Tombstones (co_state c)) key \<noteq> None then (c, None)
          else (c, Some (raise ErrLeaseNotFound))
      | Some lease \<Rightarrow>
          let sequence = ds_DecisionSequence (co_state c) + 1;
              s1 = clone (co_state c);
              s2 = s1\<lparr>ds_DecisionSequence := sequence, ds_Leases := mdel (ds_Leases s1) key\<rparr>;
              s3 = fst (markLeaseAccountedForAdoption s2 profileID slotKey);
              s4 = s3\<lparr>ds_Tombstones := mput (ds_Tombstones s3) key
                     \<lparr>tomb_ProfileID = profileID, tomb_SlotKey = slotKey,
                      tomb_LeaseID = lease_LeaseID lease, tomb_Reason = reason,
                      tomb_Evidence = evidence, tomb_Sequence = sequence\<rparr>\<rparr>
          in case commit c (compactTombstones (env_tombstoneOrder e) s4) of
               (c', Some err) \<Rightarrow> (c', Some err)
             | (c', None) \<Rightarrow>
                 (c'\<lparr>co_provisionalDeadlines := mdel (co_provisionalDeadlines c') key\<rparr>, None))"

section \<open>Decisions\<close>

definition recordDecisionLocked ::
  "coordinator \<Rightarrow> Command \<Rightarrow> string \<Rightarrow> bool \<Rightarrow> goerr option \<Rightarrow> int \<Rightarrow> coordinator" where
  "recordDecisionLocked c command profileID granted err now =
     (let decision = \<lparr>dec_Sequence = ds_DecisionSequence (co_state c), dec_Command = command,
            dec_ProfileID = profileID, dec_Granted = granted,
            dec_FailureCategory =
              (case err of
                 Some x \<Rightarrow> if \<not> granted then durableDecisionErrorCode x else ErrorCodeNone
               | None \<Rightarrow> ErrorCodeNone),
            dec_DecidedAtUnixNano = now\<rparr>
      in fst (commit c ((clone (co_state c))\<lparr>ds_LastDecision := Some decision\<rparr>)))"

end
