(* ===== verification/Budget.thy ===== *)
theory Budget
  imports Ledger Fair_Share
begin

text \<open>
  The admission arithmetic of \<^verbatim>\<open>coordinator.go\<close>: units held per profile, protected
  reservations, contenders, guaranteed shares and the decision \<^verbatim>\<open>evaluateAcquireLocked\<close>.
\<close>

fun held_loop :: "(string, int) gomap \<Rightarrow> (string \<times> Lease) list \<Rightarrow> (string, int) gomap" where
  "held_loop held [] = held"
| "held_loop held ((key, lease) # es) =
     held_loop (mput held (lease_ProfileID lease)
       (add64 (mget0 held (lease_ProfileID lease)) (lease_Units lease))) es"

definition heldUnitsByProfileLocked :: "coordinator \<Rightarrow> (string, int) gomap" where
  "heldUnitsByProfileLocked c = held_loop [] (ds_Leases (co_state c))"

definition reservedUnitsLocked :: "coordinator \<Rightarrow> string \<Rightarrow> int" where
  "reservedUnitsLocked c profileID =
     (case policy_profile (ds_Policy (co_state c)) profileID of
        Some p \<Rightarrow> pp_ReservedUnits p
      | None \<Rightarrow> 0)"

definition protectedNonBorrowableLocked ::
  "coordinator \<Rightarrow> string \<Rightarrow> (string, int) gomap \<Rightarrow> int" where
  "protectedNonBorrowableLocked c requester held =
     sum64 0 (map (\<lambda>other. max (sub64 (pp_ReservedUnits other) (mget0 held (pp_ProfileID other))) 0)
       (filter (\<lambda>other. \<not> (pp_ProfileID other = requester \<or> pp_Borrowable other))
         (hp_Profiles (ds_Policy (co_state c)))))"

definition contendersLocked :: "coordinator \<Rightarrow> string list" where
  "contendersLocked c =
     sort (map fst (filter (\<lambda>(i, pending). \<not> pending \<le> 0
                              \<and> policy_profile (ds_Policy (co_state c)) i \<noteq> None)
       (co_demand c)))"

definition guaranteedShareLocked :: "coordinator \<Rightarrow> string list \<Rightarrow> int \<Rightarrow> int \<Rightarrow> int" where
  "guaranteedShareLocked c contenders index available =
     (let n = int (length contenders) in
      if n = 0 then available
      else
        let base = available sdiv n; remainder = available smod n in
        if (index - co_rotation c + n) smod n < remainder then base + 1 else base)"

definition advanceRotationLocked :: "coordinator \<Rightarrow> int \<Rightarrow> coordinator" where
  "advanceRotationLocked c contenderCount =
     (if contenderCount = 0 then c
      else c\<lparr>co_rotation := (co_rotation c + 1) smod contenderCount\<rparr>)"

text \<open>What one other contender's guarantee still keeps from the pool.\<close>

definition withheld_for ::
  "coordinator \<Rightarrow> (string, int) gomap \<Rightarrow> string list \<Rightarrow> int \<Rightarrow> int \<times> string \<Rightarrow> int" where
  "withheld_for c held contenders available = (\<lambda>(otherIndex, i).
     let otherGuarantee = guaranteedShareLocked c contenders otherIndex available;
         otherShared = max (sub64 (mget0 held i) (reservedUnitsLocked c i)) 0
     in if otherShared < otherGuarantee then otherGuarantee - otherShared else 0)"

definition indexed :: "'a list \<Rightarrow> (int \<times> 'a) list" where
  "indexed xs = zip (map int [0..<length xs]) xs"

definition fairAllocatableUnitsLocked ::
  "coordinator \<Rightarrow> string \<Rightarrow> (string, int) gomap \<Rightarrow> int \<Rightarrow> int \<times> int" where
  "fairAllocatableUnitsLocked c profileID held available =
     (let contenders = contendersLocked c; n = int (length contenders) in
      if n = 0 then (max available 0, 0)
      else
        let protected = sum64 0 (map (withheld_for c held contenders available)
              (filter (\<lambda>(otherIndex, i). i \<noteq> profileID) (indexed contenders)))
        in (max (sub64 available protected) 0, n))"

definition fairTurnLocked ::
  "coordinator \<Rightarrow> string \<Rightarrow> (string, int) gomap \<Rightarrow> int \<Rightarrow> int \<Rightarrow> bool \<times> int" where
  "fairTurnLocked c profileID held available unitCost =
     (let (allocatable, contenderCount) = fairAllocatableUnitsLocked c profileID held available
      in (allocatable \<ge> unitCost, contenderCount))"

text \<open>The contender count to advance the rotation with, or the reason for denial.\<close>

definition evaluateAcquireLocked ::
  "coordinator \<Rightarrow> string \<Rightarrow> ProfilePolicy \<Rightarrow> (string, int) gomap \<Rightarrow> goerr + int" where
  "evaluateAcquireLocked c profileID profilePolicy held =
     (let totalHeld = sum64 0 (map snd held);
          free = sub64 (hp_TotalUnits (ds_Policy (co_state c))) totalHeld
      in if free < pp_UnitCost profilePolicy then Inl (raise ErrBudgetExhausted)
         else
           let ownRemaining = max (sub64 (pp_ReservedUnits profilePolicy) (mget0 held profileID)) 0
           in if ownRemaining \<ge> pp_UnitCost profilePolicy then Inr 0
              else
                let protected = protectedNonBorrowableLocked c profileID held;
                    available = sub64 free protected
                in if available < pp_UnitCost profilePolicy
                     then Inl (raise ErrProtectedReservation)
                   else
                     let (granted, contenders) =
                           fairTurnLocked c profileID held available (pp_UnitCost profilePolicy)
                     in if \<not> granted then Inl (raise ErrFairShareContention)
                        else Inr contenders)"

section \<open>Held units\<close>

definition total_units :: "(string, Lease) gomap \<Rightarrow> int" where
  "total_units leases = sum_list (map (lease_Units \<circ> snd) leases)"

definition profile_units :: "(string, Lease) gomap \<Rightarrow> string \<Rightarrow> int" where
  "profile_units leases p = total_units (filter (\<lambda>e. lease_ProfileID (snd e) = p) leases)"

text \<open>The units in the ledger fit a Go \<^verbatim>\<open>int\<close>.\<close>

definition units_fit :: "(string, Lease) gomap \<Rightarrow> bool" where
  "units_fit leases \<longleftrightarrow> (\<forall>e \<in> set leases. 0 \<le> lease_Units (snd e)) \<and> total_units leases \<le> max_int64"

lemma total_units_Nil [simp]: "total_units [] = 0"
  by (simp add: total_units_def)

lemma total_units_Cons [simp]: "total_units (e # es) = lease_Units (snd e) + total_units es"
  by (simp add: total_units_def)

lemma profile_units_Nil [simp]: "profile_units [] p = 0"
  by (simp add: profile_units_def)

lemma profile_units_Cons [simp]:
  "profile_units (e # es) p
     = (if lease_ProfileID (snd e) = p then lease_Units (snd e) else 0) + profile_units es p"
  by (simp add: profile_units_def)

lemma total_units_nonneg:
  "(\<And>e. e \<in> set leases \<Longrightarrow> 0 \<le> lease_Units (snd e)) \<Longrightarrow> 0 \<le> total_units leases"
  by (induction leases) auto

lemma total_units_filter_le:
  "(\<And>e. e \<in> set leases \<Longrightarrow> 0 \<le> lease_Units (snd e)) \<Longrightarrow>
     total_units (filter P leases) \<le> total_units leases"
  by (induction leases) (auto simp: add_increasing)

lemma profile_units_bounds:
  assumes "units_fit leases"
  shows "0 \<le> profile_units leases p" and "profile_units leases p \<le> total_units leases"
    and "profile_units leases p \<le> max_int64"
  using assms total_units_filter_le [of leases "\<lambda>e. lease_ProfileID (snd e) = p"]
    total_units_nonneg [of "filter (\<lambda>e. lease_ProfileID (snd e) = p) leases"]
  by (auto simp: profile_units_def units_fit_def)

lemma total_units_mput:
  "map_ok m \<Longrightarrow> total_units (mput m k l)
     = total_units m + lease_Units l
       - (case map_of m k of None \<Rightarrow> 0 | Some l' \<Rightarrow> lease_Units l')"
  by (induction m) (auto split: option.splits dest: map_of_SomeD)

lemma total_units_mdel:
  "map_ok m \<Longrightarrow> total_units (mdel m k)
     = total_units m - (case map_of m k of None \<Rightarrow> 0 | Some l' \<Rightarrow> lease_Units l')"
proof (induction m)
  case Nil
  then show ?case by simp
next
  case (Cons e m)
  then show ?case
    by (cases e) (auto simp: delete_id rev_image_eqI split: option.splits dest: map_of_SomeD)
qed

lemma sum_mput:
  "sum_list (map snd (mput m k (v::int))) = sum_list (map snd m) - mget0 m k + v"
  by (induction m) (auto simp: mget0_def split: option.splits)

lemma mput_values: "x \<in> set (mput m k v) \<Longrightarrow> snd x = v \<or> x \<in> set m"
  by (induction m) (auto split: if_splits)

lemma mget0_le_sum:
  "\<forall>x \<in> set held. 0 \<le> snd x \<Longrightarrow> mget0 held p \<le> sum_list (map snd held)"
proof (induction held)
  case (Cons x held)
  have "0 \<le> snd x" and "0 \<le> sum_list (map snd held)"
    using Cons.prems by (auto intro!: sum_list_nonneg_int)
  with Cons show ?case by (cases x) (auto simp: mget0_def split: option.splits)
qed simp

lemma held_loop_exact:
  assumes "\<forall>x \<in> set held. 0 \<le> snd x" and "map_ok held"
    and "\<forall>e \<in> set es. 0 \<le> lease_Units (snd e)"
    and "sum_list (map snd held) + total_units es \<le> max_int64"
  shows "mget0 (held_loop held es) p = mget0 held p + profile_units es p
    \<and> sum_list (map snd (held_loop held es)) = sum_list (map snd held) + total_units es
    \<and> (\<forall>x \<in> set (held_loop held es). 0 \<le> snd x)"
  using assms
proof (induction held es rule: held_loop.induct)
  case (1 held)
  then show ?case by simp
next
  case (2 held key lease es)
  let ?p = "lease_ProfileID lease" and ?u = "lease_Units lease"
  let ?v = "add64 (mget0 held ?p) ?u"
  have u: "0 \<le> ?u" and es: "0 \<le> total_units es"
    using "2.prems"(3) by (auto intro!: total_units_nonneg)
  have nonneg: "0 \<le> mget0 held ?p"
    using "2.prems"(1) by (force simp: mget0_def split: option.splits dest: map_of_SomeD)
  have "mget0 held ?p \<le> sum_list (map snd held)"
    using "2.prems"(1) by (rule mget0_le_sum)
  with u es nonneg "2.prems"(4) have v: "?v = mget0 held ?p + ?u"
    by (intro add64_id) auto
  have "\<forall>x \<in> set (mput held ?p ?v). 0 \<le> snd x"
    using "2.prems"(1) v u nonneg by (auto dest!: mput_values)
  moreover have "sum_list (map snd (mput held ?p ?v)) + total_units es \<le> max_int64"
    using "2.prems"(4) v by (simp add: sum_mput)
  ultimately show ?case
    using "2.IH" "2.prems"(2,3) v by (auto simp: sum_mput)
qed

text \<open>Inside the range of a Go \<^verbatim>\<open>int\<close> the held map holds the exact sums.\<close>

lemma held_exact:
  assumes "units_fit (ds_Leases (co_state c))"
  shows "mget0 (heldUnitsByProfileLocked c) p = profile_units (ds_Leases (co_state c)) p"
    and "sum64 0 (map snd (heldUnitsByProfileLocked c)) = total_units (ds_Leases (co_state c))"
proof -
  let ?held = "heldUnitsByProfileLocked c"
  have h: "mget0 ?held p = profile_units (ds_Leases (co_state c)) p"
    "sum_list (map snd ?held) = total_units (ds_Leases (co_state c))"
    "\<forall>x \<in> set ?held. 0 \<le> snd x"
    using held_loop_exact [of "[]" "ds_Leases (co_state c)" p] assms
    by (auto simp: heldUnitsByProfileLocked_def units_fit_def)
  show "mget0 ?held p = profile_units (ds_Leases (co_state c)) p" by (rule h)
  show "sum64 0 (map snd ?held) = total_units (ds_Leases (co_state c))"
    using sum64_exact [of 0 "map snd ?held"] h assms by (auto simp: units_fit_def)
qed

end
