(* ===== verification/Coordinator.thy ===== *)
theory Coordinator
  imports Budget Utf8
begin

text \<open>
  The coordinator's operations (\<^verbatim>\<open>coordinator.go\<close>), one definition per method. A method that
  defers \<^verbatim>\<open>recordDecisionLocked\<close> is its body followed by the recording.
\<close>

definition maxEvidenceBytes :: nat where
  "maxEvidenceBytes = 512"

section \<open>Opening\<close>

text \<open>
  \<^verbatim>\<open>Open\<close> returns the store it leaves behind and the coordinator, or the error.
\<close>

definition coordinator_Open :: "env \<Rightarrow> store \<Rightarrow> int \<Rightarrow> store \<times> (goerr + coordinator)" where
  "coordinator_Open e backing provisionalTTL =
     (let ttl = (if provisionalTTL \<le> 0 then DefaultProvisionalLeaseTTL else provisionalTTL);
          fresh = (\<lambda>st s. (st, Inr \<lparr>co_store = st, co_provisionalTTL = ttl, co_state = s,
             co_demand = [], co_demandKnown = [], co_demandDeadlines = [],
             co_rotation = ds_DecisionSequence s smod rotationSeedModulus,
             co_provisionalDeadlines = []\<rparr>))
      in case fileStore_Load backing of
           Inl err \<Rightarrow> (backing, Inl err)
         | Inr None \<Rightarrow> fresh backing newDurableState
         | Inr (Some s) \<Rightarrow>
             let (pruned, changed) = discardRestoredProvisionals e s in
             if changed then
               case fileStore_Save backing pruned of
                 (st, Some err) \<Rightarrow> (st, Inl err)
               | (st, None) \<Rightarrow> fresh st pruned
             else fresh backing s)"

section \<open>Policy, demand and adoption fences\<close>

definition ApplyPolicy :: "coordinator \<Rightarrow> HostPolicy \<Rightarrow> coordinator \<times> goerr option" where
  "ApplyPolicy c policy =
     (case HostPolicy_validate policy of
        Some e \<Rightarrow> (c, Some e)
      | None \<Rightarrow>
          if hp_Generation policy \<le> hp_Generation (ds_Policy (co_state c))
          then (c, Some (raise ErrStalePolicy))
          else
            let s = clone (co_state c);
                new = s\<lparr>ds_Policy := clonePolicy policy, ds_Epoch := ds_Epoch s + 1,
                  ds_AdoptionFences := filter (\<lambda>(profileID, fence).
                    policy_profile policy profileID \<noteq> None) (ds_AdoptionFences s)\<rparr>
            in case commit c new of
                 (c', Some e) \<Rightarrow> (c', Some e)
               | (c', None) \<Rightarrow>
                   (c'\<lparr>co_demand := [], co_demandKnown := [], co_demandDeadlines := []\<rparr>, None))"

definition SetDemand :: "env \<Rightarrow> coordinator \<Rightarrow> string \<Rightarrow> int \<Rightarrow> coordinator \<times> goerr option" where
  "SetDemand e c profileID pending =
     (case validateProfileID profileID of
        Some err \<Rightarrow> (c, Some err)
      | None \<Rightarrow>
          if pending < 0 then (c, Some err_other)
          else if policy_profile (ds_Policy (co_state c)) profileID = None
          then (c, Some (raise ErrUnknownProfile))
          else
            let c1 = expireStaleDemandLocked (env_now e) c;
                c2 = c1\<lparr>co_demandKnown := mput (co_demandKnown c1) profileID True\<rparr>
            in if pending = 0 then
                 (c2\<lparr>co_demand := mdel (co_demand c2) profileID,
                     co_demandDeadlines := mdel (co_demandDeadlines c2) profileID\<rparr>, None)
               else
                 (c2\<lparr>co_demand := mput (co_demand c2) profileID pending,
                     co_demandDeadlines := mput (co_demandDeadlines c2) profileID
                       (env_now e + DefaultDemandTTL)\<rparr>, None))"

definition BeginAdoption :: "coordinator \<Rightarrow> string \<Rightarrow> coordinator \<times> goerr option" where
  "BeginAdoption c profileID =
     (case validateProfileID profileID of
        Some err \<Rightarrow> (c, Some err)
      | None \<Rightarrow>
          if policy_profile (ds_Policy (co_state c)) profileID = None
          then (c, Some (raise ErrUnknownProfile))
          else if map_of (ds_AdoptionFences (co_state c)) profileID \<noteq> None then (c, None)
          else
            let s = clone (co_state c);
                fence = \<lparr>fence_ProfileID = profileID, fence_PendingLeaseKeys =
                   Some (activeLeaseSlotKeys (ds_Leases s) profileID)\<rparr>
            in commit c (s\<lparr>ds_Epoch := ds_Epoch s + 1,
                 ds_AdoptionFences := mput (ds_AdoptionFences s) profileID fence\<rparr>))"

definition CompleteAdoption :: "coordinator \<Rightarrow> string \<Rightarrow> coordinator \<times> goerr option" where
  "CompleteAdoption c profileID =
     (case validateProfileID profileID of
        Some err \<Rightarrow> (c, Some err)
      | None \<Rightarrow>
          (case map_of (ds_AdoptionFences (co_state c)) profileID of
             None \<Rightarrow> (c, None)
           | Some fence \<Rightarrow>
               if pending_keys fence \<noteq> [] then (c, Some (raise ErrAdoptionPending))
               else
                 let s = clone (co_state c)
                 in commit c (s\<lparr>ds_Epoch := ds_Epoch s + 1,
                      ds_AdoptionFences := mdel (ds_AdoptionFences s) profileID\<rparr>)))"

section \<open>Acquire\<close>

text \<open>From the granting decision on: save the grant, then the in-memory effects.\<close>

definition acquire_grant ::
  "env \<Rightarrow> coordinator \<Rightarrow> string \<Rightarrow> string \<Rightarrow> int \<Rightarrow> int \<Rightarrow> int
    \<Rightarrow> coordinator \<times> Lease \<times> goerr option" where
  "acquire_grant e c profileID slotKey unitCost pendingDemand sharedPoolContenders =
     (let key = leaseKey_String profileID slotKey;
          sequence = ds_DecisionSequence (co_state c) + 1;
          deadline = env_now e + co_provisionalTTL c;
          granted = \<lparr>lease_ProfileID = profileID, lease_SlotKey = slotKey,
            lease_LeaseID = leaseID_for key sequence, lease_RegistrationName = [],
            lease_Units = unitCost, lease_Status = LeaseProvisional,
            lease_ExpiresAtUnixNano = deadline, lease_GrantedAtSequence = sequence,
            lease_ActivatedAtSequence = 0\<rparr>;
          s = clone (co_state c);
          new = s\<lparr>ds_DecisionSequence := sequence,
                  ds_Tombstones := mdel (ds_Tombstones s) key,
                  ds_Leases := mput (ds_Leases s) key granted\<rparr>
      in case commit c new of
           (c1, Some err) \<Rightarrow> (c1, zeroLease, Some err)
         | (c1, None) \<Rightarrow>
             let c2 = c1\<lparr>co_provisionalDeadlines :=
                        mput (co_provisionalDeadlines c1) key deadline\<rparr>;
                 c3 = (if pendingDemand = 1
                       then c2\<lparr>co_demand := mdel (co_demand c2) profileID,
                               co_demandDeadlines := mdel (co_demandDeadlines c2) profileID\<rparr>
                       else c2\<lparr>co_demand :=
                               mput (co_demand c2) profileID (pendingDemand - 1)\<rparr>);
                 c4 = (if sharedPoolContenders > 0
                       then advanceRotationLocked c3 sharedPoolContenders else c3)
             in (c4, granted, None))"

definition acquire_body ::
  "env \<Rightarrow> coordinator \<Rightarrow> string \<Rightarrow> string \<Rightarrow> int \<Rightarrow> coordinator \<times> Lease \<times> goerr option" where
  "acquire_body e c profileID slotKey pendingDemand0 =
     (case sweepExpiredLocked e c of
        (c1, Inl err) \<Rightarrow> (c1, zeroLease, Some err)
      | (c1, Inr _) \<Rightarrow>
          let c2 = expireStaleDemandLocked (env_now e) c1 in
          if ds_AdoptionFences (co_state c2) \<noteq> []
          then (c2, zeroLease, Some (raise ErrAdoptionPending))
          else case map_of (ds_Leases (co_state c2)) (leaseKey_String profileID slotKey) of
            Some existing \<Rightarrow> (c2, existing, Some (raise ErrDuplicateLease))
          | None \<Rightarrow>
              (case policy_profile (ds_Policy (co_state c2)) profileID of
                 None \<Rightarrow> (c2, zeroLease, Some (raise ErrUnknownProfile))
               | Some profilePolicy \<Rightarrow>
                   let pendingDemand = (if pendingDemand0 < 1 then 1 else pendingDemand0);
                       c3 = c2\<lparr>co_demand := mput (co_demand c2) profileID pendingDemand,
                               co_demandKnown := mput (co_demandKnown c2) profileID True,
                               co_demandDeadlines := mput (co_demandDeadlines c2) profileID
                                 (env_now e + DefaultDemandTTL)\<rparr>
                   in case evaluateAcquireLocked c3 profileID profilePolicy
                             (heldUnitsByProfileLocked c3) of
                        Inl err \<Rightarrow> (c3, zeroLease, Some err)
                      | Inr sharedPoolContenders \<Rightarrow>
                          acquire_grant e c3 profileID slotKey (pp_UnitCost profilePolicy)
                            pendingDemand sharedPoolContenders))"

definition Acquire ::
  "env \<Rightarrow> coordinator \<Rightarrow> string \<Rightarrow> string \<Rightarrow> int \<Rightarrow> coordinator \<times> Lease \<times> goerr option" where
  "Acquire e c profileID slotKey pendingDemand =
     (case validateLeaseIdentity profileID slotKey of
        Some err \<Rightarrow> (c, zeroLease, Some err)
      | None \<Rightarrow>
          let (c', lease, err) = acquire_body e c profileID slotKey pendingDemand;
              granted = (case err of None \<Rightarrow> True | Some x \<Rightarrow> errors_Is x ErrDuplicateLease)
          in (recordDecisionLocked c' CommandAcquire profileID granted err (env_now e), lease, err))"

section \<open>Operations on a live lease\<close>

definition BindRegistration ::
  "env \<Rightarrow> coordinator \<Rightarrow> string \<Rightarrow> string \<Rightarrow> string \<Rightarrow> coordinator \<times> Lease \<times> goerr option" where
  "BindRegistration e c profileID slotKey registrationName =
     (case validateLeaseIdentity profileID slotKey of
        Some err \<Rightarrow> (c, zeroLease, Some err)
      | None \<Rightarrow>
          (case validateRegistrationName registrationName of
             Some err \<Rightarrow> (c, zeroLease, Some err)
           | None \<Rightarrow>
               (case sweepExpiredLocked e c of
                  (c1, Inl err) \<Rightarrow> (c1, zeroLease, Some err)
                | (c1, Inr _) \<Rightarrow>
                    let key = leaseKey_String profileID slotKey in
                    case map_of (ds_Leases (co_state c1)) key of
                      None \<Rightarrow> (c1, zeroLease, Some (raise ErrLeaseNotFound))
                    | Some existing \<Rightarrow>
                        if lease_RegistrationName existing = registrationName
                        then (c1, existing, None)
                        else if lease_RegistrationName existing \<noteq> []
                        then (c1, zeroLease, Some (raise ErrInvalidIdentity))
                        else
                          let bound = existing\<lparr>lease_RegistrationName := registrationName\<rparr>;
                              s = clone (co_state c1);
                              new = s\<lparr>ds_DecisionSequence := ds_DecisionSequence s + 1,
                                      ds_Leases := mput (ds_Leases s) key bound\<rparr>
                          in case commit c1 new of
                               (c2, Some err) \<Rightarrow> (c2, zeroLease, Some err)
                             | (c2, None) \<Rightarrow> (c2, bound, None))))"

definition adopt_body ::
  "env \<Rightarrow> coordinator \<Rightarrow> string \<Rightarrow> string \<Rightarrow> coordinator \<times> Lease \<times> goerr option" where
  "adopt_body e c profileID slotKey =
     (case sweepExpiredLocked e c of
        (c1, Inl err) \<Rightarrow> (c1, zeroLease, Some err)
      | (c1, Inr _) \<Rightarrow>
          (case policy_profile (ds_Policy (co_state c1)) profileID of
             None \<Rightarrow> (c1, zeroLease, Some (raise ErrUnknownProfile))
           | Some profilePolicy \<Rightarrow>
               let key = leaseKey_String profileID slotKey;
                   found = map_of (ds_Leases (co_state c1)) key;
                   sequence = ds_DecisionSequence (co_state c1) + 1;
                   s = clone (co_state c1);
                   adopt = (\<lambda>lease.
                     let s2 = s\<lparr>ds_DecisionSequence := sequence,
                                ds_Tombstones := mdel (ds_Tombstones s) key,
                                ds_Leases := mput (ds_Leases s) key lease\<rparr>;
                         new = fst (markLeaseAccountedForAdoption s2 profileID slotKey)
                     in case commit c1 new of
                          (c2, Some err) \<Rightarrow> (c2, zeroLease, Some err)
                        | (c2, None) \<Rightarrow>
                            (c2\<lparr>co_provisionalDeadlines :=
                               mdel (co_provisionalDeadlines c2) key\<rparr>, lease, None))
               in case found of
                    Some existing \<Rightarrow>
                      if lease_Status existing = LeaseActive then
                        (case markLeaseAccountedForAdoption s profileID slotKey of
                           (new, True) \<Rightarrow>
                             (case commit c1 new of
                                (c2, Some err) \<Rightarrow> (c2, zeroLease, Some err)
                              | (c2, None) \<Rightarrow> (c2, existing, None))
                         | (_, False) \<Rightarrow> (c1, existing, None))
                      else adopt (existing\<lparr>lease_Status := LeaseActive,
                             lease_ExpiresAtUnixNano := 0,
                             lease_ActivatedAtSequence := sequence\<rparr>)
                  | None \<Rightarrow>
                      adopt \<lparr>lease_ProfileID = profileID, lease_SlotKey = slotKey,
                        lease_LeaseID = leaseID_for key sequence, lease_RegistrationName = [],
                        lease_Units = pp_UnitCost profilePolicy, lease_Status = LeaseActive,
                        lease_ExpiresAtUnixNano = 0, lease_GrantedAtSequence = sequence,
                        lease_ActivatedAtSequence = sequence\<rparr>))"

definition Adopt ::
  "env \<Rightarrow> coordinator \<Rightarrow> string \<Rightarrow> string \<Rightarrow> coordinator \<times> Lease \<times> goerr option" where
  "Adopt e c profileID slotKey =
     (case validateLeaseIdentity profileID slotKey of
        Some err \<Rightarrow> (c, zeroLease, Some err)
      | None \<Rightarrow>
          let (c', lease, err) = adopt_body e c profileID slotKey
          in (recordDecisionLocked c' CommandAdopt profileID (err = None) err (env_now e),
              lease, err))"

definition renew_body ::
  "env \<Rightarrow> coordinator \<Rightarrow> string \<Rightarrow> string \<Rightarrow> coordinator \<times> Lease \<times> goerr option" where
  "renew_body e c profileID slotKey =
     (case sweepExpiredLocked e c of
        (c1, Inl err) \<Rightarrow> (c1, zeroLease, Some err)
      | (c1, Inr expired) \<Rightarrow>
          let key = leaseKey_String profileID slotKey in
          if key \<in> set expired then (c1, zeroLease, Some (raise ErrLeaseExpired))
          else case map_of (ds_Leases (co_state c1)) key of
            None \<Rightarrow> (c1, zeroLease, Some (raise ErrLeaseNotFound))
          | Some existing \<Rightarrow>
              if lease_Status existing \<noteq> LeaseProvisional
              then (c1, zeroLease, Some (raise ErrLeaseNotProvisional))
              else
                let deadline = env_now e + co_provisionalTTL c1;
                    renewed = existing\<lparr>lease_ExpiresAtUnixNano := deadline\<rparr>;
                    s = clone (co_state c1);
                    new = s\<lparr>ds_DecisionSequence := ds_DecisionSequence s + 1,
                            ds_Leases := mput (ds_Leases s) key renewed\<rparr>
                in case commit c1 new of
                     (c2, Some err) \<Rightarrow> (c2, zeroLease, Some err)
                   | (c2, None) \<Rightarrow>
                       (c2\<lparr>co_provisionalDeadlines :=
                          mput (co_provisionalDeadlines c2) key deadline\<rparr>, renewed, None))"

definition Renew ::
  "env \<Rightarrow> coordinator \<Rightarrow> string \<Rightarrow> string \<Rightarrow> coordinator \<times> Lease \<times> goerr option" where
  "Renew e c profileID slotKey =
     (case validateLeaseIdentity profileID slotKey of
        Some err \<Rightarrow> (c, zeroLease, Some err)
      | None \<Rightarrow>
          let (c', lease, err) = renew_body e c profileID slotKey
          in (recordDecisionLocked c' CommandRenew profileID (err = None) err (env_now e),
              lease, err))"

definition activate_body ::
  "env \<Rightarrow> coordinator \<Rightarrow> string \<Rightarrow> string \<Rightarrow> coordinator \<times> Lease \<times> goerr option" where
  "activate_body e c profileID slotKey =
     (case sweepExpiredLocked e c of
        (c1, Inl err) \<Rightarrow> (c1, zeroLease, Some err)
      | (c1, Inr expired) \<Rightarrow>
          let key = leaseKey_String profileID slotKey in
          if key \<in> set expired then (c1, zeroLease, Some (raise ErrLeaseExpired))
          else case map_of (ds_Leases (co_state c1)) key of
            None \<Rightarrow> (c1, zeroLease, Some (raise ErrLeaseNotFound))
          | Some existing \<Rightarrow>
              if lease_Status existing = LeaseActive then (c1, existing, None)
              else
                let sequence = ds_DecisionSequence (co_state c1) + 1;
                    activated = existing\<lparr>lease_Status := LeaseActive,
                      lease_ExpiresAtUnixNano := 0, lease_ActivatedAtSequence := sequence\<rparr>;
                    s = clone (co_state c1);
                    new = s\<lparr>ds_DecisionSequence := sequence,
                            ds_Leases := mput (ds_Leases s) key activated\<rparr>
                in case commit c1 new of
                     (c2, Some err) \<Rightarrow> (c2, zeroLease, Some err)
                   | (c2, None) \<Rightarrow>
                       (c2\<lparr>co_provisionalDeadlines :=
                          mdel (co_provisionalDeadlines c2) key\<rparr>, activated, None))"

definition Activate ::
  "env \<Rightarrow> coordinator \<Rightarrow> string \<Rightarrow> string \<Rightarrow> coordinator \<times> Lease \<times> goerr option" where
  "Activate e c profileID slotKey =
     (case validateLeaseIdentity profileID slotKey of
        Some err \<Rightarrow> (c, zeroLease, Some err)
      | None \<Rightarrow>
          let (c', lease, err) = activate_body e c profileID slotKey
          in (recordDecisionLocked c' CommandActivate profileID (err = None) err (env_now e),
              lease, err))"

section \<open>Release and fenced recovery\<close>

text \<open>The body \<^verbatim>\<open>Release\<close> and \<^verbatim>\<open>Reconcile\<close> share: sweep, then tombstone.\<close>

definition release_body ::
  "env \<Rightarrow> coordinator \<Rightarrow> string \<Rightarrow> string \<Rightarrow> TombstoneReason \<Rightarrow> string
    \<Rightarrow> coordinator \<times> goerr option" where
  "release_body e c profileID slotKey reason evidence =
     (case sweepExpiredLocked e c of
        (c1, Inl err) \<Rightarrow> (c1, Some err)
      | (c1, Inr _) \<Rightarrow> tombstoneLocked e c1 profileID slotKey reason evidence)"

definition Release ::
  "env \<Rightarrow> coordinator \<Rightarrow> string \<Rightarrow> string \<Rightarrow> coordinator \<times> goerr option" where
  "Release e c profileID slotKey =
     (case validateLeaseIdentity profileID slotKey of
        Some err \<Rightarrow> (c, Some err)
      | None \<Rightarrow>
          let (c', err) = release_body e c profileID slotKey TombstoneReleased []
          in (recordDecisionLocked c' CommandRelease profileID (err = None) err (env_now e), err))"

definition sanitizeEvidence :: "string \<Rightarrow> goerr + string" where
  "sanitizeEvidence evidence =
     (let trimmed = TrimSpace evidence in
      if trimmed = [] then Inl (raise ErrEvidenceRequired)
      else if length trimmed > maxEvidenceBytes then Inl (raise ErrEvidenceInvalid)
      else if \<not> ValidString trimmed then Inl (raise ErrEvidenceInvalid)
      else if list_ex (\<lambda>r. r = 10 \<or> r = 13 \<or> unicode_IsControl r) (range_runes trimmed)
      then Inl (raise ErrEvidenceInvalid)
      else Inr trimmed)"

definition Reconcile ::
  "env \<Rightarrow> coordinator \<Rightarrow> string \<Rightarrow> string \<Rightarrow> string \<Rightarrow> coordinator \<times> goerr option" where
  "Reconcile e c profileID slotKey evidence =
     (case validateLeaseIdentity profileID slotKey of
        Some err \<Rightarrow> (c, Some err)
      | None \<Rightarrow>
          (case sanitizeEvidence evidence of
             Inl err \<Rightarrow> (c, Some err)
           | Inr sanitized \<Rightarrow>
               let (c', err) =
                     release_body e c profileID slotKey TombstoneReconciledAbsent sanitized
               in (recordDecisionLocked c' CommandReconcile profileID (err = None) err
                     (env_now e), err)))"

end
