(* ===== verification/Status.thy ===== *)
theory Status
  imports Coordinator
begin

text \<open>
  The status snapshot of \<^verbatim>\<open>coordinator.go\<close>: per-profile accounting, the capacity view
  \<^verbatim>\<open>profileCapacityLocked\<close> and \<^verbatim>\<open>Status\<close> itself, which sweeps like every operation.
\<close>

record ProfileAccounting =
  pa_ProfileID :: string
  pa_UnitCost :: int
  pa_ReservedUnits :: int
  pa_Borrowable :: bool
  pa_ProfilePolicyFingerprint :: string
  pa_ActiveUnits :: int
  pa_ProvisionalUnits :: int
  pa_HeldUnits :: int
  pa_BorrowedUnits :: int
  pa_PendingUnits :: "int option"
  pa_WithheldUnits :: "int option"
  pa_AllocatableUnits :: "int option"
  pa_AllocatableWorkers :: "int option"
  pa_TheoreticalMaximumUnits :: "int option"
  pa_TheoreticalMaximumWorkers :: "int option"
  pa_WithholdingReason :: "WithholdingReason option"

record Snapshot =
  sn_ProtocolVersion :: int
  sn_Namespace :: string
  sn_Epoch :: int
  sn_DecisionSequence :: int
  sn_Policy :: HostPolicy
  sn_CapacityUnits :: int
  sn_SafetyMarginUnits :: int
  sn_EffectiveTotalUnits :: int
  sn_HostPolicyFingerprint :: string
  sn_AvailableUnits :: int
  sn_Accounting :: "ProfileAccounting list"
  sn_Leases :: "Lease list"
  sn_Tombstones :: "Tombstone list"
  sn_AdoptionFences :: "AdoptionFence list"
  sn_LastDecision :: "Decision option"

record profileCapacity =
  pc_allocatableUnits :: int
  pc_allocatableWorkers :: int
  pc_theoreticalMaximumUnits :: int
  pc_theoreticalMaximumWorkers :: int
  pc_withholdingReason :: "WithholdingReason option"

definition profileCapacityLocked ::
  "coordinator \<Rightarrow> string \<Rightarrow> (string, int) gomap \<Rightarrow> profileCapacity" where
  "profileCapacityLocked c profileID held =
     (case policy_profile (ds_Policy (co_state c)) profileID of
        None \<Rightarrow> \<lparr>pc_allocatableUnits = 0, pc_allocatableWorkers = 0,
          pc_theoreticalMaximumUnits = 0, pc_theoreticalMaximumWorkers = 0,
          pc_withholdingReason = None\<rparr>
      | Some profilePolicy \<Rightarrow>
          let policy = ds_Policy (co_state c);
              fenced = ds_AdoptionFences (co_state c) \<noteq> [];
              totalHeld = sum64 0 (map (\<lambda>p. mget0 held (pp_ProfileID p)) (hp_Profiles policy));
              protectedMaximum = sum64 0 (map pp_ReservedUnits
                (filter (\<lambda>p. pp_ProfileID p \<noteq> profileID \<and> \<not> pp_Borrowable p)
                  (hp_Profiles policy)));
              theoreticalUnits = max (sub64 (hp_TotalUnits policy) protectedMaximum) 0;
              currentProtected = protectedNonBorrowableLocked c profileID held;
              currentFree = max (sub64 (hp_TotalUnits policy) totalHeld) 0;
              ceiling = max (sub64 theoreticalUnits (mget0 held profileID)) 0;
              allocatable1 = (if fenced then 0
                else min (max (sub64 currentFree currentProtected) 0) ceiling);
              demanding = (mgetb (co_demandKnown c) profileID \<and> mget0 (co_demand c) profileID > 0);
              ownRemaining = min
                (max (sub64 (pp_ReservedUnits profilePolicy) (mget0 held profileID)) 0)
                currentFree;
              fairAllocatable = fst (fairAllocatableUnitsLocked c profileID held
                (max (sub64 currentFree currentProtected) 0));
              allocatable2 = (if demanding \<and> \<not> fenced
                then min (max ownRemaining fairAllocatable) ceiling else allocatable1);
              reason = (if \<not> demanding then None
                else if fenced then Some WithholdingAdoptionPending
                else case evaluateAcquireLocked c profileID profilePolicy held of
                  Inl err \<Rightarrow> withholdingReasonForError err
                | Inr _ \<Rightarrow> None);
              allocatable = (if reason \<noteq> None then 0 else allocatable2)
          in \<lparr>pc_allocatableUnits = allocatable,
              pc_allocatableWorkers = allocatable sdiv pp_UnitCost profilePolicy,
              pc_theoreticalMaximumUnits = theoreticalUnits,
              pc_theoreticalMaximumWorkers = theoreticalUnits sdiv pp_UnitCost profilePolicy,
              pc_withholdingReason = reason\<rparr>)"

text \<open>One profile's accounting row.\<close>

definition profile_accounting ::
  "coordinator \<Rightarrow> (string, int) gomap \<Rightarrow> (string, int) gomap \<Rightarrow> (string, int) gomap
    \<Rightarrow> string \<Rightarrow> ProfileAccounting" where
  "profile_accounting c activeHeld provisionalHeld heldByProfile profileID =
     (let profilePolicy = (case policy_profile (ds_Policy (co_state c)) profileID of
            Some p \<Rightarrow> p
          | None \<Rightarrow> \<lparr>pp_ProfileID = [], pp_UnitCost = 0, pp_ReservedUnits = 0,
              pp_Borrowable = False, pp_ProfilePolicyFingerprint = []\<rparr>);
          active = mget0 activeHeld profileID;
          provisional = mget0 provisionalHeld profileID;
          held = add64 active provisional;
          capacity = profileCapacityLocked c profileID heldByProfile;
          pending = (if mgetb (co_demandKnown c) profileID
            then Some (mul64 (mget0 (co_demand c) profileID) (pp_UnitCost profilePolicy))
            else None)
      in \<lparr>pa_ProfileID = profileID, pa_UnitCost = pp_UnitCost profilePolicy,
          pa_ReservedUnits = pp_ReservedUnits profilePolicy,
          pa_Borrowable = pp_Borrowable profilePolicy,
          pa_ProfilePolicyFingerprint = pp_ProfilePolicyFingerprint profilePolicy,
          pa_ActiveUnits = active, pa_ProvisionalUnits = provisional, pa_HeldUnits = held,
          pa_BorrowedUnits = max (sub64 held (pp_ReservedUnits profilePolicy)) 0,
          pa_PendingUnits = pending, pa_WithheldUnits = pending,
          pa_AllocatableUnits = Some (pc_allocatableUnits capacity),
          pa_AllocatableWorkers = Some (pc_allocatableWorkers capacity),
          pa_TheoreticalMaximumUnits = Some (pc_theoreticalMaximumUnits capacity),
          pa_TheoreticalMaximumWorkers = Some (pc_theoreticalMaximumWorkers capacity),
          pa_WithholdingReason = pc_withholdingReason capacity\<rparr>)"

definition lookup_all :: "('k, 'v) gomap \<Rightarrow> 'k list \<Rightarrow> 'v list" where
  "lookup_all m ks = List.map_filter (map_of m) ks"

definition status_snapshot :: "coordinator \<Rightarrow> Snapshot" where
  "status_snapshot c =
     (let s = co_state c; policy = clonePolicy (ds_Policy s); leases = ds_Leases s;
          activeHeld = held_loop [] (filter (\<lambda>e. lease_Status (snd e) = LeaseActive) leases);
          provisionalHeld =
            held_loop [] (filter (\<lambda>e. lease_Status (snd e) = LeaseProvisional) leases);
          heldByProfile = held_loop [] leases;
          accounting = map (profile_accounting c activeHeld provisionalHeld heldByProfile)
            (sortedProfileIDs policy);
          totalHeld = sum64 0 (map pa_HeldUnits accounting)
      in \<lparr>sn_ProtocolVersion = 0, sn_Namespace = hp_Namespace policy, sn_Epoch = ds_Epoch s,
          sn_DecisionSequence = ds_DecisionSequence s, sn_Policy = policy,
          sn_CapacityUnits = hp_CapacityUnits policy,
          sn_SafetyMarginUnits = hp_SafetyMarginUnits policy,
          sn_EffectiveTotalUnits = EffectiveTotalUnits policy,
          sn_HostPolicyFingerprint = hp_HostPolicyFingerprint policy,
          sn_AvailableUnits = max (sub64 (EffectiveTotalUnits policy) totalHeld) 0,
          sn_Accounting = accounting,
          sn_Leases = lookup_all leases (sortedStateKeys leases),
          sn_Tombstones = lookup_all (ds_Tombstones s) (sortedStateKeys (ds_Tombstones s)),
          sn_AdoptionFences = map clone_fence
            (lookup_all (ds_AdoptionFences s) (sortedStateKeys (ds_AdoptionFences s))),
          sn_LastDecision = ds_LastDecision s\<rparr>)"

definition coordinator_Status :: "env \<Rightarrow> coordinator \<Rightarrow> coordinator \<times> (goerr + Snapshot)" where
  "coordinator_Status e c =
     (case sweepExpiredLocked e c of
        (c1, Inl err) \<Rightarrow> (c1, Inl err)
      | (c1, Inr _) \<Rightarrow>
          let c2 = expireStaleDemandLocked (env_now e) c1 in (c2, Inr (status_snapshot c2)))"

end
