(* ===== verification/Server.thy ===== *)
theory Server
  imports Status
begin

text \<open>
  \<^verbatim>\<open>server.go\<close>: one request is read, decoded, dispatched to the coordinator and answered.
  The socket is the environment: what arrives on a connection is an \<open>inbound\<close> value. The
  free-form message of a response is not modelled.
\<close>

record Request =
  rq_ProtocolVersions :: "int list"
  rq_Command :: Command
  rq_ProfileID :: string
  rq_SlotKey :: string
  rq_RegistrationName :: string
  rq_PendingDemand :: int
  rq_Evidence :: string
  rq_Policy :: "HostPolicy option"

datatype ResponseStatus = responseStatusOK | responseStatusError | responseStatusOther

record Response =
  rs_ProtocolVersion :: int
  rs_Status :: ResponseStatus
  rs_ErrorCode :: ErrorCode
  rs_Lease :: "Lease option"
  rs_Snapshot :: "Snapshot option"

definition okResponse :: "int \<Rightarrow> Response" where
  "okResponse version = \<lparr>rs_ProtocolVersion = version, rs_Status = responseStatusOK,
     rs_ErrorCode = ErrorCodeNone, rs_Lease = None, rs_Snapshot = None\<rparr>"

definition errorCodeResponse :: "int \<Rightarrow> ErrorCode \<Rightarrow> Response" where
  "errorCodeResponse version code = \<lparr>rs_ProtocolVersion = version,
     rs_Status = responseStatusError, rs_ErrorCode = code, rs_Lease = None, rs_Snapshot = None\<rparr>"

definition errorResponse :: "int \<Rightarrow> goerr \<Rightarrow> Response" where
  "errorResponse version err = errorCodeResponse version (errorCodeForErrVersion err version)"

text \<open>The response of an operation that only reports success or an error.\<close>

definition plain_response ::
  "int \<Rightarrow> coordinator \<times> goerr option \<Rightarrow> coordinator \<times> Response" where
  "plain_response version = (\<lambda>(c, err). (c, case err of
     Some x \<Rightarrow> errorResponse version x
   | None \<Rightarrow> okResponse version))"

text \<open>The response of an operation that returns a lease.\<close>

definition lease_response ::
  "int \<Rightarrow> coordinator \<times> Lease \<times> goerr option \<Rightarrow> coordinator \<times> Response" where
  "lease_response version = (\<lambda>(c, lease, err). (c, case err of
     Some x \<Rightarrow> errorResponse version x
   | None \<Rightarrow> (okResponse version)\<lparr>rs_Lease := Some lease\<rparr>))"

text \<open>\<^verbatim>\<open>Acquire\<close> answers a duplicate with status ok, the lease and the duplicate code.\<close>

definition acquire_response ::
  "int \<Rightarrow> coordinator \<times> Lease \<times> goerr option \<Rightarrow> coordinator \<times> Response" where
  "acquire_response version = (\<lambda>(c, lease, err). (c, case err of
     Some x \<Rightarrow>
       if errors_Is x ErrDuplicateLease
       then (okResponse version)\<lparr>rs_Lease := Some lease, rs_ErrorCode := ErrorCodeDuplicateLease\<rparr>
       else errorResponse version x
   | None \<Rightarrow> (okResponse version)\<lparr>rs_Lease := Some lease\<rparr>))"

fun run_command ::
  "env \<Rightarrow> int \<Rightarrow> coordinator \<Rightarrow> Request \<Rightarrow> Command \<Rightarrow> coordinator \<times> Response" where
  "run_command e version c request CommandApplyPolicy =
     (case rq_Policy request of
        None \<Rightarrow> (c, errorResponse version (raise ErrInvalidPolicy))
      | Some policy \<Rightarrow> plain_response version (ApplyPolicy c policy))"
| "run_command e version c request CommandSetDemand =
     plain_response version (SetDemand e c (rq_ProfileID request) (rq_PendingDemand request))"
| "run_command e version c request CommandAcquire =
     acquire_response version
       (Acquire e c (rq_ProfileID request) (rq_SlotKey request) (rq_PendingDemand request))"
| "run_command e version c request CommandBindRegistration =
     lease_response version (BindRegistration e c (rq_ProfileID request) (rq_SlotKey request)
       (rq_RegistrationName request))"
| "run_command e version c request CommandAdopt =
     lease_response version (Adopt e c (rq_ProfileID request) (rq_SlotKey request))"
| "run_command e version c request CommandBeginAdoption =
     plain_response version (BeginAdoption c (rq_ProfileID request))"
| "run_command e version c request CommandCompleteAdoption =
     plain_response version (CompleteAdoption c (rq_ProfileID request))"
| "run_command e version c request CommandRenew =
     lease_response version (Renew e c (rq_ProfileID request) (rq_SlotKey request))"
| "run_command e version c request CommandActivate =
     lease_response version (Activate e c (rq_ProfileID request) (rq_SlotKey request))"
| "run_command e version c request CommandRelease =
     plain_response version (Release e c (rq_ProfileID request) (rq_SlotKey request))"
| "run_command e version c request CommandReconcile =
     plain_response version
       (Reconcile e c (rq_ProfileID request) (rq_SlotKey request) (rq_Evidence request))"
| "run_command e version c request CommandStatus =
     (case coordinator_Status e c of
        (c', Inl err) \<Rightarrow> (c', errorResponse version err)
      | (c', Inr snapshot) \<Rightarrow> (c', (okResponse version)\<lparr>rs_Snapshot := Some snapshot\<rparr>))"
| "run_command e version c request (CommandOther _) = (c, errorResponse version err_other)"

definition dispatch ::
  "env \<Rightarrow> int list \<Rightarrow> coordinator \<Rightarrow> Request \<Rightarrow> coordinator \<times> Response" where
  "dispatch e supportedVersions c request =
     (let (version, overlap) =
            NegotiateProtocolVersion supportedVersions (rq_ProtocolVersions request)
      in if \<not> overlap then (c, errorCodeResponse 0 ErrorCodeProtocolMismatch)
         else if \<not> supportedBy (rq_Command request) version
         then (c, errorCodeResponse version ErrorCodeProtocolMismatch)
         else run_command e version c request (rq_Command request))"

datatype inbound =
    LimitExhausted
  | ReadFailed
  | Undecodable
  | Decoded Request

text \<open>\<^verbatim>\<open>handle\<close>: the response written to the connection, if any.\<close>

fun handle ::
  "env \<Rightarrow> int list \<Rightarrow> coordinator \<Rightarrow> inbound \<Rightarrow> coordinator \<times> Response option" where
  "handle e vs c LimitExhausted = (c, Some (errorCodeResponse 0 ErrorCodeRequestTooLarge))"
| "handle e vs c ReadFailed = (c, None)"
| "handle e vs c Undecodable = (c, Some (errorCodeResponse 0 ErrorCodeMalformedRequest))"
| "handle e vs c (Decoded request) =
     (let (c', response) = dispatch e vs c request in (c', Some response))"

end
