(* ===== verification/Client.thy ===== *)
theory Client
  imports Server
begin

text \<open>
  \<^verbatim>\<open>client.go\<close> and the command line's exit codes. The transport (dialling, deadlines, the
  bytes on the socket) is a parameter: a function from the request and the remote state to
  the new remote state and a response or a transport error.
\<close>

type_synonym 's transport = "Request \<Rightarrow> 's \<Rightarrow> 's \<times> (goerr + Response)"

definition emptyRequest :: "Command \<Rightarrow> Request" where
  "emptyRequest command = \<lparr>rq_ProtocolVersions = [], rq_Command = command, rq_ProfileID = [],
     rq_SlotKey = [], rq_RegistrationName = [], rq_PendingDemand = 0, rq_Evidence = [],
     rq_Policy = None\<rparr>"

definition zeroResponse :: Response where
  "zeroResponse = \<lparr>rs_ProtocolVersion = 0, rs_Status = responseStatusOther,
     rs_ErrorCode = ErrorCodeNone, rs_Lease = None, rs_Snapshot = None\<rparr>"

definition client_call ::
  "'s transport \<Rightarrow> int list \<Rightarrow> Request \<Rightarrow> 's \<Rightarrow> 's \<times> Response \<times> goerr option" where
  "client_call send supported request s =
     (let usable = filter (\<lambda>v. v \<ge> minimumProtocolVersion (rq_Command request)) supported;
          prepared = request\<lparr>rq_ProtocolVersions := sortedInts usable\<rparr>
      in case send prepared s of
           (s', Inl err) \<Rightarrow> (s', zeroResponse, Some err)
         | (s', Inr response) \<Rightarrow>
             if rs_ErrorCode response = ErrorCodeProtocolMismatch
             then (s', response, Some (raise ErrProtocolMismatch))
             else (s', response, None))"

definition responseErr :: "Response \<Rightarrow> goerr option" where
  "responseErr response =
     (case (if rs_ErrorCode response \<noteq> ErrorCodeNone
            then errForErrorCode (rs_ErrorCode response) else None) of
        Some s \<Rightarrow> Some (raise s)
      | None \<Rightarrow> if rs_Status response = responseStatusError then Some err_other else None)"

text \<open>The pattern of the methods that return only an error.\<close>

definition client_plain ::
  "'s transport \<Rightarrow> int list \<Rightarrow> Request \<Rightarrow> 's \<Rightarrow> 's \<times> goerr option" where
  "client_plain send supported request s =
     (case client_call send supported request s of
        (s', _, Some err) \<Rightarrow> (s', Some err)
      | (s', response, None) \<Rightarrow> (s', responseErr response))"

text \<open>The pattern of the methods that return a lease.\<close>

definition client_lease ::
  "'s transport \<Rightarrow> int list \<Rightarrow> Request \<Rightarrow> 's \<Rightarrow> 's \<times> Lease \<times> goerr option" where
  "client_lease send supported request s =
     (case client_call send supported request s of
        (s', _, Some err) \<Rightarrow> (s', zeroLease, Some err)
      | (s', response, None) \<Rightarrow>
          (case responseErr response of
             Some err \<Rightarrow> (s', zeroLease, Some err)
           | None \<Rightarrow>
               (case rs_Lease response of
                  None \<Rightarrow> (s', zeroLease, Some err_other)
                | Some lease \<Rightarrow> (s', lease, None))))"

definition client_ApplyPolicy ::
  "'s transport \<Rightarrow> int list \<Rightarrow> HostPolicy \<Rightarrow> 's \<Rightarrow> 's \<times> goerr option" where
  "client_ApplyPolicy send vs policy =
     client_plain send vs ((emptyRequest CommandApplyPolicy)\<lparr>rq_Policy := Some policy\<rparr>)"

definition client_SetDemand ::
  "'s transport \<Rightarrow> int list \<Rightarrow> string \<Rightarrow> int \<Rightarrow> 's \<Rightarrow> 's \<times> goerr option" where
  "client_SetDemand send vs profileID pending =
     client_plain send vs ((emptyRequest CommandSetDemand)
       \<lparr>rq_ProfileID := profileID, rq_PendingDemand := pending\<rparr>)"

definition client_Acquire ::
  "'s transport \<Rightarrow> int list \<Rightarrow> string \<Rightarrow> string \<Rightarrow> int \<Rightarrow> 's \<Rightarrow> 's \<times> Lease \<times> goerr option" where
  "client_Acquire send vs profileID slotKey pendingDemand s =
     (case client_call send vs ((emptyRequest CommandAcquire)\<lparr>rq_ProfileID := profileID,
         rq_SlotKey := slotKey, rq_PendingDemand := pendingDemand\<rparr>) s of
        (s', _, Some err) \<Rightarrow> (s', zeroLease, Some err)
      | (s', response, None) \<Rightarrow>
          (case rs_Lease response of
             None \<Rightarrow>
               (s', zeroLease, Some (case responseErr response of Some err \<Rightarrow> err
                                     | None \<Rightarrow> err_other))
           | Some lease \<Rightarrow> (s', lease, responseErr response)))"

definition client_BindRegistration ::
  "'s transport \<Rightarrow> int list \<Rightarrow> string \<Rightarrow> string \<Rightarrow> string \<Rightarrow> 's \<Rightarrow> 's \<times> Lease \<times> goerr option" where
  "client_BindRegistration send vs profileID slotKey registrationName =
     client_lease send vs ((emptyRequest CommandBindRegistration)\<lparr>rq_ProfileID := profileID,
       rq_SlotKey := slotKey, rq_RegistrationName := registrationName\<rparr>)"

definition client_Adopt ::
  "'s transport \<Rightarrow> int list \<Rightarrow> string \<Rightarrow> string \<Rightarrow> 's \<Rightarrow> 's \<times> Lease \<times> goerr option" where
  "client_Adopt send vs profileID slotKey =
     client_lease send vs ((emptyRequest CommandAdopt)\<lparr>rq_ProfileID := profileID,
       rq_SlotKey := slotKey\<rparr>)"

definition client_BeginAdoption ::
  "'s transport \<Rightarrow> int list \<Rightarrow> string \<Rightarrow> 's \<Rightarrow> 's \<times> goerr option" where
  "client_BeginAdoption send vs profileID =
     client_plain send vs ((emptyRequest CommandBeginAdoption)\<lparr>rq_ProfileID := profileID\<rparr>)"

definition client_CompleteAdoption ::
  "'s transport \<Rightarrow> int list \<Rightarrow> string \<Rightarrow> 's \<Rightarrow> 's \<times> goerr option" where
  "client_CompleteAdoption send vs profileID =
     client_plain send vs ((emptyRequest CommandCompleteAdoption)\<lparr>rq_ProfileID := profileID\<rparr>)"

definition client_Renew ::
  "'s transport \<Rightarrow> int list \<Rightarrow> string \<Rightarrow> string \<Rightarrow> 's \<Rightarrow> 's \<times> Lease \<times> goerr option" where
  "client_Renew send vs profileID slotKey =
     client_lease send vs ((emptyRequest CommandRenew)\<lparr>rq_ProfileID := profileID,
       rq_SlotKey := slotKey\<rparr>)"

definition client_Activate ::
  "'s transport \<Rightarrow> int list \<Rightarrow> string \<Rightarrow> string \<Rightarrow> 's \<Rightarrow> 's \<times> Lease \<times> goerr option" where
  "client_Activate send vs profileID slotKey =
     client_lease send vs ((emptyRequest CommandActivate)\<lparr>rq_ProfileID := profileID,
       rq_SlotKey := slotKey\<rparr>)"

definition client_Release ::
  "'s transport \<Rightarrow> int list \<Rightarrow> string \<Rightarrow> string \<Rightarrow> 's \<Rightarrow> 's \<times> goerr option" where
  "client_Release send vs profileID slotKey =
     client_plain send vs ((emptyRequest CommandRelease)\<lparr>rq_ProfileID := profileID,
       rq_SlotKey := slotKey\<rparr>)"

definition client_Reconcile ::
  "'s transport \<Rightarrow> int list \<Rightarrow> string \<Rightarrow> string \<Rightarrow> string \<Rightarrow> 's \<Rightarrow> 's \<times> goerr option" where
  "client_Reconcile send vs profileID slotKey evidence =
     client_plain send vs ((emptyRequest CommandReconcile)\<lparr>rq_ProfileID := profileID,
       rq_SlotKey := slotKey, rq_Evidence := evidence\<rparr>)"

definition client_Status ::
  "'s transport \<Rightarrow> int list \<Rightarrow> 's \<Rightarrow> 's \<times> (goerr + Snapshot)" where
  "client_Status send vs s =
     (case client_call send vs (emptyRequest CommandStatus) s of
        (s', _, Some err) \<Rightarrow> (s', Inl err)
      | (s', response, None) \<Rightarrow>
          (case responseErr response of
             Some err \<Rightarrow> (s', Inl err)
           | None \<Rightarrow>
               (case rs_Snapshot response of
                  None \<Rightarrow> (s', Inl err_other)
                | Some snapshot \<Rightarrow>
                    (s', Inr (snapshot\<lparr>sn_ProtocolVersion := rs_ProtocolVersion response\<rparr>)))))"

definition exitCodeForError :: "goerr \<Rightarrow> int" where
  "exitCodeForError err =
     (if errors_Is err ErrBudgetExceeded \<or> errors_Is err ErrAdoptionPending then 3
      else if errors_Is err ErrLeaseNotFound then 4
      else if errors_Is err ErrUnknownProfile \<or> errors_Is err ErrInvalidPolicy
        \<or> errors_Is err ErrInvalidIdentity \<or> errors_Is err ErrStalePolicy
        \<or> errors_Is err ErrCorruptState \<or> errors_Is err ErrProtocolMismatch
        \<or> errors_Is err ErrLeaseExpired \<or> errors_Is err ErrLeaseNotProvisional then 5
      else 1)"

end
