(* ===== verification/Ledger_Inv.thy ===== *)
theory Ledger_Inv
  imports Coordinator
begin

text \<open>
  The ledger invariant, one predicate per field group, and how each field update of the
  coordinator keeps it. It is stronger than what \<^verbatim>\<open>validate\<close> checks on load: identities of
  live leases are syntactically valid, pending lists are sorted, sequences are bounded by the
  ledger's own, tombstones carry distinct sequences.
\<close>

named_theorems ledger_intros \<open>preservation of the parts of the ledger invariant\<close>

definition lease_ok :: "int \<Rightarrow> string \<times> Lease \<Rightarrow> bool" where
  "lease_ok q = (\<lambda>(k, l).
     profileIDPattern (lease_ProfileID l) \<and> slotKeyPattern (lease_SlotKey l)
     \<and> k = lease_key l \<and> 1 \<le> lease_Units l
     \<and> (lease_RegistrationName l = [] \<or> registrationNamePattern (lease_RegistrationName l))
     \<and> (lease_Status l = LeaseProvisional \<or> lease_Status l = LeaseActive)
     \<and> lease_LeaseID l = leaseID_for k (lease_GrantedAtSequence l)
     \<and> 0 < lease_GrantedAtSequence l \<and> lease_GrantedAtSequence l \<le> q)"

definition leases_ok :: "int \<Rightarrow> (string, Lease) gomap \<Rightarrow> bool" where
  "leases_ok q leases \<longleftrightarrow> map_ok leases \<and> (\<forall>e \<in> set leases. lease_ok q e)"

definition tomb_ok :: "int \<Rightarrow> string \<times> Tombstone \<Rightarrow> bool" where
  "tomb_ok q = (\<lambda>(k, t).
     profileIDPattern (tomb_ProfileID t) \<and> slotKeyPattern (tomb_SlotKey t)
     \<and> k = tomb_key t \<and> tomb_Sequence t \<le> q
     \<and> (\<exists>g. tomb_LeaseID t = leaseID_for k g \<and> 0 < g \<and> g < tomb_Sequence t))"

definition tombs_ok :: "int \<Rightarrow> (string, Tombstone) gomap \<Rightarrow> bool" where
  "tombs_ok q tombs \<longleftrightarrow> map_ok tombs \<and> (\<forall>e \<in> set tombs. tomb_ok q e)
     \<and> inj_on (\<lambda>e. tomb_Sequence (snd e)) (set tombs)"

definition pending_ok :: "(string, Lease) gomap \<Rightarrow> string \<Rightarrow> string \<Rightarrow> bool" where
  "pending_ok leases p k \<longleftrightarrow> slotKeyPattern k
     \<and> (\<exists>l. map_of leases (leaseKey_String p k) = Some l \<and> lease_Status l = LeaseActive)"

definition fence_ok :: "HostPolicy \<Rightarrow> (string, Lease) gomap \<Rightarrow> string \<times> AdoptionFence \<Rightarrow> bool" where
  "fence_ok pol leases = (\<lambda>(p, f).
     p = fence_ProfileID f \<and> profileIDPattern p \<and> policy_profile pol p \<noteq> None
     \<and> (\<exists>ks. fence_PendingLeaseKeys f = Some ks \<and> sorted ks \<and> distinct ks
          \<and> (\<forall>k \<in> set ks. pending_ok leases p k)))"

definition fences_ok ::
  "HostPolicy \<Rightarrow> (string, Lease) gomap \<Rightarrow> (string, AdoptionFence) gomap \<Rightarrow> bool" where
  "fences_ok pol leases fences \<longleftrightarrow> map_ok fences \<and> (\<forall>e \<in> set fences. fence_ok pol leases e)"

definition decision_ok :: "Decision \<Rightarrow> bool" where
  "decision_ok d \<longleftrightarrow> 0 \<le> dec_Sequence d \<and> isLeaseDecision (dec_Command d)
     \<and> profileIDPattern (dec_ProfileID d) \<and> ErrorCode_valid (dec_FailureCategory d)"

definition policy_ok :: "HostPolicy \<Rightarrow> bool" where
  "policy_ok p \<longleftrightarrow> p = zeroPolicy \<or> HostPolicy_validate p = None"

definition apart :: "(string, Lease) gomap \<Rightarrow> (string, Tombstone) gomap \<Rightarrow> bool" where
  "apart leases tombs \<longleftrightarrow> fst ` set leases \<inter> fst ` set tombs = {}"

text \<open>Everything but the bound on the tombstones, which compaction restores.\<close>

definition ledger_core :: "durableState \<Rightarrow> bool" where
  "ledger_core s \<longleftrightarrow>
     ds_SchemaVersion s = stateSchemaVersion \<and> 0 \<le> ds_Epoch s \<and> 0 \<le> ds_DecisionSequence s
     \<and> policy_ok (ds_Policy s)
     \<and> leases_ok (ds_DecisionSequence s) (ds_Leases s)
     \<and> tombs_ok (ds_DecisionSequence s) (ds_Tombstones s)
     \<and> apart (ds_Leases s) (ds_Tombstones s)
     \<and> fences_ok (ds_Policy s) (ds_Leases s) (ds_AdoptionFences s)
     \<and> (\<forall>d. ds_LastDecision s = Some d \<longrightarrow> decision_ok d)"

definition ledger_ok :: "durableState \<Rightarrow> bool" where
  "ledger_ok s \<longleftrightarrow> ledger_core s \<and> length (ds_Tombstones s) \<le> maxTombstones"

section \<open>The parts under updates\<close>

lemma lease_ok_mono: "lease_ok q e \<Longrightarrow> q \<le> r \<Longrightarrow> lease_ok r e"
  by (auto simp: lease_ok_def)

lemma leases_ok_mono [ledger_intros]: "leases_ok q ls \<Longrightarrow> q \<le> r \<Longrightarrow> leases_ok r ls"
  by (auto simp: leases_ok_def intro: lease_ok_mono)

lemma tombs_ok_mono [ledger_intros]: "tombs_ok q ts \<Longrightarrow> q \<le> r \<Longrightarrow> tombs_ok r ts"
  by (auto simp: tombs_ok_def tomb_ok_def)

lemma leases_ok_put [ledger_intros]:
  "leases_ok q ls \<Longrightarrow> q \<le> r \<Longrightarrow> lease_ok r (k, l) \<Longrightarrow> leases_ok r (mput ls k l)"
  by (auto simp: leases_ok_def set_mput intro: lease_ok_mono)

lemma leases_ok_del [ledger_intros]: "leases_ok q ls \<Longrightarrow> leases_ok q (mdel ls k)"
  by (auto simp: leases_ok_def set_mdel)

lemma tombs_ok_del [ledger_intros]: "tombs_ok q ts \<Longrightarrow> tombs_ok q (mdel ts k)"
  by (auto simp: tombs_ok_def set_mdel intro: inj_on_subset)

lemma tombs_ok_put [ledger_intros]:
  assumes "tombs_ok q ts" and "tomb_ok r (k, t)" and "q < tomb_Sequence t" and "q \<le> r"
  shows "tombs_ok r (mput ts k t)"
proof -
  have old: "tomb_Sequence (snd e) < tomb_Sequence t" if "e \<in> set ts" for e
    using assms(1,3) that by (auto simp: tombs_ok_def tomb_ok_def)
  have "inj_on (\<lambda>e. tomb_Sequence (snd e)) (insert (k, t) {e \<in> set ts. fst e \<noteq> k})"
    using assms(1) old by (fastforce simp: tombs_ok_def inj_on_def)
  with assms show ?thesis
    using tombs_ok_mono [OF assms(1,4)] by (auto simp: tombs_ok_def set_mput)
qed

lemma apart_put [ledger_intros]: "apart ls ts \<Longrightarrow> apart (mput ls k l) (mdel ts k)"
  by (auto simp: apart_def keys_mput keys_mdel)

lemma apart_swap [ledger_intros]: "apart ls ts \<Longrightarrow> apart (mdel ls k) (mput ts k t)"
  by (auto simp: apart_def keys_mput keys_mdel)

lemma apart_put_live:
  "apart ls ts \<Longrightarrow> map_of ls k \<noteq> None \<Longrightarrow> apart (mput ls k l) ts"
  by (auto simp: apart_def keys_mput map_of_eq_None_iff)

lemma apart_no_tombstone: "apart ls ts \<Longrightarrow> map_of ls k \<noteq> None \<Longrightarrow> map_of ts k = None"
  by (auto simp: apart_def map_of_eq_None_iff)

lemma fences_ok_leases [ledger_intros]:
  assumes "fences_ok pol ls fs"
    and "\<And>p f k. (p, f) \<in> set fs \<Longrightarrow> k \<in> set (pending_keys f) \<Longrightarrow> pending_ok ls p k
      \<Longrightarrow> pending_ok ls' p k"
  shows "fences_ok pol ls' fs"
  using assms unfolding fences_ok_def fence_ok_def
  by (fastforce simp: pending_keys_def)

text \<open>A lease that is not pending may change; a pending one must stay active.\<close>

lemma pending_ok_put:
  "pending_ok ls p k \<Longrightarrow> (leaseKey_String p k = j \<longrightarrow> lease_Status l = LeaseActive)
    \<Longrightarrow> pending_ok (mput ls j l) p k"
  by (auto simp: pending_ok_def)

lemma pending_ok_del:
  "pending_ok ls p k \<Longrightarrow> leaseKey_String p k \<noteq> j \<Longrightarrow> pending_ok (mdel ls j) p k"
  by (auto simp: pending_ok_def)

lemma fences_ok_subset [ledger_intros]:
  "fences_ok pol ls fs \<Longrightarrow> fences_ok pol ls (filter P fs)"
  by (auto simp: fences_ok_def intro: map_ok_filter)

lemma fences_ok_del [ledger_intros]: "fences_ok pol ls fs \<Longrightarrow> fences_ok pol ls (mdel fs p)"
  by (auto simp: fences_ok_def set_mdel)

lemma fences_ok_put [ledger_intros]:
  "fences_ok pol ls fs \<Longrightarrow> fence_ok pol ls (p, f) \<Longrightarrow> fences_ok pol ls (mput fs p f)"
  by (auto simp: fences_ok_def set_mput)

lemma fences_ok_lookup: "fences_ok pol ls fs \<Longrightarrow> map_of fs p = Some f \<Longrightarrow> fence_ok pol ls (p, f)"
  by (auto simp: fences_ok_def dest: map_of_SomeD)

lemma leases_ok_lookup: "leases_ok q ls \<Longrightarrow> map_of ls k = Some l \<Longrightarrow> lease_ok q (k, l)"
  by (auto simp: leases_ok_def dest: map_of_SomeD)

section \<open>Cloning, compaction, validation\<close>

lemma clone_id: assumes "ledger_core s" shows "clone s = s"
proof -
  have "map (\<lambda>(k, f). (k, clone_fence f)) (ds_AdoptionFences s) = ds_AdoptionFences s"
    using assms unfolding ledger_core_def fences_ok_def
    by (intro map_idI) (auto simp: fence_ok_def clone_fence_def pending_keys_def)
  then show ?thesis by (simp add: clone_def)
qed

lemma compact_length: "length (ds_Tombstones (compactTombstones ks s)) \<le> maxTombstones"
  by (simp add: compactTombstones_def)

lemma compact_other_fields [simp]:
  "ds_SchemaVersion (compactTombstones ks s) = ds_SchemaVersion s"
  "ds_Epoch (compactTombstones ks s) = ds_Epoch s"
  "ds_DecisionSequence (compactTombstones ks s) = ds_DecisionSequence s"
  "ds_Policy (compactTombstones ks s) = ds_Policy s"
  "ds_Leases (compactTombstones ks s) = ds_Leases s"
  "ds_AdoptionFences (compactTombstones ks s) = ds_AdoptionFences s"
  "ds_LastDecision (compactTombstones ks s) = ds_LastDecision s"
  by (simp_all add: compactTombstones_def)

lemma compact_subset:
  "map_ok (ds_Tombstones s) \<Longrightarrow>
     set (ds_Tombstones (compactTombstones ks s)) \<subseteq> set (ds_Tombstones s)"
  by (auto simp: compactTombstones_def set_in_order dest!: in_set_takeD)

lemma compact_map_ok:
  assumes "map_ok (ds_Tombstones s)"
  shows "map_ok (ds_Tombstones (compactTombstones ks s))"
proof (cases "length (ds_Tombstones s) \<le> maxTombstones")
  case True
  with assms show ?thesis by (simp add: compactTombstones_def)
next
  case False
  let ?sorted = "sort_key (\<lambda>e. - tomb_Sequence (snd e)) (in_order ks (ds_Tombstones s))"
  have "mset (map fst ?sorted) = mset (map fst (in_order ks (ds_Tombstones s)))"
    by (metis mset_map mset_sort)
  then have "map_ok ?sorted"
    using map_ok_in_order [OF assms, of ks] by (metis mset_eq_imp_distinct_iff)
  then have "map_ok (take maxTombstones ?sorted)"
    by (metis distinct_take take_map)
  with False show ?thesis by (simp add: compactTombstones_def)
qed

lemma ledger_ok_compact: assumes "ledger_core s" shows "ledger_ok (compactTombstones ks s)"
proof -
  have ok: "map_ok (ds_Tombstones s)" using assms by (simp add: ledger_core_def tombs_ok_def)
  note sub = compact_subset [OF ok, of ks]
  have "tombs_ok (ds_DecisionSequence s) (ds_Tombstones (compactTombstones ks s))"
    using assms sub compact_map_ok [OF ok, of ks]
    by (auto simp: ledger_core_def tombs_ok_def intro: inj_on_subset)
  moreover have "apart (ds_Leases s) (ds_Tombstones (compactTombstones ks s))"
    using assms sub by (auto simp: ledger_core_def apart_def)
  ultimately show ?thesis
    using assms by (simp add: ledger_ok_def ledger_core_def compact_length)
qed

lemma check_pending_None:
  "check_pending ls p seen ks = None \<longleftrightarrow>
     (\<forall>k \<in> set ks. pending_ok ls p k) \<and> distinct ks \<and> set ks \<inter> set seen = {}"
proof (induction ks arbitrary: seen)
  case (Cons k ks)
  show ?case
    by (cases "map_of ls (leaseKey_String p k)")
      (auto simp: Cons.IH pending_ok_def validateSlotKey_def)
qed simp

text \<open>Every ledger that satisfies the invariant is accepted when it is loaded again.\<close>

lemma lease_ok_check: "lease_ok q e \<Longrightarrow> check_lease e = None"
  by (cases e) (auto simp: lease_ok_def check_lease_def fail_if_def validateRegistrationName_def
      dest: profileIDPattern_nonempty slotKeyPattern_nonempty)

lemma tomb_ok_check: "tomb_ok q e \<Longrightarrow> check_tombstone e = None"
  by (cases e) (simp add: tomb_ok_def check_tombstone_def)

lemma fence_ok_check:
  "fence_ok (ds_Policy s) (ds_Leases s) e \<Longrightarrow> check_fence s e = None"
  by (cases e) (auto simp: fence_ok_def check_fence_def check_pending_None)

lemma decision_ok_check: "decision_ok d \<Longrightarrow> check_decision d = None"
  by (simp add: decision_ok_def check_decision_def)

lemma ledger_ok_validates: assumes "ledger_core s" shows "durableState_validate s = None"
proof -
  have p: "\<not> (hp_Generation (ds_Policy s) > 0 \<and> HostPolicy_validate (ds_Policy s) \<noteq> None)"
    using assms by (auto simp: ledger_core_def policy_ok_def zeroPolicy_def)
  have a: "\<forall>(k, l) \<in> set (ds_Leases s). map_of (ds_Tombstones s) k = None"
    using assms by (force simp: ledger_core_def apart_def map_of_eq_None_iff)
  have l: "\<forall>e \<in> set (ds_Leases s). check_lease e = None"
    using assms lease_ok_check by (auto simp: ledger_core_def leases_ok_def)
  have t: "\<forall>e \<in> set (ds_Tombstones s). check_tombstone e = None"
    using assms tomb_ok_check by (auto simp: ledger_core_def tombs_ok_def)
  have f: "\<forall>e \<in> set (ds_AdoptionFences s). check_fence s e = None"
    using assms fence_ok_check by (auto simp: ledger_core_def fences_ok_def)
  have d: "(case ds_LastDecision s of None \<Rightarrow> None | Some d \<Rightarrow> check_decision d) = None"
    using assms by (auto simp: ledger_core_def decision_ok_check split: option.split)
  have b: "ds_SchemaVersion s = stateSchemaVersion" "0 \<le> ds_Epoch s" "0 \<le> ds_DecisionSequence s"
    using assms by (simp_all add: ledger_core_def)
  show ?thesis
    unfolding durableState_validate_def first_error_None
    using p l t f b a by (auto simp: d)
qed

end
