(* ===== verification/Ledger_Steps.thy ===== *)
theory Ledger_Steps
  imports Ledger_Inv
begin

text \<open>
  The ledger's abstract transition system. A coordinator operation saves a sequence of whole
  ledgers; here each kind of save is one labelled rule, with the conditions under which the
  code performs it as premises. The ledger invariant is proved over the rules; the next theory
  shows that every operation only takes such steps.
\<close>

section \<open>Fence accounting\<close>

lemma remove_nth_distinct:
  assumes "distinct xs" and "i < length xs"
  shows "take i xs @ drop (i + 1) xs = filter (\<lambda>y. y \<noteq> xs ! i) xs"
proof -
  have split: "xs = take i xs @ xs ! i # drop (i + 1) xs"
    using assms(2) by (simp add: id_take_nth_drop)
  have "xs ! i \<notin> set (take i xs)" and "xs ! i \<notin> set (drop (i + 1) xs)"
    using assms(1) by (subst (asm) (1) split, simp)+
  then have "filter (\<lambda>y. y \<noteq> xs ! i) (take i xs @ xs ! i # drop (i + 1) xs)
      = take i xs @ drop (i + 1) xs"
    using filter_True [of "take i xs" "\<lambda>y. y \<noteq> xs ! i"]
      filter_True [of "drop (i + 1) xs" "\<lambda>y. y \<noteq> xs ! i"] by fastforce
  with split show ?thesis by metis
qed

text \<open>On a sorted list without duplicates the slice surgery removes exactly the slot key.\<close>

definition account_fence :: "string \<Rightarrow> AdoptionFence \<Rightarrow> AdoptionFence" where
  "account_fence k f = f\<lparr>fence_PendingLeaseKeys := Some (filter (\<lambda>y. y \<noteq> k) (pending_keys f))\<rparr>"

lemma markLeaseAccounted_eq:
  assumes "fences_ok pol ls (ds_AdoptionFences s)"
  shows "markLeaseAccountedForAdoption s p k =
    (case map_of (ds_AdoptionFences s) p of
       None \<Rightarrow> (s, False)
     | Some f \<Rightarrow>
         if k \<in> set (pending_keys f)
         then (s\<lparr>ds_AdoptionFences := mput (ds_AdoptionFences s) p (account_fence k f)\<rparr>, True)
         else (s, False))"
proof (cases "map_of (ds_AdoptionFences s) p")
  case None
  then show ?thesis by (simp add: markLeaseAccountedForAdoption_def)
next
  case (Some f)
  have ok: "sorted (pending_keys f)" "distinct (pending_keys f)"
    using fences_ok_lookup [OF assms Some] by (auto simp: fence_ok_def pending_keys_def)
  let ?r = "SearchStrings (pending_keys f) k"
  note found = SearchStrings_found [OF ok(1), of k]
  show ?thesis
  proof (cases "k \<in> set (pending_keys f)")
    case True
    with found have r: "?r < length (pending_keys f)" "pending_keys f ! ?r = k" by auto
    then show ?thesis
      using Some True remove_nth_distinct [OF ok(2) r(1)]
      by (auto simp: markLeaseAccountedForAdoption_def account_fence_def Let_def)
  next
    case False
    with found Some show ?thesis
      by (auto simp: markLeaseAccountedForAdoption_def Let_def not_less)
  qed
qed

lemma markLeaseAccounted_fields [simp]:
  "ds_SchemaVersion (fst (markLeaseAccountedForAdoption s p k)) = ds_SchemaVersion s"
  "ds_Epoch (fst (markLeaseAccountedForAdoption s p k)) = ds_Epoch s"
  "ds_DecisionSequence (fst (markLeaseAccountedForAdoption s p k)) = ds_DecisionSequence s"
  "ds_Policy (fst (markLeaseAccountedForAdoption s p k)) = ds_Policy s"
  "ds_Leases (fst (markLeaseAccountedForAdoption s p k)) = ds_Leases s"
  "ds_Tombstones (fst (markLeaseAccountedForAdoption s p k)) = ds_Tombstones s"
  "ds_LastDecision (fst (markLeaseAccountedForAdoption s p k)) = ds_LastDecision s"
  by (auto simp: markLeaseAccountedForAdoption_def Let_def split: option.splits)

lemma markLeaseAccounted_shape:
  "fst (markLeaseAccountedForAdoption s p k)
     = s\<lparr>ds_AdoptionFences := ds_AdoptionFences (fst (markLeaseAccountedForAdoption s p k))\<rparr>"
  by (auto simp: markLeaseAccountedForAdoption_def Let_def split: option.splits)

lemma fences_ok_account:
  assumes fs: "fences_ok pol ls (ds_AdoptionFences s)"
    and keep: "\<And>q j. pending_ok ls q j \<Longrightarrow> profileIDPattern q \<Longrightarrow> (q, j) \<noteq> (p, k) \<Longrightarrow> pending_ok ls' q j"
  shows "fences_ok pol ls' (ds_AdoptionFences (fst (markLeaseAccountedForAdoption s p k)))"
proof -
  let ?fs = "ds_AdoptionFences s"
  have other: "fence_ok pol ls' (q, f)"
    if "fence_ok pol ls (q, f)" "q = p \<longrightarrow> k \<notin> set (pending_keys f)" for q f
    using that keep unfolding fence_ok_def pending_keys_def by fastforce
  have acc: "fence_ok pol ls' (p, account_fence k f)" if "fence_ok pol ls (p, f)" for f
    using that keep
    by (auto simp: fence_ok_def pending_keys_def account_fence_def intro: sorted_wrt_filter)
  have mem: "fence_ok pol ls (q, f)" "map_of ?fs q = Some f" if "(q, f) \<in> set ?fs" for q f
    using fs that by (auto simp: fences_ok_def map_of_mem)
  show ?thesis
  proof (cases "\<exists>f. map_of ?fs p = Some f \<and> k \<in> set (pending_keys f)")
    case True
    then obtain f where f: "map_of ?fs p = Some f" "k \<in> set (pending_keys f)" by blast
    have "fence_ok pol ls' (q, g)" if "(q, g) \<in> set (mput ?fs p (account_fence k f))" for q g
      using that fs mem acc other fences_ok_lookup [OF fs f(1)]
      by (auto simp: set_mput fences_ok_def)
    with f fs show ?thesis
      by (auto simp: markLeaseAccounted_eq [OF fs] fences_ok_def)
  next
    case False
    then have "ds_AdoptionFences (fst (markLeaseAccountedForAdoption s p k)) = ?fs"
      by (auto simp: markLeaseAccounted_eq [OF fs] split: option.splits)
    moreover have "fence_ok pol ls' (q, g)" if "(q, g) \<in> set ?fs" for q g
      using False mem(2) [OF that] by (intro other mem(1) [OF that]) auto
    ultimately show ?thesis using fs by (auto simp: fences_ok_def)
  qed
qed

section \<open>The two shapes of change\<close>

text \<open>A lease is entered or replaced under a new sequence.\<close>

lemma ledger_core_put:
  assumes s: "ledger_core s" and l: "lease_ok (ds_DecisionSequence s + 1) (key, l)"
    and t: "ts = mdel (ds_Tombstones s) key \<or>
      ts = ds_Tombstones s \<and> map_of (ds_Leases s) key \<noteq> None"
    and f: "fences_ok (ds_Policy s) (mput (ds_Leases s) key l) fs"
  shows "ledger_core (s\<lparr>ds_DecisionSequence := ds_DecisionSequence s + 1,
    ds_Leases := mput (ds_Leases s) key l, ds_Tombstones := ts, ds_AdoptionFences := fs\<rparr>)"
proof -
  let ?q = "ds_DecisionSequence s"
  have parts: "leases_ok ?q (ds_Leases s)" "tombs_ok ?q (ds_Tombstones s)"
    "apart (ds_Leases s) (ds_Tombstones s)"
    using s by (simp_all add: ledger_core_def)
  have "tombs_ok (?q + 1) ts"
    using t parts(2) by (auto intro: tombs_ok_mono tombs_ok_del)
  moreover have "apart (mput (ds_Leases s) key l) ts"
    using t parts(3) by (auto intro: apart_put apart_put_live)
  moreover have "leases_ok (?q + 1) (mput (ds_Leases s) key l)"
    using parts(1) l by (auto intro: leases_ok_put)
  ultimately show ?thesis using s f by (simp add: ledger_core_def)
qed

text \<open>A lease leaves for a tombstone under a new sequence.\<close>

lemma ledger_core_remove:
  assumes s: "ledger_core s" and l: "map_of (ds_Leases s) key = Some l"
    and t: "tomb_ProfileID t = lease_ProfileID l" "tomb_SlotKey t = lease_SlotKey l"
      "tomb_LeaseID t = lease_LeaseID l" "tomb_Sequence t = ds_DecisionSequence s + 1"
    and f: "fences_ok (ds_Policy s) (mdel (ds_Leases s) key) fs"
  shows "ledger_core (s\<lparr>ds_DecisionSequence := ds_DecisionSequence s + 1,
    ds_Leases := mdel (ds_Leases s) key, ds_Tombstones := mput (ds_Tombstones s) key t,
    ds_AdoptionFences := fs\<rparr>)"
proof -
  let ?q = "ds_DecisionSequence s"
  have parts: "leases_ok ?q (ds_Leases s)" "tombs_ok ?q (ds_Tombstones s)"
    "apart (ds_Leases s) (ds_Tombstones s)"
    using s by (simp_all add: ledger_core_def)
  have "tomb_ok (?q + 1) (key, t)"
    using leases_ok_lookup [OF parts(1) l] t
    by (auto simp: lease_ok_def tomb_ok_def tomb_key_def lease_key_def)
  with parts(2) t(4) have "tombs_ok (?q + 1) (mput (ds_Tombstones s) key t)"
    by (intro tombs_ok_put [OF parts(2)]) auto
  moreover have "leases_ok (?q + 1) (mdel (ds_Leases s) key)"
    by (rule leases_ok_mono [OF leases_ok_del [OF parts(1)]]) simp
  moreover have "apart (mdel (ds_Leases s) key) (mput (ds_Tombstones s) key t)"
    using parts(3) by (rule apart_swap)
  ultimately show ?thesis using s f by (simp add: ledger_core_def)
qed

lemma pending_del_provisional:
  assumes "map_of ls key = Some l" and "lease_Status l \<noteq> LeaseActive" and "pending_ok ls p k"
  shows "pending_ok (mdel ls key) p k"
  using assms by (auto simp: pending_ok_def)

lemma ledger_core_bury:
  assumes "ledger_core s" and "map_of (ds_Leases s) key = Some l"
    and "lease_Status l = LeaseProvisional"
  shows "ledger_core (bury r (key, l) s)"
proof -
  have "fences_ok (ds_Policy s) (mdel (ds_Leases s) key) (ds_AdoptionFences s)"
    using assms unfolding ledger_core_def
    by (metis LeaseStatus.distinct(1) fences_ok_leases pending_del_provisional)
  from ledger_core_remove [OF assms(1,2) _ _ _ _ this,
      of "tombstone_of l r [] (ds_DecisionSequence s + 1)"]
  show ?thesis by (simp add: bury_def tombstone_of_def Let_def)
qed

lemma ledger_core_bury_all:
  assumes "ledger_core s" and "distinct (map fst dead)"
    and "\<forall>e \<in> set dead. map_of (ds_Leases s) (fst e) = Some (snd e)
      \<and> lease_Status (snd e) = LeaseProvisional"
  shows "ledger_core (fold (bury r) dead s)"
  using assms
proof (induction dead arbitrary: s)
  case (Cons e dead)
  obtain key l where e: "e = (key, l)" by force
  have core: "ledger_core (bury r e s)" using Cons.prems e ledger_core_bury by simp
  have "fst x \<noteq> key" if "x \<in> set dead" for x using Cons.prems(2) e that by auto
  then have "\<forall>x \<in> set dead. map_of (ds_Leases (bury r e s)) (fst x) = Some (snd x)
      \<and> lease_Status (snd x) = LeaseProvisional"
    using Cons.prems(3) e by (auto simp: bury_def Let_def)
  with Cons.IH [OF core] Cons.prems(2) show ?case by simp
qed simp

section \<open>The transition system\<close>

text \<open>What a save recorded, with the profile and slot it is about.\<close>

datatype event =
    Expired
  | Granted string string
  | Refreshed string string
  | Activated string string
  | Adopted string string
  | Accounted string string
  | Removed string string
  | PolicyApplied
  | FenceOpened string
  | FenceClosed string
  | Decided

text \<open>The fields of a lease fixed at its grant.\<close>

definition same_grant :: "Lease \<Rightarrow> Lease \<Rightarrow> bool" where
  "same_grant l m \<longleftrightarrow> lease_ProfileID m = lease_ProfileID l \<and> lease_SlotKey m = lease_SlotKey l
     \<and> lease_LeaseID m = lease_LeaseID l \<and> lease_Units m = lease_Units l
     \<and> lease_GrantedAtSequence m = lease_GrantedAtSequence l"

text \<open>A lease created by a grant or an adoption with sequence \<open>q\<close>.\<close>

definition fresh_lease :: "string \<Rightarrow> string \<Rightarrow> int \<Rightarrow> int \<Rightarrow> LeaseStatus \<Rightarrow> Lease \<Rightarrow> bool" where
  "fresh_lease p k units q status l \<longleftrightarrow>
     lease_ProfileID l = p \<and> lease_SlotKey l = k \<and> lease_RegistrationName l = []
     \<and> lease_Units l = units \<and> lease_Status l = status \<and> lease_GrantedAtSequence l = q
     \<and> lease_LeaseID l = leaseID_for (leaseKey_String p k) q"

text \<open>
  The premises of a grant: no adoption fence anywhere, no live lease for the slot, a policy
  for the profile, and room in the host budget while the units in the ledger fit an int.
\<close>

definition grantable :: "durableState \<Rightarrow> string \<Rightarrow> string \<Rightarrow> int \<Rightarrow> bool" where
  "grantable s p k units \<longleftrightarrow>
     profileIDPattern p \<and> slotKeyPattern k \<and> ds_AdoptionFences s = []
     \<and> map_of (ds_Leases s) (leaseKey_String p k) = None
     \<and> (\<exists>pp. policy_profile (ds_Policy s) p = Some pp \<and> units = pp_UnitCost pp)
     \<and> (units_fit (ds_Leases s) \<and> hp_TotalUnits (ds_Policy s) \<le> max_int64
          \<longrightarrow> total_units (ds_Leases s) + units \<le> hp_TotalUnits (ds_Policy s))"

inductive step :: "event \<Rightarrow> durableState \<Rightarrow> durableState \<Rightarrow> bool" where
  expired:
    "\<lbrakk>distinct (map fst dead);
      \<forall>e \<in> set dead. map_of (ds_Leases s) (fst e) = Some (snd e)
        \<and> lease_Status (snd e) = LeaseProvisional\<rbrakk>
     \<Longrightarrow> step Expired s (compactTombstones ks (fold (bury r) dead s))"
| granted:
    "\<lbrakk>grantable s p k units;
      fresh_lease p k units (ds_DecisionSequence s + 1) LeaseProvisional l\<rbrakk>
     \<Longrightarrow> step (Granted p k) s (s\<lparr>ds_DecisionSequence := ds_DecisionSequence s + 1,
           ds_Tombstones := mdel (ds_Tombstones s) (leaseKey_String p k),
           ds_Leases := mput (ds_Leases s) (leaseKey_String p k) l\<rparr>)"
| refreshed:
    "\<lbrakk>map_of (ds_Leases s) (leaseKey_String p k) = Some l; same_grant l m;
      lease_Status m = lease_Status l;
      lease_RegistrationName m = lease_RegistrationName l
        \<or> registrationNamePattern (lease_RegistrationName m)\<rbrakk>
     \<Longrightarrow> step (Refreshed p k) s (s\<lparr>ds_DecisionSequence := ds_DecisionSequence s + 1,
           ds_Leases := mput (ds_Leases s) (leaseKey_String p k) m\<rparr>)"
| activated:
    "\<lbrakk>map_of (ds_Leases s) (leaseKey_String p k) = Some l; same_grant l m;
      lease_Status l = LeaseProvisional; lease_Status m = LeaseActive;
      lease_RegistrationName m = lease_RegistrationName l\<rbrakk>
     \<Longrightarrow> step (Activated p k) s (s\<lparr>ds_DecisionSequence := ds_DecisionSequence s + 1,
           ds_Leases := mput (ds_Leases s) (leaseKey_String p k) m\<rparr>)"
| adopted:
    "\<lbrakk>profileIDPattern p; slotKeyPattern k; policy_profile (ds_Policy s) p = Some pp;
      case map_of (ds_Leases s) (leaseKey_String p k) of
        None \<Rightarrow> fresh_lease p k (pp_UnitCost pp) (ds_DecisionSequence s + 1) LeaseActive m
      | Some l \<Rightarrow> same_grant l m \<and> lease_Status l = LeaseProvisional \<and> lease_Status m = LeaseActive
          \<and> lease_RegistrationName m = lease_RegistrationName l\<rbrakk>
     \<Longrightarrow> step (Adopted p k) s (fst (markLeaseAccountedForAdoption
           (s\<lparr>ds_DecisionSequence := ds_DecisionSequence s + 1,
              ds_Tombstones := mdel (ds_Tombstones s) (leaseKey_String p k),
              ds_Leases := mput (ds_Leases s) (leaseKey_String p k) m\<rparr>) p k))"
| accounted:
    "step (Accounted p k) s (fst (markLeaseAccountedForAdoption s p k))"
| removed:
    "\<lbrakk>profileIDPattern p; map_of (ds_Leases s) (leaseKey_String p k) = Some l;
      tomb_ProfileID t = p; tomb_SlotKey t = k; tomb_LeaseID t = lease_LeaseID l;
      tomb_Sequence t = ds_DecisionSequence s + 1\<rbrakk>
     \<Longrightarrow> step (Removed p k) s (compactTombstones ks
           ((fst (markLeaseAccountedForAdoption
              (s\<lparr>ds_DecisionSequence := ds_DecisionSequence s + 1,
                 ds_Leases := mdel (ds_Leases s) (leaseKey_String p k)\<rparr>) p k))
            \<lparr>ds_Tombstones := mput (ds_Tombstones s) (leaseKey_String p k) t\<rparr>))"
| policy_applied:
    "\<lbrakk>HostPolicy_validate pol = None; hp_Generation (ds_Policy s) < hp_Generation pol\<rbrakk>
     \<Longrightarrow> step PolicyApplied s (s\<lparr>ds_Policy := pol, ds_Epoch := ds_Epoch s + 1,
           ds_AdoptionFences := filter (\<lambda>(p, f). policy_profile pol p \<noteq> None)
             (ds_AdoptionFences s)\<rparr>)"
| fence_opened:
    "\<lbrakk>profileIDPattern p; policy_profile (ds_Policy s) p \<noteq> None\<rbrakk>
     \<Longrightarrow> step (FenceOpened p) s (s\<lparr>ds_Epoch := ds_Epoch s + 1,
           ds_AdoptionFences := mput (ds_AdoptionFences s) p \<lparr>fence_ProfileID = p,
             fence_PendingLeaseKeys = Some (activeLeaseSlotKeys (ds_Leases s) p)\<rparr>\<rparr>)"
| fence_closed:
    "\<lbrakk>map_of (ds_AdoptionFences s) p = Some f; pending_keys f = []\<rbrakk>
     \<Longrightarrow> step (FenceClosed p) s (s\<lparr>ds_Epoch := ds_Epoch s + 1,
           ds_AdoptionFences := mdel (ds_AdoptionFences s) p\<rparr>)"
| decided:
    "decision_ok d \<Longrightarrow> step Decided s (s\<lparr>ds_LastDecision := Some d\<rparr>)"

section \<open>The invariant is preserved\<close>

lemma lease_ok_same_grant:
  assumes "lease_ok q (key, l)" and "same_grant l m" and "q \<le> r"
    and "lease_Status m = lease_Status l \<or> lease_Status m = LeaseActive"
    and "lease_RegistrationName m = lease_RegistrationName l
      \<or> registrationNamePattern (lease_RegistrationName m)"
  shows "lease_ok r (key, m)"
  using assms by (auto simp: lease_ok_def same_grant_def lease_key_def)

lemma lease_ok_fresh:
  assumes "fresh_lease p k units (q + 1) status l" and "0 \<le> q" and "1 \<le> units"
    and "profileIDPattern p" and "slotKeyPattern k"
    and "status = LeaseProvisional \<or> status = LeaseActive"
  shows "lease_ok (q + 1) (leaseKey_String p k, l)"
  using assms by (auto simp: lease_ok_def fresh_lease_def lease_key_def)

lemma policy_ok_cost: "policy_ok pol \<Longrightarrow> policy_profile pol p = Some pp \<Longrightarrow> 1 \<le> pp_UnitCost pp"
  by (auto simp: policy_ok_def zeroPolicy_def HostPolicy_validate_None profile_ok_def
      dest!: policy_profile_Some)

lemma active_keys_mem:
  "k \<in> set (activeLeaseSlotKeys ls p) \<longleftrightarrow>
     (\<exists>e \<in> set ls. lease_ProfileID (snd e) = p \<and> lease_Status (snd e) = LeaseActive
        \<and> lease_SlotKey (snd e) = k)"
  by (auto simp: activeLeaseSlotKeys_def)

lemma fence_ok_active_keys:
  assumes "leases_ok q ls" and "profileIDPattern p" and "policy_profile pol p \<noteq> None"
  shows "fence_ok pol ls (p, \<lparr>fence_ProfileID = p,
    fence_PendingLeaseKeys = Some (activeLeaseSlotKeys ls p)\<rparr>)"
proof -
  let ?act = "filter (\<lambda>e. lease_ProfileID (snd e) = p \<and> lease_Status (snd e) = LeaseActive) ls"
  have key: "fst e = leaseKey_String p (lease_SlotKey (snd e))" "slotKeyPattern (lease_SlotKey (snd e))"
    if "e \<in> set ?act" for e
  proof -
    have "lease_ok q (fst e, snd e)" "lease_ProfileID (snd e) = p"
      using assms(1) that by (auto simp: leases_ok_def)
    then show "fst e = leaseKey_String p (lease_SlotKey (snd e))"
      and "slotKeyPattern (lease_SlotKey (snd e))"
      unfolding lease_ok_def lease_key_def by auto
  qed
  have "map fst ?act = map (leaseKey_String p) (map (lease_SlotKey \<circ> snd) ?act)"
    unfolding map_map using key(1) by (intro map_cong) simp_all
  moreover have "distinct (map fst ?act)"
    using assms(1) unfolding leases_ok_def by (blast intro: map_ok_filter)
  ultimately have "distinct (map (leaseKey_String p) (map (lease_SlotKey \<circ> snd) ?act))"
    by (simp only:)
  then have "distinct (map (lease_SlotKey \<circ> snd) ?act)"
    by (simp only: distinct_map)
  then have "distinct (activeLeaseSlotKeys ls p)"
    by (simp add: activeLeaseSlotKeys_def comp_def)
  moreover have "pending_ok ls p k" if k: "k \<in> set (activeLeaseSlotKeys ls p)" for k
  proof -
    obtain e where e: "e \<in> set ?act" "lease_SlotKey (snd e) = k"
      using k by (auto simp: active_keys_mem)
    then have "map_of ls (fst e) = Some (snd e)"
      using assms(1) by (simp add: leases_ok_def)
    then have "map_of ls (leaseKey_String p k) = Some (snd e)"
      using key(1) [OF e(1)] e(2) by simp
    moreover have "lease_Status (snd e) = LeaseActive" "slotKeyPattern k"
      using e key(2) [OF e(1)] by auto
    ultimately show ?thesis by (simp add: pending_ok_def)
  qed
  moreover have "sorted (activeLeaseSlotKeys ls p)"
    by (simp add: activeLeaseSlotKeys_def)
  ultimately show ?thesis
    using assms(2,3) by (simp add: fence_ok_def)
qed

lemma pending_ok_put_same:
  assumes "map_of ls key = Some l" and "lease_Status l = LeaseActive \<longrightarrow> lease_Status m = LeaseActive"
    and "pending_ok ls p k"
  shows "pending_ok (mput ls key m) p k"
  using assms by (auto simp: pending_ok_def)

lemma fences_ok_put_same:
  assumes "fences_ok pol ls fs" and "map_of ls key = Some l"
    and "lease_Status l = LeaseActive \<longrightarrow> lease_Status m = LeaseActive"
  shows "fences_ok pol (mput ls key m) fs"
  using fences_ok_leases [OF assms(1)] pending_ok_put_same [OF assms(2,3)] by blast

lemma ledger_core_replace:
  assumes s: "ledger_core s" and l: "map_of (ds_Leases s) key = Some l" and "same_grant l m"
    and st: "lease_Status m = lease_Status l \<or> lease_Status m = LeaseActive"
    and "lease_RegistrationName m = lease_RegistrationName l
      \<or> registrationNamePattern (lease_RegistrationName m)"
  shows "ledger_core (s\<lparr>ds_DecisionSequence := ds_DecisionSequence s + 1,
    ds_Leases := mput (ds_Leases s) key m\<rparr>)"
proof -
  have "lease_ok (ds_DecisionSequence s + 1) (key, m)"
    by (rule lease_ok_same_grant [of "ds_DecisionSequence s" _ l])
      (use assms leases_ok_lookup in \<open>auto simp: ledger_core_def\<close>)
  moreover have "fences_ok (ds_Policy s) (mput (ds_Leases s) key m) (ds_AdoptionFences s)"
    using s l st by (intro fences_ok_put_same) (auto simp: ledger_core_def)
  ultimately have "ledger_core (s\<lparr>ds_DecisionSequence := ds_DecisionSequence s + 1,
      ds_Leases := mput (ds_Leases s) key m, ds_Tombstones := ds_Tombstones s,
      ds_AdoptionFences := ds_AdoptionFences s\<rparr>)"
    using s l by (intro ledger_core_put) auto
  then show ?thesis by (simp add: ledger_core_def)
qed

lemma ledger_core_adopt:
  assumes s: "ledger_core s" and p: "profileIDPattern p" and k: "slotKeyPattern k"
    and pp: "policy_profile (ds_Policy s) p = Some pp"
    and m: "case map_of (ds_Leases s) (leaseKey_String p k) of
        None \<Rightarrow> fresh_lease p k (pp_UnitCost pp) (ds_DecisionSequence s + 1) LeaseActive m
      | Some l \<Rightarrow> same_grant l m \<and> lease_Status l = LeaseProvisional \<and> lease_Status m = LeaseActive
          \<and> lease_RegistrationName m = lease_RegistrationName l"
  shows "ledger_core (fst (markLeaseAccountedForAdoption
    (s\<lparr>ds_DecisionSequence := ds_DecisionSequence s + 1,
       ds_Tombstones := mdel (ds_Tombstones s) (leaseKey_String p k),
       ds_Leases := mput (ds_Leases s) (leaseKey_String p k) m\<rparr>) p k))"
    (is "ledger_core (fst (markLeaseAccountedForAdoption ?s p k))")
proof -
  let ?key = "leaseKey_String p k"
  let ?fs = "ds_AdoptionFences (fst (markLeaseAccountedForAdoption ?s p k))"
  have core: "leases_ok (ds_DecisionSequence s) (ds_Leases s)" "0 \<le> ds_DecisionSequence s"
    "policy_ok (ds_Policy s)" "fences_ok (ds_Policy s) (ds_Leases s) (ds_AdoptionFences s)"
    using s by (simp_all add: ledger_core_def)
  have active: "lease_Status m = LeaseActive"
    using m by (auto simp: fresh_lease_def split: option.splits)
  have "lease_ok (ds_DecisionSequence s + 1) (?key, m)"
  proof (cases "map_of (ds_Leases s) ?key")
    case None
    with m p k core policy_ok_cost [OF core(3) pp] show ?thesis
      by (intro lease_ok_fresh) auto
  next
    case (Some l)
    with m show ?thesis
      by (intro lease_ok_same_grant [OF leases_ok_lookup [OF core(1) Some]]) auto
  qed
  moreover have "fences_ok (ds_Policy s) (mput (ds_Leases s) ?key m) ?fs"
    using core(4) active by (intro fences_ok_account [of _ "ds_Leases s"]) (auto simp: pending_ok_def)
  ultimately have "ledger_core (?s\<lparr>ds_AdoptionFences := ?fs\<rparr>)"
    using ledger_core_put [OF s, of ?key m "mdel (ds_Tombstones s) ?key" ?fs]
    by (simp add: ledger_core_def)
  then show ?thesis by (subst markLeaseAccounted_shape)
qed

lemma ledger_core_account:
  assumes "ledger_core s" shows "ledger_core (fst (markLeaseAccountedForAdoption s p k))"
proof -
  have "fences_ok (ds_Policy s) (ds_Leases s)
      (ds_AdoptionFences (fst (markLeaseAccountedForAdoption s p k)))"
    using assms by (intro fences_ok_account) (auto simp: ledger_core_def)
  with assms show ?thesis by (simp add: ledger_core_def)
qed

lemma ledger_core_tombstone:
  assumes s: "ledger_core s" and p: "profileIDPattern p"
    and l: "map_of (ds_Leases s) (leaseKey_String p k) = Some l"
    and t: "tomb_ProfileID t = p" "tomb_SlotKey t = k" "tomb_LeaseID t = lease_LeaseID l"
      "tomb_Sequence t = ds_DecisionSequence s + 1"
  shows "ledger_core ((fst (markLeaseAccountedForAdoption
      (s\<lparr>ds_DecisionSequence := ds_DecisionSequence s + 1,
         ds_Leases := mdel (ds_Leases s) (leaseKey_String p k)\<rparr>) p k))
     \<lparr>ds_Tombstones := mput (ds_Tombstones s) (leaseKey_String p k) t\<rparr>)"
    (is "ledger_core ((fst (markLeaseAccountedForAdoption ?s p k))\<lparr>ds_Tombstones := ?ts\<rparr>)")
proof -
  let ?key = "leaseKey_String p k"
  let ?fs = "ds_AdoptionFences (fst (markLeaseAccountedForAdoption ?s p k))"
  have core: "leases_ok (ds_DecisionSequence s) (ds_Leases s)"
    "fences_ok (ds_Policy s) (ds_Leases s) (ds_AdoptionFences s)"
    using s by (simp_all add: ledger_core_def)
  have keep: "pending_ok (mdel (ds_Leases s) ?key) q j"
    if "pending_ok (ds_Leases s) q j" "profileIDPattern q" "(q, j) \<noteq> (p, k)" for q j
    using that p leaseKey_String_inj [of q p j k] by (intro pending_ok_del) auto
  have "fences_ok (ds_Policy s) (mdel (ds_Leases s) ?key) ?fs"
    using core(2) keep by (intro fences_ok_account [of _ "ds_Leases s"]) auto
  moreover have "lease_ProfileID l = p" "lease_SlotKey l = k"
    using leases_ok_lookup [OF core(1) l] p leaseKey_String_inj
    by (auto simp: lease_ok_def lease_key_def)
  ultimately have "ledger_core (?s\<lparr>ds_Tombstones := ?ts, ds_AdoptionFences := ?fs\<rparr>)"
    using ledger_core_remove [OF s l _ _ _ _ , of t ?fs] t by simp
  then show ?thesis by (subst markLeaseAccounted_shape) (simp add: ledger_core_def)
qed

lemma ledger_core_policy:
  assumes "ledger_core s" and "HostPolicy_validate pol = None"
  shows "ledger_core (s\<lparr>ds_Policy := pol, ds_Epoch := ds_Epoch s + 1,
    ds_AdoptionFences := filter (\<lambda>(p, f). policy_profile pol p \<noteq> None) (ds_AdoptionFences s)\<rparr>)"
proof -
  have "fences_ok pol (ds_Leases s)
      (filter (\<lambda>(p, f). policy_profile pol p \<noteq> None) (ds_AdoptionFences s))"
    using assms(1) by (auto simp: ledger_core_def fences_ok_def fence_ok_def intro: map_ok_filter)
  with assms show ?thesis by (simp add: ledger_core_def policy_ok_def)
qed

theorem step_core: assumes "step ev s s'" and "ledger_core s" shows "ledger_core s'"
  using assms
proof (induction rule: step.induct)
  case (expired dead s ks r)
  then show ?case
    using ledger_core_bury_all ledger_ok_compact ledger_ok_def by blast
next
  case (granted s p k units l)
  have "lease_ok (ds_DecisionSequence s + 1) (leaseKey_String p k, l)"
    by (rule lease_ok_fresh [OF granted(2)])
      (use granted policy_ok_cost in \<open>auto simp: ledger_core_def grantable_def\<close>)
  from ledger_core_put [OF granted(3) this, where fs = "[]"] granted(1) show ?case
    by (simp add: grantable_def fences_ok_def ledger_core_def)
next
  case (refreshed s p k l m)
  then show ?case by (intro ledger_core_replace) auto
next
  case (activated s p k l m)
  then show ?case by (intro ledger_core_replace) auto
next
  case (fence_opened p s)
  then show ?case
    using fence_ok_active_keys by (auto simp: ledger_core_def intro: fences_ok_put)
next
  case (fence_closed s p f)
  then show ?case by (auto simp: ledger_core_def intro: fences_ok_del)
next
  case (decided d s)
  then show ?case by (simp add: ledger_core_def)
next
  case (adopted p k s pp m)
  then show ?case by (intro ledger_core_adopt)
next
  case (accounted p k s)
  then show ?case by (rule ledger_core_account)
next
  case (removed p s k l t ks)
  from ledger_core_tombstone [OF removed(7,1-6)] show ?case
    using ledger_ok_compact ledger_ok_def by blast
next
  case (policy_applied pol s)
  then show ?case by (intro ledger_core_policy)
qed

lemma bury_fields [simp]:
  "ds_Epoch (bury r e s) = ds_Epoch s" "ds_Policy (bury r e s) = ds_Policy s"
  "ds_Leases (bury r e s) = mdel (ds_Leases s) (fst e)"
  "ds_DecisionSequence (bury r e s) = ds_DecisionSequence s + 1"
  by (simp_all add: bury_def Let_def split: prod.split)

lemma bury_all_fields [simp]:
  "ds_Epoch (fold (bury r) dead s) = ds_Epoch s"
  "ds_Policy (fold (bury r) dead s) = ds_Policy s"
  "ds_DecisionSequence (fold (bury r) dead s) = ds_DecisionSequence s + int (length dead)"
  by (induction dead arbitrary: s) simp_all

lemma bury_all_lookup:
  "map_of (ds_Leases (fold (bury r) dead s)) k
     = (if k \<in> fst ` set dead then None else map_of (ds_Leases s) k)"
  by (induction dead arbitrary: s) auto

lemma length_mdel: "length (mdel m k) \<le> length m"
  by (induction m) auto

theorem step_ok: assumes "step ev s s'" and "ledger_ok s" shows "ledger_ok s'"
proof -
  have "length (ds_Tombstones s') \<le> maxTombstones"
    using assms
    by (induction rule: step.induct)
      (simp_all add: compact_length ledger_ok_def le_trans [OF length_mdel])
  with step_core [OF assms(1)] assms(2) show ?thesis by (simp add: ledger_ok_def)
qed

text \<open>Sequence, epoch and policy generation never move backwards.\<close>

theorem step_mono:
  assumes "step ev s s'"
  shows "ds_DecisionSequence s \<le> ds_DecisionSequence s' \<and> ds_Epoch s \<le> ds_Epoch s'
    \<and> hp_Generation (ds_Policy s) \<le> hp_Generation (ds_Policy s')"
  using assms by (induction rule: step.induct) simp_all

text \<open>An active lease stays, with everything fixed at its grant, until it is removed.\<close>

definition holds_active :: "durableState \<Rightarrow> string \<Rightarrow> string \<Rightarrow> Lease \<Rightarrow> bool" where
  "holds_active s p k l \<longleftrightarrow> (\<exists>m. map_of (ds_Leases s) (leaseKey_String p k) = Some m
     \<and> lease_Status m = LeaseActive \<and> same_grant l m)"

lemma same_grant_refl [simp]: "same_grant l l"
  by (simp add: same_grant_def)

lemma same_grant_trans: "same_grant a b \<Longrightarrow> same_grant b c \<Longrightarrow> same_grant a c"
  by (simp add: same_grant_def)

theorem step_active:
  assumes "step ev s s'" and "holds_active s p k l" and "profileIDPattern p" and "ev \<noteq> Removed p k"
  shows "holds_active s' p k l"
  using assms
proof (induction rule: step.induct)
  case (expired dead s ks r)
  then show ?case by (auto simp: holds_active_def bury_all_lookup)
next
  case (removed q s j l t ks)
  have "leaseKey_String q j \<noteq> leaseKey_String p k"
    using removed leaseKey_String_inj [of p q k j] by auto
  with removed show ?case by (auto simp: holds_active_def)
next
  case (granted s q j units m)
  then show ?case by (auto simp: holds_active_def grantable_def)
next
  case (refreshed s q j l m)
  then show ?case by (auto simp: holds_active_def intro: same_grant_trans)
next
  case (activated s q j l m)
  then show ?case by (auto simp: holds_active_def)
next
  case (adopted q j s pp m)
  then show ?case by (auto simp: holds_active_def)
qed (simp_all add: holds_active_def)

text \<open>
  Once the ledger is within the host budget it stays there, until a policy is applied or a
  recovered worker is adopted: those two count what already runs.
\<close>

lemma total_units_mdel_le:
  assumes "leases_ok q ls" shows "total_units (mdel ls k) \<le> total_units ls"
proof (cases "map_of ls k")
  case None
  with assms show ?thesis by (simp add: total_units_mdel leases_ok_def)
next
  case (Some l)
  have "1 \<le> lease_Units l" using leases_ok_lookup [OF assms Some] by (simp add: lease_ok_def)
  with Some assms show ?thesis by (simp add: total_units_mdel leases_ok_def)
qed

lemma total_units_bury_all:
  assumes "leases_ok q (ds_Leases s)"
  shows "total_units (ds_Leases (fold (bury r) dead s)) \<le> total_units (ds_Leases s)"
  using assms
proof (induction dead arbitrary: s)
  case (Cons e dead)
  have "total_units (ds_Leases (bury r e s)) \<le> total_units (ds_Leases s)"
    using total_units_mdel_le [OF Cons.prems] by simp
  moreover have "leases_ok q (ds_Leases (bury r e s))"
    using Cons.prems leases_ok_del by simp
  ultimately show ?case using Cons.IH [of "bury r e s"] by simp
qed simp

theorem step_budget:
  assumes "step ev s s'" and "ledger_core s"
    and "total_units (ds_Leases s) \<le> hp_TotalUnits (ds_Policy s)"
    and "hp_TotalUnits (ds_Policy s) \<le> max_int64"
    and "ev \<noteq> PolicyApplied" and "\<forall>q j. ev \<noteq> Adopted q j"
  shows "total_units (ds_Leases s') \<le> hp_TotalUnits (ds_Policy s') \<and> ds_Policy s' = ds_Policy s"
proof -
  have ls: "leases_ok (ds_DecisionSequence s) (ds_Leases s)"
    using assms(2) by (simp add: ledger_core_def)
  then have ok: "map_ok (ds_Leases s)" and pos: "\<forall>e \<in> set (ds_Leases s). 0 \<le> lease_Units (snd e)"
    by (auto simp: leases_ok_def lease_ok_def)
  have fit: "units_fit (ds_Leases s)"
    using assms(3,4) pos by (simp add: units_fit_def)
  show ?thesis
    using assms(1,3-6) ls ok fit
  proof (induction rule: step.induct)
    case (expired dead s ks r)
    then show ?case
      using total_units_bury_all [of "ds_DecisionSequence s" s r dead] by simp
  next
    case (granted s p k units l)
    then show ?case by (simp add: total_units_mput grantable_def fresh_lease_def)
  next
    case (removed p s k l t ks)
    then show ?case
      using total_units_mdel_le [of "ds_DecisionSequence s" "ds_Leases s" "leaseKey_String p k"]
      by simp
  next
    case (adopted p k s pp m)
    then show ?case by blast
  qed (simp_all add: total_units_mput same_grant_def)
qed

end
