(* ===== verification/Refinement.thy ===== *)
theory Refinement
  imports Ledger_Steps
begin

text \<open>
  Every coordinator operation refines the ledger's transition system: what it leaves in memory
  and on disk comes from a sequence of allowed saves, each of which succeeds, fails before the
  document is replaced, or fails after. The labels an operation may use are part of its
  contract, so one proof per operation gives the invariant, monotonicity and the survival of
  active leases.
\<close>

definition store_ok :: "store \<Rightarrow> bool" where
  "store_ok st \<longleftrightarrow>
     (case store_disk st of NoFile \<Rightarrow> True | Document d \<Rightarrow> ledger_ok d | _ \<Rightarrow> False)"

definition base_ok :: "coordinator \<Rightarrow> bool" where
  "base_ok c \<longleftrightarrow> ledger_ok (co_state c) \<and> store_ok (co_store c)"

inductive evolve :: "event set \<Rightarrow> coordinator \<Rightarrow> coordinator \<Rightarrow> bool" for E where
  same: "co_store c' = co_store c \<Longrightarrow> co_state c' = co_state c \<Longrightarrow> evolve E c c'"
| save:
    "\<lbrakk>evolve E c c1; ev \<in> E; step ev (co_state c1) new;
      fileStore_Save (co_store c1) new = (st, err); co_store c2 = st;
      co_state c2 = (case err of None \<Rightarrow> new | Some _ \<Rightarrow> co_state c1)\<rbrakk>
     \<Longrightarrow> evolve E c c2"

lemma evolve_refl [simp]: "evolve E c c"
  by (rule same) simp_all

lemma evolve_right:
  "evolve E c c1 \<Longrightarrow> co_store c2 = co_store c1 \<Longrightarrow> co_state c2 = co_state c1 \<Longrightarrow> evolve E c c2"
  by (induction rule: evolve.induct) (auto intro: evolve.intros)

lemma evolve_left:
  "evolve E c1 c2 \<Longrightarrow> co_store c1 = co_store c \<Longrightarrow> co_state c1 = co_state c \<Longrightarrow> evolve E c c2"
  by (induction rule: evolve.induct) (auto intro: evolve.intros)

lemma evolve_trans: "evolve E c1 c2 \<Longrightarrow> evolve E c c1 \<Longrightarrow> evolve E c c2"
  by (induction rule: evolve.induct) (auto intro: evolve.save evolve_right)

lemma evolve_mono: "evolve E c c' \<Longrightarrow> E \<subseteq> F \<Longrightarrow> evolve F c c'"
  by (induction rule: evolve.induct) (auto intro: evolve.intros)

lemma evolve_commit:
  assumes "step ev (co_state c) new" and "ev \<in> E"
  shows "evolve E c (fst (commit c new))"
proof -
  obtain st err where save: "fileStore_Save (co_store c) new = (st, err)" by force
  show ?thesis
    by (rule evolve.save [OF evolve_refl assms(2,1) save])
      (simp_all add: commit_def save split: option.split)
qed

text \<open>
  A property of ledgers that allowed saves keep holds in memory and on disk throughout.
\<close>

definition everywhere :: "(durableState \<Rightarrow> bool) \<Rightarrow> coordinator \<Rightarrow> bool" where
  "everywhere P c \<longleftrightarrow> P (co_state c)
     \<and> (case store_disk (co_store c) of NoFile \<Rightarrow> True | Document d \<Rightarrow> P d | _ \<Rightarrow> False)"

lemma save_disk:
  "fileStore_Save st new = (st', err) \<Longrightarrow>
     store_disk st' = Document new \<or> (err \<noteq> None \<and> store_disk st' = store_disk st)"
  by (auto simp: fileStore_Save_def split: list.splits save_outcome.splits)

lemma evolve_everywhere:
  assumes "evolve E c c'" and "everywhere P c"
    and "\<And>ev s s'. ev \<in> E \<Longrightarrow> step ev s s' \<Longrightarrow> P s \<Longrightarrow> P s'"
  shows "everywhere P c'"
  using assms(1,2)
proof (induction rule: evolve.induct)
  case (save c c1 ev new st err c2)
  have "P new" using save assms(3) by (auto simp: everywhere_def)
  with save save_disk [OF save(4)] show ?case
    by (auto simp: everywhere_def split: option.splits)
qed (simp add: everywhere_def)

lemma base_ok_everywhere: "base_ok c \<longleftrightarrow> everywhere ledger_ok c"
  by (simp add: base_ok_def everywhere_def store_ok_def)

theorem evolve_ok: "evolve E c c' \<Longrightarrow> base_ok c \<Longrightarrow> base_ok c'"
  unfolding base_ok_everywhere by (erule evolve_everywhere) (auto intro: step_ok)

lemma base_ok_clone [simp]: "base_ok c \<Longrightarrow> clone (co_state c) = co_state c"
  by (simp add: base_ok_def ledger_ok_def clone_id)

section \<open>The internal steps\<close>

lemma commit_cases:
  obtains st where "commit c new = (c\<lparr>co_store := st, co_state := new\<rparr>, None)"
      "fileStore_Save (co_store c) new = (st, None)"
  | st err where "commit c new = (c\<lparr>co_store := st\<rparr>, Some err)"
      "fileStore_Save (co_store c) new = (st, Some err)"
  by (cases "fileStore_Save (co_store c) new"; cases "snd (fileStore_Save (co_store c) new)")
    (auto simp: commit_def)

lemma dead_leases:
  assumes "ledger_core s"
  shows "distinct (map fst (filter P (in_order ks (ds_Leases s))))"
    and "\<forall>e \<in> set (filter P (in_order ks (ds_Leases s))). map_of (ds_Leases s) (fst e) = Some (snd e)"
proof -
  have ok: "map_ok (ds_Leases s)" using assms by (simp add: ledger_core_def leases_ok_def)
  show "distinct (map fst (filter P (in_order ks (ds_Leases s))))"
    by (intro map_ok_filter map_ok_in_order ok)
  show "\<forall>e \<in> set (filter P (in_order ks (ds_Leases s))). map_of (ds_Leases s) (fst e) = Some (snd e)"
    using ok by (auto simp: set_in_order)
qed

lemma sweep_step:
  assumes "ledger_core s"
  shows "step Expired s (compactTombstones ts (fold (bury r)
    (filter (lease_expired now deadlines) (in_order ks (ds_Leases s))) s))"
  using dead_leases [OF assms, of "lease_expired now deadlines" ks]
  by (intro step.expired) (auto simp: lease_expired_def)

lemma sweep_evolve:
  assumes "base_ok c" and "Expired \<in> E"
  shows "evolve E c (fst (sweepExpiredLocked e c))"
proof -
  let ?dead = "filter (lease_expired (env_now e) (co_provisionalDeadlines c))
    (in_order (env_leaseOrder e) (ds_Leases (co_state c)))"
  let ?new = "compactTombstones (env_tombstoneOrder e) (fold (bury TombstoneExpired) ?dead (co_state c))"
  have "evolve E c (fst (commit c ?new))"
    using assms sweep_step by (intro evolve_commit) (auto simp: base_ok_def ledger_ok_def)
  then show ?thesis
    using assms(1)
    by (cases rule: commit_cases [of c ?new])
      (auto simp: sweepExpiredLocked_def Let_def intro: evolve_right)
qed

lemma expireStaleDemand_fields [simp]:
  "co_store (expireStaleDemandLocked now c) = co_store c"
  "co_state (expireStaleDemandLocked now c) = co_state c"
  "co_rotation (expireStaleDemandLocked now c) = co_rotation c"
  "co_provisionalTTL (expireStaleDemandLocked now c) = co_provisionalTTL c"
  "co_provisionalDeadlines (expireStaleDemandLocked now c) = co_provisionalDeadlines c"
  by (simp_all add: expireStaleDemandLocked_def Let_def)

lemma advanceRotation_fields [simp]:
  "co_store (advanceRotationLocked c n) = co_store c"
  "co_state (advanceRotationLocked c n) = co_state c"
  "co_provisionalDeadlines (advanceRotationLocked c n) = co_provisionalDeadlines c"
  by (simp_all add: advanceRotationLocked_def)

lemma record_evolve:
  assumes "base_ok c" and "Decided \<in> E" and "isLeaseDecision command" and "profileIDPattern p"
  shows "evolve E c (recordDecisionLocked c command p g err now)"
proof -
  have "decision_ok \<lparr>dec_Sequence = ds_DecisionSequence (co_state c), dec_Command = command,
      dec_ProfileID = p, dec_Granted = g, dec_FailureCategory = (case err of
         Some x \<Rightarrow> if \<not> g then durableDecisionErrorCode x else ErrorCodeNone
       | None \<Rightarrow> ErrorCodeNone), dec_DecidedAtUnixNano = now\<rparr>"
    using assms durableDecisionErrorCode_valid
    by (auto simp: decision_ok_def base_ok_def ledger_ok_def ledger_core_def split: option.split)
  from evolve_commit [OF step.decided [OF this] assms(2)] show ?thesis
    using assms(1) by (simp add: recordDecisionLocked_def Let_def)
qed

section \<open>Policy and fences\<close>

lemma validateLeaseIdentity_eq:
  "validateLeaseIdentity p k =
     (if profileIDPattern p \<and> slotKeyPattern k then None else Some (raise ErrInvalidIdentity))"
  by (auto simp: validateLeaseIdentity_def identity_validators fail_if_def)

lemmas validators = validateProfileID_def validateLeaseIdentity_eq validateRegistrationName_def
  fail_if_def

theorem ApplyPolicy_evolve:
  assumes "base_ok c" shows "evolve {PolicyApplied} c (fst (ApplyPolicy c pol))"
proof (cases "HostPolicy_validate pol = None
    \<and> hp_Generation (ds_Policy (co_state c)) < hp_Generation pol")
  case False
  then show ?thesis by (auto simp: ApplyPolicy_def not_less split: option.splits)
next
  case True
  let ?new = "(co_state c)\<lparr>ds_Policy := pol, ds_Epoch := ds_Epoch (co_state c) + 1,
    ds_AdoptionFences := filter (\<lambda>(p, f). policy_profile pol p \<noteq> None)
      (ds_AdoptionFences (co_state c))\<rparr>"
  have "evolve {PolicyApplied} c (fst (commit c ?new))"
    using True by (intro evolve_commit [OF step.policy_applied]) auto
  then show ?thesis
    using True assms
    by (cases rule: commit_cases [of c ?new])
      (auto simp: ApplyPolicy_def Let_def not_le intro: evolve_right)
qed

lemma SetDemand_same [simp]:
  "co_store (fst (SetDemand e c p n)) = co_store c" "co_state (fst (SetDemand e c p n)) = co_state c"
  by (auto simp: SetDemand_def Let_def split: option.split)

theorem BeginAdoption_evolve:
  assumes "base_ok c" shows "evolve {FenceOpened p} c (fst (BeginAdoption c p))"
proof (cases "profileIDPattern p \<and> policy_profile (ds_Policy (co_state c)) p \<noteq> None
    \<and> map_of (ds_AdoptionFences (co_state c)) p = None")
  case False
  then show ?thesis by (auto simp: BeginAdoption_def validators)
next
  case True
  then show ?thesis
    using evolve_commit [OF step.fence_opened [of p "co_state c"], where E = "{FenceOpened p}"] assms
    by (auto simp: BeginAdoption_def validators Let_def)
qed

theorem CompleteAdoption_evolve:
  assumes "base_ok c" shows "evolve {FenceClosed p} c (fst (CompleteAdoption c p))"
proof (cases "profileIDPattern p")
  case True
  then show ?thesis
    using evolve_commit [OF step.fence_closed [of "co_state c" p], where E = "{FenceClosed p}"] assms
    by (auto simp: CompleteAdoption_def validators Let_def split: option.split)
qed (simp add: CompleteAdoption_def validators)

section \<open>Lease operations\<close>

lemma evaluateAcquire_budget:
  assumes "evaluateAcquireLocked c p pp (heldUnitsByProfileLocked c) = Inr n"
    and "units_fit (ds_Leases (co_state c))"
    and "0 \<le> hp_TotalUnits (ds_Policy (co_state c))"
    and "hp_TotalUnits (ds_Policy (co_state c)) \<le> max_int64"
  shows "total_units (ds_Leases (co_state c)) + pp_UnitCost pp
    \<le> hp_TotalUnits (ds_Policy (co_state c))"
proof -
  let ?t = "total_units (ds_Leases (co_state c))"
  have "0 \<le> ?t" "?t \<le> max_int64"
    using assms(2) total_units_nonneg [of "ds_Leases (co_state c)"] by (auto simp: units_fit_def)
  with assms show ?thesis
    by (auto simp: evaluateAcquireLocked_def Let_def held_exact sub64_id split: if_splits)
qed

lemma policy_total_nonneg: "policy_ok pol \<Longrightarrow> 0 \<le> hp_TotalUnits pol"
  by (auto simp: policy_ok_def zeroPolicy_def HostPolicy_validate_None)

lemma acquire_grant_evolve:
  assumes "base_ok c" and "grantable (co_state c) p k units" and "Granted p k \<in> E"
  shows "evolve E c (fst (acquire_grant e c p k units n m))"
proof -
  let ?key = "leaseKey_String p k" and ?q = "ds_DecisionSequence (co_state c) + 1"
  let ?l = "\<lparr>lease_ProfileID = p, lease_SlotKey = k, lease_LeaseID = leaseID_for ?key ?q,
    lease_RegistrationName = [], lease_Units = units, lease_Status = LeaseProvisional,
    lease_ExpiresAtUnixNano = env_now e + co_provisionalTTL c, lease_GrantedAtSequence = ?q,
    lease_ActivatedAtSequence = 0\<rparr>"
  let ?new = "(co_state c)\<lparr>ds_DecisionSequence := ?q,
    ds_Tombstones := mdel (ds_Tombstones (co_state c)) ?key,
    ds_Leases := mput (ds_Leases (co_state c)) ?key ?l\<rparr>"
  have "evolve E c (fst (commit c ?new))"
    by (rule evolve_commit [OF step.granted [OF assms(2)] assms(3)]) (simp add: fresh_lease_def)
  then show ?thesis
    using assms(1)
    by (cases rule: commit_cases [of c ?new])
      (auto simp: acquire_grant_def Let_def intro: evolve_right)
qed

lemma evolve_commit_eq:
  assumes "step ev (co_state c1) new" and "ev \<in> E" and "commit c1 new = (c2, err)"
    and "evolve E c c1"
  shows "evolve E c c2"
  using evolve_trans [OF evolve_commit [OF assms(1,2)] assms(4)] assms(3) by simp

lemma evolve_record:
  assumes "evolve E c c1" and "base_ok c" and "Decided \<in> E" and "isLeaseDecision command"
    and "profileIDPattern p"
  shows "evolve E c (recordDecisionLocked c1 command p g err now)"
  by (rule evolve_trans [OF record_evolve [OF evolve_ok [OF assms(1,2)] assms(3-5)] assms(1)])

text \<open>After the sweep every body works on a ledger that still satisfies the invariant.\<close>

lemma sweep_ok:
  assumes "base_ok c" and "Expired \<in> E" and "sweepExpiredLocked e c = (c1, r)"
  shows "evolve E c c1" and "base_ok c1"
  using sweep_evolve [OF assms(1,2), of e] evolve_ok [OF _ assms(1)] assms(3) by auto

lemma acquire_body_evolve:
  assumes ok: "base_ok c" and "profileIDPattern p" and "slotKeyPattern k"
    and E: "Expired \<in> E" "Granted p k \<in> E"
  shows "evolve E c (fst (acquire_body e c p k n))"
proof -
  obtain c1 r where sweep: "sweepExpiredLocked e c = (c1, r)" by force
  note c1 = sweep_ok [OF ok E(1) sweep]
  let ?c2 = "expireStaleDemandLocked (env_now e) c1"
  let ?n = "if n < 1 then 1 else n"
  let ?c3 = "?c2\<lparr>co_demand := mput (co_demand ?c2) p ?n,
    co_demandKnown := mput (co_demandKnown ?c2) p True,
    co_demandDeadlines := mput (co_demandDeadlines ?c2) p (env_now e + DefaultDemandTTL)\<rparr>"
  have c3: "base_ok ?c3" "evolve E c ?c2" "evolve E c ?c3"
    using c1 by (auto simp: base_ok_def intro: evolve_right)
  have grant: "evolve E c (fst (acquire_grant e ?c3 p k (pp_UnitCost pp) ?n m))"
    if "ds_AdoptionFences (co_state c1) = []" "policy_profile (ds_Policy (co_state c1)) p = Some pp"
      "map_of (ds_Leases (co_state c1)) (leaseKey_String p k) = None"
      "evaluateAcquireLocked ?c3 p pp (heldUnitsByProfileLocked ?c3) = Inr m" for pp m
  proof -
    have "0 \<le> hp_TotalUnits (ds_Policy (co_state ?c3))"
      using c3(1) policy_total_nonneg by (auto simp: base_ok_def ledger_ok_def ledger_core_def)
    with evaluateAcquire_budget [OF that(4)] that(1-3) assms(2,3)
    have "grantable (co_state ?c3) p k (pp_UnitCost pp)"
      by (auto simp: grantable_def)
    from acquire_grant_evolve [OF c3(1) this E(2)] c3(3) show ?thesis by (rule evolve_trans)
  qed
  show ?thesis
    using c1 c3 grant by (auto simp: acquire_body_def sweep Let_def split: sum.split option.split)
qed

theorem Acquire_evolve:
  assumes "base_ok c" shows "evolve {Expired, Granted p k, Decided} c (fst (Acquire e c p k n))"
proof (cases "profileIDPattern p \<and> slotKeyPattern k")
  case True
  obtain c1 l err where body: "acquire_body e c p k n = (c1, l, err)" by (metis prod_cases3)
  have "evolve {Expired, Granted p k, Decided} c c1"
    using acquire_body_evolve [OF assms, of p k "{Expired, Granted p k, Decided}" e n] True body
    by simp
  from evolve_record [OF this assms] True show ?thesis
    by (simp add: Acquire_def validators body Let_def)
qed (auto simp: Acquire_def validators)

theorem BindRegistration_evolve:
  assumes ok: "base_ok c"
  shows "evolve {Expired, Refreshed p k} c (fst (BindRegistration e c p k name))"
proof -
  let ?E = "{Expired, Refreshed p k}"
  obtain c1 r where sweep: "sweepExpiredLocked e c = (c1, r)" by force
  note c1 = sweep_ok [OF ok _ sweep, of ?E, simplified]
  let ?key = "leaseKey_String p k" and ?s = "co_state c1"
  have bind: "evolve ?E c c2"
    if "map_of (ds_Leases ?s) ?key = Some l" "registrationNamePattern name"
      "commit c1 (?s\<lparr>ds_DecisionSequence := ds_DecisionSequence ?s + 1,
         ds_Leases := mput (ds_Leases ?s) ?key (l\<lparr>lease_RegistrationName := name\<rparr>)\<rparr>) = (c2, err)"
    for l c2 err
    by (rule evolve_commit_eq [OF step.refreshed _ that(3) c1(1), of l])
      (use that in \<open>auto simp: same_grant_def\<close>)
  show ?thesis
    using c1 bind
    by (auto simp: BindRegistration_def validators sweep Let_def
        split: sum.split option.split prod.split)
qed

lemma renew_body_evolve:
  assumes ok: "base_ok c" and E: "Expired \<in> E" "Refreshed p k \<in> E"
  shows "evolve E c (fst (renew_body e c p k))"
proof -
  obtain c1 r where sweep: "sweepExpiredLocked e c = (c1, r)" by force
  note c1 = sweep_ok [OF ok E(1) sweep]
  let ?key = "leaseKey_String p k" and ?s = "co_state c1"
  have renew: "evolve E c c2"
    if "map_of (ds_Leases ?s) ?key = Some l"
      "commit c1 (?s\<lparr>ds_DecisionSequence := ds_DecisionSequence ?s + 1,
         ds_Leases := mput (ds_Leases ?s) ?key (l\<lparr>lease_ExpiresAtUnixNano := d\<rparr>)\<rparr>) = (c2, err)"
    for l d c2 err
    by (rule evolve_commit_eq [OF step.refreshed E(2) that(2) c1(1), of l])
      (use that in \<open>auto simp: same_grant_def\<close>)
  show ?thesis
    using c1
    by (auto simp: renew_body_def sweep Let_def intro: renew evolve_right [OF renew]
        split: sum.split option.split prod.split)
qed

lemma activate_body_evolve:
  assumes ok: "base_ok c" and E: "Expired \<in> E" "Activated p k \<in> E"
  shows "evolve E c (fst (activate_body e c p k))"
proof -
  obtain c1 r where sweep: "sweepExpiredLocked e c = (c1, r)" by force
  note c1 = sweep_ok [OF ok E(1) sweep]
  let ?key = "leaseKey_String p k" and ?s = "co_state c1"
  have activate: "evolve E c c2"
    if l: "map_of (ds_Leases ?s) ?key = Some l" "lease_Status l \<noteq> LeaseActive"
      and c2: "commit c1 (?s\<lparr>ds_DecisionSequence := ds_DecisionSequence ?s + 1,
         ds_Leases := mput (ds_Leases ?s) ?key (l\<lparr>lease_Status := LeaseActive,
           lease_ExpiresAtUnixNano := 0,
           lease_ActivatedAtSequence := ds_DecisionSequence ?s + 1\<rparr>)\<rparr>) = (c2, err)"
    for l c2 err
  proof -
    have "lease_Status l = LeaseProvisional"
      using leases_ok_lookup [OF _ l(1)] l(2) c1(2)
      by (auto simp: base_ok_def ledger_ok_def ledger_core_def lease_ok_def)
    then show ?thesis
      by (intro evolve_commit_eq [OF step.activated E(2) c2 c1(1), of l])
        (use l in \<open>auto simp: same_grant_def\<close>)
  qed
  show ?thesis
    using c1
    by (auto simp: activate_body_def sweep Let_def intro: activate evolve_right [OF activate]
        split: sum.split option.split prod.split)
qed

lemma adopt_body_evolve:
  assumes ok: "base_ok c" and p: "profileIDPattern p" and k: "slotKeyPattern k"
    and E: "Expired \<in> E" "Adopted p k \<in> E" "Accounted p k \<in> E"
  shows "evolve E c (fst (adopt_body e c p k))"
proof -
  obtain c1 r where sweep: "sweepExpiredLocked e c = (c1, r)" by force
  note c1 = sweep_ok [OF ok E(1) sweep]
  let ?key = "leaseKey_String p k" and ?s = "co_state c1"
  let ?q = "ds_DecisionSequence ?s + 1"
  have adopt: "evolve E c (fst (case commit c1 (fst (markLeaseAccountedForAdoption
      (?s\<lparr>ds_DecisionSequence := ?q, ds_Tombstones := mdel (ds_Tombstones ?s) ?key,
         ds_Leases := mput (ds_Leases ?s) ?key m\<rparr>) p k)) of
        (c2, None) \<Rightarrow> (c2\<lparr>co_provisionalDeadlines :=
           mdel (co_provisionalDeadlines c2) ?key\<rparr>, m, None)
      | (c2, Some err) \<Rightarrow> (c2, zeroLease, Some err)))"
    if pp: "policy_profile (ds_Policy ?s) p = Some pp"
      and m: "case map_of (ds_Leases ?s) ?key of
          None \<Rightarrow> fresh_lease p k (pp_UnitCost pp) ?q LeaseActive m
        | Some l \<Rightarrow> same_grant l m \<and> lease_Status l = LeaseProvisional
            \<and> lease_Status m = LeaseActive \<and> lease_RegistrationName m = lease_RegistrationName l"
    for pp m
    using evolve_commit_eq [OF step.adopted [OF p k pp m] E(2) _ c1(1)]
    by (auto intro: evolve_right split: prod.split option.split)
  have account: "evolve E c c2"
    if "markLeaseAccountedForAdoption ?s p k = (new, b)" "commit c1 new = (c2, err)"
    for new b c2 err
    using evolve_commit_eq [OF step.accounted [of p k ?s] E(3) _ c1(1)] that by auto
  have provisional: "lease_Status l = LeaseProvisional"
    if "map_of (ds_Leases ?s) ?key = Some l" "lease_Status l \<noteq> LeaseActive" for l
    using leases_ok_lookup [OF _ that(1)] that(2) c1(2)
    by (auto simp: base_ok_def ledger_ok_def ledger_core_def lease_ok_def)
  show ?thesis
  proof (cases "\<exists>x pp. r = Inr x \<and> policy_profile (ds_Policy ?s) p = Some pp")
    case False
    with c1 show ?thesis by (auto simp: adopt_body_def sweep split: sum.split option.split)
  next
    case True
    then obtain x pp where r: "r = Inr x" and pp: "policy_profile (ds_Policy ?s) p = Some pp"
      by blast
    show ?thesis
    proof (cases "map_of (ds_Leases ?s) ?key")
      case None
      then show ?thesis
        using c1(2) adopt [OF pp, of "\<lparr>lease_ProfileID = p, lease_SlotKey = k,
          lease_LeaseID = leaseID_for ?key ?q, lease_RegistrationName = [],
          lease_Units = pp_UnitCost pp, lease_Status = LeaseActive, lease_ExpiresAtUnixNano = 0,
          lease_GrantedAtSequence = ?q, lease_ActivatedAtSequence = ?q\<rparr>"]
        by (simp add: adopt_body_def sweep r pp fresh_lease_def Let_def)
    next
      case (Some l)
      show ?thesis
      proof (cases "lease_Status l = LeaseActive")
        case True
        with Some c1 show ?thesis
          by (auto simp: adopt_body_def sweep r pp intro: account
              split: prod.split option.split bool.split)
      next
        case False
        with Some c1(2) provisional [OF Some] show ?thesis
          using adopt [OF pp, of "l\<lparr>lease_Status := LeaseActive, lease_ExpiresAtUnixNano := 0,
            lease_ActivatedAtSequence := ?q\<rparr>"]
          by (simp add: adopt_body_def sweep r pp same_grant_def Let_def)
      qed
    qed
  qed
qed

lemma tombstoneLocked_evolve:
  assumes ok: "base_ok c1" and p: "profileIDPattern p" and E: "Removed p k \<in> E"
  shows "evolve E c1 (fst (tombstoneLocked e c1 p k reason evidence))"
proof (cases "map_of (ds_Leases (co_state c1)) (leaseKey_String p k)")
  case (Some l)
  let ?key = "leaseKey_String p k" and ?s = "co_state c1"
  let ?q = "ds_DecisionSequence ?s + 1"
  let ?t = "\<lparr>tomb_ProfileID = p, tomb_SlotKey = k, tomb_LeaseID = lease_LeaseID l,
    tomb_Reason = reason, tomb_Evidence = evidence, tomb_Sequence = ?q\<rparr>"
  let ?new = "compactTombstones (env_tombstoneOrder e) ((fst (markLeaseAccountedForAdoption
    (?s\<lparr>ds_DecisionSequence := ?q, ds_Leases := mdel (ds_Leases ?s) ?key\<rparr>) p k))
    \<lparr>ds_Tombstones := mput (ds_Tombstones ?s) ?key ?t\<rparr>)"
  have "evolve E c1 (fst (commit c1 ?new))"
    by (rule evolve_commit [OF step.removed [OF p Some] E]) simp_all
  with ok Some show ?thesis
    by (cases rule: commit_cases [of c1 ?new])
      (auto simp: tombstoneLocked_def Let_def intro: evolve_right)
qed (simp add: tombstoneLocked_def)

lemma release_body_evolve:
  assumes ok: "base_ok c" and p: "profileIDPattern p" and E: "Expired \<in> E" "Removed p k \<in> E"
  shows "evolve E c (fst (release_body e c p k reason evidence))"
proof -
  obtain c1 r where sweep: "sweepExpiredLocked e c = (c1, r)" by force
  note c1 = sweep_ok [OF ok E(1) sweep]
  show ?thesis
    using c1 evolve_trans [OF tombstoneLocked_evolve [OF c1(2) p E(2)] c1(1)]
    by (auto simp: release_body_def sweep split: sum.split)
qed

theorem Renew_evolve:
  assumes "base_ok c" shows "evolve {Expired, Refreshed p k, Decided} c (fst (Renew e c p k))"
proof (cases "profileIDPattern p \<and> slotKeyPattern k")
  case True
  obtain c1 l err where body: "renew_body e c p k = (c1, l, err)" by (metis prod_cases3)
  from renew_body_evolve [OF assms, of "{Expired, Refreshed p k, Decided}" p k e]
  have "evolve {Expired, Refreshed p k, Decided} c c1" by (simp add: body)
  from evolve_record [OF this assms] True show ?thesis
    by (simp add: Renew_def validators body Let_def)
qed (auto simp: Renew_def validators)

theorem Activate_evolve:
  assumes "base_ok c" shows "evolve {Expired, Activated p k, Decided} c (fst (Activate e c p k))"
proof (cases "profileIDPattern p \<and> slotKeyPattern k")
  case True
  obtain c1 l err where body: "activate_body e c p k = (c1, l, err)" by (metis prod_cases3)
  from activate_body_evolve [OF assms, of "{Expired, Activated p k, Decided}" p k e]
  have "evolve {Expired, Activated p k, Decided} c c1" by (simp add: body)
  from evolve_record [OF this assms] True show ?thesis
    by (simp add: Activate_def validators body Let_def)
qed (auto simp: Activate_def validators)

theorem Adopt_evolve:
  assumes "base_ok c"
  shows "evolve {Expired, Adopted p k, Accounted p k, Decided} c (fst (Adopt e c p k))"
proof (cases "profileIDPattern p \<and> slotKeyPattern k")
  case True
  let ?E = "{Expired, Adopted p k, Accounted p k, Decided}"
  obtain c1 l err where body: "adopt_body e c p k = (c1, l, err)" by (metis prod_cases3)
  from adopt_body_evolve [OF assms, of p k ?E e] True
  have "evolve ?E c c1" by (simp add: body)
  from evolve_record [OF this assms] True show ?thesis
    by (simp add: Adopt_def validators body Let_def)
qed (auto simp: Adopt_def validators)

lemma released_evolve:
  assumes "base_ok c" and "profileIDPattern p" and "isLeaseDecision command"
    and "release_body e c p k reason evidence = (c1, err)"
  shows "evolve {Expired, Removed p k, Decided} c (recordDecisionLocked c1 command p g x now)"
proof -
  let ?E = "{Expired, Removed p k, Decided}"
  from release_body_evolve [OF assms(1,2), of ?E k e reason evidence]
  have "evolve ?E c c1" by (simp add: assms(4))
  from evolve_record [OF this assms(1)] assms(2,3) show ?thesis by simp
qed

theorem Release_evolve:
  assumes "base_ok c" shows "evolve {Expired, Removed p k, Decided} c (fst (Release e c p k))"
  using released_evolve [OF assms]
  by (auto simp: Release_def validators Let_def split: prod.split)

theorem Reconcile_evolve:
  assumes "base_ok c"
  shows "evolve {Expired, Removed p k, Decided} c (fst (Reconcile e c p k evidence))"
  using released_evolve [OF assms]
  by (auto simp: Reconcile_def validators Let_def split: prod.split sum.split)

section \<open>Opening\<close>

text \<open>What the coordinator wrote it can always load again.\<close>

lemma load_own_ledger:
  assumes "store_ok st"
  shows "fileStore_Load st = (case store_disk st of NoFile \<Rightarrow> Inr None | Document d \<Rightarrow> Inr (Some d))"
proof (cases "store_disk st")
  case (Document d)
  with assms have "ledger_core d" by (simp add: store_ok_def ledger_ok_def)
  then have "upgrade_document d = d" and "durableState_validate d = None"
    using ledger_ok_validates
    by (auto simp: upgrade_document_def ledger_core_def stateSchemaVersion_def
        previousStateSchemaVersion_def)
  with Document show ?thesis by (simp add: fileStore_Load_def)
qed (use assms in \<open>auto simp: store_ok_def fileStore_Load_def\<close>)

lemma ledger_ok_new: "ledger_ok newDurableState"
  by (simp add: ledger_ok_def ledger_core_def newDurableState_def leases_ok_def tombs_ok_def
      fences_ok_def apart_def policy_ok_def)

text \<open>The ledger an opened coordinator starts from, as a step of the transition system.\<close>

lemma discard_step:
  assumes "ledger_core d" and "discardRestoredProvisionals e d = (pruned, changed)"
  shows "if changed then step Expired d pruned else pruned = d"
proof -
  let ?dead = "filter (\<lambda>(key, lease). lease_Status lease = LeaseProvisional)
    (in_order (env_leaseOrder e) (ds_Leases d))"
  have "step Expired d (compactTombstones (env_tombstoneOrder e)
      (fold (bury TombstoneRestartDiscarded) ?dead d))"
    using dead_leases [OF assms(1)] by (intro step.expired) auto
  with assms show ?thesis
    by (auto simp: discardRestoredProvisionals_def clone_id Let_def split: if_splits)
qed

end
