(* ===== verification/Service.thy ===== *)
theory Service
  imports Server Refinement
begin

text \<open>
  The admission service as a whole: a server answering one connection after another, the
  process crashing between or inside requests, and restarts from the document on disk. A crash
  inside a request is a request whose remaining saves fail before the rename, followed by a
  crash.
\<close>

datatype service = Running coordinator | Down store

datatype input =
    Serve env "save_outcome list" inbound
  | Crash
  | Start env "save_outcome list" int

definition scheduled :: "save_outcome list \<Rightarrow> coordinator \<Rightarrow> coordinator" where
  "scheduled os c = c\<lparr>co_store := (co_store c)\<lparr>store_outcomes := os\<rparr>\<rparr>"

fun react :: "input \<Rightarrow> service \<Rightarrow> service" where
  "react (Serve e os i) (Running c) =
     Running (fst (handle e ServerSupportedVersions (scheduled os c) i))"
| "react Crash (Running c) = Down (co_store c)"
| "react (Start e os ttl) (Down st) =
     (case coordinator_Open e (st\<lparr>store_outcomes := os\<rparr>) ttl of
        (st', Inl err) \<Rightarrow> Down st'
      | (st', Inr c) \<Rightarrow> Running c)"
| "react _ s = s"

definition run :: "input list \<Rightarrow> service \<Rightarrow> service" where
  "run inputs s = fold react inputs s"

definition installed :: service where
  "installed = Down \<lparr>store_disk = NoFile, store_outcomes = []\<rparr>"

section \<open>What one request may record\<close>

fun command_events :: "Request \<Rightarrow> Command \<Rightarrow> event set" where
  "command_events rq CommandApplyPolicy = {PolicyApplied}"
| "command_events rq CommandSetDemand = {}"
| "command_events rq CommandAcquire = {Expired, Granted (rq_ProfileID rq) (rq_SlotKey rq), Decided}"
| "command_events rq CommandBindRegistration = {Expired, Refreshed (rq_ProfileID rq) (rq_SlotKey rq)}"
| "command_events rq CommandAdopt = {Expired, Adopted (rq_ProfileID rq) (rq_SlotKey rq),
     Accounted (rq_ProfileID rq) (rq_SlotKey rq), Decided}"
| "command_events rq CommandBeginAdoption = {FenceOpened (rq_ProfileID rq)}"
| "command_events rq CommandCompleteAdoption = {FenceClosed (rq_ProfileID rq)}"
| "command_events rq CommandRenew = {Expired, Refreshed (rq_ProfileID rq) (rq_SlotKey rq), Decided}"
| "command_events rq CommandActivate = {Expired, Activated (rq_ProfileID rq) (rq_SlotKey rq), Decided}"
| "command_events rq CommandRelease = {Expired, Removed (rq_ProfileID rq) (rq_SlotKey rq), Decided}"
| "command_events rq CommandReconcile = {Expired, Removed (rq_ProfileID rq) (rq_SlotKey rq), Decided}"
| "command_events rq CommandStatus = {Expired}"
| "command_events rq (CommandOther _) = {}"

lemma fst_responses [simp]:
  "fst (plain_response v r) = fst r" "fst (lease_response v q) = fst q"
  "fst (acquire_response v q) = fst q"
  by (simp_all add: plain_response_def lease_response_def acquire_response_def split: prod.split)

lemma Status_evolve:
  assumes "base_ok c" shows "evolve {Expired} c (fst (coordinator_Status e c))"
proof -
  obtain c1 r where sweep: "sweepExpiredLocked e c = (c1, r)" by force
  have "evolve {Expired} c c1" using sweep_ok [OF assms _ sweep, of "{Expired}"] by simp
  then show ?thesis
    by (auto simp: coordinator_Status_def sweep Let_def intro: evolve_right split: sum.split)
qed

theorem run_command_evolve:
  assumes "base_ok c"
  shows "evolve (command_events rq cmd) c (fst (run_command e v c rq cmd))"
proof (cases cmd)
  case CommandStatus
  with Status_evolve [OF assms, of e] show ?thesis
    by (auto split: prod.split sum.split)
next
  case CommandSetDemand
  then show ?thesis by (auto intro: evolve.same)
qed (use assms in \<open>auto simp: ApplyPolicy_evolve Acquire_evolve BindRegistration_evolve
    Adopt_evolve BeginAdoption_evolve CompleteAdoption_evolve Renew_evolve Activate_evolve
    Release_evolve Reconcile_evolve split: option.split\<close>)

text \<open>The labels a connection's content may give rise to.\<close>

fun inbound_events :: "inbound \<Rightarrow> event set" where
  "inbound_events (Decoded rq) = command_events rq (rq_Command rq)"
| "inbound_events _ = {}"

theorem handle_evolve:
  assumes "base_ok c" shows "evolve (inbound_events i) c (fst (handle e vs c i))"
proof (cases i)
  case (Decoded rq)
  then show ?thesis
    using run_command_evolve [OF assms] by (auto simp: dispatch_def Let_def case_prod_beta)
qed simp_all

section \<open>Runs\<close>

text \<open>
  A property of ledgers holds in the service when it holds of the running coordinator's ledger
  and of the document on disk (no document counts as the ledger of a new installation).
\<close>

definition stored :: "(durableState \<Rightarrow> bool) \<Rightarrow> store \<Rightarrow> bool" where
  "stored P st \<longleftrightarrow>
     (case store_disk st of NoFile \<Rightarrow> P newDurableState | Document d \<Rightarrow> P d | _ \<Rightarrow> False)"

fun service_holds :: "(durableState \<Rightarrow> bool) \<Rightarrow> service \<Rightarrow> bool" where
  "service_holds P (Running c) \<longleftrightarrow> P (co_state c) \<and> stored P (co_store c)"
| "service_holds P (Down st) \<longleftrightarrow> stored P st"

abbreviation service_ok :: "service \<Rightarrow> bool" where
  "service_ok \<equiv> service_holds ledger_ok"

lemma stored_ok: "stored ledger_ok st \<longleftrightarrow> store_ok st"
  by (simp add: stored_def store_ok_def ledger_ok_new split: disk.split)

lemma stored_outcomes [simp]: "stored P (st\<lparr>store_outcomes := os\<rparr>) = stored P st"
  by (simp add: stored_def)

lemma evolve_holds:
  assumes "evolve E c c'" and "service_holds P (Running c)"
    and keeps: "\<And>ev s s'. ev \<in> E \<Longrightarrow> step ev s s' \<Longrightarrow> P s \<Longrightarrow> P s'"
  shows "service_holds P (Running c')"
  using assms(1,2)
proof (induction rule: evolve.induct)
  case (save c c1 ev new st err c2)
  have "P new" using save keeps by auto
  with save save_disk [OF save(4)] show ?case
    by (auto simp: stored_def split: option.splits)
qed simp

text \<open>Opening a store the service wrote succeeds unless the save of the pruned ledger fails.\<close>

lemma open_holds:
  assumes ok: "store_ok st" and P: "stored P st"
    and keeps: "\<And>s s'. step Expired s s' \<Longrightarrow> P s \<Longrightarrow> P s'"
  shows "case coordinator_Open e st ttl of
      (st', Inl err) \<Rightarrow> stored P st' \<and> (st', Some err) \<in> range (fileStore_Save st)
    | (st', Inr c) \<Rightarrow> service_holds P (Running c) \<and> co_store c = st'"
proof (cases "store_disk st")
  case (Document d)
  then have core: "ledger_core d" using ok by (simp add: store_ok_def ledger_ok_def)
  obtain pruned changed where discard: "discardRestoredProvisionals e d = (pruned, changed)"
    by force
  have Pd: "P d" using P Document by (simp add: stored_def)
  obtain st' r where save: "fileStore_Save st pruned = (st', r)" by force
  then have range: "(st', r) \<in> range (fileStore_Save st)" by (metis rangeI)
  have P': "P pruned" using discard_step [OF core discard] keeps Pd by (auto split: if_splits)
  have st': "stored P st'" using save_disk [OF save] P' P by (auto simp: stored_def)
  show ?thesis
    using load_own_ledger [OF ok] Document Pd P st' P' range
    by (auto simp: coordinator_Open_def discard save Let_def split: option.split)
qed (use assms load_own_ledger [OF ok] in
    \<open>auto simp: coordinator_Open_def Let_def stored_def store_ok_def\<close>)

text \<open>The inputs that may record only events of a set.\<close>

fun records_in :: "event set \<Rightarrow> input \<Rightarrow> bool" where
  "records_in E (Serve e os i) \<longleftrightarrow> inbound_events i \<subseteq> E"
| "records_in E Crash \<longleftrightarrow> True"
| "records_in E (Start e os ttl) \<longleftrightarrow> Expired \<in> E"

lemma records_in_UNIV [simp]: "records_in UNIV i"
  by (cases i) simp_all

lemma react_holds:
  assumes ok: "service_ok s" and P: "service_holds P s" and input: "records_in E i"
    and keeps: "\<And>ev s s'. ev \<in> E \<Longrightarrow> step ev s s' \<Longrightarrow> P s \<Longrightarrow> P s'"
  shows "service_holds P (react i s)"
proof (cases "(i, s)" rule: react.cases)
  case (1 e os j c)
  have "base_ok (scheduled os c)" using ok 1 by (simp add: base_ok_def scheduled_def stored_ok store_ok_def)
  from evolve_holds [OF handle_evolve [OF this, of j e ServerSupportedVersions], of P]
  show ?thesis
    using 1 P input keeps by (auto simp: scheduled_def)
next
  case (3 e os ttl st)
  have "store_ok (st\<lparr>store_outcomes := os\<rparr>)" using ok 3 by (simp add: stored_ok store_ok_def)
  from open_holds [OF this, of P e ttl] show ?thesis
    using 3 P input keeps by (auto split: prod.splits sum.splits)
qed (use P in auto)

text \<open>The four contracts of a run, each an instance of the generic induction over inputs.\<close>

interpretation ledger_run: input_system react "\<lambda>i. True" service_ok
  by unfold_locales
    (rule react_holds [OF _ _ records_in_UNIV], assumption, assumption, erule (1) step_ok)

definition requests_removal :: "string \<Rightarrow> string \<Rightarrow> input \<Rightarrow> bool" where
  "requests_removal p k i = (case i of
     Serve e os (Decoded rq) \<Rightarrow>
       (rq_Command rq = CommandRelease \<or> rq_Command rq = CommandReconcile)
       \<and> rq_ProfileID rq = p \<and> rq_SlotKey rq = k
   | _ \<Rightarrow> False)"

lemma no_removal_records: "\<not> requests_removal p k i \<Longrightarrow> records_in (- {Removed p k}) i"
proof (cases i)
  case (Serve e os j)
  assume "\<not> requests_removal p k i"
  with Serve show ?thesis
  proof (cases j)
    case (Decoded rq)
    with Serve \<open>\<not> requests_removal p k i\<close> show ?thesis
      by (cases "rq_Command rq") (auto simp: requests_removal_def)
  qed simp_all
qed simp_all

interpretation active_run: input_system react "\<lambda>i. \<not> requests_removal p k i"
  "\<lambda>s. profileIDPattern p \<and> service_ok s \<and> service_holds (\<lambda>d. holds_active d p k l) s"
  for p k l
proof unfold_locales
  fix i s
  assume i: "\<not> requests_removal p k i"
    and s: "profileIDPattern p \<and> service_ok s \<and> service_holds (\<lambda>d. holds_active d p k l) s"
  have "service_holds (\<lambda>d. holds_active d p k l) (react i s)"
    using s step_active
    by (intro react_holds [OF _ _ no_removal_records [OF i]]) (simp, simp, blast)
  with s ledger_run.react_keeps show "profileIDPattern p \<and> service_ok (react i s)
      \<and> service_holds (\<lambda>d. holds_active d p k l) (react i s)" by simp
qed

definition requests_policy_or_adoption :: "input \<Rightarrow> bool" where
  "requests_policy_or_adoption i = (case i of
     Serve e os (Decoded rq) \<Rightarrow> rq_Command rq = CommandApplyPolicy \<or> rq_Command rq = CommandAdopt
   | _ \<Rightarrow> False)"

abbreviation budget_events :: "event set" where
  "budget_events \<equiv> {ev. ev \<noteq> PolicyApplied \<and> (\<forall>q j. ev \<noteq> Adopted q j)}"

lemma budget_records: "\<not> requests_policy_or_adoption i \<Longrightarrow> records_in budget_events i"
proof (cases i)
  case (Serve e os j)
  assume "\<not> requests_policy_or_adoption i"
  with Serve show ?thesis
  proof (cases j)
    case (Decoded rq)
    with Serve \<open>\<not> requests_policy_or_adoption i\<close> show ?thesis
      by (cases "rq_Command rq") (auto simp: requests_policy_or_adoption_def)
  qed simp_all
qed simp_all

text \<open>The ledger is within the host budget of a policy whose total fits a Go int.\<close>

definition within_budget :: "durableState \<Rightarrow> bool" where
  "within_budget d \<longleftrightarrow> total_units (ds_Leases d) \<le> hp_TotalUnits (ds_Policy d)
     \<and> hp_TotalUnits (ds_Policy d) \<le> max_int64"

lemma step_within_budget:
  assumes "step ev d d'" and "ev \<in> budget_events" and "ledger_core d \<and> within_budget d"
  shows "ledger_core d' \<and> within_budget d'"
  using step_budget [OF assms(1)] step_core [OF assms(1)] assms(2,3) by (auto simp: within_budget_def)

interpretation budget_run: input_system react "\<lambda>i. \<not> requests_policy_or_adoption i"
  "\<lambda>s. service_ok s \<and> service_holds (\<lambda>d. ledger_core d \<and> within_budget d) s"
proof unfold_locales
  fix i s
  assume i: "\<not> requests_policy_or_adoption i"
    and s: "service_ok s \<and> service_holds (\<lambda>d. ledger_core d \<and> within_budget d) s"
  have "service_holds (\<lambda>d. ledger_core d \<and> within_budget d) (react i s)"
    using s step_within_budget
    by (intro react_holds [OF _ _ budget_records [OF i]]) (simp, simp, blast)
  with s ledger_run.react_keeps
  show "service_ok (react i s) \<and> service_holds (\<lambda>d. ledger_core d \<and> within_budget d) (react i s)"
    by simp
qed

interpretation monotone_run: input_system react "\<lambda>i. True"
  "\<lambda>s. service_ok s \<and> service_holds (\<lambda>d. q \<le> ds_DecisionSequence d \<and> n \<le> ds_Epoch d
     \<and> g \<le> hp_Generation (ds_Policy d)) s" for q n g
proof unfold_locales
  fix i s
  let ?P = "\<lambda>d. q \<le> ds_DecisionSequence d \<and> n \<le> ds_Epoch d \<and> g \<le> hp_Generation (ds_Policy d)"
  assume s: "service_ok s \<and> service_holds ?P s"
  have "service_holds ?P (react i s)"
    using s
    by (intro react_holds [OF _ _ records_in_UNIV]) (simp, simp, fastforce dest!: step_mono)
  with s ledger_run.react_keeps show "service_ok (react i s) \<and> service_holds ?P (react i s)" by simp
qed

end
