(* ===== verification/Lifecycle.thy ===== *)
theory Lifecycle
  imports Service
begin

text \<open>
  The functional behaviour of the lease operations, branch by branch: what the sweep removes,
  what a grant adds, what renewal, activation, adoption and release do to the one lease they
  are about and that every other lease is untouched.
\<close>

section \<open>Saves and recorded decisions\<close>

lemma commit_saved:
  assumes "commit c new = (c', None)"
  shows "co_state c' = new" and "store_disk (co_store c') = Document new"
    and "c' = c\<lparr>co_store := co_store c', co_state := new\<rparr>"
  using assms
  by (auto simp: commit_def fileStore_Save_def split: list.splits save_outcome.splits)

lemma commit_failed:
  assumes "commit c new = (c', Some err)"
  shows "c' = c\<lparr>co_store := co_store c'\<rparr>" and "err = err_other"
    and "store_disk (co_store c') = store_disk (co_store c)
      \<or> store_disk (co_store c') = Document new"
  using assms
  by (auto simp: commit_def fileStore_Save_def split: list.splits save_outcome.splits)

lemma record_state:
  assumes "base_ok c"
  shows "\<exists>d. co_state (recordDecisionLocked c command p g err now)
    = (co_state c)\<lparr>ds_LastDecision := d\<rparr>"
proof -
  have same: "\<exists>d. co_state c = (co_state c)\<lparr>ds_LastDecision := d\<rparr>"
    by (rule exI [of _ "ds_LastDecision (co_state c)"]) simp
  have "\<exists>d. co_state (fst (commit c ((co_state c)\<lparr>ds_LastDecision := x\<rparr>)))
      = (co_state c)\<lparr>ds_LastDecision := d\<rparr>" for x
    by (cases rule: commit_cases [of c "(co_state c)\<lparr>ds_LastDecision := x\<rparr>"]) (auto intro: same)
  then show ?thesis
    by (simp add: recordDecisionLocked_def Let_def base_ok_clone [OF assms])
qed

lemma record_fields [simp]:
  assumes "base_ok c"
  shows "ds_Leases (co_state (recordDecisionLocked c command p g err now)) = ds_Leases (co_state c)"
    and "ds_Tombstones (co_state (recordDecisionLocked c command p g err now)) = ds_Tombstones (co_state c)"
    and "ds_AdoptionFences (co_state (recordDecisionLocked c command p g err now)) = ds_AdoptionFences (co_state c)"
    and "ds_Policy (co_state (recordDecisionLocked c command p g err now)) = ds_Policy (co_state c)"
    and "ds_Epoch (co_state (recordDecisionLocked c command p g err now)) = ds_Epoch (co_state c)"
    and "ds_DecisionSequence (co_state (recordDecisionLocked c command p g err now)) = ds_DecisionSequence (co_state c)"
  using record_state [OF assms, of command p g err now] by auto

lemma record_volatile [simp]:
  "co_provisionalDeadlines (recordDecisionLocked c command p g err now) = co_provisionalDeadlines c"
  "co_rotation (recordDecisionLocked c command p g err now) = co_rotation c"
  "co_demand (recordDecisionLocked c command p g err now) = co_demand c"
  "co_demandKnown (recordDecisionLocked c command p g err now) = co_demandKnown c"
  by (auto simp: recordDecisionLocked_def commit_def Let_def split: prod.split option.split)

section \<open>The sweep\<close>

lemma mdel_all_lookup [simp]: "map_of (mdel_all m ks) k = (if k \<in> set ks then None else map_of m k)"
  unfolding mdel_all_def by (induction ks arbitrary: m) auto

lemma bury_all_other [simp]:
  "ds_AdoptionFences (fold (bury r) dead s) = ds_AdoptionFences s"
  "ds_LastDecision (fold (bury r) dead s) = ds_LastDecision s"
  by (induction dead arbitrary: s) (simp_all add: bury_def Let_def split: prod.splits)

definition expired_leases :: "env \<Rightarrow> coordinator \<Rightarrow> (string \<times> Lease) list" where
  "expired_leases e c = filter (lease_expired (env_now e) (co_provisionalDeadlines c))
     (in_order (env_leaseOrder e) (ds_Leases (co_state c)))"

definition swept :: "env \<Rightarrow> coordinator \<Rightarrow> durableState" where
  "swept e c = compactTombstones (env_tombstoneOrder e)
     (fold (bury TombstoneExpired) (expired_leases e c) (co_state c))"

lemma swept_nothing: "ledger_ok (co_state c) \<Longrightarrow> expired_leases e c = [] \<Longrightarrow> swept e c = co_state c"
  by (simp add: swept_def compactTombstones_def ledger_ok_def)

lemma sweep_result:
  assumes ok: "base_ok c" and sweep: "sweepExpiredLocked e c = (c1, Inr x)"
  shows "co_state c1 = swept e c \<and> x = map fst (expired_leases e c)
    \<and> co_rotation c1 = co_rotation c \<and> co_provisionalTTL c1 = co_provisionalTTL c
    \<and> co_provisionalDeadlines c1
      = mdel_all (co_provisionalDeadlines c) (map fst (expired_leases e c))
    \<and> (if expired_leases e c = [] then c1 = c
       else store_disk (co_store c1) = Document (swept e c))"
proof (cases "expired_leases e c = []")
  case True
  with sweep ok show ?thesis
    using swept_nothing [of c e]
    by (auto simp: sweepExpiredLocked_def expired_leases_def [symmetric] base_ok_def mdel_all_def
        ledger_ok_def clone_id)
next
  case False
  with sweep ok show ?thesis
    by (cases rule: commit_cases [of c "swept e c"])
      (auto simp: sweepExpiredLocked_def expired_leases_def [symmetric] swept_def [symmetric] Let_def
        dest: save_disk)
qed

lemma expired_keys:
  assumes "ledger_core (co_state c)"
  shows "key \<in> fst ` set (expired_leases e c) \<longleftrightarrow>
    (\<exists>l. map_of (ds_Leases (co_state c)) key = Some l
       \<and> lease_expired (env_now e) (co_provisionalDeadlines c) (key, l))"
proof -
  have "map_ok (ds_Leases (co_state c))" using assms by (simp add: ledger_core_def leases_ok_def)
  then show ?thesis
    by (force simp: expired_leases_def set_in_order map_of_mem simp del: map_of_eq_Some_iff)
qed

lemma swept_fields [simp]:
  "ds_Policy (swept e c) = ds_Policy (co_state c)" "ds_Epoch (swept e c) = ds_Epoch (co_state c)"
  "ds_AdoptionFences (swept e c) = ds_AdoptionFences (co_state c)"
  "ds_LastDecision (swept e c) = ds_LastDecision (co_state c)"
  by (simp_all add: swept_def)

text \<open>A lookup after the sweep: the lease, unless it has expired by now.\<close>

lemma swept_lookup:
  assumes "ledger_core (co_state c)"
  shows "map_of (ds_Leases (swept e c)) key = (case map_of (ds_Leases (co_state c)) key of
     Some l \<Rightarrow> if lease_expired (env_now e) (co_provisionalDeadlines c) (key, l) then None else Some l
   | None \<Rightarrow> None)"
  using expired_keys [OF assms, of key e]
  by (simp add: swept_def bury_all_lookup split: option.split)

lemma swept_units:
  assumes "ledger_core (co_state c)"
  shows "total_units (ds_Leases (swept e c)) \<le> total_units (ds_Leases (co_state c))"
  using assms total_units_bury_all [of "ds_DecisionSequence (co_state c)" "co_state c"]
  by (simp add: swept_def ledger_core_def)

section \<open>Acquire\<close>

text \<open>A successful grant, taken apart: the guards that held and the ledger that was saved.\<close>

definition granted_ledger :: "durableState \<Rightarrow> string \<Rightarrow> string \<Rightarrow> Lease \<Rightarrow> durableState" where
  "granted_ledger s p k l = s\<lparr>ds_DecisionSequence := ds_DecisionSequence s + 1,
     ds_Tombstones := mdel (ds_Tombstones s) (leaseKey_String p k),
     ds_Leases := mput (ds_Leases s) (leaseKey_String p k) l\<rparr>"

lemma acquire_grant_success:
  assumes ok: "base_ok c" and grant: "acquire_grant e c p k units n m = (c', l, None)"
  shows "fresh_lease p k units (ds_DecisionSequence (co_state c) + 1) LeaseProvisional l
    \<and> co_state c' = granted_ledger (co_state c) p k l
    \<and> store_disk (co_store c') = Document (co_state c')
    \<and> map_of (co_provisionalDeadlines c') (leaseKey_String p k)
        = Some (env_now e + co_provisionalTTL c)"
proof -
  let ?key = "leaseKey_String p k" and ?q = "ds_DecisionSequence (co_state c) + 1"
  let ?l = "\<lparr>lease_ProfileID = p, lease_SlotKey = k, lease_LeaseID = leaseID_for ?key ?q,
    lease_RegistrationName = [], lease_Units = units, lease_Status = LeaseProvisional,
    lease_ExpiresAtUnixNano = env_now e + co_provisionalTTL c, lease_GrantedAtSequence = ?q,
    lease_ActivatedAtSequence = 0\<rparr>"
  show ?thesis
    using grant ok
    by (cases rule: commit_cases [of c "granted_ledger (co_state c) p k ?l"])
      (auto simp: acquire_grant_def granted_ledger_def Let_def fresh_lease_def dest: save_disk
        split: if_splits)
qed

lemma acquire_body_success:
  assumes ok: "base_ok c" and body: "acquire_body e c p k n = (c', l, None)"
  obtains pp m c3 where "ds_AdoptionFences (co_state c) = []"
    and "map_of (ds_Leases (swept e c)) (leaseKey_String p k) = None"
    and "policy_profile (ds_Policy (co_state c)) p = Some pp"
    and "base_ok c3" and "co_state c3 = swept e c" and "co_rotation c3 = co_rotation c"
    and "co_provisionalTTL c3 = co_provisionalTTL c" and "mget0 (co_demand c3) p = max 1 n"
    and "evaluateAcquireLocked c3 p pp (heldUnitsByProfileLocked c3) = Inr m"
    and "acquire_grant e c3 p k (pp_UnitCost pp) (max 1 n) m = (c', l, None)"
proof -
  obtain c1 r where sweep: "sweepExpiredLocked e c = (c1, r)" by force
  with body obtain x where r: "r = Inr x" by (cases r) (auto simp: acquire_body_def)
  note c1 = sweep_result [OF ok sweep [unfolded r]]
  have ok1: "base_ok c1" using sweep_ok [OF ok _ sweep, of "{Expired}"] by simp
  let ?c2 = "expireStaleDemandLocked (env_now e) c1"
  let ?n = "if n < 1 then 1 else n"
  let ?c3 = "?c2\<lparr>co_demand := mput (co_demand ?c2) p ?n,
    co_demandKnown := mput (co_demandKnown ?c2) p True,
    co_demandDeadlines := mput (co_demandDeadlines ?c2) p (env_now e + DefaultDemandTTL)\<rparr>"
  have n: "?n = max 1 n" by simp
  have c3: "base_ok ?c3" using ok1 by (simp add: base_ok_def)
  note unfold = acquire_body_def sweep r Let_def prod.case sum.case expireStaleDemand_fields
  have fences: "ds_AdoptionFences (co_state c1) = []"
    using body unfolding unfold by (simp split: if_splits)
  have free: "map_of (ds_Leases (co_state c1)) (leaseKey_String p k) = None"
    using body fences unfolding unfold
    by (cases "map_of (ds_Leases (co_state c1)) (leaseKey_String p k)") simp_all
  obtain pp where pp: "policy_profile (ds_Policy (co_state c1)) p = Some pp"
    using body fences free unfolding unfold
    by (cases "policy_profile (ds_Policy (co_state c1)) p") simp_all
  obtain m where m: "evaluateAcquireLocked ?c3 p pp (heldUnitsByProfileLocked ?c3) = Inr m"
    using body fences free pp unfolding unfold
    by (cases "evaluateAcquireLocked ?c3 p pp (heldUnitsByProfileLocked ?c3)") simp_all
  have "acquire_grant e ?c3 p k (pp_UnitCost pp) ?n m = (c', l, None)"
    using body fences free pp m unfolding unfold by simp
  then show ?thesis
    using that [OF _ _ _ c3 _ _ _ _ m] c1 fences free pp n by simp
qed

lemma Acquire_success:
  assumes ok: "base_ok c" and acquire: "Acquire e c p k n = (c', l, None)"
  obtains pp m c3 where "profileIDPattern p" and "slotKeyPattern k"
    and "ds_AdoptionFences (co_state c) = []"
    and "map_of (ds_Leases (swept e c)) (leaseKey_String p k) = None"
    and "policy_profile (ds_Policy (co_state c)) p = Some pp"
    and "base_ok c3" and "co_state c3 = swept e c" and "co_rotation c3 = co_rotation c"
    and "mget0 (co_demand c3) p = max 1 n"
    and "evaluateAcquireLocked c3 p pp (heldUnitsByProfileLocked c3) = Inr m"
    and "fresh_lease p k (pp_UnitCost pp) (ds_DecisionSequence (swept e c) + 1) LeaseProvisional l"
    and "\<exists>d. co_state c' = (granted_ledger (swept e c) p k l)\<lparr>ds_LastDecision := d\<rparr>"
    and "map_of (co_provisionalDeadlines c') (leaseKey_String p k)
      = Some (env_now e + co_provisionalTTL c)"
proof -
  have id: "profileIDPattern p \<and> slotKeyPattern k"
    using acquire by (auto simp: Acquire_def validators split: if_splits)
  obtain c1 l1 err where body: "acquire_body e c p k n = (c1, l1, err)" by (metis prod_cases3)
  with acquire id have eq: "l1 = l" "err = None"
    and c': "c' = recordDecisionLocked c1 CommandAcquire p True None (env_now e)"
    by (auto simp: Acquire_def validators Let_def)
  have "evolve {Expired, Granted p k} c c1"
    using acquire_body_evolve [OF ok, of p k "{Expired, Granted p k}" e n] id body by simp
  then have ok1: "base_ok c1" using ok by (rule evolve_ok)
  from acquire_body_success [OF ok, of e p k n c1 l] body eq
  obtain pp m c3 where facts: "ds_AdoptionFences (co_state c) = []"
    "map_of (ds_Leases (swept e c)) (leaseKey_String p k) = None"
    "policy_profile (ds_Policy (co_state c)) p = Some pp" "base_ok c3" "co_state c3 = swept e c"
    "co_rotation c3 = co_rotation c" "co_provisionalTTL c3 = co_provisionalTTL c"
    "mget0 (co_demand c3) p = max 1 n"
    "evaluateAcquireLocked c3 p pp (heldUnitsByProfileLocked c3) = Inr m"
    and grant: "acquire_grant e c3 p k (pp_UnitCost pp) (max 1 n) m = (c1, l, None)" by metis
  note g = acquire_grant_success [OF facts(4) grant]
  have "\<exists>d. co_state c' = (granted_ledger (swept e c) p k l)\<lparr>ds_LastDecision := d\<rparr>"
    using record_state [OF ok1] g facts(5) c' by metis
  with that facts g id c' show ?thesis by simp
qed

section \<open>Activation\<close>

text \<open>Memory and disk hold the same ledger: the last save succeeded.\<close>

definition in_sync :: "coordinator \<Rightarrow> bool" where
  "in_sync c \<longleftrightarrow> store_disk (co_store c) = Document (co_state c)"

lemma commit_sync: "commit c new = (c', None) \<Longrightarrow> in_sync c' \<and> co_state c' = new"
  using commit_saved [of c new c'] by (simp add: in_sync_def)

lemma sweep_sync:
  assumes "base_ok c" and "sweepExpiredLocked e c = (c1, Inr x)" and "in_sync c"
  shows "in_sync c1"
  using sweep_result [OF assms(1,2)] assms(3) by (auto simp: in_sync_def split: if_splits)

lemma record_holds:
  assumes "base_ok c" and "isLeaseDecision command" and "profileIDPattern p"
    and "service_holds P (Running c)" and "\<And>s d. P s \<Longrightarrow> P (s\<lparr>ds_LastDecision := d\<rparr>)"
  shows "service_holds P (Running (recordDecisionLocked c command p g err now))"
proof (rule evolve_holds [OF record_evolve [OF assms(1) _ assms(2,3), of "{Decided}"] assms(4)])
  fix ev s s' assume "ev \<in> {Decided}" and "step ev s s'" and "P s"
  then show "P s'" using assms(5) by (auto elim: step.cases)
qed simp

lemma sync_holds: "in_sync c \<Longrightarrow> P (co_state c) \<Longrightarrow> service_holds P (Running c)"
  by (simp add: in_sync_def stored_def)

lemma activate_body_success:
  assumes ok: "base_ok c" and sync: "in_sync c" and body: "activate_body e c p k = (c', l, None)"
  shows "in_sync c' \<and> map_of (ds_Leases (co_state c')) (leaseKey_String p k) = Some l
    \<and> lease_Status l = LeaseActive"
proof -
  obtain c1 r where sweep: "sweepExpiredLocked e c = (c1, r)" by force
  with body obtain x where r: "r = Inr x" by (cases r) (auto simp: activate_body_def)
  have ok1: "base_ok c1" using sweep_ok [OF ok _ sweep, of "{Expired}"] by simp
  have sync1: "in_sync c1" using sweep_sync [OF ok _ sync] sweep r by simp
  let ?key = "leaseKey_String p k"
  obtain m where m: "map_of (ds_Leases (co_state c1)) ?key = Some m"
    using body by (auto simp: activate_body_def sweep r Let_def split: if_splits option.splits)
  show ?thesis
  proof (cases "lease_Status m = LeaseActive")
    case True
    with body m sync1 show ?thesis
      by (auto simp: activate_body_def sweep r Let_def split: if_splits)
  next
    case False
    with body m ok1 show ?thesis
      by (auto simp: activate_body_def sweep r Let_def in_sync_def dest!: commit_sync
          split: if_splits prod.splits option.splits)
  qed
qed

lemma Activate_holds:
  assumes ok: "base_ok c" and sync: "in_sync c" and activate: "Activate e c p k = (c', l, None)"
  shows "profileIDPattern p" and "service_holds (\<lambda>d. holds_active d p k l) (Running c')"
proof -
  have id: "profileIDPattern p" "slotKeyPattern k"
    using activate by (auto simp: Activate_def validators split: if_splits)
  obtain c1 l1 err where body: "activate_body e c p k = (c1, l1, err)" by (metis prod_cases3)
  with activate id have eq: "l1 = l" "err = None"
    and c': "c' = recordDecisionLocked c1 CommandActivate p True None (env_now e)"
    by (auto simp: Activate_def validators Let_def)
  have "evolve {Expired, Activated p k} c c1"
    using activate_body_evolve [OF ok, of "{Expired, Activated p k}" p k e] body by simp
  then have ok1: "base_ok c1" using ok by (rule evolve_ok)
  have "in_sync c1" "holds_active (co_state c1) p k l"
    using activate_body_success [OF ok sync, of e p k c1 l] body eq by (auto simp: holds_active_def)
  then have "service_holds (\<lambda>d. holds_active d p k l) (Running c1)" by (rule sync_holds)
  then show "service_holds (\<lambda>d. holds_active d p k l) (Running c')"
    unfolding c' using ok1 id by (intro record_holds) (auto simp: holds_active_def)
  show "profileIDPattern p" by (rule id)
qed

end
