(* ===== verification/Grants.thy ===== *)
theory Grants
  imports Lifecycle
begin

text \<open>
  What a grant guarantees: the host budget, the headroom of non-borrowable reservations, and
  the fair share of every contender. The shares of the coordinator are an instance of the
  rotating split.
\<close>

section \<open>Shares\<close>

interpretation host_share: rotating_share
  "\<lambda>rot n amount i. guaranteedShareLocked (c\<lparr>co_rotation := rot\<rparr>) (replicate (nat n) []) i amount"
  for c
  by unfold_locales (simp add: guaranteedShareLocked_def Let_def)

lemma guaranteed_share_replicate:
  "guaranteedShareLocked c (replicate (length contenders) []) i amount
     = guaranteedShareLocked c contenders i amount"
  by (simp add: guaranteedShareLocked_def Let_def)

lemma sum_list_upto_int: "sum_list (map f (map int [0..<n])) = (\<Sum>i\<in>{0..<int n}. f i)"
proof -
  have "sum_list (map f (map int [0..<n])) = (\<Sum>i\<in>set (map int [0..<n]). f i)"
    by (rule sum_list_distinct_conv_sum_set) (simp add: distinct_map)
  also have "set (map int [0..<n]) = {0..<int n}"
    using image_int_atLeastLessThan [of 0 n] by simp
  finally show ?thesis .
qed

lemma sum_indexed: "sum_list (map (\<lambda>(i, x). f i) (indexed xs)) = (\<Sum>i\<in>{0..<int (length xs)}. f i)"
proof -
  have "map (\<lambda>(i, x). f i) (indexed xs) = map f (map fst (indexed xs))"
    by (simp add: case_prod_beta)
  then show ?thesis by (simp only: indexed_def map_fst_zip length_map length_upt sum_list_upto_int)
qed

lemma sum_list_filter_drop:
  fixes f :: "'a \<Rightarrow> int"
  assumes "x \<in> set xs" and "\<not> P x" and "\<forall>y \<in> set xs. 0 \<le> f y"
  shows "sum_list (map f (filter P xs)) + f x \<le> sum_list (map f xs)"
  using assms
proof (induction xs)
  case (Cons y ys)
  have "sum_list (map f (filter P ys)) \<le> sum_list (map f ys)"
    using Cons.prems(3) by (induction ys) auto
  with Cons show ?case by auto
qed simp

lemma indexed_mem: "(i, x) \<in> set (indexed xs) \<longleftrightarrow> 0 \<le> i \<and> nat i < length xs \<and> xs ! nat i = x"
  by (force simp: indexed_def in_set_zip)

lemma withheld_bounds:
  assumes "0 \<le> guaranteedShareLocked c contenders j amount"
  shows "0 \<le> withheld_for c held contenders amount (j, i)"
    and "withheld_for c held contenders amount (j, i) \<le> guaranteedShareLocked c contenders j amount"
  using assms by (auto simp: withheld_for_def Let_def)

lemma sum_list_le: "\<forall>x \<in> set xs. f x \<le> (g x :: int) \<Longrightarrow> sum_list (map f xs) \<le> sum_list (map g xs)"
  by (induction xs) (auto intro: add_mono)

text \<open>A contender can always be allocated its own guaranteed share.\<close>

lemma fair_allocation_lower_bound:
  assumes rot: "0 \<le> co_rotation c" "co_rotation c < int (length (contendersLocked c))"
    and index: "i < length (contendersLocked c)" "contendersLocked c ! i = p"
    and amount: "0 \<le> amount" "amount \<le> max_int64"
  shows "guaranteedShareLocked c (contendersLocked c) (int i) amount
    \<le> fst (fairAllocatableUnitsLocked c p held amount)"
proof -
  let ?cs = "contendersLocked c" and ?n = "int (length (contendersLocked c))"
  let ?g = "\<lambda>j. guaranteedShareLocked c ?cs j amount"
  let ?others = "filter (\<lambda>(j, i). i \<noteq> p) (indexed ?cs)"
  let ?w = "withheld_for c held ?cs amount"
  have nonneg: "0 \<le> ?g j" if "0 \<le> j" "j < ?n" for j
    using host_share.share_bounds(3) [of "co_rotation c" ?n j amount c] rot that amount
    by (simp add: guaranteed_share_replicate)
  have total: "(\<Sum>j\<in>{0..<?n}. ?g j) = amount"
    using host_share.sum_shares [of "co_rotation c" ?n amount c] rot amount
    by (simp add: guaranteed_share_replicate)
  have range: "0 \<le> j \<and> j < ?n" if "(j, x) \<in> set (indexed ?cs)" for j x
    using that by (auto simp: indexed_mem)
  have g_pos: "\<forall>x \<in> set (indexed ?cs). 0 \<le> (\<lambda>(j, i). ?g j) x"
    using nonneg range by auto
  have w: "\<forall>x \<in> set ?others. 0 \<le> ?w x \<and> ?w x \<le> (\<lambda>(j, i). ?g j) x"
  proof
    fix x assume "x \<in> set ?others"
    then have "0 \<le> fst x \<and> fst x < ?n" using range [of "fst x" "snd x"] by simp
    with withheld_bounds [OF nonneg, of "fst x" held "snd x"]
    show "0 \<le> ?w x \<and> ?w x \<le> (\<lambda>(j, i). ?g j) x" by (simp add: case_prod_beta)
  qed
  have "sum_list (map ?w ?others) \<le> sum_list (map (\<lambda>(j, i). ?g j) ?others)"
    using w by (intro sum_list_le) blast
  also have "\<dots> + ?g (int i) \<le> sum_list (map (\<lambda>(j, i). ?g j) (indexed ?cs))"
    using sum_list_filter_drop [OF _ _ g_pos, of "(int i, p)" "\<lambda>(j, i). i \<noteq> p"] index
    by (simp add: indexed_mem)
  finally have le: "sum_list (map ?w ?others) + ?g (int i) \<le> amount"
    by (simp add: sum_indexed total)
  have g: "0 \<le> ?g (int i)" using nonneg index by simp
  have s: "0 \<le> sum_list (map ?w ?others)" using w by (auto intro!: sum_list_nonneg_int)
  have "sum64 0 (map ?w ?others) = sum_list (map ?w ?others)"
    using sum64_exact [of 0 "map ?w ?others"] w le g amount by force
  moreover have "sub64 amount (sum_list (map ?w ?others)) = amount - sum_list (map ?w ?others)"
    using le g s amount by (intro sub64_id) auto
  ultimately show ?thesis
    using le index by (auto simp: fairAllocatableUnitsLocked_def Let_def)
qed

section \<open>A small host\<close>

text \<open>A concrete policy and coordinator the witnesses below run on.\<close>

definition demo_profile :: "string \<Rightarrow> int \<Rightarrow> int \<Rightarrow> bool \<Rightarrow> ProfilePolicy" where
  "demo_profile i cost reserved borrowable = \<lparr>pp_ProfileID = i, pp_UnitCost = cost,
     pp_ReservedUnits = reserved, pp_Borrowable = borrowable, pp_ProfilePolicyFingerprint = []\<rparr>"

definition demo_policy :: HostPolicy where
  "demo_policy = \<lparr>hp_Generation = 1, hp_TotalUnits = 4, hp_Namespace = ''host'',
     hp_CapacityUnits = 0, hp_SafetyMarginUnits = 0, hp_HostPolicyFingerprint = [],
     hp_Profiles = [demo_profile ''a'' 1 1 False, demo_profile ''b'' 2 0 True]\<rparr>"

definition demo_env :: "int \<Rightarrow> env" where
  "demo_env now = \<lparr>env_now = now, env_leaseOrder = [], env_tombstoneOrder = []\<rparr>"

definition demo :: coordinator where
  "demo = \<lparr>co_store = \<lparr>store_disk = NoFile, store_outcomes = []\<rparr>, co_provisionalTTL = 10,
     co_state = newDurableState\<lparr>ds_Policy := demo_policy, ds_Epoch := 1\<rparr>, co_demand = [],
     co_demandKnown = [], co_demandDeadlines = [], co_rotation = 0,
     co_provisionalDeadlines = []\<rparr>"

lemma demo_ok: "base_ok demo"
proof -
  have "HostPolicy_validate demo_policy = None" by code_simp
  then have "ledger_ok (co_state demo)"
    by (simp add: demo_def ledger_ok_def ledger_core_def newDurableState_def leases_ok_def
        tombs_ok_def fences_ok_def apart_def policy_ok_def)
  then show ?thesis by (simp add: base_ok_def store_ok_def demo_def)
qed

section \<open>The host budget\<close>

text \<open>
  C3: A granted lease never takes the host over its budget. Whenever Acquire succeeds, the
  units of all live leases in the ledger it leaves, the new lease included, are at most the
  policy's total, and the new lease carries exactly the profile's unit cost. The units held and
  the total have to fit a Go int.
\<close>

theorem acquire_within_budget:
  assumes ok: "base_ok c" and fit: "units_fit (ds_Leases (co_state c))"
    and range: "hp_TotalUnits (ds_Policy (co_state c)) \<le> max_int64"
    and acquire: "Acquire e c p k n = (c', l, None)"
  shows "total_units (ds_Leases (co_state c')) \<le> hp_TotalUnits (ds_Policy (co_state c))
    \<and> map_option pp_UnitCost (policy_profile (ds_Policy (co_state c)) p) = Some (lease_Units l)"
proof -
  have core: "ledger_core (co_state c)" using ok by (simp add: base_ok_def ledger_ok_def)
  obtain pp m c3 where facts: "map_of (ds_Leases (swept e c)) (leaseKey_String p k) = None"
    "policy_profile (ds_Policy (co_state c)) p = Some pp" "base_ok c3" "co_state c3 = swept e c"
    "evaluateAcquireLocked c3 p pp (heldUnitsByProfileLocked c3) = Inr m"
    "fresh_lease p k (pp_UnitCost pp) (ds_DecisionSequence (swept e c) + 1) LeaseProvisional l"
    and c': "\<exists>d. co_state c' = (granted_ledger (swept e c) p k l)\<lparr>ds_LastDecision := d\<rparr>"
    using Acquire_success [OF ok acquire] by metis
  have ls: "leases_ok (ds_DecisionSequence (swept e c)) (ds_Leases (swept e c))"
    using facts(3,4) by (simp add: base_ok_def ledger_ok_def ledger_core_def)
  then have "units_fit (ds_Leases (swept e c))"
    using fit swept_units [OF core, of e] by (force simp: units_fit_def leases_ok_def lease_ok_def)
  moreover have "0 \<le> hp_TotalUnits (ds_Policy (co_state c))"
    using core policy_total_nonneg by (simp add: ledger_core_def)
  ultimately have "total_units (ds_Leases (swept e c)) + pp_UnitCost pp
      \<le> hp_TotalUnits (ds_Policy (co_state c))"
    using evaluateAcquire_budget [OF facts(5)] facts(4) range by simp
  then show ?thesis
    using c' ls facts(1,2,6)
    by (auto simp: granted_ledger_def total_units_mput leases_ok_def fresh_lease_def)
qed

theorem acquire_within_budget_witness:
  "\<exists>c' l. Acquire (demo_env 5) demo ''b'' ''s1'' 1 = (c', l, None)
     \<and> total_units (ds_Leases (co_state c')) \<le> 4 \<and> lease_Units l = 2"
proof -
  obtain c' l where grant: "Acquire (demo_env 5) demo ''b'' ''s1'' 1 = (c', l, None)"
  proof -
    have "snd (snd (Acquire (demo_env 5) demo ''b'' ''s1'' 1)) = None" by code_simp
    then show ?thesis using that by (metis prod.collapse)
  qed
  have "units_fit (ds_Leases (co_state demo))" by (simp add: units_fit_def demo_def
      newDurableState_def max_int64_def)
  moreover have "hp_TotalUnits (ds_Policy (co_state demo)) = 4"
    "map_option pp_UnitCost (policy_profile (ds_Policy (co_state demo)) ''b'') = Some 2"
    by code_simp+
  ultimately show ?thesis
    using acquire_within_budget [OF demo_ok _ _ grant] grant by (auto simp: max_int64_def)
qed

section \<open>Non-borrowable reservations\<close>

text \<open>What the other profiles' non-borrowable reservations still keep free.\<close>

definition headroom :: "durableState \<Rightarrow> string \<Rightarrow> int" where
  "headroom s p = sum_list (map
     (\<lambda>q. max (pp_ReservedUnits q - profile_units (ds_Leases s) (pp_ProfileID q)) 0)
     (filter (\<lambda>q. pp_ProfileID q \<noteq> p \<and> \<not> pp_Borrowable q) (hp_Profiles (ds_Policy s))))"

text \<open>The policy's quantities fit a Go int, summed up.\<close>

definition policy_fits :: "HostPolicy \<Rightarrow> bool" where
  "policy_fits pol \<longleftrightarrow> hp_TotalUnits pol \<le> max_int64
     \<and> (\<forall>q \<in> set (hp_Profiles pol). 0 \<le> pp_ReservedUnits q)
     \<and> sum_list (map pp_ReservedUnits (hp_Profiles pol)) \<le> max_int64"

lemma sum_list_filter_le:
  "\<forall>y \<in> set xs. 0 \<le> (f y :: int) \<Longrightarrow> sum_list (map f (filter P xs)) \<le> sum_list (map f xs)"
  by (induction xs) auto

lemma headroom_bounds:
  assumes "units_fit (ds_Leases s)" and "policy_fits (ds_Policy s)"
  shows "0 \<le> headroom s p" and "headroom s p \<le> max_int64"
proof -
  let ?others = "filter (\<lambda>q. pp_ProfileID q \<noteq> p \<and> \<not> pp_Borrowable q) (hp_Profiles (ds_Policy s))"
  show "0 \<le> headroom s p" by (auto simp: headroom_def intro!: sum_list_nonneg_int)
  have "headroom s p \<le> sum_list (map pp_ReservedUnits ?others)"
    unfolding headroom_def
    using assms profile_units_bounds(1) [OF assms(1)]
    by (intro sum_list_le) (auto simp: policy_fits_def max_def)
  also have "\<dots> \<le> max_int64"
    using sum_list_filter_le [of "hp_Profiles (ds_Policy s)" pp_ReservedUnits] assms(2)
    by (force simp: policy_fits_def intro: order_trans)
  finally show "headroom s p \<le> max_int64" .
qed

lemma reserved_le_sum:
  assumes "policy_fits pol" and "q \<in> set (hp_Profiles pol)"
  shows "pp_ReservedUnits q \<le> max_int64"
proof -
  have "pp_ReservedUnits q \<le> sum_list (map pp_ReservedUnits (hp_Profiles pol))"
    using assms by (intro member_le_sum_list) (auto simp: policy_fits_def)
  with assms show ?thesis by (simp add: policy_fits_def)
qed

lemma protected_exact:
  assumes fit: "units_fit (ds_Leases (co_state c))" and pol: "policy_fits (ds_Policy (co_state c))"
  shows "protectedNonBorrowableLocked c p (heldUnitsByProfileLocked c) = headroom (co_state c) p"
proof -
  let ?s = "co_state c"
  let ?others = "filter (\<lambda>q. pp_ProfileID q \<noteq> p \<and> \<not> pp_Borrowable q) (hp_Profiles (ds_Policy ?s))"
  let ?f = "\<lambda>q. max (pp_ReservedUnits q - profile_units (ds_Leases ?s) (pp_ProfileID q)) 0"
  have exact: "sub64 (pp_ReservedUnits q) (mget0 (heldUnitsByProfileLocked c) (pp_ProfileID q))
      = pp_ReservedUnits q - profile_units (ds_Leases ?s) (pp_ProfileID q)"
    if "q \<in> set (hp_Profiles (ds_Policy ?s))" for q
    using that pol reserved_le_sum [OF pol that] profile_units_bounds [OF fit, of "pp_ProfileID q"]
    by (simp add: held_exact [OF fit] sub64_id policy_fits_def)
  have "protectedNonBorrowableLocked c p (heldUnitsByProfileLocked c) = sum64 0 (map ?f ?others)"
    unfolding protectedNonBorrowableLocked_def de_Morgan_disj
    using exact by (intro arg_cong [where f = "sum64 0"] map_cong) auto
  also have "\<dots> = 0 + sum_list (map ?f ?others)"
    by (rule sum64_exact) (use headroom_bounds(2) [OF fit pol, of p] in \<open>auto simp: headroom_def\<close>)
  finally show ?thesis by (simp add: headroom_def)
qed

lemma profile_units_mput:
  "map_ok m \<Longrightarrow> map_of m k = None \<Longrightarrow>
     profile_units (mput m k l) p = profile_units m p + (if lease_ProfileID l = p then lease_Units l else 0)"
  by (induction m) (auto split: if_splits)

lemma evaluate_shared:
  assumes ev: "evaluateAcquireLocked c p pp (heldUnitsByProfileLocked c) = Inr m"
    and fit: "units_fit (ds_Leases (co_state c))" and pol: "policy_fits (ds_Policy (co_state c))"
    and tot: "0 \<le> hp_TotalUnits (ds_Policy (co_state c))"
    and pp: "pp \<in> set (hp_Profiles (ds_Policy (co_state c)))" "1 \<le> pp_UnitCost pp"
    and shared: "pp_ReservedUnits pp < profile_units (ds_Leases (co_state c)) p + pp_UnitCost pp"
  shows "total_units (ds_Leases (co_state c)) + pp_UnitCost pp + headroom (co_state c) p
    \<le> hp_TotalUnits (ds_Policy (co_state c))"
proof -
  let ?s = "co_state c"
  have t: "0 \<le> total_units (ds_Leases ?s)" "total_units (ds_Leases ?s) \<le> max_int64"
    using fit total_units_nonneg [of "ds_Leases ?s"] by (auto simp: units_fit_def)
  have free: "sub64 (hp_TotalUnits (ds_Policy ?s)) (sum64 0 (map snd (heldUnitsByProfileLocked c)))
      = hp_TotalUnits (ds_Policy ?s) - total_units (ds_Leases ?s)"
    using t tot pol by (simp add: held_exact [OF fit] sub64_id policy_fits_def)
  have own: "sub64 (pp_ReservedUnits pp) (mget0 (heldUnitsByProfileLocked c) p)
      = pp_ReservedUnits pp - profile_units (ds_Leases ?s) p"
    using pol pp reserved_le_sum [OF pol pp(1)] profile_units_bounds [OF fit, of p]
    by (simp add: held_exact [OF fit] sub64_id policy_fits_def)
  have avail: "sub64 (hp_TotalUnits (ds_Policy ?s) - total_units (ds_Leases ?s)) (headroom ?s p)
      = hp_TotalUnits (ds_Policy ?s) - total_units (ds_Leases ?s) - headroom ?s p"
    if "pp_UnitCost pp \<le> hp_TotalUnits (ds_Policy ?s) - total_units (ds_Leases ?s)"
    using that t pp pol headroom_bounds [OF fit pol, of p] by (intro sub64_id) (auto simp: policy_fits_def)
  from ev shared pp(2) show ?thesis
    by (auto simp: evaluateAcquireLocked_def Let_def free own protected_exact [OF fit pol] avail
        split: if_splits)
qed

text \<open>
  C20: A grant that lends a profile more than its own reservation leaves every other profile's
  non-borrowable reservation whole. If after a successful Acquire the profile holds more than
  it has reserved, then the units of all leases plus what every other non-borrowable
  reservation has left are still within the total.
\<close>

theorem borrowing_keeps_headroom:
  assumes ok: "base_ok c" and fit: "units_fit (ds_Leases (co_state c))"
    and pol: "policy_fits (ds_Policy (co_state c))"
    and acquire: "Acquire e c p k n = (c', l, None)"
    and pp: "policy_profile (ds_Policy (co_state c)) p = Some pp"
    and borrow: "pp_ReservedUnits pp < profile_units (ds_Leases (co_state c')) p"
  shows "total_units (ds_Leases (co_state c')) + headroom (co_state c') p
    \<le> hp_TotalUnits (ds_Policy (co_state c'))"
proof -
  have core: "ledger_core (co_state c)" using ok by (simp add: base_ok_def ledger_ok_def)
  obtain m c3 where facts: "map_of (ds_Leases (swept e c)) (leaseKey_String p k) = None"
    "base_ok c3" "co_state c3 = swept e c"
    "evaluateAcquireLocked c3 p pp (heldUnitsByProfileLocked c3) = Inr m"
    "fresh_lease p k (pp_UnitCost pp) (ds_DecisionSequence (swept e c) + 1) LeaseProvisional l"
    and c': "\<exists>d. co_state c' = (granted_ledger (swept e c) p k l)\<lparr>ds_LastDecision := d\<rparr>"
    using Acquire_success [OF ok acquire] pp by (metis option.inject)
  have ls: "leases_ok (ds_DecisionSequence (swept e c)) (ds_Leases (swept e c))"
    using facts(2,3) by (simp add: base_ok_def ledger_ok_def ledger_core_def)
  then have mok: "map_ok (ds_Leases (swept e c))" by (simp add: leases_ok_def)
  have fit3: "units_fit (ds_Leases (co_state c3))"
    using fit swept_units [OF core, of e] ls facts(3)
    by (force simp: units_fit_def leases_ok_def lease_ok_def)
  have same: "profile_units (ds_Leases (co_state c')) q = profile_units (ds_Leases (swept e c)) q"
    if "q \<noteq> p" for q
    using that c' facts(1,5) mok by (auto simp: granted_ledger_def profile_units_mput fresh_lease_def)
  have "headroom (co_state c') p = headroom (co_state c3) p"
    unfolding headroom_def using same c' facts(3)
    by (intro arg_cong [where f = sum_list] map_cong) (auto simp: granted_ledger_def)
  moreover have "pp_ReservedUnits pp < profile_units (ds_Leases (co_state c3)) p + pp_UnitCost pp"
    using borrow c' facts(1,3,5) mok by (auto simp: granted_ledger_def profile_units_mput fresh_lease_def)
  ultimately show ?thesis
    using evaluate_shared [OF facts(4) fit3] pol pp c' facts(1,3,5) mok core policy_ok_cost [OF _ pp]
      policy_total_nonneg policy_profile_Some [OF pp]
    by (auto simp: granted_ledger_def total_units_mput fresh_lease_def ledger_core_def)
qed

theorem borrowing_keeps_headroom_witness:
  "\<exists>c' l. Acquire (demo_env 5) demo ''b'' ''s1'' 1 = (c', l, None)
     \<and> total_units (ds_Leases (co_state c')) + headroom (co_state c') ''b'' \<le> 4"
proof -
  obtain c' l where grant: "Acquire (demo_env 5) demo ''b'' ''s1'' 1 = (c', l, None)"
    "profile_units (ds_Leases (co_state c')) ''b'' = 2" "hp_TotalUnits (ds_Policy (co_state c')) = 4"
  proof -
    let ?r = "Acquire (demo_env 5) demo ''b'' ''s1'' 1"
    have "snd (snd ?r) = None" "profile_units (ds_Leases (co_state (fst ?r))) ''b'' = 2"
      "hp_TotalUnits (ds_Policy (co_state (fst ?r))) = 4"
      by code_simp+
    then show ?thesis using that [of "fst ?r" "fst (snd ?r)"] by (simp add: prod_eq_iff)
  qed
  have fit: "units_fit (ds_Leases (co_state demo))" "policy_fits (ds_Policy (co_state demo))"
    by (simp_all add: units_fit_def policy_fits_def demo_def newDurableState_def demo_policy_def
        demo_profile_def max_int64_def)
  have pp: "policy_profile (ds_Policy (co_state demo)) ''b'' = Some (demo_profile ''b'' 2 0 True)"
    by code_simp
  have "pp_ReservedUnits (demo_profile ''b'' 2 0 True) < profile_units (ds_Leases (co_state c')) ''b''"
    using grant(2) by (simp add: demo_profile_def)
  from borrowing_keeps_headroom [OF demo_ok fit grant(1) pp this] grant show ?thesis by auto
qed

text \<open>
  The own-reservation path is different: it only checks the free budget. With profiles
  a (5 reserved, not borrowable), b (5 reserved, borrowable) and c (nothing reserved) on a host
  of 10, c borrows b's idle 5 units, then b takes 5 more from its own reservation. Both grants
  succeed, the host is full, and a, which holds nothing of its non-borrowable 5, is refused for
  lack of budget.
\<close>

definition overrun_host :: coordinator where
  "overrun_host = demo\<lparr>co_state := (co_state demo)\<lparr>ds_Policy := demo_policy\<lparr>hp_TotalUnits := 10,
     hp_Profiles := [demo_profile ''a'' 5 5 False, demo_profile ''b'' 5 5 True,
       demo_profile ''c'' 5 0 True]\<rparr>\<rparr>\<rparr>"

theorem own_reservation_consumes_headroom:
  "HostPolicy_validate (ds_Policy (co_state overrun_host)) = None
   \<and> (let (c1, l1, e1) = Acquire (demo_env 1) overrun_host ''c'' ''s'' 1;
          (c2, l2, e2) = Acquire (demo_env 2) c1 ''b'' ''s'' 1;
          (c3, l3, e3) = Acquire (demo_env 3) c2 ''a'' ''s'' 1
      in e1 = None \<and> e2 = None \<and> e3 = Some (raise ErrBudgetExhausted)
         \<and> profile_units (ds_Leases (co_state c3)) ''a'' = 0
         \<and> hp_TotalUnits (ds_Policy (co_state c3))
             < total_units (ds_Leases (co_state c3)) + headroom (co_state c3) ''b'')"
  by code_simp

section \<open>Fairness\<close>

text \<open>
  C23: While the rotation is below the number of contenders, the guaranteed shares split the
  available units exactly: they add up to what is available, and over one full turn of the
  rotation every contender is guaranteed the same amount.
\<close>

theorem guaranteed_shares_split:
  assumes "0 \<le> co_rotation c" and "co_rotation c < int (length contenders)" and "0 \<le> available"
    and "i < length contenders"
  shows "(\<Sum>j\<in>{0..<int (length contenders)}. guaranteedShareLocked c contenders j available) = available
    \<and> (\<Sum>r\<in>{0..<int (length contenders)}.
        guaranteedShareLocked (c\<lparr>co_rotation := r\<rparr>) contenders (int i) available) = available"
  using host_share.sum_shares [of "co_rotation c" "int (length contenders)" available c]
    host_share.sum_rotations [of "int i" "int (length contenders)" available c] assms
  by (simp add: guaranteed_share_replicate)

theorem guaranteed_shares_split_witness:
  "(\<Sum>j\<in>{0..<2}. guaranteedShareLocked demo [''a'', ''b''] j 5) = 5
   \<and> (\<Sum>r\<in>{0..<2}. guaranteedShareLocked (demo\<lparr>co_rotation := r\<rparr>) [''a'', ''b''] 1 5) = 5"
  using guaranteed_shares_split [of demo "[''a'', ''b'']" 5 1] by (simp add: demo_def)

text \<open>
  C22: No contender is refused its own share. While the rotation is below the number of
  contenders, a profile with pending demand whose guaranteed share of the available units
  covers the cost wins its fair turn, whatever the other profiles hold.
\<close>

theorem fair_turn_guaranteed:
  assumes "0 \<le> co_rotation c" and "co_rotation c < int (length (contendersLocked c))"
    and "i < length (contendersLocked c)" and "contendersLocked c ! i = p"
    and "0 \<le> available" and "available \<le> max_int64"
    and "unitCost \<le> guaranteedShareLocked c (contendersLocked c) (int i) available"
  shows "fairTurnLocked c p held available unitCost = (True, int (length (contendersLocked c)))"
proof -
  have "contendersLocked c \<noteq> []" using assms(3) by auto
  with fair_allocation_lower_bound [OF assms(1-6), of held] assms(7) show ?thesis
    by (auto simp: fairTurnLocked_def fairAllocatableUnitsLocked_def Let_def split: prod.splits)
qed

theorem fair_turn_guaranteed_witness:
  "fairTurnLocked (demo\<lparr>co_demand := [(''a'', 1), (''b'', 3)]\<rparr>) ''b'' [(''a'', 7)] 4 2 = (True, 2)"
proof -
  let ?c = "demo\<lparr>co_demand := [(''a'', 1), (''b'', 3)]\<rparr>"
  have contenders: "contendersLocked ?c = [''a'', ''b'']" by code_simp
  have "fairTurnLocked ?c ''b'' [(''a'', 7)] 4 2 = (True, int (length (contendersLocked ?c)))"
    by (rule fair_turn_guaranteed [of ?c 1], unfold contenders) code_simp+
  then show ?thesis by (simp add: contenders)
qed

end
