(* ===== verification/Operations.thy ===== *)
theory Operations
  imports Grants
begin

text \<open>
  The contract of each coordinator operation: which branch it takes, what it returns, and what
  it leaves in the ledger.
\<close>

lemma base_core: "base_ok c \<Longrightarrow> ledger_core (co_state c)"
  by (simp add: base_ok_def ledger_ok_def)

lemma commit_failed_state: "commit c new = (c', Some err) \<Longrightarrow> co_state c' = co_state c"
  by (auto simp: commit_def split: prod.splits option.splits)

lemma sweep_failed:
  assumes ok: "base_ok c" and sweep: "sweepExpiredLocked e c = (c1, Inl err)"
  shows "co_state c1 = co_state c \<and> err = err_other"
proof -
  let ?new = "swept e c"
  have "commit c ?new = (c1, Some err)"
    using sweep ok
    by (cases rule: commit_cases [of c ?new])
      (auto simp: sweepExpiredLocked_def expired_leases_def [symmetric] swept_def [symmetric] Let_def
        split: if_splits)
  from commit_failed [OF this] show ?thesis by (metis coordinator.select_convs(3)
    coordinator.surjective coordinator.update_convs(1))
qed

lemma sweep_cases:
  assumes "base_ok c"
  obtains (failed) c1 where "sweepExpiredLocked e c = (c1, Inl err_other)" "co_state c1 = co_state c"
      "base_ok c1"
  | (swept) c1 where "sweepExpiredLocked e c = (c1, Inr (map fst (expired_leases e c)))"
      "co_state c1 = swept e c" "base_ok c1" "co_provisionalTTL c1 = co_provisionalTTL c"
      "co_provisionalDeadlines c1
        = mdel_all (co_provisionalDeadlines c) (map fst (expired_leases e c))"
proof -
  obtain c1 r where sweep: "sweepExpiredLocked e c = (c1, r)" by force
  have ok1: "base_ok c1" using sweep_ok [OF assms _ sweep, of "{Expired}"] by simp
  show ?thesis
  proof (cases r)
    case (Inl err)
    with sweep_failed [OF assms, of e c1 err] sweep ok1 failed show ?thesis by auto
  next
    case (Inr x)
    with sweep_result [OF assms, of e c1 x] sweep ok1 show ?thesis using swept [of c1] by simp
  qed
qed

text \<open>With no failure scheduled every save succeeds.\<close>

definition saves_succeed :: "coordinator \<Rightarrow> bool" where
  "saves_succeed c \<longleftrightarrow> store_outcomes (co_store c) = []"

lemma commit_succeeds:
  assumes "saves_succeed c"
  shows "commit c new = (c\<lparr>co_store := (co_store c)\<lparr>store_disk := Document new\<rparr>, co_state := new\<rparr>, None)"
  using assms by (simp add: saves_succeed_def commit_def fileStore_Save_def)

lemma sweep_succeeds:
  assumes ok: "base_ok c" and saves: "saves_succeed c"
  obtains c1 where "sweepExpiredLocked e c = (c1, Inr (map fst (expired_leases e c)))"
    and "co_state c1 = swept e c" and "base_ok c1" and "saves_succeed c1"
    and "co_provisionalTTL c1 = co_provisionalTTL c"
    and "co_provisionalDeadlines c1
      = mdel_all (co_provisionalDeadlines c) (map fst (expired_leases e c))"
proof -
  have ok1: "\<exists>c1. sweepExpiredLocked e c = (c1, Inr (map fst (expired_leases e c))) \<and> saves_succeed c1"
    using ok saves commit_succeeds [OF saves]
    by (auto simp: sweepExpiredLocked_def expired_leases_def [symmetric] swept_def [symmetric] Let_def
        saves_succeed_def)
  from ok show ?thesis
    by (cases rule: sweep_cases [where e = e]) (use ok1 that in auto)
qed

text \<open>A host with one provisional lease, granted at time 5 with deadline 15.\<close>

definition demo_held :: coordinator where
  "demo_held = fst (Acquire (demo_env 5) demo ''b'' ''s1'' 1)"

lemma demo_held_ok: "base_ok demo_held"
  unfolding demo_held_def using evolve_ok [OF Acquire_evolve [OF demo_ok] demo_ok] by blast

section \<open>Expiry\<close>

text \<open>
  C24: An expired provisional lease is never revived. Once its deadline has passed, or when the
  process tracks no deadline for it, Renew and Activate return no lease: they report the expiry
  and the lease is gone from the ledger, or the sweep's save failed and the ledger is as before.
\<close>

theorem expired_lease_not_revived:
  assumes ok: "base_ok c" and id: "profileIDPattern p" "slotKeyPattern k"
    and l: "map_of (ds_Leases (co_state c)) (leaseKey_String p k) = Some l"
    and expired: "lease_expired (env_now e) (co_provisionalDeadlines c) (leaseKey_String p k, l)"
    and f: "f = Renew \<or> f = Activate"
  shows "\<exists>c' err. f e c p k = (c', zeroLease, Some err)
    \<and> (err = raise ErrLeaseExpired
         \<and> map_of (ds_Leases (co_state c')) (leaseKey_String p k) = None
       \<or> err = err_other \<and> ds_Leases (co_state c') = ds_Leases (co_state c))"
  using ok
proof (cases rule: sweep_cases [where e = e])
  case (failed c1)
  with f id show ?thesis
    by (auto simp: Renew_def Activate_def validators renew_body_def activate_body_def Let_def)
next
  case (swept c1)
  have dead: "leaseKey_String p k \<in> fst ` set (expired_leases e c)"
    using expired_keys [OF base_core [OF ok], of "leaseKey_String p k" e] l expired by blast
  note if_P [OF dead, simp]
  have "map_of (ds_Leases (co_state c1)) (leaseKey_String p k) = None"
    using swept_lookup [OF base_core [OF ok], of e "leaseKey_String p k"] l expired swept(2) by simp
  with swept f id show ?thesis
    by (auto simp: Renew_def Activate_def validators renew_body_def activate_body_def Let_def)
qed

theorem expired_lease_not_revived_witness:
  "\<exists>c' err. Activate (demo_env 15) demo_held ''b'' ''s1'' = (c', zeroLease, Some err)
    \<and> (err = raise ErrLeaseExpired
         \<and> map_of (ds_Leases (co_state c')) (leaseKey_String ''b'' ''s1'') = None
       \<or> err = err_other \<and> ds_Leases (co_state c') = ds_Leases (co_state demo_held))"
proof -
  let ?key = "leaseKey_String ''b'' ''s1''"
  have "case map_of (ds_Leases (co_state demo_held)) ?key of None \<Rightarrow> False
    | Some l \<Rightarrow> lease_expired (env_now (demo_env 15)) (co_provisionalDeadlines demo_held) (?key, l)"
    by code_simp
  then obtain l where l: "map_of (ds_Leases (co_state demo_held)) ?key = Some l"
    "lease_expired (env_now (demo_env 15)) (co_provisionalDeadlines demo_held) (?key, l)"
    by (auto split: option.splits)
  have id: "profileIDPattern ''b''" "slotKeyPattern ''s1''" by code_simp+
  show ?thesis by (rule expired_lease_not_revived [OF demo_held_ok id l disjI2 [OF refl]])
qed

text \<open>
  A provisional lease can be renewed until its deadline. With the deadline still ahead and
  saves succeeding, Renew returns the lease with everything fixed at the grant unchanged, and
  the tracked deadline becomes the time of the call plus the provisional time to live.
\<close>

theorem renew_extends_deadline:
  assumes ok: "base_ok c" and id: "profileIDPattern p" "slotKeyPattern k"
    and l: "map_of (ds_Leases (co_state c)) (leaseKey_String p k) = Some l"
      "lease_Status l = LeaseProvisional"
    and deadline: "map_of (co_provisionalDeadlines c) (leaseKey_String p k) = Some d" "env_now e < d"
    and saves: "saves_succeed c"
  shows "\<exists>c' l'. Renew e c p k = (c', l', None) \<and> same_grant l l' \<and> lease_Status l' = LeaseProvisional
    \<and> map_of (ds_Leases (co_state c')) (leaseKey_String p k) = Some l'
    \<and> map_of (co_provisionalDeadlines c') (leaseKey_String p k)
        = Some (env_now e + co_provisionalTTL c)"
proof -
  let ?key = "leaseKey_String p k"
  obtain c1 where c1: "sweepExpiredLocked e c = (c1, Inr (map fst (expired_leases e c)))"
    "co_state c1 = swept e c" "base_ok c1" "saves_succeed c1"
    "co_provisionalTTL c1 = co_provisionalTTL c"
    using sweep_succeeds [OF ok saves, of e] by metis
  have live: "\<not> lease_expired (env_now e) (co_provisionalDeadlines c) (?key, l)"
    using l deadline by (simp add: lease_expired_def)
  then have "map_of (ds_Leases (co_state c1)) ?key = Some l"
    using swept_lookup [OF base_core [OF ok], of e ?key] l c1(2) by simp
  moreover have "?key \<notin> fst ` set (expired_leases e c)"
    using expired_keys [OF base_core [OF ok], of ?key e] l live by auto
  ultimately obtain c2 l2 where body: "renew_body e c p k = (c2, l2, None)" "same_grant l l2"
    "lease_Status l2 = LeaseProvisional" "map_of (ds_Leases (co_state c2)) ?key = Some l2"
    "map_of (co_provisionalDeadlines c2) ?key = Some (env_now e + co_provisionalTTL c)"
    using c1 l by (auto simp: renew_body_def commit_succeeds same_grant_def Let_def)
  have "base_ok c2"
    using evolve_ok [OF renew_body_evolve [OF ok, of "{Expired, Refreshed p k}" p k e] ok] body(1)
    by simp
  with body id show ?thesis by (simp add: Renew_def validators Let_def)
qed

theorem renew_extends_deadline_witness:
  "\<exists>c' l'. Renew (demo_env 14) demo_held ''b'' ''s1'' = (c', l', None)
    \<and> map_of (co_provisionalDeadlines c') (leaseKey_String ''b'' ''s1'') = Some 24"
proof -
  let ?key = "leaseKey_String ''b'' ''s1''"
  have "case map_of (ds_Leases (co_state demo_held)) ?key of None \<Rightarrow> False
    | Some l \<Rightarrow> lease_Status l = LeaseProvisional"
    by code_simp
  then obtain l where l: "map_of (ds_Leases (co_state demo_held)) ?key = Some l"
    "lease_Status l = LeaseProvisional"
    by (auto split: option.splits)
  have id: "profileIDPattern ''b''" "slotKeyPattern ''s1''" by code_simp+
  have d: "map_of (co_provisionalDeadlines demo_held) ?key = Some 15" "env_now (demo_env 14) < 15"
    "saves_succeed demo_held" "env_now (demo_env 14) + co_provisionalTTL demo_held = 24"
    by code_simp+
  from renew_extends_deadline [OF demo_held_ok id l d(1-3)] d(4) show ?thesis by auto
qed

section \<open>Acquire\<close>

lemma Acquire_body:
  "Acquire e c p k n = (if profileIDPattern p \<and> slotKeyPattern k
     then let (c', l, err) = acquire_body e c p k n
          in (recordDecisionLocked c' CommandAcquire p
                (case err of None \<Rightarrow> True | Some x \<Rightarrow> errors_Is x ErrDuplicateLease) err (env_now e), l, err)
     else (c, zeroLease, Some (raise ErrInvalidIdentity)))"
  by (auto simp: Acquire_def validators)

lemma acquire_body_ok:
  assumes "base_ok c" and "profileIDPattern p" and "slotKeyPattern k"
    and "acquire_body e c p k n = (c1, l, err)"
  shows "base_ok c1"
  using evolve_ok [OF acquire_body_evolve [OF assms(1-3), of "{Expired, Granted p k}" e n] assms(1)]
    assms(4) by simp

text \<open>
  Acquire is safe to retry. When the slot already holds a live lease, and no adoption fence
  is up, Acquire returns that lease with the duplicate error and grants nothing: the leases are
  those the sweep left.
\<close>

theorem acquire_duplicate_returns_lease:
  assumes ok: "base_ok c" and id: "profileIDPattern p" "slotKeyPattern k"
    and l: "map_of (ds_Leases (co_state c)) (leaseKey_String p k) = Some l"
    and live: "\<not> lease_expired (env_now e) (co_provisionalDeadlines c) (leaseKey_String p k, l)"
    and fences: "ds_AdoptionFences (co_state c) = []" and saves: "saves_succeed c"
  shows "\<exists>c'. Acquire e c p k n = (c', l, Some (raise ErrDuplicateLease))
    \<and> ds_Leases (co_state c') = ds_Leases (swept e c)"
proof -
  obtain c1 where c1: "sweepExpiredLocked e c = (c1, Inr (map fst (expired_leases e c)))"
    "co_state c1 = swept e c" "base_ok c1"
    using sweep_succeeds [OF ok saves, of e] by metis
  let ?c2 = "expireStaleDemandLocked (env_now e) c1"
  have "map_of (ds_Leases (co_state c1)) (leaseKey_String p k) = Some l"
    using swept_lookup [OF base_core [OF ok], of e "leaseKey_String p k"] l live c1(2) by simp
  then have body: "acquire_body e c p k n = (?c2, l, Some (raise ErrDuplicateLease))"
    using c1 fences by (simp add: acquire_body_def Let_def)
  have "base_ok ?c2" using acquire_body_ok [OF ok id body] .
  with body id c1(2) show ?thesis by (simp add: Acquire_body)
qed

theorem acquire_duplicate_returns_lease_witness:
  "\<exists>c' l. Acquire (demo_env 6) demo_held ''b'' ''s1'' 1 = (c', l, Some (raise ErrDuplicateLease))"
proof -
  let ?key = "leaseKey_String ''b'' ''s1''"
  have "case map_of (ds_Leases (co_state demo_held)) ?key of None \<Rightarrow> False
    | Some l \<Rightarrow> \<not> lease_expired (env_now (demo_env 6)) (co_provisionalDeadlines demo_held) (?key, l)"
    by code_simp
  then obtain l where l: "map_of (ds_Leases (co_state demo_held)) ?key = Some l"
    "\<not> lease_expired (env_now (demo_env 6)) (co_provisionalDeadlines demo_held) (?key, l)"
    by (auto split: option.splits)
  have id: "profileIDPattern ''b''" "slotKeyPattern ''s1''" by code_simp+
  have f: "ds_AdoptionFences (co_state demo_held) = []" "saves_succeed demo_held" by code_simp+
  from acquire_duplicate_returns_lease [OF demo_held_ok id l f] show ?thesis by blast
qed

lemma Acquire_refused:
  assumes ok: "base_ok c" and acquire: "Acquire e c p k n = (c', l, Some err)"
  shows "ds_Leases (co_state c') \<in> {ds_Leases (co_state c), ds_Leases (swept e c)}
    \<and> (l = zeroLease \<or> err = raise ErrDuplicateLease)"
proof (cases "profileIDPattern p \<and> slotKeyPattern k")
  case True
  obtain c1 where body: "acquire_body e c p k n = (c1, l, Some err)"
    and c': "ds_Leases (co_state c') = ds_Leases (co_state c1)"
    using acquire acquire_body_ok [OF ok, of p k e n] True
    by (auto simp: Acquire_body split: prod.splits)
  show ?thesis
    using ok
  proof (cases rule: sweep_cases [where e = e])
    case (failed c2)
    with body c' show ?thesis by (simp add: acquire_body_def)
  next
    case (swept c2)
    have "ds_Leases (co_state c1) = ds_Leases (swept e c) \<and> (l = zeroLease \<or> err = raise ErrDuplicateLease)"
      using body swept
      by (auto simp: acquire_body_def acquire_grant_def Let_def dest!: commit_failed_state
          split: if_splits option.splits sum.splits prod.splits)
    with c' show ?thesis by simp
  qed
qed (use acquire in \<open>auto simp: Acquire_body split: if_splits\<close>)

text \<open>
  A refused Acquire changes no lease. Whatever the reason of the error, policy, budget,
  fence, identity or a failed save, the leases in memory are those before the call or those the
  sweep left, and unless the error is the duplicate error no lease is returned.
\<close>

theorem acquire_refusal_changes_no_lease:
  assumes ok: "base_ok c" and acquire: "Acquire e c p k n = (c', l, Some err)"
  shows "ds_Leases (co_state c') \<in> {ds_Leases (co_state c), ds_Leases (swept e c)}
    \<and> (l = zeroLease \<or> err = raise ErrDuplicateLease)"
  by (rule Acquire_refused [OF assms])

theorem acquire_refusal_changes_no_lease_witness:
  "\<exists>c' err. Acquire (demo_env 6) demo_held ''b'' ''s9'' 1 = (c', zeroLease, Some err)
    \<and> ds_Leases (co_state c') \<in> {ds_Leases (co_state demo_held), ds_Leases (swept (demo_env 6) demo_held)}"
proof -
  let ?r = "Acquire (demo_env 6) demo_held ''b'' ''s9'' 1"
  have "snd (snd ?r) = Some (raise ErrProtectedReservation)" by code_simp
  then have r: "?r = (fst ?r, fst (snd ?r), Some (raise ErrProtectedReservation))"
    by (simp add: prod_eq_iff)
  from acquire_refusal_changes_no_lease [OF demo_held_ok r] r show ?thesis by auto
qed

section \<open>Adoption\<close>

lemma lease_identity:
  assumes "leases_ok q ls" and "map_of ls (leaseKey_String p k) = Some l" and "profileIDPattern p"
  shows "lease_ProfileID l = p \<and> lease_SlotKey l = k"
proof (rule leaseKey_String_inj)
  show "profileIDPattern (lease_ProfileID l)"
    and "leaseKey_String (lease_ProfileID l) (lease_SlotKey l) = leaseKey_String p k"
    using leases_ok_lookup [OF assms(1,2)] by (simp_all add: lease_ok_def lease_key_def)
qed (rule assms(3))

text \<open>
  C25: While any profile's adoption fence is up, no profile is granted a lease. Acquire fails
  host-wide, with the pending-adoption error unless identity or the sweep's save failed first.
\<close>

theorem fence_blocks_acquire:
  assumes ok: "base_ok c" and fence: "ds_AdoptionFences (co_state c) \<noteq> []"
  shows "\<exists>c' err. Acquire e c p k n = (c', zeroLease, Some err)
    \<and> err \<in> {raise ErrAdoptionPending, raise ErrInvalidIdentity, err_other}"
  using ok
proof (cases rule: sweep_cases [where e = e])
  case (failed c1)
  then show ?thesis by (auto simp: Acquire_body acquire_body_def Let_def)
next
  case (swept c1)
  with fence show ?thesis by (auto simp: Acquire_body acquire_body_def Let_def)
qed

text \<open>A host whose profile b has an adoption fence waiting for its one active lease.\<close>

definition demo_fenced :: coordinator where
  "demo_fenced = fst (BeginAdoption (fst (Activate (demo_env 6) demo_held ''b'' ''s1'')) ''b'')"

lemma demo_fenced_ok: "base_ok demo_fenced"
proof -
  have "base_ok (fst (Activate (demo_env 6) demo_held ''b'' ''s1''))"
    using evolve_ok [OF Activate_evolve [OF demo_held_ok] demo_held_ok] by blast
  from evolve_ok [OF BeginAdoption_evolve [OF this] this] show ?thesis by (simp add: demo_fenced_def)
qed

theorem fence_blocks_acquire_witness:
  "\<exists>c' err. Acquire (demo_env 7) demo_fenced ''a'' ''s2'' 1 = (c', zeroLease, Some err)
    \<and> err \<in> {raise ErrAdoptionPending, raise ErrInvalidIdentity, err_other}"
proof -
  have "ds_AdoptionFences (co_state demo_fenced) \<noteq> []" by code_simp
  from fence_blocks_acquire [OF demo_fenced_ok this] show ?thesis .
qed

text \<open>
  BeginAdoption puts up a fence that waits for exactly the profile's active leases. For a
  profile of the policy without a fence, and saves succeeding, the new fence's pending list
  holds the slot keys of the profile's active leases, sorted and without duplicates, and
  nothing else of the ledger but the epoch changes.
\<close>

theorem begin_adoption_awaits_active_leases:
  assumes ok: "base_ok c" and p: "profileIDPattern p"
    and pol: "policy_profile (ds_Policy (co_state c)) p \<noteq> None"
    and fence: "map_of (ds_AdoptionFences (co_state c)) p = None" and saves: "saves_succeed c"
  shows "\<exists>c' ks. BeginAdoption c p = (c', None)
    \<and> map_of (ds_AdoptionFences (co_state c')) p
        = Some \<lparr>fence_ProfileID = p, fence_PendingLeaseKeys = Some ks\<rparr>
    \<and> sorted ks \<and> distinct ks
    \<and> set ks = {k. \<exists>l. map_of (ds_Leases (co_state c)) (leaseKey_String p k) = Some l
                      \<and> lease_Status l = LeaseActive}
    \<and> ds_Leases (co_state c') = ds_Leases (co_state c) \<and> ds_Epoch (co_state c') = ds_Epoch (co_state c) + 1"
proof -
  let ?ls = "ds_Leases (co_state c)"
  let ?ks = "activeLeaseSlotKeys ?ls p"
  have ls: "leases_ok (ds_DecisionSequence (co_state c)) ?ls"
    using base_core [OF ok] by (simp add: ledger_core_def)
  note f = fence_ok_active_keys [OF ls p pol]
  have "k \<in> set ?ks" if l: "map_of ?ls (leaseKey_String p k) = Some l" "lease_Status l = LeaseActive" for k l
  proof -
    have "lease_ProfileID l = p \<and> lease_SlotKey l = k" using lease_identity [OF ls l(1) p] .
    with l show ?thesis by (force simp: active_keys_mem dest: map_of_SomeD)
  qed
  then have "set ?ks = {k. \<exists>l. map_of ?ls (leaseKey_String p k) = Some l \<and> lease_Status l = LeaseActive}"
    using f by (auto simp: fence_ok_def pending_ok_def)
  moreover have "sorted ?ks \<and> distinct ?ks" using f by (simp add: fence_ok_def)
  moreover have "\<exists>c'. BeginAdoption c p = (c', None) \<and> co_state c' = (co_state c)
      \<lparr>ds_Epoch := ds_Epoch (co_state c) + 1, ds_AdoptionFences := mput (ds_AdoptionFences (co_state c)) p
        \<lparr>fence_ProfileID = p, fence_PendingLeaseKeys = Some ?ks\<rparr>\<rparr>"
    using p pol fence ok by (simp add: BeginAdoption_def validators Let_def commit_succeeds [OF saves])
  ultimately show ?thesis by auto
qed

theorem begin_adoption_awaits_active_leases_witness:
  "\<exists>c' ks. BeginAdoption demo_held ''b'' = (c', None)
    \<and> map_of (ds_AdoptionFences (co_state c')) ''b''
        = Some \<lparr>fence_ProfileID = ''b'', fence_PendingLeaseKeys = Some ks\<rparr> \<and> sorted ks"
proof -
  have h: "profileIDPattern ''b''" "policy_profile (ds_Policy (co_state demo_held)) ''b'' \<noteq> None"
    "map_of (ds_AdoptionFences (co_state demo_held)) ''b'' = None" "saves_succeed demo_held"
    by code_simp+
  from begin_adoption_awaits_active_leases [OF demo_held_ok h] show ?thesis by blast
qed

text \<open>
  CompleteAdoption takes down only a fence that waits for nothing: on a fence with pending leases
  it changes nothing and reports the pending adoption; on one without, it removes exactly that
  fence when the save succeeds.
\<close>

theorem complete_adoption_needs_accounting:
  assumes ok: "base_ok c" and p: "profileIDPattern p"
    and fence: "map_of (ds_AdoptionFences (co_state c)) p = Some f"
  shows "if pending_keys f \<noteq> [] then CompleteAdoption c p = (c, Some (raise ErrAdoptionPending))
    else case CompleteAdoption c p of
        (c', None) \<Rightarrow> map_of (ds_AdoptionFences (co_state c'))
                        = (map_of (ds_AdoptionFences (co_state c)))(p := None)
                     \<and> ds_Leases (co_state c') = ds_Leases (co_state c)
      | (c', Some err) \<Rightarrow> co_state c' = co_state c"
  using assms
  by (auto simp: CompleteAdoption_def validators Let_def dest: commit_failed_state
      commit_saved(1) split: prod.splits option.splits)

theorem complete_adoption_needs_accounting_witness:
  "CompleteAdoption demo_fenced ''b'' = (demo_fenced, Some (raise ErrAdoptionPending))"
proof -
  have "case map_of (ds_AdoptionFences (co_state demo_fenced)) ''b'' of
      None \<Rightarrow> False | Some f \<Rightarrow> pending_keys f \<noteq> []"
    by code_simp
  then obtain f where f: "map_of (ds_AdoptionFences (co_state demo_fenced)) ''b'' = Some f"
    "pending_keys f \<noteq> []"
    by (auto split: option.splits)
  have "profileIDPattern ''b''" by code_simp
  from complete_adoption_needs_accounting [OF demo_fenced_ok this f(1)] f(2) show ?thesis by simp
qed

text \<open>The slots a profile's fence still waits for.\<close>

definition awaited :: "durableState \<Rightarrow> string \<Rightarrow> string set option" where
  "awaited s p = map_option (set \<circ> pending_keys) (map_of (ds_AdoptionFences s) p)"

lemma awaited_mark:
  assumes "fences_ok pol ls (ds_AdoptionFences s)"
  shows "awaited (fst (markLeaseAccountedForAdoption s p k)) q
    = (if q = p then map_option (\<lambda>ks. ks - {k}) (awaited s q) else awaited s q)"
  by (auto simp: markLeaseAccounted_eq [OF assms] awaited_def account_fence_def pending_keys_def
      split: option.split)

lemma mark_False: "markLeaseAccountedForAdoption s p k = (s', False) \<Longrightarrow> s' = s"
  by (auto simp: markLeaseAccountedForAdoption_def Let_def split: option.splits if_splits)

lemma adopt_body_success:
  assumes ok: "base_ok c" and id: "profileIDPattern p" "slotKeyPattern k"
    and body: "adopt_body e c p k = (c', l, None)"
  shows "map_of (ds_Leases (co_state c')) (leaseKey_String p k) = Some l \<and> lease_Status l = LeaseActive
    \<and> (case map_of (ds_Leases (swept e c)) (leaseKey_String p k) of
          None \<Rightarrow> map_option pp_UnitCost (policy_profile (ds_Policy (co_state c)) p) = Some (lease_Units l)
        | Some m \<Rightarrow> same_grant m l)
    \<and> awaited (co_state c') q = (if q = p then map_option (\<lambda>ks. ks - {k}) (awaited (co_state c) q)
        else awaited (co_state c) q)"
  using ok
proof (cases rule: sweep_cases [where e = e])
  case (failed c1)
  with body show ?thesis by (simp add: adopt_body_def)
next
  case (swept c1)
  let ?key = "leaseKey_String p k" and ?s = "swept e c"
  have aw: "awaited ?s = awaited (co_state c)" by (simp add: awaited_def fun_eq_iff)
  have fs: "fences_ok (ds_Policy ?s) (ds_Leases ?s) (ds_AdoptionFences ?s)"
    using base_core [OF swept(3)] swept(2) by (simp add: ledger_core_def)
  have cl: "clone ?s = ?s" using base_ok_clone [OF swept(3)] swept(2) by simp
  note mark = awaited_mark [OF fs, of p k q]
  have mark': "awaited (fst (markLeaseAccountedForAdoption (?s\<lparr>ds_DecisionSequence := n,
      ds_Tombstones := ts, ds_Leases := ls\<rparr>) p k)) q
    = (if q = p then map_option (\<lambda>ks. ks - {k}) (awaited ?s q) else awaited ?s q)" for n ts ls
    using awaited_mark [of "ds_Policy ?s" "ds_Leases ?s" "?s\<lparr>ds_DecisionSequence := n,
      ds_Tombstones := ts, ds_Leases := ls\<rparr>" p k q] fs by (simp add: awaited_def)
  obtain pp where pp: "policy_profile (ds_Policy ?s) p = Some pp"
    using body swept by (auto simp: adopt_body_def split: option.splits)
  show ?thesis
  proof (cases "map_of (ds_Leases ?s) ?key")
    case None
    with body swept pp aw mark' show ?thesis
      by (auto simp: adopt_body_def Let_def cl dest!: commit_saved(1) split: prod.splits option.splits)
  next
    case (Some m)
    show ?thesis
    proof (cases "lease_Status m = LeaseActive")
      case True
      have "same_grant m m" by simp
      moreover have "c' = c1 \<and> markLeaseAccountedForAdoption ?s p k = (?s, False)
          \<or> co_state c' = fst (markLeaseAccountedForAdoption ?s p k)" and "l = m"
        using True Some body swept(1,2) pp mark_False [of ?s p k]
        by (auto simp: adopt_body_def Let_def cl dest!: commit_saved(1)
            split: prod.splits option.splits bool.splits)
      ultimately show ?thesis
        using True Some swept(2) aw mark by auto
    next
      case False
      with Some body swept pp aw mark' show ?thesis
        by (auto simp: adopt_body_def Let_def cl same_grant_def dest!: commit_saved(1)
            split: prod.splits option.splits)
    qed
  qed
qed

text \<open>
  C29: Adopting a worker counts it and accounts for it. When Adopt succeeds the slot's lease is
  active; if it was already live it keeps its identity and units, otherwise it costs the
  profile's unit cost. The profile's fence, if there is one, waits for exactly the slots it
  waited for before, less this one; every other fence is untouched.
\<close>

theorem adopt_counts_and_accounts:
  assumes ok: "base_ok c" and adopt: "Adopt e c p k = (c', l, None)"
  shows "map_of (ds_Leases (co_state c')) (leaseKey_String p k) = Some l \<and> lease_Status l = LeaseActive
    \<and> (case map_of (ds_Leases (swept e c)) (leaseKey_String p k) of
          None \<Rightarrow> map_option pp_UnitCost (policy_profile (ds_Policy (co_state c)) p) = Some (lease_Units l)
        | Some m \<Rightarrow> same_grant m l)
    \<and> awaited (co_state c') q = (if q = p then map_option (\<lambda>ks. ks - {k}) (awaited (co_state c) q)
        else awaited (co_state c) q)"
proof -
  have id: "profileIDPattern p" "slotKeyPattern k"
    using adopt by (auto simp: Adopt_def validators split: if_splits)
  obtain c1 where body: "adopt_body e c p k = (c1, l, None)"
    and c': "c' = recordDecisionLocked c1 CommandAdopt p True None (env_now e)"
    using adopt id by (auto simp: Adopt_def validators Let_def split: prod.splits)
  have "base_ok c1"
    using evolve_ok [OF adopt_body_evolve [OF ok id, of "{Expired, Adopted p k, Accounted p k}" e] ok] body
    by simp
  with adopt_body_success [OF ok id body, of q] c' show ?thesis by (simp add: awaited_def)
qed

theorem adopt_counts_and_accounts_witness:
  "\<exists>c' l. Adopt (demo_env 8) demo_fenced ''b'' ''s1'' = (c', l, None)
    \<and> lease_Status l = LeaseActive \<and> awaited (co_state c') ''b'' = Some {}"
proof -
  let ?r = "Adopt (demo_env 8) demo_fenced ''b'' ''s1''"
  have "snd (snd ?r) = None" "awaited (co_state demo_fenced) ''b'' = Some {''s1''}" by code_simp+
  then have r: "?r = (fst ?r, fst (snd ?r), None)" "awaited (co_state demo_fenced) ''b'' = Some {''s1''}"
    by (simp_all add: prod_eq_iff)
  from adopt_counts_and_accounts [OF demo_fenced_ok r(1), of "''b''"] r show ?thesis by auto
qed

section \<open>Release\<close>

lemma tombstone_success:
  assumes ok: "base_ok c1" and p: "profileIDPattern p"
    and l: "map_of (ds_Leases (co_state c1)) (leaseKey_String p k) = Some l"
    and t: "tombstoneLocked e c1 p k reason evidence = (c2, None)"
  shows "ds_Leases (co_state c2) = mdel (ds_Leases (co_state c1)) (leaseKey_String p k)
    \<and> ds_Tombstones (co_state c2) = ds_Tombstones (compactTombstones (env_tombstoneOrder e)
        ((co_state c1)\<lparr>ds_Tombstones := mput (ds_Tombstones (co_state c1)) (leaseKey_String p k)
          \<lparr>tomb_ProfileID = p, tomb_SlotKey = k, tomb_LeaseID = lease_LeaseID l, tomb_Reason = reason,
           tomb_Evidence = evidence, tomb_Sequence = ds_DecisionSequence (co_state c1) + 1\<rparr>\<rparr>))"
  using t l ok
  by (auto simp: tombstoneLocked_def Let_def compactTombstones_def dest!: commit_saved(1)
      split: prod.splits option.splits)

text \<open>The entry with the highest sequence survives compaction.\<close>

lemma compact_keeps_newest:
  assumes ts: "map_ok ts" and newest: "\<forall>e \<in> set ts. tomb_Sequence (snd e) < tomb_Sequence t"
  shows "map_of (ds_Tombstones (compactTombstones ks (s\<lparr>ds_Tombstones := mput ts key t\<rparr>))) key = Some t"
proof (cases "length (mput ts key t) \<le> maxTombstones")
  case True
  then show ?thesis by (simp add: compactTombstones_def)
next
  case False
  let ?m = "mput ts key t" and ?f = "\<lambda>e. - tomb_Sequence (snd e)"
  let ?s = "sort_key ?f (in_order ks ?m)"
  have ok: "map_ok ?m" using ts by simp
  have mem: "(key, t) \<in> set ?s" using ok by (simp add: set_in_order set_mput ts)
  then obtain x xs where s: "?s = x # xs" by (cases ?s) auto
  have "x = (key, t)"
  proof (rule ccontr)
    assume x: "x \<noteq> (key, t)"
    have "x \<in> set ?m" using s ok by (metis list.set_intros(1) set_in_order set_sort)
    with x have "tomb_Sequence (snd x) < tomb_Sequence t" using newest by (auto simp: set_mput [OF ts])
    moreover have "sorted (map ?f ?s)" by (rule sorted_sort_key)
    then have "?f x \<le> ?f (key, t)" using mem s x by auto
    ultimately show False by simp
  qed
  with s False show ?thesis by (simp add: compactTombstones_def maxTombstones_def)
qed

lemma Release_body:
  "Release e c p k = (if profileIDPattern p \<and> slotKeyPattern k
     then let (c', err) = release_body e c p k TombstoneReleased []
          in (recordDecisionLocked c' CommandRelease p (err = None) err (env_now e), err)
     else (c, Some (raise ErrInvalidIdentity)))"
  by (auto simp: Release_def validators)

lemma release_body_ok:
  assumes "base_ok c" and "profileIDPattern p" and "release_body e c p k reason evidence = (c1, err)"
  shows "base_ok c1"
  using evolve_ok [OF release_body_evolve [OF assms(1,2), of "{Expired, Removed p k}" k e reason evidence]
      assms(1)] assms(3) by simp

lemma release_body_success:
  assumes ok: "base_ok c" and p: "profileIDPattern p"
    and l: "map_of (ds_Leases (swept e c)) (leaseKey_String p k) = Some l"
    and body: "release_body e c p k reason evidence = (c1, None)"
  shows "map_of (ds_Leases (co_state c1)) = (map_of (ds_Leases (swept e c)))(leaseKey_String p k := None)
    \<and> (\<exists>t. map_of (ds_Tombstones (co_state c1)) (leaseKey_String p k) = Some t
         \<and> tomb_Reason t = reason \<and> tomb_Evidence t = evidence \<and> tomb_LeaseID t = lease_LeaseID l)"
  using ok
proof (cases rule: sweep_cases [where e = e])
  case (failed c2)
  with body show ?thesis by (simp add: release_body_def)
next
  case (swept c2)
  let ?s = "co_state c2"
  let ?t = "\<lparr>tomb_ProfileID = p, tomb_SlotKey = k, tomb_LeaseID = lease_LeaseID l, tomb_Reason = reason,
    tomb_Evidence = evidence, tomb_Sequence = ds_DecisionSequence ?s + 1\<rparr>"
  have t: "tombstoneLocked e c2 p k reason evidence = (c1, None)"
    using body swept by (simp add: release_body_def)
  note facts = tombstone_success [OF swept(3) p _ t, of l]
  have tok: "tombs_ok (ds_DecisionSequence ?s) (ds_Tombstones ?s)"
    using base_core [OF swept(3)] by (simp add: ledger_core_def)
  then have "\<forall>e \<in> set (ds_Tombstones ?s). tomb_Sequence (snd e) < tomb_Sequence ?t"
    by (auto simp: tombs_ok_def tomb_ok_def)
  from compact_keeps_newest [OF _ this, where ks = "env_tombstoneOrder e" and s = ?s and key = "leaseKey_String p k"] tok
  have "map_of (ds_Tombstones (compactTombstones (env_tombstoneOrder e)
      (?s\<lparr>ds_Tombstones := mput (ds_Tombstones ?s) (leaseKey_String p k) ?t\<rparr>))) (leaseKey_String p k) = Some ?t"
    by (simp add: tombs_ok_def)
  with facts l swept(2) show ?thesis by auto
qed

text \<open>
  C27: Release removes exactly the named lease, and repeating it is harmless. A successful
  Release of a live lease takes that one lease out of the ledger and records a tombstone with
  its identity. Repeated while no other lease expires, Release succeeds again and leaves the
  leases, the tombstones and the sequence as they are.
\<close>

theorem release_exact_and_idempotent:
  assumes ok: "base_ok c" and rel: "Release e c p k = (c', None)"
    and l: "map_of (ds_Leases (swept e c)) (leaseKey_String p k) = Some l"
    and quiet: "expired_leases e2 c' = []"
  shows "map_of (ds_Leases (co_state c')) = (map_of (ds_Leases (swept e c)))(leaseKey_String p k := None)
    \<and> (\<exists>t. map_of (ds_Tombstones (co_state c')) (leaseKey_String p k) = Some t
         \<and> tomb_Reason t = TombstoneReleased \<and> tomb_LeaseID t = lease_LeaseID l)
    \<and> (case Release e2 c' p k of (c2, err) \<Rightarrow> err = None
         \<and> (\<exists>d. co_state c2 = (co_state c')\<lparr>ds_LastDecision := d\<rparr>))"
proof -
  have id: "profileIDPattern p" "slotKeyPattern k" using rel by (auto simp: Release_body split: if_splits)
  obtain c1 where body: "release_body e c p k TombstoneReleased [] = (c1, None)"
    and c': "c' = recordDecisionLocked c1 CommandRelease p True None (env_now e)"
    using rel id by (auto simp: Release_body Let_def split: prod.splits)
  have ok1: "base_ok c1" using release_body_ok [OF ok id(1) body] .
  note facts = release_body_success [OF ok id(1) l body]
  have ok': "base_ok c'" using evolve_ok [OF Release_evolve [OF ok, of p k e] ok] rel by simp
  have "sweepExpiredLocked e2 c' = (c', Inr [])"
    using quiet ok' by (simp add: sweepExpiredLocked_def expired_leases_def)
  then have again: "release_body e2 c' p k TombstoneReleased [] = (c', None)"
    using facts ok1 c' by (auto simp: release_body_def tombstoneLocked_def Let_def)
  have "case Release e2 c' p k of (c2, err) \<Rightarrow> err = None
      \<and> (\<exists>d. co_state c2 = (co_state c')\<lparr>ds_LastDecision := d\<rparr>)"
    using again id record_state [OF ok'] by (simp add: Release_body)
  with facts ok1 c' show ?thesis by auto
qed

theorem release_exact_and_idempotent_witness:
  "\<exists>c' c2. Release (demo_env 6) demo_held ''b'' ''s1'' = (c', None)
    \<and> Release (demo_env 7) c' ''b'' ''s1'' = (c2, None)
    \<and> map_of (ds_Leases (co_state c')) (leaseKey_String ''b'' ''s1'') = None"
proof -
  let ?r = "Release (demo_env 6) demo_held ''b'' ''s1''"
  have "snd ?r = None" "expired_leases (demo_env 7) (fst ?r) = []"
    "map_of (ds_Leases (swept (demo_env 6) demo_held)) (leaseKey_String ''b'' ''s1'') \<noteq> None"
    by code_simp+
  then obtain l where r: "?r = (fst ?r, None)" "expired_leases (demo_env 7) (fst ?r) = []"
    "map_of (ds_Leases (swept (demo_env 6) demo_held)) (leaseKey_String ''b'' ''s1'') = Some l"
    by (auto simp: prod_eq_iff)
  from release_exact_and_idempotent [OF demo_held_ok r(1,3,2)] r(1) show ?thesis
    by (auto split: prod.splits)
qed

section \<open>Lease identities\<close>

text \<open>
  In any ledger the service can reach, two live leases have different IDs, and the ID of a newly granted lease differs from
  the ID of every other live lease and from the ID every tombstone of the ledger records.
\<close>

theorem lease_ids_unique:
  assumes ok: "base_ok c" and acquire: "Acquire e c p k n = (c', l, None)"
    and a: "map_of (ds_Leases (co_state c')) ka = Some la"
    and b: "map_of (ds_Leases (co_state c')) kb = Some lb"
  shows "(lease_LeaseID la = lease_LeaseID lb \<longleftrightarrow> ka = kb)
    \<and> lease_LeaseID l \<notin> (\<lambda>e. tomb_LeaseID (snd e)) ` set (ds_Tombstones (co_state c'))"
proof -
  have ok': "base_ok c'" using evolve_ok [OF Acquire_evolve [OF ok, of p k e n] ok] acquire by simp
  then have ls: "leases_ok (ds_DecisionSequence (co_state c')) (ds_Leases (co_state c'))"
    and ts: "tombs_ok (ds_DecisionSequence (co_state c')) (ds_Tombstones (co_state c'))"
    using base_core by (auto simp: ledger_core_def)
  have shape: "\<exists>g. lease_LeaseID m = leaseID_for key g \<and> 0 \<le> g \<and> CHR ''#'' \<notin> set key"
    if "map_of (ds_Leases (co_state c')) key = Some m" for key m
    using leases_ok_lookup [OF ls that] leaseKey_no_hash by (auto simp: lease_ok_def lease_key_def)
  have "lease_LeaseID la = lease_LeaseID lb \<longleftrightarrow> ka = kb"
    using shape [OF a] shape [OF b] leaseID_for_inj a b by fastforce
  moreover have "lease_LeaseID l \<noteq> tomb_LeaseID t"
    if t: "(key, t) \<in> set (ds_Tombstones (co_state c'))" for key t
  proof
    assume eq: "lease_LeaseID l = tomb_LeaseID t"
    have l: "map_of (ds_Leases (co_state c')) (leaseKey_String p k) = Some l"
    proof (rule Acquire_success [OF ok acquire])
      assume "\<exists>d. co_state c' = (granted_ledger (swept e c) p k l)\<lparr>ds_LastDecision := d\<rparr>"
      then show ?thesis by (auto simp: granted_ledger_def)
    qed
    obtain g h where g: "lease_LeaseID l = leaseID_for (leaseKey_String p k) g" "0 \<le> g"
      "CHR ''#'' \<notin> set (leaseKey_String p k)"
      and h: "tomb_LeaseID t = leaseID_for key h" "0 < h" "CHR ''#'' \<notin> set key"
      using shape [OF l] ts t leaseKey_no_hash by (fastforce simp: tombs_ok_def tomb_ok_def tomb_key_def)
    have "leaseKey_String p k = key" using leaseID_for_inj [OF g(3) h(3), of g h] g h eq by simp
    moreover have "map_of (ds_Tombstones (co_state c')) (leaseKey_String p k) = None"
      using apart_no_tombstone [of "ds_Leases (co_state c')"] l base_core [OF ok']
      by (auto simp: ledger_core_def)
    ultimately show False using t by (auto simp: map_of_eq_None_iff image_iff)
  qed
  ultimately show ?thesis by (metis (mono_tags, lifting) imageE prod.collapse)
qed

theorem lease_ids_unique_witness:
  "\<exists>c' l. Acquire (demo_env 6) demo_held ''a'' ''s1'' 1 = (c', l, None)
    \<and> lease_LeaseID l \<notin> (\<lambda>e. tomb_LeaseID (snd e)) ` set (ds_Tombstones (co_state c'))"
proof -
  let ?r = "Acquire (demo_env 6) demo_held ''a'' ''s1'' 1"
  have "snd (snd ?r) = None"
    "map_of (ds_Leases (co_state (fst ?r))) (leaseKey_String ''a'' ''s1'') \<noteq> None" by code_simp+
  then obtain m where r: "?r = (fst ?r, fst (snd ?r), None)"
    "map_of (ds_Leases (co_state (fst ?r))) (leaseKey_String ''a'' ''s1'') = Some m"
    by (auto simp: prod_eq_iff)
  from lease_ids_unique [OF demo_held_ok r(1) r(2) r(2)] r(1) show ?thesis by blast
qed

text \<open>
  A new lease: what Acquire grants, and what Adopt enters for a slot that has no live lease.
\<close>

definition grants ::
  "env \<Rightarrow> coordinator \<Rightarrow> string \<Rightarrow> string \<Rightarrow> coordinator \<Rightarrow> Lease \<Rightarrow> bool" where
  "grants e c p k c' l \<longleftrightarrow>
     (\<exists>n. Acquire e c p k n = (c', l, None))
     \<or> (Adopt e c p k = (c', l, None) \<and> map_of (ds_Leases (swept e c)) (leaseKey_String p k) = None)"

lemma swept_sequence:
  assumes "base_ok c" shows "ds_DecisionSequence (co_state c) \<le> ds_DecisionSequence (swept e c)"
  using step_mono [OF sweep_step [OF base_core [OF assms], of "env_tombstoneOrder e" TombstoneExpired
      "env_now e" "co_provisionalDeadlines c" "env_leaseOrder e"]]
  by (simp add: swept_def expired_leases_def)

lemma acquire_body_id:
  assumes ok: "base_ok c" and body: "acquire_body e c p k n = (c', l, None)"
  shows "lease_LeaseID l = leaseID_for (leaseKey_String p k) (ds_DecisionSequence (swept e c) + 1)
    \<and> ds_DecisionSequence (co_state c') = ds_DecisionSequence (swept e c) + 1 \<and> in_sync c'"
  using ok body
proof (rule acquire_body_success)
  fix pp m c3
  assume "base_ok c3" "co_state c3 = swept e c"
    "acquire_grant e c3 p k (pp_UnitCost pp) (max 1 n) m = (c', l, None)"
  with acquire_grant_success [of c3 e p k "pp_UnitCost pp" "max 1 n" m c' l] show ?thesis
    by (simp add: fresh_lease_def granted_ledger_def in_sync_def)
qed

lemma adopt_body_id:
  assumes ok: "base_ok c" and body: "adopt_body e c p k = (c', l, None)"
    and new: "map_of (ds_Leases (swept e c)) (leaseKey_String p k) = None"
  shows "lease_LeaseID l = leaseID_for (leaseKey_String p k) (ds_DecisionSequence (swept e c) + 1)
    \<and> ds_DecisionSequence (co_state c') = ds_DecisionSequence (swept e c) + 1 \<and> in_sync c'"
  using ok
proof (cases rule: sweep_cases [where e = e])
  case (failed c1)
  with body show ?thesis by (simp add: adopt_body_def)
next
  case (swept c1)
  with body new show ?thesis
    by (auto simp: adopt_body_def Let_def in_sync_def dest!: commit_sync
        split: prod.splits option.splits)
qed

text \<open>
  The ID of a new lease carries a sequence above the ledger's, which memory and disk have
  reached when the lease is reported.
\<close>

lemma grant_sequence:
  assumes ok: "base_ok c" and grant: "grants e c p k c' l"
  obtains g where "lease_LeaseID l = leaseID_for (leaseKey_String p k) g"
    "CHR ''#'' \<notin> set (leaseKey_String p k)" "ds_DecisionSequence (co_state c) < g" "base_ok c'"
    "service_holds (\<lambda>d. g \<le> ds_DecisionSequence d) (Running c')"
proof -
  let ?g = "ds_DecisionSequence (swept e c) + 1"
  have id: "profileIDPattern p" "slotKeyPattern k"
    using grant by (auto simp: grants_def Acquire_def Adopt_def validators split: if_splits)
  obtain c1 command where c': "c' = recordDecisionLocked c1 command p True None (env_now e)"
    and command: "isLeaseDecision command" and ok1: "base_ok c1"
    and l: "lease_LeaseID l = leaseID_for (leaseKey_String p k) ?g"
      "ds_DecisionSequence (co_state c1) = ?g" "in_sync c1"
    using grant unfolding grants_def
  proof (elim disjE exE conjE)
    fix n assume "Acquire e c p k n = (c', l, None)"
    then obtain c1 where body: "acquire_body e c p k n = (c1, l, None)"
      and c': "c' = recordDecisionLocked c1 CommandAcquire p True None (env_now e)"
      using id by (auto simp: Acquire_def validators Let_def split: prod.splits)
    have "base_ok c1" using acquire_body_ok [OF ok id body] .
    with that [OF c' _ this] acquire_body_id [OF ok body] show thesis by simp
  next
    assume "Adopt e c p k = (c', l, None)"
      and new: "map_of (ds_Leases (swept e c)) (leaseKey_String p k) = None"
    then obtain c1 where body: "adopt_body e c p k = (c1, l, None)"
      and c': "c' = recordDecisionLocked c1 CommandAdopt p True None (env_now e)"
      using id by (auto simp: Adopt_def validators Let_def split: prod.splits)
    have "base_ok c1"
      using evolve_ok [OF adopt_body_evolve [OF ok id, of "{Expired, Adopted p k, Accounted p k}" e] ok] body
      by simp
    with that [OF c' _ this] adopt_body_id [OF ok body new] show thesis by simp
  qed
  have "service_holds (\<lambda>d. ?g \<le> ds_DecisionSequence d) (Running c1)"
    using l by (intro sync_holds) simp_all
  then have "service_holds (\<lambda>d. ?g \<le> ds_DecisionSequence d) (Running c')"
    unfolding c' by (intro record_holds [OF ok1 command id(1)]) simp_all
  moreover have "base_ok c'"
    using evolve_ok [OF record_evolve [OF ok1 _ command id(1), of "{Decided}"] ok1] by (simp add: c')
  ultimately show thesis
    using that [OF l(1) leaseKey_no_hash [OF id]] swept_sequence [OF ok, of e] by simp
qed

section \<open>Fences over time\<close>

text \<open>The fence of a profile is up and waits for a slot.\<close>

definition waits_for :: "string \<Rightarrow> string \<Rightarrow> durableState \<Rightarrow> bool" where
  "waits_for p k d \<longleftrightarrow>
     (\<exists>f. map_of (ds_AdoptionFences d) p = Some f \<and> k \<in> set (pending_keys f))"

lemma waits_for_awaited: "waits_for p k d \<longleftrightarrow> (\<exists>ks. awaited d p = Some ks \<and> k \<in> ks)"
  by (auto simp: waits_for_def awaited_def)

text \<open>
  The ledger's transitions that may end the wait: a policy that drops the profile, and the
  adoption, accounting or removal of exactly this lease.
\<close>

abbreviation accounting_events :: "string \<Rightarrow> string \<Rightarrow> event set" where
  "accounting_events p k \<equiv> {PolicyApplied, Adopted p k, Accounted p k, Removed p k}"

lemma step_waits_for:
  assumes step: "step ev d d'" and ev: "ev \<notin> accounting_events p k"
    and d: "ledger_core d \<and> waits_for p k d"
  shows "ledger_core d' \<and> waits_for p k d'"
proof
  show "ledger_core d'" using step_core [OF step] d by simp
  have fs: "fences_ok (ds_Policy d) (ds_Leases d) (ds_AdoptionFences d)"
    and ls: "leases_ok (ds_DecisionSequence d) (ds_Leases d)" using d by (auto simp: ledger_core_def)
  obtain f where f: "map_of (ds_AdoptionFences d) p = Some f" "k \<in> set (pending_keys f)"
    using d by (auto simp: waits_for_def)
  have lease: "\<exists>l. map_of (ds_Leases d) (leaseKey_String p k) = Some l \<and> lease_Status l = LeaseActive"
    and p: "profileIDPattern p"
    using fences_ok_lookup [OF fs f(1)] f(2) by (auto simp: fence_ok_def pending_ok_def pending_keys_def)
  have mark: "waits_for p k (fst (markLeaseAccountedForAdoption s q j))"
    if "ds_AdoptionFences s = ds_AdoptionFences d" "(q, j) \<noteq> (p, k)" for s q j
    using that f fs awaited_mark [of "ds_Policy d" "ds_Leases d" s q j p]
    by (auto simp: waits_for_awaited awaited_def)
  have fields: "waits_for p k s = waits_for p k s'"
    if "ds_AdoptionFences s = ds_AdoptionFences s'" for s s'
    using that by (simp add: waits_for_def)
  have "k \<in> set (activeLeaseSlotKeys (ds_Leases d) p)"
    using lease lease_identity [OF ls _ p] by (force simp: active_keys_mem dest: map_of_SomeD)
  with step ev f mark d show "waits_for p k d'"
  proof (cases rule: step.cases)
    case (removed q j l t ks)
    have "waits_for p k (fst (markLeaseAccountedForAdoption (d\<lparr>ds_DecisionSequence := ds_DecisionSequence d + 1,
        ds_Leases := mdel (ds_Leases d) (leaseKey_String q j)\<rparr>) q j))"
      using removed ev by (intro mark) auto
    then show ?thesis unfolding removed by (subst fields) auto
  next
    case (fence_closed q g)
    with f have "q \<noteq> p" by auto
    with fence_closed f show ?thesis by (simp add: waits_for_def)
  qed (auto simp: waits_for_def pending_keys_def)
qed

text \<open>The requests that may end the wait.\<close>

definition requests_accounting :: "string \<Rightarrow> string \<Rightarrow> input \<Rightarrow> bool" where
  "requests_accounting p k i = (case i of
     Serve e os (Decoded rq) \<Rightarrow> rq_Command rq = CommandApplyPolicy
       \<or> rq_Command rq \<in> {CommandAdopt, CommandRelease, CommandReconcile}
         \<and> rq_ProfileID rq = p \<and> rq_SlotKey rq = k
   | _ \<Rightarrow> False)"

lemma no_accounting_records:
  "\<not> requests_accounting p k i \<Longrightarrow> records_in (- accounting_events p k) i"
proof (cases i)
  case (Serve e os j)
  assume "\<not> requests_accounting p k i"
  with Serve show ?thesis
  proof (cases j)
    case (Decoded rq)
    with Serve \<open>\<not> requests_accounting p k i\<close> show ?thesis
      by (cases "rq_Command rq") (auto simp: requests_accounting_def)
  qed simp_all
qed simp_all

interpretation fence_run: input_system react "\<lambda>i. \<not> requests_accounting p k i"
  "\<lambda>s. service_ok s \<and> service_holds (\<lambda>d. ledger_core d \<and> waits_for p k d) s" for p k
proof unfold_locales
  fix i s
  let ?P = "\<lambda>d. ledger_core d \<and> waits_for p k d"
  assume i: "\<not> requests_accounting p k i" and s: "service_ok s \<and> service_holds ?P s"
  have "service_holds ?P (react i s)"
    using s step_waits_for
    by (intro react_holds [OF _ _ no_accounting_records [OF i]]) (simp, simp, blast)
  with s ledger_run.react_keeps show "service_ok (react i s) \<and> service_holds ?P (react i s)" by simp
qed

end
