(* ===== verification/Wire.thy ===== *)
theory Wire
  imports Client Operations
begin

text \<open>
  The client and the server together. A remote call over a connection that delivers is the
  local operation, up to what the wire keeps of an error: its error code.
\<close>

text \<open>What a client sees of a coordinator's error in the current protocol version.\<close>

definition over_wire :: "goerr \<Rightarrow> goerr" where
  "over_wire err = (case errForErrorCode (errorCodeForErr err) of
     Some s \<Rightarrow> raise s | None \<Rightarrow> err_other)"

text \<open>A connection that delivers the request to the server and the answer back.\<close>

definition connected :: "env \<Rightarrow> coordinator transport" where
  "connected e request c =
     (case handle e ServerSupportedVersions c (Decoded request) of
        (c', Some response) \<Rightarrow> (c', Inr response)
      | (c', None) \<Rightarrow> (c', Inl err_other))"

section \<open>The call\<close>

lemma current_negotiated:
  "NegotiateProtocolVersion ServerSupportedVersions
     (sortedInts (filter (\<lambda>v. minimumProtocolVersion cmd \<le> v) ClientSupportedVersions))
     = (CurrentProtocolVersion, True)"
  by (cases cmd) (simp_all add: sortedInts_def ServerSupportedVersions_def
      ClientSupportedVersions_def NegotiateProtocolVersion_def protocol_versions)

lemma current_supported: "cmd \<notin> range CommandOther \<Longrightarrow> supportedBy cmd CurrentProtocolVersion"
  by (cases cmd) (simp_all add: protocol_versions)

lemma connected_call:
  assumes "rq_Command request \<notin> range CommandOther"
    and "rs_ErrorCode response \<noteq> ErrorCodeProtocolMismatch"
    and "\<And>versions. run_command e CurrentProtocolVersion c
      (request\<lparr>rq_ProtocolVersions := versions\<rparr>) (rq_Command request) = (c', response)"
  shows "client_call (connected e) ClientSupportedVersions request c = (c', response, None)"
  using assms current_negotiated [of "rq_Command request"] current_supported
  by (simp add: client_call_def connected_def dispatch_def Let_def)

lemma code_not_mismatch: "errorCodeForErrVersion err v \<noteq> ErrorCodeProtocolMismatch"
  by (simp add: errorCodeForErrVersion_def)

lemma responseErr_error:
  "responseErr (errorResponse CurrentProtocolVersion err) = Some (over_wire err)"
  by (simp add: responseErr_def errorResponse_def errorCodeResponse_def over_wire_def
      errorCodeForErr_def split: option.split)

lemma responseErr_ok [simp]: "responseErr ((okResponse v)\<lparr>rs_Lease := l\<rparr>) = None"
  "responseErr (okResponse v) = None"
  by (simp_all add: responseErr_def okResponse_def)

lemma errorResponse_lease [simp]: "rs_Lease (errorResponse v err) = None"
  by (simp add: errorResponse_def errorCodeResponse_def)

text \<open>The two patterns of client methods on a connection.\<close>

lemma connected_lease:
  assumes "rq_Command request \<notin> range CommandOther"
    and run: "\<And>versions. run_command e CurrentProtocolVersion c
      (request\<lparr>rq_ProtocolVersions := versions\<rparr>) (rq_Command request)
      = lease_response CurrentProtocolVersion (c', l, err)"
    and zero: "err \<noteq> None \<Longrightarrow> l = zeroLease"
  shows "client_lease (connected e) ClientSupportedVersions request c = (c', l, map_option over_wire err)"
proof (cases err)
  case None
  have "client_call (connected e) ClientSupportedVersions request c
      = (c', (okResponse CurrentProtocolVersion)\<lparr>rs_Lease := Some l\<rparr>, None)"
    using assms(1) None by (intro connected_call) (auto simp: run lease_response_def okResponse_def)
  with None show ?thesis by (simp add: client_lease_def)
next
  case (Some x)
  have "client_call (connected e) ClientSupportedVersions request c
      = (c', errorResponse CurrentProtocolVersion x, None)"
    using assms(1) Some code_not_mismatch
    by (intro connected_call)
      (auto simp: run lease_response_def errorResponse_def errorCodeResponse_def)
  with Some zero show ?thesis by (simp add: client_lease_def responseErr_error)
qed

lemma connected_plain:
  assumes "rq_Command request \<notin> range CommandOther"
    and run: "\<And>versions. run_command e CurrentProtocolVersion c
      (request\<lparr>rq_ProtocolVersions := versions\<rparr>) (rq_Command request)
      = plain_response CurrentProtocolVersion (c', err)"
  shows "client_plain (connected e) ClientSupportedVersions request c = (c', map_option over_wire err)"
proof (cases err)
  case None
  have "client_call (connected e) ClientSupportedVersions request c
      = (c', okResponse CurrentProtocolVersion, None)"
    using assms(1) None by (intro connected_call) (auto simp: run plain_response_def okResponse_def)
  with None show ?thesis by (simp add: client_plain_def)
next
  case (Some x)
  have "client_call (connected e) ClientSupportedVersions request c
      = (c', errorResponse CurrentProtocolVersion x, None)"
    using assms(1) Some code_not_mismatch
    by (intro connected_call)
      (auto simp: run plain_response_def errorResponse_def errorCodeResponse_def)
  with Some show ?thesis by (simp add: client_plain_def responseErr_error)
qed

section \<open>Remote operations\<close>

lemma commit_error: "commit c new = (c', Some err) \<Longrightarrow> err = err_other"
  by (rule commit_failed(2))

lemma Renew_error: "Renew e c p k = (c', l, Some err) \<Longrightarrow> l = zeroLease"
  by (auto simp: Renew_def renew_body_def Let_def
      split: option.splits prod.splits sum.splits if_splits)

lemma Activate_error: "Activate e c p k = (c', l, Some err) \<Longrightarrow> l = zeroLease"
  by (auto simp: Activate_def activate_body_def Let_def
      split: option.splits prod.splits sum.splits if_splits)

lemma sweep_error: "sweepExpiredLocked e c = (c1, Inl err) \<Longrightarrow> err = err_other"
  by (auto simp: sweepExpiredLocked_def Let_def dest: commit_error
      split: if_splits prod.splits option.splits)

lemma evaluate_error:
  "evaluateAcquireLocked c p pp held = Inl err \<Longrightarrow>
     err \<in> {raise ErrBudgetExhausted, raise ErrProtectedReservation, raise ErrFairShareContention}"
  by (auto simp: evaluateAcquireLocked_def Let_def split: if_splits prod.splits)

lemma acquire_grant_error: "acquire_grant e c p k u n m = (c', l, Some err) \<Longrightarrow>
    l = zeroLease \<and> err = err_other"
  by (auto simp: acquire_grant_def Let_def dest: commit_error split: prod.splits option.splits if_splits)

lemma acquire_body_error:
  assumes "acquire_body e c p k n = (c', l, Some err)"
  shows "l = zeroLease \<and> \<not> errors_Is err ErrDuplicateLease \<or> err = raise ErrDuplicateLease"
proof -
  obtain c1 r where sweep: "sweepExpiredLocked e c = (c1, r)" by force
  show ?thesis
  proof (cases r)
    case (Inl x)
    with assms sweep sweep_error [of e c c1 x] show ?thesis by (simp add: acquire_body_def)
  next
    case (Inr x)
    with assms sweep show ?thesis
      by (auto simp: acquire_body_def Let_def dest!: acquire_grant_error evaluate_error
          split: if_splits option.splits sum.splits)
  qed
qed

lemma Acquire_error:
  "Acquire e c p k n = (c', l, Some err) \<Longrightarrow>
     l = zeroLease \<and> \<not> errors_Is err ErrDuplicateLease \<or> err = raise ErrDuplicateLease"
  by (auto simp: Acquire_body split: prod.splits if_splits dest: acquire_body_error)

lemma over_wire_raise: "s \<noteq> ErrProtocolMismatch \<Longrightarrow> over_wire (raise s) = raise s"
  by (cases s) (simp_all add: over_wire_def errorCodeForErr_def errorCodeForErrVersion_def protocol_versions)

lemma connected_Renew: "client_Renew (connected e) ClientSupportedVersions p k c
    = (case Renew e c p k of (c', l, err) \<Rightarrow> (c', l, map_option over_wire err))"
  using Renew_error [of e c p k]
  by (auto simp: client_Renew_def emptyRequest_def split: prod.split intro!: connected_lease)

lemma connected_Activate: "client_Activate (connected e) ClientSupportedVersions p k c
    = (case Activate e c p k of (c', l, err) \<Rightarrow> (c', l, map_option over_wire err))"
  using Activate_error [of e c p k]
  by (auto simp: client_Activate_def emptyRequest_def split: prod.split intro!: connected_lease)

lemma connected_Release: "client_Release (connected e) ClientSupportedVersions p k c
    = (case Release e c p k of (c', err) \<Rightarrow> (c', map_option over_wire err))"
  by (auto simp: client_Release_def emptyRequest_def split: prod.split intro!: connected_plain)

lemma connected_SetDemand: "client_SetDemand (connected e) ClientSupportedVersions p n c
    = (case SetDemand e c p n of (c', err) \<Rightarrow> (c', map_option over_wire err))"
  by (auto simp: client_SetDemand_def emptyRequest_def split: prod.split intro!: connected_plain)

lemma connected_Acquire: "client_Acquire (connected e) ClientSupportedVersions p k n c
    = (case Acquire e c p k n of (c', l, err) \<Rightarrow> (c', l, map_option over_wire err))"
proof -
  obtain c' l err where a: "Acquire e c p k n = (c', l, err)" by (metis prod_cases3)
  let ?rq = "(emptyRequest CommandAcquire)\<lparr>rq_ProfileID := p, rq_SlotKey := k, rq_PendingDemand := n\<rparr>"
  let ?r = "snd (acquire_response CurrentProtocolVersion (c', l, err))"
  have "rs_ErrorCode ?r \<noteq> ErrorCodeProtocolMismatch"
    using code_not_mismatch
    by (simp add: acquire_response_def okResponse_def errorResponse_def errorCodeResponse_def split: option.split)
  then have call: "client_call (connected e) ClientSupportedVersions ?rq c = (c', ?r, None)"
    using a by (intro connected_call) (auto simp: emptyRequest_def acquire_response_def)
  show ?thesis
  proof (cases err)
    case None
    with call a show ?thesis by (simp add: client_Acquire_def acquire_response_def okResponse_def
        responseErr_def)
  next
    case (Some x)
    from Acquire_error [of e c p k n c' l x] a Some
    consider "l = zeroLease" "\<not> errors_Is x ErrDuplicateLease" | "x = raise ErrDuplicateLease" by blast
    then show ?thesis
    proof cases
      case 1
      with call a Some show ?thesis
        by (simp add: client_Acquire_def acquire_response_def responseErr_error)
    next
      case 2
      with call a Some show ?thesis
        by (simp add: client_Acquire_def acquire_response_def okResponse_def responseErr_def
            over_wire_raise)
    qed
  qed
qed

text \<open>
  C16: Calling through the socket is calling the coordinator. On a connection that delivers,
  with client and server of this build, the client's Acquire, Renew, Activate and Release leave
  the coordinator in the state the local operation leaves, return the same lease, and report
  the same outcome, an error reduced to the sentinel its code names.
\<close>

theorem remote_calls_are_local_calls:
  "client_Acquire (connected e) ClientSupportedVersions p k n c
     = (case Acquire e c p k n of (c', l, err) \<Rightarrow> (c', l, map_option over_wire err))
   \<and> client_Renew (connected e) ClientSupportedVersions p k c
     = (case Renew e c p k of (c', l, err) \<Rightarrow> (c', l, map_option over_wire err))
   \<and> client_Activate (connected e) ClientSupportedVersions p k c
     = (case Activate e c p k of (c', l, err) \<Rightarrow> (c', l, map_option over_wire err))
   \<and> client_Release (connected e) ClientSupportedVersions p k c
     = (case Release e c p k of (c', err) \<Rightarrow> (c', map_option over_wire err))"
  by (intro conjI connected_Acquire connected_Renew connected_Activate connected_Release)

text \<open>
  The command line exits with the same status for a remote error as for the local one. For
  every error an operation raises, in any protocol version, the error rebuilt from the response
  maps to the exit code of the original.
\<close>

theorem exit_code_survives_wire:
  assumes "err = err_other \<or> err = wrap_both ErrInvalidPolicy (raise ErrInvalidIdentity)
      \<or> (\<exists>s. s \<noteq> ErrProtocolMismatch \<and> err = raise s)"
  shows "\<exists>seen. responseErr (errorResponse version err) = Some seen
    \<and> exitCodeForError seen = exitCodeForError err"
proof -
  consider "err = err_other" | "err = wrap_both ErrInvalidPolicy (raise ErrInvalidIdentity)"
    | s where "s \<noteq> ErrProtocolMismatch" "err = raise s" using assms by blast
  then show ?thesis
  proof cases
    case (3 s)
    then show ?thesis
      by (cases s) (auto simp: responseErr_def errorResponse_def errorCodeResponse_def
          errorCodeForErrVersion_def exitCodeForError_def)
  qed (auto simp: responseErr_def errorResponse_def errorCodeResponse_def
      errorCodeForErrVersion_def exitCodeForError_def)
qed

theorem exit_code_survives_wire_witness:
  "\<exists>seen. responseErr (errorResponse 2 (raise ErrFairShareContention)) = Some seen
    \<and> exitCodeForError seen = exitCodeForError (raise ErrFairShareContention)"
  by (rule exit_code_survives_wire) auto

end
