(* ===== verification/Host_Admission.thy ===== *)
theory Host_Admission
  imports Wire Manager_Errors Config
begin

text \<open>
  \<^verbatim>\<open>autoscaler/host_admission.go\<close>: the manager's side of host admission, on top of the wire
  client. The remote service is a state reached through a transport, as in the client; whatever
  other managers do between two calls is part of that transport. The two mutexes serialise the
  methods. A disabled coordinator (nil client) grants everything without a call.
\<close>

record hostAdmissionCoordinator =
  ha_enabled :: bool
  ha_profileID :: string
  ha_namespace :: string
  ha_hostFingerprint :: string
  ha_profileFingerprint :: string
  ha_demand :: "(string, int) gomap"

definition disabledHostAdmission :: hostAdmissionCoordinator where
  "disabledHostAdmission = \<lparr>ha_enabled = False, ha_profileID = [], ha_namespace = [],
     ha_hostFingerprint = [], ha_profileFingerprint = [], ha_demand = []\<rparr>"

definition newHostAdmissionCoordinatorWithClient :: "string \<Rightarrow> hostAdmissionCoordinator" where
  "newHostAdmissionCoordinatorWithClient profileID =
     disabledHostAdmission\<lparr>ha_enabled := True, ha_profileID := profileID\<rparr>"

definition newHostAdmissionCoordinator ::
  "hostAdmissionConfig \<Rightarrow> string \<Rightarrow> hostAdmissionCoordinator" where
  "newHostAdmissionCoordinator cfg profileID =
     (if \<not> hc_enabled cfg then disabledHostAdmission
      else (newHostAdmissionCoordinatorWithClient profileID)
        \<lparr>ha_namespace := hc_namespace cfg, ha_hostFingerprint := hc_hostFingerprint cfg,
         ha_profileFingerprint := hc_profileFingerprint cfg\<rparr>)"

definition total_demand :: "(string, int) gomap \<Rightarrow> int" where
  "total_demand demand = sum_list (map snd demand)"

definition setTargetDemand ::
  "'s transport \<Rightarrow> hostAdmissionCoordinator \<Rightarrow> string \<Rightarrow> int \<Rightarrow> 's
    \<Rightarrow> hostAdmissionCoordinator \<times> 's" where
  "setTargetDemand send h targetKey pending s =
     (if \<not> ha_enabled h then (h, s)
      else
        let demand = (if pending > 0 then mput (ha_demand h) targetKey pending
              else mdel (ha_demand h) targetKey)
        in (h\<lparr>ha_demand := demand\<rparr>,
            fst (client_SetDemand send ClientSupportedVersions (ha_profileID h)
                   (total_demand demand) s)))"

definition currentDemand :: "hostAdmissionCoordinator \<Rightarrow> int" where
  "currentDemand h = (if \<not> ha_enabled h then 0 else total_demand (ha_demand h))"

definition consumeTargetDemand ::
  "hostAdmissionCoordinator \<Rightarrow> string \<Rightarrow> hostAdmissionCoordinator \<times> int" where
  "consumeTargetDemand h targetKey =
     (if \<not> ha_enabled h then (h, 0)
      else
        let current = mget0 (ha_demand h) targetKey;
            demand = (if current \<le> 1 then mdel (ha_demand h) targetKey
              else mput (ha_demand h) targetKey (current - 1))
        in (h\<lparr>ha_demand := demand\<rparr>, total_demand demand))"

definition host_acquire ::
  "'s transport \<Rightarrow> hostAdmissionCoordinator \<Rightarrow> string \<Rightarrow> string \<Rightarrow> 's
    \<Rightarrow> hostAdmissionCoordinator \<times> 's \<times> Lease \<times> hostAdmissionOutcome \<times> manager_error option" where
  "host_acquire send h targetKey slotKey s =
     (if \<not> ha_enabled h then (h, s, zeroLease, hostAdmissionGranted, None)
      else
        let (s1, lease, err) = client_Acquire send ClientSupportedVersions (ha_profileID h) slotKey
              (currentDemand h) s;
            granted =
              (let (h', remaining) = consumeTargetDemand h targetKey;
                   s2 = fst (client_SetDemand send ClientSupportedVersions (ha_profileID h)
                     remaining s1)
               in (h', s2, lease, hostAdmissionGranted, None))
        in case err of
             None \<Rightarrow> granted
           | Some x \<Rightarrow>
               if errors_Is x ErrDuplicateLease then granted
               else let (outcome, classified) = classifyHostAdmissionFailure x
                    in (h, s1, zeroLease, outcome, Some classified))"

text \<open>The pattern of the methods that call once and classify the failure.\<close>

definition classified :: "goerr option \<Rightarrow> manager_error option" where
  "classified err = map_option (\<lambda>x. snd (classifyHostAdmissionFailure x)) err"

definition host_bindRegistration ::
  "'s transport \<Rightarrow> hostAdmissionCoordinator \<Rightarrow> string \<Rightarrow> string \<Rightarrow> 's \<Rightarrow> 's \<times> manager_error option" where
  "host_bindRegistration send h slotKey registrationName s =
     (if \<not> ha_enabled h then (s, None)
      else let (s', _, err) = client_BindRegistration send ClientSupportedVersions (ha_profileID h)
             slotKey registrationName s
           in (s', classified err))"

definition host_beginAdoption ::
  "'s transport \<Rightarrow> hostAdmissionCoordinator \<Rightarrow> 's \<Rightarrow> 's \<times> manager_error option" where
  "host_beginAdoption send h s =
     (if \<not> ha_enabled h then (s, None)
      else let (s', err) = client_BeginAdoption send ClientSupportedVersions (ha_profileID h) s
           in (s', classified err))"

definition host_completeAdoption ::
  "'s transport \<Rightarrow> hostAdmissionCoordinator \<Rightarrow> 's \<Rightarrow> 's \<times> manager_error option" where
  "host_completeAdoption send h s =
     (if \<not> ha_enabled h then (s, None)
      else let (s', err) = client_CompleteAdoption send ClientSupportedVersions (ha_profileID h) s
           in (s', classified err))"

text \<open>The active lease of every pending slot, or an error when one has none.\<close>

fun pending_leases :: "(string, Lease) gomap \<Rightarrow> string list \<Rightarrow> manager_error + Lease list" where
  "pending_leases leases [] = Inr []"
| "pending_leases leases (slotKey # slots) =
     (case map_of leases slotKey of
        None \<Rightarrow> Inl [errHostAdmissionDegraded]
      | Some lease \<Rightarrow>
          (case pending_leases leases slots of
             Inl err \<Rightarrow> Inl err
           | Inr rest \<Rightarrow> Inr (lease # rest)))"

definition pending_of_snapshot ::
  "string \<Rightarrow> Snapshot \<Rightarrow> manager_error + Lease list" where
  "pending_of_snapshot profileID snapshot =
     (if sn_ProtocolVersion snapshot \<noteq> 0
        \<and> sn_ProtocolVersion snapshot < RegistrationBindingProtocolVersion
      then Inl [errHostAdmissionDegraded]
      else
        let pending = (case List.find (\<lambda>f. fence_ProfileID f = profileID) (sn_AdoptionFences snapshot) of
              None \<Rightarrow> [] | Some fence \<Rightarrow> pending_keys fence);
            leases = fold (\<lambda>l m. mput m (lease_SlotKey l) l)
              (filter (\<lambda>l. lease_ProfileID l = profileID \<and> lease_Status l = LeaseActive)
                (sn_Leases snapshot)) []
        in if pending = [] then Inr [] else pending_leases leases (sort pending))"

definition pendingAdoptionLeases ::
  "'s transport \<Rightarrow> hostAdmissionCoordinator \<Rightarrow> 's \<Rightarrow> 's \<times> (manager_error + Lease list)" where
  "pendingAdoptionLeases send h s =
     (if \<not> ha_enabled h then (s, Inr [])
      else case client_Status send ClientSupportedVersions s of
          (s', Inl err) \<Rightarrow> (s', Inl (snd (classifyHostAdmissionFailure err)))
        | (s', Inr snapshot) \<Rightarrow> (s', pending_of_snapshot (ha_profileID h) snapshot))"

definition host_reconcileAbsent ::
  "'s transport \<Rightarrow> hostAdmissionCoordinator \<Rightarrow> string \<Rightarrow> 's \<Rightarrow> 's \<times> manager_error option" where
  "host_reconcileAbsent send h slotKey s =
     (if \<not> ha_enabled h then (s, None)
      else let (s', err) = client_Reconcile send ClientSupportedVersions (ha_profileID h) slotKey
             ''worker-and-registration-absent'' s
           in (s', classified err))"

text \<open>\<open>current\<close> is what the callback answers under the RPC lock.\<close>

definition host_adoptIf ::
  "'s transport \<Rightarrow> hostAdmissionCoordinator \<Rightarrow> string \<Rightarrow> bool \<Rightarrow> 's
    \<Rightarrow> 's \<times> Lease \<times> bool \<times> manager_error option" where
  "host_adoptIf send h slotKey current s =
     (if \<not> ha_enabled h then (s, zeroLease, False, None)
      else if \<not> current then (s, zeroLease, False, None)
      else case client_Adopt send ClientSupportedVersions (ha_profileID h) slotKey s of
          (s', lease, None) \<Rightarrow> (s', lease, True, None)
        | (s', _, Some err) \<Rightarrow> (s', zeroLease, True, classified (Some err)))"

definition host_adopt ::
  "'s transport \<Rightarrow> hostAdmissionCoordinator \<Rightarrow> string \<Rightarrow> 's \<Rightarrow> 's \<times> Lease \<times> manager_error option" where
  "host_adopt send h slotKey s =
     (let (s', lease, _, err) = host_adoptIf send h slotKey True s in (s', lease, err))"

definition host_renew ::
  "'s transport \<Rightarrow> hostAdmissionCoordinator \<Rightarrow> string \<Rightarrow> 's \<Rightarrow> 's \<times> manager_error option" where
  "host_renew send h slotKey s =
     (if \<not> ha_enabled h then (s, None)
      else let (s', _, err) = client_Renew send ClientSupportedVersions (ha_profileID h) slotKey s
           in (s', classified err))"

definition host_activate ::
  "'s transport \<Rightarrow> hostAdmissionCoordinator \<Rightarrow> string \<Rightarrow> 's \<Rightarrow> 's \<times> Lease \<times> manager_error option" where
  "host_activate send h slotKey s =
     (if \<not> ha_enabled h then (s, zeroLease, None)
      else case client_Activate send ClientSupportedVersions (ha_profileID h) slotKey s of
          (s', lease, None) \<Rightarrow> (s', lease, None)
        | (s', _, Some err) \<Rightarrow> (s', zeroLease, classified (Some err)))"

definition host_release ::
  "'s transport \<Rightarrow> hostAdmissionCoordinator \<Rightarrow> string \<Rightarrow> 's \<Rightarrow> 's \<times> manager_error option" where
  "host_release send h slotKey s =
     (if \<not> ha_enabled h \<or> slotKey = [] then (s, None)
      else case client_Release send ClientSupportedVersions (ha_profileID h) slotKey s of
          (s', Some err) \<Rightarrow>
            if errors_Is err ErrLeaseNotFound then (s', None) else (s', Some (from_admission err))
        | (s', None) \<Rightarrow> (s', None))"

section \<open>Published observation\<close>

datatype hostAdmissionStatus =
    hostAdmissionStatusDisabled | hostAdmissionStatusAvailable | hostAdmissionStatusDegraded
  | hostAdmissionStatusUnavailable

record observedHostAdmissionAccounting =
  oa_UnitCost :: int
  oa_ReservedUnits :: int
  oa_Borrowable :: bool
  oa_ProfilePolicyFingerprint :: "string option"
  oa_ActiveUnits :: int
  oa_ProvisionalUnits :: int
  oa_HeldUnits :: int
  oa_BorrowedUnits :: int
  oa_PendingUnits :: "int option"
  oa_WithheldUnits :: "int option"
  oa_AllocatableUnits :: "int option"
  oa_AllocatableWorkers :: "int option"
  oa_TheoreticalMaximumUnits :: "int option"
  oa_TheoreticalMaximumWorkers :: "int option"
  oa_WithholdingReason :: "WithholdingReason option"

record observedHostAdmissionDecision =
  od_Sequence :: int
  od_Command :: Command
  od_Granted :: bool
  od_FailureCategory :: "ErrorCode option"
  od_DecidedAtUnixNano :: int

record observedHostAdmission =
  oh_Status :: hostAdmissionStatus
  oh_Namespace :: "string option"
  oh_Epoch :: "int option"
  oh_DecisionSequence :: "int option"
  oh_CapacityUnits :: "int option"
  oh_SafetyMarginUnits :: "int option"
  oh_EffectiveTotalUnits :: "int option"
  oh_AvailableUnits :: "int option"
  oh_HostPolicyFingerprint :: "string option"
  oh_Accounting :: "observedHostAdmissionAccounting option"
  oh_LastDecision :: "observedHostAdmissionDecision option"

definition nonEmptyString :: "string \<Rightarrow> string option" where
  "nonEmptyString value = (if value = [] then None else Some value)"

definition findProfileAccounting :: "ProfileAccounting list \<Rightarrow> string \<Rightarrow> ProfileAccounting option" where
  "findProfileAccounting accounting profileID =
     List.find (\<lambda>entry. pa_ProfileID entry = profileID) accounting"

definition unmeasured :: "hostAdmissionStatus \<Rightarrow> string option \<Rightarrow> observedHostAdmission" where
  "unmeasured status namespace = \<lparr>oh_Status = status, oh_Namespace = namespace, oh_Epoch = None,
     oh_DecisionSequence = None, oh_CapacityUnits = None, oh_SafetyMarginUnits = None,
     oh_EffectiveTotalUnits = None, oh_AvailableUnits = None, oh_HostPolicyFingerprint = None,
     oh_Accounting = None, oh_LastDecision = None\<rparr>"

text \<open>Whether the snapshot's own row carries the capacity evidence of the current protocol.\<close>

definition supportsCapacityEvidence :: "Snapshot \<Rightarrow> ProfileAccounting option \<Rightarrow> bool" where
  "supportsCapacityEvidence snapshot row =
     (case row of
        None \<Rightarrow> False
      | Some profile \<Rightarrow>
          (sn_ProtocolVersion snapshot = 0
            \<or> sn_ProtocolVersion snapshot \<ge> AdmissionExplainabilityProtocolVersion)
          \<and> pa_AllocatableUnits profile \<noteq> None \<and> pa_AllocatableWorkers profile \<noteq> None
          \<and> pa_TheoreticalMaximumUnits profile \<noteq> None
          \<and> pa_TheoreticalMaximumWorkers profile \<noteq> None)"

definition observation_degraded ::
  "hostAdmissionCoordinator \<Rightarrow> Snapshot \<Rightarrow> ProfileAccounting option \<Rightarrow> bool" where
  "observation_degraded h snapshot row \<longleftrightarrow>
     row = None \<or> sn_Namespace snapshot \<noteq> ha_namespace h
     \<or> (ha_hostFingerprint h \<noteq> [] \<and> ha_hostFingerprint h \<noteq> sn_HostPolicyFingerprint snapshot)
     \<or> (case row of None \<Rightarrow> False | Some profile \<Rightarrow>
          ha_profileFingerprint h \<noteq> []
            \<and> ha_profileFingerprint h \<noteq> pa_ProfilePolicyFingerprint profile
          \<or> pa_PendingUnits profile = None \<or> pa_WithheldUnits profile = None)
     \<or> \<not> supportsCapacityEvidence snapshot row
     \<or> sn_CapacityUnits snapshot \<le> 0
     \<or> sn_AdoptionFences snapshot \<noteq> []"

definition observed_accounting :: "bool \<Rightarrow> ProfileAccounting \<Rightarrow> observedHostAdmissionAccounting" where
  "observed_accounting supported profile =
     \<lparr>oa_UnitCost = pa_UnitCost profile, oa_ReservedUnits = pa_ReservedUnits profile,
      oa_Borrowable = pa_Borrowable profile,
      oa_ProfilePolicyFingerprint = nonEmptyString (pa_ProfilePolicyFingerprint profile),
      oa_ActiveUnits = pa_ActiveUnits profile, oa_ProvisionalUnits = pa_ProvisionalUnits profile,
      oa_HeldUnits = pa_HeldUnits profile, oa_BorrowedUnits = pa_BorrowedUnits profile,
      oa_PendingUnits = pa_PendingUnits profile, oa_WithheldUnits = pa_WithheldUnits profile,
      oa_AllocatableUnits = (if supported then pa_AllocatableUnits profile else None),
      oa_AllocatableWorkers = (if supported then pa_AllocatableWorkers profile else None),
      oa_TheoreticalMaximumUnits = (if supported then pa_TheoreticalMaximumUnits profile else None),
      oa_TheoreticalMaximumWorkers =
        (if supported then pa_TheoreticalMaximumWorkers profile else None),
      oa_WithholdingReason = (if supported then pa_WithholdingReason profile else None)\<rparr>"

definition observed_decision :: "string \<Rightarrow> Decision option \<Rightarrow> observedHostAdmissionDecision option" where
  "observed_decision profileID latest =
     (case latest of
        None \<Rightarrow> None
      | Some decision \<Rightarrow>
          if dec_ProfileID decision \<noteq> profileID then None
          else Some \<lparr>od_Sequence = dec_Sequence decision, od_Command = dec_Command decision,
            od_Granted = dec_Granted decision,
            od_FailureCategory = (if dec_FailureCategory decision = ErrorCodeNone then None
              else Some (dec_FailureCategory decision)),
            od_DecidedAtUnixNano = dec_DecidedAtUnixNano decision\<rparr>)"

definition observed_snapshot ::
  "hostAdmissionCoordinator \<Rightarrow> Snapshot \<Rightarrow> observedHostAdmission" where
  "observed_snapshot h snapshot =
     (let row = findProfileAccounting (sn_Accounting snapshot) (ha_profileID h);
          measured = sn_CapacityUnits snapshot > 0
      in \<lparr>oh_Status = (if observation_degraded h snapshot row then hostAdmissionStatusDegraded
             else hostAdmissionStatusAvailable),
          oh_Namespace = nonEmptyString (ha_namespace h),
          oh_Epoch = Some (sn_Epoch snapshot),
          oh_DecisionSequence = Some (sn_DecisionSequence snapshot),
          oh_CapacityUnits = (if measured then Some (sn_CapacityUnits snapshot) else None),
          oh_SafetyMarginUnits = (if measured then Some (sn_SafetyMarginUnits snapshot) else None),
          oh_EffectiveTotalUnits = Some (sn_EffectiveTotalUnits snapshot),
          oh_AvailableUnits = Some (sn_AvailableUnits snapshot),
          oh_HostPolicyFingerprint = nonEmptyString (sn_HostPolicyFingerprint snapshot),
          oh_Accounting =
            map_option (observed_accounting (supportsCapacityEvidence snapshot row)) row,
          oh_LastDecision = observed_decision (ha_profileID h) (sn_LastDecision snapshot)\<rparr>)"

definition sampleObservedHostAdmission ::
  "'s transport \<Rightarrow> hostAdmissionCoordinator \<Rightarrow> 's \<Rightarrow> 's \<times> observedHostAdmission" where
  "sampleObservedHostAdmission send h s =
     (if \<not> ha_enabled h then (s, unmeasured hostAdmissionStatusDisabled None)
      else case client_Status send ClientSupportedVersions s of
          (s', Inl err) \<Rightarrow>
            (s', unmeasured hostAdmissionStatusUnavailable (nonEmptyString (ha_namespace h)))
        | (s', Inr snapshot) \<Rightarrow> (s', observed_snapshot h snapshot))"

section \<open>Grants and releases through the manager\<close>

lemma Acquire_holds_lease:
  assumes ok: "base_ok c" and acquire: "Acquire e c p k n = (c', l, err)"
    and granted: "err = None \<or> err = Some (raise ErrDuplicateLease)"
  shows "map_of (ds_Leases (co_state c')) (leaseKey_String p k) = Some l"
proof (cases err)
  case None
  with Acquire_success [OF ok, of e p k n c' l] acquire
  obtain d where "co_state c' = (granted_ledger (swept e c) p k l)\<lparr>ds_LastDecision := d\<rparr>" by metis
  then show ?thesis by (simp add: granted_ledger_def)
next
  case (Some x)
  with granted acquire have id: "profileIDPattern p" "slotKeyPattern k"
    by (auto simp: Acquire_body split: if_splits)
  from acquire Some granted id obtain c1 where
    body: "acquire_body e c p k n = (c1, l, Some (raise ErrDuplicateLease))"
    and c': "c' = recordDecisionLocked c1 CommandAcquire p True (Some (raise ErrDuplicateLease)) (env_now e)"
    by (auto simp: Acquire_body split: prod.splits)
  have "map_of (ds_Leases (co_state c1)) (leaseKey_String p k) = Some l"
    using ok
  proof (cases rule: sweep_cases [where e = e])
    case (swept c2)
    with body show ?thesis
      by (auto simp: acquire_body_def Let_def dest!: acquire_grant_error evaluate_error
          split: if_splits option.splits sum.splits)
  qed (use body in \<open>auto simp: acquire_body_def\<close>)
  with c' acquire_body_ok [OF ok id body] show ?thesis by simp
qed

lemma Release_frees_lease:
  assumes ok: "base_ok c" and rel: "Release e c p k = (c', err)"
    and result: "err = None \<or> err = Some (raise ErrLeaseNotFound)"
  shows "map_of (ds_Leases (co_state c')) (leaseKey_String p k) = None"
proof -
  have id: "profileIDPattern p" "slotKeyPattern k"
    using rel result by (auto simp: Release_body split: if_splits)
  obtain c1 where body: "release_body e c p k TombstoneReleased [] = (c1, err)"
    and c': "c' = recordDecisionLocked c1 CommandRelease p (err = None) err (env_now e)"
    using rel id by (auto simp: Release_body Let_def split: prod.splits)
  have "map_of (ds_Leases (co_state c1)) (leaseKey_String p k) = None"
    using ok
  proof (cases rule: sweep_cases [where e = e])
    case (failed c2)
    with body result show ?thesis by (auto simp: release_body_def)
  next
    case (swept c2)
    have t: "tombstoneLocked e c2 p k TombstoneReleased [] = (c1, err)"
      using body swept by (simp add: release_body_def)
    show ?thesis
    proof (cases "map_of (ds_Leases (co_state c2)) (leaseKey_String p k)")
      case None
      with t show ?thesis by (auto simp: tombstoneLocked_def Let_def split: if_splits)
    next
      case (Some l)
      with t result have "err = None"
        by (auto simp: tombstoneLocked_def Let_def dest: commit_error split: prod.splits option.splits)
      with tombstone_success [OF swept(3) id(1) Some] t show ?thesis by simp
    qed
  qed
  with c' release_body_ok [OF ok id(1) body] show ?thesis by simp
qed

lemma over_wire_is_duplicate: "errors_Is (over_wire x) ErrDuplicateLease \<longleftrightarrow> errors_Is x ErrDuplicateLease"
  by (auto simp: over_wire_def errorCodeForErr_def errorCodeForErrVersion_def protocol_versions)

lemma connected_SetDemand_state:
  "co_state (fst (client_SetDemand (connected e) ClientSupportedVersions p n c)) = co_state c"
  using SetDemand_same [of e c p n] by (simp add: connected_SetDemand case_prod_beta)

lemma Release_error:
  assumes "Release e c p k = (c', Some err)"
  shows "err \<in> {raise ErrInvalidIdentity, err_other, raise ErrLeaseNotFound}"
  using assms
  by (auto simp: Release_body release_body_def tombstoneLocked_def Let_def dest: sweep_error commit_error
      split: prod.splits sum.splits option.splits if_splits)

text \<open>
  C17: What the manager believes about a lease is what the coordinator's ledger says. With
  host admission enabled, a slot key and a delivering connection, an acquire the manager treats
  as granted, retries of a lost answer included, leaves exactly the returned lease in the ledger
  under the manager's slot; an acquire it does not treat as granted reports an error, returns no
  lease, adds none to the ledger (expired ones may be swept) and keeps the manager's demand; and
  after a release that reports no error the ledger holds no lease for the slot.
\<close>

theorem manager_view_matches_ledger:
  assumes "base_ok c" and "ha_enabled h" and "slotKey \<noteq> []"
  shows "(case host_acquire (connected e) h targetKey slotKey c of (h', c', lease, outcome, err) \<Rightarrow>
      (outcome = hostAdmissionGranted \<longleftrightarrow> err = None)
      \<and> (if outcome = hostAdmissionGranted
         then map_of (ds_Leases (co_state c')) (leaseKey_String (ha_profileID h) slotKey) = Some lease
         else lease = zeroLease \<and> h' = h
           \<and> ds_Leases (co_state c') \<in> {ds_Leases (co_state c), ds_Leases (swept e c)}))
    \<and> (case host_release (connected e) h slotKey c of (c', err) \<Rightarrow>
         err = None \<longrightarrow> map_of (ds_Leases (co_state c')) (leaseKey_String (ha_profileID h) slotKey) = None)"
proof (rule conjI)
  let ?p = "ha_profileID h"
  obtain c1 l err where a: "Acquire e c ?p slotKey (currentDemand h) = (c1, l, err)"
    by (metis prod_cases3)
  note held = Acquire_holds_lease [OF assms(1) a]
  show "case host_acquire (connected e) h targetKey slotKey c of (h', c', lease, outcome, err) \<Rightarrow>
      (outcome = hostAdmissionGranted \<longleftrightarrow> err = None)
      \<and> (if outcome = hostAdmissionGranted
         then map_of (ds_Leases (co_state c')) (leaseKey_String ?p slotKey) = Some lease
         else lease = zeroLease \<and> h' = h
           \<and> ds_Leases (co_state c') \<in> {ds_Leases (co_state c), ds_Leases (swept e c)})"
  proof (cases "err = None \<or> err = Some (raise ErrDuplicateLease)")
    case True
    then show ?thesis
      using a held assms(2) by (auto simp: host_acquire_def connected_Acquire Let_def over_wire_raise
          connected_SetDemand_state split: prod.split)
  next
    case False
    then obtain x where x: "err = Some x" "\<not> errors_Is x ErrDuplicateLease"
      using Acquire_error [of e c ?p slotKey "currentDemand h" c1 l] a by auto
    have "fst (classifyHostAdmissionFailure (over_wire x)) \<noteq> hostAdmissionGranted"
      by (simp add: classifyHostAdmissionFailure_def)
    with x a assms(2) Acquire_refused [OF assms(1), of e ?p slotKey "currentDemand h" c1 l x]
      over_wire_is_duplicate [of x]
    show ?thesis by (auto simp: host_acquire_def connected_Acquire Let_def split: prod.split)
  qed
  obtain c2 err2 where r: "Release e c ?p slotKey = (c2, err2)" by fastforce
  have "err2 = None \<or> err2 = Some (raise ErrLeaseNotFound)"
    if "err2 = None \<or> errors_Is (over_wire (the err2)) ErrLeaseNotFound"
    using that Release_error [of e c ?p slotKey c2 "the err2"] r
    by (cases err2) (auto simp: over_wire_raise, simp add: over_wire_def errorCodeForErr_def errorCodeForErrVersion_def)
  with r Release_frees_lease [OF assms(1) r] assms(2,3)
  show "case host_release (connected e) h slotKey c of (c', err) \<Rightarrow>
      err = None \<longrightarrow> map_of (ds_Leases (co_state c')) (leaseKey_String ?p slotKey) = None"
    by (auto simp: host_release_def connected_Release split: prod.split option.split)
qed

theorem manager_view_matches_ledger_witness:
  "let h = newHostAdmissionCoordinatorWithClient ''b'' in
   \<exists>h' c' lease. host_acquire (connected (demo_env 6)) h ''t'' ''s1'' demo_held
       = (h', c', lease, hostAdmissionGranted, None)
     \<and> map_of (ds_Leases (co_state c')) (leaseKey_String ''b'' ''s1'') = Some lease"
proof -
  let ?h = "newHostAdmissionCoordinatorWithClient ''b''"
  let ?r = "host_acquire (connected (demo_env 6)) ?h ''t'' ''s1'' demo_held"
  have h: "ha_enabled ?h" "ha_profileID ?h = ''b''" by code_simp+
  have "fst (snd (snd (snd ?r))) = hostAdmissionGranted" by code_simp
  with conjunct1 [OF manager_view_matches_ledger [OF demo_held_ok h(1), of "''s1''" "demo_env 6" "''t''"]]
  show ?thesis by (auto simp: Let_def h(2) split: prod.splits)
qed

end
