(* ===== verification/Orphan_Recovery.thy ===== *)
theory Orphan_Recovery
  imports Host_Admission Retirement Retry_Queues Diagnostics
begin

text \<open>
  Leases a restarted manager finds without a worker (\<^verbatim>\<open>autoscaler/manager.go\<close> and
  \<^verbatim>\<open>autoscaler/host_admission_recovery_retry.go\<close>): the durable pacing of recovery attempts, the
  search for the registration behind a lease, the reconciliation of leases proven absent, and
  the end of the adoption. GitHub's answers may depend on the events so far; the admission
  service is reached through the transport of \<^verbatim>\<open>Host_Admission\<close>. An error that wraps no sentinel
  is the empty list.
\<close>

section \<open>Durable pacing\<close>

record hostAdmissionRecoveryRetryState =
  rt_SchemaVersion :: int
  rt_ManagerContractVersion :: int
  rt_ProfileID :: string
  rt_Attempts :: int
  rt_LastAttemptAt :: stamp
  rt_NextAttemptAt :: stamp

definition recovery_retry_ok :: "string \<Rightarrow> hostAdmissionRecoveryRetryState \<Rightarrow> bool" where
  "recovery_retry_ok profileID state \<longleftrightarrow>
     \<not> (rt_SchemaVersion state \<noteq> 1 \<or> rt_ManagerContractVersion state < 22
        \<or> rt_ManagerContractVersion state > managerContractVersion
        \<or> rt_ProfileID state \<noteq> profileID \<or> rt_Attempts state < 0)
     \<and> (\<forall>value \<in> set [rt_LastAttemptAt state, rt_NextAttemptAt state]. stamp_ok value)"

definition loadHostAdmissionRecoveryRetryState ::
  "string \<Rightarrow> hostAdmissionRecoveryRetryState state_file
    \<Rightarrow> goerr + hostAdmissionRecoveryRetryState option" where
  "loadHostAdmissionRecoveryRetryState profileID f =
     (case read_document f of
        Inl err \<Rightarrow> Inl err
      | Inr None \<Rightarrow> Inr None
      | Inr (Some state) \<Rightarrow>
          if recovery_retry_ok profileID state
          then Inr (Some (state\<lparr>rt_Attempts := clamp_attempts (rt_Attempts state)\<rparr>))
          else Inl err_other)"

definition saveHostAdmissionRecoveryRetryState ::
  "save_outcome \<Rightarrow> hostAdmissionRecoveryRetryState \<Rightarrow> hostAdmissionRecoveryRetryState state_file
    \<Rightarrow> hostAdmissionRecoveryRetryState state_file \<times> goerr option" where
  "saveHostAdmissionRecoveryRetryState outcome state f = write_document outcome f state"

definition clearHostAdmissionRecoveryRetryState ::
  "save_outcome \<Rightarrow> hostAdmissionRecoveryRetryState state_file
    \<Rightarrow> hostAdmissionRecoveryRetryState state_file \<times> goerr option" where
  "clearHostAdmissionRecoveryRetryState outcome f = remove_document (outcome \<noteq> Saved) f"

section \<open>State, services and events\<close>

record runnerReference =
  ref_id :: int
  ref_name :: string
  ref_scaleSetID :: int

record 'api hostAdmissionRecoveryTarget =
  ht_key :: string
  ht_registrationURL :: string
  ht_scaleSetID :: int
  ht_api :: 'api

text \<open>An event is a call of a service with its answer; a failed lookup has no answer.\<close>

datatype 'api recovery_event =
    Looked 'api string "runnerReference option"
  | LookupFailed 'api string
  | Removed 'api int "manager_error option"
  | Reconciled string "manager_error option"
  | Completed "manager_error option"

record 'api github =
  gh_findRunnerByName ::
    "'api recovery_event list \<Rightarrow> 'api \<Rightarrow> string \<Rightarrow> manager_error + runnerReference option"
  gh_removeRunner :: "'api recovery_event list \<Rightarrow> 'api \<Rightarrow> int \<Rightarrow> manager_error option"

text \<open>What the recovery reads of a controller.\<close>

record 'api controller_access =
  ca_registrationURL :: string
  ca_scaleSetID :: int
  ca_api :: 'api
  ca_hostLeasesAdopted :: bool

record 'api recovery_view =
  rv_recovered :: "string list"
  rv_controllers :: "(string, 'api controller_access) gomap"
  rv_retiring :: "(string, 'api controller_access) gomap"
  rv_orphanRecoveryTargets :: "(string, 'api hostAdmissionRecoveryTarget) gomap"
  rv_current :: "parsedDesiredState option"
  rv_retirementRecords :: "(string, retirementRecord) gomap"

text \<open>\<open>hr_persistent\<close>: the path of the retry file is not empty.\<close>

record ('api, 's) host_recovery =
  hr_profileID :: string
  hr_adoptionPending :: bool
  hr_error :: bool
  hr_failures :: int
  hr_retryAt :: int
  hr_persistent :: bool
  hr_file :: "hostAdmissionRecoveryRetryState state_file"
  hr_service :: 's
  hr_events :: "'api recovery_event list"
  hr_observations :: "diagnosticsObservation list"

definition loadHostAdmissionRecoveryRetry ::
  "('api, 's) host_recovery \<Rightarrow> ('api, 's) host_recovery \<times> goerr option" where
  "loadHostAdmissionRecoveryRetry m =
     (if \<not> hr_persistent m then (m, None)
      else case loadHostAdmissionRecoveryRetryState (hr_profileID m) (hr_file m) of
          Inl err \<Rightarrow> (m, Some err)
        | Inr None \<Rightarrow> (m, None)
        | Inr (Some state) \<Rightarrow>
            let m1 = m\<lparr>hr_failures := rt_Attempts state\<rparr>
            in if rt_NextAttemptAt state = NoStamp then (m1, None)
               else case parse_RFC3339 (rt_NextAttemptAt state) of
                   None \<Rightarrow> (m1\<lparr>hr_retryAt := zeroTime\<rparr>, Some err_other)
                 | Some t \<Rightarrow> (m1\<lparr>hr_retryAt := t\<rparr>, None))"

definition prepareHostAdmissionRecoveryAttempt ::
  "save_outcome \<Rightarrow> int \<Rightarrow> ('api, 's) host_recovery \<Rightarrow> ('api, 's) host_recovery \<times> goerr option" where
  "prepareHostAdmissionRecoveryAttempt outcome now m =
     (let failures = (if hr_failures m < maxRegistrationCleanupAttempts then hr_failures m + 1
            else hr_failures m);
          retryAt = now + registrationOperationRetryDelay failures;
          m1 = m\<lparr>hr_failures := failures, hr_retryAt := retryAt\<rparr>
      in if \<not> hr_persistent m then (m1, None)
         else
           let (f, err) = saveHostAdmissionRecoveryRetryState outcome
                 \<lparr>rt_SchemaVersion = 1, rt_ManagerContractVersion = managerContractVersion,
                  rt_ProfileID = hr_profileID m, rt_Attempts = failures,
                  rt_LastAttemptAt = format_RFC3339 now, rt_NextAttemptAt = format_RFC3339 retryAt\<rparr>
                 (hr_file m)
           in (m1\<lparr>hr_file := f\<rparr>, err))"

definition clearHostAdmissionRecoveryRetry ::
  "save_outcome \<Rightarrow> ('api, 's) host_recovery \<Rightarrow> ('api, 's) host_recovery \<times> goerr option" where
  "clearHostAdmissionRecoveryRetry outcome m =
     (let m1 = m\<lparr>hr_failures := 0, hr_retryAt := zeroTime\<rparr>
      in if \<not> hr_persistent m then (m1, None)
         else let (f, err) = clearHostAdmissionRecoveryRetryState outcome (hr_file m)
              in (m1\<lparr>hr_file := f\<rparr>, err))"

definition recovery_observation ::
  "operation_outcome \<Rightarrow> failure_reason \<Rightarrow> string \<Rightarrow> diagnosticsObservation" where
  "recovery_observation outcome reason evidence =
     \<lparr>do_subsystem = subsystemRecovery, do_operation = operationManagerStart, do_target = [],
      do_outcome = outcome, do_reason = Some reason, do_evidence = evidence, do_duration = None,
      do_attempt = 0, do_retryAt = None, do_healthKind = healthNone\<rparr>"

definition updateHostAdmissionRecoveryState ::
  "('api, 's) host_recovery \<Rightarrow> ('api, 's) host_recovery" where
  "updateHostAdmissionRecoveryState m =
     (if hr_adoptionPending m then
        m\<lparr>hr_observations := hr_observations m
            @ (if \<not> hr_error m then [recovery_observation outcomeBlocked reasonInvalidState
                 ''orphaned host admission lease reconciliation is pending''] else []),
          hr_error := True\<rparr>
      else
        m\<lparr>hr_observations := hr_observations m
            @ (if hr_error m then [recovery_observation outcomeRecovered reasonRecovered
                 ''orphaned host admission lease reconciliation completed''] else []),
          hr_error := False\<rparr>)"

section \<open>Targets\<close>

definition controller_target ::
  "string \<times> 'api controller_access \<Rightarrow> 'api hostAdmissionRecoveryTarget" where
  "controller_target e =
     (case e of (key, c) \<Rightarrow>
        \<lparr>ht_key = key, ht_registrationURL = ca_registrationURL c, ht_scaleSetID = ca_scaleSetID c,
         ht_api = ca_api c\<rparr>)"

definition hostAdmissionRecoveryTargets ::
  "'api recovery_view \<Rightarrow> 'api hostAdmissionRecoveryTarget list" where
  "hostAdmissionRecoveryTargets v =
     (let byController = (\<lambda>e byKey. mput byKey (fst e) (controller_target e));
          byKey = fold (\<lambda>(key, target) byKey. mput byKey key target) (rv_orphanRecoveryTargets v)
            (fold byController (rv_retiring v) (fold byController (rv_controllers v) []))
      in map (\<lambda>key. the (map_of byKey key)) (sort (mkeys byKey)))"

definition hostAdmissionRecoveryTargetsReady ::
  "desired_library \<Rightarrow> config \<Rightarrow> parsedDesiredState \<Rightarrow> 'api recovery_view \<Rightarrow> bool" where
  "hostAdmissionRecoveryTargetsReady lib cfg current v =
     (case buildTargetSpecs (dl_tables lib) (dl_url lib) (pd_state current) cfg of
        None \<Rightarrow> False
      | Some targets \<Rightarrow>
          (\<forall>target \<in> set targets. map_of (rv_controllers v) (ts_key target) \<noteq> None)
          \<and> (\<forall>(key, r) \<in> set (rv_retirementRecords v).
               rr_RetireAtGeneration r > de_Generation (pd_state current)
               \<or> map_of (rv_retiring v) key \<noteq> None
               \<or> map_of (rv_orphanRecoveryTargets v) key \<noteq> None))"

section \<open>The registration behind a lease\<close>

record 'api recoveryScope =
  rs_api :: 'api
  rs_scaleSets :: "(int, 'api hostAdmissionRecoveryTarget) gomap"

definition add_scope ::
  "'api hostAdmissionRecoveryTarget \<Rightarrow> (string, 'api recoveryScope) gomap
    \<Rightarrow> (string, 'api recoveryScope) gomap" where
  "add_scope target scopes =
     (let scopeKey = (if ht_registrationURL target = [] then CHR 0x00 # ht_key target
            else ht_registrationURL target);
          scope = (case map_of scopes scopeKey of
              None \<Rightarrow> \<lparr>rs_api = ht_api target, rs_scaleSets = []\<rparr>
            | Some scope \<Rightarrow> scope)
      in mput scopes scopeKey
           (scope\<lparr>rs_scaleSets := mput (rs_scaleSets scope) (ht_scaleSetID target) target\<rparr>))"

definition recovery_scopes :: "'api hostAdmissionRecoveryTarget list \<Rightarrow> 'api recoveryScope list" where
  "recovery_scopes targets = map snd (fold add_scope targets [])"

text \<open>The loop over the scopes, with \<open>matched\<close>, \<open>found\<close> and \<open>unknownScaleSet\<close>.\<close>

fun search_scopes ::
  "'api github \<Rightarrow> string \<Rightarrow> 'api recoveryScope list
    \<Rightarrow> ('api hostAdmissionRecoveryTarget \<times> runnerReference) option \<Rightarrow> bool \<Rightarrow> bool
    \<Rightarrow> 'api recovery_event list
    \<Rightarrow> 'api recovery_event list
       \<times> (manager_error + ('api hostAdmissionRecoveryTarget \<times> runnerReference) option)" where
  "search_scopes gh name [] matched found unknownScaleSet ev =
     (ev, if unknownScaleSet then Inl [] else Inr (if found then matched else None))"
| "search_scopes gh name (scope # scopes) matched found unknownScaleSet ev =
     (case gh_findRunnerByName gh ev (rs_api scope) name of
        Inl err \<Rightarrow> (ev @ [LookupFailed (rs_api scope) name], Inl err)
      | Inr None \<Rightarrow>
          search_scopes gh name scopes matched found unknownScaleSet
            (ev @ [Looked (rs_api scope) name None])
      | Inr (Some runner) \<Rightarrow>
          let ev1 = ev @ [Looked (rs_api scope) name (Some runner)]
          in if ref_id runner < 1 \<or> ref_name runner \<noteq> name \<or> ref_scaleSetID runner < 1
             then (ev1, Inl [])
             else if found then (ev1, Inl [])
             else case map_of (rs_scaleSets scope) (ref_scaleSetID runner) of
                 None \<Rightarrow> search_scopes gh name scopes matched True True ev1
               | Some target \<Rightarrow>
                   search_scopes gh name scopes (Some (target, runner)) True unknownScaleSet ev1)"

definition findOrphanedRunnerRegistration ::
  "'api github \<Rightarrow> 'api hostAdmissionRecoveryTarget list \<Rightarrow> string \<Rightarrow> 'api recovery_event list
    \<Rightarrow> 'api recovery_event list
       \<times> (manager_error + ('api hostAdmissionRecoveryTarget \<times> runnerReference) option)" where
  "findOrphanedRunnerRegistration gh targets name ev =
     search_scopes gh name (recovery_scopes targets) None False False ev"

section \<open>Reconciliation\<close>

definition lease_registration :: "Lease \<Rightarrow> string" where
  "lease_registration lease =
     (if lease_RegistrationName lease = [] then lease_SlotKey lease else lease_RegistrationName lease)"

text \<open>The body of the loop over the pending leases: the error it adds, if any.\<close>

definition reconcile_lease ::
  "'api github \<Rightarrow> 's transport \<Rightarrow> hostAdmissionCoordinator \<Rightarrow> 'api hostAdmissionRecoveryTarget list
    \<Rightarrow> Lease \<Rightarrow> 'api recovery_event list \<times> 's \<Rightarrow> ('api recovery_event list \<times> 's) \<times> manager_error option"
where
  "reconcile_lease gh send h targets lease st =
     (case findOrphanedRunnerRegistration gh targets (lease_registration lease) (fst st) of
        (ev, Inl err) \<Rightarrow> ((ev, snd st), Some err)
      | (ev, Inr match) \<Rightarrow>
          let (ev1, removal) = (case match of
                  None \<Rightarrow> (ev, None)
                | Some (target, runner) \<Rightarrow>
                    let err = gh_removeRunner gh ev (ht_api target) (ref_id runner)
                    in (ev @ [Removed (ht_api target) (ref_id runner) err], registrationRemovalError err))
          in if removal \<noteq> None then ((ev1, snd st), removal)
             else
               let (s, err) = host_reconcileAbsent send h (lease_SlotKey lease) (snd st)
               in ((ev1 @ [Reconciled (lease_SlotKey lease) err], s), err))"

fun reconcile_leases ::
  "'api github \<Rightarrow> 's transport \<Rightarrow> hostAdmissionCoordinator \<Rightarrow> 'api hostAdmissionRecoveryTarget list
    \<Rightarrow> Lease list \<Rightarrow> 'api recovery_event list \<times> 's
    \<Rightarrow> ('api recovery_event list \<times> 's) \<times> manager_error option list" where
  "reconcile_leases gh send h targets [] st = (st, [])"
| "reconcile_leases gh send h targets (lease # leases) st =
     (let (st1, err) = reconcile_lease gh send h targets lease st;
          (st2, errs) = reconcile_leases gh send h targets leases st1
      in (st2, err # errs))"

definition reconcileOrphanedHostAdmissionLeases ::
  "'api github \<Rightarrow> 's transport \<Rightarrow> hostAdmissionCoordinator \<Rightarrow> 'api recovery_view \<Rightarrow> Lease list
    \<Rightarrow> 'api recovery_event list \<times> 's \<Rightarrow> ('api recovery_event list \<times> 's) \<times> manager_error option" where
  "reconcileOrphanedHostAdmissionLeases gh send h v pending st =
     (if pending = [] then (st, None)
      else
        let targets = hostAdmissionRecoveryTargets v
        in if targets = [] then (st, Some [])
           else let (st1, errs) = reconcile_leases gh send h targets pending st
                in (st1, errors_Join errs))"

definition all_adopted :: "'api recovery_view \<Rightarrow> bool" where
  "all_adopted v \<longleftrightarrow>
     (\<forall>c \<in> set (map snd (rv_controllers v)). ca_hostLeasesAdopted c)
     \<and> (\<forall>c \<in> set (map snd (rv_retiring v)). ca_hostLeasesAdopted c)"

text \<open>The attempt itself, once it is due: pace it durably, reconcile, complete.\<close>

definition attempt_recovery ::
  "'api github \<Rightarrow> 's transport \<Rightarrow> hostAdmissionCoordinator \<Rightarrow> 'api recovery_view \<Rightarrow> Lease list \<Rightarrow> int
    \<Rightarrow> save_outcome \<Rightarrow> save_outcome \<Rightarrow> ('api, 's) host_recovery
    \<Rightarrow> ('api, 's) host_recovery \<times> manager_error option" where
  "attempt_recovery gh send h v pending now paced cleared m =
     (case prepareHostAdmissionRecoveryAttempt paced now m of
        (m1, Some err) \<Rightarrow> (m1, Some (from_admission err))
      | (m1, None) \<Rightarrow>
          (case reconcileOrphanedHostAdmissionLeases gh send h v pending (hr_events m1, hr_service m1) of
             ((ev, s), Some err) \<Rightarrow> (m1\<lparr>hr_events := ev, hr_service := s\<rparr>, Some err)
           | ((ev, s), None) \<Rightarrow>
               (case host_completeAdoption send h s of
                  (s', Some err) \<Rightarrow>
                    (m1\<lparr>hr_events := ev @ [Completed (Some err)], hr_service := s'\<rparr>, Some err)
                | (s', None) \<Rightarrow>
                    let (m2, err) = clearHostAdmissionRecoveryRetry cleared
                          (m1\<lparr>hr_events := ev @ [Completed None], hr_service := s',
                            hr_adoptionPending := False\<rparr>)
                    in (m2, map_option from_admission err))))"

definition completeHostAdmissionAdoptionIfReady ::
  "desired_library \<Rightarrow> config \<Rightarrow> 'api github \<Rightarrow> 's transport \<Rightarrow> hostAdmissionCoordinator
    \<Rightarrow> 'api recovery_view \<Rightarrow> int \<Rightarrow> save_outcome \<Rightarrow> save_outcome \<Rightarrow> ('api, 's) host_recovery
    \<Rightarrow> ('api, 's) host_recovery \<times> manager_error option" where
  "completeHostAdmissionAdoptionIfReady lib cfg gh send h v now paced cleared m =
     (if \<not> hr_adoptionPending m then (m, None)
      else if rv_recovered v \<noteq> [] then (m, None)
      else if \<not> all_adopted v then (m, None)
      else case pendingAdoptionLeases send h (hr_service m) of
          (s, Inl err) \<Rightarrow> (m\<lparr>hr_service := s\<rparr>, Some err)
        | (s, Inr pending) \<Rightarrow>
            let m1 = m\<lparr>hr_service := s\<rparr>
            in if pending \<noteq> [] \<and> (case rv_current v of None \<Rightarrow> False
                 | Some current \<Rightarrow> \<not> hostAdmissionRecoveryTargetsReady lib cfg current v)
               then (m1, None)
               else if hr_retryAt m \<noteq> zeroTime \<and> now < hr_retryAt m then (m1, None)
               else attempt_recovery gh send h v pending now paced cleared m1)"

section \<open>Proven absence\<close>

text \<open>
  The registration \<open>name\<close> is proven absent by some events: in every registration scope it was
  looked up and not there, or the one found belongs to a known scale set and was removed.
\<close>

definition scope_clear :: "string \<Rightarrow> 'api recovery_event list \<Rightarrow> 'api recoveryScope \<Rightarrow> bool" where
  "scope_clear name ev scope \<longleftrightarrow>
     Looked (rs_api scope) name None \<in> set ev
     \<or> (\<exists>runner target err. Looked (rs_api scope) name (Some runner) \<in> set ev
          \<and> ref_name runner = name
          \<and> map_of (rs_scaleSets scope) (ref_scaleSetID runner) = Some target
          \<and> Removed (ht_api target) (ref_id runner) err \<in> set ev
          \<and> registrationRemovalError err = None)"

definition proven_absent ::
  "'api hostAdmissionRecoveryTarget list \<Rightarrow> string \<Rightarrow> 'api recovery_event list \<Rightarrow> bool" where
  "proven_absent targets name ev \<longleftrightarrow> (\<forall>scope \<in> set (recovery_scopes targets). scope_clear name ev scope)"

lemma scope_clear_mono: "scope_clear name ev scope \<Longrightarrow> set ev \<subseteq> set ev' \<Longrightarrow> scope_clear name ev' scope"
  unfolding scope_clear_def by blast

lemma proven_absent_mono:
  "proven_absent targets name ev \<Longrightarrow> set ev \<subseteq> set ev' \<Longrightarrow> proven_absent targets name ev'"
  unfolding proven_absent_def using scope_clear_mono by blast

text \<open>What a search adds to the events are lookups.\<close>

definition lookups :: "'api recovery_event list \<Rightarrow> bool" where
  "lookups ev \<longleftrightarrow> (\<forall>slot err. Reconciled slot err \<notin> set ev)"

lemma lookups_simps [simp]:
  "lookups []" "lookups (a @ b) \<longleftrightarrow> lookups a \<and> lookups b"
  "lookups (Looked api name answer # ev) \<longleftrightarrow> lookups ev"
  "lookups (LookupFailed api name # ev) \<longleftrightarrow> lookups ev"
  "lookups (Removed api i err # ev) \<longleftrightarrow> lookups ev"
  "\<not> lookups (Reconciled slot err # ev)"
  by (auto simp: lookups_def)

lemma search_appends:
  "\<exists>new. fst (search_scopes gh name scopes matched found unknown ev) = ev @ new \<and> lookups new"
proof (induction scopes arbitrary: matched found unknown ev)
  case (Cons scope scopes)
  have step: "\<exists>new. fst (search_scopes gh name scopes m f u (ev @ [Looked (rs_api scope) name a]))
      = ev @ new \<and> lookups new" for m f u a
    using Cons.IH [of m f u "ev @ [Looked (rs_api scope) name a]"] by force
  show ?case
    by (auto simp: Let_def step split: sum.split option.split)
qed simp

text \<open>After a match the remaining scopes must all be clear, and the match is what is returned.\<close>

lemma search_after_match:
  assumes "search_scopes gh name scopes matched True unknown ev = (ev', Inr result)"
  shows "\<not> unknown \<and> result = matched
    \<and> (\<exists>new. ev' = ev @ new \<and> (\<forall>scope \<in> set scopes. Looked (rs_api scope) name None \<in> set new))"
  using assms
proof (induction scopes arbitrary: ev)
  case (Cons scope scopes)
  then have rest: "search_scopes gh name scopes matched True unknown
      (ev @ [Looked (rs_api scope) name None]) = (ev', Inr result)"
    by (auto simp: Let_def split: sum.splits option.splits if_splits)
  from Cons.IH [OF this] show ?case by auto
qed (auto split: if_splits)

lemma search_result:
  assumes "search_scopes gh name scopes None False False ev = (ev', Inr result)"
  shows "\<exists>new. ev' = ev @ new \<and> (case result of
      None \<Rightarrow> \<forall>scope \<in> set scopes. Looked (rs_api scope) name None \<in> set new
    | Some (target, runner) \<Rightarrow> ref_name runner = name \<and> (\<forall>scope \<in> set scopes.
        Looked (rs_api scope) name None \<in> set new
        \<or> Looked (rs_api scope) name (Some runner) \<in> set new
          \<and> map_of (rs_scaleSets scope) (ref_scaleSetID runner) = Some target))"
  using assms
proof (induction scopes arbitrary: ev)
  case (Cons scope scopes)
  show ?case
  proof (cases "gh_findRunnerByName gh ev (rs_api scope) name")
    case (Inl err)
    with Cons.prems show ?thesis by simp
  next
    case (Inr answer)
    show ?thesis
    proof (cases answer)
      case None
      with Inr Cons.prems Cons.IH [of "ev @ [Looked (rs_api scope) name None]"] obtain new where
        "ev' = ev @ Looked (rs_api scope) name None # new"
        "case result of None \<Rightarrow> \<forall>scope \<in> set scopes. Looked (rs_api scope) name None \<in> set new
          | Some (target, runner) \<Rightarrow> ref_name runner = name \<and> (\<forall>scope \<in> set scopes.
              Looked (rs_api scope) name None \<in> set new
              \<or> Looked (rs_api scope) name (Some runner) \<in> set new
                \<and> map_of (rs_scaleSets scope) (ref_scaleSetID runner) = Some target)" by auto
      then show ?thesis
        by (intro exI [of _ "Looked (rs_api scope) name None # new"]) (auto split: option.splits)
    next
      case (Some runner)
      let ?ev = "ev @ [Looked (rs_api scope) name (Some runner)]"
      from Some Inr Cons.prems have good: "ref_name runner = name"
        by (auto simp: Let_def split: if_splits)
      show ?thesis
      proof (cases "map_of (rs_scaleSets scope) (ref_scaleSetID runner)")
        case None
        with Some Inr Cons.prems have "search_scopes gh name scopes None True True ?ev = (ev', Inr result)"
          by (auto simp: Let_def split: if_splits)
        from search_after_match [OF this] show ?thesis by simp
      next
        case known: (Some target)
        with Some Inr Cons.prems
        have "search_scopes gh name scopes (Some (target, runner)) True False ?ev = (ev', Inr result)"
          by (auto simp: Let_def split: if_splits)
        from search_after_match [OF this] good known show ?thesis by auto
      qed
    qed
  qed
qed simp

lemma find_appends:
  "\<exists>new. fst (findOrphanedRunnerRegistration gh targets name ev) = ev @ new \<and> lookups new"
  by (simp add: findOrphanedRunnerRegistration_def search_appends)

text \<open>
  One lease: the service is asked to reconcile it at most once, as the last step, and only when
  the steps before prove its registration absent.
\<close>

lemma reconcile_lease_proven:
  assumes run: "reconcile_lease gh send h targets lease st = ((ev', s'), err)"
  shows "\<exists>steps final. ev' = fst st @ steps @ final \<and> lookups steps
    \<and> (final = [] \<and> err \<noteq> None
       \<or> final = [Reconciled (lease_SlotKey lease) err]
         \<and> proven_absent targets (lease_registration lease) steps)"
proof -
  obtain ev r where find: "findOrphanedRunnerRegistration gh targets (lease_registration lease) (fst st)
      = (ev, r)" by (meson surj_pair)
  obtain new where ev: "ev = fst st @ new" "lookups new"
    using find_appends [of gh targets "lease_registration lease" "fst st"] find by auto
  show ?thesis
  proof (cases r)
    case (Inl e)
    with run find ev show ?thesis by (intro exI [of _ new] exI [of _ "[]"]) (auto simp: reconcile_lease_def)
  next
    case (Inr match)
    have clear: "case match of
        None \<Rightarrow> \<forall>scope \<in> set (recovery_scopes targets). Looked (rs_api scope) (lease_registration lease) None \<in> set new
      | Some (target, runner) \<Rightarrow> ref_name runner = lease_registration lease
          \<and> (\<forall>scope \<in> set (recovery_scopes targets).
          Looked (rs_api scope) (lease_registration lease) None \<in> set new
          \<or> Looked (rs_api scope) (lease_registration lease) (Some runner) \<in> set new
            \<and> map_of (rs_scaleSets scope) (ref_scaleSetID runner) = Some target)"
      using search_result [of gh _ "recovery_scopes targets" "fst st" ev match] find Inr ev
      by (simp add: findOrphanedRunnerRegistration_def)
    show ?thesis
    proof (cases match)
      case None
      with run find Inr ev clear show ?thesis
        by (intro exI [of _ new] exI [of _ "[Reconciled (lease_SlotKey lease) err]"])
          (auto simp: reconcile_lease_def proven_absent_def scope_clear_def split: prod.splits)
    next
      case (Some m)
      obtain target runner where m: "match = Some (target, runner)" using Some by (cases m) simp
      let ?answer = "gh_removeRunner gh ev (ht_api target) (ref_id runner)"
      let ?steps = "new @ [Removed (ht_api target) (ref_id runner) ?answer]"
      show ?thesis
      proof (cases "registrationRemovalError ?answer")
        case (Some e)
        with run find Inr ev m have "err = Some e \<and> ev' = fst st @ ?steps"
          by (simp add: reconcile_lease_def Let_def)
        with ev(2) show ?thesis by (intro exI [of _ ?steps] exI [of _ "[]"]) simp
      next
        case None
        have "proven_absent targets (lease_registration lease) ?steps"
          unfolding proven_absent_def
        proof
          fix scope assume "scope \<in> set (recovery_scopes targets)"
          with clear m have "ref_name runner = lease_registration lease
              \<and> (Looked (rs_api scope) (lease_registration lease) None \<in> set new
                 \<or> Looked (rs_api scope) (lease_registration lease) (Some runner) \<in> set new
                   \<and> map_of (rs_scaleSets scope) (ref_scaleSetID runner) = Some target)" by simp
          with None show "scope_clear (lease_registration lease) ?steps scope"
            unfolding scope_clear_def by auto
        qed
        with run find Inr ev m None show ?thesis
          by (intro exI [of _ ?steps] exI [of _ "[Reconciled (lease_SlotKey lease) err]"])
            (auto simp: reconcile_lease_def Let_def split: prod.splits)
      qed
    qed
  qed
qed

text \<open>All leases of a pass, and the pass itself.\<close>

definition proven_reconciliations ::
  "'api hostAdmissionRecoveryTarget list \<Rightarrow> Lease list \<Rightarrow> 'api recovery_event list \<Rightarrow> bool" where
  "proven_reconciliations targets pending ev \<longleftrightarrow>
     (\<forall>before slot err after. ev = before @ Reconciled slot err # after \<longrightarrow>
        (\<exists>lease \<in> set pending. lease_SlotKey lease = slot
           \<and> proven_absent targets (lease_registration lease) before))"

lemma proven_reconciliations_lookups:
  "lookups steps \<Longrightarrow> proven_reconciliations targets pending steps"
  unfolding proven_reconciliations_def lookups_def by fastforce

lemma proven_reconciliations_append:
  assumes "proven_reconciliations targets pending a" "proven_reconciliations targets pending b"
  shows "proven_reconciliations targets pending (a @ b)"
  unfolding proven_reconciliations_def
proof (intro allI impI)
  fix before slot err after assume split: "a @ b = before @ Reconciled slot err # after"
  show "\<exists>lease \<in> set pending. lease_SlotKey lease = slot
      \<and> proven_absent targets (lease_registration lease) before"
  proof (cases "length before < length a")
    case True
    with split obtain rest where "a = before @ Reconciled slot err # rest"
      by (auto simp: append_eq_append_conv2 append_eq_Cons_conv)
    with assms(1) show ?thesis unfolding proven_reconciliations_def by blast
  next
    case False
    with split obtain mid where mid: "before = a @ mid" "b = mid @ Reconciled slot err # after"
      by (auto simp: append_eq_append_conv2)
    with assms(2) obtain lease where "lease \<in> set pending" "lease_SlotKey lease = slot"
      "proven_absent targets (lease_registration lease) mid"
      unfolding proven_reconciliations_def by blast
    then show ?thesis using proven_absent_mono [of targets _ mid before] mid(1) by auto
  qed
qed

lemma proven_reconciliations_subset:
  "proven_reconciliations targets p ev \<Longrightarrow> set p \<subseteq> set q \<Longrightarrow> proven_reconciliations targets q ev"
  unfolding proven_reconciliations_def by blast

text \<open>The lease was given back, and nothing but a proof of its absence came before.\<close>

definition given_back ::
  "'api hostAdmissionRecoveryTarget list \<Rightarrow> 'api recovery_event list \<Rightarrow> Lease \<Rightarrow> bool" where
  "given_back targets ev lease \<longleftrightarrow>
     (\<exists>before after. ev = before @ Reconciled (lease_SlotKey lease) None # after
        \<and> proven_absent targets (lease_registration lease) before)"

lemma given_back_append: "given_back targets b lease \<Longrightarrow> given_back targets (a @ b) lease"
  "given_back targets a lease \<Longrightarrow> given_back targets (a @ b) lease"
  unfolding given_back_def
  using proven_absent_mono [of targets "lease_registration lease"]
  by (metis append.assoc append_Cons set_append sup_ge2) (metis append.assoc append_Cons)

lemma reconcile_lease_effect:
  assumes "reconcile_lease gh send h targets lease st = ((ev', s'), err)"
  shows "\<exists>new. ev' = fst st @ new \<and> proven_reconciliations targets [lease] new
    \<and> (err = None \<longrightarrow> given_back targets new lease)"
proof -
  obtain steps final where e: "ev' = fst st @ steps @ final" "lookups steps"
    and final: "final = [] \<and> err \<noteq> None
       \<or> final = [Reconciled (lease_SlotKey lease) err]
         \<and> proven_absent targets (lease_registration lease) steps"
    using reconcile_lease_proven [OF assms] by blast
  have "proven_reconciliations targets [lease] (steps @ final)"
    using final
  proof
    assume "final = [] \<and> err \<noteq> None"
    with e(2) show ?thesis by (simp add: proven_reconciliations_lookups)
  next
    assume f: "final = [Reconciled (lease_SlotKey lease) err]
      \<and> proven_absent targets (lease_registration lease) steps"
    show ?thesis unfolding proven_reconciliations_def
    proof (intro allI impI)
      fix before slot e' after
      assume split: "steps @ final = before @ Reconciled slot e' # after"
      with e(2) f have "before = steps \<and> slot = lease_SlotKey lease"
        by (auto simp: append_eq_append_conv2 append_eq_Cons_conv Cons_eq_append_conv)
      with f show "\<exists>l \<in> set [lease]. lease_SlotKey l = slot
          \<and> proven_absent targets (lease_registration l) before" by simp
    qed
  qed
  moreover have "err = None \<Longrightarrow> given_back targets (steps @ final) lease"
    using final by (auto simp: given_back_def)
  ultimately show ?thesis using e(1) by auto
qed

lemma reconcile_leases_effect:
  assumes "reconcile_leases gh send h targets pending st = ((ev', s'), errs)"
  shows "\<exists>new. ev' = fst st @ new \<and> proven_reconciliations targets pending new
    \<and> ((\<forall>err \<in> set errs. err = None) \<longrightarrow> (\<forall>lease \<in> set pending. given_back targets new lease))"
  using assms
proof (induction pending arbitrary: st ev' s' errs)
  case Nil
  then show ?case by (simp add: proven_reconciliations_lookups)
next
  case (Cons lease pending)
  obtain ev1 s1 err where one: "reconcile_lease gh send h targets lease st = ((ev1, s1), err)"
    by (metis surj_pair)
  obtain errs1 where rest: "reconcile_leases gh send h targets pending (ev1, s1) = ((ev', s'), errs1)"
    and errs: "errs = err # errs1"
    using Cons.prems one by (auto split: prod.splits)
  obtain a where a: "ev1 = fst st @ a" "proven_reconciliations targets [lease] a"
    "err = None \<longrightarrow> given_back targets a lease"
    using reconcile_lease_effect [OF one] by blast
  obtain b where b: "ev' = ev1 @ b" "proven_reconciliations targets pending b"
    "(\<forall>err \<in> set errs1. err = None) \<longrightarrow> (\<forall>lease \<in> set pending. given_back targets b lease)"
    using Cons.IH [OF rest] by auto
  have "proven_reconciliations targets (lease # pending) (a @ b)"
    by (intro proven_reconciliations_append proven_reconciliations_subset [OF a(2)]
        proven_reconciliations_subset [OF b(2)]) auto
  with a b errs show ?case
    by (intro exI [of _ "a @ b"]) (auto intro: given_back_append)
qed

lemma reconcile_orphans_effect:
  assumes "reconcileOrphanedHostAdmissionLeases gh send h v pending (ev, s) = ((ev', s'), err)"
  shows "\<exists>new. ev' = ev @ new \<and> proven_reconciliations (hostAdmissionRecoveryTargets v) pending new
    \<and> (err = None \<longrightarrow> (\<forall>lease \<in> set pending. given_back (hostAdmissionRecoveryTargets v) new lease))"
proof (cases "pending = [] \<or> hostAdmissionRecoveryTargets v = []")
  case True
  with assms show ?thesis
    by (auto simp: reconcileOrphanedHostAdmissionLeases_def Let_def proven_reconciliations_lookups
        split: if_splits)
next
  case False
  obtain errs where "reconcile_leases gh send h (hostAdmissionRecoveryTargets v) pending (ev, s)
      = ((ev', s'), errs)" and "err = errors_Join errs"
    using assms False by (auto simp: reconcileOrphanedHostAdmissionLeases_def Let_def split: prod.splits)
  from reconcile_leases_effect [OF this(1)] this(2) show ?thesis by simp
qed

lemma prepare_effect:
  assumes "prepareHostAdmissionRecoveryAttempt paced now m = (m1, err)"
  shows "hr_events m1 = hr_events m" "hr_service m1 = hr_service m"
    "hr_adoptionPending m1 = hr_adoptionPending m" "hr_persistent m1 = hr_persistent m"
    "hr_profileID m1 = hr_profileID m"
    "hr_retryAt m1 = now + registrationOperationRetryDelay (hr_failures m1)"
    "err = None \<Longrightarrow> hr_persistent m \<Longrightarrow> paced = Saved"
  using assms by (cases paced; auto simp: prepareHostAdmissionRecoveryAttempt_def Let_def
    saveHostAdmissionRecoveryRetryState_def split: if_splits)+

lemma clear_effect:
  assumes "clearHostAdmissionRecoveryRetry cleared m = (m', err)"
  shows "hr_events m' = hr_events m" "hr_adoptionPending m' = hr_adoptionPending m"
  using assms by (auto simp: clearHostAdmissionRecoveryRetry_def Let_def split: if_splits prod.splits)

lemma attempt_effect:
  assumes run: "attempt_recovery gh send h v pending now paced cleared m = (m', err)"
    and adoption: "hr_adoptionPending m"
  shows "\<exists>new. hr_events m' = hr_events m @ new
    \<and> proven_reconciliations (hostAdmissionRecoveryTargets v) pending new
    \<and> (new \<noteq> [] \<longrightarrow> (hr_persistent m \<longrightarrow> paced = Saved))
    \<and> (\<not> hr_adoptionPending m' \<longrightarrow> last new = Completed None
        \<and> (\<forall>lease \<in> set pending. given_back (hostAdmissionRecoveryTargets v) new lease))"
proof -
  obtain m1 perr where prepared: "prepareHostAdmissionRecoveryAttempt paced now m = (m1, perr)"
    by (meson surj_pair)
  note p = prepare_effect [OF prepared]
  show ?thesis
  proof (cases perr)
    case (Some e)
    with run prepared p adoption show ?thesis
      by (auto simp: attempt_recovery_def proven_reconciliations_lookups)
  next
    case None
    obtain ev s rerr where orphans: "reconcileOrphanedHostAdmissionLeases gh send h v pending
        (hr_events m1, hr_service m1) = ((ev, s), rerr)" by (metis surj_pair)
    obtain new where new: "ev = hr_events m @ new"
      "proven_reconciliations (hostAdmissionRecoveryTargets v) pending new"
      "rerr = None \<longrightarrow> (\<forall>lease \<in> set pending. given_back (hostAdmissionRecoveryTargets v) new lease)"
      using reconcile_orphans_effect [OF orphans] p(1) by auto
    have ended: "proven_reconciliations (hostAdmissionRecoveryTargets v) pending (new @ [Completed e])" for e
      by (intro proven_reconciliations_append new(2) proven_reconciliations_lookups)
        (simp add: lookups_def)
    show ?thesis
    proof (cases rerr)
      case (Some e)
      with run prepared None orphans new p adoption show ?thesis
        by (intro exI [of _ new]) (auto simp: attempt_recovery_def)
    next
      case rnone: None
      obtain s' cerr where complete: "host_completeAdoption send h s = (s', cerr)" by (meson surj_pair)
      show ?thesis
      proof (cases cerr)
        case (Some e)
        with run prepared None orphans rnone complete new p adoption ended show ?thesis
          by (intro exI [of _ "new @ [Completed (Some e)]"]) (auto simp: attempt_recovery_def)
      next
        case cnone: None
        obtain m2 werr where "clearHostAdmissionRecoveryRetry cleared
            (m1\<lparr>hr_events := ev @ [Completed None], hr_service := s', hr_adoptionPending := False\<rparr>)
            = (m2, werr)" by (meson surj_pair)
        with run prepared None orphans rnone complete cnone clear_effect [OF this]
        have "hr_events m' = ev @ [Completed None]" by (auto simp: attempt_recovery_def)
        with new p(7) None rnone ended show ?thesis
          by (intro exI [of _ "new @ [Completed None]"]) (auto intro: given_back_append)
      qed
    qed
  qed
qed

text \<open>
  C10: a lease without a worker is given back only when it is proven dead. In a recovery pass the
  service is asked to reconcile a lease only after the registration behind it was looked up in
  every registration scope and was not there, or was the one found, in a known scale set, and was
  removed; nothing is asked while a recovered container is unassigned or a scaler still adopts
  leases, or before the pace of the attempts is on disk; and the adoption ends only when every
  pending lease was given back that way and the service confirmed the end.
\<close>

theorem orphan_lease_needs_proven_absence:
  assumes pending: "pendingAdoptionLeases send h (hr_service m) = (s, Inr pending)"
    and run: "completeHostAdmissionAdoptionIfReady lib cfg gh send h v now paced cleared m = (m', err)"
  shows "\<exists>new. hr_events m' = hr_events m @ new
    \<and> proven_reconciliations (hostAdmissionRecoveryTargets v) pending new
    \<and> (new \<noteq> [] \<longrightarrow> rv_recovered v = [] \<and> all_adopted v \<and> hr_retryAt m \<le> max 0 now
        \<and> (hr_persistent m \<longrightarrow> paced = Saved))
    \<and> (hr_adoptionPending m \<and> \<not> hr_adoptionPending m' \<longrightarrow> last new = Completed None
        \<and> (\<forall>lease \<in> set pending. given_back (hostAdmissionRecoveryTargets v) new lease))"
proof (cases "attempt_recovery gh send h v pending now paced cleared (m\<lparr>hr_service := s\<rparr>) = (m', err)
    \<and> hr_adoptionPending m \<and> rv_recovered v = [] \<and> all_adopted v \<and> (hr_retryAt m = 0 \<or> hr_retryAt m \<le> now)")
  case True
  then have "hr_adoptionPending (m\<lparr>hr_service := s\<rparr>)" by simp
  from attempt_effect [OF conjunct1 [OF True] this] True show ?thesis by auto
next
  case False
  with pending run have "m' = m \<or> m' = m\<lparr>hr_service := s\<rparr>"
    by (auto simp: completeHostAdmissionAdoptionIfReady_def Let_def split: if_splits option.splits)
  then show ?thesis
    by (intro exI [of _ "[]"]) (auto simp: proven_reconciliations_lookups)
qed

text \<open>
  A recovery on the ledger itself: in \<^const>\<open>demo_fenced\<close> profile \<^verbatim>\<open>b\<close> holds one active lease,
  and the fence of its restart waits for it. The registration \<^verbatim>\<open>s1\<close> is found once in scale set 7
  and removed.
\<close>

definition orphan_github :: "nat github" where
  "orphan_github = \<lparr>gh_findRunnerByName = (\<lambda>ev api name.
       if ev = [] then Inr (Some \<lparr>ref_id = 3, ref_name = name, ref_scaleSetID = 7\<rparr>) else Inr None),
     gh_removeRunner = (\<lambda>ev api i. None)\<rparr>"

definition orphan_view :: "nat recovery_view" where
  "orphan_view = \<lparr>rv_recovered = [],
     rv_controllers = [(''t'', \<lparr>ca_registrationURL = ''u'', ca_scaleSetID = 7, ca_api = 0,
       ca_hostLeasesAdopted = True\<rparr>)],
     rv_retiring = [], rv_orphanRecoveryTargets = [], rv_current = None, rv_retirementRecords = []\<rparr>"

definition orphan_manager :: "(nat, coordinator) host_recovery" where
  "orphan_manager = \<lparr>hr_profileID = ''b'', hr_adoptionPending = True, hr_error = False,
     hr_failures = 0, hr_retryAt = 0, hr_persistent = True, hr_file = NoStateFile,
     hr_service = demo_fenced, hr_events = [], hr_observations = []\<rparr>"

theorem orphan_lease_needs_proven_absence_witness:
  "\<forall>lib cfg. \<exists>m' lease. completeHostAdmissionAdoptionIfReady lib cfg orphan_github
      (connected (demo_env 8)) (newHostAdmissionCoordinatorWithClient ''b'') orphan_view 100 Saved Saved
      orphan_manager = (m', None)
    \<and> lease_SlotKey lease = ''s1'' \<and> given_back (hostAdmissionRecoveryTargets orphan_view) (hr_events m') lease"
proof (intro allI)
  fix lib cfg
  let ?h = "newHostAdmissionCoordinatorWithClient ''b''" and ?send = "connected (demo_env 8)"
  let ?p = "pendingAdoptionLeases ?send ?h (hr_service orphan_manager)"
  have slots: "(case snd ?p of Inr ls \<Rightarrow> map lease_SlotKey ls = [''s1''] | Inl e \<Rightarrow> False)" by code_simp
  then obtain s lease where p: "?p = (s, Inr [lease])" and slot: "lease_SlotKey lease = ''s1''"
    by (cases ?p) (auto split: sum.splits)
  let ?r = "completeHostAdmissionAdoptionIfReady lib cfg orphan_github ?send ?h orphan_view 100 Saved Saved
    orphan_manager"
  let ?a = "attempt_recovery orphan_github ?send ?h orphan_view
    (case snd ?p of Inr ls \<Rightarrow> ls | Inl e \<Rightarrow> []) 100 Saved Saved (orphan_manager\<lparr>hr_service := fst ?p\<rparr>)"
  have ok: "\<not> hr_adoptionPending (fst ?a) \<and> snd ?a = None" by code_simp
  have r: "?r = ?a" using p
    by (simp add: completeHostAdmissionAdoptionIfReady_def orphan_manager_def orphan_view_def all_adopted_def)
  obtain m' where m': "?r = (m', None)" "\<not> hr_adoptionPending m'"
    using ok r by (metis prod.collapse)
  have start: "hr_events orphan_manager = []" "hr_adoptionPending orphan_manager"
    by (simp_all add: orphan_manager_def)
  from orphan_lease_needs_proven_absence [OF p m'(1)] m' start slot
  show "\<exists>m' lease. ?r = (m', None) \<and> lease_SlotKey lease = ''s1''
      \<and> given_back (hostAdmissionRecoveryTargets orphan_view) (hr_events m') lease" by auto
qed

text \<open>
  An attempt that did not end the adoption is paced across a restart: the manager that loads the
  file waits for the same instant, to the second, and goes on counting.
\<close>

lemma failed_attempt_file:
  assumes "attempt_recovery gh send h v pending now Saved cleared m = (m', err)"
    and "hr_adoptionPending m" "hr_adoptionPending m'"
  shows "\<exists>m1. prepareHostAdmissionRecoveryAttempt Saved now m = (m1, None)
    \<and> hr_file m' = hr_file m1 \<and> hr_failures m' = hr_failures m1 \<and> hr_retryAt m' = hr_retryAt m1
    \<and> hr_profileID m' = hr_profileID m \<and> hr_persistent m' = hr_persistent m"
proof -
  have "snd (prepareHostAdmissionRecoveryAttempt Saved now m) = None"
    by (simp add: prepareHostAdmissionRecoveryAttempt_def Let_def saveHostAdmissionRecoveryRetryState_def)
  then obtain m1 where p: "prepareHostAdmissionRecoveryAttempt Saved now m = (m1, None)"
    by (metis prod.collapse)
  with assms clear_effect(2) prepare_effect [OF p] show ?thesis
    by (fastforce simp: attempt_recovery_def split: prod.splits option.splits)
qed

theorem recovery_attempt_survives_restart:
  assumes "attempt_recovery gh send h v pending now Saved cleared m = (m', err)"
    and "hr_adoptionPending m" "hr_adoptionPending m'" and persistent: "hr_persistent m"
    and bounds: "0 \<le> hr_failures m" "hr_failures m \<le> maxRegistrationCleanupAttempts"
  shows "loadHostAdmissionRecoveryRetry (m'\<lparr>hr_failures := 0, hr_retryAt := 0\<rparr>)
      = (m'\<lparr>hr_retryAt := truncate_second (hr_retryAt m')\<rparr>, None)"
    and "hr_retryAt m' = now + registrationOperationRetryDelay (hr_failures m')"
    and "hr_failures m < maxRegistrationCleanupAttempts \<Longrightarrow> hr_failures m' = hr_failures m + 1"
proof -
  obtain m1 where p: "prepareHostAdmissionRecoveryAttempt Saved now m = (m1, None)"
    and m': "hr_file m' = hr_file m1" "hr_failures m' = hr_failures m1" "hr_retryAt m' = hr_retryAt m1"
      "hr_profileID m' = hr_profileID m" "hr_persistent m' = hr_persistent m"
    using failed_attempt_file [OF assms(1-3)] by blast
  show "hr_retryAt m' = now + registrationOperationRetryDelay (hr_failures m')"
    using prepare_effect(6) [OF p] m' by simp
  show "hr_failures m < maxRegistrationCleanupAttempts \<Longrightarrow> hr_failures m' = hr_failures m + 1"
    using p m'(2) by (auto simp: prepareHostAdmissionRecoveryAttempt_def Let_def split: if_splits prod.splits)
  define st where "st = \<lparr>rt_SchemaVersion = 1, rt_ManagerContractVersion = managerContractVersion,
    rt_ProfileID = hr_profileID m, rt_Attempts = hr_failures m1,
    rt_LastAttemptAt = format_RFC3339 now, rt_NextAttemptAt = format_RFC3339 (hr_retryAt m1)\<rparr>"
  have written: "hr_file m1 = StateFile st" and failures: "0 \<le> hr_failures m1"
      "hr_failures m1 \<le> maxRegistrationCleanupAttempts"
    using p persistent bounds by (auto simp: st_def prepareHostAdmissionRecoveryAttempt_def Let_def
      saveHostAdmissionRecoveryRetryState_def split: if_splits)
  have "loadHostAdmissionRecoveryRetryState (hr_profileID m) (StateFile st) = Inr (Some st)"
    using failures by (simp add: loadHostAdmissionRecoveryRetryState_def recovery_retry_ok_def st_def
      managerContractVersion_def clamp_attempts_def)
  then show "loadHostAdmissionRecoveryRetry (m'\<lparr>hr_failures := 0, hr_retryAt := 0\<rparr>)
      = (m'\<lparr>hr_retryAt := truncate_second (hr_retryAt m')\<rparr>, None)"
    using written m' persistent
    by (simp add: loadHostAdmissionRecoveryRetry_def st_def parse_format)
qed

end
