(* ===== verification/Control_Plane_Gate.thy ===== *)
theory Control_Plane_Gate
  imports State_Files Manager_Errors
begin

text \<open>
  The gate in front of GitHub's control plane (\<^verbatim>\<open>autoscaler/control_plane_gate.go\<close>): operations
  of a profile start through it, a rate-limited answer closes it until a deadline that doubles,
  and the deadline is kept on disk. The mutex makes each operation of the gate atomic; what runs
  concurrently is the work between \<^verbatim>\<open>before\<close> and \<^verbatim>\<open>after\<close>.
\<close>

definition controlPlaneCrashRetryBase :: int where
  "controlPlaneCrashRetryBase = time_Minute"

definition controlPlaneCrashRetryJitter :: int where
  "controlPlaneCrashRetryJitter = 15 * time_Second"

record controlPlaneRetryState =
  cs_SchemaVersion :: int
  cs_ManagerContractVersion :: int
  cs_ProfileID :: string
  cs_CredentialIdentity :: string
  cs_ConsecutiveFailures :: int
  cs_NextAttemptAt :: stamp

text \<open>\<open>cg_persistent\<close>: the path of the state is not empty.\<close>

record controlPlaneRateGate =
  cg_persistent :: bool
  cg_profileID :: string
  cg_credentialIdentity :: string
  cg_inFlight :: int
  cg_rateLimited :: bool
  cg_consecutiveFailures :: int
  cg_nextAttemptAt :: int
  cg_file :: "controlPlaneRetryState state_file"

definition newControlPlaneRateGate ::
  "bool \<Rightarrow> string \<Rightarrow> string \<Rightarrow> controlPlaneRetryState state_file \<Rightarrow> controlPlaneRateGate" where
  "newControlPlaneRateGate persistent profileID credentialIdentity f =
     \<lparr>cg_persistent = persistent, cg_profileID = profileID,
      cg_credentialIdentity = credentialIdentity, cg_inFlight = 0, cg_rateLimited = False,
      cg_consecutiveFailures = 0, cg_nextAttemptAt = zeroTime, cg_file = f\<rparr>"

definition crashRetryDelay :: "controlPlaneRateGate \<Rightarrow> int" where
  "crashRetryDelay g =
     controlPlaneCrashRetryBase
     + deterministicRetryJitter (cg_profileID g) controlPlaneCrashRetryJitter"

definition gate_saveLocked ::
  "save_outcome \<Rightarrow> controlPlaneRateGate \<Rightarrow> controlPlaneRateGate \<times> goerr option" where
  "gate_saveLocked outcome g =
     (if \<not> cg_persistent g then (g, None)
      else
        let (f, err) = write_document outcome (cg_file g)
              \<lparr>cs_SchemaVersion = 1, cs_ManagerContractVersion = managerContractVersion,
               cs_ProfileID = cg_profileID g, cs_CredentialIdentity = cg_credentialIdentity g,
               cs_ConsecutiveFailures = cg_consecutiveFailures g,
               cs_NextAttemptAt = format_RFC3339 (cg_nextAttemptAt g)\<rparr>
        in (g\<lparr>cg_file := f\<rparr>, err))"

definition gate_clearLocked ::
  "save_outcome \<Rightarrow> controlPlaneRateGate \<Rightarrow> controlPlaneRateGate \<times> goerr option" where
  "gate_clearLocked outcome g =
     (if \<not> cg_persistent g then (g, None)
      else
        let (f, err) = remove_document (outcome \<noteq> Saved) (cg_file g)
        in (g\<lparr>cg_file := f\<rparr>, err))"

definition retry_state_ok :: "controlPlaneRateGate \<Rightarrow> controlPlaneRetryState \<Rightarrow> bool" where
  "retry_state_ok g state \<longleftrightarrow>
     \<not> (cs_SchemaVersion state \<noteq> 1 \<or> cs_ManagerContractVersion state < 22
       \<or> cs_ManagerContractVersion state > managerContractVersion
       \<or> cs_ProfileID state \<noteq> cg_profileID g \<or> cs_ConsecutiveFailures state < 0
       \<or> cs_NextAttemptAt state = NoStamp)"

definition restore_gate ::
  "save_outcome \<Rightarrow> int \<Rightarrow> controlPlaneRetryState \<Rightarrow> int \<Rightarrow> controlPlaneRateGate
    \<Rightarrow> controlPlaneRateGate \<times> goerr option" where
  "restore_gate outcome now state nextAttemptAt g0 =
     (let failures = min (cs_ConsecutiveFailures state) maxRegistrationCleanupAttempts;
          g = g0\<lparr>cg_consecutiveFailures := failures, cg_rateLimited := failures > 0,
            cg_nextAttemptAt := nextAttemptAt\<rparr>;
          maximum = now + crashRetryDelay g
      in if \<not> cg_rateLimited g \<and> nextAttemptAt > maximum
         then gate_saveLocked outcome (g\<lparr>cg_nextAttemptAt := maximum\<rparr>)
         else (g, None))"

definition gate_load ::
  "save_outcome \<Rightarrow> int \<Rightarrow> controlPlaneRateGate \<Rightarrow> controlPlaneRateGate \<times> goerr option" where
  "gate_load outcome now g =
     (if \<not> cg_persistent g then (g, None)
      else case read_document (cg_file g) of
          Inl err \<Rightarrow> (g, Some err)
        | Inr None \<Rightarrow> (g, None)
        | Inr (Some state) \<Rightarrow>
            if \<not> retry_state_ok g state then (g, Some err_other)
            else if (if cs_CredentialIdentity state = [] then ''pat'' else cs_CredentialIdentity state)
              \<noteq> cg_credentialIdentity g then (g, None)
            else case parse_RFC3339 (cs_NextAttemptAt state) of
                None \<Rightarrow> (g, Some err_other)
              | Some nextAttemptAt \<Rightarrow> restore_gate outcome now state nextAttemptAt g)"

datatype gate_refusal = BackoffUntil int | GateError goerr

definition gate_before ::
  "save_outcome \<Rightarrow> int \<Rightarrow> controlPlaneRateGate \<Rightarrow> controlPlaneRateGate \<times> gate_refusal option" where
  "gate_before outcome now g =
     (if (cg_rateLimited g \<or> cg_inFlight g = 0) \<and> now < cg_nextAttemptAt g
      then (g, Some (BackoffUntil (cg_nextAttemptAt g)))
      else if cg_inFlight g = 0 then
        (case gate_saveLocked outcome
             (g\<lparr>cg_rateLimited := False, cg_nextAttemptAt := now + crashRetryDelay g\<rparr>) of
           (g', Some err) \<Rightarrow> (g', Some (GateError err))
         | (g', None) \<Rightarrow> (g'\<lparr>cg_inFlight := cg_inFlight g' + 1\<rparr>, None))
      else (g\<lparr>cg_inFlight := cg_inFlight g + 1\<rparr>, None))"

definition recordRateLimitLocked ::
  "save_outcome \<Rightarrow> int \<Rightarrow> controlPlaneRateGate \<Rightarrow> controlPlaneRateGate \<times> goerr option" where
  "recordRateLimitLocked outcome now g =
     (let failures = (if cg_consecutiveFailures g < maxRegistrationCleanupAttempts
            then cg_consecutiveFailures g + 1 else cg_consecutiveFailures g)
      in gate_saveLocked outcome
           (g\<lparr>cg_rateLimited := True, cg_consecutiveFailures := failures,
              cg_nextAttemptAt := now + registrationAccessNextDelay (cg_profileID g) failures True\<rparr>))"

definition gate_after ::
  "save_outcome \<Rightarrow> int \<Rightarrow> manager_error option \<Rightarrow> controlPlaneRateGate
    \<Rightarrow> controlPlaneRateGate \<times> goerr option" where
  "gate_after outcome now operationErr g0 =
     (let g = (if cg_inFlight g0 > 0 then g0\<lparr>cg_inFlight := cg_inFlight g0 - 1\<rparr> else g0)
      in if classifyFailure operationErr = reasonRateLimited then recordRateLimitLocked outcome now g
         else if cg_inFlight g > 0 \<or> cg_rateLimited g then (g, None)
         else case gate_clearLocked outcome g of
             (g', Some err) \<Rightarrow> (g', Some err)
           | (g', None) \<Rightarrow> (g'\<lparr>cg_consecutiveFailures := 0, cg_nextAttemptAt := zeroTime\<rparr>, None))"

definition gate_observe ::
  "save_outcome \<Rightarrow> int \<Rightarrow> manager_error option \<Rightarrow> controlPlaneRateGate
    \<Rightarrow> controlPlaneRateGate \<times> goerr option" where
  "gate_observe outcome now operationErr g =
     (if classifyFailure operationErr \<noteq> reasonRateLimited then (g, None)
      else recordRateLimitLocked outcome now g)"

text \<open>
  \<^verbatim>\<open>pacedScaleSetService.run\<close>, which every call of the scale-set service goes through. The slot of
  the bounded channel is held for its whole length; the context may be done before the slot is
  taken or right after. The operation itself is its error.
\<close>

datatype paced_result = Cancelled | Refused gate_refusal | Ran "manager_error option" "goerr option"

definition paced_run ::
  "bool \<Rightarrow> save_outcome \<Rightarrow> save_outcome \<Rightarrow> int \<Rightarrow> int \<Rightarrow> manager_error option
    \<Rightarrow> controlPlaneRateGate \<Rightarrow> controlPlaneRateGate \<times> paced_result" where
  "paced_run cancelled beforeSave afterSave now later operation g =
     (if cancelled then (g, Cancelled)
      else case gate_before beforeSave now g of
          (g', Some refusal) \<Rightarrow> (g', Refused refusal)
        | (g', None) \<Rightarrow>
            (case gate_after afterSave later operation g' of
               (g'', err) \<Rightarrow> (g'', Ran operation err)))"

section \<open>The gate over time\<close>

text \<open>
  What happens to the gate of a profile: an operation asks to start, a started operation ends, a
  message session reports an answer, or the manager crashes and starts again from the file.
\<close>

datatype gate_event =
    Begin int save_outcome
  | Finish int save_outcome "manager_error option"
  | Observe int save_outcome "manager_error option"
  | Restart int save_outcome

fun event_time :: "gate_event \<Rightarrow> int" where
  "event_time (Begin now _) = now"
| "event_time (Finish now _ _) = now"
| "event_time (Observe now _ _) = now"
| "event_time (Restart now _) = now"

text \<open>A manager whose gate does not load does not run; \<open>gr_started\<close> counts the operations let through.\<close>

record gate_run =
  gr_up :: bool
  gr_gate :: controlPlaneRateGate
  gr_started :: nat

fun gate_react :: "gate_event \<Rightarrow> gate_run \<Rightarrow> gate_run" where
  "gate_react (Begin now outcome) s =
     (if \<not> gr_up s then s
      else case gate_before outcome now (gr_gate s) of
          (g, None) \<Rightarrow> s\<lparr>gr_gate := g, gr_started := gr_started s + 1\<rparr>
        | (g, Some _) \<Rightarrow> s\<lparr>gr_gate := g\<rparr>)"
| "gate_react (Finish now outcome err) s =
     (if \<not> gr_up s then s else s\<lparr>gr_gate := fst (gate_after outcome now err (gr_gate s))\<rparr>)"
| "gate_react (Observe now outcome err) s =
     (if \<not> gr_up s then s else s\<lparr>gr_gate := fst (gate_observe outcome now err (gr_gate s))\<rparr>)"
| "gate_react (Restart now outcome) s =
     (case gate_load outcome now (newControlPlaneRateGate (cg_persistent (gr_gate s))
          (cg_profileID (gr_gate s)) (cg_credentialIdentity (gr_gate s)) (cg_file (gr_gate s))) of
        (g, err) \<Rightarrow> s\<lparr>gr_up := (err = None), gr_gate := g\<rparr>)"

text \<open>
  The gate is closed until \<open>deadline\<close>, in memory and in the file, for the given profile and
  credential; \<open>failures\<close> bounds the recorded failures from below.
\<close>

definition closed_state :: "string \<Rightarrow> string \<Rightarrow> int \<Rightarrow> controlPlaneRetryState \<Rightarrow> bool" where
  "closed_state profile credential deadline st \<longleftrightarrow>
     cs_SchemaVersion st = 1 \<and> 22 \<le> cs_ManagerContractVersion st
     \<and> cs_ManagerContractVersion st \<le> managerContractVersion \<and> cs_ProfileID st = profile
     \<and> cs_CredentialIdentity st = credential \<and> 0 < cs_ConsecutiveFailures st
     \<and> (\<exists>t. parse_RFC3339 (cs_NextAttemptAt st) = Some t \<and> deadline \<le> t)"

definition closed_gate ::
  "string \<Rightarrow> string \<Rightarrow> int \<Rightarrow> int \<Rightarrow> controlPlaneRateGate \<Rightarrow> bool" where
  "closed_gate profile credential failures deadline g \<longleftrightarrow>
     cg_persistent g \<and> cg_profileID g = profile \<and> cg_credentialIdentity g = credential
     \<and> cg_rateLimited g \<and> failures \<le> cg_consecutiveFailures g \<and> deadline \<le> cg_nextAttemptAt g
     \<and> (\<exists>st. cg_file g = StateFile st \<and> closed_state profile credential deadline st
         \<and> failures \<le> cs_ConsecutiveFailures st)"

lemma next_delay_mono:
  assumes "0 < m" "m \<le> n"
  shows "registrationAccessNextDelay profile m True \<le> registrationAccessNextDelay profile n True"
proof -
  have "(2::int) ^ nat (m - 1) \<le> 2 ^ nat (n - 1)" using assms by (intro power_increasing) auto
  then have "boundedExponentialBackoff registrationAccessRateLimitBase registrationAccessMaxBackoff m
      \<le> boundedExponentialBackoff registrationAccessRateLimitBase registrationAccessMaxBackoff n"
    using assms by (subst (1 2) backoff_closed)
      (simp_all add: pacing durations max_int64_def min.coboundedI2)
  with assms show ?thesis by (simp add: registrationAccessNextDelay_def)
qed

lemma save_closed:
  assumes "cg_persistent g" "0 < cg_consecutiveFailures g"
    and "deadline \<le> truncate_second (cg_nextAttemptAt g)"
    and "outcome = Saved \<or> (\<exists>st. cg_file g = StateFile st
      \<and> closed_state (cg_profileID g) (cg_credentialIdentity g) deadline st \<and> n \<le> cs_ConsecutiveFailures st)"
    and "n \<le> cg_consecutiveFailures g"
  shows "\<exists>st. cg_file (fst (gate_saveLocked outcome g)) = StateFile st
      \<and> closed_state (cg_profileID g) (cg_credentialIdentity g) deadline st \<and> n \<le> cs_ConsecutiveFailures st"
  using assms by (cases outcome)
    (auto simp: gate_saveLocked_def closed_state_def parse_format managerContractVersion_def)

lemma save_fields [simp]:
  "cg_persistent (fst (gate_saveLocked outcome g)) = cg_persistent g"
  "cg_profileID (fst (gate_saveLocked outcome g)) = cg_profileID g"
  "cg_credentialIdentity (fst (gate_saveLocked outcome g)) = cg_credentialIdentity g"
  "cg_rateLimited (fst (gate_saveLocked outcome g)) = cg_rateLimited g"
  "cg_consecutiveFailures (fst (gate_saveLocked outcome g)) = cg_consecutiveFailures g"
  "cg_nextAttemptAt (fst (gate_saveLocked outcome g)) = cg_nextAttemptAt g"
  by (simp_all add: gate_saveLocked_def split: prod.split)

text \<open>Recording a rate limit keeps a closed gate closed, for at least as long.\<close>

lemma record_closed:
  assumes closed: "closed_gate profile credential n deadline g" and n: "0 < n"
    and deadline: "deadline \<le> truncate_second (start + registrationAccessNextDelay profile n True)"
    and time: "start \<le> now"
  shows "closed_gate profile credential n deadline (fst (recordRateLimitLocked outcome now g))"
proof -
  define failures where "failures = (if cg_consecutiveFailures g < maxRegistrationCleanupAttempts
    then cg_consecutiveFailures g + 1 else cg_consecutiveFailures g)"
  define g' where "g' = g\<lparr>cg_rateLimited := True, cg_consecutiveFailures := failures,
    cg_nextAttemptAt := now + registrationAccessNextDelay (cg_profileID g) failures True\<rparr>"
  have recorded: "recordRateLimitLocked outcome now g = gate_saveLocked outcome g'"
    by (simp add: recordRateLimitLocked_def failures_def g'_def Let_def)
  have f: "n \<le> failures" using closed by (auto simp: failures_def closed_gate_def)
  have "start + registrationAccessNextDelay profile n True
      \<le> now + registrationAccessNextDelay profile failures True"
    using time next_delay_mono [OF n f] by (rule add_mono)
  then have d: "deadline \<le> truncate_second (cg_nextAttemptAt g')"
    using deadline truncate_second_mono closed by (fastforce simp: g'_def closed_gate_def)
  have "\<exists>st. cg_file (fst (gate_saveLocked outcome g')) = StateFile st
      \<and> closed_state (cg_profileID g') (cg_credentialIdentity g') deadline st \<and> n \<le> cs_ConsecutiveFailures st"
    using closed n f d by (intro save_closed) (auto simp: closed_gate_def g'_def)
  then show ?thesis
    using closed f d truncate_second_le(1) [of "cg_nextAttemptAt g'"]
    by (auto simp: recorded closed_gate_def g'_def)
qed

lemma load_closed:
  assumes closed: "closed_gate profile credential n deadline g" and n: "0 < n" "n \<le> maxRegistrationCleanupAttempts"
    and credential: "credential \<noteq> []"
    and load: "gate_load outcome now (newControlPlaneRateGate (cg_persistent g) (cg_profileID g)
      (cg_credentialIdentity g) (cg_file g)) = (g', err)"
  shows "err = None \<and> closed_gate profile credential n deadline g'"
proof -
  obtain st t where st: "cg_file g = StateFile st" "closed_state profile credential deadline st"
    "n \<le> cs_ConsecutiveFailures st" "parse_RFC3339 (cs_NextAttemptAt st) = Some t" "deadline \<le> t"
    using closed by (auto simp: closed_gate_def closed_state_def)
  then have "cs_NextAttemptAt st \<noteq> NoStamp" by auto
  with st closed load credential n show ?thesis
    by (auto simp: gate_load_def newControlPlaneRateGate_def closed_gate_def closed_state_def
      retry_state_ok_def restore_gate_def Let_def)
qed

text \<open>While the gate is closed no event lets an operation start, and the gate stays closed.\<close>

definition run_closed ::
  "string \<Rightarrow> string \<Rightarrow> int \<Rightarrow> int \<Rightarrow> gate_run \<Rightarrow> bool" where
  "run_closed profile credential n deadline s \<longleftrightarrow>
     gr_up s \<and> gr_started s = 0 \<and> closed_gate profile credential n deadline (gr_gate s)"

lemma event_closed:
  assumes s: "run_closed profile credential n deadline s"
    and n: "0 < n" "n \<le> maxRegistrationCleanupAttempts" and credential: "credential \<noteq> []"
    and deadline: "deadline \<le> truncate_second (start + registrationAccessNextDelay profile n True)"
    and time: "start \<le> event_time e" "event_time e < deadline"
  shows "run_closed profile credential n deadline (gate_react e s)"
proof -
  have up: "gr_up s" "gr_started s = 0" and g: "closed_gate profile credential n deadline (gr_gate s)"
    using s by (simp_all add: run_closed_def)
  have inflight: "closed_gate profile credential n deadline (gr_gate s\<lparr>cg_inFlight := k\<rparr>)" for k
    using g by (simp add: closed_gate_def)
  have limited: "cg_rateLimited (gr_gate s)" "deadline \<le> cg_nextAttemptAt (gr_gate s)"
    using g by (simp_all add: closed_gate_def)
  show ?thesis
  proof (cases e)
    case (Begin now outcome)
    with up s limited time(2) show ?thesis by (simp add: gate_before_def)
  next
    case (Finish now outcome err)
    define h where "h = (if cg_inFlight (gr_gate s) > 0
      then gr_gate s\<lparr>cg_inFlight := cg_inFlight (gr_gate s) - 1\<rparr> else gr_gate s)"
    have h: "closed_gate profile credential n deadline h" "cg_rateLimited h"
      using g inflight limited by (auto simp: h_def)
    have "closed_gate profile credential n deadline (fst (gate_after outcome now err (gr_gate s)))"
      using record_closed [OF h(1) n(1) deadline] time(1) Finish h
      by (simp add: gate_after_def Let_def h_def [symmetric])
    with Finish up show ?thesis by (simp add: run_closed_def)
  next
    case (Observe now outcome err)
    with record_closed [OF g n(1) deadline] time(1) g
    have "closed_gate profile credential n deadline (fst (gate_observe outcome now err (gr_gate s)))"
      by (simp add: gate_observe_def)
    with Observe up show ?thesis by (simp add: run_closed_def)
  next
    case (Restart now outcome)
    with load_closed [OF g n credential] up show ?thesis
      by (auto simp: run_closed_def split: prod.split)
  qed
qed

interpretation closed_run: input_system gate_react
  "\<lambda>e. start \<le> event_time e \<and> event_time e < deadline \<and> 0 < n \<and> n \<le> maxRegistrationCleanupAttempts
    \<and> credential \<noteq> []
    \<and> deadline \<le> truncate_second (start + registrationAccessNextDelay profile n True)"
  "run_closed profile credential n deadline"
  by unfold_locales (blast intro: event_closed)

text \<open>
  C14: a rate limit is respected across restarts. Once a rate-limited answer has been recorded and
  saved at time \<open>start\<close>, no operation starts before the deadline it set (to the second), whatever
  operations ask to start, end or report further answers in the meantime, whatever the later
  writes did, and however often the manager crashes and starts again; and the manager comes up
  each time.
\<close>

theorem rate_limit_holds_across_restarts:
  assumes limit: "recordRateLimitLocked Saved start g = (g', None)"
    and gate: "cg_persistent g" "cg_credentialIdentity g \<noteq> []" "0 \<le> cg_consecutiveFailures g"
      "cg_consecutiveFailures g \<le> maxRegistrationCleanupAttempts"
    and times: "\<forall>e \<in> set events. start \<le> event_time e
      \<and> event_time e < truncate_second (cg_nextAttemptAt g')"
  shows "gr_started (fold gate_react events \<lparr>gr_up = True, gr_gate = g', gr_started = 0\<rparr>) = 0
    \<and> gr_up (fold gate_react events \<lparr>gr_up = True, gr_gate = g', gr_started = 0\<rparr>)
    \<and> start + registrationAccessRateLimitBase \<le> cg_nextAttemptAt g'"
proof -
  define n where "n = (if cg_consecutiveFailures g < maxRegistrationCleanupAttempts
    then cg_consecutiveFailures g + 1 else cg_consecutiveFailures g)"
  let ?p = "cg_profileID g" and ?c = "cg_credentialIdentity g"
  let ?d = "truncate_second (cg_nextAttemptAt g')"
  have g': "g' = fst (gate_saveLocked Saved (g\<lparr>cg_rateLimited := True, cg_consecutiveFailures := n,
      cg_nextAttemptAt := start + registrationAccessNextDelay ?p n True\<rparr>))"
    using limit by (simp add: recordRateLimitLocked_def n_def Let_def)
  have n: "0 < n" "n \<le> maxRegistrationCleanupAttempts" using gate(3,4)
    by (auto simp: n_def maxRegistrationCleanupAttempts_def)
  have next_at: "cg_nextAttemptAt g' = start + registrationAccessNextDelay ?p n True" by (simp add: g')
  have "\<exists>st. cg_file g' = StateFile st \<and> closed_state ?p ?c ?d st \<and> n \<le> cs_ConsecutiveFailures st"
    unfolding g' using save_closed [of "g\<lparr>cg_rateLimited := True, cg_consecutiveFailures := n,
      cg_nextAttemptAt := start + registrationAccessNextDelay ?p n True\<rparr>" ?d Saved n] gate(1) n(1)
    by (simp add: next_at)
  then have "closed_gate ?p ?c n ?d g'"
    using gate(1) truncate_second_le(1) [of "cg_nextAttemptAt g'"] by (simp add: closed_gate_def g')
  then have "run_closed ?p ?c n ?d \<lparr>gr_up = True, gr_gate = g', gr_started = 0\<rparr>"
    by (simp add: run_closed_def)
  then have "run_closed ?p ?c n ?d (fold gate_react events \<lparr>gr_up = True, gr_gate = g', gr_started = 0\<rparr>)"
    using times n gate(2) next_at by (intro closed_run.run_keeps [where start = start]) auto
  moreover have "registrationAccessRateLimitBase \<le> registrationAccessNextDelay ?p n True"
    using n(1) next_delay_mono [of 1 n ?p] jitter_range(1) [of ?p registrationAccessJitterWindow]
    by (simp add: registrationAccessNextDelay_def registrationAccessJitter_def
      boundedExponentialBackoff_def pacing durations)
  ultimately show ?thesis by (simp add: run_closed_def next_at)
qed

definition demo_gate :: controlPlaneRateGate where
  "demo_gate = newControlPlaneRateGate True ''p'' ''pat'' NoStateFile"

theorem rate_limit_holds_across_restarts_witness:
  "\<exists>g. recordRateLimitLocked Saved 0 demo_gate = (g, None)
    \<and> gr_started (fold gate_react [Begin 1 Saved, Restart 2 Saved, Begin 3 Saved]
        \<lparr>gr_up = True, gr_gate = g, gr_started = 0\<rparr>) = 0"
proof -
  obtain g where limit: "recordRateLimitLocked Saved 0 demo_gate = (g, None)"
    by (simp add: recordRateLimitLocked_def gate_saveLocked_def demo_gate_def
      newControlPlaneRateGate_def Let_def)
  have gate: "cg_persistent demo_gate" "cg_credentialIdentity demo_gate \<noteq> []"
    "0 \<le> cg_consecutiveFailures demo_gate"
    "cg_consecutiveFailures demo_gate \<le> maxRegistrationCleanupAttempts"
    by (simp_all add: demo_gate_def newControlPlaneRateGate_def maxRegistrationCleanupAttempts_def)
  have "0 + registrationAccessRateLimitBase \<le> cg_nextAttemptAt g"
    using rate_limit_holds_across_restarts [OF limit gate, of "[]"] by simp
  then have "truncate_second registrationAccessRateLimitBase \<le> truncate_second (cg_nextAttemptAt g)"
    by (simp add: truncate_second_mono)
  then have "3 < truncate_second (cg_nextAttemptAt g)"
    by (simp add: truncate_second_def pacing durations)
  with rate_limit_holds_across_restarts [OF limit gate,
    of "[Begin 1 Saved, Restart 2 Saved, Begin 3 Saved]"] limit
  show ?thesis by auto
qed

end
