(* ===== verification/Registration_Access.thy ===== *)
theory Registration_Access
  imports Retry_Queues Diagnostics Control_Plane_Gate
begin

text \<open>
  The periodic check that the stored credential may still register runners
  (\<^verbatim>\<open>autoscaler/manager.go\<close>, \<^verbatim>\<open>autoscaler/registration_access_retry.go\<close> and the evidence texts of
  \<^verbatim>\<open>autoscaler/github_runner_access.go\<close>), and the request for a full stop
  (\<^verbatim>\<open>autoscaler/shutdown.go\<close>). The checks of one round run concurrently and do not depend on
  each other, so a round is the list of their answers in key order.
\<close>

section \<open>The durable schedule\<close>

record registrationAccessRetryState =
  ry_SchemaVersion :: int
  ry_ManagerContractVersion :: int
  ry_ProfileID :: string
  ry_ConsecutiveFailures :: int
  ry_NextCheckAt :: stamp

definition access_retry_ok :: "string \<Rightarrow> registrationAccessRetryState \<Rightarrow> bool" where
  "access_retry_ok profileID state \<longleftrightarrow>
     \<not> (ry_SchemaVersion state \<noteq> 1 \<or> ry_ManagerContractVersion state < 22
        \<or> ry_ManagerContractVersion state > managerContractVersion
        \<or> ry_ProfileID state \<noteq> profileID \<or> ry_ConsecutiveFailures state < 0
        \<or> ry_NextCheckAt state = NoStamp)
     \<and> parse_RFC3339 (ry_NextCheckAt state) \<noteq> None"

definition loadRegistrationAccessRetryState ::
  "string \<Rightarrow> registrationAccessRetryState state_file \<Rightarrow> goerr + registrationAccessRetryState option"
where
  "loadRegistrationAccessRetryState profileID f =
     (case read_document f of
        Inl err \<Rightarrow> Inl err
      | Inr None \<Rightarrow> Inr None
      | Inr (Some state) \<Rightarrow>
          if access_retry_ok profileID state
          then Inr (Some (state\<lparr>ry_ConsecutiveFailures := clamp_attempts (ry_ConsecutiveFailures state)\<rparr>))
          else Inl err_other)"

definition saveRegistrationAccessRetryState ::
  "save_outcome \<Rightarrow> registrationAccessRetryState \<Rightarrow> registrationAccessRetryState state_file
    \<Rightarrow> registrationAccessRetryState state_file \<times> goerr option" where
  "saveRegistrationAccessRetryState outcome state f = write_document outcome f state"

definition clearRegistrationAccessRetryState ::
  "save_outcome \<Rightarrow> registrationAccessRetryState state_file
    \<Rightarrow> registrationAccessRetryState state_file \<times> goerr option" where
  "clearRegistrationAccessRetryState outcome f = remove_document (outcome \<noteq> Saved) f"

text \<open>The empty reason is \<^const>\<open>None\<close>.\<close>

record registrationAccessHealthState =
  ra_observedAt :: int
  ra_nextCheckAt :: int
  ra_consecutiveFailures :: int
  ra_reason :: "failure_reason option"
  ra_evidence :: string
  ra_failed :: bool
  ra_observed :: bool

record registration_access =
  xs_health :: registrationAccessHealthState
  xs_file :: "registrationAccessRetryState state_file"
  xs_observations :: "diagnosticsObservation list"
  xs_lastError :: "goerr option"

definition newRegistrationAccessHealth :: "string \<Rightarrow> int \<Rightarrow> registrationAccessHealthState" where
  "newRegistrationAccessHealth profileID now =
     \<lparr>ra_observedAt = zeroTime, ra_nextCheckAt = now + registrationAccessFirstCheckDelay profileID,
      ra_consecutiveFailures = 0, ra_reason = None, ra_evidence = [], ra_failed = False,
      ra_observed = False\<rparr>"

definition loadRegistrationAccessRetry ::
  "string \<Rightarrow> registration_access \<Rightarrow> registration_access \<times> goerr option" where
  "loadRegistrationAccessRetry profileID x =
     (case loadRegistrationAccessRetryState profileID (xs_file x) of
        Inl err \<Rightarrow> (x, Some err)
      | Inr None \<Rightarrow> (x, None)
      | Inr (Some state) \<Rightarrow>
          (case parse_RFC3339 (ry_NextCheckAt state) of
             None \<Rightarrow> (x, Some err_other)
           | Some t \<Rightarrow>
               (x\<lparr>xs_health := (xs_health x)\<lparr>ra_nextCheckAt := t,
                  ra_consecutiveFailures := ry_ConsecutiveFailures state\<rparr>\<rparr>, None)))"

text \<open>A failed write is recorded as the error of the cycle.\<close>

definition persistRegistrationAccessRetry ::
  "string \<Rightarrow> save_outcome \<Rightarrow> registration_access \<Rightarrow> registration_access \<times> goerr option" where
  "persistRegistrationAccessRetry profileID outcome x =
     (let (f, err) = saveRegistrationAccessRetryState outcome
            \<lparr>ry_SchemaVersion = 1, ry_ManagerContractVersion = managerContractVersion,
             ry_ProfileID = profileID, ry_ConsecutiveFailures = ra_consecutiveFailures (xs_health x),
             ry_NextCheckAt = format_RFC3339 (ra_nextCheckAt (xs_health x))\<rparr> (xs_file x)
      in (x\<lparr>xs_file := f, xs_lastError := (if err = None then xs_lastError x else err)\<rparr>, err))"

section \<open>The check\<close>

definition githubRunnerRegistrationAccessFailureEvidence :: "manager_error \<Rightarrow> string" where
  "githubRunnerRegistrationAccessFailureEvidence err =
     (if error_Is err errGitHubRunnerOrganizationAccess
      then ''stored runner credential requires organization authorization''
      else if error_Is err errGitHubRunnerPermissionDenied
      then ''stored runner credential lacks runner administration permission''
      else if error_Is err errGitHubRunnerCredentialRejected
      then ''stored runner credential was rejected''
      else if error_Is err errGitHubRunnerNotFound
      then ''runner registration target was not found or is excluded from credential access''
      else if error_Is err errGitHubRunnerRateLimited
      then ''runner credential authorization check was rate limited''
      else if error_Is err ContextDeadlineExceeded
      then ''runner credential authorization check timed out''
      else ''stored runner credential authorization check failed'')"

record 'api access_view =
  av_retiring :: "(string, 'api option) gomap"
  av_controllers :: "(string, 'api option) gomap"
  av_pending :: "(string, 'api option) gomap"
  av_current :: "parsedDesiredState option"

text \<open>A target is the error of creating its service, or the service, which may be missing.\<close>

definition registration_access_targets ::
  "desired_library \<Rightarrow> config \<Rightarrow> (string \<Rightarrow> manager_error + 'api) \<Rightarrow> 'api access_view
    \<Rightarrow> (string, manager_error + 'api option) gomap" where
  "registration_access_targets lib cfg newService v =
     (let known = fold (\<lambda>(key, api) targets. mput targets key (Inr api))
            (av_retiring v @ av_controllers v @ av_pending v) []
      in case av_current v of
          None \<Rightarrow> known
        | Some current \<Rightarrow>
            (case buildTargetSpecs (dl_tables lib) (dl_url lib) (pd_state current) cfg of
               None \<Rightarrow> mput known ''desired-state'' (Inl [])
             | Some desired \<Rightarrow>
                 fold (\<lambda>target targets.
                     if map_of targets (ts_key target) \<noteq> None then targets
                     else mput targets (ts_key target) (case newService (ts_registrationURL target) of
                         Inl err \<Rightarrow> Inl err | Inr api \<Rightarrow> Inr (Some api)))
                   desired known))"

definition access_results ::
  "(string \<Rightarrow> 'api \<Rightarrow> manager_error option) \<Rightarrow> (string, manager_error + 'api option) gomap
    \<Rightarrow> manager_error option list" where
  "access_results check targets =
     map (\<lambda>key. case the (map_of targets key) of
            Inl err \<Rightarrow> Some err
          | Inr None \<Rightarrow> Some (manager_raise errGitHubRunnerResponse)
          | Inr (Some api) \<Rightarrow> check key api)
       (sort (mkeys targets))"

definition access_observation ::
  "operation_outcome \<Rightarrow> failure_reason \<Rightarrow> string \<Rightarrow> int option \<Rightarrow> diagnosticsObservation" where
  "access_observation outcome reason evidence retryAt =
     \<lparr>do_subsystem = subsystemRegistration, do_operation = operationRegistrationTokenCall,
      do_target = [], do_outcome = outcome, do_reason = Some reason, do_evidence = evidence,
      do_duration = None, do_attempt = 0, do_retryAt = retryAt, do_healthKind = healthNone\<rparr>"

text \<open>The health after a round and the observation it records.\<close>

definition observe_access ::
  "string \<Rightarrow> int \<Rightarrow> manager_error option list \<Rightarrow> registrationAccessHealthState
    \<Rightarrow> registrationAccessHealthState \<times> diagnosticsObservation" where
  "observe_access profileID observedAt results health =
     (let h = health\<lparr>ra_observed := True, ra_observedAt := observedAt\<rparr>
      in case errors_Join results of
          None \<Rightarrow>
            (h\<lparr>ra_failed := False, ra_reason := Some reasonNone, ra_evidence := [],
               ra_consecutiveFailures := 0,
               ra_nextCheckAt := observedAt + registrationAccessNextDelay profileID 0 False\<rparr>,
             if ra_failed health
             then access_observation outcomeRecovered reasonRecovered
               ''stored runner credential authorization recovered'' None
             else access_observation outcomeSucceeded reasonNone [] None)
        | Some joined \<Rightarrow>
            let reason = classifyFailure (Some joined);
                evidence = githubRunnerRegistrationAccessFailureEvidence joined;
                failures = min (ra_consecutiveFailures health + 1) 1000;
                nextCheckAt = observedAt + registrationAccessNextDelay profileID failures
                  (error_Is joined errGitHubRunnerRateLimited)
            in (h\<lparr>ra_failed := True, ra_reason := Some reason, ra_evidence := evidence,
                  ra_consecutiveFailures := failures, ra_nextCheckAt := nextCheckAt\<rparr>,
                access_observation (failureOutcome (Some joined)) reason evidence (Some nextCheckAt)))"

text \<open>
  The whole operation; \<open>now\<close> and \<open>observedAt\<close> are its two readings of the clock, \<open>preflight\<close> and
  \<open>final\<close> the outcomes of its two writes.
\<close>

definition checkRegistrationAccessIfDue ::
  "desired_library \<Rightarrow> config \<Rightarrow> (string \<Rightarrow> manager_error + 'api) \<Rightarrow> (string \<Rightarrow> 'api \<Rightarrow> manager_error option)
    \<Rightarrow> 'api access_view \<Rightarrow> int \<Rightarrow> int \<Rightarrow> save_outcome \<Rightarrow> save_outcome \<Rightarrow> registration_access
    \<Rightarrow> registration_access" where
  "checkRegistrationAccessIfDue lib cfg newService check v now observedAt preflight final x =
     (let profileID = cf_profileID cfg; due = ra_nextCheckAt (xs_health x)
      in if githubApp_enabled (cf_githubApp cfg) then x
         else if due \<noteq> zeroTime \<and> now < due then x
         else
           let later = now + registrationAccessNextDelay profileID 0 False;
               (x1, err) = persistRegistrationAccessRetry profileID preflight
                 (x\<lparr>xs_health := (xs_health x)\<lparr>ra_nextCheckAt := later\<rparr>\<rparr>)
           in if err \<noteq> None then x1
              else
                let targets = registration_access_targets lib cfg newService v
                in if targets = [] then fst (persistRegistrationAccessRetry profileID final x1)
                   else
                     let (h, obs) = observe_access profileID observedAt (access_results check targets)
                           (xs_health x1)
                     in fst (persistRegistrationAccessRetry profileID final
                          (x1\<lparr>xs_health := h, xs_observations := xs_observations x1 @ [obs]\<rparr>)))"

text \<open>
  The health the manager publishes for GitHub while the credential check fails; a failed round
  always has a reason.
\<close>

definition applyRegistrationAccessHealth ::
  "registrationAccessHealthState \<Rightarrow> subsystemHealthSummary \<Rightarrow> subsystemHealthSummary" where
  "applyRegistrationAccessHealth state github =
     (if \<not> ra_observed state \<or> \<not> ra_failed state then github
      else
        github\<lparr>sh_State := (if ra_consecutiveFailures state \<ge> subsystemFailureBand
                 then subsystemUnavailable else subsystemDegraded),
          sh_ObservedAt := format_RFC3339 (ra_observedAt state),
          sh_ConsecutiveFailures := ra_consecutiveFailures state,
          sh_RetryAt := Some (format_RFC3339 (ra_nextCheckAt state)),
          sh_LastFailure := Some \<lparr>se_Operation = operation_text operationRegistrationTokenCall,
            se_ObservedAt = format_RFC3339 (ra_observedAt state), se_DurationMilliseconds = None,
            se_Reason = (case ra_reason state of None \<Rightarrow> reasonUnknown | Some r \<Rightarrow> r),
            se_Evidence = Some (ra_evidence state)\<rparr>\<rparr>)"

section \<open>The request for a full stop\<close>

record shutdownRequest =
  sq_SchemaVersion :: int
  sq_ManagerContainerID :: string
  sq_RequestedAt :: stamp

text \<open>\<open>hostname\<close> is the answer of \<^verbatim>\<open>os.Hostname\<close>.\<close>

definition fullStopRequested :: "goerr + string \<Rightarrow> shutdownRequest state_file \<Rightarrow> goerr + bool" where
  "fullStopRequested hostname f =
     (case read_document f of
        Inl err \<Rightarrow> Inl err
      | Inr None \<Rightarrow> Inr False
      | Inr (Some request) \<Rightarrow>
          if sq_SchemaVersion request \<noteq> 1 then Inl err_other
          else if sq_ManagerContainerID request = [] then Inl err_other
          else if sq_RequestedAt request = NoStamp then Inl err_other
          else if parse_RFC3339 (sq_RequestedAt request) = None then Inl err_other
          else case hostname of
              Inl err \<Rightarrow> Inl err
            | Inr name \<Rightarrow>
                let containerID = TrimSpace name
                in if containerID = [] then Inl err_other
                   else Inr (take (length containerID) (sq_ManagerContainerID request) = containerID))"

section \<open>Correctness\<close>

text \<open>What is persisted is what a restarted manager loads, to the second.\<close>

lemma access_schedule_round_trip:
  assumes "persistRegistrationAccessRetry profileID Saved x = (x1, err)"
    and "0 \<le> ra_consecutiveFailures (xs_health x)"
      "ra_consecutiveFailures (xs_health x) \<le> maxRegistrationCleanupAttempts"
  shows "err = None \<and> loadRegistrationAccessRetry profileID (x1\<lparr>xs_health := h\<rparr>)
      = (x1\<lparr>xs_health := h\<lparr>ra_nextCheckAt := truncate_second (ra_nextCheckAt (xs_health x)),
           ra_consecutiveFailures := ra_consecutiveFailures (xs_health x)\<rparr>\<rparr>, None)"
  using assms
  by (auto simp: persistRegistrationAccessRetry_def saveRegistrationAccessRetryState_def
      loadRegistrationAccessRetry_def loadRegistrationAccessRetryState_def access_retry_ok_def
      parse_format managerContractVersion_def clamp_attempts_def)

lemma persist_health [simp]:
  "xs_health (fst (persistRegistrationAccessRetry profileID outcome x)) = xs_health x"
  by (simp add: persistRegistrationAccessRetry_def split: prod.split)

lemma persist_error:
  "snd (persistRegistrationAccessRetry profileID outcome x) = None \<longleftrightarrow> outcome = Saved"
  by (cases outcome) (simp_all add: persistRegistrationAccessRetry_def saveRegistrationAccessRetryState_def)

text \<open>
  No service is asked before the next check is scheduled on disk: when the first write fails the
  result does not depend on what the services would answer.
\<close>

theorem access_check_is_scheduled_first:
  assumes "preflight \<noteq> Saved"
  shows "checkRegistrationAccessIfDue lib cfg newService check v now observedAt preflight final x
    = checkRegistrationAccessIfDue lib cfg newService' check' v' now observedAt' preflight final' x"
proof -
  obtain x1 err where "persistRegistrationAccessRetry (cf_profileID cfg) preflight
      (x\<lparr>xs_health := (xs_health x)\<lparr>ra_nextCheckAt :=
        now + registrationAccessNextDelay (cf_profileID cfg) 0 False\<rparr>\<rparr>) = (x1, err)" by (meson surj_pair)
  moreover from this assms have "err \<noteq> None" by (metis persist_error snd_conv)
  ultimately show ?thesis by (simp add: checkRegistrationAccessIfDue_def Let_def)
qed

text \<open>Failures are counted to a bound, and every round leaves at least five minutes to the next.\<close>

lemma access_delay_least: "registrationAccessFailureInterval \<le> registrationAccessNextDelay p n l"
proof (cases "0 < n \<and> l")
  case True
  then have "registrationAccessNextDelay p 1 True \<le> registrationAccessNextDelay p n True"
    by (intro next_delay_mono) auto
  with True show ?thesis using jitter_range(1) [of p registrationAccessJitterWindow]
    by (simp add: registrationAccessNextDelay_def registrationAccessJitter_def
      boundedExponentialBackoff_def pacing durations)
next
  case False
  then show ?thesis using jitter_range(1) [of p registrationAccessJitterWindow]
    by (auto simp: registrationAccessNextDelay_def registrationAccessJitter_def pacing durations)
qed

lemma observe_access_bounds:
  assumes "observe_access p observedAt results h = (h', obs)"
    and "0 \<le> ra_consecutiveFailures h"
  shows "observedAt + registrationAccessFailureInterval \<le> ra_nextCheckAt h'"
    and "0 \<le> ra_consecutiveFailures h' \<and> ra_consecutiveFailures h' \<le> 1000"
proof -
  have later: "observedAt + registrationAccessFailureInterval
      \<le> observedAt + registrationAccessNextDelay p n l" for n l
    using access_delay_least by simp
  show "observedAt + registrationAccessFailureInterval \<le> ra_nextCheckAt h'"
    using assms(1) later
    by (cases "errors_Join results") (auto simp: observe_access_def Let_def
        simp del: errors_Join_None classifyFailure.simps)
  show "0 \<le> ra_consecutiveFailures h' \<and> ra_consecutiveFailures h' \<le> 1000"
    using assms
    by (cases "errors_Join results") (auto simp: observe_access_def Let_def
        simp del: errors_Join_None classifyFailure.simps)
qed

theorem access_checks_are_spaced:
  assumes due: "\<not> githubApp_enabled (cf_githubApp cfg)"
      "ra_nextCheckAt (xs_health x) = 0 \<or> ra_nextCheckAt (xs_health x) \<le> now"
    and clock: "now \<le> observedAt" and count: "0 \<le> ra_consecutiveFailures (xs_health x)"
      "ra_consecutiveFailures (xs_health x) \<le> 1000"
    and x': "x' = checkRegistrationAccessIfDue lib cfg newService check v now observedAt preflight final x"
  shows "now + registrationAccessFailureInterval \<le> ra_nextCheckAt (xs_health x')"
    and "0 \<le> ra_consecutiveFailures (xs_health x') \<and> ra_consecutiveFailures (xs_health x') \<le> 1000"
proof -
  let ?x = "x\<lparr>xs_health := (xs_health x)\<lparr>ra_nextCheckAt :=
      now + registrationAccessNextDelay (cf_profileID cfg) 0 False\<rparr>\<rparr>"
  obtain x1 err where p: "persistRegistrationAccessRetry (cf_profileID cfg) preflight ?x = (x1, err)"
    by (meson surj_pair)
  then have h: "xs_health x1 = xs_health ?x"
    using persist_health [of "cf_profileID cfg" preflight ?x] by (metis fst_conv)
  obtain g obs where g: "observe_access (cf_profileID cfg) observedAt
      (access_results check (registration_access_targets lib cfg newService v)) (xs_health x1) = (g, obs)"
    by (meson surj_pair)
  have ready: "\<not> (ra_nextCheckAt (xs_health x) \<noteq> 0 \<and> now < ra_nextCheckAt (xs_health x))"
    using due(2) by linarith
  have result: "xs_health x' = xs_health x1 \<or> xs_health x' = g"
    unfolding x' checkRegistrationAccessIfDue_def Let_def if_not_P [OF due(1)] if_not_P [OF ready] p
    using g by simp
  from result show "now + registrationAccessFailureInterval \<le> ra_nextCheckAt (xs_health x')"
    using observe_access_bounds(1) [OF g] access_delay_least [of "cf_profileID cfg" 0 False] clock count h
    by auto
  from result show "0 \<le> ra_consecutiveFailures (xs_health x') \<and> ra_consecutiveFailures (xs_health x') \<le> 1000"
    using observe_access_bounds(2) [OF g] count h by auto
qed

text \<open>A full stop is for this container only, and every malformed request is refused.\<close>

theorem full_stop_names_this_manager:
  "fullStopRequested hostname f = Inr True \<longleftrightarrow>
     (\<exists>request name. f = StateFile request \<and> hostname = Inr name \<and> sq_SchemaVersion request = 1
       \<and> parse_RFC3339 (sq_RequestedAt request) \<noteq> None \<and> TrimSpace name \<noteq> []
       \<and> (\<exists>rest. sq_ManagerContainerID request = TrimSpace name @ rest))"
proof -
  have prefix: "take (length p) s = p \<longleftrightarrow> (\<exists>rest. s = p @ rest)" for p s :: string
    by (metis append_eq_conv_conj append_take_drop_id)
  show ?thesis
    by (cases f; cases hostname)
      (auto simp: fullStopRequested_def Let_def prefix split: if_splits)
qed

end
