(* ===== verification/Capacity_Evidence.thy ===== *)
theory Capacity_Evidence
  imports Scaler_State Registration_Access
begin

text \<open>
  Why a target has fewer workers than it should (\<^verbatim>\<open>autoscaler/capacity_evidence.go\<close>): the
  evidence projected from a scaler's snapshot, the conditions the manager adds
  (\<^verbatim>\<open>targetCapacityConditions\<close> of \<^verbatim>\<open>autoscaler/manager.go\<close>) and the health of its subsystems.
\<close>

datatype freshness = freshnessCurrent | freshnessStale | freshnessUnavailable

definition statisticsStaleAfter :: int where
  "statisticsStaleAfter = 2 * time_Minute"

record capacityDeficitCore =
  cd_ObservedAt :: stamp
  cd_Freshness :: freshness
  cd_TargetSlots :: int
  cd_ActiveWorkers :: int
  cd_StartingWorkers :: int
  cd_DrainingWorkers :: int
  cd_CleanupPendingWorkers :: int
  cd_EligibleWorkers :: "int option"
  cd_LocalDeficit :: int
  cd_EligibilityDeficit :: "int option"
  cd_Reason :: deficit_reason
  cd_Evidence :: "string option"

record targetCapacityDeficitEvidence =
  te_Key :: string
  te_Repository :: "string option"
  te_core :: capacityDeficitCore

text \<open>The evidence of a fixed profile is always null here.\<close>

record managerCapacityEvidence =
  mc_Fixed :: "capacityDeficitCore option"
  mc_Targets :: "targetCapacityDeficitEvidence list"

record targetCapacityCondition =
  tc_listenerStopped :: bool
  tc_sessionMissing :: bool
  tc_restartPending :: bool
  tc_desiredStatus :: string

definition zeroCondition :: targetCapacityCondition where
  "zeroCondition = \<lparr>tc_listenerStopped = False, tc_sessionMissing = False, tc_restartPending = False,
     tc_desiredStatus = []\<rparr>"

record managerSubsystemHealth =
  mh_Docker :: subsystemHealthSummary
  mh_GitHub :: subsystemHealthSummary

section \<open>Projection\<close>

definition serializedObservationTime :: "int \<Rightarrow> int" where
  "serializedObservationTime value = truncate_second value"

definition statisticsFreshness :: "int \<Rightarrow> int \<Rightarrow> freshness" where
  "statisticsFreshness observedAt now =
     (if observedAt = zeroTime then freshnessUnavailable
      else if serializedObservationTime now - serializedObservationTime observedAt > statisticsStaleAfter
      then freshnessStale
      else freshnessCurrent)"

definition slotKeyHeldByRunner :: "scalerSnapshot \<Rightarrow> string \<Rightarrow> bool" where
  "slotKeyHeldByRunner snap slotKey \<longleftrightarrow> slotKey \<in> set (map rr_key (sn_runners snap))"

definition deficitReason ::
  "capacityDeficitCore \<Rightarrow> scalerSnapshot \<Rightarrow> targetCapacityCondition \<Rightarrow> managerSubsystemHealth
    \<Rightarrow> deficit_reason \<times> string option" where
  "deficitReason core snap condition health =
     (if cd_Freshness core = freshnessUnavailable
      then (deficitUnknown, sanitizedEvidence
        ''no scale-set statistics have been observed for this target yet'')
      else if cd_LocalDeficit core = 0 then (deficitNone, None)
      else if tc_desiredStatus condition \<in> {''invalid'', ''stale'', ''conflict''}
      then (deficitInvalidDesiredState, sanitizedEvidence
        (''desired capacity was rejected as '' @ tc_desiredStatus condition))
      else if sn_retiring snap
      then (deficitWorkerDraining, sanitizedEvidence
        ''target is retiring and its workers are draining'')
      else if cd_CleanupPendingWorkers core > 0
      then (deficitCleanupPending, sanitizedEvidence
        ''replacement capacity waits for exact registration cleanup'')
      else if tc_sessionMissing condition
      then (deficitSessionUnavailable, sanitizedEvidence
        ''scale-set session is unavailable for this target'')
      else if tc_listenerStopped condition
      then (deficitListenerUnavailable, sanitizedEvidence
        ''scale-set listener is stopped for this target'')
      else if tc_restartPending condition
      then (deficitRetryBackoff, sanitizedEvidence ''listener restart is waiting on retry backoff'')
      else case cb_reason (sn_blocking snap) of
          Some reason \<Rightarrow> (reason, sanitizedEvidence (cb_evidence (sn_blocking snap)))
        | None \<Rightarrow>
            if sh_State (mh_Docker health) = subsystemUnavailable
            then (deficitDockerUnavailable, sanitizedEvidence
              ''recent Docker operations from this manager failed repeatedly'')
            else if sh_State (mh_Docker health) = subsystemDegraded
            then (deficitDockerFailed, sanitizedEvidence
              ''a recent Docker operation from this manager failed'')
            else if sh_State (mh_GitHub health) = subsystemUnavailable
              \<or> sh_State (mh_GitHub health) = subsystemDegraded
            then (deficitJITFailed, sanitizedEvidence
              ''a recent scale-set operation from this manager failed'')
            else if cd_StartingWorkers core > 0
            then (deficitLaunchPending, sanitizedEvidence ''admitted workers are still starting'')
            else (deficitUnknown, None))"

definition count_state :: "runnerLifecycleState \<Rightarrow> scalerSnapshot \<Rightarrow> int" where
  "count_state state snap = int (length (filter (\<lambda>r. rr_state r = state) (sn_runners snap)))"

definition targetDeficitCore ::
  "scalerSnapshot \<Rightarrow> targetCapacityCondition \<Rightarrow> managerSubsystemHealth \<Rightarrow> int \<Rightarrow> capacityDeficitCore"
where
  "targetDeficitCore snap condition health now =
     (let unheld = filter (\<lambda>p. \<not> slotKeyHeldByRunner snap (rc_SlotKey p)) (sn_pendingCleanups snap);
          cleanupPending = count_state runnerCleanupPending snap + int (length unheld);
          targetSlots = max (sn_targetSlots snap) 0;
          active = max (sn_activeRunners snap) 0;
          statisticsAt = st_observedAt (sn_statistics snap);
          observedAt = (if statisticsAt \<noteq> zeroTime \<and> statisticsAt < now then statisticsAt else now);
          core = \<lparr>cd_ObservedAt = format_RFC3339 observedAt,
            cd_Freshness = statisticsFreshness statisticsAt now, cd_TargetSlots = targetSlots,
            cd_ActiveWorkers = active, cd_StartingWorkers = count_state runnerStarting snap,
            cd_DrainingWorkers = count_state runnerDraining snap,
            cd_CleanupPendingWorkers = cleanupPending, cd_EligibleWorkers = None,
            cd_LocalDeficit = max (targetSlots - active) 0, cd_EligibilityDeficit = None,
            cd_Reason = deficitNone, cd_Evidence = None\<rparr>;
          measured = (if cd_Freshness core = freshnessUnavailable then core
            else let eligible = max (st_registeredRunners (sn_statistics snap)) 0
                 in core\<lparr>cd_EligibleWorkers := Some eligible,
                   cd_EligibilityDeficit := Some (max (targetSlots - eligible) 0)\<rparr>);
          (reason, evidence) = deficitReason measured snap condition health
      in measured\<lparr>cd_Reason := reason, cd_Evidence := evidence\<rparr>)"

definition buildCapacityEvidence ::
  "scalerSnapshot list \<Rightarrow> (string, targetCapacityCondition) gomap \<Rightarrow> managerSubsystemHealth \<Rightarrow> int
    \<Rightarrow> managerCapacityEvidence" where
  "buildCapacityEvidence snapshots conditions health now =
     \<lparr>mc_Fixed = None,
      mc_Targets = map (\<lambda>snap.
        \<lparr>te_Key = boundedIdentity (ts_key (sn_target snap)),
         te_Repository = (if ts_repository (sn_target snap) = [] then None
           else Some (ts_repository (sn_target snap))),
         te_core = targetDeficitCore snap
           (case map_of conditions (ts_key (sn_target snap)) of None \<Rightarrow> zeroCondition | Some c \<Rightarrow> c)
           health now\<rparr>) snapshots\<rparr>"

text \<open>What the manager knows of a controller here: whether it is stopped, and whether it is closed.\<close>

definition targetCapacityConditions ::
  "string \<Rightarrow> string list \<Rightarrow> (string, bool \<times> bool) gomap \<Rightarrow> (string, bool \<times> bool) gomap \<Rightarrow> string list
    \<Rightarrow> (string, targetCapacityCondition) gomap" where
  "targetCapacityConditions desiredStatus restarts retiring controllers pending =
     (let known = fold (\<lambda>(key, c) m. mput m key c) (retiring @ controllers) [];
          conditions = fold (\<lambda>(key, stopped, closed) m. mput m key
            \<lparr>tc_listenerStopped = stopped, tc_sessionMissing = closed,
             tc_restartPending = (key \<in> set restarts), tc_desiredStatus = desiredStatus\<rparr>) known []
      in fold (\<lambda>key m. mput m key
           \<lparr>tc_listenerStopped = False, tc_sessionMissing = True, tc_restartPending = False,
            tc_desiredStatus = desiredStatus\<rparr>) pending conditions)"

section \<open>Correctness\<close>

lemma count_state_snapshot: "count_state state (snapshot s) = count_runners (\<lambda>r. rr_state r = state) s"
  by (simp add: count_state_def count_runners_def snapshot_def filter_sort)

text \<open>
  The counts of the evidence are those of the scaler, and every worker that is a slot of capacity
  is counted as active: the deficit is what is missing to the target.
\<close>

theorem evidence_counts_the_scaler:
  assumes "core = targetDeficitCore (snapshot s) condition health now" and "0 \<le> sc_targetSlots s"
  shows "cd_LocalDeficit core = max (sc_targetSlots s - capacityCountLocked s) 0"
    and "cd_ActiveWorkers core = capacityCountLocked s"
    and "cd_StartingWorkers core = count_runners (\<lambda>r. rr_state r = runnerStarting) s"
    and "cd_DrainingWorkers core = count_runners (\<lambda>r. rr_state r = runnerDraining) s"
    and "count_runners (\<lambda>r. rr_state r = runnerCleanupPending) s \<le> cd_CleanupPendingWorkers core"
  using assms(2)
  by (simp_all add: assms(1) targetDeficitCore_def Let_def count_state_snapshot case_prod_beta
      del: fun_upd_apply) (simp_all add: snapshot_def capacityCountLocked_def)

text \<open>
  A target is short of nothing exactly when there are statistics and no worker is missing, and
  then no evidence is given; a shortage of workers always has another reason.
\<close>

lemma deficitReason_None:
  assumes "cb_reason (sn_blocking snap) \<noteq> Some deficitNone"
  shows "fst (deficitReason core snap condition health) = deficitNone \<longleftrightarrow>
      cd_Freshness core \<noteq> freshnessUnavailable \<and> cd_LocalDeficit core = 0"
    and "fst (deficitReason core snap condition health) = deficitNone
      \<Longrightarrow> snd (deficitReason core snap condition health) = None"
proof -
  have other: "fst (deficitReason core snap condition health) \<noteq> deficitNone"
    if "cd_Freshness core = freshnessUnavailable \<or> cd_LocalDeficit core \<noteq> 0"
    using that assms unfolding deficitReason_def
    by (cases "cd_Freshness core = freshnessUnavailable"; cases "cb_reason (sn_blocking snap)")
      simp_all
  have none: "deficitReason core snap condition health = (deficitNone, None)"
    if "cd_Freshness core \<noteq> freshnessUnavailable" "cd_LocalDeficit core = 0"
    using that by (simp add: deficitReason_def)
  show "fst (deficitReason core snap condition health) = deficitNone \<longleftrightarrow>
      cd_Freshness core \<noteq> freshnessUnavailable \<and> cd_LocalDeficit core = 0"
    using other none by fastforce
  show "fst (deficitReason core snap condition health) = deficitNone
      \<Longrightarrow> snd (deficitReason core snap condition health) = None"
    using other none by fastforce
qed

theorem deficit_has_a_reason:
  assumes "core = targetDeficitCore snap condition health now"
    and "cb_reason (sn_blocking snap) \<noteq> Some deficitNone"
  shows "cd_Reason core = deficitNone \<longleftrightarrow>
      st_observedAt (sn_statistics snap) \<noteq> 0 \<and> sn_targetSlots snap \<le> max (sn_activeRunners snap) 0"
    and "cd_Reason core = deficitNone \<Longrightarrow> cd_Evidence core = None \<and> cd_LocalDeficit core = 0"
proof -
  obtain measured where core: "core = measured\<lparr>
        cd_Reason := fst (deficitReason measured snap condition health),
        cd_Evidence := snd (deficitReason measured snap condition health)\<rparr>"
    and fresh: "cd_Freshness measured = statisticsFreshness (st_observedAt (sn_statistics snap)) now"
    and missing: "cd_LocalDeficit measured = max (max (sn_targetSlots snap) 0 - max (sn_activeRunners snap) 0) 0"
    by (rule that [OF assms(1) [unfolded targetDeficitCore_def Let_def case_prod_beta]]) simp_all
  have reason: "cd_Reason core = fst (deficitReason measured snap condition health)"
    "cd_Evidence core = snd (deficitReason measured snap condition health)"
    "cd_LocalDeficit core = cd_LocalDeficit measured" by (simp_all add: core)
  note none = deficitReason_None [OF assms(2), of measured condition health]
  show "cd_Reason core = deficitNone \<longleftrightarrow>
      st_observedAt (sn_statistics snap) \<noteq> 0 \<and> sn_targetSlots snap \<le> max (sn_activeRunners snap) 0"
    unfolding reason none(1) fresh missing by (auto simp: statisticsFreshness_def)
  show "cd_Reason core = deficitNone \<Longrightarrow> cd_Evidence core = None \<and> cd_LocalDeficit core = 0"
    unfolding reason using none by blast
qed

text \<open>The configured maximum is never evidence: it does not enter the projection.\<close>

lemma deficitReason_target:
  "deficitReason core (snap\<lparr>sn_target := target\<rparr>) condition health = deficitReason core snap condition health"
  by (cases snap) (simp only: deficitReason_def scalerSnapshot.select_convs scalerSnapshot.update_convs)

theorem maximum_is_no_deficit:
  "targetDeficitCore (snap\<lparr>sn_target := target\<rparr>) condition health now
    = targetDeficitCore snap condition health now"
  unfolding targetDeficitCore_def deficitReason_target count_state_def slotKeyHeldByRunner_def
  by (cases snap) (simp only: scalerSnapshot.select_convs scalerSnapshot.update_convs)

text \<open>
  A reader of the published document comes to the same freshness: with statistics observed, the
  evidence is stale exactly when the published time lies more than two minutes before the
  published current time.
\<close>

theorem freshness_can_be_recomputed:
  assumes "core = targetDeficitCore snap condition health now"
    and "st_observedAt (sn_statistics snap) \<noteq> 0" and "parse_RFC3339 (cd_ObservedAt core) = Some t"
  shows "cd_Freshness core = freshnessStale \<longleftrightarrow> truncate_second now - t > statisticsStaleAfter"
    and "cd_Freshness core \<noteq> freshnessUnavailable"
proof -
  let ?at = "st_observedAt (sn_statistics snap)"
  have f: "cd_Freshness core = statisticsFreshness ?at now"
    and o: "cd_ObservedAt core = format_RFC3339 (if ?at < now then ?at else now)"
    using assms(2) by (simp_all add: assms(1) targetDeficitCore_def Let_def case_prod_beta)
  have t: "t = truncate_second (if ?at < now then ?at else now)"
    using assms(3) by (simp add: o parse_format)
  have "now \<le> ?at \<Longrightarrow> truncate_second now \<le> truncate_second ?at" by (rule truncate_second_mono)
  then show "cd_Freshness core = freshnessStale \<longleftrightarrow> truncate_second now - t > statisticsStaleAfter"
    using assms(2) by (auto simp: f t statisticsFreshness_def serializedObservationTime_def
      statisticsStaleAfter_def durations)
  show "cd_Freshness core \<noteq> freshnessUnavailable"
    using assms(2) by (simp add: f statisticsFreshness_def)
qed

end
