(* ===== verification/Spec2Isabelle.thy ===== *)
theory Spec2Isabelle
  imports Scaler_Passes Journal Profile_Admission Desired_Transition Orphan_Recovery Capacity_Evidence
begin

text \<open>
  Verification of pitcrew, which runs self-hosted GitHub Actions runners in containers.

  \<^bold>\<open>The program.\<close> Two Go programs are modelled. The admission service
  (\<^verbatim>\<open>src/manager/admission\<close>) owns one host-wide ledger of leases: a manager must hold a lease of
  its profile's unit cost before it starts a worker, and the ledger survives crashes in one
  document on disk. The autoscaler (\<^verbatim>\<open>src/manager/autoscaler\<close>) is the manager of one profile: it
  reads a desired-capacity document, keeps one scaler per target, launches and removes worker
  containers on GitHub's demand, and asks the admission service for each of them through the
  client of the admission package. What a manager must not forget is written to small state
  files before it acts.

  \<^bold>\<open>Conventions.\<close> A Go struct is a record, an enumeration a datatype, a string a byte list, a map
  an association list whose order is the iteration order the code might see (\<^verbatim>\<open>Prelude\<close>). Go's
  \<^verbatim>\<open>int\<close> is an integer, with the wrap-around to 64 bits written out where the code can reach it
  (policies and budgets); instants are nanoseconds from the zero time and a timestamp in a
  document is what parsing it yields (\<^verbatim>\<open>Go_Time\<close>). Errors are values: the list of sentinels
  \<^verbatim>\<open>errors.Is\<close> finds (\<^verbatim>\<open>Errors\<close>, \<^verbatim>\<open>Manager_Errors\<close>). A write of a document is saved, fails before
  the rename, or fails after it (\<^verbatim>\<open>Atomic_File\<close>, \<^verbatim>\<open>State_Files\<close> derive these three outcomes from
  the individual file-system calls); which of them happens is an argument of every operation
  that writes, so that each theorem holds for all of them. A mutex makes an operation atomic:
  concurrency is the interleaving of whole operations. Where the code reads the clock before the
  mutex or writes after it (the diagnostics recorder), the model takes the operations one after
  another, and the parallel goroutines of a shutdown in some order. JSON codecs, \<^verbatim>\<open>net/url\<close>, Unicode tables
  beyond what the code names, GitHub, Docker and the clock are parameters.

  \<^bold>\<open>The admission service.\<close>
  \<^item> \<^verbatim>\<open>Identity\<close>, \<^verbatim>\<open>Lease\<close>, \<^verbatim>\<open>Policy\<close>, \<^verbatim>\<open>Protocol\<close>: \<^verbatim>\<open>identity.go\<close>, \<^verbatim>\<open>lease.go\<close>, \<^verbatim>\<open>policy.go\<close>,
    \<^verbatim>\<open>protocol.go\<close>; validators, map keys, version negotiation and error codes.
  \<^item> \<^verbatim>\<open>Atomic_File\<close>, \<^verbatim>\<open>Durable\<close>: \<^verbatim>\<open>state.go\<close>; the atomic replacement call by call, the ledger, its
    validation, stores, schema upgrade and compaction.
  \<^item> \<^verbatim>\<open>Search\<close>, \<^verbatim>\<open>Utf8\<close>, \<^verbatim>\<open>Fair_Share\<close>, \<^verbatim>\<open>Ledger\<close>, \<^verbatim>\<open>Budget\<close>, \<^verbatim>\<open>Coordinator\<close>, \<^verbatim>\<open>Status\<close>:
    \<^verbatim>\<open>coordinator.go\<close>; one definition per method (\<^const>\<open>Acquire\<close>, \<^const>\<open>Renew\<close>, \<^const>\<open>Activate\<close>,
    \<^const>\<open>Adopt\<close>, \<^const>\<open>Release\<close>, \<^const>\<open>BeginAdoption\<close> and so on) on the record of the coordinator.
  \<^item> \<^verbatim>\<open>Server\<close>, \<^verbatim>\<open>Client\<close>, \<^verbatim>\<open>Wire\<close>: \<^verbatim>\<open>server.go\<close>, \<^verbatim>\<open>client.go\<close>, the exit codes of
    \<^verbatim>\<open>cmd/pitcrew-admission\<close>; a request is dispatched and answered, and a remote call is the local
    one up to the error code.
  \<^item> \<^verbatim>\<open>Ledger_Inv\<close>, \<^verbatim>\<open>Ledger_Steps\<close>, \<^verbatim>\<open>Refinement\<close>, \<^verbatim>\<open>Service\<close>: the ledger invariant, an abstract
    transition system of saved ledgers, the proof that every operation takes only its steps, and
    the service with crashes and restarts. \<^verbatim>\<open>Lifecycle\<close>, \<^verbatim>\<open>Grants\<close>, \<^verbatim>\<open>Operations\<close> give the behaviour of
    each operation on every branch, the budget, the protected headroom, the fair shares, and what
    one step does to an adoption fence and to the numbering of leases.

  \<^bold>\<open>The autoscaler: values and files.\<close>
  \<^item> \<^verbatim>\<open>Go_Strings\<close>, \<^verbatim>\<open>Sha256\<close>, \<^verbatim>\<open>Backoff\<close>: the library functions used, and \<^verbatim>\<open>backoff.go\<close> with the
    delays built on it. \<^verbatim>\<open>Resource_Policy\<close>, \<^verbatim>\<open>Config\<close>: \<^verbatim>\<open>resource_policy.go\<close>, \<^verbatim>\<open>worker_runtime.go\<close>,
    \<^verbatim>\<open>config.go\<close>. \<^verbatim>\<open>Desired_State\<close>, \<^verbatim>\<open>Labels\<close>: \<^verbatim>\<open>desired_state.go\<close>, \<^verbatim>\<open>labels.go\<close>.
  \<^item> \<^verbatim>\<open>State_Files\<close>, \<^verbatim>\<open>Retry_Queues\<close>, \<^verbatim>\<open>Launch_Intent\<close>: \<^verbatim>\<open>state_files.go\<close>, \<^verbatim>\<open>exit_evidence.go\<close>, the
    queues of \<^verbatim>\<open>registration_cleanup.go\<close>, \<^verbatim>\<open>host_lease_cleanup.go\<close>, \<^verbatim>\<open>registration_fence.go\<close>, and
    \<^verbatim>\<open>launch_intent.go\<close>; what is written is what a restart loads, and a release once decided stays queued over any
    run of attempts, failing writes and restarts until the service confirms it.
  \<^item> \<^verbatim>\<open>Diagnostics\<close>, \<^verbatim>\<open>Journal\<close>, \<^verbatim>\<open>Job_Context\<close>: \<^verbatim>\<open>diagnostics.go\<close>, \<^verbatim>\<open>job_context.go\<close>; the journal is
    bounded, ordered and survives a restart, and its projection fits the size budget.

  \<^bold>\<open>The autoscaler: control.\<close>
  \<^item> \<^verbatim>\<open>Retirement\<close>, \<^verbatim>\<open>Desired_Transition\<close>: \<^verbatim>\<open>retirement.go\<close> and the handling of desired state in
    \<^verbatim>\<open>manager.go\<close>; the intent to retire a target is durable before the state that needs it, and over
    any run of the manager's actions a record ends only when the scale set is gone or the target
    is desired again.
  \<^item> \<^verbatim>\<open>Profile_Admission\<close>: \<^verbatim>\<open>admission.go\<close>; the ceiling of a profile over any run of its targets,
    with the workers that came in without a reservation counted apart, and a case in which the
    demand of the other targets is not protected.
  \<^item> \<^verbatim>\<open>Host_Admission\<close>, \<^verbatim>\<open>Orphan_Recovery\<close>: \<^verbatim>\<open>host_admission.go\<close>, \<^verbatim>\<open>host_admission_recovery_retry.go\<close>
    and the recovery of orphaned leases in \<^verbatim>\<open>manager.go\<close>; a lease without a worker is given back only
    when its registration is proven absent.
  \<^item> \<^verbatim>\<open>Control_Plane_Gate\<close>, \<^verbatim>\<open>Registration_Access\<close>: \<^verbatim>\<open>control_plane_gate.go\<close>,
    \<^verbatim>\<open>registration_access_retry.go\<close>, the credential check of \<^verbatim>\<open>manager.go\<close> and \<^verbatim>\<open>shutdown.go\<close>; calls of
    GitHub are paced across restarts.
  \<^item> \<^verbatim>\<open>Capacity_Evidence\<close>: \<^verbatim>\<open>capacity_evidence.go\<close>; the reason published for missing workers.

  \<^bold>\<open>The autoscaler: the scaler.\<close> \<^verbatim>\<open>scaler.go\<close> in the state monad. Every call of a service is logged
  with the durable files of that moment, and the answers are functions of the log (\<^typ>\<open>world\<close>), so
  a theorem about all worlds covers every order of failures.
  \<^item> \<^verbatim>\<open>Scaler_State\<close>, \<^verbatim>\<open>Scaler_Queues\<close>, \<^verbatim>\<open>Scaler_Workers\<close>, \<^verbatim>\<open>Scaler_Capacity\<close>, \<^verbatim>\<open>Scaler\<close>: the state, the
    durable work, the life of a worker, scaling down, and the operations of the listener, of exits,
    retirement and shutdown. A run is a list of \<^typ>\<open>scaler_event\<close>.
  \<^item> \<^verbatim>\<open>Scaler_Frame\<close>, \<^verbatim>\<open>Scaler_Invariants\<close>, \<^verbatim>\<open>Scaler_Launch\<close>: what an invariant has to promise so that
    every operation keeps it, as a hierarchy of locales in which the operations are carried
    through once; \<^verbatim>\<open>Scaler_Safety\<close>, \<^verbatim>\<open>Scaler_Leases\<close> interpret them for busy workers, the launch
    discipline (which container is started under which lease), the table of runners and the leases. \<^verbatim>\<open>Scaler_Passes\<close> treats single passes;
    \<^verbatim>\<open>Scaler_Example\<close> is the concrete scaler of the examples.

  \<^bold>\<open>Termination and bounds.\<close> Every definition is total and none uses fuel. A loop is structural
  recursion over the list it traverses, or over the iterations a counting loop has left
  (\<^const>\<open>backoff_loop\<close>, which equals its closed form), or terminates by a measure: the binary
  search by the interval, decoding by the bytes left, the two loops of the journal by the number of
  events, and the scale-down loop, which has no bound in the source, by the capacity, since every
  round that goes on takes one worker out of it (\<open>round_lowers\<close>).

  \<^bold>\<open>What this theory adds.\<close> The properties that span the admission service: what it writes it can
  read, an activation is durable, the budget is an invariant of every run, no lease ID is used
  twice, an adoption fence waits for each of its leases across restarts, and a restart can leave
  the rotation where the guaranteed shares exceed what is available and every profile is refused.

  \<^bold>\<open>Not modelled.\<close>
  \<^item> \<^verbatim>\<open>controller.go\<close> and the goroutines of \<^verbatim>\<open>monitorRunner\<close>: loops around the scale-set client library
    and around container logs; the scaler operations they call are modelled.
  \<^item> \<^verbatim>\<open>docker.go\<close>, \<^verbatim>\<open>operations.go\<close>, \<^verbatim>\<open>scaleset_api.go\<close>, \<^verbatim>\<open>github_*.go\<close>: processes, deadlines and
    HTTP; their answers are parameters. Of the GitHub client the evidence texts are modelled.
  \<^item> \<^verbatim>\<open>telemetry.go\<close>, \<^verbatim>\<open>instrumentation.go\<close>, \<^verbatim>\<open>hardware.go\<close>, \<^verbatim>\<open>host_pressure.go\<close>: measurement and
    export. \<^verbatim>\<open>observed.go\<close>: the assembly of the published document, beyond its host-admission view and
    capacity evidence. \<^verbatim>\<open>main.go\<close>, \<^verbatim>\<open>bootstrap.go\<close>: flags, signals and wiring.
  \<^item> The socket, deadlines and handler pool of the server, JSON, error texts and logging; the path
    table and the support-evidence copy of \<^verbatim>\<open>state_files.go\<close>; the typed wrappers of the gate.
  \<^item> The shell manager, the PowerShell setup, plugins, profiles and images: programs over text
    streams and processes, and configuration.
\<close>

section \<open>The admission service over time\<close>

lemma run_base_ok:
  assumes "run inputs installed = Running c" shows "base_ok c"
proof -
  have "service_ok installed" by (simp add: installed_def stored_def ledger_ok_new)
  from ledger_run.run_keeps [OF _ this, of inputs] assms show ?thesis
    by (simp add: run_def base_ok_def stored_ok)
qed

interpretation sequence_run: input_system react "\<lambda>i. True"
  "\<lambda>s. service_ok s \<and> service_holds (\<lambda>d. q \<le> ds_DecisionSequence d) s" for q
proof unfold_locales
  fix i s
  let ?P = "\<lambda>d. q \<le> ds_DecisionSequence d"
  assume s: "service_ok s \<and> service_holds ?P s"
  have "service_holds ?P (react i s)"
    using s
    by (intro react_holds [OF _ _ records_in_UNIV]) (simp, simp, fastforce dest!: step_mono)
  with s ledger_run.react_keeps show "service_ok (react i s) \<and> service_holds ?P (react i s)" by simp
qed

lemma sequence_reached:
  assumes "service_ok s" and "service_holds (\<lambda>d. q \<le> ds_DecisionSequence d) s"
  shows "service_holds (\<lambda>d. q \<le> ds_DecisionSequence d) (run inputs s)"
  unfolding run_def using sequence_run.run_keeps [of inputs s q] assms by simp

text \<open>Concrete runs for the witnesses: a start, a policy and one granted lease.\<close>

definition demo_request :: "Command \<Rightarrow> string \<Rightarrow> string \<Rightarrow> Request" where
  "demo_request command p k = \<lparr>rq_ProtocolVersions = ClientSupportedVersions, rq_Command = command,
     rq_ProfileID = p, rq_SlotKey = k, rq_RegistrationName = [], rq_PendingDemand = 1,
     rq_Evidence = [], rq_Policy = None\<rparr>"

definition serve :: "int \<Rightarrow> Request \<Rightarrow> input" where
  "serve now rq = Serve (demo_env now) [] (Decoded rq)"

definition demo_inputs :: "input list" where
  "demo_inputs = [Start (demo_env 0) [] 10,
     serve 1 ((demo_request CommandApplyPolicy [] [])\<lparr>rq_Policy := Some demo_policy\<rparr>),
     serve 2 (demo_request CommandAcquire ''b'' ''s1'')]"

text \<open>
  C1: Whatever the service writes it can read back. After any sequence of connections, failing
  saves, crashes and restarts from a fresh installation, the document on disk loads without a
  corruption error, and a running coordinator's ledger passes validation.
\<close>

theorem service_never_corrupt:
  "case run inputs installed of
     Down st \<Rightarrow> (\<exists>found. fileStore_Load st = Inr found)
   | Running c \<Rightarrow> durableState_validate (co_state c) = None
       \<and> (\<exists>found. fileStore_Load (co_store c) = Inr found)"
proof -
  have "service_ok installed" by (simp add: installed_def stored_def ledger_ok_new)
  then have ok: "service_ok (run inputs installed)"
    unfolding run_def by (intro ledger_run.run_keeps) auto
  have load: "\<exists>found. fileStore_Load st = Inr found" if "store_ok st" for st
    using load_own_ledger [OF that] that by (auto simp: store_ok_def split: disk.splits)
  show ?thesis
    using ok load by (cases "run inputs installed")
      (auto simp: stored_ok ledger_ok_def intro: ledger_ok_validates)
qed

text \<open>
  C2: An activation is durable. Once Activate has reported success on a reachable coordinator
  whose memory and disk agree, its last save having succeeded, the lease stays active, with the same identity and units, in memory and on
  disk, through any requests, failed saves, crashes and restarts, until a Release or Reconcile
  names exactly its profile and slot.
\<close>

theorem activation_is_durable:
  assumes "run before installed = Running c" and "in_sync c"
    and "Activate e c p k = (c', l, None)"
    and "\<forall>i \<in> set inputs. \<not> requests_removal p k i"
  shows "service_holds (\<lambda>d. holds_active d p k l) (run inputs (Running c'))"
proof -
  have ok: "base_ok c" using run_base_ok [OF assms(1)] .
  note act = Activate_holds [OF ok assms(2,3)]
  have "base_ok c'" using evolve_ok [OF Activate_evolve [OF ok, of p k e] ok] assms(3) by simp
  then have "service_ok (Running c')" by (simp add: base_ok_def stored_ok)
  with act active_run.run_keeps [OF assms(4), of "Running c'" l] show ?thesis
    by (simp add: run_def)
qed

theorem activation_is_durable_witness:
  "\<exists>c l. service_holds (\<lambda>d. holds_active d ''b'' ''s1'' l)
     (run [Crash, Start (demo_env 50) [] 10, serve 60 (demo_request CommandStatus [] [])] (Running c))"
proof -
  have "case run demo_inputs installed of
      Running c \<Rightarrow> in_sync c \<and> snd (snd (Activate (demo_env 3) c ''b'' ''s1'')) = None
    | Down st \<Rightarrow> False"
    by code_simp
  then obtain c where c: "run demo_inputs installed = Running c" "in_sync c"
    "snd (snd (Activate (demo_env 3) c ''b'' ''s1'')) = None"
    by (auto split: service.splits)
  then have act: "Activate (demo_env 3) c ''b'' ''s1''
      = (fst (Activate (demo_env 3) c ''b'' ''s1''),
         fst (snd (Activate (demo_env 3) c ''b'' ''s1'')), None)"
    by (simp add: prod_eq_iff)
  have "\<forall>i \<in> set [Crash, Start (demo_env 50) [] 10, serve 60 (demo_request CommandStatus [] [])].
      \<not> requests_removal ''b'' ''s1'' i"
    by code_simp
  from activation_is_durable [OF c(1,2) act this] show ?thesis by blast
qed

text \<open>
  C4: The host budget is an invariant. From a ledger within the budget, no sequence of
  requests, failed saves, crashes and restarts brings the leases over the policy's total,
  unless a new policy is applied or a recovered worker adopted.
\<close>

theorem budget_is_invariant:
  assumes "run before installed = Running c"
    and "within_budget (co_state c)" and "stored within_budget (co_store c)"
    and "\<forall>i \<in> set inputs. \<not> requests_policy_or_adoption i"
  shows "service_holds within_budget (run inputs (Running c))"
proof -
  have ok: "base_ok c" using run_base_ok [OF assms(1)] .
  let ?P = "\<lambda>d. ledger_core d \<and> within_budget d"
  have "service_ok (Running c)" "service_holds ?P (Running c)"
    using ok assms(2,3)
    by (auto simp: base_ok_def stored_ok store_ok_def stored_def ledger_ok_def
        ledger_ok_new [unfolded ledger_ok_def] split: disk.splits)
  with budget_run.run_keeps [OF assms(4), of "Running c"]
  have "service_holds ?P (run inputs (Running c))" by (simp add: run_def)
  then show ?thesis
    by (cases "run inputs (Running c)") (auto simp: stored_def split: disk.splits)
qed

theorem budget_is_invariant_witness:
  "\<exists>c. run demo_inputs installed = Running c \<and>
     service_holds within_budget (run [serve 3 (demo_request CommandAcquire ''b'' ''s2''), Crash] (Running c))"
proof -
  have "case run demo_inputs installed of
      Running c \<Rightarrow> within_budget (co_state c) \<and> stored within_budget (co_store c)
    | Down st \<Rightarrow> False"
    by code_simp
  then obtain c where c: "run demo_inputs installed = Running c" "within_budget (co_state c)"
    "stored within_budget (co_store c)"
    by (auto split: service.splits)
  have "\<forall>i \<in> set [serve 3 (demo_request CommandAcquire ''b'' ''s2''), Crash].
      \<not> requests_policy_or_adoption i"
    by code_simp
  from budget_is_invariant [OF c this] c(1) show ?thesis by blast
qed

text \<open>
  Decision sequence, epoch and policy generation never go back. Whatever both memory and
  disk have reached at some point of a run is a lower bound for memory and disk ever after,
  across failed saves, crashes and restarts.
\<close>

theorem counters_never_go_back:
  assumes "run before installed = s"
    and "service_holds (\<lambda>d. q \<le> ds_DecisionSequence d \<and> n \<le> ds_Epoch d
      \<and> g \<le> hp_Generation (ds_Policy d)) s"
  shows "service_holds (\<lambda>d. q \<le> ds_DecisionSequence d \<and> n \<le> ds_Epoch d
      \<and> g \<le> hp_Generation (ds_Policy d)) (run inputs s)"
proof -
  have "service_ok installed" by (simp add: installed_def stored_def ledger_ok_new)
  then have "service_ok s"
    unfolding assms(1) [symmetric] run_def by (intro ledger_run.run_keeps) auto
  with assms(2) monotone_run.run_keeps [of inputs s q n g] show ?thesis by (simp add: run_def)
qed

theorem counters_never_go_back_witness:
  "service_holds (\<lambda>d. 1 \<le> ds_DecisionSequence d \<and> 1 \<le> ds_Epoch d
      \<and> 1 \<le> hp_Generation (ds_Policy d)) (run [Crash] (run demo_inputs installed))"
proof -
  have "service_holds (\<lambda>d. 1 \<le> ds_DecisionSequence d \<and> 1 \<le> ds_Epoch d
      \<and> 1 \<le> hp_Generation (ds_Policy d)) (run demo_inputs installed)"
    by code_simp
  from counters_never_go_back [OF refl this, of "[Crash]"] show ?thesis .
qed

text \<open>
  C28: No lease ID is ever used twice. Take any reachable coordinator, a lease it grants or newly
  enters for an adopted worker, any further requests, failed saves, crashes and restarts, and
  another lease granted or newly entered then, for the same slot or any other: the two leases
  have different IDs.
\<close>

theorem lease_ids_never_reused:
  assumes "run before installed = Running c" and "grants e c p k c1 l"
    and "run inputs (Running c1) = Running c2" and "grants e' c2 p' k' c3 l'"
  shows "lease_LeaseID l \<noteq> lease_LeaseID l'"
proof
  assume same: "lease_LeaseID l = lease_LeaseID l'"
  have ok: "base_ok c" using run_base_ok [OF assms(1)] .
  obtain g where g: "lease_LeaseID l = leaseID_for (leaseKey_String p k) g"
    "CHR ''#'' \<notin> set (leaseKey_String p k)" "ds_DecisionSequence (co_state c) < g" "base_ok c1"
    "service_holds (\<lambda>d. g \<le> ds_DecisionSequence d) (Running c1)"
    using grant_sequence [OF ok assms(2)] .
  have "service_ok (Running c1)" using g(4) by (simp add: base_ok_def stored_ok)
  then have c2: "service_ok (Running c2)" "g \<le> ds_DecisionSequence (co_state c2)"
    using ledger_run.run_keeps [of inputs "Running c1"] sequence_reached [OF _ g(5), of inputs] assms(3)
    by (simp_all add: run_def)
  then have "base_ok c2" by (simp add: base_ok_def stored_ok)
  then obtain h where h: "lease_LeaseID l' = leaseID_for (leaseKey_String p' k') h"
    "CHR ''#'' \<notin> set (leaseKey_String p' k')" "ds_DecisionSequence (co_state c2) < h"
    using grant_sequence [OF _ assms(4)] by metis
  have "0 \<le> ds_DecisionSequence (co_state c)" using base_core [OF ok] by (simp add: ledger_core_def)
  with leaseID_for_inj [OF g(2) h(2), of g h] same g h c2(2) show False by simp
qed

text \<open>The same slot is granted, released and granted again.\<close>

theorem lease_ids_never_reused_witness:
  "\<exists>c c1 l c2 c3 l'. run (take 2 demo_inputs) installed = Running c
     \<and> Acquire (demo_env 2) c ''b'' ''s1'' 1 = (c1, l, None)
     \<and> run [serve 3 (demo_request CommandRelease ''b'' ''s1'')] (Running c1) = Running c2
     \<and> Acquire (demo_env 4) c2 ''b'' ''s1'' 1 = (c3, l', None) \<and> lease_LeaseID l \<noteq> lease_LeaseID l'"
proof -
  let ?i = "[serve 3 (demo_request CommandRelease ''b'' ''s1'')]"
  have "case run (take 2 demo_inputs) installed of
      Down st \<Rightarrow> False
    | Running c \<Rightarrow> (case Acquire (demo_env 2) c ''b'' ''s1'' 1 of (c1, l, r) \<Rightarrow> r = None
        \<and> (case run ?i (Running c1) of
             Down st \<Rightarrow> False
           | Running c2 \<Rightarrow> snd (snd (Acquire (demo_env 4) c2 ''b'' ''s1'' 1)) = None))"
    by code_simp
  then obtain c c1 l c2 c3 l' where steps: "run (take 2 demo_inputs) installed = Running c"
    "Acquire (demo_env 2) c ''b'' ''s1'' 1 = (c1, l, None)" "run ?i (Running c1) = Running c2"
    "Acquire (demo_env 4) c2 ''b'' ''s1'' 1 = (c3, l', None)"
    by (auto simp: prod_eq_iff split: service.splits prod.splits)
  from lease_ids_never_reused [OF steps(1) _ steps(3)] steps show ?thesis
    unfolding grants_def by blast
qed

text \<open>
  C26: A fence waits for each of its leases until that lease is accounted for. Once the adoption
  fence of a profile waits for a slot, in memory and on disk, any requests, failed saves, crashes
  and restarts leave it up and waiting for that slot, and CompleteAdoption refused, as long as no
  request adopts, releases or reconciles exactly that profile and slot and no policy is applied
  (a policy that drops the profile takes its fence down).
\<close>

theorem fence_waits_for_every_lease:
  assumes "run before installed = Running c" and "service_holds (waits_for p k) (Running c)"
    and "\<forall>i \<in> set inputs. \<not> requests_accounting p k i"
  shows "service_holds (waits_for p k) (run inputs (Running c))
    \<and> (\<forall>c'. run inputs (Running c) = Running c' \<longrightarrow>
        CompleteAdoption c' p = (c', Some (raise ErrAdoptionPending)))"
proof -
  let ?P = "\<lambda>d. ledger_core d \<and> waits_for p k d"
  have ok: "base_ok c" using run_base_ok [OF assms(1)] .
  have "service_ok (Running c)" "service_holds ?P (Running c)"
    using ok assms(2)
    by (auto simp: base_ok_def stored_ok store_ok_def stored_def ledger_ok_def
        ledger_ok_new [unfolded ledger_ok_def] split: disk.splits)
  with fence_run.run_keeps [OF assms(3), of "Running c"]
  have after: "service_ok (run inputs (Running c))" "service_holds ?P (run inputs (Running c))"
    by (simp_all add: run_def)
  then have waits: "service_holds (waits_for p k) (run inputs (Running c))"
    by (cases "run inputs (Running c)") (auto simp: stored_def split: disk.splits)
  have "CompleteAdoption c' p = (c', Some (raise ErrAdoptionPending))"
    if c': "run inputs (Running c) = Running c'" for c'
  proof -
    have ok': "base_ok c'" using after(1) c' by (simp add: base_ok_def stored_ok)
    obtain f where f: "map_of (ds_AdoptionFences (co_state c')) p = Some f" "pending_keys f \<noteq> []"
      using waits c' by (fastforce simp: waits_for_def)
    have "profileIDPattern p"
      using fences_ok_lookup [OF _ f(1)] base_core [OF ok'] by (auto simp: ledger_core_def fence_ok_def)
    with f show ?thesis by (simp add: CompleteAdoption_def validators)
  qed
  with waits show ?thesis by blast
qed

definition fence_inputs :: "input list" where
  "fence_inputs = demo_inputs @ [serve 3 (demo_request CommandActivate ''b'' ''s1''),
     serve 4 (demo_request CommandBeginAdoption ''b'' [])]"

theorem fence_waits_for_every_lease_witness:
  "\<exists>c. run fence_inputs installed = Running c
     \<and> service_holds (waits_for ''b'' ''s1'') (run [serve 5 (demo_request CommandCompleteAdoption ''b'' []),
         serve 6 (demo_request CommandRelease ''b'' ''s2''), Crash, Start (demo_env 50) [] 10] (Running c))"
proof -
  let ?i = "[serve 5 (demo_request CommandCompleteAdoption ''b'' []),
    serve 6 (demo_request CommandRelease ''b'' ''s2''), Crash, Start (demo_env 50) [] 10]"
  let ?up = "\<lambda>d. case map_of (ds_AdoptionFences d) ''b'' of
      None \<Rightarrow> False | Some f \<Rightarrow> ''s1'' \<in> set (pending_keys f)"
  have up: "waits_for ''b'' ''s1'' = ?up" by (auto simp: waits_for_def fun_eq_iff split: option.split)
  have "case run fence_inputs installed of
      Running c \<Rightarrow> service_holds ?up (Running c) | Down st \<Rightarrow> False"
    by code_simp
  then obtain c where c: "run fence_inputs installed = Running c"
    "service_holds (waits_for ''b'' ''s1'') (Running c)"
    unfolding up by (auto split: service.splits simp del: service_holds.simps)
  have "\<forall>i \<in> set ?i. \<not> requests_accounting ''b'' ''s1'' i" by code_simp
  from fence_waits_for_every_lease [OF c this] c(1) show ?thesis by blast
qed

text \<open>
  C34: A restart promises more than there is. A coordinator takes the decision sequence of the
  ledger it opens as its rotation, reduced only by a large fixed modulus. When that sequence is
  at least twice the number of contenders less one and below the modulus, the guaranteed shares
  of two or more contenders add up to more than the available units: by one less than their
  number when it divides the available units, and otherwise by their number less the remainder.
\<close>

theorem restart_overcommits_shares:
  assumes "coordinator_Open e st ttl = (st', Inr c)"
    and "n = int (length contenders)" and "2 \<le> n" and "0 \<le> available"
    and "2 * n - 1 \<le> ds_DecisionSequence (co_state c)"
    and "ds_DecisionSequence (co_state c) < rotationSeedModulus"
  shows "(\<Sum>j\<in>{0..<n}. guaranteedShareLocked c contenders j available)
      = available + (if available mod n = 0 then n - 1 else n - available mod n)
    \<and> available < (\<Sum>j\<in>{0..<n}. guaranteedShareLocked c contenders j available)"
proof -
  have "co_rotation c = ds_DecisionSequence (co_state c) smod rotationSeedModulus"
    using assms(1) by (auto simp: coordinator_Open_def Let_def split: sum.splits option.splits
        prod.splits if_splits)
  also have "\<dots> = ds_DecisionSequence (co_state c)"
    using assms(3,5,6) smod_mod_positive [of "ds_DecisionSequence (co_state c)" rotationSeedModulus]
    by simp
  finally have rotation: "co_rotation c = ds_DecisionSequence (co_state c)" .
  have same: "guaranteedShareLocked (c\<lparr>co_rotation := co_rotation c\<rparr>) (replicate (nat n) []) j available
      = guaranteedShareLocked c contenders j available" for j
    by (simp add: assms(2) guaranteed_share_replicate)
  have "(\<Sum>j\<in>{0..<n}. guaranteedShareLocked c contenders j available)
      = available + (if available mod n = 0 then n - 1 else n - available mod n)"
    using host_share.sum_beyond [of n "co_rotation c" available c] assms(3-5) rotation unfolding same
    by linarith
  moreover have "available mod n < n" using assms(3) by simp
  ultimately show ?thesis using assms(3) by simp
qed

text \<open>
  Such a restart can starve every profile. Three profiles of unit cost 1 share three free units.
  The coordinator that opens a ledger at decision sequence 6 takes 6 as its rotation, which is
  not below the number of contenders, so two of the three guaranteed shares are one too large.
  Every Acquire is refused as fair-share contention although nothing is leased; no refusal moves
  the rotation, so the refusals repeat.
\<close>

definition crowd_policy :: HostPolicy where
  "crowd_policy = demo_policy\<lparr>hp_TotalUnits := 3, hp_Profiles := [demo_profile ''a'' 1 0 True,
     demo_profile ''b'' 1 0 True, demo_profile ''c'' 1 0 True]\<rparr>"

definition crowd_inputs :: "input list" where
  "crowd_inputs = [Start (demo_env 0) [] 10,
     serve 1 ((demo_request CommandApplyPolicy [] [])\<lparr>rq_Policy := Some crowd_policy\<rparr>),
     serve 2 (demo_request CommandAcquire ''a'' ''s''), serve 3 (demo_request CommandRelease ''a'' ''s''),
     serve 4 (demo_request CommandAcquire ''a'' ''s''), serve 5 (demo_request CommandRelease ''a'' ''s''),
     serve 6 (demo_request CommandAcquire ''a'' ''s''), serve 7 (demo_request CommandRelease ''a'' ''s''),
     Crash, Start (demo_env 10) [] 10,
     serve 11 (demo_request CommandSetDemand ''a'' []), serve 12 (demo_request CommandSetDemand ''b'' []),
     serve 13 (demo_request CommandSetDemand ''c'' [])]"

theorem restart_overcommits_shares_witness:
  "\<exists>st st' c. coordinator_Open (demo_env 10) st 10 = (st', Inr c)
     \<and> (\<Sum>j\<in>{0..<3}. guaranteedShareLocked c [''a'', ''b'', ''c''] j 3) = 5"
proof -
  let ?open = "\<lambda>st. coordinator_Open (demo_env 10) st 10"
  have "case run (take 9 crowd_inputs) installed of
      Running c \<Rightarrow> False
    | Down st \<Rightarrow> (case ?open st of
          (st', Inl err) \<Rightarrow> False
        | (st', Inr c) \<Rightarrow> ds_DecisionSequence (co_state c) = 6)"
    by code_simp
  then obtain st st' c where "?open st = (st', Inr c)" "ds_DecisionSequence (co_state c) = 6"
    by (auto split: service.splits prod.splits sum.splits)
  with restart_overcommits_shares [of "demo_env 10" st 10 st' c 3 "[''a'', ''b'', ''c'']" 3]
  have "(\<Sum>j\<in>{0..<3}. guaranteedShareLocked c [''a'', ''b'', ''c''] j 3) = 5"
    by (simp add: rotationSeedModulus_def)
  with \<open>?open st = (st', Inr c)\<close> show ?thesis by blast
qed

theorem restart_starves_every_profile:
  "case run crowd_inputs installed of
     Running c \<Rightarrow>
       ds_Leases (co_state c) = [] \<and> hp_TotalUnits (ds_Policy (co_state c)) = 3
       \<and> list_all (\<lambda>p. case Acquire (demo_env 20) c p ''s'' 1 of (c', l, err) \<Rightarrow>
             err = Some (raise ErrFairShareContention) \<and> co_rotation c' = co_rotation c
             \<and> ds_Leases (co_state c') = [])
           [''a'', ''b'', ''c'']
   | Down st \<Rightarrow> False"
  by code_simp

end
